(* ===== verification/WeekTime.thy ===== *)
theory WeekTime
  imports Main
begin

text \<open>
  Dates, weeks and clock times: \<open>ai-grafik/week-range.util.ts\<close> and the date helpers of
  \<open>shift-swap/optimizer-swap-feasibility.validator.ts\<close>. An instant is \<open>Date.getTime()\<close>, in
  milliseconds. \<open>Date.UTC(y, m, d + k)\<close>, with \<open>y\<close>, \<open>m\<close>, \<open>d\<close> the UTC fields of an instant, is the
  UTC midnight \<open>k\<close> days after the instant's own day; 1970-01-01 was a Thursday, so \<open>getUTCDay\<close>
  (0 for Sunday) is the day number plus 4, modulo 7.

  A clock time is an \<open>HH:mm\<close> string. The parsing functions below agree with \<open>split(':')\<close> and
  \<open>Number\<close> on every string the request classes let through (\<open>is_hhmm\<close>, the pattern \<open>HHMM\<close> of
  \<open>grafik/dto\<close>); on other strings JavaScript would give \<open>NaN\<close>.
\<close>

section \<open>Instants and days\<close>

definition day_ms :: int where
  "day_ms = 86400000"

definition getUTCDay :: "int \<Rightarrow> int" where
  "getUTCDay t = (t div day_ms + 4) mod 7"

definition utc_midnight_plus :: "int \<Rightarrow> int \<Rightarrow> int" where
  "utc_midnight_plus t k = (t div day_ms + k) * day_ms"

text \<open>\<open>toISOString().slice(0, 10)\<close>: the day of an instant, as its UTC midnight.\<close>

definition isoDate :: "int \<Rightarrow> int" where
  "isoDate d = utc_midnight_plus d 0"

definition mondayOf :: "int \<Rightarrow> int" where
  "mondayOf d = (let offset = (getUTCDay d + 6) mod 7 in utc_midnight_plus d (- offset))"

definition addDays :: "int \<Rightarrow> int \<Rightarrow> int" where
  "addDays d n = utc_midnight_plus d n"

definition isoWeekRange :: "int \<Rightarrow> int \<times> int" where
  "isoWeekRange date =
     (let day = getUTCDay date;
          offsetToMonday = (if day = 0 then - 6 else 1 - day);
          weekStart = utc_midnight_plus date offsetToMonday;
          weekEndExcl = weekStart + 7 * 24 * 60 * 60 * 1000
      in (weekStart, weekEndExcl))"

section \<open>Clock times\<close>

definition digit_val :: "char \<Rightarrow> int" where
  "digit_val c = int (of_char c) - 48"

text \<open>The character class \<open>[0-n]\<close>.\<close>

definition digit_upto :: "int \<Rightarrow> char \<Rightarrow> bool" where
  "digit_upto n c \<longleftrightarrow> 0 \<le> digit_val c \<and> digit_val c \<le> n"

definition parse_number :: "string \<Rightarrow> int" where
  "parse_number s = fold (\<lambda>c n. 10 * n + digit_val c) s 0"

text \<open>\<open>/^([01]\d|2[0-3]):[0-5]\d$/\<close>\<close>

fun is_hhmm :: "string \<Rightarrow> bool" where
  "is_hhmm [a, b, c, d, e] \<longleftrightarrow>
     (digit_upto 1 a \<and> digit_upto 9 b \<or> a = CHR ''2'' \<and> digit_upto 3 b) \<and>
     c = CHR '':'' \<and> digit_upto 5 d \<and> digit_upto 9 e"
| "is_hhmm _ \<longleftrightarrow> False"

definition toMinutes :: "string \<Rightarrow> int" where
  "toMinutes clock =
     (let h = takeWhile (\<lambda>c. c \<noteq> CHR '':'') clock;
          m = takeWhile (\<lambda>c. c \<noteq> CHR '':'') (tl (dropWhile (\<lambda>c. c \<noteq> CHR '':'') clock))
      in parse_number h * 60 + parse_number m)"

definition windowMinutes :: "string \<Rightarrow> string \<Rightarrow> int" where
  "windowMinutes start end =
     (let mins = toMinutes end - toMinutes start
      in if mins < 0 then mins + 24 * 60 else mins)"

section \<open>Weeks\<close>

lemma isoDate_idem [simp]: "isoDate (isoDate d) = isoDate d"
  by (simp add: isoDate_def utc_midnight_plus_def day_ms_def)

lemma utc_midnight_plus_day [simp]: "utc_midnight_plus t k div day_ms = t div day_ms + k"
  by (simp add: utc_midnight_plus_def day_ms_def)

lemma addDays_addDays: "addDays (addDays d m) n = addDays d (m + n)"
  by (simp add: addDays_def utc_midnight_plus_def day_ms_def)

text \<open>Both ways the code finds the Monday of a week count back \<open>(day + 3) mod 7\<close> days.\<close>

definition monday_day :: "int \<Rightarrow> int" where
  "monday_day n = n - (n + 3) mod 7"

lemma weekday_shift: "((n + 4) mod 7 + 6) mod 7 = (n + 3) mod (7::int)"
proof -
  have "((n + 4) mod 7 + 6) mod 7 = ((n + 4) + 6) mod 7"
    by (rule mod_add_left_eq)
  also have "\<dots> = (n + 3 + 7) mod 7" by (simp add: add.commute)
  also have "\<dots> = (n + 3) mod 7" by (rule mod_add_self2)
  finally show ?thesis .
qed

lemma small_weekday:
  assumes "0 \<le> w" and "w < (7::int)"
  shows "(w + 6) mod 7 = (if w = 0 then 6 else w - 1)"
proof (cases "w = 0")
  case False
  have "(w + 6) mod 7 = (w - 1 + 7) mod 7" by (simp add: algebra_simps)
  also have "\<dots> = w - 1" using False assms by (simp only: mod_add_self2 mod_pos_pos_trivial)
  finally show ?thesis using False by simp
qed simp

lemma monday_offsets:
  "- (((n + 4) mod 7 + 6) mod 7) = - ((n + 3) mod (7::int))"
  "(if (n + 4) mod 7 = 0 then - 6 else 1 - (n + 4) mod 7) = - ((n + 3) mod (7::int))"
  using small_weekday [of "(n + 4) mod 7"] by (auto simp add: weekday_shift)

lemma monday_day_bounds: "monday_day n \<le> n \<and> n < monday_day n + 7"
  by (simp add: monday_day_def)

lemma monday_day_weekday: "(monday_day n + 4) mod 7 = 1"
  by (simp add: monday_day_def) presburger

lemma monday_day_eqI: "monday_day a \<le> b \<Longrightarrow> b < monday_day a + 7 \<Longrightarrow> monday_day b = monday_day a"
  by (simp add: monday_day_def) presburger

lemma isoWeekRange_days:
  "isoWeekRange d = (monday_day (d div day_ms) * day_ms, (monday_day (d div day_ms) + 7) * day_ms)"
proof -
  have "fst (isoWeekRange d) = monday_day (d div day_ms) * day_ms"
    using monday_offsets(2) [of "d div day_ms"]
    by (simp add: isoWeekRange_def Let_def utc_midnight_plus_def getUTCDay_def monday_day_def
        split del: if_split)
  moreover have "snd (isoWeekRange d) = fst (isoWeekRange d) + 7 * day_ms"
    by (simp add: isoWeekRange_def Let_def day_ms_def)
  ultimately show ?thesis by (simp add: prod_eq_iff algebra_simps)
qed

lemma mondayOf_isoWeekRange: "mondayOf d = fst (isoWeekRange d)"
  using monday_offsets(1) [of "d div day_ms"]
  by (simp add: isoWeekRange_days mondayOf_def Let_def utc_midnight_plus_def getUTCDay_def monday_day_def)

lemma isoWeekRange_snd: "snd (isoWeekRange d) = addDays (fst (isoWeekRange d)) 7"
  by (simp add: isoWeekRange_days addDays_def utc_midnight_plus_def day_ms_def)

lemma isoWeekRange_monday: "getUTCDay (fst (isoWeekRange d)) = 1"
  by (simp add: isoWeekRange_days getUTCDay_def day_ms_def monday_day_weekday)

lemma div_day_iff: "n * day_ms \<le> t \<longleftrightarrow> n \<le> t div day_ms" "t < n * day_ms \<longleftrightarrow> t div day_ms < n"
  unfolding day_ms_def by linarith+

lemma isoWeekRange_contains: "fst (isoWeekRange d) \<le> d \<and> d < snd (isoWeekRange d)"
  using monday_day_bounds [of "d div day_ms"] by (simp add: isoWeekRange_days div_day_iff)

text \<open>Two instants have the same week range exactly when one lies in the other's week.\<close>

lemma isoWeekRange_eq_iff:
  "isoWeekRange b = isoWeekRange a \<longleftrightarrow> fst (isoWeekRange a) \<le> b \<and> b < snd (isoWeekRange a)"
proof
  assume "isoWeekRange b = isoWeekRange a"
  with isoWeekRange_contains [of b] show "fst (isoWeekRange a) \<le> b \<and> b < snd (isoWeekRange a)"
    by simp
next
  assume "fst (isoWeekRange a) \<le> b \<and> b < snd (isoWeekRange a)"
  then have "monday_day (b div day_ms) = monday_day (a div day_ms)"
    by (intro monday_day_eqI) (simp_all add: isoWeekRange_days div_day_iff)
  then show "isoWeekRange b = isoWeekRange a" by (simp add: isoWeekRange_days)
qed

section \<open>Windows\<close>

lemma toMinutes_hhmm:
  assumes "digit_upto 9 a" and "digit_upto 9 b" and "digit_upto 9 d" and "digit_upto 9 e"
  shows "toMinutes [a, b, CHR '':'', d, e] =
    (10 * digit_val a + digit_val b) * 60 + (10 * digit_val d + digit_val e)"
proof -
  have "\<not> digit_upto 9 (CHR '':'')" by (simp add: digit_upto_def digit_val_def)
  with assms have "a \<noteq> CHR '':''" "b \<noteq> CHR '':''" "d \<noteq> CHR '':''" "e \<noteq> CHR '':''" by blast+
  then show ?thesis by (simp add: toMinutes_def parse_number_def)
qed

lemma digit_upto_mono: "digit_upto m c \<Longrightarrow> m \<le> n \<Longrightarrow> digit_upto n c"
  by (simp add: digit_upto_def)

lemma digit_2 [simp]: "digit_val (CHR ''2'') = 2"
  by (simp add: digit_val_def)

lemma toMinutes_bounds: "is_hhmm s \<Longrightarrow> 0 \<le> toMinutes s \<and> toMinutes s < 1440"
proof (induction s rule: is_hhmm.induct)
  case (1 a b c d e)
  then have hd: "digit_upto 1 a \<and> digit_upto 9 b \<or> a = CHR ''2'' \<and> digit_upto 3 b"
    and d: "digit_upto 5 d" and e: "digit_upto 9 e" and c: "c = CHR '':''"
    by simp_all
  from hd have "digit_upto 9 a" "digit_upto 9 b"
    by (auto intro: digit_upto_mono simp: digit_upto_def)
  with d e c have "toMinutes [a, b, c, d, e] =
      (10 * digit_val a + digit_val b) * 60 + (10 * digit_val d + digit_val e)"
    by (simp add: toMinutes_hhmm digit_upto_mono)
  with hd d e show ?case by (auto simp: digit_upto_def)
qed simp_all

lemma windowMinutes_bounds:
  assumes "is_hhmm s" and "is_hhmm e"
  shows "0 \<le> windowMinutes s e \<and> windowMinutes s e < 1440"
  using toMinutes_bounds [OF assms(1)] toMinutes_bounds [OF assms(2)]
  by (simp add: windowMinutes_def Let_def)

lemma windowMinutes_mod:
  assumes "is_hhmm s" and "is_hhmm e"
  shows "windowMinutes s e = (toMinutes e - toMinutes s) mod 1440"
proof (cases "toMinutes e - toMinutes s < 0")
  case True
  have "(toMinutes e - toMinutes s) mod 1440 = (toMinutes e - toMinutes s + 1440) mod 1440" by simp
  also have "\<dots> = toMinutes e - toMinutes s + 1440"
    using True toMinutes_bounds [OF assms(1)] toMinutes_bounds [OF assms(2)]
    by (intro mod_pos_pos_trivial) auto
  finally show ?thesis using True by (simp add: windowMinutes_def Let_def)
next
  case False
  then show ?thesis
    using toMinutes_bounds [OF assms(1)] toMinutes_bounds [OF assms(2)]
    by (simp add: windowMinutes_def Let_def mod_pos_pos_trivial)
qed

text \<open>The window from \<open>s\<close> to \<open>e\<close> and the one back make a whole day, or both are empty.\<close>

lemma windowMinutes_complement:
  assumes "is_hhmm s" and "is_hhmm e"
  shows "windowMinutes s e + windowMinutes e s = (if toMinutes s = toMinutes e then 0 else 1440)"
  using toMinutes_bounds [OF assms(1)] toMinutes_bounds [OF assms(2)]
  by (simp add: windowMinutes_def Let_def)

end
