(* ===== verification/Prelude.thy ===== *)
theory Prelude
  imports Main
begin

text \<open>
  Shared vocabulary of the development.

  A service method of the tenant runtime is an asynchronous TypeScript method that reads and
  writes one database and may throw. It is modelled by the type \<open>('db, 'e, 'a) svc\<close>: a
  function from the database to an outcome (an error on the left, a value on the right) and the
  database left behind. The database is kept on the error side too, because an exception does not
  undo the writes that were made before it, except inside \<open>transaction\<close>, which restores it.

  The second half holds the operations of a table, a list of rows with a key: the reading and
  writing calls of the data layer (\<open>findUnique\<close>, \<open>findMany\<close>, \<open>updateMany\<close>, \<open>create\<close>,
  \<open>delete\<close>), the interface \<open>table\<close> that a table of a database offers, and the interface
  \<open>transition_table\<close> that the three life-cycle tables of the program offer.
\<close>

named_theorems svc_defs \<open>definitions of the service combinators and the table calls\<close>
named_theorems svc_simps \<open>evaluation rules of the service combinators\<close>

type_synonym id = string

section \<open>Services: state and exceptions\<close>

type_synonym ('db, 'e, 'a) svc = "'db \<Rightarrow> ('e + 'a) \<times> 'db"

definition ret :: "'a \<Rightarrow> ('db, 'e, 'a) svc" where
  "ret x = (\<lambda>db. (Inr x, db))"

definition throw :: "'e \<Rightarrow> ('db, 'e, 'a) svc" where
  "throw e = (\<lambda>db. (Inl e, db))"

definition bnd :: "('db, 'e, 'a) svc \<Rightarrow> ('a \<Rightarrow> ('db, 'e, 'b) svc) \<Rightarrow> ('db, 'e, 'b) svc" where
  "bnd m f = (\<lambda>db. case m db of (Inl e, db') \<Rightarrow> (Inl e, db') | (Inr x, db') \<Rightarrow> f x db')"

definition asks :: "('db \<Rightarrow> 'a) \<Rightarrow> ('db, 'e, 'a) svc" where
  "asks f = (\<lambda>db. (Inr (f db), db))"

definition modify :: "('db \<Rightarrow> 'db) \<Rightarrow> ('db, 'e, unit) svc" where
  "modify f = (\<lambda>db. (Inr (), f db))"

definition ensure :: "bool \<Rightarrow> 'e \<Rightarrow> ('db, 'e, unit) svc" where
  "ensure c e = (if c then ret () else throw e)"

text \<open>The value of an optional read, or the error the code throws when it is missing.\<close>

definition require :: "'e \<Rightarrow> 'a option \<Rightarrow> ('db, 'e, 'a) svc" where
  "require e x = (case x of None \<Rightarrow> throw e | Some y \<Rightarrow> ret y)"

text \<open>A pure computation that may throw, run as a service.\<close>

definition lift_sum :: "'e + 'a \<Rightarrow> ('db, 'e, 'a) svc" where
  "lift_sum r = (\<lambda>db. (r, db))"

text \<open>An interactive transaction: an exception rolls every write of the body back.\<close>

definition transaction :: "('db, 'e, 'a) svc \<Rightarrow> ('db, 'e, 'a) svc" where
  "transaction m = (\<lambda>db. case m db of (Inl e, _) \<Rightarrow> (Inl e, db) | (Inr x, db') \<Rightarrow> (Inr x, db'))"

text \<open>\<open>try { m } catch (err) { h(err) }\<close>: the writes of \<open>m\<close> stay.\<close>

definition catch :: "('db, 'e, 'a) svc \<Rightarrow> ('e \<Rightarrow> ('db, 'e, 'a) svc) \<Rightarrow> ('db, 'e, 'a) svc" where
  "catch m h = (\<lambda>db. case m db of (Inl e, db') \<Rightarrow> h e db' | (Inr x, db') \<Rightarrow> (Inr x, db'))"

primrec mapM :: "('a \<Rightarrow> ('db, 'e, 'b) svc) \<Rightarrow> 'a list \<Rightarrow> ('db, 'e, 'b list) svc" where
  "mapM f [] = ret []"
| "mapM f (x # xs) = bnd (f x) (\<lambda>y. bnd (mapM f xs) (\<lambda>ys. ret (y # ys)))"

lemmas [svc_defs] = ret_def throw_def bnd_def asks_def modify_def ensure_def require_def
  lift_sum_def transaction_def catch_def

lemma bnd_ret [simp, svc_simps]: "bnd (ret x) f = f x"
  by (simp add: svc_defs)

lemma bnd_throw [simp, svc_simps]: "bnd (throw e) f = throw e"
  by (simp add: svc_defs)

lemma bnd_asks [simp, svc_simps]: "bnd (asks f) g db = g (f db) db"
  by (simp add: svc_defs)

lemma bnd_modify [simp, svc_simps]: "bnd (modify f) g db = g () (f db)"
  by (simp add: svc_defs)

lemma bnd_assoc: "bnd (bnd m f) g = bnd m (\<lambda>x. bnd (f x) g)"
  by (rule ext) (simp add: bnd_def split: prod.splits sum.splits)

lemma bnd_ret_right [simp]: "bnd m ret = m"
  by (rule ext) (simp add: svc_defs split: prod.splits sum.splits)

lemma bnd_ensure [simp, svc_simps]:
  "bnd (ensure c e) f db = (if c then f () db else (Inl e, db))"
  by (simp add: svc_defs)

lemma bnd_require [simp, svc_simps]:
  "bnd (require e x) f db = (case x of None \<Rightarrow> (Inl e, db) | Some y \<Rightarrow> f y db)"
  by (simp add: svc_defs split: option.splits)

lemma bnd_lift_sum [simp, svc_simps]:
  "bnd (lift_sum r) f db = (case r of Inl e \<Rightarrow> (Inl e, db) | Inr x \<Rightarrow> f x db)"
  by (simp add: svc_defs split: sum.splits)

lemma ret_apply [simp, svc_simps]: "ret x db = (Inr x, db)"
  by (simp add: svc_defs)

lemma throw_apply [simp, svc_simps]: "throw e db = (Inl e, db)"
  by (simp add: svc_defs)

lemma asks_apply [simp, svc_simps]: "asks f db = (Inr (f db), db)"
  by (simp add: svc_defs)

lemma modify_apply [simp, svc_simps]: "modify f db = (Inr (), f db)"
  by (simp add: svc_defs)

lemma ensure_apply [simp, svc_simps]:
  "ensure c e db = (if c then (Inr (), db) else (Inl e, db))"
  by (simp add: svc_defs)

lemma require_apply [simp, svc_simps]:
  "require e x db = (case x of None \<Rightarrow> (Inl e, db) | Some y \<Rightarrow> (Inr y, db))"
  by (simp add: svc_defs split: option.splits)

lemma bnd_Inr_iff:
  "bnd m f db = (Inr y, db'') \<longleftrightarrow> (\<exists>x db'. m db = (Inr x, db') \<and> f x db' = (Inr y, db''))"
  by (simp add: bnd_def split: prod.splits sum.splits)

lemma bnd_Inl_iff:
  "bnd m f db = (Inl e, db'') \<longleftrightarrow>
    m db = (Inl e, db'') \<or> (\<exists>x db'. m db = (Inr x, db') \<and> f x db' = (Inl e, db''))"
  by (auto simp add: bnd_def split: prod.splits sum.splits)

lemma bnd_InrE:
  assumes "bnd m f db = (Inr y, db'')"
  obtains x db' where "m db = (Inr x, db')" and "f x db' = (Inr y, db'')"
  using assms by (auto simp: bnd_Inr_iff)

lemma bnd_eq_Inr: "m db = (Inr x, db') \<Longrightarrow> bnd m f db = f x db'"
  by (simp add: bnd_def)

lemma bnd_eq_Inl: "m db = (Inl e, db') \<Longrightarrow> bnd m f db = (Inl e, db')"
  by (simp add: bnd_def)

lemma transaction_Inr_iff:
  "transaction m db = (Inr x, db') \<longleftrightarrow> m db = (Inr x, db')"
  by (auto simp: transaction_def split: prod.splits sum.splits)

text \<open>A transaction is all or nothing.\<close>

lemma transaction_rollback: "transaction m db = (Inl e, db') \<Longrightarrow> db' = db"
  by (auto simp: transaction_def split: prod.splits sum.splits)

text \<open>
  A service that only reads leaves the database as it was, whatever its outcome. The rules follow
  the shape of the code, so the property is decided by \<open>simp\<close>.
\<close>

definition read_only :: "('db, 'e, 'a) svc \<Rightarrow> bool" where
  "read_only m \<longleftrightarrow> (\<forall>db. snd (m db) = db)"

lemma read_onlyD: "read_only m \<Longrightarrow> m db = (r, db') \<Longrightarrow> db' = db"
  by (metis read_only_def snd_conv)

lemma read_only_bnd: "read_only m \<Longrightarrow> (\<And>x. read_only (f x)) \<Longrightarrow> read_only (bnd m f)"
  by (auto simp: read_only_def bnd_def split: prod.splits sum.splits) (metis snd_conv)+

text \<open>A check that only reads, followed by the operation it guards.\<close>

lemma bnd_asserted_Inr:
  assumes "read_only m" and "bnd m f db = (Inr r, db')"
  obtains x where "m db = (Inr x, db)" "f x db = (Inr r, db')"
proof -
  from assms(2) obtain x db1 where x: "m db = (Inr x, db1)" "f x db1 = (Inr r, db')"
    by (rule bnd_InrE)
  with read_onlyD [OF assms(1) x(1)] that show thesis by simp
qed

lemma bnd_asserted_Inl:
  assumes "read_only m" and "bnd m f db = (Inl e, db')"
  shows "db' = db \<or> (\<exists>x. m db = (Inr x, db) \<and> f x db = (Inl e, db'))"
proof -
  from assms(2) consider "m db = (Inl e, db')" | x db1 where "m db = (Inr x, db1)" "f x db1 = (Inl e, db')"
    by (auto simp: bnd_Inl_iff)
  then show ?thesis
    by cases (use read_onlyD [OF assms(1)] in fastforce)+
qed

lemma bnd_ret_Inr: "bnd m (\<lambda>r. ret (g r)) db = (Inr y, db') \<longleftrightarrow> (\<exists>x. m db = (Inr x, db') \<and> y = g x)"
  by (auto simp: bnd_Inr_iff)

lemma bnd_ret_Inl: "bnd m (\<lambda>r. ret (g r)) db = (Inl e, db') \<longleftrightarrow> m db = (Inl e, db')"
  by (auto simp: bnd_Inl_iff)

lemma read_only_basic [simp]:
  "read_only (ret x)" "read_only (throw e)" "read_only (asks f)" "read_only (ensure c e)"
  "read_only (require e y)" "read_only (lift_sum r)"
  by (auto simp: read_only_def svc_defs split: option.splits)

lemma read_only_mapM: "(\<And>x. read_only (f x)) \<Longrightarrow> read_only (mapM f xs)"
  by (induction xs) (auto intro!: read_only_bnd)

text \<open>A sequence of reads reads everything from the same database.\<close>

lemma mapM_read_only_InrD:
  assumes ro: "\<And>x. read_only (f x)" and ok: "mapM f xs db = (Inr ys, db')"
  shows "db' = db \<and> list_all2 (\<lambda>x y. f x db = (Inr y, db)) xs ys"
  using ok
proof (induction xs arbitrary: ys)
  case (Cons x xs)
  from Cons.prems obtain y where y: "f x db = (Inr y, db)"
    and rest: "bnd (mapM f xs) (\<lambda>ys. ret (y # ys)) db = (Inr ys, db')"
    by (auto elim: bnd_asserted_Inr [OF ro])
  then obtain zs where "mapM f xs db = (Inr zs, db')" "ys = y # zs"
    by (auto simp: bnd_ret_Inr)
  with Cons.IH y show ?case by simp
qed simp

text \<open>
  A loop of writes to one table: each turn changes the rows by \<open>g x\<close>, as long as \<open>P\<close> holds of them.
\<close>

lemma mapM_puts:
  assumes step: "\<And>x rs. x \<in> set xs \<Longrightarrow> P rs \<Longrightarrow> (\<exists>y. f x (put rs db) = (Inr y, put (g x rs) db)) \<and> P (g x rs)"
    and start: "P rs"
  shows "\<exists>ys. mapM f xs (put rs db) = (Inr ys, put (foldl (\<lambda>rs x. g x rs) rs xs) db)"
  using assms
proof (induction xs arbitrary: rs)
  case (Cons x xs)
  then obtain y where y: "f x (put rs db) = (Inr y, put (g x rs) db)" and P: "P (g x rs)" by fastforce
  have "\<exists>ys. mapM f xs (put (g x rs) db) = (Inr ys, put (foldl (\<lambda>rs x. g x rs) (g x rs) xs) db)"
    by (rule Cons.IH) (use Cons.prems P in auto)
  with y show ?case by (auto simp: bnd_def)
qed simp

text \<open>
  Preservation of a predicate over every outcome, errors included: this is what survives when an
  exception leaves a half-finished method behind.
\<close>

definition preserves :: "('db \<Rightarrow> bool) \<Rightarrow> ('db, 'e, 'a) svc \<Rightarrow> bool" where
  "preserves I m \<longleftrightarrow> (\<forall>db. I db \<longrightarrow> I (snd (m db)))"

lemma preservesI: "(\<And>db. I db \<Longrightarrow> I (snd (m db))) \<Longrightarrow> preserves I m"
  by (simp add: preserves_def)

lemma preservesD: "preserves I m \<Longrightarrow> I db \<Longrightarrow> m db = (r, db') \<Longrightarrow> I db'"
  by (metis preserves_def snd_conv)

lemma preserves_snd: "preserves I m \<Longrightarrow> I db \<Longrightarrow> I (snd (m db))"
  by (simp add: preserves_def)

lemma preserves_bnd [intro]:
  assumes m: "preserves I m" and f: "\<And>x. preserves I (f x)"
  shows "preserves I (bnd m f)"
proof (rule preservesI)
  fix db
  assume "I db"
  obtain r db' where r: "m db = (r, db')" by (cases "m db")
  with m \<open>I db\<close> have "I db'" by (rule preservesD)
  with r f show "I (snd (bnd m f db))"
    by (cases r) (auto simp: bnd_def preserves_def)
qed

lemma preserves_read_only: "read_only m \<Longrightarrow> preserves I m"
  by (simp add: read_only_def preserves_def)

lemma preserves_transaction [intro]: "preserves I m \<Longrightarrow> preserves I (transaction m)"
  by (auto simp: preserves_def transaction_def split: prod.splits sum.splits)

lemma preserves_catch [intro]:
  assumes m: "preserves I m" and h: "\<And>e. preserves I (h e)"
  shows "preserves I (catch m h)"
proof (rule preservesI)
  fix db
  assume "I db"
  obtain r db' where r: "m db = (r, db')" by (cases "m db")
  with m \<open>I db\<close> have "I db'" by (rule preservesD)
  with r h show "I (snd (catch m h db))"
    by (cases r) (auto simp: catch_def preserves_def)
qed

lemma preserves_basic [intro]:
  "preserves I (ret x)" "preserves I (throw e)" "preserves I (asks f)" "preserves I (ensure c e)"
  "preserves I (require e y)" "preserves I (lift_sum r)"
  by (simp_all add: preserves_read_only)

lemma preserves_mapM [intro]: "(\<And>x. preserves I (f x)) \<Longrightarrow> preserves I (mapM f xs)"
  by (induction xs) auto

lemma preserves_if [intro]:
  "preserves I m \<Longrightarrow> preserves I n \<Longrightarrow> preserves I (if c then m else n)"
  by simp

section \<open>Weakest preconditions\<close>

text \<open>
  \<open>wp m Q E db\<close>: started in \<open>db\<close>, the service \<open>m\<close> ends in a state that satisfies \<open>Q\<close> when it
  answers and \<open>E\<close> when it throws. One rewrite rule per combinator, so that \<open>simp add: svc_wp\<close> turns a
  claim about a method into a claim about its reads and writes.
\<close>

named_theorems svc_wp \<open>the weakest precondition of a service combinator\<close>

definition wp :: "('db, 'e, 'a) svc \<Rightarrow> ('a \<Rightarrow> 'db \<Rightarrow> bool) \<Rightarrow> ('e \<Rightarrow> 'db \<Rightarrow> bool) \<Rightarrow> 'db \<Rightarrow> bool" where
  "wp m Q E db \<longleftrightarrow> (case m db of (Inl e, db') \<Rightarrow> E e db' | (Inr x, db') \<Rightarrow> Q x db')"

lemma wp_ret [svc_wp]: "wp (ret x) Q E db \<longleftrightarrow> Q x db"
  by (simp add: wp_def)

lemma wp_ret_fun: "wp (ret x) Q E = Q x"
  by (rule ext) (simp add: wp_ret)

lemma wp_throw [svc_wp]: "wp (throw e) Q E db \<longleftrightarrow> E e db"
  by (simp add: wp_def)

lemma wp_bnd [svc_wp]: "wp (bnd m f) Q E = wp m (\<lambda>x. wp (f x) Q E) E"
  by (rule ext) (simp add: wp_def bnd_def split: prod.splits sum.splits)

lemma wp_asks [svc_wp]: "wp (asks f) Q E db \<longleftrightarrow> Q (f db) db"
  by (simp add: wp_def)

lemma wp_modify [svc_wp]: "wp (modify f) Q E db \<longleftrightarrow> Q () (f db)"
  by (simp add: wp_def)

lemma wp_ensure [svc_wp]: "wp (ensure c e) Q E db \<longleftrightarrow> (if c then Q () db else E e db)"
  by (simp add: wp_def)

lemma wp_require [svc_wp]:
  "wp (require e x) Q E db \<longleftrightarrow> (case x of None \<Rightarrow> E e db | Some y \<Rightarrow> Q y db)"
  by (simp add: wp_def split: option.splits)

lemma wp_lift_sum [svc_wp]:
  "wp (lift_sum r) Q E db \<longleftrightarrow> (case r of Inl e \<Rightarrow> E e db | Inr x \<Rightarrow> Q x db)"
  by (simp add: wp_def lift_sum_def split: sum.splits)

lemma wp_transaction [svc_wp]: "wp (transaction m) Q E db \<longleftrightarrow> wp m Q (\<lambda>e _. E e db) db"
  by (simp add: wp_def transaction_def split: prod.splits sum.splits)

lemma wp_catch [svc_wp]: "wp (catch m h) Q E db \<longleftrightarrow> wp m Q (\<lambda>e. wp (h e) Q E) db"
  by (simp add: wp_def catch_def split: prod.splits sum.splits)

lemma wp_if [svc_wp]: "wp (if c then m else n) Q E db \<longleftrightarrow> (if c then wp m Q E db else wp n Q E db)"
  by simp

lemma wp_True [simp]: "wp m (\<lambda>_ _. True) (\<lambda>_ _. True) db"
  by (simp add: wp_def split: prod.splits sum.splits)

lemma wp_InrD: "wp m Q E db \<Longrightarrow> m db = (Inr x, db') \<Longrightarrow> Q x db'"
  by (simp add: wp_def)

lemma wp_InlD: "wp m Q E db \<Longrightarrow> m db = (Inl e, db') \<Longrightarrow> E e db'"
  by (simp add: wp_def)

lemma wp_mono:
  "wp m Q E db \<Longrightarrow> (\<And>x db'. Q x db' \<Longrightarrow> Q' x db') \<Longrightarrow> (\<And>e db'. E e db' \<Longrightarrow> E' e db') \<Longrightarrow> wp m Q' E' db"
  by (simp add: wp_def split: prod.splits sum.splits)

lemma wp_read_only: "read_only m \<Longrightarrow> (\<And>x. Q x db) \<Longrightarrow> (\<And>e. E e db) \<Longrightarrow> wp m Q E db"
  by (auto simp: wp_def dest: read_onlyD split: prod.splits sum.splits)

lemma wp_read_only_Inr:
  "read_only m \<Longrightarrow> (\<And>x. m db = (Inr x, db) \<Longrightarrow> Q x db) \<Longrightarrow> (\<And>e. E e db) \<Longrightarrow> wp m Q E db"
  by (auto simp: wp_def dest: read_onlyD split: prod.splits sum.splits)

lemma preserves_iff_wp: "preserves I m \<longleftrightarrow> (\<forall>db. I db \<longrightarrow> wp m (\<lambda>_. I) (\<lambda>_. I) db)"
  by (simp add: preserves_def wp_def split: prod.splits sum.splits) (metis prod.collapse snd_conv sum.exhaust)

section \<open>Two runs side by side\<close>

text \<open>
  \<open>tracks h g m m'\<close>: on a database changed by \<open>h\<close>, \<open>m'\<close> does what \<open>m\<close> does, up to the change: it throws the
  same error or answers the answer changed by \<open>g\<close>, and leaves the database of \<open>m\<close> changed by \<open>h\<close>. One rule
  per combinator, so that a claim that some data has no influence is proved along the shape of the code.
\<close>

definition tracks ::
  "('db \<Rightarrow> 'db) \<Rightarrow> ('a \<Rightarrow> 'a) \<Rightarrow> ('db, 'e, 'a) svc \<Rightarrow> ('db, 'e, 'a) svc \<Rightarrow> bool" where
  "tracks h g m m' \<longleftrightarrow> (\<forall>db. m' (h db) = (map_sum id g (fst (m db)), h (snd (m db))))"

lemma tracksD: "tracks h g m m' \<Longrightarrow> m db = (r, db') \<Longrightarrow> m' (h db) = (map_sum id g r, h db')"
  by (metis tracks_def fst_conv snd_conv)

lemma tracksI: "(\<And>db r db'. m db = (r, db') \<Longrightarrow> m' (h db) = (map_sum id g r, h db')) \<Longrightarrow> tracks h g m m'"
  by (simp add: tracks_def)

named_theorems svc_tracks \<open>how two runs of a service combinator stay side by side\<close>

lemma tracks_ret [svc_tracks]: "y = g x \<Longrightarrow> tracks h g (ret x) (ret y)"
  by (simp add: tracks_def)

lemma tracks_throw [svc_tracks]: "tracks h g (throw e) (throw e)"
  by (simp add: tracks_def)

lemma tracks_asks [svc_tracks]: "(\<And>db. f' (h db) = g (f db)) \<Longrightarrow> tracks h g (asks f) (asks f')"
  by (simp add: tracks_def)

lemma tracks_ensure [svc_tracks]: "c = c' \<Longrightarrow> tracks h g (ensure c e) (ensure c' e)"
  by (simp add: tracks_def)

lemma tracks_require [svc_tracks]: "y = map_option g x \<Longrightarrow> tracks h g (require e x) (require e y)"
  by (simp add: tracks_def split: option.splits)

lemma tracks_lift_sum [svc_tracks]: "s = map_sum id g r \<Longrightarrow> tracks h g (lift_sum r) (lift_sum s)"
  by (simp add: tracks_def lift_sum_def)

lemma tracks_bnd:
  assumes "tracks h g m m'" and "\<And>x. tracks h k (f x) (f' (g x))"
  shows "tracks h k (bnd m f) (bnd m' f')"
proof (rule tracksI)
  fix db r db'
  assume r: "bnd m f db = (r, db')"
  obtain s db1 where s: "m db = (s, db1)" by (cases "m db")
  from tracksD [OF assms(1) this] r s show "bnd m' f' (h db) = (map_sum id k r, h db')"
    by (cases s) (auto simp: bnd_def dest: tracksD [OF assms(2)])
qed

lemma tracks_bnd_same:
  "tracks h id m m' \<Longrightarrow> (\<And>x. tracks h k (f x) (f' x)) \<Longrightarrow> tracks h k (bnd m f) (bnd m' f')"
  by (rule tracks_bnd [where g = id]) simp_all

lemma tracks_catch:
  assumes "tracks h g m m'" and "\<And>e. tracks h g (c e) (c' e)"
  shows "tracks h g (catch m c) (catch m' c')"
proof (rule tracksI)
  fix db r db'
  assume r: "catch m c db = (r, db')"
  obtain s db1 where s: "m db = (s, db1)" by (cases "m db")
  from tracksD [OF assms(1) this] r s show "catch m' c' (h db) = (map_sum id g r, h db')"
    by (cases s) (auto simp: catch_def dest: tracksD [OF assms(2)])
qed

lemma tracks_mapM:
  assumes "\<And>x. tracks h g (f x) (f' (k x))"
  shows "tracks h (map g) (mapM f xs) (mapM f' (map k xs))"
proof (induction xs)
  case (Cons x xs)
  show ?case
    by (auto intro!: tracks_bnd [OF assms] tracks_bnd [OF Cons.IH] tracks_ret)
qed (simp add: tracks_def)

text \<open>Sorting commutes with a change that keeps the key.\<close>

lemma sort_key_map_same:
  assumes "\<And>x. k (f x) = k x"
  shows "sort_key k (map f xs) = map f (sort_key k xs)"
proof (induction xs)
  case (Cons x xs)
  have "insort_key k (f x) (map f ys) = map f (insort_key k x ys)" for ys
    using assms by (induction ys) auto
  with Cons show ?case by simp
qed simp

text \<open>\<open>xs.join(sep)\<close>.\<close>

fun join_with :: "string \<Rightarrow> string list \<Rightarrow> string" where
  "join_with sep [] = []"
| "join_with sep [x] = x"
| "join_with sep (x # xs) = x @ sep @ join_with sep xs"

text \<open>An integer in a template string.\<close>

fun show_nat :: "nat \<Rightarrow> string" where
  "show_nat n = (if n < 10 then [char_of (48 + n)] else show_nat (n div 10) @ [char_of (48 + n mod 10)])"

definition show_int :: "int \<Rightarrow> string" where
  "show_int i = (if i < 0 then ''-'' @ show_nat (nat (- i)) else show_nat (nat i))"

text \<open>\<open>x ?? y\<close>.\<close>

definition coalesce :: "'a option \<Rightarrow> 'a \<Rightarrow> 'a" where
  "coalesce x y = (case x of None \<Rightarrow> y | Some v \<Rightarrow> v)"

text \<open>The white space of \<open>trim\<close> and of the class \<open>\s\<close>, within the 8-bit characters.\<close>

definition is_space :: "char \<Rightarrow> bool" where
  "is_space c \<longleftrightarrow> (of_char c :: nat) \<in> {9, 10, 11, 12, 13, 32, 160}"

definition trim :: "string \<Rightarrow> string" where
  "trim s = rev (dropWhile is_space (rev (dropWhile is_space s)))"

text \<open>\<open>[...new Set(xs)]\<close>: the first occurrences, in order.\<close>

definition uniq :: "'a list \<Rightarrow> 'a list" where
  "uniq xs = rev (remdups (rev xs))"

lemma set_uniq [simp]: "set (uniq xs) = set xs"
  by (simp add: uniq_def)

lemma distinct_uniq [simp]: "distinct (uniq xs)"
  by (simp add: uniq_def)

lemma find_SomeD: "find P xs = Some x \<Longrightarrow> x \<in> set xs \<and> P x"
  by (induction xs) (auto split: if_splits)

section \<open>Rows with a key\<close>

text \<open>\<open>findUnique\<close>: the row with the given key.\<close>

definition find_row :: "('r \<Rightarrow> id) \<Rightarrow> id \<Rightarrow> 'r list \<Rightarrow> 'r option" where
  "find_row key i rs = find (\<lambda>r. key r = i) rs"

text \<open>\<open>updateMany({ where, data })\<close>: the changed rows, and the count of matching rows.\<close>

definition update_rows :: "('r \<Rightarrow> bool) \<Rightarrow> ('r \<Rightarrow> 'r) \<Rightarrow> 'r list \<Rightarrow> 'r list" where
  "update_rows P f rs = map (\<lambda>r. if P r then f r else r) rs"

definition count_rows :: "('r \<Rightarrow> bool) \<Rightarrow> 'r list \<Rightarrow> nat" where
  "count_rows P rs = length (filter P rs)"

definition delete_rows :: "('r \<Rightarrow> bool) \<Rightarrow> 'r list \<Rightarrow> 'r list" where
  "delete_rows P rs = filter (\<lambda>r. \<not> P r) rs"

lemma find_row_Nil [simp]: "find_row key i [] = None"
  by (simp add: find_row_def)

lemma find_row_Cons [simp]:
  "find_row key i (r # rs) = (if key r = i then Some r else find_row key i rs)"
  by (simp add: find_row_def)

lemma find_row_SomeD: "find_row key i rs = Some r \<Longrightarrow> r \<in> set rs \<and> key r = i"
  by (induction rs) (auto split: if_splits)

lemma find_row_None_iff: "find_row key i rs = None \<longleftrightarrow> i \<notin> key ` set rs"
  by (induction rs) auto

lemma find_row_in: "distinct (map key rs) \<Longrightarrow> r \<in> set rs \<Longrightarrow> find_row key (key r) rs = Some r"
  by (induction rs) (auto simp: rev_image_eqI)

lemma find_row_append:
  "find_row key i (rs @ ss) = (case find_row key i rs of None \<Rightarrow> find_row key i ss | Some r \<Rightarrow> Some r)"
  by (induction rs) auto

lemma update_rows_simps [simp]:
  "update_rows P f [] = []"
  "update_rows P f (r # rs) = (if P r then f r else r) # update_rows P f rs"
  by (simp_all add: update_rows_def)

lemma count_rows_simps [simp]:
  "count_rows P [] = 0"
  "count_rows P (r # rs) = (if P r then Suc (count_rows P rs) else count_rows P rs)"
  by (simp_all add: count_rows_def)

lemma count_rows_0_iff: "count_rows P rs = 0 \<longleftrightarrow> (\<forall>r \<in> set rs. \<not> P r)"
  by (induction rs) auto

lemma update_rows_none: "count_rows P rs = 0 \<Longrightarrow> update_rows P f rs = rs"
  by (induction rs) (auto split: if_splits)

lemma set_update_rows: "set (update_rows P f rs) = (\<lambda>r. if P r then f r else r) ` set rs"
  by (simp add: update_rows_def)

lemma map_update_rows:
  "(\<And>r. P r \<Longrightarrow> g (f r) = g r) \<Longrightarrow> map g (update_rows P f rs) = map g rs"
  by (induction rs) auto

lemma find_row_update_rows:
  assumes "\<forall>r. key (f r) = key r"
  shows "find_row key i (update_rows P f rs) =
    map_option (\<lambda>r. if P r then f r else r) (find_row key i rs)"
  using assms by (induction rs) auto

text \<open>The guarded update of one row, the optimistic lock of every life-cycle change.\<close>

lemma count_rows_guarded:
  assumes "distinct (map key rs)"
  shows "0 < count_rows (\<lambda>r. key r = i \<and> P r) rs \<longleftrightarrow> (\<exists>r. find_row key i rs = Some r \<and> P r)"
  using assms
proof (induction rs)
  case (Cons r rs)
  then show ?case
    by (auto dest: find_row_SomeD simp: rev_image_eqI)
qed simp

lemma find_row_delete_rows:
  assumes "distinct (map key rs)"
  shows "find_row key i (delete_rows P rs) =
    (case find_row key i rs of None \<Rightarrow> None | Some r \<Rightarrow> if P r then None else Some r)"
  using assms
proof (induction rs)
  case (Cons r rs)
  have "find_row key (key r) rs = None"
    using Cons.prems by (simp add: find_row_None_iff)
  with Cons show ?case
    by (auto simp: delete_rows_def)
qed (simp add: delete_rows_def)

lemma in_delete_rows [simp]: "r \<in> set (delete_rows P rs) \<longleftrightarrow> r \<in> set rs \<and> \<not> P r"
  by (auto simp: delete_rows_def)

lemma distinct_delete_rows [simp]:
  "distinct (map key rs) \<Longrightarrow> distinct (map key (delete_rows P rs))"
  by (simp add: delete_rows_def distinct_map_filter)

section \<open>The calls of a table\<close>

text \<open>
  The calls of the data layer over one table. The table is given by its two projections: how to
  read its rows from the database, and how to put rows back.
\<close>

definition updateMany ::
  "('db \<Rightarrow> 'r list) \<Rightarrow> ('r list \<Rightarrow> 'db \<Rightarrow> 'db) \<Rightarrow> ('r \<Rightarrow> bool) \<Rightarrow> ('r \<Rightarrow> 'r) \<Rightarrow> ('db, 'e, nat) svc" where
  "updateMany rows put P f =
     (\<lambda>db. (Inr (count_rows P (rows db)), put (update_rows P f (rows db)) db))"

definition deleteMany ::
  "('db \<Rightarrow> 'r list) \<Rightarrow> ('r list \<Rightarrow> 'db \<Rightarrow> 'db) \<Rightarrow> ('r \<Rightarrow> bool) \<Rightarrow> ('db, 'e, nat) svc" where
  "deleteMany rows put P =
     (\<lambda>db. (Inr (count_rows P (rows db)), put (delete_rows P (rows db)) db))"

definition create_row ::
  "('db \<Rightarrow> 'r list) \<Rightarrow> ('r list \<Rightarrow> 'db \<Rightarrow> 'db) \<Rightarrow> 'r \<Rightarrow> ('db, 'e, 'r) svc" where
  "create_row rows put r = (\<lambda>db. (Inr r, put (rows db @ [r]) db))"

text \<open>\<open>update({ where: { id }, data })\<close>: throws when there is no such row.\<close>

definition update_row ::
  "('db \<Rightarrow> 'r list) \<Rightarrow> ('r list \<Rightarrow> 'db \<Rightarrow> 'db) \<Rightarrow> ('r \<Rightarrow> id) \<Rightarrow> 'e \<Rightarrow> id \<Rightarrow> ('r \<Rightarrow> 'r) \<Rightarrow> ('db, 'e, 'r) svc" where
  "update_row rows put key e i f =
     (\<lambda>db. case find_row key i (rows db) of
        None \<Rightarrow> (Inl e, db)
      | Some r \<Rightarrow> (Inr (f r), put (update_rows (\<lambda>r. key r = i) f (rows db)) db))"

lemmas [svc_defs] = updateMany_def deleteMany_def create_row_def update_row_def

lemma updateMany_apply [simp]:
  "updateMany rows put P f db = (Inr (count_rows P (rows db)), put (update_rows P f (rows db)) db)"
  by (simp add: updateMany_def)

lemma deleteMany_apply [simp]:
  "deleteMany rows put P db = (Inr (count_rows P (rows db)), put (delete_rows P (rows db)) db)"
  by (simp add: deleteMany_def)

lemma create_row_apply [simp]: "create_row rows put r db = (Inr r, put (rows db @ [r]) db)"
  by (simp add: create_row_def)

lemma update_row_apply [simp]:
  "update_row rows put key e i f db =
     (case find_row key i (rows db) of
        None \<Rightarrow> (Inl e, db)
      | Some r \<Rightarrow> (Inr (f r), put (update_rows (\<lambda>r. key r = i) f (rows db)) db))"
  by (simp add: update_row_def)

text \<open>How a sequence goes on after a table call: the rules that evaluate a method's write half.\<close>

lemma bnd_updateMany [simp, svc_simps]:
  "bnd (updateMany rows put P f) g db =
     g (count_rows P (rows db)) (put (update_rows P f (rows db)) db)"
  by (simp add: svc_defs)

lemma bnd_deleteMany [simp, svc_simps]:
  "bnd (deleteMany rows put P) g db =
     g (count_rows P (rows db)) (put (delete_rows P (rows db)) db)"
  by (simp add: svc_defs)

lemma bnd_create_row [simp, svc_simps]:
  "bnd (create_row rows put r) g db = g r (put (rows db @ [r]) db)"
  by (simp add: svc_defs)

lemma bnd_update_row [simp, svc_simps]:
  "bnd (update_row rows put key e i f) g db =
     (case find_row key i (rows db) of
        None \<Rightarrow> (Inl e, db)
      | Some r \<Rightarrow> g (f r) (put (update_rows (\<lambda>r. key r = i) f (rows db)) db))"
  by (simp add: svc_defs split: option.splits)

lemma wp_updateMany [svc_wp]:
  "wp (updateMany rows put P f) Q E db \<longleftrightarrow> Q (count_rows P (rows db)) (put (update_rows P f (rows db)) db)"
  by (simp add: wp_def)

lemma wp_deleteMany [svc_wp]:
  "wp (deleteMany rows put P) Q E db \<longleftrightarrow> Q (count_rows P (rows db)) (put (delete_rows P (rows db)) db)"
  by (simp add: wp_def)

lemma wp_create_row [svc_wp]: "wp (create_row rows put r) Q E db \<longleftrightarrow> Q r (put (rows db @ [r]) db)"
  by (simp add: wp_def)

lemma wp_update_row [svc_wp]:
  "wp (update_row rows put key e i f) Q E db \<longleftrightarrow>
     (case find_row key i (rows db) of
        None \<Rightarrow> E e db
      | Some r \<Rightarrow> Q (f r) (put (update_rows (\<lambda>r. key r = i) f (rows db)) db))"
  by (simp add: wp_def split: option.splits)

section \<open>The interface of a table\<close>

text \<open>
  A table of a database is a component of it that can be read and replaced, whose rows have a key.
  The guarded update is \<open>updateMany({ where: { id, ...guard }, data })\<close>. Everything the services
  need to know about the optimistic lock is proved here once, for an arbitrary database: no writer
  can change a row that has left the state the writer validated.
\<close>

locale table =
  fixes rows :: "'db \<Rightarrow> 'r list"
    and put :: "'r list \<Rightarrow> 'db \<Rightarrow> 'db"
    and key :: "'r \<Rightarrow> id"
  assumes rows_put: "rows (put rs db) = rs"
    and put_rows: "put (rows db) db = db"
    and put_put: "put rs (put rs' db) = put rs db"
begin

lemma guarded_misses:
  assumes "updateMany rows put P f db = (Inr 0, db')"
  shows "db' = db"
  using assms by (auto simp: updateMany_def update_rows_none put_rows)

lemma guarded_hits:
  assumes k: "distinct (map key (rows db))"
    and up: "updateMany rows put (\<lambda>r. key r = i \<and> G r) f db = (Inr n, db')" and n: "n \<noteq> 0"
    and key: "\<forall>r. key (f r) = key r"
  shows "\<exists>r. find_row key i (rows db) = Some r \<and> G r \<and> find_row key i (rows db') = Some (f r)"
proof -
  from up n have "0 < count_rows (\<lambda>r. key r = i \<and> G r) (rows db)"
    and db': "db' = put (update_rows (\<lambda>r. key r = i \<and> G r) f (rows db)) db"
    by (auto simp: updateMany_def)
  with k obtain r where r: "find_row key i (rows db) = Some r" "G r"
    by (auto simp: count_rows_guarded)
  moreover from r have "key r = i" by (auto dest: find_row_SomeD)
  ultimately show ?thesis
    by (auto simp: db' rows_put find_row_update_rows [OF key])
qed

lemma guarded_others:
  assumes up: "updateMany rows put (\<lambda>r. key r = i \<and> G r) f db = (Inr n, db')" and j: "j \<noteq> i"
    and key: "\<forall>r. key (f r) = key r"
  shows "find_row key j (rows db') = find_row key j (rows db)"
proof -
  from up have "rows db' = update_rows (\<lambda>r. key r = i \<and> G r) f (rows db)"
    by (auto simp: updateMany_def rows_put)
  then have "find_row key j (rows db') =
      map_option (\<lambda>r. if key r = i \<and> G r then f r else r) (find_row key j (rows db))"
    by (simp add: find_row_update_rows [OF key])
  also from j have "\<dots> = find_row key j (rows db)"
    by (cases "find_row key j (rows db)") (auto dest: find_row_SomeD)
  finally show ?thesis .
qed

lemma guarded_keys:
  assumes "updateMany rows put P f db = (Inr n, db')" and "\<forall>r. key (f r) = key r"
  shows "map key (rows db') = map key (rows db)"
  using assms by (auto simp: updateMany_def rows_put map_update_rows)

lemma created_found:
  assumes "create_row rows put r db = (Inr r', db')" and "key r \<notin> key ` set (rows db)"
  shows "find_row key (key r) (rows db') = Some r"
proof -
  have "find_row key (key r) (rows db) = None"
    using assms(2) by (simp add: find_row_None_iff)
  then show ?thesis
    using assms(1) by (auto simp: create_row_def rows_put find_row_append)
qed

end

section \<open>The interface of a life-cycle table\<close>

text \<open>
  \<open>TRANSITIONS[from][action]\<close>: a partial table of successor states, the states the code calls
  terminal, and a rank that every change of state lowers. The rank is what bounds the life of a
  request.
\<close>

locale transition_table =
  fixes nxt :: "'s \<Rightarrow> 'a \<Rightarrow> 's option"
    and terminal :: "'s \<Rightarrow> bool"
    and rank :: "'s \<Rightarrow> nat"
  assumes terminal_stuck: "terminal s \<Longrightarrow> nxt s a = None"
    and live_moves: "\<not> terminal s \<Longrightarrow> \<exists>a t. nxt s a = Some t \<and> t \<noteq> s"
    and rank_drops: "nxt s a = Some t \<Longrightarrow> t \<noteq> s \<Longrightarrow> rank t < rank s"
begin

fun run :: "'s \<Rightarrow> 'a list \<Rightarrow> 's option" where
  "run s [] = Some s"
| "run s (a # as) = (case nxt s a of None \<Rightarrow> None | Some t \<Rightarrow> run t as)"

fun changes :: "'s \<Rightarrow> 'a list \<Rightarrow> nat" where
  "changes s [] = 0"
| "changes s (a # as) =
     (case nxt s a of None \<Rightarrow> 0 | Some t \<Rightarrow> (if t = s then 0 else 1) + changes t as)"

lemma terminal_iff: "terminal s \<longleftrightarrow> (\<forall>a. nxt s a = None)"
  using terminal_stuck live_moves by fastforce

lemma changes_bounded: "changes s as + (case run s as of None \<Rightarrow> 0 | Some t \<Rightarrow> rank t) \<le> rank s"
proof (induction as arbitrary: s)
  case (Cons a as)
  show ?case
  proof (cases "nxt s a")
    case (Some t)
    with Cons.IH [of t] rank_drops [OF Some] show ?thesis
      by (auto split: option.splits)
  qed simp
qed simp

lemma changes_le_rank: "changes s as \<le> rank s"
  using changes_bounded [of s as] by linarith

lemma run_append: "run s (as @ bs) = (case run s as of None \<Rightarrow> None | Some t \<Rightarrow> run t bs)"
  by (induction as arbitrary: s) (auto split: option.splits)

lemma run_terminal: "terminal s \<Longrightarrow> run s as = Some t \<Longrightarrow> t = s \<and> as = []"
  by (cases as) (auto simp: terminal_stuck)

lemma reaches_terminal: "\<exists>as t. run s as = Some t \<and> terminal t"
proof (induction "rank s" arbitrary: s rule: less_induct)
  case less
  show ?case
  proof (cases "terminal s")
    case True
    then have "run s [] = Some s \<and> terminal s" by simp
    then show ?thesis by blast
  next
    case False
    then obtain a t where t: "nxt s a = Some t" "t \<noteq> s" using live_moves by blast
    from less [OF rank_drops [OF t]] obtain as u where "run t as = Some u" "terminal u"
      by blast
    with t have "run s (a # as) = Some u \<and> terminal u" by simp
    then show ?thesis by blast
  qed
qed

end

end
