(* ===== verification/Domain.thy ===== *)
theory Domain
  imports Complex_Main Prelude
begin

text \<open>
  The data model of the tenant runtime: the enums of \<open>packages/shared/src\<close>, the errors its services
  throw, the rows of the tenant database (\<open>packages/db/prisma/tenant/schema.prisma\<close>) and the
  database itself, one table per model. A string id is a \<open>string\<close>; an optional column is an
  \<open>option\<close>; an instant or a \<open>@db.Date\<close> is the number of milliseconds since 1970 (what
  \<open>Date.getTime()\<close> returns; a \<open>@db.Date\<close> is a UTC midnight); a \<open>Decimal\<close> or a float is an exact
  real. Columns that no modelled operation reads or writes are left out.
\<close>

section \<open>Enums\<close>

datatype role = PRACOWNIK | MANAGER | HR | ADMIN_KLIENTA

text \<open>The string of an enum constant, as the JWT's \<open>hrobot_roles\<close> claim carries it.\<close>

fun role_name :: "role \<Rightarrow> string" where
  "role_name PRACOWNIK = ''PRACOWNIK''"
| "role_name MANAGER = ''MANAGER''"
| "role_name HR = ''HR''"
| "role_name ADMIN_KLIENTA = ''ADMIN_KLIENTA''"

datatype employment_type = UMOWA_O_PRACE | UMOWA_ZLECENIE | UMOWA_O_DZIELO | B2B

datatype demand_source = DS_TEMPLATE | DS_MANUAL

datatype shift_source = AUTO | MANUAL

datatype swap_state =
  SW_DRAFT | SW_PENDING_PEER | SW_PEER_AGREED | SW_PENDING_MANAGER
| SW_APPROVED | SW_REJECTED | SW_CANCELLED

datatype swap_action =
  Submit | PeerAccept | PeerReject | SubmitToManager | ManagerApprove | ManagerReject | Cancel

datatype leave_status = LV_PENDING | LV_APPROVED | LV_REJECTED | LV_CANCELLED

datatype leave_action = LvApprove | LvReject | LvCancel

datatype autonomy_level =
  SUGGEST_ONLY | AUTO_NOTIFY | AUTO_ASK_CONSENT | AUTO_COMMIT_ON_APPROVAL

datatype ai_state =
  AI_DRAFT | AI_PENDING_EMPLOYEE_CONSENT | AI_EMPLOYEE_AGREED | AI_PENDING_MANAGER
| AI_APPROVED | AI_REJECTED | AI_ESCALATED | AI_CANCELLED

datatype ai_action =
  AskConsent | AiSubmitToManager | EmployeeAccept | EmployeeDeclineNext | EmployeeDeclineLast
| Expire | AiManagerApprove | AiManagerReject | DirectEscalate | AiCancel

datatype ai_type = REPLACEMENT | ADHOC | CAPACITY

datatype consent_state = NOT_ASKED | CS_PENDING | GRANTED | DECLINED | EXPIRED

datatype access_type = CARD | KEY | PERMISSION

datatype access_status = AG_ACTIVE | AG_REVOKED | AG_LOST

datatype work_order_status = WO_OPEN | WO_IN_PROGRESS | WO_DONE | WO_CANCELLED

datatype proactivity_level = TYLKO_NA_ZADANIE | PROAKTYWNE_REKOMENDACJE | PROAKTYWNE_ALERTY

datatype tenant_status = TS_PENDING | TS_ACTIVE | TS_SUSPENDED | TS_DEPROVISIONED

datatype reco_scope_type = RS_LOKALIZACJA | RS_UNIT

datatype recruitment_verdict = WZNOW | WSTRZYMAJ | UTRZYMAJ

datatype solve_status = OPTIMAL | FEASIBLE | INFEASIBLE

section \<open>Errors\<close>

text \<open>
  What a service can throw: the HTTP exceptions of the framework, the domain errors of the three
  state machines, a plain \<open>Error\<close>, and the errors of the data layer by their code (P2002 is a
  unique violation, P2003 a foreign-key violation, P2025 a write to a missing row).
\<close>

datatype app_error =
  NotFoundException string
| ForbiddenException string
| UnauthorizedException string
| BadRequestException string
| ConflictException string
| SwapRequestNotFoundError id
| IllegalSwapTransitionError swap_state swap_action
| SwapNotFeasibleError string
| InvalidSwapTargetError id
| SwapConcurrentModificationError id
| IllegalLeaveTransitionError leave_status leave_action
| IllegalAiProposalTransitionError ai_state ai_action
| PlainError string
| P2002 string
| P2003 string
| P2025 string
| P2034 string

definition is_P2002 :: "app_error \<Rightarrow> bool" where
  "is_P2002 e = (case e of P2002 _ \<Rightarrow> True | _ \<Rightarrow> False)"

section \<open>JSON payloads\<close>

datatype json =
  JNull | JBool bool | JStr string | JNum real | JArr "json list" | JObj "(string \<times> json) list"

definition json_opt :: "string option \<Rightarrow> json" where
  "json_opt x = (case x of None \<Rightarrow> JNull | Some s \<Rightarrow> JStr s)"

section \<open>Rows\<close>

record user_row =
  us_id :: id
  us_keycloakSub :: string
  us_email :: string
  us_active :: bool
  us_createdAt :: int

record user_role_row =
  ur_userId :: id
  ur_role :: role
  ur_unitId :: "id option"

record employee_row =
  em_id :: id
  em_userId :: "id option"
  em_firstName :: string
  em_lastName :: string
  em_position :: string
  em_employmentType :: employment_type
  em_unitId :: id
  em_homeLat :: "real option"
  em_homeLng :: "real option"
  em_etat :: real
  em_qualifications :: "string list"
  em_preferredDaysOff :: "string list"
  em_preferredShiftStart :: "string list"
  em_hiredAt :: int
  em_pesel :: string
  em_peselHash :: string
  em_homeAddress :: "string option"

record unit_row =
  ou_id :: id
  ou_name :: string
  ou_parentId :: "id option"
  ou_managerUserId :: "id option"

record lokalizacja_row =
  lo_id :: id
  lo_name :: string
  lo_typ :: string
  lo_lat :: "real option"
  lo_lng :: "real option"

record template_row =
  tp_id :: id
  tp_lokalizacjaTyp :: string
  tp_nazwa :: string
  tp_dni :: "string list"
  tp_okna :: "json list"

record demand_row =
  de_id :: id
  de_lokalizacjaId :: id
  de_date :: int
  de_start :: string
  de_end :: string
  de_requiredRole :: string
  de_requiredCount :: int
  de_source :: demand_source

record shift_row =
  sh_id :: id
  sh_employeeId :: id
  sh_lokalizacjaId :: id
  sh_demandId :: "id option"
  sh_date :: int
  sh_start :: string
  sh_end :: string
  sh_role :: string
  sh_source :: shift_source

record swap_row =
  sw_id :: id
  sw_requesterEmployeeId :: id
  sw_requesterShiftId :: id
  sw_targetEmployeeId :: "id option"
  sw_targetShiftId :: "id option"
  sw_state :: swap_state
  sw_decidedByManagerId :: "string option"
  sw_createdAt :: int

record leave_row =
  lv_id :: id
  lv_employeeId :: id
  lv_startDate :: int
  lv_endDate :: int
  lv_status :: leave_status
  lv_type :: string
  lv_decidedByUserId :: "id option"
  lv_decidedAt :: "int option"
  lv_reason :: "string option"
  lv_createdAt :: int

record ai_config_row =
  ac_id :: id
  ac_unitId :: "id option"
  ac_autonomyLevel :: autonomy_level
  ac_quietHoursStart :: "string option"
  ac_quietHoursEnd :: "string option"
  ac_consentTtlHours :: int
  ac_budgetWeeklyCap :: "real option"
  ac_avgSpeedKmh :: int
  ac_perKmRatePln :: real
  ac_maxTravelMinutes :: int
  ac_roundTrip :: bool

record ai_proposal_row =
  ap_id :: id
  ap_type :: ai_type
  ap_state :: ai_state
  ap_shiftId :: id
  ap_vacatedEmployeeId :: id
  ap_activeCandidateId :: "id option"
  ap_owningUnitId :: "id option"
  ap_reason :: "string option"
  ap_estimatedCost :: "real option"
  ap_decidedByManagerId :: "string option"
  ap_expiresAt :: "int option"

record ai_candidate_row =
  ca_id :: id
  ca_proposalId :: id
  ca_employeeId :: id
  ca_rank :: int
  ca_feasible :: bool
  ca_reason :: "string option"
  ca_score :: "real option"
  ca_travelKm :: "real option"
  ca_travelMinutes :: "real option"
  ca_travelCost :: "real option"
  ca_consentState :: consent_state
  ca_consentRequestedAt :: "int option"
  ca_consentAt :: "int option"

record rate_row =
  ra_id :: id
  ra_position :: string
  ra_employmentType :: employment_type
  ra_hourlyRate :: real
  ra_currency :: string

record company_row =
  cs_id :: id
  cs_companyName :: string
  cs_timezone :: string
  cs_region :: string
  cs_locale :: string

record access_row =
  ag_id :: id
  ag_employeeId :: id
  ag_type :: access_type
  ag_label :: string
  ag_identifier :: "string option"
  ag_lokalizacjaId :: "id option"
  ag_status :: access_status
  ag_issuedByUserId :: "id option"
  ag_issuedAt :: int
  ag_revokedAt :: "int option"
  ag_notes :: "string option"

record work_order_row =
  wo_id :: id
  wo_assignedToEmployeeId :: id
  wo_assignedAt :: int
  wo_dueAt :: int
  wo_completedAt :: "int option"
  wo_status :: work_order_status

record complaint_row =
  cm_id :: id
  cm_employeeId :: id
  cm_createdAt :: int

record snapshot_row =
  sn_id :: id
  sn_employeeId :: id
  sn_windowStart :: int
  sn_windowEnd :: int
  sn_throughput :: int
  sn_medianCycleMinutes :: "int option"
  sn_slaHitRate :: "real option"
  sn_defectRate :: "real option"
  sn_compositeScore :: "real option"
  sn_developmentSlope :: "real option"
  sn_confidence :: real
  sn_peerGroupKey :: string
  sn_isNewHire :: bool
  sn_excludedReason :: "string option"
  sn_algorithmVersion :: int
  sn_configHash :: string

text \<open>The scoring-relevant columns of a performance configuration, and the row around them.\<close>

record perf_fields =
  pf_weightPerformance :: real
  pf_weightTimeliness :: real
  pf_weightQuality :: real
  pf_weightDevelopment :: real
  pf_slaTargetMinutes :: int
  pf_defectThreshold :: real
  pf_confidenceMinDays :: int
  pf_windowDays :: int
  pf_minValidWindows :: int
  pf_minSlopeForGrowth :: real
  pf_minPeerGroupSize :: int

record perf_config_row =
  pc_id :: id
  pc_unitId :: "id option"
  pc_fields :: perf_fields
  pc_proactivityLevel :: proactivity_level

record role_gap =
  rg_role :: string
  rg_required :: int
  rg_assigned :: int
  rg_gap :: int

text \<open>The frozen \<open>factors\<close> of a recommendation, a JSON object of this shape.\<close>

record reco_factors =
  rf_totalGap :: int
  rf_byRole :: "role_gap list"
  rf_avgDefectRate :: "real option"
  rf_avgSlaHitRate :: "real option"
  rf_defectThreshold :: real
  rf_slaTargetRate :: real
  rf_qualityBelowTarget :: bool
  rf_timelinessBelowTarget :: bool
  rf_employeeCount :: nat
  rf_weekStart :: int

record reco_row =
  rr_id :: id
  rr_scopeType :: reco_scope_type
  rr_scopeId :: id
  rr_verdict :: recruitment_verdict
  rr_rationale :: string
  rr_factors :: reco_factors
  rr_replaces :: "id option"
  rr_computedAt :: int
  rr_acknowledgedByUserId :: "id option"
  rr_acknowledgedAt :: "int option"

record audit_row =
  au_actorUserId :: string
  au_action :: string
  au_entityType :: string
  au_entityId :: string
  au_payload :: json
  au_ipAddress :: string

section \<open>The tenant database\<close>

record tenant_db =
  t_users :: "user_row list"
  t_userRoles :: "user_role_row list"
  t_units :: "unit_row list"
  t_employees :: "employee_row list"
  t_lokalizacje :: "lokalizacja_row list"
  t_templates :: "template_row list"
  t_demands :: "demand_row list"
  t_shifts :: "shift_row list"
  t_swaps :: "swap_row list"
  t_leaves :: "leave_row list"
  t_aiConfigs :: "ai_config_row list"
  t_proposals :: "ai_proposal_row list"
  t_candidates :: "ai_candidate_row list"
  t_rates :: "rate_row list"
  t_audit :: "audit_row list"
  t_company :: "company_row list"
  t_grants :: "access_row list"
  t_workOrders :: "work_order_row list"
  t_complaints :: "complaint_row list"
  t_snapshots :: "snapshot_row list"
  t_perfConfigs :: "perf_config_row list"
  t_recos :: "reco_row list"

type_synonym 'a tx = "(tenant_db, app_error, 'a) svc"

abbreviation put_templates :: "template_row list \<Rightarrow> tenant_db \<Rightarrow> tenant_db" where
  "put_templates rs \<equiv> t_templates_update (\<lambda>_. rs)"

abbreviation put_demands :: "demand_row list \<Rightarrow> tenant_db \<Rightarrow> tenant_db" where
  "put_demands rs \<equiv> t_demands_update (\<lambda>_. rs)"

abbreviation put_shifts :: "shift_row list \<Rightarrow> tenant_db \<Rightarrow> tenant_db" where
  "put_shifts rs \<equiv> t_shifts_update (\<lambda>_. rs)"

abbreviation put_swaps :: "swap_row list \<Rightarrow> tenant_db \<Rightarrow> tenant_db" where
  "put_swaps rs \<equiv> t_swaps_update (\<lambda>_. rs)"

abbreviation put_leaves :: "leave_row list \<Rightarrow> tenant_db \<Rightarrow> tenant_db" where
  "put_leaves rs \<equiv> t_leaves_update (\<lambda>_. rs)"

abbreviation put_proposals :: "ai_proposal_row list \<Rightarrow> tenant_db \<Rightarrow> tenant_db" where
  "put_proposals rs \<equiv> t_proposals_update (\<lambda>_. rs)"

abbreviation put_candidates :: "ai_candidate_row list \<Rightarrow> tenant_db \<Rightarrow> tenant_db" where
  "put_candidates rs \<equiv> t_candidates_update (\<lambda>_. rs)"

abbreviation put_aiConfigs :: "ai_config_row list \<Rightarrow> tenant_db \<Rightarrow> tenant_db" where
  "put_aiConfigs rs \<equiv> t_aiConfigs_update (\<lambda>_. rs)"

abbreviation put_rates :: "rate_row list \<Rightarrow> tenant_db \<Rightarrow> tenant_db" where
  "put_rates rs \<equiv> t_rates_update (\<lambda>_. rs)"

abbreviation put_units :: "unit_row list \<Rightarrow> tenant_db \<Rightarrow> tenant_db" where
  "put_units rs \<equiv> t_units_update (\<lambda>_. rs)"

abbreviation put_employees :: "employee_row list \<Rightarrow> tenant_db \<Rightarrow> tenant_db" where
  "put_employees rs \<equiv> t_employees_update (\<lambda>_. rs)"

abbreviation put_company :: "company_row list \<Rightarrow> tenant_db \<Rightarrow> tenant_db" where
  "put_company rs \<equiv> t_company_update (\<lambda>_. rs)"

abbreviation put_grants :: "access_row list \<Rightarrow> tenant_db \<Rightarrow> tenant_db" where
  "put_grants rs \<equiv> t_grants_update (\<lambda>_. rs)"

abbreviation put_snapshots :: "snapshot_row list \<Rightarrow> tenant_db \<Rightarrow> tenant_db" where
  "put_snapshots rs \<equiv> t_snapshots_update (\<lambda>_. rs)"

abbreviation put_perfConfigs :: "perf_config_row list \<Rightarrow> tenant_db \<Rightarrow> tenant_db" where
  "put_perfConfigs rs \<equiv> t_perfConfigs_update (\<lambda>_. rs)"

abbreviation put_recos :: "reco_row list \<Rightarrow> tenant_db \<Rightarrow> tenant_db" where
  "put_recos rs \<equiv> t_recos_update (\<lambda>_. rs)"

text \<open>Every keyed table of the tenant database offers the table interface.\<close>

interpretation template_table: table t_templates put_templates tp_id
  by unfold_locales auto

interpretation demand_table: table t_demands put_demands de_id
  by unfold_locales auto

interpretation shift_table: table t_shifts put_shifts sh_id
  by unfold_locales auto

interpretation swap_table: table t_swaps put_swaps sw_id
  by unfold_locales auto

interpretation leave_table: table t_leaves put_leaves lv_id
  by unfold_locales auto

interpretation proposal_table: table t_proposals put_proposals ap_id
  by unfold_locales auto

interpretation candidate_table: table t_candidates put_candidates ca_id
  by unfold_locales auto

interpretation config_table: table t_aiConfigs put_aiConfigs ac_id
  by unfold_locales auto

interpretation unit_table: table t_units put_units ou_id
  by unfold_locales auto

interpretation employee_table: table t_employees put_employees em_id
  by unfold_locales auto

interpretation company_table: table t_company put_company cs_id
  by unfold_locales auto

interpretation grant_table: table t_grants put_grants ag_id
  by unfold_locales auto

interpretation snapshot_table: table t_snapshots put_snapshots sn_id
  by unfold_locales auto

interpretation perf_config_table: table t_perfConfigs put_perfConfigs pc_id
  by unfold_locales auto

interpretation reco_table: table t_recos put_recos rr_id
  by unfold_locales auto

interpretation rate_table: table t_rates put_rates ra_id
  by unfold_locales auto

section \<open>Audit\<close>

text \<open>\<open>AuditService.log\<close>: append one row to the append-only audit log.\<close>

definition audit_log ::
  "string \<Rightarrow> string \<Rightarrow> string \<Rightarrow> id \<Rightarrow> json \<Rightarrow> string \<Rightarrow> unit tx" where
  "audit_log actorUserId action entityType entityId payload ip =
     modify (\<lambda>db. db\<lparr>t_audit := t_audit db @
       [\<lparr>au_actorUserId = actorUserId, au_action = action, au_entityType = entityType,
         au_entityId = entityId, au_payload = payload, au_ipAddress = ip\<rparr>]\<rparr>)"

text \<open>The acting user, projected from the JWT and the request's IP.\<close>

record actor =
  act_userId :: string
  act_roles :: "string list"
  act_ipAddress :: string

section \<open>Keys\<close>

text \<open>The primary keys the services rely on.\<close>

definition wf_keys :: "tenant_db \<Rightarrow> bool" where
  "wf_keys db \<longleftrightarrow>
     distinct (map sh_id (t_shifts db)) \<and> distinct (map sw_id (t_swaps db)) \<and>
     distinct (map lv_id (t_leaves db)) \<and> distinct (map ap_id (t_proposals db)) \<and>
     distinct (map ca_id (t_candidates db)) \<and> distinct (map em_id (t_employees db)) \<and>
     distinct (map de_id (t_demands db))"

lemma wf_keysD:
  assumes "wf_keys db"
  shows "distinct (map sh_id (t_shifts db))" "distinct (map sw_id (t_swaps db))"
    "distinct (map lv_id (t_leaves db))" "distinct (map ap_id (t_proposals db))"
    "distinct (map ca_id (t_candidates db))" "distinct (map em_id (t_employees db))"
    "distinct (map de_id (t_demands db))"
  using assms by (simp_all add: wf_keys_def)

end
