(* ===== verification/Contract.thy ===== *)
theory Contract
  imports Domain WeekTime
begin

text \<open>
  The solver contract, \<open>packages/shared/src/grafik/contract.ts\<close>: the problem handed to
  \<open>POST /solve\<close> and the result it returns. An ISO date string is represented by the UTC midnight it
  denotes, so comparing and sorting dates is comparing and sorting numbers. The last section states
  the hard constraints the optimizer service puts on an assignment
  (\<open>grafik-optimizer/app/solver.py\<close>, phase 1); the search itself is a third-party constraint solver,
  so \<open>solve\<close> is a parameter wherever it is called.
\<close>

section \<open>Problem and result\<close>

type_synonym lat_lng = "real \<times> real"

record location_input =
  li_id :: id
  li_latLng :: "lat_lng option"

record preferences =
  pr_preferredDaysOff :: "string list option"
  pr_preferredShiftStart :: "string list option"

record employee_input =
  ei_id :: id
  ei_qualifications :: "string list"
  ei_etat :: real
  ei_homeLatLng :: "lat_lng option"
  ei_approvedLeaveDates :: "int list"
  ei_historyHours :: real
  ei_preferences :: "preferences option"

record demand_input =
  di_id :: id
  di_locId :: id
  di_date :: int
  di_start :: string
  di_end :: string
  di_role :: string
  di_count :: int

record travel_entry =
  te_employeeId :: id
  te_locId :: id
  te_minutes :: real

record weights =
  we_d :: real
  we_e :: real
  we_g :: real
  we_p :: "real option"

record solver_config =
  sc_seed :: int
  sc_timeLimit :: real

record problem_input =
  pi_weekStart :: int
  pi_locations :: "location_input list"
  pi_employees :: "employee_input list"
  pi_demands :: "demand_input list"
  pi_travelMatrix :: "travel_entry list"
  pi_weights :: weights
  pi_solverConfig :: solver_config

record assignment =
  as_employeeId :: id
  as_demandId :: id

record metrics =
  me_commuteTotal :: real
  me_etatDeviation :: real
  me_fairnessScore :: real
  me_preferencesHonoredPct :: "real option"

record unmet =
  um_demandId :: id
  um_reason :: string

record solve_result =
  sr_status :: solve_status
  sr_assignments :: "assignment list"
  sr_metrics :: metrics
  sr_unmet :: "unmet list"

text \<open>The optimizer port: an HTTP call that may fail and never touches the database.\<close>

type_synonym optimizer = "problem_input \<Rightarrow> app_error + solve_result"

section \<open>Hard constraints of phase 1\<close>

text \<open>Absolute start and end of a demand, in minutes from the start of the horizon.\<close>

definition abs_window :: "int \<Rightarrow> demand_input \<Rightarrow> int \<times> int" where
  "abs_window week_start d =
     (let day_offset = (di_date d - week_start) div day_ms;
          start = day_offset * 1440 + toMinutes (di_start d);
          end = day_offset * 1440 + toMinutes (di_end d)
      in (start, if end \<le> start then end + 1440 else end))"

text \<open>Two windows are closer than 11 hours apart; this covers overlap too (H2 and H4).\<close>

definition conflict :: "int \<times> int \<Rightarrow> int \<times> int \<Rightarrow> bool" where
  "conflict a b \<longleftrightarrow> fst b - snd a < 11 * 60 \<and> fst a - snd b < 11 * 60"

text \<open>Qualified for the role (H1) and not on approved leave that day (H3).\<close>

definition eligible :: "employee_input \<Rightarrow> demand_input \<Rightarrow> bool" where
  "eligible e d \<longleftrightarrow> di_role d \<in> set (ei_qualifications e) \<and> di_date d \<notin> set (ei_approvedLeaveDates e)"

text \<open>
  An assignment, a set of (employee id, demand id) pairs, satisfies the hard constraints: only
  eligible pairs, every demand covered by exactly \<open>count\<close> employees, and no employee on two
  conflicting demands.
\<close>

definition phase1_ok :: "problem_input \<Rightarrow> (id \<times> id) set \<Rightarrow> bool" where
  "phase1_ok p X \<longleftrightarrow>
     (\<forall>(eid, did) \<in> X. \<exists>e \<in> set (pi_employees p). \<exists>d \<in> set (pi_demands p).
        ei_id e = eid \<and> di_id d = did \<and> eligible e d) \<and>
     (\<forall>d \<in> set (pi_demands p). int (card {eid. (eid, di_id d) \<in> X}) = di_count d) \<and>
     (\<forall>eid. \<forall>d1 \<in> set (pi_demands p). \<forall>d2 \<in> set (pi_demands p).
        di_id d1 \<noteq> di_id d2 \<longrightarrow> (eid, di_id d1) \<in> X \<longrightarrow> (eid, di_id d2) \<in> X \<longrightarrow>
        \<not> conflict (abs_window (pi_weekStart p) d1) (abs_window (pi_weekStart p) d2))"

definition assigned :: "solve_result \<Rightarrow> (id \<times> id) set" where
  "assigned r = (\<lambda>a. (as_employeeId a, as_demandId a)) ` set (sr_assignments r)"

text \<open>
  What the callers rely on: a schedule returned with a status other than \<open>INFEASIBLE\<close> satisfies the
  hard constraints. Nothing is asked of an \<open>INFEASIBLE\<close> answer (a time limit may cause one).
\<close>

definition sound_optimizer :: "optimizer \<Rightarrow> bool" where
  "sound_optimizer solve \<longleftrightarrow>
     (\<forall>p r. solve p = Inr r \<longrightarrow> sr_status r \<noteq> INFEASIBLE \<longrightarrow> phase1_ok p (assigned r))"

lemma conflict_sym: "conflict a b = conflict b a"
  by (auto simp: conflict_def)

lemma sound_optimizerD:
  "sound_optimizer solve \<Longrightarrow> solve p = Inr r \<Longrightarrow> sr_status r \<noteq> INFEASIBLE \<Longrightarrow> phase1_ok p (assigned r)"
  by (simp add: sound_optimizer_def)

text \<open>
  A problem with one employee and demands of count 1: any accepted assignment is the whole set of
  demands on that employee, so acceptance says every demand is eligible and no two conflict.
\<close>

lemma phase1_ok_single:
  assumes ok: "phase1_ok p X" and one: "pi_employees p = [e]"
    and counts: "\<forall>d \<in> set (pi_demands p). di_count d = 1"
    and ids: "distinct (map di_id (pi_demands p))"
  shows "(\<forall>d \<in> set (pi_demands p). eligible e d) \<and>
    (\<forall>d1 \<in> set (pi_demands p). \<forall>d2 \<in> set (pi_demands p). d1 \<noteq> d2 \<longrightarrow>
       \<not> conflict (abs_window (pi_weekStart p) d1) (abs_window (pi_weekStart p) d2))"
proof -
  have inj: "d1 = d2" if "d1 \<in> set (pi_demands p)" "d2 \<in> set (pi_demands p)" "di_id d1 = di_id d2" for d1 d2
    using ids that by (auto simp: distinct_map inj_on_def)
  have cov: "(ei_id e, di_id d) \<in> X \<and> eligible e d" if d: "d \<in> set (pi_demands p)" for d
  proof -
    from ok counts d have "card {eid. (eid, di_id d) \<in> X} = 1"
      by (force simp: phase1_ok_def)
    then obtain eid where eid: "(eid, di_id d) \<in> X"
      by (auto simp: card_1_singleton_iff)
    with ok one obtain d' where "eid = ei_id e" "d' \<in> set (pi_demands p)" "di_id d' = di_id d" "eligible e d'"
      unfolding phase1_ok_def by fastforce
    with eid inj d show ?thesis by blast
  qed
  show ?thesis
  proof (intro conjI ballI impI)
    fix d1 d2
    assume "d1 \<in> set (pi_demands p)" "d2 \<in> set (pi_demands p)" "d1 \<noteq> d2"
    with cov inj ok show "\<not> conflict (abs_window (pi_weekStart p) d1) (abs_window (pi_weekStart p) d2)"
      unfolding phase1_ok_def by blast
  qed (use cov in blast)
qed

end
