(* ===== verification/Rbac.thy ===== *)
theory Rbac
  imports Domain
begin

text \<open>
  Role checks and unit scoping: \<open>apps/tenant-runtime/src/tenant-runtime/rbac\<close> (the guard and
  \<open>unit-scope.ts\<close>) and the two reads every service shares, the caller's own employee record and a
  user's managed units.
\<close>

definition GLOBAL_ROLES :: "string list" where
  "GLOBAL_ROLES = [role_name HR, role_name ADMIN_KLIENTA]"

definition isGlobal :: "string list \<Rightarrow> bool" where
  "isGlobal roles = list_ex (\<lambda>r. r \<in> set GLOBAL_ROLES) roles"

text \<open>The relation filter \<open>user: { keycloakSub }\<close> on a row with a user id.\<close>

definition user_has_sub :: "tenant_db \<Rightarrow> id \<Rightarrow> string \<Rightarrow> bool" where
  "user_has_sub db uid sub = list_ex (\<lambda>u. us_id u = uid \<and> us_keycloakSub u = sub) (t_users db)"

definition managedUnitIds :: "tenant_db \<Rightarrow> string \<Rightarrow> id list" where
  "managedUnitIds db userId =
     List.map_filter ur_unitId
       (filter (\<lambda>r. user_has_sub db (ur_userId r) userId \<and> ur_role r = MANAGER \<and> ur_unitId r \<noteq> None)
         (t_userRoles db))"

text \<open>\<open>employee.findFirst({ where: { user: { keycloakSub } } })\<close>: the caller's own record.\<close>

definition callerEmployee :: "tenant_db \<Rightarrow> string \<Rightarrow> employee_row option" where
  "callerEmployee db sub =
     find (\<lambda>e. case em_userId e of None \<Rightarrow> False | Some uid \<Rightarrow> user_has_sub db uid sub)
       (t_employees db)"

text \<open>\<open>unitId: { in: units }\<close> through a row's employee relation.\<close>

definition employee_unit_in :: "tenant_db \<Rightarrow> id list \<Rightarrow> id \<Rightarrow> bool" where
  "employee_unit_in db units eid =
     list_ex (\<lambda>e. em_id e = eid \<and> em_unitId e \<in> set units) (t_employees db)"

definition findEmployee :: "tenant_db \<Rightarrow> id \<Rightarrow> employee_row option" where
  "findEmployee db eid = find_row em_id eid (t_employees db)"

text \<open>\<open>RbacGuard.canActivate\<close>: no required roles, or one of them held.\<close>

definition canActivate :: "string list option \<Rightarrow> string list \<Rightarrow> app_error + bool" where
  "canActivate required roles =
     (case required of
        None \<Rightarrow> Inr True
      | Some req \<Rightarrow>
          if req = [] then Inr True
          else if \<not> list_ex (\<lambda>r. r \<in> set roles) req
            then Inl (ForbiddenException (''Required roles: ['' @ join_with '', '' req @ '']''))
          else Inr True)"

text \<open>A handler behind \<open>@Roles(...)\<close>: the guard runs before the method.\<close>

definition guarded :: "role list \<Rightarrow> actor \<Rightarrow> 'a tx \<Rightarrow> 'a tx" where
  "guarded required act m =
     bnd (lift_sum (canActivate (Some (map role_name required)) (act_roles act))) (\<lambda>_. m)"

lemma isGlobal_iff: "isGlobal roles \<longleftrightarrow> ''HR'' \<in> set roles \<or> ''ADMIN_KLIENTA'' \<in> set roles"
  by (auto simp: isGlobal_def GLOBAL_ROLES_def list_ex_iff)

lemma managedUnitIds_iff:
  "u \<in> set (managedUnitIds db sub) \<longleftrightarrow>
     (\<exists>r \<in> set (t_userRoles db). ur_role r = MANAGER \<and> ur_unitId r = Some u \<and>
        user_has_sub db (ur_userId r) sub)"
  by (force simp: managedUnitIds_def List.map_filter_def)

lemma callerEmployee_SomeD:
  assumes "callerEmployee db sub = Some e"
  shows "e \<in> set (t_employees db) \<and> (\<exists>uid. em_userId e = Some uid \<and> user_has_sub db uid sub)"
  using assms by (auto simp: callerEmployee_def find_Some_iff split: option.splits)

lemma canActivate_iff:
  "canActivate required roles = Inr True \<longleftrightarrow>
     (\<forall>req. required = Some req \<longrightarrow> req = [] \<or> set req \<inter> set roles \<noteq> {})"
  by (auto simp: canActivate_def list_ex_iff split: option.splits)

lemma guarded_Inr_iff:
  "guarded required act m db = (Inr x, db') \<longleftrightarrow>
     (required = [] \<or> (\<exists>r \<in> set required. role_name r \<in> set (act_roles act))) \<and> m db = (Inr x, db')"
  by (auto simp: guarded_def canActivate_def list_ex_iff split: sum.splits)

lemma guarded_cases:
  "guarded required act m db = m db \<or> (\<exists>msg. guarded required act m db = (Inl (ForbiddenException msg), db))"
  by (auto simp: guarded_def canActivate_def split: sum.splits)

lemma preserves_guarded [intro]:
  assumes "preserves I m"
  shows "preserves I (guarded required act m)"
proof (rule preservesI)
  fix db
  assume "I db"
  with assms show "I (snd (guarded required act m db))"
    using guarded_cases [of required act m db] by (auto simp: preserves_def)
qed

end
