(* ===== verification/Feasibility.thy ===== *)
theory Feasibility
  imports Contract Rbac
begin

text \<open>
  The feasibility seam: the port \<open>swap-feasibility-validator.ts\<close> with its permissive default, and
  the real validator \<open>optimizer-swap-feasibility.validator.ts\<close>, which packs the post-swap week of each
  affected employee into a single-employee problem and asks the optimizer. What the rest of the
  program relies on is the locale \<open>feasibility_port\<close>: asking never writes to the database.
\<close>

section \<open>The port\<close>

record feas_input =
  fi_requesterShift :: "id \<times> id"
  fi_targetShift :: "(id \<times> id) option"
  fi_incomingRequesterShiftEmployeeId :: id
  fi_incomingTargetShiftEmployeeId :: "id option"

record feas_decision =
  fd_feasible :: bool
  fd_reason :: "string option"

type_synonym validator = "feas_input \<Rightarrow> feas_decision tx"

definition allow_all_validate :: validator where
  "allow_all_validate input = ret \<lparr>fd_feasible = True, fd_reason = None\<rparr>"

locale feasibility_port =
  fixes validate :: validator
  assumes validate_read_only: "read_only (validate i)"
begin

lemma validate_state: "validate i db = (r, db') \<Longrightarrow> db' = db"
  by (rule read_onlyD [OF validate_read_only])

lemma bnd_validate:
  "bnd (validate i) f db =
    (case fst (validate i db) of Inl e \<Rightarrow> (Inl e, db) | Inr d \<Rightarrow> f d db)"
  using validate_state [of i db]
  by (cases "validate i db") (auto simp: bnd_def split: sum.splits)

end

section \<open>The optimizer-backed validator\<close>

definition demand_of_shift :: "shift_row \<Rightarrow> demand_input" where
  "demand_of_shift s =
     \<lparr>di_id = sh_id s, di_locId = sh_lokalizacjaId s, di_date = isoDate (sh_date s),
      di_start = sh_start s, di_end = sh_end s, di_role = sh_role s, di_count = 1\<rparr>"

definition buildProblem :: "int \<Rightarrow> employee_row \<Rightarrow> shift_row list \<Rightarrow> int list \<Rightarrow> problem_input" where
  "buildProblem weekStart employee shifts approvedLeaveDates =
     \<lparr>pi_weekStart = isoDate weekStart,
      pi_locations = map (\<lambda>i. \<lparr>li_id = i, li_latLng = None\<rparr>) (remdups (map sh_lokalizacjaId shifts)),
      pi_employees =
        [\<lparr>ei_id = em_id employee, ei_qualifications = em_qualifications employee,
          ei_etat = em_etat employee, ei_homeLatLng = None,
          ei_approvedLeaveDates = approvedLeaveDates, ei_historyHours = 0, ei_preferences = None\<rparr>],
      pi_demands = map demand_of_shift shifts,
      pi_travelMatrix = [],
      pi_weights = \<lparr>we_d = 1, we_e = 0, we_g = 0, we_p = None\<rparr>,
      pi_solverConfig = \<lparr>sc_seed = 1, sc_timeLimit = 5\<rparr>\<rparr>"

text \<open>The employee's approved leave days in the week widened by a day on each side, sorted.\<close>

definition leave_dates :: "tenant_db \<Rightarrow> id \<Rightarrow> int \<Rightarrow> int list" where
  "leave_dates db employeeId weekStart =
     (let probeStart = addDays weekStart (- 1);
          probeEnd = addDays (addDays weekStart 7) 1;
          leaveRows = filter (\<lambda>lv. lv_employeeId lv = employeeId \<and> lv_status lv = LV_APPROVED \<and>
                        lv_startDate lv < probeEnd \<and> probeStart \<le> lv_endDate lv) (t_leaves db)
      in sort (remdups (concat (map (\<lambda>lv.
           map isoDate (filter (\<lambda>day. lv_startDate lv \<le> day \<and> day \<le> lv_endDate lv)
             (map (addDays weekStart) [- 1..7]))) leaveRows))))"

text \<open>
  The employee's shifts of the widened week without the one handed away and without a stale copy of
  the incoming one, plus the incoming shift.
\<close>

definition post_swap :: "tenant_db \<Rightarrow> id \<Rightarrow> shift_row \<Rightarrow> id option \<Rightarrow> shift_row list" where
  "post_swap db employeeId incomingShift giveAwayShiftId =
     (let weekStart = mondayOf (sh_date incomingShift);
          probeStart = addDays weekStart (- 1);
          probeEnd = addDays (addDays weekStart 7) 1;
          kept = filter (\<lambda>s. sh_employeeId s = employeeId \<and> probeStart \<le> sh_date s \<and> sh_date s < probeEnd)
                   (t_shifts db);
          dropped = filter (\<lambda>i. i \<noteq> []) ((case giveAwayShiftId of None \<Rightarrow> [] | Some i \<Rightarrow> [i]) @ [sh_id incomingShift])
      in filter (\<lambda>s. sh_id s \<notin> set dropped) kept @ [incomingShift])"

definition checkEmployee ::
  "optimizer \<Rightarrow> id \<Rightarrow> shift_row \<Rightarrow> id option \<Rightarrow> feas_decision tx" where
  "checkEmployee solve employeeId incomingShift giveAwayShiftId =
     bnd (asks (\<lambda>db. (findEmployee db employeeId,
             leave_dates db employeeId (mondayOf (sh_date incomingShift)),
             post_swap db employeeId incomingShift giveAwayShiftId)))
       (\<lambda>(found, leaveDates, postSwap).
          case found of
            None \<Rightarrow> ret \<lparr>fd_feasible = False, fd_reason = Some (''unknown employee '' @ employeeId)\<rparr>
          | Some employee \<Rightarrow>
              bnd (lift_sum (solve (buildProblem (mondayOf (sh_date incomingShift)) employee postSwap leaveDates)))
                (\<lambda>result.
                   if sr_status result = INFEASIBLE
                   then ret \<lparr>fd_feasible = False,
                     fd_reason = Some (case sr_unmet result of
                         [] \<Rightarrow> ''post-swap schedule violates H1-H4''
                       | u # _ \<Rightarrow> um_reason u)\<rparr>
                   else ret \<lparr>fd_feasible = True, fd_reason = None\<rparr>))"

definition fv_loadShift :: "id \<Rightarrow> shift_row tx" where
  "fv_loadShift i =
     bnd (asks (\<lambda>db. find_row sh_id i (t_shifts db)))
       (require (PlainError (''Shift not found for feasibility check: '' @ i)))"

definition optimizer_validate :: "optimizer \<Rightarrow> validator" where
  "optimizer_validate solve input =
     bnd (fv_loadShift (fst (fi_requesterShift input))) (\<lambda>requesterShift.
     bnd (case fi_targetShift input of
            None \<Rightarrow> ret None
          | Some ts \<Rightarrow> bnd (fv_loadShift (fst ts)) (\<lambda>s. ret (Some s))) (\<lambda>targetShift.
     bnd (checkEmployee solve (fi_incomingRequesterShiftEmployeeId input) requesterShift
            (map_option sh_id targetShift)) (\<lambda>targetSide.
     if \<not> fd_feasible targetSide then ret targetSide
     else case (targetShift, fi_incomingTargetShiftEmployeeId input) of
        (Some ts, Some eid) \<Rightarrow>
          bnd (checkEmployee solve eid ts (Some (sh_id requesterShift))) (\<lambda>requesterSide.
          if \<not> fd_feasible requesterSide then ret requesterSide
          else ret \<lparr>fd_feasible = True, fd_reason = None\<rparr>)
      | _ \<Rightarrow> ret \<lparr>fd_feasible = True, fd_reason = None\<rparr>)))"

section \<open>Reading only\<close>

lemma checkEmployee_read_only [simp]: "read_only (checkEmployee solve e s g)"
  unfolding checkEmployee_def
  by (intro read_only_bnd) (auto split: option.splits intro!: read_only_bnd)

lemma fv_loadShift_read_only [simp]: "read_only (fv_loadShift i)"
  unfolding fv_loadShift_def by (intro read_only_bnd) auto

lemma optimizer_validate_read_only: "read_only (optimizer_validate solve i)"
  unfolding optimizer_validate_def
  by (intro read_only_bnd) (auto split: option.splits intro!: read_only_bnd)

interpretation allow_all: feasibility_port allow_all_validate
  by unfold_locales (simp add: allow_all_validate_def)

interpretation opt_validator: feasibility_port "optimizer_validate solve" for solve
  by unfold_locales (rule optimizer_validate_read_only)

section \<open>What an acceptance means\<close>

text \<open>The hard rules H1 to H4, for one employee holding a set of shifts.\<close>

definition week_legal :: "employee_row \<Rightarrow> int \<Rightarrow> int list \<Rightarrow> shift_row list \<Rightarrow> bool" where
  "week_legal e weekStart leave ss \<longleftrightarrow>
     (\<forall>s \<in> set ss. sh_role s \<in> set (em_qualifications e) \<and> isoDate (sh_date s) \<notin> set leave) \<and>
     (\<forall>s1 \<in> set ss. \<forall>s2 \<in> set ss. s1 \<noteq> s2 \<longrightarrow>
        \<not> conflict (abs_window (isoDate weekStart) (demand_of_shift s1))
                   (abs_window (isoDate weekStart) (demand_of_shift s2)))"

lemma post_swap_distinct:
  assumes "distinct (map sh_id (t_shifts db))" and "sh_id incoming \<noteq> []"
  shows "distinct (map sh_id (post_swap db e incoming g))"
  using assms by (auto simp: post_swap_def Let_def distinct_map_filter)

lemma checkEmployee_sound:
  assumes sound: "sound_optimizer solve"
    and keys: "distinct (map sh_id (t_shifts db))" and nonempty: "sh_id incoming \<noteq> []"
    and ok: "checkEmployee solve eid incoming g db = (Inr d, db')" and feas: "fd_feasible d"
  shows "\<exists>e. findEmployee db eid = Some e \<and>
    week_legal e (mondayOf (sh_date incoming)) (leave_dates db eid (mondayOf (sh_date incoming)))
      (post_swap db eid incoming g)"
proof -
  let ?w = "mondayOf (sh_date incoming)"
  let ?ps = "post_swap db eid incoming g"
  from ok feas obtain e r where e: "findEmployee db eid = Some e"
    and r: "solve (buildProblem ?w e ?ps (leave_dates db eid ?w)) = Inr r" and st: "sr_status r \<noteq> INFEASIBLE"
    by (auto simp: checkEmployee_def split: option.splits sum.splits if_splits)
  let ?p = "buildProblem ?w e ?ps (leave_dates db eid ?w)"
  have "phase1_ok ?p (assigned r)" by (rule sound_optimizerD [OF sound r st])
  moreover have "distinct (map di_id (pi_demands ?p))"
    using post_swap_distinct [OF keys nonempty] by (simp add: buildProblem_def demand_of_shift_def o_def)
  ultimately have legal: "(\<forall>d \<in> set (pi_demands ?p). eligible (hd (pi_employees ?p)) d) \<and>
      (\<forall>d1 \<in> set (pi_demands ?p). \<forall>d2 \<in> set (pi_demands ?p). d1 \<noteq> d2 \<longrightarrow>
         \<not> conflict (abs_window (pi_weekStart ?p) d1) (abs_window (pi_weekStart ?p) d2))"
    by (intro phase1_ok_single) (auto simp: buildProblem_def demand_of_shift_def)
  have inj: "demand_of_shift s1 \<noteq> demand_of_shift s2"
    if "s1 \<in> set ?ps" "s2 \<in> set ?ps" "s1 \<noteq> s2" for s1 s2
    using post_swap_distinct [OF keys nonempty] that by (auto simp: demand_of_shift_def distinct_map inj_on_def)
  from legal inj have "week_legal e ?w (leave_dates db eid ?w) ?ps"
    by (auto simp: week_legal_def buildProblem_def eligible_def)
      (auto simp: demand_of_shift_def)
  with e show ?thesis by blast
qed

end
