(* ===== verification/SwapMachine.thy ===== *)
theory SwapMachine
  imports Domain
begin

text \<open>
  The shift-swap state machine, \<open>apps/tenant-runtime/src/shift-swap/swap-state-machine.ts\<close>: the
  terminal states, the transition table and the transition function that throws.
\<close>

definition TERMINAL_STATES :: "swap_state set" where
  "TERMINAL_STATES = {SW_APPROVED, SW_REJECTED, SW_CANCELLED}"

fun TRANSITIONS :: "swap_state \<Rightarrow> swap_action \<Rightarrow> swap_state option" where
  "TRANSITIONS SW_DRAFT Submit = Some SW_PENDING_PEER"
| "TRANSITIONS SW_DRAFT Cancel = Some SW_CANCELLED"
| "TRANSITIONS SW_PENDING_PEER PeerAccept = Some SW_PEER_AGREED"
| "TRANSITIONS SW_PENDING_PEER PeerReject = Some SW_REJECTED"
| "TRANSITIONS SW_PENDING_PEER Cancel = Some SW_CANCELLED"
| "TRANSITIONS SW_PEER_AGREED SubmitToManager = Some SW_PENDING_MANAGER"
| "TRANSITIONS SW_PEER_AGREED Cancel = Some SW_CANCELLED"
| "TRANSITIONS SW_PENDING_MANAGER ManagerApprove = Some SW_APPROVED"
| "TRANSITIONS SW_PENDING_MANAGER ManagerReject = Some SW_REJECTED"
| "TRANSITIONS SW_PENDING_MANAGER Cancel = Some SW_CANCELLED"
| "TRANSITIONS _ _ = None"

definition nextState :: "swap_state \<Rightarrow> swap_action \<Rightarrow> app_error + swap_state" where
  "nextState from action =
     (case TRANSITIONS from action of
        None \<Rightarrow> Inl (IllegalSwapTransitionError from action)
      | Some to \<Rightarrow> Inr to)"

text \<open>How far a request is from the end of its life.\<close>

fun swap_rank :: "swap_state \<Rightarrow> nat" where
  "swap_rank SW_DRAFT = 4"
| "swap_rank SW_PENDING_PEER = 3"
| "swap_rank SW_PEER_AGREED = 2"
| "swap_rank SW_PENDING_MANAGER = 1"
| "swap_rank _ = 0"

lemma TRANSITIONS_cancel: "s \<notin> TERMINAL_STATES \<Longrightarrow> TRANSITIONS s Cancel = Some SW_CANCELLED"
  by (cases s) (auto simp: TERMINAL_STATES_def)

interpretation swap_machine: transition_table TRANSITIONS "\<lambda>s. s \<in> TERMINAL_STATES" swap_rank
proof unfold_locales
  fix s a
  assume "s \<in> TERMINAL_STATES"
  then show "TRANSITIONS s a = None" by (auto simp: TERMINAL_STATES_def)
next
  fix s
  assume "s \<notin> TERMINAL_STATES"
  then show "\<exists>a t. TRANSITIONS s a = Some t \<and> t \<noteq> s"
    using TRANSITIONS_cancel by (auto simp: TERMINAL_STATES_def)
next
  fix s a t
  assume "TRANSITIONS s a = Some t"
  then show "swap_rank t < swap_rank s"
    by (cases "(s, a)" rule: TRANSITIONS.cases) auto
qed

lemma nextState_Inr_iff: "nextState s a = Inr t \<longleftrightarrow> TRANSITIONS s a = Some t"
  by (simp add: nextState_def split: option.splits)

lemma nextState_Inl_iff:
  "nextState s a = Inl e \<longleftrightarrow> TRANSITIONS s a = None \<and> e = IllegalSwapTransitionError s a"
  by (auto simp: nextState_def split: option.splits)

lemma TRANSITIONS_into:
  "TRANSITIONS s a = Some SW_APPROVED \<longleftrightarrow> s = SW_PENDING_MANAGER \<and> a = ManagerApprove"
  "TRANSITIONS s a = Some SW_PENDING_MANAGER \<longleftrightarrow> s = SW_PEER_AGREED \<and> a = SubmitToManager"
  "TRANSITIONS s a = Some SW_PEER_AGREED \<longleftrightarrow> s = SW_PENDING_PEER \<and> a = PeerAccept"
  "TRANSITIONS s a = Some SW_PENDING_PEER \<longleftrightarrow> s = SW_DRAFT \<and> a = Submit"
  "TRANSITIONS s a \<noteq> Some SW_DRAFT"
  by (cases "(s, a)" rule: TRANSITIONS.cases; simp)+

lemma TRANSITIONS_ManagerApprove:
  "TRANSITIONS s ManagerApprove = Some t \<longleftrightarrow> s = SW_PENDING_MANAGER \<and> t = SW_APPROVED"
  by (cases s) auto

end
