(* ===== verification/ShiftSwap.thy ===== *)
theory ShiftSwap
  imports SwapMachine Feasibility
begin

text \<open>
  The shift-swap service and its HTTP controller
  (\<open>apps/tenant-runtime/src/shift-swap/shift-swap.service.ts\<close>, \<open>shift-swap.controller.ts\<close>).

  Every life-cycle change is a read of the request followed by a guarded write. Between the two any
  other writer may run, so each operation is split at that point: \<open>swap_commit\<close> and
  \<open>approve_commit\<close> are the write halves, which take the request as it was read, and the whole
  operation is the read followed by its write half. The theorems about the write halves hold for
  every database they may find.
\<close>

section \<open>Reads and row-level checks\<close>

record create_swap_dto =
  cs_requesterShiftId :: id
  cs_targetShiftId :: "id option"

record manager_decision =
  md_approve :: bool
  md_decidedByManagerId :: string
  md_actorUserId :: string
  md_ipAddress :: string

definition swap_load :: "id \<Rightarrow> swap_row tx" where
  "swap_load i = bnd (asks (\<lambda>db. find_row sw_id i (t_swaps db))) (require (SwapRequestNotFoundError i))"

definition swap_loadShift :: "id \<Rightarrow> shift_row tx" where
  "swap_loadShift i =
     bnd (asks (\<lambda>db. find_row sh_id i (t_shifts db)))
       (require (PlainError (''Shift not found for swap: '' @ i)))"

lemma bnd_swap_load:
  "bnd (swap_load i) f db =
     (case find_row sw_id i (t_swaps db) of
        None \<Rightarrow> (Inl (SwapRequestNotFoundError i), db) | Some r \<Rightarrow> f r db)"
  by (simp add: swap_load_def bnd_assoc split: option.splits)

lemma bnd_swap_loadShift:
  "bnd (swap_loadShift i) f db =
     (case find_row sh_id i (t_shifts db) of
        None \<Rightarrow> (Inl (PlainError (''Shift not found for swap: '' @ i)), db) | Some s \<Rightarrow> f s db)"
  by (simp add: swap_loadShift_def bnd_assoc split: option.splits)

definition requireCallerEmployee :: "actor \<Rightarrow> employee_row tx" where
  "requireCallerEmployee act =
     bnd (asks (\<lambda>db. callerEmployee db (act_userId act)))
       (require (ForbiddenException ''Caller has no employee record in this tenant''))"

definition assertRequester :: "actor \<Rightarrow> id \<Rightarrow> swap_row tx" where
  "assertRequester act i =
     bnd (swap_load i) (\<lambda>request.
     bnd (requireCallerEmployee act) (\<lambda>caller.
     if sw_requesterEmployeeId request \<noteq> em_id caller
     then throw (ForbiddenException ''Only the requester may perform this action'')
     else ret request))"

definition assertTarget :: "actor \<Rightarrow> id \<Rightarrow> swap_row tx" where
  "assertTarget act i =
     bnd (swap_load i) (\<lambda>request.
     bnd (requireCallerEmployee act) (\<lambda>caller.
     if sw_targetEmployeeId request \<noteq> Some (em_id caller)
     then throw (ForbiddenException ''Only the swap target may accept or reject'')
     else ret request))"

text \<open>The units of the parties that still have an employee record.\<close>

definition affected_units :: "tenant_db \<Rightarrow> swap_row \<Rightarrow> id list" where
  "affected_units db request =
     (let partyIds = sw_requesterEmployeeId request #
            (case sw_targetEmployeeId request of None \<Rightarrow> [] | Some t \<Rightarrow> [t])
      in map em_unitId (filter (\<lambda>e. em_id e \<in> set partyIds) (t_employees db)))"

definition assertManager :: "actor \<Rightarrow> id \<Rightarrow> swap_row tx" where
  "assertManager act i =
     bnd (swap_load i) (\<lambda>request.
     if isGlobal (act_roles act) then ret request
     else bnd (asks (\<lambda>db. managedUnitIds db (act_userId act))) (\<lambda>managedUnits.
       if managedUnits = []
       then throw (ForbiddenException ''Only a MANAGER of the relevant unit, HR, or ADMIN may decide'')
       else bnd (asks (\<lambda>db. affected_units db request)) (\<lambda>affectedUnits.
         if \<not> list_all (\<lambda>u. u \<in> set managedUnits) affectedUnits
         then throw (ForbiddenException ''MANAGER may only decide swaps where they manage every affected unit'')
         else ret request)))"

section \<open>Create and list\<close>

definition swap_create :: "id \<Rightarrow> int \<Rightarrow> actor \<Rightarrow> create_swap_dto \<Rightarrow> swap_row tx" where
  "swap_create newId now act dto =
     bnd (requireCallerEmployee act) (\<lambda>caller.
     bnd (asks (\<lambda>db. find_row sh_id (cs_requesterShiftId dto) (t_shifts db))) (\<lambda>found.
     bnd (require (NotFoundException (''Shift '' @ cs_requesterShiftId dto @ '' not found'')) found) (\<lambda>requesterShift.
     if sh_employeeId requesterShift \<noteq> em_id caller
     then throw (ForbiddenException ''You may only request a swap of your own shift'')
     else
       bnd (case cs_targetShiftId dto of
              None \<Rightarrow> ret (None, None)
            | Some tid \<Rightarrow>
                bnd (asks (\<lambda>db. find_row sh_id tid (t_shifts db))) (\<lambda>foundT.
                bnd (require (NotFoundException (''Shift '' @ tid @ '' not found'')) foundT) (\<lambda>targetShift.
                if sh_employeeId targetShift = em_id caller
                then throw (BadRequestException ''Target shift must belong to another employee'')
                else ret (Some (sh_employeeId targetShift), Some (sh_id targetShift)))))
         (\<lambda>(targetEmployeeId, targetShiftId).
            create_row t_swaps put_swaps
              \<lparr>sw_id = newId, sw_requesterEmployeeId = em_id caller,
               sw_requesterShiftId = sh_id requesterShift, sw_targetEmployeeId = targetEmployeeId,
               sw_targetShiftId = targetShiftId, sw_state = SW_DRAFT,
               sw_decidedByManagerId = None, sw_createdAt = now\<rparr>))))"

definition own_swap :: "employee_row option \<Rightarrow> swap_row \<Rightarrow> bool" where
  "own_swap caller r \<longleftrightarrow>
     (case caller of None \<Rightarrow> False
      | Some c \<Rightarrow> sw_requesterEmployeeId r = em_id c \<or> sw_targetEmployeeId r = Some (em_id c))"

definition unit_swap :: "tenant_db \<Rightarrow> id list \<Rightarrow> swap_row \<Rightarrow> bool" where
  "unit_swap db units r \<longleftrightarrow>
     employee_unit_in db units (sw_requesterEmployeeId r) \<or>
     (case sw_targetEmployeeId r of None \<Rightarrow> False | Some t \<Rightarrow> employee_unit_in db units t)"

definition swap_list :: "actor \<Rightarrow> swap_state option \<Rightarrow> bool \<Rightarrow> swap_row list tx" where
  "swap_list act state mine =
     asks (\<lambda>db.
       let caller = callerEmployee db (act_userId act);
           byState = (\<lambda>r. case state of None \<Rightarrow> True | Some s \<Rightarrow> sw_state r = s);
           findMany = (\<lambda>P. sort_key (\<lambda>r. - sw_createdAt r) (filter (\<lambda>r. byState r \<and> P r) (t_swaps db)))
       in if mine then (if caller = None then [] else findMany (own_swap caller))
          else if isGlobal (act_roles act) then findMany (\<lambda>_. True)
          else
            let managedUnits = managedUnitIds db (act_userId act)
            in if caller = None \<and> managedUnits = [] then []
               else findMany (\<lambda>r. own_swap caller r \<or> managedUnits \<noteq> [] \<and> unit_swap db managedUnits r))"

section \<open>Transitions\<close>

definition swap_findOrThrow :: "id \<Rightarrow> swap_row tx" where
  "swap_findOrThrow i =
     bnd (asks (\<lambda>db. find_row sw_id i (t_swaps db))) (require (P2025 ''ShiftSwapRequest''))"

definition swap_commit :: "id \<Rightarrow> swap_row \<Rightarrow> swap_action \<Rightarrow> string option \<Rightarrow> swap_row tx" where
  "swap_commit i request action extraDecidedBy =
     bnd (lift_sum (nextState (sw_state request) action)) (\<lambda>to.
     bnd (updateMany t_swaps put_swaps (\<lambda>r. sw_id r = i \<and> sw_state r = sw_state request)
            (\<lambda>r. case extraDecidedBy of
               None \<Rightarrow> r\<lparr>sw_state := to\<rparr>
             | Some m \<Rightarrow> r\<lparr>sw_state := to, sw_decidedByManagerId := Some m\<rparr>)) (\<lambda>updCount.
     bnd (ensure (updCount \<noteq> 0) (SwapConcurrentModificationError i)) (\<lambda>_.
     swap_findOrThrow i)))"

definition applyTransition :: "id \<Rightarrow> swap_action \<Rightarrow> string option \<Rightarrow> swap_row tx" where
  "applyTransition i action extraDecidedBy =
     bnd (swap_load i) (\<lambda>request. swap_commit i request action extraDecidedBy)"

definition swap_submit :: "id \<Rightarrow> swap_row tx" where
  "swap_submit i = applyTransition i Submit None"

definition peerDecision :: "id \<Rightarrow> bool \<Rightarrow> swap_row tx" where
  "peerDecision i accept = applyTransition i (if accept then PeerAccept else PeerReject) None"

definition submitToManager :: "id \<Rightarrow> swap_row tx" where
  "submitToManager i = applyTransition i SubmitToManager None"

definition swap_cancel :: "id \<Rightarrow> swap_row tx" where
  "swap_cancel i = applyTransition i Cancel None"

section \<open>Approval\<close>

definition swap_audit_payload :: "swap_row \<Rightarrow> string \<Rightarrow> json" where
  "swap_audit_payload request decidedBy =
     JObj [(''requesterEmployeeId'', JStr (sw_requesterEmployeeId request)),
           (''requesterShiftId'', JStr (sw_requesterShiftId request)),
           (''targetEmployeeId'', json_opt (sw_targetEmployeeId request)),
           (''targetShiftId'', json_opt (sw_targetShiftId request)),
           (''decidedByManagerId'', JStr decidedBy)]"

definition set_holder :: "id \<Rightarrow> id \<Rightarrow> shift_row tx" where
  "set_holder shiftId employeeId =
     update_row t_shifts put_shifts sh_id (P2025 ''Shift'') shiftId
       (\<lambda>s. s\<lparr>sh_employeeId := employeeId\<rparr>)"

text \<open>The transaction: both reassignments, the guarded flip and the audit row.\<close>

definition approve_commit ::
  "id \<Rightarrow> swap_row \<Rightarrow> swap_state \<Rightarrow> id \<Rightarrow> shift_row \<Rightarrow> shift_row option \<Rightarrow> manager_decision \<Rightarrow> swap_row tx" where
  "approve_commit i request approvedState targetEmployeeId requesterShift targetShift input =
     transaction (
       bnd (set_holder (sh_id requesterShift) targetEmployeeId) (\<lambda>_.
       bnd (case targetShift of
              None \<Rightarrow> ret ()
            | Some ts \<Rightarrow> bnd (set_holder (sh_id ts) (sw_requesterEmployeeId request)) (\<lambda>_. ret ())) (\<lambda>_.
       bnd (updateMany t_swaps put_swaps (\<lambda>r. sw_id r = i \<and> sw_state r = SW_PENDING_MANAGER)
              (\<lambda>r. r\<lparr>sw_state := approvedState,
                     sw_decidedByManagerId := Some (md_decidedByManagerId input)\<rparr>)) (\<lambda>updCount.
       bnd (ensure (updCount \<noteq> 0) (SwapConcurrentModificationError i)) (\<lambda>_.
       bnd (swap_findOrThrow i) (\<lambda>updated.
       bnd (audit_log (md_actorUserId input) ''shift_swap.approved'' ''ShiftSwapRequest'' i
              (swap_audit_payload request (md_decidedByManagerId input)) (md_ipAddress input)) (\<lambda>_.
       ret updated)))))))"

definition swap_approve :: "validator \<Rightarrow> id \<Rightarrow> manager_decision \<Rightarrow> swap_row tx" where
  "swap_approve validate i input =
     bnd (swap_load i) (\<lambda>request.
     bnd (lift_sum (nextState (sw_state request) ManagerApprove)) (\<lambda>approvedState.
     case sw_targetEmployeeId request of
       None \<Rightarrow> throw (InvalidSwapTargetError i)
     | Some targetEmployeeId \<Rightarrow>
         bnd (swap_loadShift (sw_requesterShiftId request)) (\<lambda>requesterShift.
         bnd (case sw_targetShiftId request of
                None \<Rightarrow> ret None
              | Some tid \<Rightarrow> bnd (swap_loadShift tid) (\<lambda>s. ret (Some s))) (\<lambda>targetShift.
         bnd (validate
                \<lparr>fi_requesterShift = (sh_id requesterShift, sh_employeeId requesterShift),
                 fi_targetShift = map_option (\<lambda>s. (sh_id s, sh_employeeId s)) targetShift,
                 fi_incomingRequesterShiftEmployeeId = targetEmployeeId,
                 fi_incomingTargetShiftEmployeeId =
                   map_option (\<lambda>_. sw_requesterEmployeeId request) targetShift\<rparr>) (\<lambda>decision.
         if \<not> fd_feasible decision
         then throw (SwapNotFeasibleError
           (case fd_reason decision of None \<Rightarrow> ''unspecified'' | Some r \<Rightarrow> r))
         else approve_commit i request approvedState targetEmployeeId requesterShift targetShift input)))))"

definition swap_managerDecision :: "validator \<Rightarrow> id \<Rightarrow> manager_decision \<Rightarrow> swap_row tx" where
  "swap_managerDecision validate i input =
     (if \<not> md_approve input
      then applyTransition i ManagerReject (Some (md_decidedByManagerId input))
      else swap_approve validate i input)"

section \<open>The HTTP controller\<close>

definition ANY_ROLE :: "role list" where
  "ANY_ROLE = [PRACOWNIK, MANAGER, HR, ADMIN_KLIENTA]"

definition MANAGER_ROLES :: "role list" where
  "MANAGER_ROLES = [MANAGER, HR, ADMIN_KLIENTA]"

definition guardConflict :: "'a tx \<Rightarrow> 'a tx" where
  "guardConflict op =
     catch op (\<lambda>err. case err of
         SwapConcurrentModificationError i \<Rightarrow>
           throw (ConflictException (''ShiftSwapRequest '' @ i @ '' changed concurrently; reload and retry''))
       | _ \<Rightarrow> throw err)"

datatype swap_request =
  SrCreate id int create_swap_dto
| SrList "swap_state option" bool
| SrSubmit id
| SrPeerDecision id bool
| SrSubmitToManager id
| SrManagerDecision id bool
| SrCancel id

fun swap_handle :: "validator \<Rightarrow> actor \<Rightarrow> swap_request \<Rightarrow> swap_row list tx" where
  "swap_handle validate act (SrCreate newId now dto) =
     guarded ANY_ROLE act (bnd (swap_create newId now act dto) (\<lambda>r. ret [r]))"
| "swap_handle validate act (SrList state mine) = guarded ANY_ROLE act (swap_list act state mine)"
| "swap_handle validate act (SrSubmit i) =
     guarded ANY_ROLE act (bnd (assertRequester act i) (\<lambda>_.
       bnd (guardConflict (swap_submit i)) (\<lambda>r. ret [r])))"
| "swap_handle validate act (SrPeerDecision i accept) =
     guarded ANY_ROLE act (bnd (assertTarget act i) (\<lambda>_.
       bnd (guardConflict (peerDecision i accept)) (\<lambda>r. ret [r])))"
| "swap_handle validate act (SrSubmitToManager i) =
     guarded ANY_ROLE act (bnd (assertRequester act i) (\<lambda>_.
       bnd (guardConflict (submitToManager i)) (\<lambda>r. ret [r])))"
| "swap_handle validate act (SrManagerDecision i approve) =
     guarded MANAGER_ROLES act (bnd (assertManager act i) (\<lambda>_.
       bnd (guardConflict (swap_managerDecision validate i
         \<lparr>md_approve = approve, md_decidedByManagerId = act_userId act,
          md_actorUserId = act_userId act, md_ipAddress = act_ipAddress act\<rparr>)) (\<lambda>r. ret [r])))"
| "swap_handle validate act (SrCancel i) =
     guarded ANY_ROLE act (bnd (assertRequester act i) (\<lambda>_.
       bnd (guardConflict (swap_cancel i)) (\<lambda>r. ret [r])))"

end
