(* ===== verification/Samples.thy ===== *)
theory Samples
  imports Feasibility
begin

text \<open>
  Concrete databases on which the theorems of the development are applied, and an executable
  optimizer that keeps the promise the callers rely on.
\<close>

section \<open>A small tenant\<close>

definition empty_db :: tenant_db where
  "empty_db =
     \<lparr>t_users = [], t_userRoles = [], t_units = [], t_employees = [], t_lokalizacje = [], t_templates = [], t_demands = [],
      t_shifts = [], t_swaps = [], t_leaves = [], t_aiConfigs = [], t_proposals = [],
      t_candidates = [], t_rates = [], t_audit = [], t_company = [], t_grants = [],
      t_workOrders = [], t_complaints = [], t_snapshots = [], t_perfConfigs = [], t_recos = []\<rparr>"

definition sample_employee :: "id \<Rightarrow> id option \<Rightarrow> id \<Rightarrow> employee_row" where
  "sample_employee i uid unit =
     \<lparr>em_id = i, em_userId = uid, em_firstName = ''A'', em_lastName = ''B'', em_position = ''chef'',
      em_employmentType = UMOWA_O_PRACE, em_unitId = unit, em_homeLat = None, em_homeLng = None,
      em_etat = 1, em_qualifications = [''chef''], em_preferredDaysOff = [], em_preferredShiftStart = [],
      em_hiredAt = 0, em_pesel = ''c'' @ i, em_peselHash = ''h'' @ i, em_homeAddress = None\<rparr>"

definition sample_shift :: "id \<Rightarrow> id \<Rightarrow> int \<Rightarrow> shift_row" where
  "sample_shift i e d =
     \<lparr>sh_id = i, sh_employeeId = e, sh_lokalizacjaId = ''l1'', sh_demandId = None,
      sh_date = d * day_ms, sh_start = ''08:00'', sh_end = ''16:00'', sh_role = ''chef'',
      sh_source = MANUAL\<rparr>"

definition sample_swap :: "swap_state \<Rightarrow> swap_row" where
  "sample_swap st =
     \<lparr>sw_id = ''w1'', sw_requesterEmployeeId = ''e1'', sw_requesterShiftId = ''s1'',
      sw_targetEmployeeId = Some ''e2'', sw_targetShiftId = Some ''s2'', sw_state = st,
      sw_decidedByManagerId = None, sw_createdAt = 0\<rparr>"

text \<open>
  Two employees of unit \<open>u1\<close>, each with a shift in the week of Monday 1970-01-05 (day 4), a manager of
  \<open>u1\<close>, and a swap of the two shifts in a given state.
\<close>

definition sample_db :: "swap_state \<Rightarrow> tenant_db" where
  "sample_db st = empty_db
     \<lparr>t_users := [\<lparr>us_id = ''a1'', us_keycloakSub = ''k1'',
          us_email = ''k1@x'', us_active = True, us_createdAt = 0\<rparr>, \<lparr>us_id = ''a2'', us_keycloakSub = ''k2'',
          us_email = ''k2@x'', us_active = True, us_createdAt = 0\<rparr>,
                 \<lparr>us_id = ''a3'', us_keycloakSub = ''k3'',
          us_email = ''k3@x'', us_active = True, us_createdAt = 0\<rparr>],
      t_userRoles := [\<lparr>ur_userId = ''a3'', ur_role = MANAGER, ur_unitId = Some ''u1''\<rparr>],
      t_employees := [sample_employee ''e1'' (Some ''a1'') ''u1'', sample_employee ''e2'' (Some ''a2'') ''u1''],
      t_lokalizacje := [\<lparr>lo_id = ''l1'', lo_name = ''A'', lo_typ = ''T'', lo_lat = None, lo_lng = None\<rparr>],
      t_shifts := [sample_shift ''s1'' ''e1'' 4, sample_shift ''s2'' ''e2'' 5],
      t_swaps := [sample_swap st]\<rparr>"

definition worker1 :: actor where
  "worker1 = \<lparr>act_userId = ''k1'', act_roles = [''PRACOWNIK''], act_ipAddress = ''ip''\<rparr>"

definition worker2 :: actor where
  "worker2 = \<lparr>act_userId = ''k2'', act_roles = [''PRACOWNIK''], act_ipAddress = ''ip''\<rparr>"

definition manager1 :: actor where
  "manager1 = \<lparr>act_userId = ''k3'', act_roles = [''MANAGER''], act_ipAddress = ''ip''\<rparr>"

lemmas sample_defs = empty_db_def sample_employee_def sample_shift_def sample_swap_def sample_db_def
  worker1_def worker2_def manager1_def

section \<open>A sound optimizer\<close>

text \<open>
  An optimizer that tries the assignment of every employee to every demand. It answers \<open>OPTIMAL\<close> with
  it when every pair is eligible, the counts agree and no two demands conflict, and \<open>INFEASIBLE\<close>
  otherwise. On a single-employee problem with counts of 1 it is exact.
\<close>

definition full_ok :: "problem_input \<Rightarrow> bool" where
  "full_ok p \<longleftrightarrow>
     list_all (\<lambda>e. list_all (eligible e) (pi_demands p)) (pi_employees p) \<and>
     list_all (\<lambda>d. di_count d = int (length (remdups (map ei_id (pi_employees p))))) (pi_demands p) \<and>
     list_all (\<lambda>d1. list_all (\<lambda>d2. di_id d1 = di_id d2 \<or>
       \<not> conflict (abs_window (pi_weekStart p) d1) (abs_window (pi_weekStart p) d2)) (pi_demands p)) (pi_demands p)"

definition full_result :: "problem_input \<Rightarrow> solve_status \<Rightarrow> solve_result" where
  "full_result p st =
     \<lparr>sr_status = st,
      sr_assignments = concat (map (\<lambda>e. map (\<lambda>d. \<lparr>as_employeeId = ei_id e, as_demandId = di_id d\<rparr>)
        (pi_demands p)) (pi_employees p)),
      sr_metrics = \<lparr>me_commuteTotal = 0, me_etatDeviation = 0, me_fairnessScore = 0,
        me_preferencesHonoredPct = None\<rparr>,
      sr_unmet = []\<rparr>"

definition full_solve :: optimizer where
  "full_solve p = Inr (full_result p (if full_ok p then OPTIMAL else INFEASIBLE))"

lemma assigned_full_result:
  "assigned (full_result p st) = {(ei_id e, di_id d) |e d. e \<in> set (pi_employees p) \<and> d \<in> set (pi_demands p)}"
proof -
  have "assigned (full_result p st) =
      (\<Union>e \<in> set (pi_employees p). (\<lambda>d. (ei_id e, di_id d)) ` set (pi_demands p))"
    by (simp add: assigned_def full_result_def image_UN image_image)
  then show ?thesis by blast
qed

lemma full_ok_phase1: "full_ok p \<Longrightarrow> phase1_ok p (assigned (full_result p st))"
proof -
  assume ok: "full_ok p"
  have "{eid. (eid, di_id d) \<in> assigned (full_result p st)} = set (map ei_id (pi_employees p))"
    if "d \<in> set (pi_demands p)" for d
    using that by (auto simp: assigned_full_result)
  then have "card {eid. (eid, di_id d) \<in> assigned (full_result p st)} = length (remdups (map ei_id (pi_employees p)))"
    if "d \<in> set (pi_demands p)" for d
    using that by (simp add: length_remdups_card_conv)
  with ok show ?thesis
    unfolding phase1_ok_def
    by (auto simp: full_ok_def list_all_iff assigned_full_result)
qed

lemma full_solve_sound: "sound_optimizer full_solve"
  by (auto simp: sound_optimizer_def full_solve_def full_result_def
      dest: full_ok_phase1 [of _ OPTIMAL, unfolded full_result_def] split: if_splits)

end
