(* ===== verification/ShiftSwapProps.thy ===== *)
theory ShiftSwapProps
  imports ShiftSwap Samples
begin

text \<open>
  Correctness of the shift-swap service: the optimistic lock under arbitrary interference, the exact
  effect and the atomicity of an approval, who may do what, and the invariants of every reachable
  database.
\<close>

section \<open>The write half of a transition\<close>

definition swap_flip :: "swap_state \<Rightarrow> string option \<Rightarrow> swap_row \<Rightarrow> swap_row" where
  "swap_flip to m r =
     (case m of None \<Rightarrow> r\<lparr>sw_state := to\<rparr>
      | Some d \<Rightarrow> r\<lparr>sw_state := to, sw_decidedByManagerId := Some d\<rparr>)"

lemma swap_flip_simps [simp]:
  "sw_id (swap_flip to m r) = sw_id r"
  "sw_state (swap_flip to m r) = to"
  "sw_requesterEmployeeId (swap_flip to m r) = sw_requesterEmployeeId r"
  "sw_requesterShiftId (swap_flip to m r) = sw_requesterShiftId r"
  "sw_targetEmployeeId (swap_flip to m r) = sw_targetEmployeeId r"
  "sw_targetShiftId (swap_flip to m r) = sw_targetShiftId r"
  by (simp_all add: swap_flip_def split: option.splits)

lemma swap_commit_alt:
  "swap_commit i request action m =
     bnd (lift_sum (nextState (sw_state request) action)) (\<lambda>to.
     bnd (updateMany t_swaps put_swaps (\<lambda>r. sw_id r = i \<and> sw_state r = sw_state request)
            (swap_flip to m)) (\<lambda>n.
     bnd (ensure (n \<noteq> 0) (SwapConcurrentModificationError i)) (\<lambda>_. swap_findOrThrow i)))"
  by (simp add: swap_commit_def swap_flip_def [abs_def])

lemma swap_commit_Inl_unchanged:
  assumes "swap_commit i request action m db = (Inl e, db')"
  shows "db' = db"
proof (cases "nextState (sw_state request) action")
  case (Inl e')
  with assms show ?thesis by (simp add: swap_commit_alt)
next
  case (Inr to)
  let ?P = "\<lambda>r. sw_id r = i \<and> sw_state r = sw_state request"
  show ?thesis
  proof (cases "count_rows ?P (t_swaps db) = 0")
    case True
    with Inr assms show ?thesis
      by (simp add: swap_commit_alt update_rows_none)
  next
    case False
    then have "i \<in> sw_id ` set (t_swaps db)" by (auto simp: count_rows_0_iff)
    then have "find_row sw_id i (t_swaps db) \<noteq> None" by (simp add: find_row_None_iff)
    with Inr False assms show ?thesis
      by (auto simp: swap_commit_alt swap_findOrThrow_def find_row_update_rows)
  qed
qed

lemma swap_commit_InrD:
  assumes keys: "distinct (map sw_id (t_swaps db))"
    and ok: "swap_commit i request action m db = (Inr r, db')"
  obtains r0 to where
    "find_row sw_id i (t_swaps db) = Some r0" "sw_state r0 = sw_state request"
    "TRANSITIONS (sw_state r0) action = Some to" "r = swap_flip to m r0"
    "db' = put_swaps (update_rows (\<lambda>r. sw_id r = i \<and> sw_state r = sw_state request) (swap_flip to m) (t_swaps db)) db"
    "find_row sw_id i (t_swaps db') = Some r"
proof -
  from ok obtain to where to: "nextState (sw_state request) action = Inr to"
    by (cases "nextState (sw_state request) action") (auto simp: swap_commit_alt)
  let ?P = "\<lambda>r. sw_id r = i \<and> sw_state r = sw_state request"
  let ?up = "updateMany t_swaps put_swaps ?P (swap_flip to m)"
  obtain n db1 where up: "?up db = (Inr n, db1)" by (simp add: updateMany_def)
  have n: "n \<noteq> 0" and found: "find_row sw_id i (t_swaps db1) = Some r" and db': "db' = db1"
    using ok to up by (auto simp: swap_commit_alt swap_findOrThrow_def split: if_splits option.splits)
  from swap_table.guarded_hits [OF keys up n] obtain r0
    where r0: "find_row sw_id i (t_swaps db) = Some r0" "sw_state r0 = sw_state request"
      "find_row sw_id i (t_swaps db1) = Some (swap_flip to m r0)"
    by auto
  show thesis
  proof (rule that [OF r0(1,2)])
    show "TRANSITIONS (sw_state r0) action = Some to" using to r0 by (simp add: nextState_Inr_iff)
    show "r = swap_flip to m r0" using found r0 by simp
    show "db' = put_swaps (update_rows ?P (swap_flip to m) (t_swaps db)) db"
      using up db' by (simp add: updateMany_def)
    show "find_row sw_id i (t_swaps db') = Some r" using found db' by simp
  qed
qed

lemma swap_commit_others:
  assumes "distinct (map sw_id (t_swaps db))" and "swap_commit i request action m db = (Inr r, db')"
    and "j \<noteq> i"
  shows "find_row sw_id j (t_swaps db') = find_row sw_id j (t_swaps db)"
proof -
  from assms(1,2) obtain r0 to where
    "db' = put_swaps (update_rows (\<lambda>r. sw_id r = i \<and> sw_state r = sw_state request) (swap_flip to m) (t_swaps db)) db"
    by (rule swap_commit_InrD)
  then have "updateMany t_swaps put_swaps (\<lambda>r. sw_id r = i \<and> sw_state r = sw_state request) (swap_flip to m) db
      = (Inr (count_rows (\<lambda>r. sw_id r = i \<and> sw_state r = sw_state request) (t_swaps db)), db')"
    by (simp add: updateMany_def)
  from swap_table.guarded_others [OF this assms(3)] show ?thesis by simp
qed

text \<open>
  C1. Whatever other writers did between the read of a swap request and the write of a transition
  (the database \<open>db\<close> the write finds is arbitrary), a write that succeeds found the request in the
  very state it had been validated against, moved it along one edge of the transition table, and
  changed nothing else.
\<close>

theorem swap_commit_no_clobber:
  assumes "distinct (map sw_id (t_swaps db))"
    and "swap_commit i request action m db = (Inr r, db')"
  shows "\<exists>r0. find_row sw_id i (t_swaps db) = Some r0 \<and> sw_state r0 = sw_state request \<and>
      TRANSITIONS (sw_state r0) action = Some (sw_state r) \<and>
      r = swap_flip (sw_state r) m r0 \<and> find_row sw_id i (t_swaps db') = Some r \<and>
      (\<forall>j. j \<noteq> i \<longrightarrow> find_row sw_id j (t_swaps db') = find_row sw_id j (t_swaps db)) \<and>
      db' = put_swaps (t_swaps db') db"
proof -
  from assms obtain r0 to where *: "find_row sw_id i (t_swaps db) = Some r0"
    "sw_state r0 = sw_state request" "TRANSITIONS (sw_state r0) action = Some to"
    "r = swap_flip to m r0" "find_row sw_id i (t_swaps db') = Some r"
    and db': "db' = put_swaps (update_rows (\<lambda>r. sw_id r = i \<and> sw_state r = sw_state request) (swap_flip to m) (t_swaps db)) db"
    by (rule swap_commit_InrD)
  with swap_commit_others [OF assms] show ?thesis by (intro exI [of _ r0]) simp
qed

text \<open>The transition commits on a concrete request, here the submission of a draft.\<close>

lemma sample_commit:
  "swap_commit ''w1'' (sample_swap SW_DRAFT) Submit None (sample_db SW_DRAFT) =
     (Inr (sample_swap SW_PENDING_PEER), sample_db SW_PENDING_PEER)"
  by code_simp

lemma sample_db_keys [simp]: "wf_keys (sample_db st)"
  by (simp add: wf_keys_def sample_defs)

theorem swap_commit_no_clobber_witness:
  "\<exists>r0. find_row sw_id ''w1'' (t_swaps (sample_db SW_DRAFT)) = Some r0 \<and> sw_state r0 = SW_DRAFT \<and>
     TRANSITIONS (sw_state r0) Submit = Some SW_PENDING_PEER"
  using swap_commit_no_clobber [OF wf_keysD(2) [OF sample_db_keys] sample_commit]
  by (auto simp: sample_swap_def)

section \<open>Approval\<close>

text \<open>Who holds each shift: what a swap is about, without the rest of the rows.\<close>

definition holders :: "tenant_db \<Rightarrow> id \<Rightarrow> id option" where
  "holders db i = map_option sh_employeeId (find_row sh_id i (t_shifts db))"

text \<open>The abstract effect of an approved request on the holders.\<close>

definition exchange :: "swap_row \<Rightarrow> id \<Rightarrow> (id \<Rightarrow> id option) \<Rightarrow> (id \<Rightarrow> id option)" where
  "exchange request tgt h =
     (case sw_targetShiftId request of
        None \<Rightarrow> h(sw_requesterShiftId request \<mapsto> tgt)
      | Some t \<Rightarrow> h(sw_requesterShiftId request \<mapsto> tgt, t \<mapsto> sw_requesterEmployeeId request))"

definition give_shift :: "id \<Rightarrow> id \<Rightarrow> shift_row list \<Rightarrow> shift_row list" where
  "give_shift i e = update_rows (\<lambda>s. sh_id s = i) (\<lambda>s. s\<lparr>sh_employeeId := e\<rparr>)"

definition reassign :: "id \<Rightarrow> id \<Rightarrow> id option \<Rightarrow> id \<Rightarrow> shift_row list \<Rightarrow> shift_row list" where
  "reassign rs tgt ts req ss =
     (case ts of None \<Rightarrow> give_shift rs tgt ss | Some t \<Rightarrow> give_shift t req (give_shift rs tgt ss))"

lemma find_give_shift:
  "find_row sh_id j (give_shift i e ss) =
     map_option (\<lambda>s. if sh_id s = i then s\<lparr>sh_employeeId := e\<rparr> else s) (find_row sh_id j ss)"
  by (simp add: give_shift_def find_row_update_rows)

lemma holders_give_shift:
  assumes "find_row sh_id i (t_shifts db) \<noteq> None"
  shows "holders (put_shifts (give_shift i e (t_shifts db)) db) = (holders db)(i \<mapsto> e)"
proof (rule ext)
  fix j
  show "holders (put_shifts (give_shift i e (t_shifts db)) db) j = ((holders db)(i \<mapsto> e)) j"
    using assms find_row_SomeD [of sh_id j "t_shifts db"]
    by (cases "find_row sh_id j (t_shifts db)") (auto simp: holders_def find_give_shift)
qed

lemma set_holder_eq:
  "bnd (set_holder i e) f db =
     (case find_row sh_id i (t_shifts db) of
        None \<Rightarrow> (Inl (P2025 ''Shift''), db)
      | Some s \<Rightarrow> f (s\<lparr>sh_employeeId := e\<rparr>) (put_shifts (give_shift i e (t_shifts db)) db))"
  by (simp add: set_holder_def give_shift_def split: option.splits)

definition approval_audit :: "id \<Rightarrow> swap_row \<Rightarrow> manager_decision \<Rightarrow> audit_row" where
  "approval_audit i request input =
     \<lparr>au_actorUserId = md_actorUserId input, au_action = ''shift_swap.approved'',
      au_entityType = ''ShiftSwapRequest'', au_entityId = i,
      au_payload = swap_audit_payload request (md_decidedByManagerId input),
      au_ipAddress = md_ipAddress input\<rparr>"

lemma approve_commit_InrD:
  assumes keys: "distinct (map sw_id (t_swaps db))"
    and ok: "approve_commit i request to tgt rs ts input db = (Inr r, db')"
  obtains r0 where
    "find_row sw_id i (t_swaps db) = Some r0" "sw_state r0 = SW_PENDING_MANAGER"
    "r = swap_flip to (Some (md_decidedByManagerId input)) r0"
    "db' = db\<lparr>t_shifts := reassign (sh_id rs) tgt (map_option sh_id ts) (sw_requesterEmployeeId request) (t_shifts db),
        t_swaps := update_rows (\<lambda>r. sw_id r = i \<and> sw_state r = SW_PENDING_MANAGER)
          (swap_flip to (Some (md_decidedByManagerId input))) (t_swaps db),
        t_audit := t_audit db @ [approval_audit i request input]\<rparr>"
    "find_row sh_id (sh_id rs) (t_shifts db) \<noteq> None"
    "\<forall>t. ts = Some t \<longrightarrow> find_row sh_id (sh_id t) (t_shifts db) \<noteq> None"
proof -
  let ?P = "\<lambda>r. sw_id r = i \<and> sw_state r = SW_PENDING_MANAGER"
  let ?f = "swap_flip to (Some (md_decidedByManagerId input))"
  have flip: "(\<lambda>r. r\<lparr>sw_state := to, sw_decidedByManagerId := Some (md_decidedByManagerId input)\<rparr>) = ?f"
    by (simp add: fun_eq_iff swap_flip_def)
  from ok have body: "count_rows ?P (t_swaps db) \<noteq> 0 \<and> find_row sw_id i (update_rows ?P ?f (t_swaps db)) = Some r \<and>
     db' = db\<lparr>t_shifts := reassign (sh_id rs) tgt (map_option sh_id ts) (sw_requesterEmployeeId request) (t_shifts db),
        t_swaps := update_rows ?P ?f (t_swaps db), t_audit := t_audit db @ [approval_audit i request input]\<rparr> \<and>
     find_row sh_id (sh_id rs) (t_shifts db) \<noteq> None \<and>
     (\<forall>t. ts = Some t \<longrightarrow> find_row sh_id (sh_id t) (t_shifts db) \<noteq> None)"
    by (cases ts)
      (auto simp: approve_commit_def transaction_Inr_iff set_holder_eq flip swap_findOrThrow_def
        audit_log_def approval_audit_def reassign_def find_give_shift bnd_assoc
        split: option.splits if_splits)
  then have n: "0 < count_rows ?P (t_swaps db)" by simp
  with keys obtain r0 where "find_row sw_id i (t_swaps db) = Some r0" "sw_state r0 = SW_PENDING_MANAGER"
    by (auto simp: count_rows_guarded)
  moreover from this have "sw_id r0 = i" by (auto dest: find_row_SomeD)
  ultimately show thesis
    using body that by (auto simp: find_row_update_rows)
qed

text \<open>The question an approval asks the validator.\<close>

definition feas_query :: "swap_row \<Rightarrow> id \<Rightarrow> shift_row \<Rightarrow> shift_row option \<Rightarrow> feas_input" where
  "feas_query request tgt rs ts =
     \<lparr>fi_requesterShift = (sh_id rs, sh_employeeId rs),
      fi_targetShift = map_option (\<lambda>s. (sh_id s, sh_employeeId s)) ts,
      fi_incomingRequesterShiftEmployeeId = tgt,
      fi_incomingTargetShiftEmployeeId = map_option (\<lambda>_. sw_requesterEmployeeId request) ts\<rparr>"

lemma swap_approve_InrD:
  assumes port: "feasibility_port validate"
    and ok: "swap_approve validate i input db = (Inr r, db')"
  obtains request tgt rs ts d where
    "find_row sw_id i (t_swaps db) = Some request" "sw_state request = SW_PENDING_MANAGER"
    "sw_targetEmployeeId request = Some tgt"
    "find_row sh_id (sw_requesterShiftId request) (t_shifts db) = Some rs"
    "case sw_targetShiftId request of None \<Rightarrow> ts = None
      | Some t \<Rightarrow> ts = find_row sh_id t (t_shifts db) \<and> ts \<noteq> None"
    "validate (feas_query request tgt rs ts) db = (Inr d, db)" "fd_feasible d"
    "approve_commit i request SW_APPROVED tgt rs ts input db = (Inr r, db')"
proof -
  note query [simp] = feasibility_port.bnd_validate [OF port]
  from ok obtain request where request: "find_row sw_id i (t_swaps db) = Some request"
    by (auto simp: swap_approve_def bnd_swap_load split: option.splits)
  with ok have st: "sw_state request = SW_PENDING_MANAGER"
    and ok1: "(case sw_targetEmployeeId request of
       None \<Rightarrow> throw (InvalidSwapTargetError i)
     | Some tgt \<Rightarrow>
         bnd (swap_loadShift (sw_requesterShiftId request)) (\<lambda>rs.
         bnd (case sw_targetShiftId request of
                None \<Rightarrow> ret None
              | Some tid \<Rightarrow> bnd (swap_loadShift tid) (\<lambda>s. ret (Some s))) (\<lambda>ts.
         bnd (validate (feas_query request tgt rs ts)) (\<lambda>d.
         if \<not> fd_feasible d
         then throw (SwapNotFeasibleError (case fd_reason d of None \<Rightarrow> ''unspecified'' | Some r \<Rightarrow> r))
         else approve_commit i request SW_APPROVED tgt rs ts input)))) db = (Inr r, db')"
    by (auto simp: swap_approve_def bnd_swap_load nextState_def TRANSITIONS_ManagerApprove feas_query_def
        split: option.splits sum.splits)
  then obtain tgt rs where tgt: "sw_targetEmployeeId request = Some tgt"
    and rs: "find_row sh_id (sw_requesterShiftId request) (t_shifts db) = Some rs"
    by (auto simp: bnd_swap_loadShift split: option.splits)
  define ts where "ts = (case sw_targetShiftId request of None \<Rightarrow> None | Some t \<Rightarrow> find_row sh_id t (t_shifts db))"
  have ts: "case sw_targetShiftId request of None \<Rightarrow> ts = None
      | Some t \<Rightarrow> ts = find_row sh_id t (t_shifts db) \<and> ts \<noteq> None"
    using ok1 tgt rs by (auto simp: bnd_swap_loadShift ts_def bnd_assoc split: option.splits)
  with ok1 tgt rs have ok2: "bnd (validate (feas_query request tgt rs ts)) (\<lambda>d.
         if \<not> fd_feasible d
         then throw (SwapNotFeasibleError (case fd_reason d of None \<Rightarrow> ''unspecified'' | Some r \<Rightarrow> r))
         else approve_commit i request SW_APPROVED tgt rs ts input) db = (Inr r, db')"
    by (auto simp del: query simp: bnd_swap_loadShift bnd_assoc split: option.splits)
  obtain v where v: "validate (feas_query request tgt rs ts) db = (v, db)"
    using feasibility_port.validate_state [OF port] by (metis surj_pair)
  with ok2 obtain d where "v = Inr d" "fd_feasible d"
    "approve_commit i request SW_APPROVED tgt rs ts input db = (Inr r, db')"
    by (cases v) (auto split: if_splits)
  then show thesis using that request st tgt rs ts v by blast
qed

text \<open>
  C2. Refinement of the abstract exchange. An approval that succeeds found the request in
  \<open>PENDING_MANAGER\<close>, gave the requester's shift to the target and, for a 1:1 swap, the target's shift
  to the requester, left every other holder alone, moved that request alone to \<open>APPROVED\<close> with the
  deciding manager recorded, and appended exactly one audit row; nothing else in the database
  changed. This holds for every validator that does not write.
\<close>

theorem approve_refines_exchange:
  assumes keys: "wf_keys db" and port: "feasibility_port validate"
    and ok: "swap_approve validate i input db = (Inr r, db')"
  shows "\<exists>request tgt. find_row sw_id i (t_swaps db) = Some request \<and>
      sw_state request = SW_PENDING_MANAGER \<and> sw_targetEmployeeId request = Some tgt \<and>
      holders db' = exchange request tgt (holders db) \<and>
      r = request\<lparr>sw_state := SW_APPROVED, sw_decidedByManagerId := Some (md_decidedByManagerId input)\<rparr> \<and>
      (\<forall>j. find_row sw_id j (t_swaps db') = (if j = i then Some r else find_row sw_id j (t_swaps db))) \<and>
      db' = db\<lparr>t_shifts := t_shifts db', t_swaps := t_swaps db',
        t_audit := t_audit db @ [approval_audit i request input]\<rparr>"
proof -
  from port ok obtain request tgt rs ts d where
    request: "find_row sw_id i (t_swaps db) = Some request" "sw_state request = SW_PENDING_MANAGER"
    and tgt: "sw_targetEmployeeId request = Some tgt"
    and rs: "find_row sh_id (sw_requesterShiftId request) (t_shifts db) = Some rs"
    and ts: "case sw_targetShiftId request of None \<Rightarrow> ts = None
      | Some t \<Rightarrow> ts = find_row sh_id t (t_shifts db) \<and> ts \<noteq> None"
    and commit: "approve_commit i request SW_APPROVED tgt rs ts input db = (Inr r, db')"
    by (rule swap_approve_InrD)
  let ?P = "\<lambda>r. sw_id r = i \<and> sw_state r = SW_PENDING_MANAGER"
  let ?f = "swap_flip SW_APPROVED (Some (md_decidedByManagerId input))"
  from wf_keysD(2) [OF keys] commit
  have r: "r = ?f request" and db': "db' = db\<lparr>t_shifts := reassign (sh_id rs) tgt (map_option sh_id ts)
         (sw_requesterEmployeeId request) (t_shifts db),
        t_swaps := update_rows ?P ?f (t_swaps db), t_audit := t_audit db @ [approval_audit i request input]\<rparr>"
    and found: "find_row sh_id (sh_id rs) (t_shifts db) \<noteq> None"
      "\<forall>t. ts = Some t \<longrightarrow> find_row sh_id (sh_id t) (t_shifts db) \<noteq> None"
    using request(1) by (auto elim!: approve_commit_InrD)
  have ids: "sh_id rs = sw_requesterShiftId request" "map_option sh_id ts = sw_targetShiftId request"
    using rs ts by (auto dest: find_row_SomeD split: option.splits)
  have "holders db' = exchange request tgt (holders db)"
  proof (cases ts)
    case None
    with ids holders_give_shift [OF found(1)] show ?thesis
      by (simp add: db' reassign_def exchange_def holders_def [abs_def])
  next
    case (Some t)
    let ?db1 = "put_shifts (give_shift (sh_id rs) tgt (t_shifts db)) db"
    have "find_row sh_id (sh_id t) (t_shifts ?db1) \<noteq> None"
      using found(2) Some by (simp add: find_give_shift)
    from holders_give_shift [OF this] holders_give_shift [OF found(1)] Some ids(1) ids(2) [symmetric]
    show ?thesis
      by (simp add: db' reassign_def exchange_def holders_def [abs_def])
  qed
  moreover have "find_row sw_id j (t_swaps db') = (if j = i then Some r else find_row sw_id j (t_swaps db))" for j
    using request r by (cases "find_row sw_id j (t_swaps db)")
      (auto simp: db' find_row_update_rows dest: find_row_SomeD)
  moreover have "r = request\<lparr>sw_state := SW_APPROVED, sw_decidedByManagerId := Some (md_decidedByManagerId input)\<rparr>"
    using r by (simp add: swap_flip_def)
  ultimately show ?thesis
    using request tgt by (intro exI [of _ request] exI [of _ tgt]) (simp add: db')
qed

definition sample_decision :: "bool \<Rightarrow> manager_decision" where
  "sample_decision approve =
     \<lparr>md_approve = approve, md_decidedByManagerId = ''k3'', md_actorUserId = ''k3'', md_ipAddress = ''ip''\<rparr>"

definition sample_approved_db :: tenant_db where
  "sample_approved_db = (sample_db SW_PENDING_MANAGER)
     \<lparr>t_shifts := [sample_shift ''s1'' ''e2'' 4, sample_shift ''s2'' ''e1'' 5],
      t_swaps := [(sample_swap SW_APPROVED)\<lparr>sw_decidedByManagerId := Some ''k3''\<rparr>],
      t_audit := [approval_audit ''w1'' (sample_swap SW_PENDING_MANAGER) (sample_decision True)]\<rparr>"

lemma sample_approve:
  "swap_approve allow_all_validate ''w1'' (sample_decision True) (sample_db SW_PENDING_MANAGER) =
     (Inr ((sample_swap SW_APPROVED)\<lparr>sw_decidedByManagerId := Some ''k3''\<rparr>), sample_approved_db)"
  by code_simp

theorem approve_refines_exchange_witness:
  "\<exists>request tgt. holders sample_approved_db =
      exchange request tgt (holders (sample_db SW_PENDING_MANAGER))"
  using approve_refines_exchange [OF sample_db_keys allow_all.feasibility_port_axioms sample_approve]
  by blast

text \<open>
  All or nothing. A manager decision that fails, for whatever reason (an illegal state, a missing
  shift, an infeasible schedule, a lost race, an error of the optimizer), leaves the database exactly
  as it was: no shift has moved and nothing was logged.
\<close>

theorem managerDecision_atomic:
  assumes port: "feasibility_port validate"
    and err: "swap_managerDecision validate i input db = (Inl e, db')"
  shows "db' = db"
proof (cases "md_approve input")
  case False
  with err show ?thesis
    by (auto simp: swap_managerDecision_def applyTransition_def bnd_swap_load
        split: option.splits dest: swap_commit_Inl_unchanged)
next
  case True
  with err have "swap_approve validate i input db = (Inl e, db')"
    by (simp add: swap_managerDecision_def)
  then show ?thesis
    by (auto simp: swap_approve_def bnd_swap_load bnd_swap_loadShift bnd_assoc
        feasibility_port.bnd_validate [OF port] approve_commit_def
        split: option.splits sum.splits if_splits dest: transaction_rollback)
qed

lemma sample_atomic:
  "swap_managerDecision allow_all_validate ''w1'' (sample_decision True) (sample_db SW_PEER_AGREED) =
     (Inl (IllegalSwapTransitionError SW_PEER_AGREED ManagerApprove), sample_db SW_PEER_AGREED)"
  by code_simp

theorem managerDecision_atomic_witness:
  "snd (swap_managerDecision allow_all_validate ''w1'' (sample_decision True) (sample_db SW_PEER_AGREED))
     = sample_db SW_PEER_AGREED"
  unfolding sample_atomic
  using managerDecision_atomic [OF allow_all.feasibility_port_axioms sample_atomic] by simp

end
