(* ===== verification/SwapLegality.thy ===== *)
theory SwapLegality
  imports ShiftSwapProps
begin

text \<open>
  What an approval that went through the optimizer-backed validator guarantees: in the database it
  leaves behind, each party holds a week that satisfies the hard rules H1 to H4.
\<close>

section \<open>The shifts an employee holds\<close>

text \<open>The shifts of an employee in the week of a Monday, widened by a day on each side.\<close>

definition held :: "tenant_db \<Rightarrow> id \<Rightarrow> int \<Rightarrow> shift_row list" where
  "held db e weekStart =
     filter (\<lambda>s. sh_employeeId s = e \<and> addDays weekStart (- 1) \<le> sh_date s \<and>
        sh_date s < addDays (addDays weekStart 7) 1) (t_shifts db)"

text \<open>Legality only looks at the slots, not at the rest of the rows.\<close>

lemma week_legal_slots:
  assumes legal: "week_legal e w leave ss"
    and slots: "\<forall>s \<in> set ss'. \<exists>s0 \<in> set ss. demand_of_shift s0 = demand_of_shift s"
    and keys: "inj_on sh_id (set ss')"
  shows "week_legal e w leave ss'"
proof -
  have *: "sh_role s0 = sh_role s \<and> isoDate (sh_date s0) = isoDate (sh_date s) \<and> sh_id s0 = sh_id s"
    if "demand_of_shift s0 = demand_of_shift s" for s0 s
    using that by (simp add: demand_of_shift_def)
  show ?thesis
    unfolding week_legal_def
  proof (intro conjI ballI impI)
    fix s
    assume "s \<in> set ss'"
    with slots obtain s0 where s0: "s0 \<in> set ss" "demand_of_shift s0 = demand_of_shift s" by blast
    with legal * [OF s0(2)] show "sh_role s \<in> set (em_qualifications e)" "isoDate (sh_date s) \<notin> set leave"
      unfolding week_legal_def by auto
  next
    fix s1 s2
    assume s: "s1 \<in> set ss'" "s2 \<in> set ss'" "s1 \<noteq> s2"
    with slots obtain t1 t2 where t: "t1 \<in> set ss" "t2 \<in> set ss"
      "demand_of_shift t1 = demand_of_shift s1" "demand_of_shift t2 = demand_of_shift s2" by meson
    from s keys have "sh_id s1 \<noteq> sh_id s2" by (auto dest: inj_onD)
    with * t have "t1 \<noteq> t2" by metis
    with legal t show "\<not> conflict (abs_window (isoDate w) (demand_of_shift s1))
        (abs_window (isoDate w) (demand_of_shift s2))"
      unfolding week_legal_def by metis
  qed
qed

lemma map_id_give_shift: "map sh_id (give_shift i e ss) = map sh_id ss"
  by (simp add: give_shift_def map_update_rows)

lemma map_id_reassign: "map sh_id (reassign rs tgt ts req ss) = map sh_id ss"
  by (simp add: reassign_def map_id_give_shift split: option.splits)

lemma demand_of_shift_holder [simp]: "demand_of_shift (s\<lparr>sh_employeeId := e\<rparr>) = demand_of_shift s"
  by (simp add: demand_of_shift_def)

lemma in_give_shift:
  assumes "s \<in> set (give_shift i e ss)"
  obtains s0 where "s0 \<in> set ss" "s = (if sh_id s0 = i then s0\<lparr>sh_employeeId := e\<rparr> else s0)"
  using assms by (auto simp: give_shift_def set_update_rows)

lemma in_reassign:
  assumes s: "s \<in> set (reassign rs tgt ts req ss)"
  obtains s0 where "s0 \<in> set ss" "sh_id s = sh_id s0" "demand_of_shift s = demand_of_shift s0"
    "sh_employeeId s =
      (if ts = Some (sh_id s0) then req else if sh_id s0 = rs then tgt else sh_employeeId s0)"
    "sh_id s0 \<noteq> rs \<and> ts \<noteq> Some (sh_id s0) \<longrightarrow> s = s0"
proof (cases ts)
  case None
  with s have "s \<in> set (give_shift rs tgt ss)" by (simp add: reassign_def)
  then obtain s0 where "s0 \<in> set ss" "s = (if sh_id s0 = rs then s0\<lparr>sh_employeeId := tgt\<rparr> else s0)"
    by (rule in_give_shift)
  with None show thesis by (intro that [of s0]) auto
next
  case (Some t)
  with s have "s \<in> set (give_shift t req (give_shift rs tgt ss))" by (simp add: reassign_def)
  then obtain s1 where "s1 \<in> set (give_shift rs tgt ss)"
    and s1: "s = (if sh_id s1 = t then s1\<lparr>sh_employeeId := req\<rparr> else s1)"
    by (rule in_give_shift)
  then obtain s0 where "s0 \<in> set ss" "s1 = (if sh_id s0 = rs then s0\<lparr>sh_employeeId := tgt\<rparr> else s0)"
    by (blast elim: in_give_shift)
  with Some s1 show thesis by (intro that [of s0]) auto
qed

lemma held_keys: "distinct (map sh_id (t_shifts db)) \<Longrightarrow> inj_on sh_id (set (held db e w))"
  by (auto simp: held_def distinct_map inj_on_def)

text \<open>
  After the exchange a party holds nothing but its post-swap set: the incoming shift, and its earlier
  shifts of the window without the one handed away.
\<close>

lemma held_target:
  assumes keys: "distinct (map sh_id (t_shifts db))"
    and rs: "find_row sh_id (sh_id rs) (t_shifts db) = Some rs"
    and ne: "tgt \<noteq> req" and ts: "ts \<noteq> Some (sh_id rs)"
    and db': "t_shifts db' = reassign (sh_id rs) tgt ts req (t_shifts db)"
    and s: "s \<in> set (held db' tgt (mondayOf (sh_date rs)))"
  shows "\<exists>s0 \<in> set (post_swap db tgt rs ts). demand_of_shift s0 = demand_of_shift s"
proof -
  have same: "s0 = rs" if "s0 \<in> set (t_shifts db)" "sh_id s0 = sh_id rs" for s0
    using find_row_in [OF keys that(1)] that(2) rs by simp
  from s have "s \<in> set (reassign (sh_id rs) tgt ts req (t_shifts db))" and e: "sh_employeeId s = tgt"
    by (simp_all add: held_def db')
  then obtain s0 where s0: "s0 \<in> set (t_shifts db)"
    and cases: "sh_id s0 = sh_id rs \<and> demand_of_shift s = demand_of_shift s0 \<or>
        sh_id s0 \<noteq> sh_id rs \<and> ts \<noteq> Some (sh_id s0) \<and> s = s0"
    using ne by (elim in_reassign) (metis (full_types))
  show ?thesis
  proof (cases "sh_id s0 = sh_id rs")
    case True
    with cases same [OF s0] have "demand_of_shift rs = demand_of_shift s" by simp
    then show ?thesis by (intro bexI [of _ rs]) (simp_all add: post_swap_def Let_def)
  next
    case False
    with cases s s0 show ?thesis
      by (intro bexI [of _ s]) (auto simp: post_swap_def Let_def held_def split: option.splits)
  qed
qed

lemma held_requester:
  assumes keys: "distinct (map sh_id (t_shifts db))"
    and t: "find_row sh_id (sh_id t) (t_shifts db) = Some t"
    and ne: "tgt \<noteq> req"
    and db': "t_shifts db' = reassign rs tgt (Some (sh_id t)) req (t_shifts db)"
    and s: "s \<in> set (held db' req (mondayOf (sh_date t)))"
  shows "\<exists>s0 \<in> set (post_swap db req t (Some rs)). demand_of_shift s0 = demand_of_shift s"
proof -
  have same: "s0 = t" if "s0 \<in> set (t_shifts db)" "sh_id s0 = sh_id t" for s0
    using find_row_in [OF keys that(1)] that(2) t by simp
  from s have "s \<in> set (reassign rs tgt (Some (sh_id t)) req (t_shifts db))" and e: "sh_employeeId s = req"
    by (simp_all add: held_def db')
  then obtain s0 where s0: "s0 \<in> set (t_shifts db)"
    and cases: "sh_id s0 = sh_id t \<and> demand_of_shift s = demand_of_shift s0 \<or>
        sh_id s0 \<noteq> sh_id t \<and> sh_id s0 \<noteq> rs \<and> s = s0"
    using ne by (elim in_reassign) (metis (full_types) option.inject)
  show ?thesis
  proof (cases "sh_id s0 = sh_id t")
    case True
    with cases same [OF s0] have "demand_of_shift t = demand_of_shift s" by simp
    then show ?thesis by (intro bexI [of _ t]) (simp_all add: post_swap_def Let_def)
  next
    case False
    with cases s s0 show ?thesis
      by (intro bexI [of _ s]) (auto simp: post_swap_def Let_def held_def)
  qed
qed

section \<open>What the validator has checked\<close>

lemma optimizer_validate_InrD:
  assumes ok: "optimizer_validate solve (feas_query request tgt rs ts) db = (Inr d, db')"
    and feas: "fd_feasible d"
    and rs: "find_row sh_id (sh_id rs) (t_shifts db) = Some rs"
    and ts: "\<forall>t. ts = Some t \<longrightarrow> find_row sh_id (sh_id t) (t_shifts db) = Some t"
  shows "(\<exists>d1. checkEmployee solve tgt rs (map_option sh_id ts) db = (Inr d1, db) \<and> fd_feasible d1) \<and>
    (\<forall>t. ts = Some t \<longrightarrow>
      (\<exists>d2. checkEmployee solve (sw_requesterEmployeeId request) t (Some (sh_id rs)) db = (Inr d2, db) \<and>
        fd_feasible d2))"
proof -
  have load: "bnd (fv_loadShift i) f db = (case find_row sh_id i (t_shifts db) of
      None \<Rightarrow> (Inl (PlainError (''Shift not found for feasibility check: '' @ i)), db) | Some s \<Rightarrow> f s db)"
    for i and f :: "shift_row \<Rightarrow> 'b tx"
    by (simp add: fv_loadShift_def bnd_assoc split: option.splits)
  have check: "bnd (checkEmployee solve e s g) f db = (Inr d, db') \<Longrightarrow>
      \<exists>c. checkEmployee solve e s g db = (Inr c, db) \<and> f c db = (Inr d, db')" for e s g f
    by (elim bnd_InrE) (use read_onlyD [OF checkEmployee_read_only] in blast)
  show ?thesis
  proof (cases ts)
    case None
    with ok rs feas show ?thesis
      by (auto simp: optimizer_validate_def feas_query_def load dest!: check split: if_splits)
  next
    case (Some t)
    with ok rs ts feas show ?thesis
      by (auto simp: optimizer_validate_def feas_query_def load bnd_assoc dest!: check split: if_splits)
  qed
qed

lemma leave_dates_cong: "t_leaves db' = t_leaves db \<Longrightarrow> leave_dates db' e w = leave_dates db e w"
  by (simp add: leave_dates_def)

section \<open>Both parties end up with a legal week\<close>

text \<open>A request is between two different employees and two different shifts; see \<open>SwapLife\<close>.\<close>

definition swap_wf :: "swap_row \<Rightarrow> bool" where
  "swap_wf r \<longleftrightarrow> sw_targetEmployeeId r \<noteq> Some (sw_requesterEmployeeId r) \<and>
     sw_targetShiftId r \<noteq> Some (sw_requesterShiftId r)"

definition legal_after :: "tenant_db \<Rightarrow> id \<Rightarrow> int \<Rightarrow> bool" where
  "legal_after db eid date \<longleftrightarrow>
     (\<exists>e. findEmployee db eid = Some e \<and>
        week_legal e (mondayOf date) (leave_dates db eid (mondayOf date)) (held db eid (mondayOf date)))"

lemma legal_afterI:
  assumes sound: "sound_optimizer solve" and keys: "distinct (map sh_id (t_shifts db))"
    and nonempty: "sh_id incoming \<noteq> []"
    and check: "checkEmployee solve eid incoming g db = (Inr d, db)" "fd_feasible d"
    and keys': "map sh_id (t_shifts db') = map sh_id (t_shifts db)"
    and same: "t_employees db' = t_employees db" "t_leaves db' = t_leaves db"
    and slots: "\<And>s. s \<in> set (held db' eid (mondayOf (sh_date incoming))) \<Longrightarrow>
        \<exists>s0 \<in> set (post_swap db eid incoming g). demand_of_shift s0 = demand_of_shift s"
  shows "legal_after db' eid (sh_date incoming)"
proof -
  from checkEmployee_sound [OF sound keys nonempty check] obtain e where "findEmployee db eid = Some e"
    and legal: "week_legal e (mondayOf (sh_date incoming))
      (leave_dates db eid (mondayOf (sh_date incoming))) (post_swap db eid incoming g)"
    by blast
  moreover from week_legal_slots [OF legal] slots
  have "week_legal e (mondayOf (sh_date incoming)) (leave_dates db eid (mondayOf (sh_date incoming)))
      (held db' eid (mondayOf (sh_date incoming)))"
    using held_keys [of db'] keys keys' by simp
  ultimately show ?thesis
    using same(1) by (auto simp: legal_after_def findEmployee_def leave_dates_cong [OF same(2)])
qed

text \<open>
  C3. With the optimizer-backed validator and an optimizer that keeps the hard constraints, an
  approved swap leaves both parties with a legal week: in the database after the approval, the target
  holds, around the week of the shift received, only shifts it is qualified for, none on an approved
  leave day, and every two of them 11 hours apart; and so does the requester for a 1:1 swap.
\<close>

theorem approved_weeks_legal:
  assumes keys: "wf_keys db" and nonempty: "[] \<notin> sh_id ` set (t_shifts db)"
    and wf: "list_all swap_wf (t_swaps db)" and sound: "sound_optimizer solve"
    and ok: "swap_approve (optimizer_validate solve) i input db = (Inr r, db')"
  shows "\<exists>request tgt rs. find_row sw_id i (t_swaps db) = Some request \<and>
      sw_targetEmployeeId request = Some tgt \<and>
      find_row sh_id (sw_requesterShiftId request) (t_shifts db) = Some rs \<and>
      legal_after db' tgt (sh_date rs) \<and>
      (\<forall>tid. sw_targetShiftId request = Some tid \<longrightarrow>
        (\<exists>t. find_row sh_id tid (t_shifts db) = Some t \<and>
          legal_after db' (sw_requesterEmployeeId request) (sh_date t)))"
proof -
  from opt_validator.feasibility_port_axioms ok obtain request tgt rs ts d where
    request: "find_row sw_id i (t_swaps db) = Some request"
    and tgt: "sw_targetEmployeeId request = Some tgt"
    and rs: "find_row sh_id (sw_requesterShiftId request) (t_shifts db) = Some rs"
    and ts: "case sw_targetShiftId request of None \<Rightarrow> ts = None
      | Some t \<Rightarrow> ts = find_row sh_id t (t_shifts db) \<and> ts \<noteq> None"
    and validated: "optimizer_validate solve (feas_query request tgt rs ts) db = (Inr d, db)" "fd_feasible d"
    and commit: "approve_commit i request SW_APPROVED tgt rs ts input db = (Inr r, db')"
    by (rule swap_approve_InrD)
  let ?req = "sw_requesterEmployeeId request"
  from request wf have wf: "tgt \<noteq> ?req" "sw_targetShiftId request \<noteq> Some (sw_requesterShiftId request)"
    using tgt by (auto simp: list_all_iff swap_wf_def dest: find_row_SomeD)
  have ids: "sh_id rs = sw_requesterShiftId request" "map_option sh_id ts = sw_targetShiftId request"
    using rs ts by (auto dest: find_row_SomeD split: option.splits)
  have rs': "find_row sh_id (sh_id rs) (t_shifts db) = Some rs"
    and ts': "find_row sh_id (sh_id t) (t_shifts db) = Some t" if "ts = Some t" for t
    using rs ts ids that by (auto split: option.splits)
  have rs': "find_row sh_id (sh_id rs) (t_shifts db) = Some rs" using rs ids by simp
  from wf_keysD(2) [OF keys] commit
  have shifts: "t_shifts db' = reassign (sh_id rs) tgt (map_option sh_id ts) ?req (t_shifts db)"
    and same: "t_employees db' = t_employees db" "t_leaves db' = t_leaves db"
    by (auto elim!: approve_commit_InrD)
  have keys': "map sh_id (t_shifts db') = map sh_id (t_shifts db)"
    by (simp add: shifts map_id_reassign)
  have nonempty': "sh_id s \<noteq> []" if "find_row sh_id j (t_shifts db) = Some s" for j s
    using find_row_SomeD [OF that] nonempty by (metis image_eqI)
  from optimizer_validate_InrD [OF validated rs'] ts' obtain d1 where
    d1: "checkEmployee solve tgt rs (map_option sh_id ts) db = (Inr d1, db)" "fd_feasible d1"
    by blast
  have "legal_after db' tgt (sh_date rs)"
  proof (rule legal_afterI [OF sound wf_keysD(1) [OF keys] nonempty' [OF rs] d1 keys' same])
    fix s
    assume "s \<in> set (held db' tgt (mondayOf (sh_date rs)))"
    with held_target [OF wf_keysD(1) [OF keys] rs' _ _ shifts] wf ids
    show "\<exists>s0\<in>set (post_swap db tgt rs (map_option sh_id ts)). demand_of_shift s0 = demand_of_shift s"
      by simp
  qed
  moreover have "\<exists>t. find_row sh_id tid (t_shifts db) = Some t \<and> legal_after db' ?req (sh_date t)"
    if tid: "sw_targetShiftId request = Some tid" for tid
  proof -
    from tid ts obtain t where t: "ts = Some t" "find_row sh_id tid (t_shifts db) = Some t" by auto
    from optimizer_validate_InrD [OF validated rs'] ts' t obtain d2 where
      d2: "checkEmployee solve ?req t (Some (sh_id rs)) db = (Inr d2, db)" "fd_feasible d2"
      by blast
    have "legal_after db' ?req (sh_date t)"
    proof (rule legal_afterI [OF sound wf_keysD(1) [OF keys] nonempty' [OF t(2)] d2 keys' same])
      fix s
      assume "s \<in> set (held db' ?req (mondayOf (sh_date t)))"
      with held_requester [OF wf_keysD(1) [OF keys] ts' [OF t(1)] wf(1)] shifts t
      show "\<exists>s0\<in>set (post_swap db ?req t (Some (sh_id rs))). demand_of_shift s0 = demand_of_shift s"
        by simp
    qed
    with t show ?thesis by blast
  qed
  ultimately show ?thesis using request tgt rs by blast
qed

lemma sample_approve_legal:
  "swap_approve (optimizer_validate full_solve) ''w1'' (sample_decision True) (sample_db SW_PENDING_MANAGER) =
     (Inr ((sample_swap SW_APPROVED)\<lparr>sw_decidedByManagerId := Some ''k3''\<rparr>), sample_approved_db)"
  by code_simp

theorem approved_weeks_legal_witness:
  "\<exists>tgt rs. find_row sh_id ''s1'' (t_shifts (sample_db SW_PENDING_MANAGER)) = Some rs \<and>
     legal_after sample_approved_db tgt (sh_date rs)"
proof -
  have "[] \<notin> sh_id ` set (t_shifts (sample_db SW_PENDING_MANAGER))"
    "list_all swap_wf (t_swaps (sample_db SW_PENDING_MANAGER))"
    by (simp_all add: sample_defs swap_wf_def)
  from approved_weeks_legal [OF sample_db_keys this full_solve_sound sample_approve_legal]
  show ?thesis by (auto simp: sample_defs)
qed

end
