(* ===== verification/SwapLife.thy ===== *)
theory SwapLife
  imports SwapLegality
begin

text \<open>
  The life of a swap request under every interleaving. \<open>swap_write\<close> is one write to the request
  table: a creation, the write half of a transition or of an approval (started from a request read at
  any earlier time), or another service clearing requests or a target shift. The HTTP handlers are
  sequences of such writes.
\<close>

section \<open>Writes to the request table\<close>

text \<open>
  Another service may delete requests, and deleting a shift empties \<open>targetShiftId\<close> (the foreign key
  is \<open>SET NULL\<close>; \<open>requesterShiftId\<close> is \<open>RESTRICT\<close>, so that delete fails).
\<close>

definition env_row :: "swap_row \<Rightarrow> swap_row \<Rightarrow> bool" where
  "env_row r r' \<longleftrightarrow> r' = r \<or> r' = r\<lparr>sw_targetShiftId := None\<rparr>"

definition env_swaps :: "swap_row list \<Rightarrow> swap_row list \<Rightarrow> bool" where
  "env_swaps rs rs' \<longleftrightarrow> distinct (map sw_id rs') \<and> (\<forall>r' \<in> set rs'. \<exists>r \<in> set rs. env_row r r')"

inductive swap_write :: "tenant_db \<Rightarrow> tenant_db \<Rightarrow> bool" where
  write_create: "swap_wf r \<Longrightarrow> sw_state r = SW_DRAFT \<Longrightarrow> sw_id r \<notin> sw_id ` set (t_swaps db) \<Longrightarrow>
    swap_write db (put_swaps (t_swaps db @ [r]) db)"
| write_commit: "swap_commit i request action m db = (Inr r, db') \<Longrightarrow>
    action \<notin> {PeerAccept, PeerReject} \<or>
      (\<exists>r0 \<in> set (t_swaps db). sw_id r0 = i \<and> sw_targetEmployeeId r0 \<noteq> None) \<Longrightarrow>
    swap_write db db'"
| write_approve: "approve_commit i request SW_APPROVED tgt rs ts input db = (Inr r, db') \<Longrightarrow>
    swap_write db db'"
| write_env: "env_swaps (t_swaps db) (t_swaps db') \<Longrightarrow> swap_write db db'"

text \<open>What may happen to one request in one write.\<close>

definition swap_moves :: "swap_row \<Rightarrow> swap_row \<Rightarrow> bool" where
  "swap_moves r r' \<longleftrightarrow>
     sw_id r' = sw_id r \<and> sw_requesterEmployeeId r' = sw_requesterEmployeeId r \<and>
     sw_requesterShiftId r' = sw_requesterShiftId r \<and>
     sw_targetEmployeeId r' = sw_targetEmployeeId r \<and>
     sw_targetShiftId r' \<in> {sw_targetShiftId r, None} \<and>
     (sw_state r' = sw_state r \<or>
      (\<exists>a. TRANSITIONS (sw_state r) a = Some (sw_state r') \<and>
        (sw_targetEmployeeId r = None \<longrightarrow> a \<notin> {PeerAccept, PeerReject})))"

lemma swap_moves_refl [simp]: "swap_moves r r"
  by (simp add: swap_moves_def)

lemma swap_moves_flip:
  assumes "TRANSITIONS (sw_state r) a = Some to"
    and "sw_targetEmployeeId r = None \<longrightarrow> a \<notin> {PeerAccept, PeerReject}"
  shows "swap_moves r (swap_flip to m r)"
  using assms by (auto simp: swap_moves_def)

lemma swap_moves_wf: "swap_moves r r' \<Longrightarrow> swap_wf r \<Longrightarrow> swap_wf r'"
  by (auto simp: swap_moves_def swap_wf_def)

text \<open>The rows after a write are new drafts or moved versions of the rows before it.\<close>

definition rows_move :: "swap_row list \<Rightarrow> swap_row list \<Rightarrow> bool" where
  "rows_move rs rs' \<longleftrightarrow> distinct (map sw_id rs') \<and>
     (\<forall>r' \<in> set rs'. (sw_id r' \<notin> sw_id ` set rs \<and> swap_wf r' \<and> sw_state r' = SW_DRAFT) \<or>
        (\<exists>r \<in> set rs. swap_moves r r'))"

lemma rows_move_update:
  assumes "distinct (map sw_id rs)" and "\<And>r. r \<in> set rs \<Longrightarrow> P r \<Longrightarrow> swap_moves r (f r)"
    and "\<And>r. sw_id (f r) = sw_id r"
  shows "rows_move rs (update_rows P f rs)"
  using assms by (fastforce simp: rows_move_def map_update_rows set_update_rows)

lemma swap_write_rows_move:
  assumes "swap_write db db'" and keys: "distinct (map sw_id (t_swaps db))"
  shows "rows_move (t_swaps db) (t_swaps db')"
  using assms(1)
proof cases
  case (write_create r)
  with keys show ?thesis by (auto simp: rows_move_def intro: swap_moves_refl)
next
  case (write_commit i request action m r)
  from keys write_commit(1) obtain r0 to where r0: "find_row sw_id i (t_swaps db) = Some r0"
      "sw_state r0 = sw_state request" "TRANSITIONS (sw_state r0) action = Some to"
    and db': "db' = put_swaps (update_rows (\<lambda>r. sw_id r = i \<and> sw_state r = sw_state request)
      (swap_flip to m) (t_swaps db)) db"
    by (rule swap_commit_InrD)
  have unique: "r = r0" if "r \<in> set (t_swaps db)" "sw_id r = i" for r
    using find_row_in [OF keys that(1)] that(2) r0(1) by simp
  with write_commit(2) have "sw_targetEmployeeId r0 = None \<longrightarrow> action \<notin> {PeerAccept, PeerReject}"
    by auto
  with r0 unique have "swap_moves r (swap_flip to m r)"
    if "r \<in> set (t_swaps db)" "sw_id r = i \<and> sw_state r = sw_state request" for r
    using that by (intro swap_moves_flip) auto
  then show ?thesis by (simp add: db' rows_move_update [OF keys])
next
  case (write_approve i request tgt rs ts input r)
  have "TRANSITIONS SW_PENDING_MANAGER ManagerApprove = Some SW_APPROVED" by simp
  then have "swap_moves r (swap_flip SW_APPROVED m r)" if "sw_state r = SW_PENDING_MANAGER" for r m
    using that swap_moves_flip [of r ManagerApprove] by simp
  moreover from keys write_approve have "t_swaps db' =
      update_rows (\<lambda>r. sw_id r = i \<and> sw_state r = SW_PENDING_MANAGER)
          (swap_flip SW_APPROVED (Some (md_decidedByManagerId input))) (t_swaps db)"
    by (auto elim!: approve_commit_InrD)
  ultimately show ?thesis by (auto intro!: rows_move_update [OF keys])
next
  case write_env
  then show ?thesis
    by (fastforce simp: env_swaps_def rows_move_def env_row_def swap_moves_def)
qed

section \<open>Traces\<close>

text \<open>Any number of writes, for as long as request \<open>i\<close> exists.\<close>

inductive swap_life :: "id \<Rightarrow> tenant_db \<Rightarrow> tenant_db \<Rightarrow> bool" for i :: id where
  life_start: "swap_life i db db"
| life_write: "swap_life i db db1 \<Longrightarrow> find_row sw_id i (t_swaps db1) \<noteq> None \<Longrightarrow> swap_write db1 db2 \<Longrightarrow>
    swap_life i db db2"

lemma rows_move_keys: "rows_move rs rs' \<Longrightarrow> distinct (map sw_id rs')"
  by (simp add: rows_move_def)

lemma rows_move_find:
  assumes move: "rows_move rs rs'" and keys: "distinct (map sw_id rs)"
    and r: "find_row sw_id i rs = Some r" and r': "find_row sw_id i rs' = Some r'"
  shows "swap_moves r r'"
proof -
  from r r' have "r \<in> set rs" "sw_id r = i" "r' \<in> set rs'" "sw_id r' = i"
    by (auto dest: find_row_SomeD)
  with move obtain r0 where r0: "r0 \<in> set rs" "swap_moves r0 r'"
    by (auto simp: rows_move_def rev_image_eqI)
  then have "sw_id r0 = i" using \<open>sw_id r' = i\<close> by (simp add: swap_moves_def)
  with find_row_in [OF keys r0(1)] r r0 show ?thesis by simp
qed

lemma swap_life_keys:
  "swap_life i db db' \<Longrightarrow> distinct (map sw_id (t_swaps db)) \<Longrightarrow> distinct (map sw_id (t_swaps db'))"
  by (induction rule: swap_life.induct) (auto dest: swap_write_rows_move rows_move_keys)

text \<open>
  Induction over the life of one request: a relation on its rows that is reflexive and survives one
  more move holds between its first and its last row.
\<close>

lemma swap_life_rows:
  assumes life: "swap_life i db db'" and keys: "distinct (map sw_id (t_swaps db))"
    and r: "find_row sw_id i (t_swaps db) = Some r" and r': "find_row sw_id i (t_swaps db') = Some r'"
    and refl: "R r r" and step: "\<And>s t. R r s \<Longrightarrow> swap_moves s t \<Longrightarrow> R r t"
  shows "R r r'"
  using life keys r r'
proof (induction arbitrary: r' rule: swap_life.induct)
  case (life_start db)
  with refl show ?case by simp
next
  case (life_write db db1 db2)
  then obtain s where s: "find_row sw_id i (t_swaps db1) = Some s" by blast
  with life_write have "R r s" by blast
  moreover have k: "distinct (map sw_id (t_swaps db1))"
    using life_write swap_life_keys by blast
  with swap_write_rows_move [OF life_write.hyps(3)] s life_write.prems(3) have "swap_moves s r'"
    by (blast intro: rows_move_find)
  ultimately show ?case by (rule step)
qed

text \<open>
  C4. The life of a request under every interleaving of requests, decisions and other services: while
  it exists, its parties and its requester shift never change, its state moves along a path of the
  transition table, so that a terminal state is final and at most four actions ever succeed, and its
  target shift is either kept or cleared.
\<close>

theorem swap_life_path:
  assumes "swap_life i db db'" and "distinct (map sw_id (t_swaps db))"
    and "find_row sw_id i (t_swaps db) = Some r" and "find_row sw_id i (t_swaps db') = Some r'"
  shows "(\<exists>as. swap_machine.run (sw_state r) as = Some (sw_state r') \<and>
        length as + swap_rank (sw_state r') \<le> swap_rank (sw_state r)) \<and>
      (sw_state r \<in> TERMINAL_STATES \<longrightarrow> sw_state r' = sw_state r) \<and>
      sw_requesterEmployeeId r' = sw_requesterEmployeeId r \<and>
      sw_requesterShiftId r' = sw_requesterShiftId r \<and>
      sw_targetEmployeeId r' = sw_targetEmployeeId r \<and>
      sw_targetShiftId r' \<in> {sw_targetShiftId r, None}"
proof -
  let ?path = "\<lambda>r r'. \<exists>as. swap_machine.run (sw_state r) as = Some (sw_state r') \<and>
        length as + swap_rank (sw_state r') \<le> swap_rank (sw_state r)"
  let ?same = "\<lambda>r r'. sw_requesterEmployeeId r' = sw_requesterEmployeeId r \<and>
      sw_requesterShiftId r' = sw_requesterShiftId r \<and>
      sw_targetEmployeeId r' = sw_targetEmployeeId r \<and> sw_targetShiftId r' \<in> {sw_targetShiftId r, None}"
  have path: "?path r r'"
  proof (rule swap_life_rows [OF assms, where R = ?path])
    show "?path r r" by (intro exI [of _ "[]"]) simp
    fix s t
    assume "?path r s" and move: "swap_moves s t"
    then obtain as where as: "swap_machine.run (sw_state r) as = Some (sw_state s)"
      "length as + swap_rank (sw_state s) \<le> swap_rank (sw_state r)" by blast
    from move consider "sw_state t = sw_state s" | a where "TRANSITIONS (sw_state s) a = Some (sw_state t)"
      by (auto simp: swap_moves_def)
    then show "?path r t"
    proof cases
      case 1
      with as show ?thesis by auto
    next
      case 2
      then have "sw_state t \<noteq> sw_state s" by (cases "(sw_state s, a)" rule: TRANSITIONS.cases) auto
      with 2 have "swap_rank (sw_state t) < swap_rank (sw_state s)" by (rule swap_machine.rank_drops)
      with as 2 show ?thesis
        by (intro exI [of _ "as @ [a]"]) (simp add: swap_machine.run_append)
    qed
  qed
  moreover have "?same r r'"
    by (rule swap_life_rows [OF assms, where R = ?same]) (auto simp: swap_moves_def)
  moreover have "sw_state r \<in> TERMINAL_STATES \<longrightarrow> sw_state r' = sw_state r"
    using path swap_machine.run_terminal by blast
  ultimately show ?thesis by blast
qed

text \<open>
  A give-away request is stuck. A request created without a target can never be accepted, and so
  never reaches a manager: under every interleaving it stays a draft, waits for a peer, or is
  cancelled.
\<close>

theorem give_away_stuck:
  assumes "swap_life i db db'" and "distinct (map sw_id (t_swaps db))"
    and "find_row sw_id i (t_swaps db) = Some r" and "find_row sw_id i (t_swaps db') = Some r'"
    and "sw_targetEmployeeId r = None" and "sw_state r = SW_DRAFT"
  shows "sw_state r' \<in> {SW_DRAFT, SW_PENDING_PEER, SW_CANCELLED}"
proof -
  let ?R = "\<lambda>r r'. sw_targetEmployeeId r' = None \<and> sw_state r' \<in> {SW_DRAFT, SW_PENDING_PEER, SW_CANCELLED}"
  have "?R r r'"
  proof (rule swap_life_rows [OF assms(1-4), where R = ?R])
    show "?R r r" using assms(5,6) by simp
    fix s t
    assume s: "?R r s" and move: "swap_moves s t"
    then have "sw_targetEmployeeId t = None" by (simp add: swap_moves_def)
    from s move consider "sw_state t = sw_state s"
      | a where "TRANSITIONS (sw_state s) a = Some (sw_state t)" "a \<notin> {PeerAccept, PeerReject}"
      by (auto simp: swap_moves_def)
    then show "?R r t"
      by cases (use s \<open>sw_targetEmployeeId t = None\<close> in
        \<open>auto elim!: TRANSITIONS.elims\<close>)
  qed
  then show ?thesis by blast
qed

lemma sample_life: "swap_life ''w1'' (sample_db SW_PENDING_MANAGER) sample_approved_db"
proof (rule life_write [OF life_start])
  from allow_all.feasibility_port_axioms sample_approve obtain request tgt rs ts where
    "approve_commit ''w1'' request SW_APPROVED tgt rs ts (sample_decision True) (sample_db SW_PENDING_MANAGER)
      = (Inr ((sw_decidedByManagerId_update (\<lambda>_. Some ''k3'')) (sample_swap SW_APPROVED)), sample_approved_db)"
    by (rule swap_approve_InrD)
  then show "swap_write (sample_db SW_PENDING_MANAGER) sample_approved_db" by (rule write_approve)
qed (simp add: sample_defs)

theorem swap_life_path_witness:
  "\<exists>as. swap_machine.run SW_PENDING_MANAGER as = Some SW_APPROVED"
  using swap_life_path [OF sample_life wf_keysD(2) [OF sample_db_keys], of "sample_swap SW_PENDING_MANAGER"
      "(sample_swap SW_APPROVED)\<lparr>sw_decidedByManagerId := Some ''k3''\<rparr>"]
  by (auto simp: sample_defs sample_approved_db_def)

definition give_away_db :: "swap_state \<Rightarrow> tenant_db" where
  "give_away_db st = (sample_db st)\<lparr>t_swaps :=
     [(sample_swap st)\<lparr>sw_targetEmployeeId := None, sw_targetShiftId := None\<rparr>]\<rparr>"

lemma give_away_submit:
  "swap_commit ''w1'' (sample_swap SW_DRAFT) Submit None (give_away_db SW_DRAFT) =
     (Inr ((sample_swap SW_PENDING_PEER)\<lparr>sw_targetEmployeeId := None, sw_targetShiftId := None\<rparr>),
      give_away_db SW_PENDING_PEER)"
  by code_simp

lemma give_away_life: "swap_life ''w1'' (give_away_db SW_DRAFT) (give_away_db SW_PENDING_PEER)"
  by (rule life_write [OF life_start _ write_commit [OF give_away_submit]])
    (simp_all add: give_away_db_def sample_defs)

theorem give_away_stuck_witness:
  "sw_state (hd (t_swaps (give_away_db SW_PENDING_PEER))) \<in> {SW_DRAFT, SW_PENDING_PEER, SW_CANCELLED}"
  using give_away_stuck [OF give_away_life, of "hd (t_swaps (give_away_db SW_DRAFT))"
      "hd (t_swaps (give_away_db SW_PENDING_PEER))"]
  by (simp add: give_away_db_def sample_defs)

section \<open>The handlers are sequences of writes\<close>

lemma swap_load_read_only [simp]: "read_only (swap_load i)"
  unfolding swap_load_def by (intro read_only_bnd) auto

lemma requireCallerEmployee_read_only [simp]: "read_only (requireCallerEmployee act)"
  unfolding requireCallerEmployee_def by (intro read_only_bnd) auto

lemma asserts_read_only [simp]:
  "read_only (assertRequester act i)" "read_only (assertTarget act i)" "read_only (assertManager act i)"
  unfolding assertRequester_def assertTarget_def assertManager_def
  by (intro read_only_bnd; auto intro!: read_only_bnd)+

lemma guardConflict_cases:
  "(\<exists>r db'. op db = (Inr r, db') \<and> guardConflict op db = (Inr r, db')) \<or>
   (\<exists>e e' db'. op db = (Inl e, db') \<and> guardConflict op db = (Inl e', db'))"
proof (cases "op db")
  case (Pair v db')
  show ?thesis
  proof (cases v)
    case (Inl e)
    with Pair show ?thesis by (cases e) (simp_all add: guardConflict_def catch_def)
  next
    case (Inr r)
    with Pair show ?thesis by (simp add: guardConflict_def catch_def)
  qed
qed

lemma guardConflict_Inr: "guardConflict op db = (Inr r, db') \<longleftrightarrow> op db = (Inr r, db')"
  using guardConflict_cases [of op db] by auto

lemma guardConflict_Inl: "guardConflict op db = (Inl e, db') \<Longrightarrow> \<exists>e'. op db = (Inl e', db')"
  using guardConflict_cases [of op db] by auto

lemmas handler_results = guarded_Inr_iff bnd_ret_Inr bnd_ret_Inl guardConflict_Inr

lemma applyTransition_Inl: "applyTransition i a m db = (Inl e, db') \<Longrightarrow> db' = db"
  by (auto simp: applyTransition_def bnd_swap_load split: option.splits dest: swap_commit_Inl_unchanged)

lemma applyTransition_Inr:
  assumes "applyTransition i a m db = (Inr r, db')"
  obtains request where "find_row sw_id i (t_swaps db) = Some request"
    "swap_commit i request a m db = (Inr r, db')"
  using assms by (auto simp: applyTransition_def bnd_swap_load split: option.splits)

lemma swap_create_Inl: "swap_create n t act dto db = (Inl e, db') \<Longrightarrow> db' = db"
  by (auto simp: swap_create_def requireCallerEmployee_def bnd_assoc split: option.splits if_splits)

lemma guarded_Inl:
  "guarded required act m db = (Inl e, db') \<Longrightarrow> db' = db \<or> m db = (Inl e, db')"
  using guarded_cases [of required act m db] by auto

text \<open>
  C5. Every endpoint of the shift-swap controller is atomic: a request answered with an error, of
  any kind, has changed nothing.
\<close>

theorem swap_handle_atomic:
  assumes port: "feasibility_port validate" and err: "swap_handle validate act req db = (Inl e, db')"
  shows "db' = db"
proof -
  have op: "db' = db" if "bnd m (\<lambda>_. bnd (guardConflict n) (\<lambda>r. ret [r])) db = (Inl e, db')"
    and "read_only m" and "\<And>e. n db = (Inl e, db') \<Longrightarrow> db' = db" for m and n
    using bnd_asserted_Inl [OF that(2,1)] that(3) by (auto simp: bnd_ret_Inl dest: guardConflict_Inl)
  show ?thesis
  proof (cases req)
    case (SrCreate n t dto)
    with err show ?thesis by (auto dest!: guarded_Inl simp: bnd_ret_Inl dest: swap_create_Inl)
  next
    case (SrList st mine)
    with err show ?thesis by (auto dest!: guarded_Inl simp: swap_list_def)
  next
    case (SrManagerDecision i approve)
    with err show ?thesis
      by (auto dest!: guarded_Inl elim!: op dest: managerDecision_atomic [OF port])
  qed (use err in \<open>auto dest!: guarded_Inl elim!: op dest: applyTransition_Inl
    simp: swap_submit_def peerDecision_def submitToManager_def swap_cancel_def\<close>)
qed

lemma sample_cancel_forbidden:
  "swap_handle allow_all_validate worker2 (SrCancel ''w1'') (sample_db SW_DRAFT) =
     (Inl (ForbiddenException ''Only the requester may perform this action''), sample_db SW_DRAFT)"
  by code_simp

theorem swap_handle_atomic_witness:
  "snd (swap_handle allow_all_validate worker2 (SrCancel ''w1'') (sample_db SW_DRAFT)) = sample_db SW_DRAFT"
  unfolding sample_cancel_forbidden
  using swap_handle_atomic [OF allow_all.feasibility_port_axioms sample_cancel_forbidden] by simp

lemma swap_create_InrD:
  assumes "swap_create n t act dto db = (Inr r, db')"
  obtains caller rs where "callerEmployee db (act_userId act) = Some caller"
    "find_row sh_id (cs_requesterShiftId dto) (t_shifts db) = Some rs" "sh_employeeId rs = em_id caller"
    "db' = put_swaps (t_swaps db @ [r]) db"
    "sw_id r = n" "sw_state r = SW_DRAFT" "sw_requesterEmployeeId r = em_id caller"
    "sw_requesterShiftId r = cs_requesterShiftId dto" "sw_targetShiftId r = cs_targetShiftId dto"
    "case cs_targetShiftId dto of None \<Rightarrow> sw_targetEmployeeId r = None
      | Some tid \<Rightarrow> \<exists>ts. find_row sh_id tid (t_shifts db) = Some ts \<and> sh_employeeId ts \<noteq> em_id caller \<and>
          sw_targetEmployeeId r = Some (sh_employeeId ts)"
proof -
  from assms obtain caller where caller: "callerEmployee db (act_userId act) = Some caller"
    by (auto simp: swap_create_def requireCallerEmployee_def bnd_assoc split: option.splits)
  with assms obtain rs where rs: "find_row sh_id (cs_requesterShiftId dto) (t_shifts db) = Some rs"
    by (auto simp: swap_create_def requireCallerEmployee_def bnd_assoc split: option.splits)
  have i: "sh_id rs = cs_requesterShiftId dto" using rs by (auto dest: find_row_SomeD)
  show thesis
  proof (cases "cs_targetShiftId dto")
    case None
    with assms caller rs i show thesis
      by (intro that [of caller rs])
        (auto simp: swap_create_def requireCallerEmployee_def bnd_assoc split: if_splits)
  next
    case (Some tid)
    with assms caller rs obtain ts where ts: "find_row sh_id tid (t_shifts db) = Some ts"
      by (auto simp: swap_create_def requireCallerEmployee_def bnd_assoc split: option.splits if_splits)
    then have "sh_id ts = tid" by (auto dest: find_row_SomeD)
    with ts Some assms caller rs i show thesis
      by (intro that [of caller rs])
        (auto simp: swap_create_def requireCallerEmployee_def bnd_assoc split: if_splits)
  qed
qed

lemma swap_create_write:
  assumes "swap_create n t act dto db = (Inr r, db')" and "n \<notin> sw_id ` set (t_swaps db)"
  shows "swap_write db db'"
proof -
  from assms(1) obtain caller rs where "callerEmployee db (act_userId act) = Some caller"
    and c: "find_row sh_id (cs_requesterShiftId dto) (t_shifts db) = Some rs" "sh_employeeId rs = em_id caller"
    "db' = put_swaps (t_swaps db @ [r]) db" "sw_id r = n" "sw_state r = SW_DRAFT"
    "sw_requesterEmployeeId r = em_id caller" "sw_requesterShiftId r = cs_requesterShiftId dto"
    "sw_targetShiftId r = cs_targetShiftId dto"
    and t: "case cs_targetShiftId dto of None \<Rightarrow> sw_targetEmployeeId r = None
      | Some tid \<Rightarrow> \<exists>ts. find_row sh_id tid (t_shifts db) = Some ts \<and> sh_employeeId ts \<noteq> em_id caller \<and>
          sw_targetEmployeeId r = Some (sh_employeeId ts)"
    by (rule swap_create_InrD)
  then have "swap_wf r" by (auto simp: swap_wf_def split: option.splits)
  with c assms(2) show ?thesis by (auto intro: write_create)
qed

lemma applyTransition_write:
  assumes "applyTransition i a m db = (Inr r, db')"
    and "a \<notin> {PeerAccept, PeerReject} \<or>
      (\<exists>r0 \<in> set (t_swaps db). sw_id r0 = i \<and> sw_targetEmployeeId r0 \<noteq> None)"
  shows "swap_write db db'"
  using assms by (blast elim: applyTransition_Inr intro: write_commit)

lemma managerDecision_write:
  assumes port: "feasibility_port validate"
    and ok: "swap_managerDecision validate i input db = (Inr r, db')"
  shows "swap_write db db'"
proof (cases "md_approve input")
  case True
  with ok have "swap_approve validate i input db = (Inr r, db')" by (simp add: swap_managerDecision_def)
  with port show ?thesis by (blast elim: swap_approve_InrD intro: write_approve)
next
  case False
  with ok show ?thesis by (auto simp: swap_managerDecision_def intro: applyTransition_write)
qed

lemma assertTarget_InrD:
  assumes "assertTarget act i db = (Inr x, db')"
  shows "\<exists>r0 \<in> set (t_swaps db). sw_id r0 = i \<and> sw_targetEmployeeId r0 \<noteq> None"
  using assms
  by (auto simp: assertTarget_def bnd_swap_load split: option.splits dest!: find_row_SomeD
      elim!: bnd_InrE split: if_splits)

text \<open>
  The HTTP handlers refine the write relation. Every request to the controller, whoever sends it
  and whatever it answers, either leaves the database alone or performs exactly one write of
  \<open>swap_write\<close>; so what holds of every life of a request holds of everything the API can do.
\<close>

theorem swap_handle_refines_writes:
  assumes port: "feasibility_port validate"
    and fresh: "\<forall>n t dto. req = SrCreate n t dto \<longrightarrow> n \<notin> sw_id ` set (t_swaps db)"
    and handled: "swap_handle validate act req db = (res, db')"
  shows "db' = db \<or> swap_write db db'"
proof (cases res)
  case (Inl e)
  with handled swap_handle_atomic [OF port] show ?thesis by blast
next
  case (Inr rs)
  with handled have ok: "swap_handle validate act req db = (Inr rs, db')" by simp
  show ?thesis
  proof (cases req)
    case (SrCreate n t dto)
    with ok fresh show ?thesis by (auto simp: handler_results intro: swap_create_write)
  next
    case (SrPeerDecision i accept)
    with ok obtain x r where "assertTarget act i db = (Inr x, db)" "peerDecision i accept db = (Inr r, db')"
      by (auto simp: handler_results elim!: bnd_asserted_Inr [OF asserts_read_only(2)])
    then show ?thesis
      by (auto simp: peerDecision_def intro: applyTransition_write dest: assertTarget_InrD)
  next
    case (SrManagerDecision i approve)
    with ok show ?thesis
      by (auto simp: handler_results elim!: bnd_asserted_Inr [OF asserts_read_only(3)]
          intro: managerDecision_write [OF port])
  qed (use ok in \<open>auto simp: handler_results swap_list_def swap_submit_def submitToManager_def
    swap_cancel_def elim!: bnd_asserted_Inr [OF asserts_read_only(1)] intro: applyTransition_write\<close>)
qed

lemma sample_submit_handled:
  "swap_handle allow_all_validate worker1 (SrSubmit ''w1'') (sample_db SW_DRAFT) =
     (Inr [sample_swap SW_PENDING_PEER], sample_db SW_PENDING_PEER)"
  by code_simp

theorem swap_handle_refines_writes_witness:
  "swap_write (sample_db SW_DRAFT) (sample_db SW_PENDING_PEER)"
proof -
  have "sample_db SW_PENDING_PEER \<noteq> sample_db SW_DRAFT" by (simp add: sample_defs)
  with swap_handle_refines_writes [OF allow_all.feasibility_port_axioms _ sample_submit_handled]
  show ?thesis by blast
qed

section \<open>Who may move a shift\<close>

lemma applyTransition_shifts: "applyTransition i a m db = (Inr r, db') \<Longrightarrow> t_shifts db' = t_shifts db"
  by (auto simp: applyTransition_def bnd_swap_load swap_commit_alt swap_findOrThrow_def
      split: option.splits sum.splits if_splits)

lemma swap_create_shifts: "swap_create n t act dto db = (Inr r, db') \<Longrightarrow> t_shifts db' = t_shifts db"
  by (erule swap_create_InrD) simp

definition swap_parties :: "swap_row \<Rightarrow> id set" where
  "swap_parties r = {sw_requesterEmployeeId r} \<union> set_option (sw_targetEmployeeId r)"

lemma assertManager_InrD:
  assumes "assertManager act i db = (Inr request, db')"
  shows "find_row sw_id i (t_swaps db) = Some request \<and>
    (isGlobal (act_roles act) \<or>
     (\<forall>e \<in> set (t_employees db). em_id e \<in> swap_parties request \<longrightarrow>
        em_unitId e \<in> set (managedUnitIds db (act_userId act))))"
  using assms
  by (auto simp: assertManager_def bnd_swap_load affected_units_def swap_parties_def list_all_iff
      split: option.splits if_splits)

text \<open>
  C7. Authority. The only request to the shift-swap API that can move a shift is an approving manager
  decision, sent by a caller who holds a management role and who is either HR or the tenant admin, or
  manages the unit of every employee the swap is between.
\<close>

theorem shifts_move_only_by_authority:
  assumes port: "feasibility_port validate"
    and handled: "swap_handle validate act req db = (res, db')"
    and moved: "t_shifts db' \<noteq> t_shifts db"
  shows "\<exists>i request. req = SrManagerDecision i True \<and>
      find_row sw_id i (t_swaps db) = Some request \<and>
      (\<exists>ro \<in> set MANAGER_ROLES. role_name ro \<in> set (act_roles act)) \<and>
      (isGlobal (act_roles act) \<or>
       (\<forall>e \<in> set (t_employees db). em_id e \<in> swap_parties request \<longrightarrow>
          em_unitId e \<in> set (managedUnitIds db (act_userId act))))"
proof (cases res)
  case (Inl e)
  with handled swap_handle_atomic [OF port] moved show ?thesis by blast
next
  case (Inr rs)
  with handled have ok: "swap_handle validate act req db = (Inr rs, db')" by simp
  show ?thesis
  proof (cases req)
    case (SrCreate n t dto)
    with ok moved show ?thesis by (auto simp: handler_results dest: swap_create_shifts)
  next
    case (SrPeerDecision i accept)
    with ok moved show ?thesis
      by (auto simp: handler_results peerDecision_def elim!: bnd_asserted_Inr [OF asserts_read_only(2)]
          dest: applyTransition_shifts)
  next
    case (SrManagerDecision i approve)
    with ok obtain x r where x: "assertManager act i db = (Inr x, db)"
      and r: "swap_managerDecision validate i \<lparr>md_approve = approve, md_decidedByManagerId = act_userId act,
          md_actorUserId = act_userId act, md_ipAddress = act_ipAddress act\<rparr> db = (Inr r, db')"
      and role: "\<exists>ro \<in> set MANAGER_ROLES. role_name ro \<in> set (act_roles act)"
      by (auto simp: handler_results MANAGER_ROLES_def elim!: bnd_asserted_Inr [OF asserts_read_only(3)])
    from r moved have approve by (auto simp: swap_managerDecision_def dest: applyTransition_shifts split: if_splits)
    with SrManagerDecision role assertManager_InrD [OF x] show ?thesis by simp
  qed (use ok moved in \<open>auto simp: handler_results swap_list_def swap_submit_def submitToManager_def
    swap_cancel_def elim!: bnd_asserted_Inr [OF asserts_read_only(1)] dest: applyTransition_shifts\<close>)
qed

lemma sample_decision_handled:
  "swap_handle allow_all_validate manager1 (SrManagerDecision ''w1'' True) (sample_db SW_PENDING_MANAGER) =
     (Inr [(sample_swap SW_APPROVED)\<lparr>sw_decidedByManagerId := Some ''k3''\<rparr>], sample_approved_db)"
  by code_simp

theorem shifts_move_only_by_authority_witness:
  "\<exists>request. find_row sw_id ''w1'' (t_swaps (sample_db SW_PENDING_MANAGER)) = Some request \<and>
     (\<exists>ro \<in> set MANAGER_ROLES. role_name ro \<in> set (act_roles manager1))"
proof -
  have "t_shifts sample_approved_db \<noteq> t_shifts (sample_db SW_PENDING_MANAGER)"
    by (simp add: sample_defs sample_approved_db_def)
  from shifts_move_only_by_authority [OF allow_all.feasibility_port_axioms sample_decision_handled this]
  show ?thesis by blast
qed

section \<open>Who sees what\<close>

text \<open>The requests the list endpoint may show.\<close>

definition swap_visible :: "tenant_db \<Rightarrow> actor \<Rightarrow> bool \<Rightarrow> swap_row \<Rightarrow> bool" where
  "swap_visible db act mine r \<longleftrightarrow>
     (let own = own_swap (callerEmployee db (act_userId act)) r
      in if mine then own
         else isGlobal (act_roles act) \<or> own \<or> unit_swap db (managedUnitIds db (act_userId act)) r)"

lemma own_swap_None [simp]: "\<not> own_swap None r"
  by (simp add: own_swap_def)

lemma unit_swap_Nil [simp]: "\<not> unit_swap db [] r"
  by (simp add: unit_swap_def employee_unit_in_def list_ex_iff split: option.splits)

text \<open>
  Scoping of the list endpoint. It answers exactly the requests of the asked state that the
  caller may see (their own; for a manager those with a party in a managed unit too; all for HR and
  the admin, unless \<open>mine\<close> is asked), newest first, and changes nothing.
\<close>

theorem swap_list_scope:
  "\<exists>rs. swap_list act state mine db = (Inr rs, db) \<and>
     set rs = {r \<in> set (t_swaps db). (state = None \<or> state = Some (sw_state r)) \<and> swap_visible db act mine r} \<and>
     sorted (map (\<lambda>r. - sw_createdAt r) rs)"
  by (cases state) (auto simp: swap_list_def swap_visible_def Let_def split: option.splits)

section \<open>A shift reassigned in the meantime\<close>

text \<open>The requester's shift has been given to a third employee after the request was filed.\<close>

definition reassigned_db :: tenant_db where
  "reassigned_db = (sample_db SW_PENDING_MANAGER)
     \<lparr>t_employees := t_employees (sample_db SW_PENDING_MANAGER) @ [sample_employee ''e3'' None ''u2''],
      t_shifts := [sample_shift ''s1'' ''e3'' 4, sample_shift ''s2'' ''e2'' 5]\<rparr>"

text \<open>
  Approval does not check that the parties still hold the shifts they offered: here the
  requester's shift already belongs to a third employee of another unit, and the approval, by a
  manager of the two parties' unit, takes it from that employee.
\<close>

theorem approve_takes_third_partys_shift:
  "case swap_handle allow_all_validate manager1 (SrManagerDecision ''w1'' True) reassigned_db of
     (Inr _, db') \<Rightarrow> holders reassigned_db ''s1'' = Some ''e3'' \<and>
       ''u2'' \<notin> set (managedUnitIds reassigned_db (act_userId manager1)) \<and>
       holders db' ''s1'' = Some ''e2''
   | (Inl _, _) \<Rightarrow> False"
  by code_simp

end
