(* ===== verification/AiMachine.thy ===== *)
theory AiMachine
  imports Domain
begin

text \<open>
  The AI proposal state machine, \<open>packages/shared/src/ai-grafik.ts\<close>, and the leave-request machine,
  \<open>packages/shared/src/leave.ts\<close>.
\<close>

section \<open>AI proposals\<close>

definition AI_TERMINAL_STATES :: "ai_state set" where
  "AI_TERMINAL_STATES = {AI_APPROVED, AI_REJECTED, AI_CANCELLED, AI_ESCALATED}"

fun AI_TRANSITIONS :: "ai_state \<Rightarrow> ai_action \<Rightarrow> ai_state option" where
  "AI_TRANSITIONS AI_DRAFT AskConsent = Some AI_PENDING_EMPLOYEE_CONSENT"
| "AI_TRANSITIONS AI_DRAFT AiSubmitToManager = Some AI_PENDING_MANAGER"
| "AI_TRANSITIONS AI_DRAFT DirectEscalate = Some AI_ESCALATED"
| "AI_TRANSITIONS AI_DRAFT AiCancel = Some AI_CANCELLED"
| "AI_TRANSITIONS AI_PENDING_EMPLOYEE_CONSENT EmployeeAccept = Some AI_EMPLOYEE_AGREED"
| "AI_TRANSITIONS AI_PENDING_EMPLOYEE_CONSENT EmployeeDeclineNext = Some AI_PENDING_EMPLOYEE_CONSENT"
| "AI_TRANSITIONS AI_PENDING_EMPLOYEE_CONSENT EmployeeDeclineLast = Some AI_ESCALATED"
| "AI_TRANSITIONS AI_PENDING_EMPLOYEE_CONSENT Expire = Some AI_ESCALATED"
| "AI_TRANSITIONS AI_PENDING_EMPLOYEE_CONSENT DirectEscalate = Some AI_ESCALATED"
| "AI_TRANSITIONS AI_PENDING_EMPLOYEE_CONSENT AiCancel = Some AI_CANCELLED"
| "AI_TRANSITIONS AI_EMPLOYEE_AGREED AiSubmitToManager = Some AI_PENDING_MANAGER"
| "AI_TRANSITIONS AI_EMPLOYEE_AGREED AiCancel = Some AI_CANCELLED"
| "AI_TRANSITIONS AI_PENDING_MANAGER AiManagerApprove = Some AI_APPROVED"
| "AI_TRANSITIONS AI_PENDING_MANAGER AiManagerReject = Some AI_REJECTED"
| "AI_TRANSITIONS AI_PENDING_MANAGER AiCancel = Some AI_CANCELLED"
| "AI_TRANSITIONS _ _ = None"

definition nextProposalState :: "ai_state \<Rightarrow> ai_action \<Rightarrow> app_error + ai_state" where
  "nextProposalState from action =
     (case AI_TRANSITIONS from action of
        None \<Rightarrow> Inl (IllegalAiProposalTransitionError from action)
      | Some to \<Rightarrow> Inr to)"

text \<open>A decline that promotes the next candidate keeps the state; every other action lowers the rank.\<close>

fun ai_rank :: "ai_state \<Rightarrow> nat" where
  "ai_rank AI_DRAFT = 4"
| "ai_rank AI_PENDING_EMPLOYEE_CONSENT = 3"
| "ai_rank AI_EMPLOYEE_AGREED = 2"
| "ai_rank AI_PENDING_MANAGER = 1"
| "ai_rank _ = 0"

lemma AI_TRANSITIONS_cancel: "s \<notin> AI_TERMINAL_STATES \<Longrightarrow> AI_TRANSITIONS s AiCancel = Some AI_CANCELLED"
  by (cases s) (auto simp: AI_TERMINAL_STATES_def)

interpretation ai_machine: transition_table AI_TRANSITIONS "\<lambda>s. s \<in> AI_TERMINAL_STATES" ai_rank
proof unfold_locales
  fix s a
  assume "s \<in> AI_TERMINAL_STATES"
  then show "AI_TRANSITIONS s a = None" by (auto simp: AI_TERMINAL_STATES_def)
next
  fix s
  assume "s \<notin> AI_TERMINAL_STATES"
  then show "\<exists>a t. AI_TRANSITIONS s a = Some t \<and> t \<noteq> s"
    using AI_TRANSITIONS_cancel by (auto simp: AI_TERMINAL_STATES_def)
next
  fix s a t
  assume "AI_TRANSITIONS s a = Some t" and "t \<noteq> s"
  then show "ai_rank t < ai_rank s"
    by (cases "(s, a)" rule: AI_TRANSITIONS.cases) auto
qed

text \<open>The results of the machine on the constant arguments the service passes.\<close>

lemma nextProposalState_simps [simp]:
  "nextProposalState AI_DRAFT AskConsent = Inr AI_PENDING_EMPLOYEE_CONSENT"
  "nextProposalState AI_DRAFT DirectEscalate = Inr AI_ESCALATED"
  "nextProposalState AI_PENDING_EMPLOYEE_CONSENT EmployeeAccept = Inr AI_EMPLOYEE_AGREED"
  "nextProposalState AI_EMPLOYEE_AGREED AiSubmitToManager = Inr AI_PENDING_MANAGER"
  "nextProposalState AI_PENDING_EMPLOYEE_CONSENT EmployeeDeclineNext = Inr AI_PENDING_EMPLOYEE_CONSENT"
  "nextProposalState AI_PENDING_EMPLOYEE_CONSENT EmployeeDeclineLast = Inr AI_ESCALATED"
  "nextProposalState AI_PENDING_EMPLOYEE_CONSENT Expire = Inr AI_ESCALATED"
  "nextProposalState AI_PENDING_MANAGER AiManagerApprove = Inr AI_APPROVED"
  "nextProposalState AI_PENDING_MANAGER AiManagerReject = Inr AI_REJECTED"
  by (simp_all add: nextProposalState_def)

section \<open>Leave requests\<close>

definition LEAVE_TERMINAL_STATES :: "leave_status set" where
  "LEAVE_TERMINAL_STATES = {LV_APPROVED, LV_REJECTED, LV_CANCELLED}"

fun LEAVE_TRANSITIONS :: "leave_status \<Rightarrow> leave_action \<Rightarrow> leave_status option" where
  "LEAVE_TRANSITIONS LV_PENDING LvApprove = Some LV_APPROVED"
| "LEAVE_TRANSITIONS LV_PENDING LvReject = Some LV_REJECTED"
| "LEAVE_TRANSITIONS LV_PENDING LvCancel = Some LV_CANCELLED"
| "LEAVE_TRANSITIONS _ _ = None"

definition nextLeaveState :: "leave_status \<Rightarrow> leave_action \<Rightarrow> app_error + leave_status" where
  "nextLeaveState from action =
     (case LEAVE_TRANSITIONS from action of
        None \<Rightarrow> Inl (IllegalLeaveTransitionError from action)
      | Some to \<Rightarrow> Inr to)"

definition leave_rank :: "leave_status \<Rightarrow> nat" where
  "leave_rank s = (if s = LV_PENDING then 1 else 0)"

interpretation leave_machine:
  transition_table LEAVE_TRANSITIONS "\<lambda>s. s \<in> LEAVE_TERMINAL_STATES" leave_rank
proof unfold_locales
  fix s a
  assume "s \<in> LEAVE_TERMINAL_STATES"
  then show "LEAVE_TRANSITIONS s a = None" by (auto simp: LEAVE_TERMINAL_STATES_def)
next
  fix s
  assume "s \<notin> LEAVE_TERMINAL_STATES"
  then have "s = LV_PENDING" by (cases s) (auto simp: LEAVE_TERMINAL_STATES_def)
  then show "\<exists>a t. LEAVE_TRANSITIONS s a = Some t \<and> t \<noteq> s"
    by (intro exI [of _ LvCancel] exI [of _ LV_CANCELLED]) simp
next
  fix s a t
  assume "LEAVE_TRANSITIONS s a = Some t" and "t \<noteq> s"
  then show "leave_rank t < leave_rank s"
    by (cases "(s, a)" rule: LEAVE_TRANSITIONS.cases) (auto simp: leave_rank_def)
qed

lemma nextLeaveState_simps [simp]:
  "nextLeaveState LV_PENDING LvApprove = Inr LV_APPROVED"
  "nextLeaveState LV_PENDING LvReject = Inr LV_REJECTED"
  "nextLeaveState LV_PENDING LvCancel = Inr LV_CANCELLED"
  by (simp_all add: nextLeaveState_def)

end
