(* ===== verification/AiConfig.thy ===== *)
theory AiConfig
  imports Samples
begin

text \<open>
  The per-unit configuration of AI scheduling, \<open>ai-grafik/ai-config.service.ts\<close>: one row per unit, and
  one row without a unit for the tenant-wide default. The \<open>update\<close> of a partial DTO changes the given
  columns only; the \<open>create\<close> fills the missing ones with the schema's defaults.
\<close>

section \<open>Rows and requests\<close>

record ai_config_dto =
  cd_unitId :: "id option"
  cd_autonomyLevel :: "autonomy_level option"
  cd_quietHoursStart :: "string option"
  cd_quietHoursEnd :: "string option"
  cd_consentTtlHours :: "int option"
  cd_budgetWeeklyCap :: "real option"
  cd_avgSpeedKmh :: "int option"
  cd_perKmRatePln :: "real option"
  cd_maxTravelMinutes :: "int option"
  cd_roundTrip :: "bool option"

text \<open>The schema defaults, which \<open>defaultConfig\<close> mirrors.\<close>

definition defaultConfig :: "id \<Rightarrow> id option \<Rightarrow> ai_config_row" where
  "defaultConfig i unitId =
     \<lparr>ac_id = i, ac_unitId = unitId, ac_autonomyLevel = AUTO_ASK_CONSENT,
      ac_quietHoursStart = None, ac_quietHoursEnd = None, ac_consentTtlHours = 24,
      ac_budgetWeeklyCap = None, ac_avgSpeedKmh = 60, ac_perKmRatePln = 115 / 100,
      ac_maxTravelMinutes = 120, ac_roundTrip = True\<rparr>"

definition apply_dto :: "ai_config_dto \<Rightarrow> ai_config_row \<Rightarrow> ai_config_row" where
  "apply_dto d r = r
     \<lparr>ac_autonomyLevel := coalesce (cd_autonomyLevel d) (ac_autonomyLevel r),
      ac_quietHoursStart := (case cd_quietHoursStart d of None \<Rightarrow> ac_quietHoursStart r | Some q \<Rightarrow> Some q),
      ac_quietHoursEnd := (case cd_quietHoursEnd d of None \<Rightarrow> ac_quietHoursEnd r | Some q \<Rightarrow> Some q),
      ac_consentTtlHours := coalesce (cd_consentTtlHours d) (ac_consentTtlHours r),
      ac_budgetWeeklyCap := (case cd_budgetWeeklyCap d of None \<Rightarrow> ac_budgetWeeklyCap r | Some c \<Rightarrow> Some c),
      ac_avgSpeedKmh := coalesce (cd_avgSpeedKmh d) (ac_avgSpeedKmh r),
      ac_perKmRatePln := coalesce (cd_perKmRatePln d) (ac_perKmRatePln r),
      ac_maxTravelMinutes := coalesce (cd_maxTravelMinutes d) (ac_maxTravelMinutes r),
      ac_roundTrip := coalesce (cd_roundTrip d) (ac_roundTrip r)\<rparr>"

definition config_row :: "tenant_db \<Rightarrow> id option \<Rightarrow> ai_config_row option" where
  "config_row db key = find (\<lambda>r. ac_unitId r = key) (t_aiConfigs db)"

definition autonomy_name :: "autonomy_level \<Rightarrow> string" where
  "autonomy_name l = (case l of SUGGEST_ONLY \<Rightarrow> ''SUGGEST_ONLY'' | AUTO_NOTIFY \<Rightarrow> ''AUTO_NOTIFY''
     | AUTO_ASK_CONSENT \<Rightarrow> ''AUTO_ASK_CONSENT'' | AUTO_COMMIT_ON_APPROVAL \<Rightarrow> ''AUTO_COMMIT_ON_APPROVAL'')"

definition config_json :: "ai_config_row \<Rightarrow> json" where
  "config_json r = JObj
     [(''id'', JStr (ac_id r)), (''unitId'', json_opt (ac_unitId r)),
      (''autonomyLevel'', JStr (autonomy_name (ac_autonomyLevel r))),
      (''quietHoursStart'', json_opt (ac_quietHoursStart r)),
      (''quietHoursEnd'', json_opt (ac_quietHoursEnd r)),
      (''consentTtlHours'', JNum (real_of_int (ac_consentTtlHours r))),
      (''budgetWeeklyCap'', (case ac_budgetWeeklyCap r of None \<Rightarrow> JNull | Some c \<Rightarrow> JNum c)),
      (''avgSpeedKmh'', JNum (real_of_int (ac_avgSpeedKmh r))),
      (''perKmRatePln'', JNum (ac_perKmRatePln r)),
      (''maxTravelMinutes'', JNum (real_of_int (ac_maxTravelMinutes r))),
      (''roundTrip'', JBool (ac_roundTrip r))]"

definition config_payload :: "ai_config_row option \<Rightarrow> ai_config_row \<Rightarrow> json" where
  "config_payload before after =
     JObj [(''before'', case before of None \<Rightarrow> JNull | Some b \<Rightarrow> config_json b), (''after'', config_json after)]"

section \<open>Operations\<close>

definition config_scope :: "string \<Rightarrow> actor \<Rightarrow> id option \<Rightarrow> unit tx" where
  "config_scope msg act unitId =
     (if isGlobal (act_roles act) then ret ()
      else bnd (asks (\<lambda>db. managedUnitIds db (act_userId act))) (\<lambda>managed.
        case unitId of
          None \<Rightarrow> throw (ForbiddenException msg)
        | Some u \<Rightarrow> ensure (u \<in> set managed) (ForbiddenException msg)))"

definition getConfig :: "actor \<Rightarrow> id option \<Rightarrow> ai_config_row tx" where
  "getConfig act unitId =
     bnd (config_scope ''AI config is outside your scope'' act unitId) (\<lambda>_.
     asks (\<lambda>db. coalesce (config_row db unitId) (defaultConfig [] unitId)))"

definition config_update :: "id \<Rightarrow> ai_config_dto \<Rightarrow> ai_config_row tx" where
  "config_update i d =
     update_row t_aiConfigs put_aiConfigs ac_id (P2025 ''AiSchedulingConfig'') i (apply_dto d)"

text \<open>\<open>create\<close> under the unique index on the unit (a partial index for the default row).\<close>

definition config_create :: "id \<Rightarrow> id option \<Rightarrow> ai_config_dto \<Rightarrow> ai_config_row tx" where
  "config_create newId key d =
     bnd (asks (\<lambda>db. config_row db key)) (\<lambda>existing.
     bnd (ensure (existing = None) (P2002 ''ai_scheduling_config'')) (\<lambda>_.
     create_row t_aiConfigs put_aiConfigs (apply_dto d (defaultConfig newId key))))"

text \<open>
  The write of \<open>upsertConfig\<close>, given the row that was read before. Another writer may have created
  the default row in between; then the \<open>create\<close> fails on the index and the row is read again.
\<close>

definition config_write :: "id \<Rightarrow> ai_config_row option \<Rightarrow> ai_config_dto \<Rightarrow> ai_config_row tx" where
  "config_write newId before d =
     (case cd_unitId d of
        None \<Rightarrow>
          (case before of
             Some b \<Rightarrow> config_update (ac_id b) d
           | None \<Rightarrow>
               catch (config_create newId None d) (\<lambda>err.
                 if is_P2002 err
                 then bnd (asks (\<lambda>db. config_row db None)) (\<lambda>existing.
                      bnd (require (ConflictException ''AI config default already exists'') existing) (\<lambda>e.
                      config_update (ac_id e) d))
                 else throw err))
      | Some u \<Rightarrow>
          bnd (asks (\<lambda>db. config_row db (Some u))) (\<lambda>existing.
          case existing of
            Some e \<Rightarrow> config_update (ac_id e) d
          | None \<Rightarrow> config_create newId (Some u) d))"

definition upsertConfig :: "id \<Rightarrow> actor \<Rightarrow> ai_config_dto \<Rightarrow> ai_config_row tx" where
  "upsertConfig newId act d =
     bnd (config_scope ''Only HR/ADMIN or the managing MANAGER may edit AI config'' act (cd_unitId d)) (\<lambda>_.
     bnd (asks (\<lambda>db. config_row db (cd_unitId d))) (\<lambda>before.
     bnd (config_write newId before d) (\<lambda>after.
     bnd (audit_log (act_userId act) ''ai_config.updated'' ''AiSchedulingConfig'' (ac_id after)
            (config_payload before after) (act_ipAddress act)) (\<lambda>_.
     ret after))))"

datatype cap_source = CapUnit | CapGlobal | CapNone

definition getEffectiveBudgetCap :: "id option \<Rightarrow> (real option \<times> cap_source) tx" where
  "getEffectiveBudgetCap unitId =
     asks (\<lambda>db.
       let unitCap = (case unitId of None \<Rightarrow> None
             | Some u \<Rightarrow> if u = [] then None else Option.bind (config_row db (Some u)) ac_budgetWeeklyCap)
       in case unitCap of
            Some c \<Rightarrow> (Some c, CapUnit)
          | None \<Rightarrow>
              (case Option.bind (config_row db None) ac_budgetWeeklyCap of
                 Some c \<Rightarrow> (Some c, CapGlobal)
               | None \<Rightarrow> (None, CapNone)))"

section \<open>One row per unit\<close>

definition config_unique :: "tenant_db \<Rightarrow> bool" where
  "config_unique db \<longleftrightarrow> distinct (map ac_unitId (t_aiConfigs db)) \<and> distinct (map ac_id (t_aiConfigs db))"

lemma apply_dto_simps [simp]:
  "ac_id (apply_dto d r) = ac_id r" "ac_unitId (apply_dto d r) = ac_unitId r"
  by (simp_all add: apply_dto_def)

lemma defaultConfig_simps [simp]:
  "ac_id (defaultConfig i u) = i" "ac_unitId (defaultConfig i u) = u"
  by (simp_all add: defaultConfig_def)

lemma config_row_None_iff: "config_row db key = None \<longleftrightarrow> key \<notin> ac_unitId ` set (t_aiConfigs db)"
  by (auto simp: config_row_def find_None_iff)

lemma config_row_SomeD:
  "config_row db key = Some r \<Longrightarrow> r \<in> set (t_aiConfigs db) \<and> ac_unitId r = key"
  by (auto simp: config_row_def find_Some_iff)

lemma find_app: "find P (xs @ ys) = (case find P xs of None \<Rightarrow> find P ys | Some x \<Rightarrow> Some x)"
  by (induction xs) auto

lemma update_rows_id:
  assumes "distinct (map ac_id rs)" and "r \<in> set rs"
  shows "update_rows (\<lambda>r'. ac_id r' = ac_id r) f rs = map (\<lambda>r'. if r' = r then f r' else r') rs"
proof -
  have "r' = r" if "r' \<in> set rs" "ac_id r' = ac_id r" for r'
    using assms that by (auto simp: distinct_map dest: inj_onD)
  then show ?thesis by (auto simp: update_rows_def)
qed

lemma find_unit_map:
  assumes "distinct (map ac_unitId rs)" and "r \<in> set rs" and "ac_unitId (f r) = ac_unitId r"
  shows "find (\<lambda>x. ac_unitId x = k) (map (\<lambda>x. if x = r then f x else x) rs) =
    (if k = ac_unitId r then Some (f r) else find (\<lambda>x. ac_unitId x = k) rs)"
  using assms(1,2)
proof (induction rs)
  case (Cons x rs)
  show ?case
  proof (cases "x = r")
    case True
    with Cons.prems have "r \<notin> set rs" by (auto simp: rev_image_eqI)
    then have "map (\<lambda>x. if x = r then f x else x) rs = rs" by (auto intro: map_idI)
    with True assms(3) show ?thesis by simp
  next
    case False
    with Cons.prems have "r \<in> set rs" "ac_unitId x \<noteq> ac_unitId r" by (auto simp: rev_image_eqI)
    with Cons False show ?thesis by auto
  qed
qed simp

text \<open>The two writes: the update of the row of a unit, and the creation of a missing one.\<close>

definition config_effect :: "id \<Rightarrow> ai_config_dto \<Rightarrow> tenant_db \<Rightarrow> ai_config_row \<Rightarrow> tenant_db \<Rightarrow> bool" where
  "config_effect newId d db r db' \<longleftrightarrow>
     (let key = cd_unitId d
      in r = apply_dto d (coalesce (config_row db key) (defaultConfig newId key)) \<and>
         (\<forall>k. config_row db' k = (if k = key then Some r else config_row db k)) \<and>
         config_unique db' \<and> db' = put_aiConfigs (t_aiConfigs db') db)"

lemma config_update_effect:
  assumes uniq: "config_unique db" and r: "config_row db (cd_unitId d) = Some r0"
  shows "\<exists>r db'. config_update (ac_id r0) d db = (Inr r, db') \<and> config_effect newId d db r db'"
proof -
  from r have r0: "r0 \<in> set (t_aiConfigs db)" "ac_unitId r0 = cd_unitId d" by (auto dest: config_row_SomeD)
  from uniq have dist: "distinct (map ac_id (t_aiConfigs db))" "distinct (map ac_unitId (t_aiConfigs db))"
    by (auto simp: config_unique_def)
  let ?rs = "map (\<lambda>x. if x = r0 then apply_dto d x else x) (t_aiConfigs db)"
  have "config_update (ac_id r0) d db = (Inr (apply_dto d r0), put_aiConfigs ?rs db)"
    by (simp add: config_update_def find_row_in [OF dist(1) r0(1)] update_rows_id [OF dist(1) r0(1)])
  moreover have "map ac_id ?rs = map ac_id (t_aiConfigs db)" "map ac_unitId ?rs = map ac_unitId (t_aiConfigs db)"
    by auto
  then have "config_unique (put_aiConfigs ?rs db)" using dist
    by (simp del: map_map add: config_unique_def)
  moreover have "config_row (put_aiConfigs ?rs db) k = (if k = cd_unitId d then Some (apply_dto d r0) else config_row db k)" for k
    using find_unit_map [OF dist(2) r0(1), of "apply_dto d"] r0(2) by (simp add: config_row_def)
  ultimately show ?thesis
    by (auto simp: config_effect_def Let_def r coalesce_def)
qed

lemma config_create_effect:
  assumes uniq: "config_unique db" and none: "config_row db (cd_unitId d) = None"
    and fresh: "newId \<notin> ac_id ` set (t_aiConfigs db)"
  shows "\<exists>r db'. config_create newId (cd_unitId d) d db = (Inr r, db') \<and> config_effect newId d db r db'"
proof -
  let ?r = "apply_dto d (defaultConfig newId (cd_unitId d))"
  have "config_create newId (cd_unitId d) d db = (Inr ?r, put_aiConfigs (t_aiConfigs db @ [?r]) db)"
    by (simp add: config_create_def none)
  moreover have "config_row (put_aiConfigs (t_aiConfigs db @ [?r]) db) k =
      (if k = cd_unitId d then Some ?r else config_row db k)" for k
    using none by (auto simp: config_row_def find_app split: option.splits)
  moreover have "config_unique (put_aiConfigs (t_aiConfigs db @ [?r]) db)"
    using uniq fresh none by (auto simp: config_unique_def config_row_None_iff)
  ultimately show ?thesis
    by (auto simp: config_effect_def Let_def none coalesce_def)
qed

text \<open>
  Concurrent first writes of the configuration. Whatever other writers did since the row was read
  (here: created it), the write succeeds, leaves exactly one row for the unit (or for the tenant-wide
  default), equal to the row that is there now, or the schema defaults, with the given columns
  replaced, and touches no other row.
\<close>

theorem config_write_last_wins:
  assumes uniq: "config_unique db" and fresh: "newId \<notin> ac_id ` set (t_aiConfigs db)"
    and before: "before = None \<or> before = config_row db (cd_unitId d)"
  shows "\<exists>r db'. config_write newId before d db = (Inr r, db') \<and> config_effect newId d db r db'"
proof (cases "cd_unitId d")
  case None
  show ?thesis
  proof (cases "config_row db None")
    case row: None
    with before None have "before = None" by simp
    with None config_create_effect [OF uniq _ fresh, of d] row show ?thesis
      by (auto simp: config_write_def catch_def)
  next
    case (Some r0)
    from config_update_effect [OF uniq, of d r0 newId] Some None obtain r db' where
      *: "config_update (ac_id r0) d db = (Inr r, db')" "config_effect newId d db r db'"
      by auto
    show ?thesis
    proof (cases before)
      case None
      with * Some \<open>cd_unitId d = None\<close> show ?thesis
        by (auto simp: config_write_def catch_def config_create_def is_P2002_def)
    next
      case (Some b)
      with before \<open>cd_unitId d = None\<close> \<open>config_row db None = Some r0\<close> have "b = r0" by simp
      with * Some \<open>cd_unitId d = None\<close> show ?thesis by (auto simp: config_write_def)
    qed
  qed
next
  case (Some u)
  with config_update_effect [OF uniq, of d] config_create_effect [OF uniq _ fresh, of d] show ?thesis
    by (cases "config_row db (Some u)") (auto simp: config_write_def)
qed

text \<open>A writer that read no default row, while another writer created one: it updates that row.\<close>

definition cap_dto :: ai_config_dto where
  "cap_dto = \<lparr>cd_unitId = None, cd_autonomyLevel = None, cd_quietHoursStart = None, cd_quietHoursEnd = None,
     cd_consentTtlHours = Some 48, cd_budgetWeeklyCap = None, cd_avgSpeedKmh = None,
     cd_perKmRatePln = None, cd_maxTravelMinutes = None, cd_roundTrip = None\<rparr>"

theorem config_write_last_wins_witness:
  "\<exists>r db'. config_write ''c2'' None cap_dto (empty_db\<lparr>t_aiConfigs := [defaultConfig ''c1'' None]\<rparr>) = (Inr r, db') \<and>
     ac_id r = ''c1'' \<and> ac_consentTtlHours r = 48"
proof -
  let ?db = "empty_db\<lparr>t_aiConfigs := [defaultConfig ''c1'' None]\<rparr>"
  have "config_unique ?db" "''c2'' \<notin> ac_id ` set (t_aiConfigs ?db)"
    by (simp_all add: config_unique_def empty_db_def)
  from config_write_last_wins [OF this, of None cap_dto] obtain r db' where
    r: "config_write ''c2'' None cap_dto ?db = (Inr r, db')" and eff: "config_effect ''c2'' cap_dto ?db r db'"
    by blast
  then have "r = apply_dto cap_dto (defaultConfig ''c1'' None)"
    by (simp add: config_effect_def Let_def cap_dto_def config_row_def coalesce_def)
  with r show ?thesis by (intro exI [of _ r] exI [of _ db']) (simp add: apply_dto_def cap_dto_def coalesce_def)
qed

end
