(* ===== verification/Travel.thy ===== *)
theory Travel
  imports Domain
begin

text \<open>
  Distances and travel estimates: \<open>cost/travel.util.ts\<close> and \<open>grafik/haversine.ts\<close>. Floating-point
  numbers and decimals are exact reals; \<open>Math.round\<close> rounds a half up, and \<open>toDecimalPlaces(2)\<close> and
  \<open>toFixed(2)\<close> round a half away from zero.
\<close>

section \<open>The estimates of travel.util.ts\<close>

definition EARTH_RADIUS_KM :: real where
  "EARTH_RADIUS_KM = 6371"

definition toRad :: "real \<Rightarrow> real" where
  "toRad deg = (deg * pi) / 180"

text \<open>\<open>Math.atan2\<close> on a point of the closed right half plane, which is how the code calls it.\<close>

definition atan2 :: "real \<Rightarrow> real \<Rightarrow> real" where
  "atan2 y x =
     (if x > 0 then arctan (y / x)
      else if x < 0 then (if y \<ge> 0 then arctan (y / x) + pi else arctan (y / x) - pi)
      else if y > 0 then pi / 2 else if y < 0 then - pi / 2 else 0)"

definition haversine_term :: "real \<Rightarrow> real \<Rightarrow> real \<Rightarrow> real \<Rightarrow> real" where
  "haversine_term aLat aLng bLat bLng =
     (let dLat = toRad (bLat - aLat); dLng = toRad (bLng - aLng);
          lat1 = toRad aLat; lat2 = toRad bLat;
          sinDLat = sin (dLat / 2); sinDLng = sin (dLng / 2)
      in sinDLat * sinDLat + cos lat1 * cos lat2 * sinDLng * sinDLng)"

definition haversineKm :: "real \<Rightarrow> real \<Rightarrow> real \<Rightarrow> real \<Rightarrow> real" where
  "haversineKm aLat aLng bLat bLng =
     (let a = haversine_term aLat aLng bLat bLng;
          c = 2 * atan2 (sqrt a) (sqrt (1 - a))
      in EARTH_RADIUS_KM * c)"

definition travelMinutes :: "real \<Rightarrow> real \<Rightarrow> app_error + real" where
  "travelMinutes km avgSpeedKmh =
     (if avgSpeedKmh \<le> 0 then Inl (PlainError ''avgSpeedKmh must be > 0'')
      else Inr ((km / avgSpeedKmh) * 60))"

definition travelCost :: "real \<Rightarrow> real \<Rightarrow> bool \<Rightarrow> real" where
  "travelCost km perKmPln roundTrip = (km * (if roundTrip then 2 else 1)) * perKmPln"

definition math_round :: "real \<Rightarrow> int" where
  "math_round x = \<lfloor>x + 1 / 2\<rfloor>"

definition round2 :: "real \<Rightarrow> real" where
  "round2 x = (if x \<ge> 0 then of_int \<lfloor>x * 100 + 1 / 2\<rfloor> / 100 else - (of_int \<lfloor>- x * 100 + 1 / 2\<rfloor> / 100))"

definition roundKm :: "real \<Rightarrow> int" where
  "roundKm km = math_round km"

definition roundMinutes :: "real \<Rightarrow> int" where
  "roundMinutes m = math_round m"

definition roundCost :: "real \<Rightarrow> real" where
  "roundCost c = round2 c"

section \<open>The commute of haversine.ts\<close>

definition ASSUMED_COMMUTE_KMH :: real where
  "ASSUMED_COMMUTE_KMH = 40"

definition grafik_haversineKm :: "real \<times> real \<Rightarrow> real \<times> real \<Rightarrow> real" where
  "grafik_haversineKm a b =
     (let dLat = toRad (fst b - fst a); dLng = toRad (snd b - snd a);
          lat1 = toRad (fst a); lat2 = toRad (fst b);
          h = sin (dLat / 2) ^ 2 + cos lat1 * cos lat2 * sin (dLng / 2) ^ 2
      in 2 * EARTH_RADIUS_KM * arcsin (min 1 (sqrt h)))"

definition commuteMinutes :: "real \<times> real \<Rightarrow> real \<times> real \<Rightarrow> real \<Rightarrow> real" where
  "commuteMinutes a b speedKmh = (grafik_haversineKm a b / speedKmh) * 60"

section \<open>The haversine term is a squared half chord\<close>

lemma haversine_cos:
  "haversine_term aLat aLng bLat bLng =
     (1 - (sin (toRad aLat) * sin (toRad bLat) +
           cos (toRad aLat) * cos (toRad bLat) * cos (toRad (bLng - aLng)))) / 2"
proof -
  have half: "sin (x / 2) * sin (x / 2) = (1 - cos x) / 2" for x :: real
    using cos_double_sin [of "x / 2"] by (simp add: power2_eq_square)
  have diff: "toRad (bLat - aLat) = toRad bLat - toRad aLat"
    by (simp add: toRad_def diff_divide_distrib left_diff_distrib)
  have "haversine_term aLat aLng bLat bLng =
      (1 - cos (toRad bLat - toRad aLat)) / 2 +
      cos (toRad aLat) * cos (toRad bLat) * ((1 - cos (toRad (bLng - aLng))) / 2)"
    unfolding haversine_term_def Let_def diff half [symmetric] by (simp add: algebra_simps)
  then show ?thesis by (simp add: cos_diff field_simps)
qed

text \<open>The bracket is the scalar product of two unit vectors.\<close>

lemma cauchy_schwarz_2: "(a * c + b * d)\<^sup>2 \<le> (a\<^sup>2 + b\<^sup>2) * (c\<^sup>2 + d\<^sup>2)" for a b c d :: real
proof -
  have "(a\<^sup>2 + b\<^sup>2) * (c\<^sup>2 + d\<^sup>2) - (a * c + b * d)\<^sup>2 = (a * d - b * c)\<^sup>2"
    by (simp add: power2_eq_square algebra_simps)
  moreover have "0 \<le> (a * d - b * c)\<^sup>2" by simp
  ultimately show ?thesis by linarith
qed

lemma unit_product_bound:
  "\<bar>sin p * sin q + cos p * cos q * cos l\<bar> \<le> (1::real)"
proof -
  let ?x = "sin p * sin q + cos p * cos q * cos l"
  have "?x\<^sup>2 \<le> ((sin p)\<^sup>2 + (cos p)\<^sup>2) * ((sin q)\<^sup>2 + (cos q * cos l)\<^sup>2)"
    using cauchy_schwarz_2 [of "sin p" "sin q" "cos p" "cos q * cos l"] by (simp only: mult.assoc)
  also have "\<dots> = (sin q)\<^sup>2 + (cos q)\<^sup>2 * (cos l)\<^sup>2" by (simp add: power_mult_distrib)
  also have "\<dots> \<le> (sin q)\<^sup>2 + (cos q)\<^sup>2 * 1"
    by (intro add_left_mono mult_left_mono) (auto simp: abs_square_le_1)
  also have "\<dots> = 1" by simp
  finally show ?thesis by (simp add: abs_square_le_1)
qed

lemma haversine_term_bounds: "0 \<le> haversine_term a b c d \<and> haversine_term a b c d \<le> 1"
  using unit_product_bound [of "toRad a" "toRad c" "toRad (d - b)"]
  by (auto simp: haversine_cos abs_le_iff)

lemma atan2_half_chord:
  assumes "0 \<le> h" and "h \<le> 1"
  shows "atan2 (sqrt h) (sqrt (1 - h)) = arcsin (sqrt h)"
proof (cases "h = 1")
  case True
  then show ?thesis by (simp add: atan2_def)
next
  case False
  with assms have h: "h < 1" by simp
  with assms have "arcsin (sqrt h) = arctan (sqrt h / sqrt (1 - (sqrt h)\<^sup>2))"
    by (intro arcsin_arctan) (auto simp: real_sqrt_lt_1_iff intro: less_le_trans [of _ 0])
  with h assms show ?thesis by (simp add: atan2_def)
qed

text \<open>
  The two distance functions of the program, the \<open>atan2\<close> form of the travel estimate and the
  \<open>asin\<close> form of the solver's commute, are the same function; it is symmetric, zero from a point to
  itself, and never more than half the circumference of the Earth.
\<close>

theorem haversine_forms_agree:
  "haversineKm (fst a) (snd a) (fst b) (snd b) = grafik_haversineKm a b \<and>
   grafik_haversineKm a b = grafik_haversineKm b a \<and> grafik_haversineKm a a = 0 \<and>
   0 \<le> grafik_haversineKm a b \<and> grafik_haversineKm a b \<le> pi * 6371"
proof -
  have g: "grafik_haversineKm x y =
      2 * EARTH_RADIUS_KM * arcsin (sqrt (haversine_term (fst x) (snd x) (fst y) (snd y)))" for x y
  proof -
    let ?h = "haversine_term (fst x) (snd x) (fst y) (snd y)"
    have "grafik_haversineKm x y = 2 * EARTH_RADIUS_KM * arcsin (min 1 (sqrt ?h))"
      by (simp add: grafik_haversineKm_def haversine_term_def Let_def power2_eq_square mult.assoc)
    moreover have "sqrt ?h \<le> 1" using haversine_term_bounds by (simp add: real_sqrt_le_1_iff)
    ultimately show ?thesis by (simp add: min_def)
  qed
  have "haversineKm (fst a) (snd a) (fst b) (snd b) = grafik_haversineKm a b"
    using haversine_term_bounds [of "fst a" "snd a" "fst b" "snd b"]
    by (simp add: haversineKm_def g atan2_half_chord)
  moreover have "grafik_haversineKm a b = grafik_haversineKm b a"
  proof -
    have "cos (toRad (snd b - snd a)) = cos (toRad (snd a - snd b))"
      by (metis cos_minus minus_diff_eq minus_divide_left mult_minus_left toRad_def)
    then show ?thesis by (simp add: g haversine_cos algebra_simps)
  qed
  moreover have "grafik_haversineKm a a = 0"
    by (simp add: g haversine_term_def toRad_def)
  moreover have "0 \<le> arcsin (sqrt h) \<and> 2 * arcsin (sqrt h) \<le> pi" if "0 \<le> h" "h \<le> 1" for h
  proof -
    have "0 \<le> sqrt h" "sqrt h \<le> 1" using that by auto
    then have "- 1 \<le> sqrt h" by linarith
    with \<open>sqrt h \<le> 1\<close> \<open>0 \<le> sqrt h\<close> show ?thesis
      using arcsin_bounded [of "sqrt h"] arcsin_le_arcsin [of 0 "sqrt h"] by auto
  qed
  with haversine_term_bounds [of "fst a" "snd a" "fst b" "snd b"]
  have "0 \<le> grafik_haversineKm a b \<and> grafik_haversineKm a b \<le> pi * 6371"
    by (simp add: g EARTH_RADIUS_KM_def mult.commute)
  ultimately show ?thesis by simp
qed

end
