(* ===== verification/Cost.thy ===== *)
theory Cost
  imports Travel AiConfig
begin

text \<open>
  Shift costs and weekly budgets: \<open>cost/position.util.ts\<close> and \<open>cost/cost.service.ts\<close>. An amount
  rendered with two decimals (\<open>toFixed(2)\<close>) is the rounded real.
\<close>

section \<open>Positions\<close>

text \<open>\<open>replace(/\s+/g, ' ')\<close>: every run of white space becomes one blank.\<close>

function collapse :: "string \<Rightarrow> string" where
  "collapse [] = []"
| "collapse (c # cs) =
     (if is_space c then CHR '' '' # collapse (dropWhile is_space cs) else c # collapse cs)"
  by pat_completeness auto

termination
  by (relation "measure length") (auto simp: le_imp_less_Suc length_dropWhile_le)

definition normalizePosition :: "string \<Rightarrow> string" where
  "normalizePosition position = collapse (trim position)"

section \<open>Rates\<close>

record upsert_rate_input =
  ui_position :: string
  ui_employmentType :: employment_type
  ui_hourlyRate :: real
  ui_currency :: "string option"

definition rate_for :: "rate_row list \<Rightarrow> string \<Rightarrow> employment_type \<Rightarrow> rate_row option" where
  "rate_for rates pos et = find (\<lambda>r. ra_position r = pos \<and> ra_employmentType r = et) rates"

definition employment_name :: "employment_type \<Rightarrow> string" where
  "employment_name t = (case t of UMOWA_O_PRACE \<Rightarrow> ''UMOWA_O_PRACE'' | UMOWA_ZLECENIE \<Rightarrow> ''UMOWA_ZLECENIE''
     | UMOWA_O_DZIELO \<Rightarrow> ''UMOWA_O_DZIELO'' | B2B \<Rightarrow> ''B2B'')"

definition rate_json :: "rate_row \<Rightarrow> json" where
  "rate_json r = JObj
     [(''id'', JStr (ra_id r)), (''position'', JStr (ra_position r)),
      (''employmentType'', JStr (employment_name (ra_employmentType r))),
      (''hourlyRate'', JNum (ra_hourlyRate r)), (''currency'', JStr (ra_currency r))]"

definition rate_upsert :: "rate_row \<Rightarrow> rate_row tx" where
  "rate_upsert data =
     bnd (asks (\<lambda>db. rate_for (t_rates db) (ra_position data) (ra_employmentType data))) (\<lambda>existing.
     case existing of
       Some e \<Rightarrow> update_row t_rates put_rates ra_id (P2025 ''PositionCostRate'') (ra_id e)
                   (\<lambda>r. data\<lparr>ra_id := ra_id r\<rparr>)
     | None \<Rightarrow> create_row t_rates put_rates data)"

definition upsertRate :: "id \<Rightarrow> actor \<Rightarrow> upsert_rate_input \<Rightarrow> rate_row tx" where
  "upsertRate newId act dto =
     bnd (ensure (isGlobal (act_roles act)) (ForbiddenException ''Only HR/ADMIN may write position cost rates'')) (\<lambda>_.
     let position = normalizePosition (ui_position dto) in
     bnd (ensure (position \<noteq> []) (BadRequestException ''position must not be blank'')) (\<lambda>_.
     bnd (asks (\<lambda>db. rate_for (t_rates db) position (ui_employmentType dto))) (\<lambda>before.
     bnd (rate_upsert
            \<lparr>ra_id = newId, ra_position = position, ra_employmentType = ui_employmentType dto,
             ra_hourlyRate = ui_hourlyRate dto, ra_currency = coalesce (ui_currency dto) ''PLN''\<rparr>) (\<lambda>after.
     bnd (audit_log (act_userId act) ''position_cost_rate.upserted'' ''PositionCostRate'' (ra_id after)
            (JObj [(''before'', case before of None \<Rightarrow> JNull | Some b \<Rightarrow> rate_json b),
                   (''after'', rate_json after)]) (act_ipAddress act)) (\<lambda>_.
     ret after)))))"

definition shiftCost :: "real \<Rightarrow> string \<Rightarrow> string \<Rightarrow> real" where
  "shiftCost hourlyRate start end = hourlyRate * (real_of_int (windowMinutes start end) / 60)"

text \<open>The rates of some (position, employment type) pairs, in table order.\<close>

definition findRatesForPairs :: "tenant_db \<Rightarrow> (string \<times> employment_type) list \<Rightarrow> rate_row list" where
  "findRatesForPairs db pairs =
     (let normalized = map (\<lambda>(p, t). (normalizePosition p, t)) pairs
      in filter (\<lambda>r. (ra_position r, ra_employmentType r) \<in> set normalized) (t_rates db))"

section \<open>The cost of a week\<close>

record missing_rate =
  mr_position :: string
  mr_employmentType :: employment_type
  mr_employeeIds :: "id list"

record week_cost =
  wc_cost :: "real option"
  wc_currency :: "string option"
  wc_missingRates :: "missing_rate list"
  wc_currencyConflict :: bool

text \<open>\<open>!unitId\<close>: an empty id counts as no id.\<close>

definition absent_id :: "id option \<Rightarrow> bool" where
  "absent_id i \<longleftrightarrow> i = None \<or> i = Some []"

text \<open>A shift in scope: its employee's id, normalized position and type, and its window.\<close>

record cost_shift =
  ws_employeeId :: id
  ws_position :: string
  ws_employmentType :: employment_type
  ws_start :: string
  ws_end :: string

definition week_shifts :: "tenant_db \<Rightarrow> int \<Rightarrow> id option \<Rightarrow> cost_shift list" where
  "week_shifts db date unitId =
     (let (weekStart, weekEndExcl) = isoWeekRange date
      in List.map_filter (\<lambda>s. case findEmployee db (sh_employeeId s) of
             None \<Rightarrow> None
           | Some e \<Rightarrow>
               if absent_id unitId \<or> unitId = Some (em_unitId e)
               then Some \<lparr>ws_employeeId = sh_employeeId s, ws_position = normalizePosition (em_position e),
                      ws_employmentType = em_employmentType e, ws_start = sh_start s, ws_end = sh_end s\<rparr>
               else None)
           (filter (\<lambda>s. weekStart \<le> sh_date s \<and> sh_date s < weekEndExcl) (t_shifts db)))"

text \<open>One pair without a rate: the first shift adds an entry, the next ones add their employee.\<close>

fun add_missing :: "cost_shift \<Rightarrow> missing_rate list \<Rightarrow> missing_rate list" where
  "add_missing s [] =
     [\<lparr>mr_position = ws_position s, mr_employmentType = ws_employmentType s, mr_employeeIds = [ws_employeeId s]\<rparr>]"
| "add_missing s (m # ms) =
     (if mr_position m = ws_position s \<and> mr_employmentType m = ws_employmentType s
      then (if ws_employeeId s \<in> set (mr_employeeIds m) then m
            else m\<lparr>mr_employeeIds := mr_employeeIds m @ [ws_employeeId s]\<rparr>) # ms
      else m # add_missing s ms)"

record week_sum =
  su_total :: real
  su_currency :: "string option"
  su_conflict :: bool
  su_missing :: "missing_rate list"

definition sum_step :: "rate_row list \<Rightarrow> cost_shift \<Rightarrow> week_sum \<Rightarrow> week_sum" where
  "sum_step rates s a =
     (case rate_for rates (ws_position s) (ws_employmentType s) of
        None \<Rightarrow> a\<lparr>su_missing := add_missing s (su_missing a)\<rparr>
      | Some rate \<Rightarrow>
          (case su_currency a of
             None \<Rightarrow> a\<lparr>su_currency := Some (ra_currency rate)\<rparr>
           | Some c \<Rightarrow> if c \<noteq> ra_currency rate then a\<lparr>su_conflict := True\<rparr> else a)
          \<lparr>su_total := su_total a + shiftCost (ra_hourlyRate rate) (ws_start s) (ws_end s)\<rparr>)"

definition week_total :: "rate_row list \<Rightarrow> cost_shift list \<Rightarrow> week_sum" where
  "week_total rates ss =
     fold (sum_step rates) ss \<lparr>su_total = 0, su_currency = None, su_conflict = False, su_missing = []\<rparr>"

definition assertWeekScope :: "actor \<Rightarrow> id option \<Rightarrow> unit tx" where
  "assertWeekScope act unitId =
     (if isGlobal (act_roles act) then ret ()
      else if absent_id unitId then throw (ForbiddenException ''unitId is required for a manager cost view'')
      else bnd (asks (\<lambda>db. managedUnitIds db (act_userId act))) (\<lambda>managed.
           ensure (unitId \<in> Some ` set managed) (ForbiddenException ''Cost data is outside your scope'')))"

definition week_result :: "rate_row list \<Rightarrow> cost_shift list \<Rightarrow> week_cost" where
  "week_result rates shifts =
     (if shifts = [] then
        \<lparr>wc_cost = Some 0, wc_currency = None, wc_missingRates = [], wc_currencyConflict = False\<rparr>
      else let t = week_total rates shifts
        in if su_conflict t then
             \<lparr>wc_cost = None, wc_currency = None, wc_missingRates = su_missing t, wc_currencyConflict = True\<rparr>
           else
             \<lparr>wc_cost = Some (round2 (su_total t)), wc_currency = su_currency t,
              wc_missingRates = su_missing t, wc_currencyConflict = False\<rparr>)"

definition weekCost :: "actor \<Rightarrow> int \<Rightarrow> id option \<Rightarrow> week_cost tx" where
  "weekCost act weekStart unitId =
     bnd (assertWeekScope act unitId) (\<lambda>_.
     asks (\<lambda>db. week_result (t_rates db) (week_shifts db weekStart unitId)))"

record budget_status =
  bs_week :: week_cost
  bs_cap :: "real option"
  bs_overBudget :: "bool option"

definition over_budget :: "week_cost \<Rightarrow> real option \<Rightarrow> bool option" where
  "over_budget week cap =
     (case wc_cost week of
        None \<Rightarrow> None
      | Some known \<Rightarrow>
          if wc_currencyConflict week then None
          else (case cap of
             None \<Rightarrow> (if wc_missingRates week \<noteq> [] then None else Some False)
           | Some c \<Rightarrow>
               if known > c then Some True
               else if wc_missingRates week \<noteq> [] then None
               else Some False))"

definition budgetStatus :: "actor \<Rightarrow> id option \<Rightarrow> int \<Rightarrow> budget_status tx" where
  "budgetStatus act unitId weekStart =
     bnd (weekCost act weekStart unitId) (\<lambda>week.
     bnd (getEffectiveBudgetCap unitId) (\<lambda>(cap, _).
     ret \<lparr>bs_week = week, bs_cap = cap, bs_overBudget = over_budget week cap\<rparr>))"

section \<open>The endpoints\<close>

text \<open>The columns in the order of the data layer: an enum by its declaration, a text by its collation.\<close>

fun employment_rank :: "employment_type \<Rightarrow> nat" where
  "employment_rank UMOWA_O_PRACE = 0"
| "employment_rank UMOWA_ZLECENIE = 1"
| "employment_rank UMOWA_O_DZIELO = 2"
| "employment_rank B2B = 3"

definition getRates :: "(string \<Rightarrow> 'k :: linorder) \<Rightarrow> rate_row list tx" where
  "getRates collate =
     asks (\<lambda>db. sort_key (\<lambda>r. collate (ra_position r)) (sort_key (\<lambda>r. employment_rank (ra_employmentType r)) (t_rates db)))"

definition rate_dto_valid :: "upsert_rate_input \<Rightarrow> bool" where
  "rate_dto_valid dto \<longleftrightarrow> ui_position dto \<noteq> [] \<and> 0 \<le> ui_hourlyRate dto \<and> 100 * ui_hourlyRate dto \<in> \<int>"

text \<open>The query parameter \<open>weekStart\<close>: absent or empty, no date, or a date.\<close>

datatype week_query = NoWeek | BadWeek | WeekFrom int

fun parseWeekStart :: "week_query \<Rightarrow> app_error + int" where
  "parseWeekStart NoWeek = Inl (BadRequestException ''weekStart is required'')"
| "parseWeekStart BadWeek = Inl (BadRequestException ''weekStart must be a valid ISO date'')"
| "parseWeekStart (WeekFrom d) = Inr d"

definition COST_READ_ROLES :: "role list" where "COST_READ_ROLES = [MANAGER, HR, ADMIN_KLIENTA]"
definition COST_WRITE_ROLES :: "role list" where "COST_WRITE_ROLES = [HR, ADMIN_KLIENTA]"

datatype cost_request =
  CoRates
| CoUpsert id upsert_rate_input
| CoWeek week_query "id option"

datatype cost_reply =
  CrRates "rate_row list"
| CrRate rate_row
| CrWeek budget_status

fun cost_roles :: "cost_request \<Rightarrow> role list" where
  "cost_roles (CoUpsert newId dto) = COST_WRITE_ROLES"
| "cost_roles _ = COST_READ_ROLES"

fun cost_body :: "(string \<Rightarrow> 'k :: linorder) \<Rightarrow> actor \<Rightarrow> cost_request \<Rightarrow> cost_reply tx" where
  "cost_body collate act CoRates = bnd (getRates collate) (\<lambda>rs. ret (CrRates rs))"
| "cost_body collate act (CoUpsert newId dto) =
     bnd (ensure (rate_dto_valid dto) (BadRequestException ''Bad Request'')) (\<lambda>_.
     bnd (upsertRate newId act dto) (\<lambda>r. ret (CrRate r)))"
| "cost_body collate act (CoWeek q unitId) =
     bnd (lift_sum (parseWeekStart q)) (\<lambda>weekStart.
     bnd (budgetStatus act unitId weekStart) (\<lambda>b. ret (CrWeek b)))"

definition cost_handle :: "(string \<Rightarrow> 'k :: linorder) \<Rightarrow> actor \<Rightarrow> cost_request \<Rightarrow> cost_reply tx" where
  "cost_handle collate act req = guarded (cost_roles req) act (cost_body collate act req)"

end
