(* ===== verification/CostProps.thy ===== *)
theory CostProps
  imports Cost
begin

text \<open>
  Correctness of the cost service: positions match up to white space, the weekly sum is the sum over
  the priced shifts, and the three-valued budget answer never asserts more than is known.
\<close>

section \<open>Positions\<close>

text \<open>The words of a string: its maximal runs without white space.\<close>

function words :: "string \<Rightarrow> string list" where
  "words [] = []"
| "words (c # cs) =
     (if is_space c then words cs
      else (c # takeWhile (\<lambda>x. \<not> is_space x) cs) # words (dropWhile (\<lambda>x. \<not> is_space x) cs))"
  by pat_completeness auto

termination
  by (relation "measure length") (auto simp: le_imp_less_Suc length_dropWhile_le)

lemma last_dropWhile: "dropWhile P xs \<noteq> [] \<Longrightarrow> last (dropWhile P xs) = last xs"
  by (induction xs) auto

lemma words_drop_spaces [simp]: "words (dropWhile is_space s) = words s"
  by (induction s) auto

lemma words_spaces: "\<forall>c \<in> set s. is_space c \<Longrightarrow> words s = []"
  by (induction s) auto

lemma words_append_spaces: "\<forall>c \<in> set t. is_space c \<Longrightarrow> words (s @ t) = words s"
proof (induction s rule: words.induct)
  case (2 c cs)
  have tw: "takeWhile (\<lambda>x. \<not> is_space x) (cs @ t) = takeWhile (\<lambda>x. \<not> is_space x) cs"
  proof (cases "\<exists>x \<in> set cs. is_space x")
    case False
    moreover have "takeWhile (\<lambda>x. \<not> is_space x) t = []"
      using 2(3) by (cases t) auto
    ultimately show ?thesis by (simp add: takeWhile_append2 takeWhile_eq_all_conv [THEN iffD2])
  qed (auto simp: takeWhile_append1)
  show ?case
  proof (cases "is_space c")
    case True
    with 2 show ?thesis by simp
  next
    case False
    show ?thesis
    proof (cases "\<exists>x \<in> set cs. is_space x")
      case True
      then have "dropWhile (\<lambda>x. \<not> is_space x) (cs @ t) = dropWhile (\<lambda>x. \<not> is_space x) cs @ t"
        by (auto simp: dropWhile_append)
      with 2 False tw show ?thesis by simp
    next
      case no: False
      then have "dropWhile (\<lambda>x. \<not> is_space x) (cs @ t) = dropWhile (\<lambda>x. \<not> is_space x) t"
        "dropWhile (\<lambda>x. \<not> is_space x) cs = []"
        by (auto simp: dropWhile_append)
      moreover have "words (dropWhile (\<lambda>x. \<not> is_space x) t) = []"
        using 2(3) by (intro words_spaces) (auto dest: set_dropWhileD)
      moreover have "words (dropWhile (\<lambda>x. \<not> is_space x) cs) = []"
        by (simp only: \<open>dropWhile (\<lambda>x. \<not> is_space x) cs = []\<close> words.simps)
      ultimately show ?thesis using False tw by (simp del: dropWhile_eq_Nil_conv)
    qed
  qed
qed (simp add: words_spaces)

lemma words_trim [simp]: "words (trim s) = words s"
proof -
  let ?u = "dropWhile is_space s"
  have "?u = trim s @ rev (takeWhile is_space (rev ?u))"
    by (metis rev_append rev_rev_ident takeWhile_dropWhile_id trim_def)
  moreover have "\<forall>c \<in> set (rev (takeWhile is_space (rev ?u))). is_space c"
    by (auto dest: set_takeWhileD)
  ultimately show ?thesis by (metis words_append_spaces words_drop_spaces)
qed

lemma collapse_append_word:
  "\<forall>c \<in> set w. \<not> is_space c \<Longrightarrow> collapse (w @ s) = w @ collapse s"
  by (induction w) auto

lemma collapse_words:
  "s = [] \<or> \<not> is_space (hd s) \<and> \<not> is_space (last s) \<Longrightarrow> collapse s = join_with '' '' (words s)"
proof (induction "length s" arbitrary: s rule: less_induct)
  case less
  show ?case
  proof (cases s)
    case (Cons c cs)
    with less.prems have c: "\<not> is_space c" by simp
    let ?ns = "\<lambda>x. \<not> is_space x"
    let ?w = "c # takeWhile ?ns cs" and ?rest = "dropWhile ?ns cs"
    have w: "\<forall>c \<in> set ?w. \<not> is_space c" using c by (auto dest: set_takeWhileD)
    have eq: "collapse s = ?w @ collapse ?rest" and ws: "words s = ?w # words ?rest"
      using collapse_append_word [OF w, of ?rest] c Cons by simp_all
    show ?thesis
    proof (cases ?rest)
      case Nil
      then have "words ?rest = []" "collapse ?rest = []" by (simp_all only: words.simps collapse.simps)
      with eq ws show ?thesis by simp
    next
      case rest: (Cons d ds)
      then have d: "is_space d" using hd_dropWhile [of ?ns cs] by force
      have "s = ?w @ d # ds" using Cons rest by (metis append_Cons takeWhile_dropWhile_id)
      with less.prems have last: "\<not> is_space (last (d # ds))" by (metis append_is_Nil_conv last_append list.discI)
      let ?t = "dropWhile is_space ds"
      have "?t \<noteq> []"
      proof
        assume "?t = []"
        then have "\<forall>x \<in> set (d # ds). is_space x" using d by simp
        with last show False by (metis last_in_set list.distinct(1))
      qed
      moreover from this have "ds \<noteq> []" by (cases ds) auto
      ultimately have t: "\<not> is_space (hd ?t)" "\<not> is_space (last ?t)" "ds \<noteq> []"
        using last hd_dropWhile [of is_space ds] last_dropWhile [of is_space ds] by (simp_all del: dropWhile_eq_Nil_conv)
      have "length ?t < length s"
        using \<open>s = ?w @ d # ds\<close> length_dropWhile_le [of is_space ds] by (metis add.commute
            le_imp_less_Suc length_Cons length_append trans_less_add1)
      from less.hyps [OF this] t have IH: "collapse ?t = join_with '' '' (words ?t)" by simp
      have "words ?rest = words ?t" "collapse ?rest = CHR '' '' # collapse ?t"
        unfolding rest using d by simp_all
      moreover from \<open>?t \<noteq> []\<close> t(1) have "words ?t \<noteq> []" by (cases ?t) auto
      ultimately show ?thesis using eq ws IH by (cases "words ?t") simp_all
    qed
  qed simp
qed

lemma trim_ends: "trim s = [] \<or> \<not> is_space (hd (trim s)) \<and> \<not> is_space (last (trim s))"
proof (cases "trim s = []")
  case False
  let ?u = "dropWhile is_space s"
  let ?v = "dropWhile is_space (rev ?u)"
  have v: "?v \<noteq> []" using False by (simp add: trim_def)
  then have "\<not> is_space (last (trim s))"
    using hd_dropWhile [of is_space "rev ?u"] by (simp add: trim_def last_rev)
  moreover have "hd (trim s) = hd ?u"
  proof -
    from v have "last ?v = last (rev ?u)" by (rule last_dropWhile)
    with v show ?thesis by (simp add: trim_def hd_rev last_rev)
  qed
  moreover from v have "?u \<noteq> []" by (metis dropWhile.simps(1) rev.simps(1))
  then have "\<not> is_space (hd ?u)" by (rule hd_dropWhile)
  ultimately show ?thesis by simp
qed simp

lemma normalize_join: "normalizePosition s = join_with '' '' (words s)"
  unfolding normalizePosition_def using collapse_words [OF trim_ends] by simp

lemma words_good: "w \<in> set (words s) \<Longrightarrow> w \<noteq> [] \<and> (\<forall>c \<in> set w. \<not> is_space c)"
proof (induction s rule: words.induct)
  case (2 c cs)
  let ?ns = "\<lambda>x. \<not> is_space x"
  have tw: "\<forall>x \<in> set (takeWhile ?ns cs). ?ns x" by (auto dest: set_takeWhileD)
  show ?case
  proof (cases "is_space c")
    case True
    with 2 show ?thesis by simp
  next
    case False
    with 2(3) consider "w = c # takeWhile ?ns cs" | "w \<in> set (words (dropWhile ?ns cs))" by auto
    then show ?thesis
    proof cases
      case 1
      with tw False show ?thesis by simp
    next
      case 2
      with \<open>\<not> is_space c\<close> show ?thesis by (rule "2.IH"(2))
    qed
  qed
qed simp

lemma words_word_append:
  assumes "w \<noteq> []" and "\<forall>c \<in> set w. \<not> is_space c" and "is_space d"
  shows "words (w @ d # s) = w # words s"
  using assms by (cases w) (auto simp: takeWhile_append dropWhile_append)

lemma words_word: "w \<noteq> [] \<Longrightarrow> \<forall>c \<in> set w. \<not> is_space c \<Longrightarrow> words w = [w]"
  using words_word_append [of w "CHR '' ''" "[]"] words_append_spaces [of "[CHR '' '']" w]
  by (simp add: is_space_def)

lemma words_join:
  "\<forall>w \<in> set ws. w \<noteq> [] \<and> (\<forall>c \<in> set w. \<not> is_space c) \<Longrightarrow> words (join_with '' '' ws) = ws"
proof (induction "'' ''" ws rule: join_with.induct)
  case (3 w v ws)
  then show ?case
    using words_word_append [of w "CHR '' ''" "join_with '' '' (v # ws)"] by (simp add: is_space_def)
qed (simp_all add: words_word)

lemma words_normalize [simp]: "words (normalizePosition s) = words s"
  unfolding normalize_join using words_good by (intro words_join) blast

lemma normalize_eq_iff: "normalizePosition s = normalizePosition t \<longleftrightarrow> words s = words t"
proof
  assume "normalizePosition s = normalizePosition t"
  then have "words (normalizePosition s) = words (normalizePosition t)" by (rule arg_cong)
  then show "words s = words t" by simp
qed (simp add: normalize_join)

text \<open>
  Normalization is exactly the words of the position joined with single blanks; so two positions
  are normalized to the same key just when they have the same words, and normalizing twice changes
  nothing.
\<close>

theorem normalizePosition_words:
  "normalizePosition s = join_with '' '' (words s) \<and>
   (normalizePosition s = normalizePosition t) = (words s = words t) \<and>
   normalizePosition (normalizePosition s) = normalizePosition s"
  using normalize_eq_iff [of "normalizePosition s" s] by (simp add: normalize_eq_iff normalize_join [symmetric])

section \<open>The weekly sum\<close>

text \<open>The cost of one shift under a price for every pair, and the part of it that is known.\<close>

definition price :: "rate_row list \<Rightarrow> cost_shift \<Rightarrow> rate_row option" where
  "price rates s = rate_for rates (ws_position s) (ws_employmentType s)"

definition known_cost :: "rate_row list \<Rightarrow> cost_shift \<Rightarrow> real" where
  "known_cost rates s =
     (case price rates s of None \<Rightarrow> 0 | Some r \<Rightarrow> shiftCost (ra_hourlyRate r) (ws_start s) (ws_end s))"

definition currencies :: "rate_row list \<Rightarrow> cost_shift list \<Rightarrow> string set" where
  "currencies rates ss = {ra_currency r |r s. s \<in> set ss \<and> price rates s = Some r}"

definition miss_rel :: "missing_rate list \<Rightarrow> (string \<times> employment_type \<times> id) set" where
  "miss_rel ms = {(mr_position m, mr_employmentType m, e) |m e. m \<in> set ms \<and> e \<in> set (mr_employeeIds m)}"

definition unpriced :: "rate_row list \<Rightarrow> cost_shift list \<Rightarrow> (string \<times> employment_type \<times> id) set" where
  "unpriced rates ss =
     {(ws_position s, ws_employmentType s, ws_employeeId s) |s. s \<in> set ss \<and> price rates s = None}"

lemma miss_rel_simps [simp]:
  "miss_rel [] = {}"
  "miss_rel (m # ms) = {(mr_position m, mr_employmentType m, e) |e. e \<in> set (mr_employeeIds m)} \<union> miss_rel ms"
  by (auto simp: miss_rel_def)

lemma miss_rel_add:
  "miss_rel (add_missing s ms) =
     insert (ws_position s, ws_employmentType s, ws_employeeId s) (miss_rel ms)"
  by (induction ms) auto

lemma add_missing_pairs:
  "set (map (\<lambda>m. (mr_position m, mr_employmentType m)) (add_missing s ms)) =
     insert (ws_position s, ws_employmentType s) (set (map (\<lambda>m. (mr_position m, mr_employmentType m)) ms))"
  by (induction ms) auto

lemma add_missing_distinct:
  "distinct (map (\<lambda>m. (mr_position m, mr_employmentType m)) ms) \<Longrightarrow>
   distinct (map (\<lambda>m. (mr_position m, mr_employmentType m)) (add_missing s ms))"
proof (induction ms)
  case (Cons m ms)
  then show ?case
    using add_missing_pairs [of s ms] by (auto simp del: add_missing_pairs)
qed simp

lemma sum_step_simps:
  "su_total (sum_step rates s a) = su_total a + known_cost rates s"
  "su_missing (sum_step rates s a) =
     (if price rates s = None then add_missing s (su_missing a) else su_missing a)"
  "su_currency (sum_step rates s a) =
     (case su_currency a of Some c \<Rightarrow> Some c | None \<Rightarrow> map_option ra_currency (price rates s))"
  "su_conflict (sum_step rates s a) \<longleftrightarrow> su_conflict a \<or>
     (\<exists>c r. su_currency a = Some c \<and> price rates s = Some r \<and> c \<noteq> ra_currency r)"
  by (auto simp: sum_step_def known_cost_def price_def split: option.splits)

lemma currencies_simps:
  "currencies rates [] = {}"
  "currencies rates (s # ss) = set_option (map_option ra_currency (price rates s)) \<union> currencies rates ss"
  by (auto simp: currencies_def)

lemma unpriced_simps:
  "unpriced rates [] = {}"
  "unpriced rates (s # ss) =
     (if price rates s = None then {(ws_position s, ws_employmentType s, ws_employeeId s)} else {}) \<union>
     unpriced rates ss"
  by (auto simp: unpriced_def)

lemma fold_sum_step:
  "su_total (fold (sum_step rates) ss a) = su_total a + sum_list (map (known_cost rates) ss)"
  "miss_rel (su_missing (fold (sum_step rates) ss a)) = miss_rel (su_missing a) \<union> unpriced rates ss"
  "su_conflict (fold (sum_step rates) ss a) \<longleftrightarrow> su_conflict a \<or>
     (\<exists>x \<in> set_option (su_currency a) \<union> currencies rates ss. \<exists>y \<in> currencies rates ss. x \<noteq> y)"
  "set_option (su_currency (fold (sum_step rates) ss a)) \<subseteq> set_option (su_currency a) \<union> currencies rates ss"
  "su_currency (fold (sum_step rates) ss a) = None \<longleftrightarrow> su_currency a = None \<and> currencies rates ss = {}"
proof (induction ss arbitrary: a)
  case (Cons s ss)
  {
    case 1
    show ?case using Cons(1) by (simp add: sum_step_simps)
  next
    case 2
    show ?case using Cons(2) by (auto simp: sum_step_simps unpriced_simps miss_rel_add)
  next
    case 3
    show ?case using Cons(3) [of "sum_step rates s a"]
      by (cases "su_currency a"; cases "price rates s") (auto simp: sum_step_simps currencies_simps)
  next
    case 4
    show ?case using Cons(4) [of "sum_step rates s a"]
      by (cases "su_currency a"; cases "price rates s") (auto simp: sum_step_simps currencies_simps)
  next
    case 5
    show ?case using Cons(5) [of "sum_step rates s a"]
      by (cases "su_currency a"; cases "price rates s") (auto simp: sum_step_simps currencies_simps)
  }
qed (simp_all add: currencies_simps unpriced_simps)

lemma miss_rel_empty_iff:
  "\<forall>m \<in> set ms. mr_employeeIds m \<noteq> [] \<Longrightarrow> miss_rel ms = {} \<longleftrightarrow> ms = []"
  by (cases ms) auto

lemma add_missing_nonempty:
  "\<forall>m \<in> set ms. mr_employeeIds m \<noteq> [] \<Longrightarrow> \<forall>m \<in> set (add_missing s ms). mr_employeeIds m \<noteq> []"
  by (induction ms) auto

definition missing_ok :: "missing_rate list \<Rightarrow> bool" where
  "missing_ok ms \<longleftrightarrow> distinct (map (\<lambda>m. (mr_position m, mr_employmentType m)) ms) \<and>
     (\<forall>m \<in> set ms. mr_employeeIds m \<noteq> [])"

lemma week_missing_ok: "missing_ok (su_missing (week_total rates ss))"
  unfolding week_total_def
proof (rule fold_invariant [where Q = "\<lambda>_. True"])
  fix s and a :: week_sum
  assume "missing_ok (su_missing a)"
  then show "missing_ok (su_missing (sum_step rates s a))"
    using add_missing_nonempty [of "su_missing a" s]
    by (simp add: missing_ok_def sum_step_simps add_missing_distinct)
qed (simp_all add: missing_ok_def)

lemma week_total_simps:
  "su_total (week_total rates ss) = sum_list (map (known_cost rates) ss)"
  "miss_rel (su_missing (week_total rates ss)) = unpriced rates ss"
  "su_conflict (week_total rates ss) \<longleftrightarrow> (\<exists>x \<in> currencies rates ss. \<exists>y \<in> currencies rates ss. x \<noteq> y)"
  "set_option (su_currency (week_total rates ss)) \<subseteq> currencies rates ss"
  "su_currency (week_total rates ss) = None \<longleftrightarrow> currencies rates ss = {}"
  using fold_sum_step [of rates ss "\<lparr>su_total = 0, su_currency = None, su_conflict = False, su_missing = []\<rparr>"]
  by (simp_all add: week_total_def)

lemma week_missing_empty_iff: "su_missing (week_total rates ss) = [] \<longleftrightarrow> unpriced rates ss = {}"
  using miss_rel_empty_iff [of "su_missing (week_total rates ss)"] week_missing_ok [of rates ss]
  by (auto simp: missing_ok_def week_total_simps)

text \<open>
  The weekly cost against its specification. The answer reports a currency conflict exactly when
  the rates that price the shifts use two currencies; otherwise the cost is the rounded sum over the
  priced shifts in their common currency. In both cases every (position, employment type, employee)
  without a rate is reported, and nothing else, with one entry per pair: no shift is silently free.
\<close>

theorem week_result_spec:
  "wc_currencyConflict (week_result rates ss) = (\<exists>x \<in> currencies rates ss. \<exists>y \<in> currencies rates ss. x \<noteq> y) \<and>
   wc_cost (week_result rates ss) =
     (if wc_currencyConflict (week_result rates ss) then None
      else Some (round2 (sum_list (map (known_cost rates) ss)))) \<and>
   (wc_currencyConflict (week_result rates ss) \<or>
    currencies rates ss = set_option (wc_currency (week_result rates ss))) \<and>
   miss_rel (wc_missingRates (week_result rates ss)) = unpriced rates ss \<and>
   distinct (map (\<lambda>m. (mr_position m, mr_employmentType m)) (wc_missingRates (week_result rates ss)))"
proof (cases "ss = []")
  case True
  then show ?thesis by (simp add: week_result_def currencies_simps unpriced_simps round2_def)
next
  case False
  let ?t = "week_total rates ss"
  have cur: "currencies rates ss = set_option (su_currency ?t)" if "\<not> su_conflict ?t"
    using that week_total_simps(3-5) [of rates ss] by (cases "su_currency ?t") auto
  have ok: "distinct (map (\<lambda>m. (mr_position m, mr_employmentType m)) (su_missing ?t))"
    using week_missing_ok by (simp add: missing_ok_def)
  show ?thesis
  proof (cases "su_conflict ?t")
    case True
    with False ok week_total_simps(2,3) [of rates ss] show ?thesis
      by (simp add: week_result_def Let_def)
  next
    case no: False
    then have w: "week_result rates ss =
        \<lparr>wc_cost = Some (round2 (su_total ?t)), wc_currency = su_currency ?t,
         wc_missingRates = su_missing ?t, wc_currencyConflict = False\<rparr>"
      using \<open>ss \<noteq> []\<close> by (simp add: week_result_def Let_def)
    have "\<not> (\<exists>x \<in> currencies rates ss. \<exists>y \<in> currencies rates ss. x \<noteq> y)"
      using no week_total_simps(3) [of rates ss] by blast
    then show ?thesis
      unfolding w week_cost.simps using ok cur [OF no]
      by (simp only: week_total_simps(1,2) simp_thms if_False)
  qed
qed

section \<open>The budget answer\<close>

text \<open>The real cost of a week, once every missing pair is given some rate.\<close>

definition completed_cost ::
  "rate_row list \<Rightarrow> (string \<Rightarrow> employment_type \<Rightarrow> real) \<Rightarrow> cost_shift list \<Rightarrow> real" where
  "completed_cost rates extra ss =
     sum_list (map (\<lambda>s. case price rates s of
         None \<Rightarrow> shiftCost (extra (ws_position s) (ws_employmentType s)) (ws_start s) (ws_end s)
       | Some r \<Rightarrow> shiftCost (ra_hourlyRate r) (ws_start s) (ws_end s)) ss)"

lemma round2_mono: "x \<le> y \<Longrightarrow> 0 \<le> x \<Longrightarrow> round2 x \<le> round2 y"
  unfolding round2_def by (auto intro!: divide_right_mono floor_mono)

lemma shiftCost_nonneg:
  "is_hhmm s \<Longrightarrow> is_hhmm e \<Longrightarrow> 0 \<le> r \<Longrightarrow> 0 \<le> shiftCost r s e"
  using windowMinutes_bounds [of s e] by (simp add: shiftCost_def)

lemma known_le_completed:
  assumes "\<forall>s \<in> set ss. is_hhmm (ws_start s) \<and> is_hhmm (ws_end s)" and "\<forall>p t. 0 \<le> extra p t"
  shows "sum_list (map (known_cost rates) ss) \<le> completed_cost rates extra ss"
  unfolding completed_cost_def
  by (rule sum_list_mono) (use assms in \<open>auto simp: known_cost_def split: option.splits intro: shiftCost_nonneg\<close>)

lemma completed_all_known:
  assumes "unpriced rates ss = {}"
  shows "completed_cost rates extra ss = sum_list (map (known_cost rates) ss)"
proof -
  have "price rates s \<noteq> None" if "s \<in> set ss" for s
    using assms that by (auto simp: unpriced_def)
  then show ?thesis
    unfolding completed_cost_def
    by (intro arg_cong [where f = sum_list] map_cong) (fastforce simp: known_cost_def split: option.splits)+
qed

text \<open>
  C8. The budget answer is never wrong about what it asserts. Whatever the missing rates turn out to
  be, an answer \<open>true\<close> or \<open>false\<close> against a cap is the comparison of the completed cost of the week
  with that cap; when that cannot be known, the answer is \<open>null\<close>. Without a cap, \<open>false\<close> is only said
  when no rate is missing.
\<close>

theorem over_budget_sound:
  assumes hhmm: "\<forall>s \<in> set ss. is_hhmm (ws_start s) \<and> is_hhmm (ws_end s)"
    and rates: "\<forall>r \<in> set rates. 0 \<le> ra_hourlyRate r" and extra: "\<forall>p t. 0 \<le> extra p t"
    and answer: "over_budget (week_result rates ss) cap = Some b"
  shows "(case cap of Some c \<Rightarrow> b \<longleftrightarrow> c < round2 (completed_cost rates extra ss)
      | None \<Rightarrow> \<not> b \<and> unpriced rates ss = {})"
proof -
  let ?k = "sum_list (map (known_cost rates) ss)"
  let ?w = "week_result rates ss"
  have "price rates s = Some r \<Longrightarrow> r \<in> set rates" for s r
    by (auto simp: price_def rate_for_def find_Some_iff)
  with hhmm rates have "0 \<le> ?k"
    by (intro sum_list_nonneg) (auto simp: known_cost_def split: option.splits intro!: shiftCost_nonneg)
  with known_le_completed [OF hhmm extra] have le: "round2 ?k \<le> round2 (completed_cost rates extra ss)"
    by (intro round2_mono)
  from answer have cost: "wc_cost ?w = Some (round2 ?k)"
    using week_result_spec [of rates ss] by (auto simp: over_budget_def split: option.splits if_splits)
  have known: "wc_missingRates ?w = [] \<Longrightarrow> unpriced rates ss = {}"
    using week_result_spec [of rates ss] by (metis miss_rel_simps(1))
  show ?thesis
  proof (cases cap)
    case None
    with answer cost known show ?thesis by (auto simp: over_budget_def split: if_splits)
  next
    case (Some c)
    with answer cost known le completed_all_known [of rates ss extra] show ?thesis
      by (auto simp: over_budget_def split: if_splits)
  qed
qed

definition sample_rate :: rate_row where
  "sample_rate = \<lparr>ra_id = ''r1'', ra_position = ''chef'', ra_employmentType = UMOWA_O_PRACE,
     ra_hourlyRate = 30, ra_currency = ''PLN''\<rparr>"

definition sample_cost_shift :: cost_shift where
  "sample_cost_shift = \<lparr>ws_employeeId = ''e1'', ws_position = ''chef'', ws_employmentType = UMOWA_O_PRACE,
     ws_start = ''08:00'', ws_end = ''16:00''\<rparr>"

lemma sample_over: "over_budget (week_result [sample_rate] [sample_cost_shift]) (Some 100) = Some True"
  by code_simp

theorem over_budget_sound_witness:
  "100 < round2 (completed_cost [sample_rate] (\<lambda>_ _. 0) [sample_cost_shift])"
proof -
  have "\<forall>s \<in> set [sample_cost_shift]. is_hhmm (ws_start s) \<and> is_hhmm (ws_end s)"
    "\<forall>r \<in> set [sample_rate]. 0 \<le> ra_hourlyRate r" "\<forall>p t. 0 \<le> ((\<lambda>_ _. 0) :: string \<Rightarrow> employment_type \<Rightarrow> real) p t"
    by (simp_all add: sample_cost_shift_def sample_rate_def digit_upto_def digit_val_def)
  from over_budget_sound [OF this sample_over] show ?thesis by simp
qed

section \<open>Writing rates\<close>

text \<open>One rate per (position, employment type): the unique key of the table.\<close>

definition rates_unique :: "tenant_db \<Rightarrow> bool" where
  "rates_unique db \<longleftrightarrow> distinct (map (\<lambda>r. (ra_position r, ra_employmentType r)) (t_rates db)) \<and>
     distinct (map ra_id (t_rates db))"

lemma update_rows_key:
  assumes "distinct (map ra_id rs)" and "r \<in> set rs"
  shows "update_rows (\<lambda>r'. ra_id r' = ra_id r) f rs = map (\<lambda>r'. if r' = r then f r' else r') rs"
proof -
  have "r' = r" if "r' \<in> set rs" "ra_id r' = ra_id r" for r'
    using assms that by (auto simp: distinct_map dest: inj_onD)
  then show ?thesis by (auto simp: update_rows_def)
qed

lemma rate_for_append:
  "rate_for (rs @ ss) p t = (case rate_for rs p t of None \<Rightarrow> rate_for ss p t | Some r \<Rightarrow> Some r)"
  by (induction rs) (auto simp: rate_for_def)

lemma rate_for_single:
  "rate_for [r] p t = (if ra_position r = p \<and> ra_employmentType r = t then Some r else None)"
  by (simp add: rate_for_def)

lemma rate_for_map:
  assumes "distinct (map (\<lambda>r. (ra_position r, ra_employmentType r)) rs)" and "r \<in> set rs"
    and "ra_position r' = ra_position r" "ra_employmentType r' = ra_employmentType r"
  shows "rate_for (map (\<lambda>x. if x = r then r' else x) rs) p t =
    (if p = ra_position r \<and> t = ra_employmentType r then Some r' else rate_for rs p t)"
  using assms(1,2)
proof (induction rs)
  case (Cons x rs)
  show ?case
  proof (cases "x = r")
    case True
    with Cons.prems have "r \<notin> set rs" by (auto simp: rev_image_eqI)
    then have "map (\<lambda>x. if x = r then r' else x) rs = rs" by (auto intro: map_idI)
    with True assms(3,4) show ?thesis by (auto simp: rate_for_def)
  next
    case False
    with Cons.prems have r: "r \<in> set rs"
      "(ra_position x, ra_employmentType x) \<noteq> (ra_position r, ra_employmentType r)"
      by (auto simp: rev_image_eqI)
    with Cons have IH: "rate_for (map (\<lambda>x. if x = r then r' else x) rs) p t =
        (if p = ra_position r \<and> t = ra_employmentType r then Some r' else rate_for rs p t)" by simp
    from IH r(2) False show ?thesis by (auto simp: rate_for_def)
  qed
qed simp

lemma rate_upsert_effect:
  assumes uniq: "rates_unique db" and fresh: "ra_id data \<notin> ra_id ` set (t_rates db)"
  shows "\<exists>r rs. rate_upsert data db = (Inr r, put_rates rs db) \<and>
     ra_position r = ra_position data \<and> ra_employmentType r = ra_employmentType data \<and>
     ra_hourlyRate r = ra_hourlyRate data \<and> ra_currency r = ra_currency data \<and>
     (\<forall>p t. rate_for rs p t =
       (if p = ra_position data \<and> t = ra_employmentType data then Some r else rate_for (t_rates db) p t)) \<and>
     rates_unique (put_rates rs db)"
proof (cases "rate_for (t_rates db) (ra_position data) (ra_employmentType data)")
  case None
  then have "(ra_position data, ra_employmentType data) \<notin>
      (\<lambda>r. (ra_position r, ra_employmentType r)) ` set (t_rates db)"
    by (auto simp: rate_for_def find_None_iff)
  with None uniq fresh show ?thesis
    by (intro exI [of _ data] exI [of _ "t_rates db @ [data]"])
      (auto simp: rate_upsert_def rate_for_append rate_for_single rates_unique_def split: option.splits)
next
  case (Some e)
  then have e: "e \<in> set (t_rates db)" "ra_position e = ra_position data" "ra_employmentType e = ra_employmentType data"
    by (auto simp: rate_for_def find_Some_iff)
  let ?r = "data\<lparr>ra_id := ra_id e\<rparr>"
  let ?rs = "map (\<lambda>x. if x = e then ?r else x) (t_rates db)"
  from uniq have d: "distinct (map ra_id (t_rates db))"
    "distinct (map (\<lambda>r. (ra_position r, ra_employmentType r)) (t_rates db))"
    by (auto simp: rates_unique_def)
  have "update_rows (\<lambda>r. ra_id r = ra_id e) (\<lambda>r. data\<lparr>ra_id := ra_id r\<rparr>) (t_rates db) = ?rs"
    using update_rows_key [OF d(1) e(1)] by (auto simp: cong: if_cong)
  then have "rate_upsert data db = (Inr ?r, put_rates ?rs db)"
    using Some find_row_in [OF d(1) e(1)] by (simp add: rate_upsert_def)
  moreover have "map ra_id ?rs = map ra_id (t_rates db)"
    "map (\<lambda>r. (ra_position r, ra_employmentType r)) ?rs =
     map (\<lambda>r. (ra_position r, ra_employmentType r)) (t_rates db)"
    using e by auto
  then have "rates_unique (put_rates ?rs db)"
    using d by (simp del: map_map add: rates_unique_def)
  ultimately show ?thesis
    using rate_for_map [OF d(2) e(1), of ?r] e
    by (intro exI [of _ ?r] exI [of _ ?rs]) simp
qed

text \<open>
  A rate that was written is found again. After a successful write, the lookup of any employee's
  position that has the same words as the position written, with the same employment type, finds the
  new rate, every other lookup is unchanged, the pairs stay unique, and the writer was HR or the
  admin.
\<close>

theorem upsertRate_lookup:
  assumes uniq: "rates_unique db" and fresh: "newId \<notin> ra_id ` set (t_rates db)"
    and ok: "upsertRate newId act dto db = (Inr r, db')"
  shows "(\<forall>p t. rate_for (t_rates db') (normalizePosition p) t =
        (if words p = words (ui_position dto) \<and> t = ui_employmentType dto then Some r
         else rate_for (t_rates db) (normalizePosition p) t)) \<and>
      ra_hourlyRate r = ui_hourlyRate dto \<and> words (ui_position dto) \<noteq> [] \<and>
      rates_unique db' \<and> isGlobal (act_roles act)"
proof -
  let ?data = "\<lparr>ra_id = newId, ra_position = normalizePosition (ui_position dto),
     ra_employmentType = ui_employmentType dto, ra_hourlyRate = ui_hourlyRate dto,
     ra_currency = coalesce (ui_currency dto) ''PLN''\<rparr>"
  from rate_upsert_effect [OF uniq, of ?data] fresh obtain r0 rs where
    w: "rate_upsert ?data db = (Inr r0, put_rates rs db)"
    and r0: "ra_hourlyRate r0 = ui_hourlyRate dto" "rates_unique (put_rates rs db)"
      "\<forall>p t. rate_for rs p t = (if p = normalizePosition (ui_position dto) \<and> t = ui_employmentType dto
         then Some r0 else rate_for (t_rates db) p t)"
    by auto
  from ok w have "r = r0" "t_rates db' = rs" "isGlobal (act_roles act)" "normalizePosition (ui_position dto) \<noteq> []"
    by (auto simp: upsertRate_def Let_def bnd_eq_Inr [of "rate_upsert ?data" db, OF w] audit_log_def split: if_splits)
  moreover from this have "words (ui_position dto) \<noteq> []"
    by (auto simp: normalize_join)
  ultimately show ?thesis
    using r0 by (simp add: normalize_eq_iff rates_unique_def)
qed

definition hr1 :: actor where
  "hr1 = \<lparr>act_userId = ''k9'', act_roles = [''HR''], act_ipAddress = ''ip''\<rparr>"

definition sample_rate_dto :: upsert_rate_input where
  "sample_rate_dto = \<lparr>ui_position = '' chef  cook'', ui_employmentType = B2B, ui_hourlyRate = 40, ui_currency = None\<rparr>"

lemma sample_upsert:
  "fst (upsertRate ''r2'' hr1 sample_rate_dto (empty_db\<lparr>t_rates := [sample_rate]\<rparr>)) =
     Inr \<lparr>ra_id = ''r2'', ra_position = ''chef cook'', ra_employmentType = B2B, ra_hourlyRate = 40,
          ra_currency = ''PLN''\<rparr>"
  by code_simp

theorem upsertRate_lookup_witness:
  "\<exists>r db'. upsertRate ''r2'' hr1 sample_rate_dto (empty_db\<lparr>t_rates := [sample_rate]\<rparr>) = (Inr r, db') \<and>
     rate_for (t_rates db') (normalizePosition ''chef cook '') B2B = Some r"
proof -
  from sample_upsert obtain r db' where
    u: "upsertRate ''r2'' hr1 sample_rate_dto (empty_db\<lparr>t_rates := [sample_rate]\<rparr>) = (Inr r, db')"
    by (metis prod.collapse)
  have "rates_unique (empty_db\<lparr>t_rates := [sample_rate]\<rparr>)"
    "''r2'' \<notin> ra_id ` set (t_rates (empty_db\<lparr>t_rates := [sample_rate]\<rparr>))"
    by (simp_all add: rates_unique_def empty_db_def sample_rate_def)
  from upsertRate_lookup [OF this u] have "rate_for (t_rates db') (normalizePosition ''chef cook '') B2B = Some r"
    by (simp add: sample_rate_dto_def is_space_def)
  with u show ?thesis by blast
qed

section \<open>Every request\<close>

text \<open>
  Costs are read within the scope of the caller and written by HR and administrators only: a request that
  changes anything is an update of a rate by one of them, and whoever else gets a weekly cost has asked for a
  unit they manage.
\<close>

theorem cost_requests_scoped:
  assumes "cost_handle collate act req db = (r, db')" and "\<not> isGlobal (act_roles act)"
  shows "db' = db \<and> (\<forall>b. r = Inr (CrWeek b) \<longrightarrow>
    (\<exists>q u. req = CoWeek q (Some u) \<and> u \<in> set (managedUnitIds db (act_userId act))))"
proof (cases req)
  case CoRates
  with assms show ?thesis
    using guarded_cases [of "cost_roles req" act "cost_body collate act req" db]
    by (auto simp: cost_handle_def getRates_def)
next
  case (CoUpsert newId dto)
  with assms show ?thesis
    using guarded_cases [of "cost_roles req" act "cost_body collate act req" db]
    by (auto simp: cost_handle_def upsertRate_def svc_defs split: if_splits)
next
  case (CoWeek q unitId)
  have budget: "db1 = db \<and> (\<forall>b. r1 = Inr b \<longrightarrow> (\<exists>u. unitId = Some u \<and> u \<in> set (managedUnitIds db (act_userId act))))"
    if "budgetStatus act unitId w db = (r1, db1)" for w r1 db1
    using that assms(2)
    by (auto simp: budgetStatus_def weekCost_def assertWeekScope_def getEffectiveBudgetCap_def svc_defs split: if_splits prod.splits)
  show ?thesis
  proof (cases "cost_handle collate act req db = cost_body collate act req db")
    case same: True
    show ?thesis
    proof (cases q)
      case (WeekFrom w)
      obtain r1 db1 where b: "budgetStatus act unitId w db = (r1, db1)" by fastforce
      with same assms(1) CoWeek WeekFrom have "r = map_sum id CrWeek r1 \<and> db' = db1"
        by (cases r1) (simp_all add: bnd_def lift_sum_def)
      with budget [OF b] CoWeek show ?thesis by (cases r1) auto
    qed (use same assms(1) CoWeek in auto)
  next
    case False
    then show ?thesis
      using guarded_cases [of "cost_roles req" act "cost_body collate act req" db] assms(1) by (auto simp: cost_handle_def)
  qed
qed

end
