(* ===== verification/Replacement.thy ===== *)
theory Replacement
  imports Cost Feasibility "HOL-Library.Product_Lexorder" "HOL-Library.List_Lexorder" "HOL-Library.Char_ord"
begin

text \<open>
  Ranking of replacement candidates for a vacated shift and detection of vacated shifts,
  \<open>ai-grafik/replacement.service.ts\<close>. The feasibility validator is the port of \<open>Feasibility\<close>. Polish
  letters in messages are written without their diacritics.
\<close>

section \<open>Policy and records\<close>

record travel_policy =
  tp_avgSpeedKmh :: real
  tp_perKmRatePln :: real
  tp_maxTravelMinutes :: real
  tp_roundTrip :: bool

definition DEFAULT_TRAVEL_POLICY :: travel_policy where
  "DEFAULT_TRAVEL_POLICY =
     \<lparr>tp_avgSpeedKmh = 60, tp_perKmRatePln = 115 / 100, tp_maxTravelMinutes = 120, tp_roundTrip = True\<rparr>"

definition REQUIRED_REST_MINUTES :: real where
  "REQUIRED_REST_MINUTES = 11 * 60"

type_synonym site = "real option \<times> real option"

text \<open>A shift to fill, with the optionally preloaded unit and site.\<close>

record rankable_shift =
  rk_shift :: shift_row
  rk_unitId :: "id option"
  rk_lokalizacja :: "site option option"

record evaluated =
  ev_id :: id
  ev_feasible :: bool
  ev_reason :: "string option"
  ev_unitId :: id
  ev_homeLat :: "real option"
  ev_homeLng :: "real option"
  ev_reachable :: bool
  ev_travelKm :: int
  ev_travelMinutes :: int
  ev_travelCost :: real
  ev_prefMatch :: int

record ranked_candidate =
  rc_employeeId :: id
  rc_feasible :: bool
  rc_reason :: "string option"
  rc_rank :: int
  rc_score :: "real option"
  rc_unitId :: id
  rc_homeLat :: "real option"
  rc_homeLng :: "real option"
  rc_reachable :: bool
  rc_travelKm :: int
  rc_travelMinutes :: int
  rc_travelCost :: real
  rc_workCostDelta :: "real option"

section \<open>Pools\<close>

text \<open>
  The qualified employees of the unit, or of every other unit, without the employee who left the shift.
\<close>

definition loadPool :: "tenant_db \<Rightarrow> id \<Rightarrow> string \<Rightarrow> id \<Rightarrow> bool \<Rightarrow> employee_row list" where
  "loadPool db unitId rl excludeId crossUnit =
     filter (\<lambda>e. (if crossUnit then em_unitId e \<noteq> unitId else em_unitId e = unitId) \<and>
        rl \<in> set (em_qualifications e) \<and> em_id e \<noteq> excludeId) (t_employees db)"

section \<open>Vetting one candidate\<close>

definition abs_start :: "shift_row \<Rightarrow> int" where
  "abs_start s = sh_date s + toMinutes (sh_start s) * 60000"

definition abs_end :: "shift_row \<Rightarrow> int" where
  "abs_end s = abs_start s + windowMinutes (sh_start s) (sh_end s) * 60000"

text \<open>The latest end, among the given shifts, that is not after an instant.\<close>

definition latest_prev_end :: "int \<Rightarrow> shift_row list \<Rightarrow> int option" where
  "latest_prev_end limit ss =
     fold (\<lambda>s acc.
        if abs_end s \<le> limit \<and> (case acc of None \<Rightarrow> True | Some l \<Rightarrow> l < abs_end s)
        then Some (abs_end s) else acc) ss None"

definition checkArrivalGap :: "shift_row \<Rightarrow> real \<Rightarrow> shift_row list \<Rightarrow> string option" where
  "checkArrivalGap shift travelMins candidateWeekShifts =
     (let vacatedStartAbs = abs_start shift
      in case latest_prev_end vacatedStartAbs candidateWeekShifts of
           None \<Rightarrow> None
         | Some latestPrevEndAbs \<Rightarrow>
             (let gapMinutes = real_of_int (vacatedStartAbs - latestPrevEndAbs) / 60000;
                  requiredMinutes = REQUIRED_REST_MINUTES + travelMins
              in if gapMinutes \<ge> requiredMinutes then None
                 else Some (''H-TRAVEL: poprzednia zmiana konczy sie za blisko startu - dostepne '' @
                   show_int (math_round gapMinutes) @ '' min (odpoczynek+dojazd), wymagane '' @
                   show_int (math_round requiredMinutes) @ '' min'')))"

definition give_away_query :: "id \<Rightarrow> id \<Rightarrow> id \<Rightarrow> feas_input" where
  "give_away_query shiftId holder incoming =
     \<lparr>fi_requesterShift = (shiftId, holder), fi_targetShift = None,
      fi_incomingRequesterShiftEmployeeId = incoming, fi_incomingTargetShiftEmployeeId = None\<rparr>"

definition ev_base :: "shift_row \<Rightarrow> employee_row \<Rightarrow> evaluated" where
  "ev_base shift c =
     \<lparr>ev_id = em_id c, ev_feasible = False, ev_reason = None, ev_unitId = em_unitId c,
      ev_homeLat = em_homeLat c, ev_homeLng = em_homeLng c, ev_reachable = (em_userId c \<noteq> None),
      ev_travelKm = 0, ev_travelMinutes = 0, ev_travelCost = 0,
      ev_prefMatch = (if sh_start shift \<in> set (em_preferredShiftStart c) then 0 else 1)\<rparr>"

text \<open>The additive travel gate of a cross-unit candidate that the validator accepts.\<close>

definition travel_gate ::
  "shift_row \<Rightarrow> employee_row \<Rightarrow> site option \<Rightarrow> travel_policy \<Rightarrow> shift_row list \<Rightarrow> app_error + evaluated" where
  "travel_gate shift c lokalizacja policy weekShifts =
     (case (em_homeLat c, em_homeLng c, lokalizacja) of
        (Some hLat, Some hLng, Some (Some lLat, Some lLng)) \<Rightarrow>
          (let rawKm = haversineKm hLat hLng lLat lLng
           in case travelMinutes rawKm (tp_avgSpeedKmh policy) of
                Inl e \<Rightarrow> Inl e
              | Inr rawMinutes \<Rightarrow>
                  if rawMinutes > tp_maxTravelMinutes policy then
                    Inr ((ev_base shift c)
                      \<lparr>ev_reason := Some (''H-TRAVEL: szacunkowy dojazd ~'' @ show_int (roundMinutes rawMinutes) @
                         '' min przekracza limit '' @ show_int (math_round (tp_maxTravelMinutes policy)) @ '' min''),
                       ev_travelKm := roundKm rawKm, ev_travelMinutes := roundMinutes rawMinutes\<rparr>)
                  else (case checkArrivalGap shift rawMinutes weekShifts of
                      Some gapReason \<Rightarrow>
                        Inr ((ev_base shift c)
                          \<lparr>ev_reason := Some gapReason, ev_travelKm := roundKm rawKm,
                           ev_travelMinutes := roundMinutes rawMinutes\<rparr>)
                    | None \<Rightarrow>
                        Inr ((ev_base shift c)
                          \<lparr>ev_feasible := True, ev_travelKm := roundKm rawKm,
                           ev_travelMinutes := roundMinutes rawMinutes,
                           ev_travelCost := roundCost (travelCost rawKm (tp_perKmRatePln policy) (tp_roundTrip policy))\<rparr>)))
      | _ \<Rightarrow> Inr ((ev_base shift c)
               \<lparr>ev_reason := Some ''H-TRAVEL: brak wspolrzednych do wyliczenia dojazdu''\<rparr>))"

definition vetCandidate ::
  "validator \<Rightarrow> shift_row \<Rightarrow> employee_row \<Rightarrow> bool \<Rightarrow> site option \<Rightarrow> travel_policy \<Rightarrow> shift_row list \<Rightarrow> evaluated tx" where
  "vetCandidate validate shift c isLocal lokalizacja policy weekShifts =
     bnd (validate (give_away_query (sh_id shift) (sh_employeeId shift) (em_id c))) (\<lambda>decision.
     if isLocal \<or> \<not> fd_feasible decision
     then ret ((ev_base shift c)\<lparr>ev_feasible := fd_feasible decision, ev_reason := fd_reason decision\<rparr>)
     else lift_sum (travel_gate shift c lokalizacja policy weekShifts))"

section \<open>Labour costs\<close>

text \<open>
  The labour cost of one candidate minus that of the employee who left, for the hours of the shift;
  \<open>None\<close> when an employee or a rate is missing or the currencies differ. \<open>rates\<close> is what the batched
  query returned.
\<close>

definition rate_of :: "rate_row list \<Rightarrow> employee_row \<Rightarrow> rate_row option" where
  "rate_of rates e = rate_for rates (normalizePosition (em_position e)) (em_employmentType e)"

definition emp_pair :: "employee_row \<Rightarrow> string \<times> employment_type" where
  "emp_pair e = (em_position e, em_employmentType e)"

definition computeWorkCostDeltas :: "tenant_db \<Rightarrow> shift_row \<Rightarrow> id list \<Rightarrow> (id \<Rightarrow> real option)" where
  "computeWorkCostDeltas db shift candidateIds =
     (if candidateIds = [] then Map.empty
      else case findEmployee db (sh_employeeId shift) of
        None \<Rightarrow> Map.empty
      | Some vacatedEmp \<Rightarrow>
          (let emps = List.map_filter (findEmployee db) candidateIds;
               rates = findRatesForPairs db (map emp_pair emps @ [emp_pair vacatedEmp])
           in case rate_of rates vacatedEmp of
                None \<Rightarrow> Map.empty
              | Some vacatedRate \<Rightarrow>
                  (\<lambda>i. if i \<notin> set candidateIds then None
                    else case findEmployee db i of
                      None \<Rightarrow> None
                    | Some emp \<Rightarrow>
                        (case rate_of rates emp of
                           None \<Rightarrow> None
                         | Some rate \<Rightarrow>
                             if ra_currency rate \<noteq> ra_currency vacatedRate then None
                             else Some (shiftCost (ra_hourlyRate rate) (sh_start shift) (sh_end shift) -
                               shiftCost (ra_hourlyRate vacatedRate) (sh_start shift) (sh_end shift))))))"

section \<open>Ranking\<close>

definition week_shifts_of :: "tenant_db \<Rightarrow> int \<Rightarrow> id list \<Rightarrow> shift_row list" where
  "week_shifts_of db date ids =
     filter (\<lambda>s. sh_employeeId s \<in> set ids \<and> fst (isoWeekRange date) \<le> sh_date s \<and>
        sh_date s < snd (isoWeekRange date)) (t_shifts db)"

definition hours_of :: "shift_row list \<Rightarrow> id \<Rightarrow> real" where
  "hours_of ss i =
     sum_list (map (\<lambda>s. real_of_int (windowMinutes (sh_start s) (sh_end s)) / 60)
       (filter (\<lambda>s. sh_employeeId s = i) ss))"

definition total_cost :: "(id \<Rightarrow> real option) \<Rightarrow> evaluated \<Rightarrow> real" where
  "total_cost deltas c = coalesce (deltas (ev_id c)) 0 + ev_travelCost c"

text \<open>
  The comparator of the feasible candidates: total cost, hours of the week, preferred start, id. A
  stable sort by it is the sort by the key.
\<close>

definition rank_key ::
  "(id \<Rightarrow> real option) \<Rightarrow> shift_row list \<Rightarrow> evaluated \<Rightarrow> real \<times> real \<times> int \<times> id" where
  "rank_key deltas weekShifts c =
     (total_cost deltas c, hours_of weekShifts (ev_id c), ev_prefMatch c, ev_id c)"

definition to_ranked :: "(id \<Rightarrow> real option) \<Rightarrow> shift_row list \<Rightarrow> evaluated \<Rightarrow> int \<Rightarrow> ranked_candidate" where
  "to_ranked deltas weekShifts f i =
     \<lparr>rc_employeeId = ev_id f, rc_feasible = True, rc_reason = None, rc_rank = i + 1,
      rc_score = Some (hours_of weekShifts (ev_id f)), rc_unitId = ev_unitId f,
      rc_homeLat = ev_homeLat f, rc_homeLng = ev_homeLng f, rc_reachable = ev_reachable f, rc_travelKm = ev_travelKm f, rc_travelMinutes = ev_travelMinutes f,
      rc_travelCost = ev_travelCost f, rc_workCostDelta = deltas (ev_id f)\<rparr>"

definition to_rejected :: "evaluated \<Rightarrow> ranked_candidate" where
  "to_rejected f =
     \<lparr>rc_employeeId = ev_id f, rc_feasible = False, rc_reason = ev_reason f, rc_rank = 0,
      rc_score = None, rc_unitId = ev_unitId f, rc_homeLat = ev_homeLat f, rc_homeLng = ev_homeLng f,
      rc_reachable = ev_reachable f,
      rc_travelKm = ev_travelKm f, rc_travelMinutes = ev_travelMinutes f,
      rc_travelCost = ev_travelCost f, rc_workCostDelta = None\<rparr>"

definition rank_evaluated ::
  "tenant_db \<Rightarrow> shift_row \<Rightarrow> shift_row list \<Rightarrow> evaluated list \<Rightarrow> ranked_candidate list" where
  "rank_evaluated db shift weekShifts evaluateds =
     (let feasibleEvaluated = filter ev_feasible evaluateds;
          deltas = computeWorkCostDeltas db shift (map ev_id feasibleEvaluated);
          feasible = sort_key (rank_key deltas weekShifts) feasibleEvaluated;
          infeasible = sort_key ev_id (filter (\<lambda>c. \<not> ev_feasible c) evaluateds)
      in map2 (to_ranked deltas weekShifts) feasible (map int [0..<length feasible]) @
         map to_rejected infeasible)"

text \<open>The unit of the shift is its employee's; a preloaded one is taken as it is. So is the site.\<close>

definition resolve_unit :: "rankable_shift \<Rightarrow> id tx" where
  "resolve_unit rs =
     (case rk_unitId rs of
        Some u \<Rightarrow> ret u
      | None \<Rightarrow> bnd (asks (\<lambda>db. findEmployee db (sh_employeeId (rk_shift rs)))) (\<lambda>found.
                bnd (require (P2025 ''Employee'') found) (\<lambda>e. ret (em_unitId e))))"

definition resolve_site :: "rankable_shift \<Rightarrow> site option tx" where
  "resolve_site rs =
     (case rk_lokalizacja rs of
        Some l \<Rightarrow> ret l
      | None \<Rightarrow> asks (\<lambda>db. map_option (\<lambda>l. (lo_lat l, lo_lng l))
                  (find_row lo_id (sh_lokalizacjaId (rk_shift rs)) (t_lokalizacje db))))"

definition rank_cross ::
  "validator \<Rightarrow> shift_row \<Rightarrow> travel_policy \<Rightarrow> employee_row list \<Rightarrow> evaluated list \<Rightarrow> employee_row list \<Rightarrow>
   site option \<Rightarrow> ranked_candidate list tx" where
  "rank_cross validate shift policy localPool localEvaluated crossPool lokalizacja =
     bnd (asks (\<lambda>db. week_shifts_of db (sh_date shift) (map em_id (localPool @ crossPool)))) (\<lambda>weekShifts.
     bnd (mapM (\<lambda>c. vetCandidate validate shift c False lokalizacja policy
                  (filter (\<lambda>s. sh_employeeId s = em_id c) weekShifts)) crossPool) (\<lambda>crossEvaluated.
     asks (\<lambda>db. rank_evaluated db shift weekShifts (localEvaluated @ crossEvaluated))))"

definition rankCandidatesForShift ::
  "validator \<Rightarrow> rankable_shift \<Rightarrow> travel_policy \<Rightarrow> ranked_candidate list tx" where
  "rankCandidatesForShift validate rs policy =
     bnd (resolve_unit rs) (\<lambda>unitId.
     bnd (asks (\<lambda>db. loadPool db unitId (sh_role (rk_shift rs)) (sh_employeeId (rk_shift rs)) False)) (\<lambda>localPool.
     bnd (mapM (\<lambda>c. vetCandidate validate (rk_shift rs) c True None policy []) localPool) (\<lambda>localEvaluated.
     bnd (asks (\<lambda>db. if list_ex ev_feasible localEvaluated then []
            else loadPool db unitId (sh_role (rk_shift rs)) (sh_employeeId (rk_shift rs)) True)) (\<lambda>crossPool.
     bnd (if crossPool = [] then ret None else resolve_site rs) (\<lambda>lokalizacja.
     if localPool @ crossPool = [] then ret []
     else rank_cross validate (rk_shift rs) policy localPool localEvaluated crossPool lokalizacja)))))"

section \<open>Vacated shifts\<close>

text \<open>
  The shifts of the window whose employee has approved leave overlapping the window, in the caller's
  scope, then narrowed to those a leave really covers.
\<close>

definition approved_leaves :: "tenant_db \<Rightarrow> id \<Rightarrow> leave_row list" where
  "approved_leaves db e = filter (\<lambda>lv. lv_employeeId lv = e \<and> lv_status lv = LV_APPROVED) (t_leaves db)"

definition findVacatedShifts :: "actor \<Rightarrow> int \<Rightarrow> int \<Rightarrow> shift_row list tx" where
  "findVacatedShifts act from to =
     bnd (ensure (from \<le> to) (BadRequestException ''from must not be after to'')) (\<lambda>_.
     asks (\<lambda>db.
       let inScope = (\<lambda>e. isGlobal (act_roles act) \<or> em_unitId e \<in> set (managedUnitIds db (act_userId act)));
           overlapping = (\<lambda>e. list_ex (\<lambda>lv. lv_startDate lv \<le> to \<and> from \<le> lv_endDate lv)
             (approved_leaves db (em_id e)));
           shifts = filter (\<lambda>s. from \<le> sh_date s \<and> sh_date s \<le> to \<and>
             (case findEmployee db (sh_employeeId s) of None \<Rightarrow> False | Some e \<Rightarrow> overlapping e \<and> inScope e))
             (t_shifts db)
       in filter (\<lambda>s. list_ex (\<lambda>lv. lv_startDate lv \<le> sh_date s \<and> sh_date s \<le> lv_endDate lv)
            (approved_leaves db (sh_employeeId s))) shifts))"

end
