(* ===== verification/ReplacementProps.thy ===== *)
theory ReplacementProps
  imports Replacement Samples
begin

text \<open>
  Correctness of the replacement engine: who can be proposed, in which order, what the arrival gate
  computes, and which shifts count as vacated.
\<close>

section \<open>Vetting\<close>

lemma vet_read_only:
  assumes "feasibility_port validate"
  shows "read_only (vetCandidate validate shift c l lok p ws)"
  unfolding vetCandidate_def
  by (intro read_only_bnd) (auto simp: feasibility_port.validate_read_only [OF assms])

lemma ev_base_simps [simp]:
  "ev_id (ev_base s c) = em_id c" "ev_unitId (ev_base s c) = em_unitId c"
  "ev_reachable (ev_base s c) = (em_userId c \<noteq> None)" "\<not> ev_feasible (ev_base s c)"
  "ev_travelMinutes (ev_base s c) = 0" "ev_travelCost (ev_base s c) = 0"
  by (simp_all add: ev_base_def)

lemma math_round_mono: "x \<le> y \<Longrightarrow> math_round x \<le> math_round y"
  unfolding math_round_def by (rule floor_mono) simp

lemma travel_gate_InrD:
  assumes "travel_gate shift c lok policy ws = Inr ev"
  shows "ev_id ev = em_id c \<and> ev_unitId ev = em_unitId c \<and> ev_reachable ev = (em_userId c \<noteq> None) \<and>
    (ev_feasible ev \<longrightarrow> em_homeLat c \<noteq> None \<and> em_homeLng c \<noteq> None \<and>
       ev_travelMinutes ev \<le> math_round (tp_maxTravelMinutes policy))"
  using assms
  by (auto simp: travel_gate_def Let_def roundMinutes_def intro!: math_round_mono
      split: option.splits prod.splits sum.splits if_splits)

text \<open>What an evaluated candidate records of its employee and of the validator's answer.\<close>

definition vetted ::
  "validator \<Rightarrow> tenant_db \<Rightarrow> shift_row \<Rightarrow> travel_policy \<Rightarrow> bool \<Rightarrow> employee_row \<Rightarrow> evaluated \<Rightarrow> bool" where
  "vetted validate db shift policy isLocal c ev \<longleftrightarrow>
     ev_id ev = em_id c \<and> ev_unitId ev = em_unitId c \<and> ev_reachable ev = (em_userId c \<noteq> None) \<and>
     (ev_feasible ev \<longrightarrow>
        (\<exists>d. validate (give_away_query (sh_id shift) (sh_employeeId shift) (em_id c)) db = (Inr d, db) \<and>
           fd_feasible d) \<and>
        (isLocal \<or> em_homeLat c \<noteq> None \<and> em_homeLng c \<noteq> None \<and>
           ev_travelMinutes ev \<le> math_round (tp_maxTravelMinutes policy)))"

lemma vetCandidate_vetted:
  assumes port: "feasibility_port validate"
    and ok: "vetCandidate validate shift c isLocal lok policy ws db = (Inr ev, db')"
  shows "vetted validate db shift policy isLocal c ev"
proof -
  from ok obtain d where d: "validate (give_away_query (sh_id shift) (sh_employeeId shift) (em_id c)) db = (Inr d, db)"
    and ev: "(if isLocal \<or> \<not> fd_feasible d
      then ret ((ev_base shift c)\<lparr>ev_feasible := fd_feasible d, ev_reason := fd_reason d\<rparr>)
      else lift_sum (travel_gate shift c lok policy ws)) db = (Inr ev, db')"
    unfolding vetCandidate_def
    by (rule bnd_asserted_Inr [OF feasibility_port.validate_read_only [OF port]])
  show ?thesis
  proof (cases "isLocal \<or> \<not> fd_feasible d")
    case True
    with ev d show ?thesis by (auto simp: vetted_def)
  next
    case False
    with ev have "travel_gate shift c lok policy ws = Inr ev" by (simp add: lift_sum_def)
    from travel_gate_InrD [OF this] False d show ?thesis by (auto simp: vetted_def)
  qed
qed

section \<open>The run of the engine\<close>

definition rank_unit :: "tenant_db \<Rightarrow> rankable_shift \<Rightarrow> id option" where
  "rank_unit db rs =
     (case rk_unitId rs of Some u \<Rightarrow> Some u
      | None \<Rightarrow> map_option em_unitId (findEmployee db (sh_employeeId (rk_shift rs))))"

lemma bnd_resolve_unit:
  "bnd (resolve_unit rs) f db =
     (case rank_unit db rs of None \<Rightarrow> (Inl (P2025 ''Employee''), db) | Some u \<Rightarrow> f u db)"
  by (simp add: resolve_unit_def rank_unit_def bnd_assoc split: option.splits)

definition site_of :: "tenant_db \<Rightarrow> rankable_shift \<Rightarrow> site option" where
  "site_of db rs =
     (case rk_lokalizacja rs of
        Some l \<Rightarrow> l
      | None \<Rightarrow> map_option (\<lambda>l. (lo_lat l, lo_lng l)) (find_row lo_id (sh_lokalizacjaId (rk_shift rs)) (t_lokalizacje db)))"

lemma bnd_resolve_site: "bnd (resolve_site rs) f db = f (site_of db rs) db"
  by (simp add: resolve_site_def site_of_def split: option.splits)

lemma bnd_if: "bnd (if c then m else n) f db = (if c then bnd m f db else bnd n f db)"
  by simp

lemma rank_cross_InrD:
  assumes port: "feasibility_port validate"
    and ok: "rank_cross validate shift policy lp le cross lok db = (Inr out, db')"
  shows "db' = db \<and> (\<exists>ce ws. list_all2 (vetted validate db shift policy False) cross ce \<and>
    out = rank_evaluated db shift ws (le @ ce))"
proof -
  let ?ws = "week_shifts_of db (sh_date shift) (map em_id (lp @ cross))"
  let ?vet = "\<lambda>c. vetCandidate validate shift c False lok policy (filter (\<lambda>s. sh_employeeId s = em_id c) ?ws)"
  have ro: "read_only (?vet c)" for c by (rule vet_read_only [OF port])
  from ok have "bnd (mapM ?vet cross) (\<lambda>ce. asks (\<lambda>db. rank_evaluated db shift ?ws (le @ ce))) db = (Inr out, db')"
    by (simp add: rank_cross_def)
  then obtain ce where ce: "mapM ?vet cross db = (Inr ce, db)"
    and res: "(Inr (rank_evaluated db shift ?ws (le @ ce)), db) = (Inr out :: app_error + ranked_candidate list, db')"
    by (rule bnd_asserted_Inr [OF read_only_mapM [of ?vet, OF ro]]) (rule that, assumption, simp only: asks_apply)
  from res have out: "out = rank_evaluated db shift ?ws (le @ ce)" "db' = db"
    by (blast dest: Pair_inject Inr_inject)+
  have "list_all2 (vetted validate db shift policy False) cross ce"
    by (rule list_all2_mono [OF conjunct2 [OF mapM_read_only_InrD [of ?vet, OF ro ce]]])
      (rule vetCandidate_vetted [OF port])
  with out show ?thesis by blast
qed

lemma rank_InrD:
  assumes port: "feasibility_port validate"
    and ok: "rankCandidatesForShift validate rs policy db = (Inr out, db')"
  obtains u lp cross ws le ce where
    "db' = db" "rank_unit db rs = Some u"
    "lp = loadPool db u (sh_role (rk_shift rs)) (sh_employeeId (rk_shift rs)) False"
    "list_all2 (vetted validate db (rk_shift rs) policy True) lp le"
    "cross = (if list_ex ev_feasible le then []
       else loadPool db u (sh_role (rk_shift rs)) (sh_employeeId (rk_shift rs)) True)"
    "list_all2 (vetted validate db (rk_shift rs) policy False) cross ce"
    "out = rank_evaluated db (rk_shift rs) ws (le @ ce)"
proof -
  let ?s = "rk_shift rs"
  let ?vet = "\<lambda>c. vetCandidate validate ?s c True None policy []"
  have ro: "read_only (?vet c)" for c by (rule vet_read_only [OF port])
  from ok obtain u where u: "rank_unit db rs = Some u"
    by (auto simp: rankCandidatesForShift_def bnd_resolve_unit split: option.splits)
  define lp where "lp = loadPool db u (sh_role ?s) (sh_employeeId ?s) False"
  from ok u have "bnd (mapM (\<lambda>c. vetCandidate validate ?s c True None policy []) lp) (\<lambda>le.
     bnd (asks (\<lambda>db. if list_ex ev_feasible le then []
            else loadPool db u (sh_role ?s) (sh_employeeId ?s) True)) (\<lambda>crossPool.
     bnd (if crossPool = [] then ret None else resolve_site rs) (\<lambda>lokalizacja.
     if lp @ crossPool = [] then ret []
     else rank_cross validate ?s policy lp le crossPool lokalizacja))) db = (Inr out, db')"
    unfolding lp_def by (simp add: rankCandidatesForShift_def bnd_resolve_unit)
  then obtain le where le: "mapM (\<lambda>c. vetCandidate validate ?s c True None policy []) lp db = (Inr le, db)"
    and rest: "bnd (asks (\<lambda>db. if list_ex ev_feasible le then []
            else loadPool db u (sh_role ?s) (sh_employeeId ?s) True)) (\<lambda>crossPool.
     bnd (if crossPool = [] then ret None else resolve_site rs) (\<lambda>lokalizacja.
     if lp @ crossPool = [] then ret []
     else rank_cross validate ?s policy lp le crossPool lokalizacja)) db = (Inr out, db')"
    by (rule bnd_asserted_Inr [OF read_only_mapM [of ?vet, OF ro]])
  define cross where "cross = (if list_ex ev_feasible le then []
       else loadPool db u (sh_role ?s) (sh_employeeId ?s) True)"
  have L: "list_all2 (vetted validate db ?s policy True) lp le"
    by (rule list_all2_mono [OF conjunct2 [OF mapM_read_only_InrD [of ?vet, OF ro le]]]) (rule vetCandidate_vetted [OF port])
  from rest obtain lok where last: "(if lp @ cross = [] then ret []
     else rank_cross validate ?s policy lp le cross lok) db = (Inr out, db')"
    unfolding bnd_asks cross_def [symmetric] bnd_if bnd_resolve_site bnd_ret
    by (cases "cross = []") auto
  show thesis
  proof (cases "lp @ cross = []")
    case True
    with last L have "out = []" "db' = db" "le = []" by auto
    then show thesis
      using that [OF _ u lp_def L cross_def, of "[]" "[]"] True by (simp add: rank_evaluated_def)
  next
    case False
    with last have "rank_cross validate ?s policy lp le cross lok db = (Inr out, db')"
      by (simp only: False if_False)
    from rank_cross_InrD [OF port this] show thesis
      using that [OF _ u lp_def L cross_def] by blast
  qed
qed

section \<open>Order and eligibility\<close>

definition ranked_cost :: "ranked_candidate \<Rightarrow> real" where
  "ranked_cost c = coalesce (rc_workCostDelta c) 0 + rc_travelCost c"

lemma to_ranked_simps [simp]:
  "rc_feasible (to_ranked d ws f i)" "rc_rank (to_ranked d ws f i) = i + 1"
  "ranked_cost (to_ranked d ws f i) = total_cost d f"
  "rc_employeeId (to_ranked d ws f i) = ev_id f" "rc_unitId (to_ranked d ws f i) = ev_unitId f"
  "rc_reachable (to_ranked d ws f i) = ev_reachable f"
  "rc_travelMinutes (to_ranked d ws f i) = ev_travelMinutes f"
  by (simp_all add: to_ranked_def ranked_cost_def total_cost_def)

lemma to_rejected_simps [simp]:
  "\<not> rc_feasible (to_rejected f)" "rc_rank (to_rejected f) = 0"
  "rc_employeeId (to_rejected f) = ev_id f" "rc_unitId (to_rejected f) = ev_unitId f"
  "rc_reachable (to_rejected f) = ev_reachable f"
  by (simp_all add: to_rejected_def)

lemma sorted_total_cost: "sorted (map (total_cost d) (sort_key (rank_key d ws) evs))"
proof -
  have "sorted (map fst (map (rank_key d ws) (sort_key (rank_key d ws) evs)))"
    by (rule sorted_map_mono [OF sorted_sort_key]) (auto simp: mono_on_def less_eq_prod_def)
  then show ?thesis by (simp add: o_def rank_key_def)
qed

lemma in_rank_evaluated:
  assumes "c \<in> set (rank_evaluated db s ws evs)"
  obtains ev where "ev \<in> set evs" "rc_employeeId c = ev_id ev" "rc_unitId c = ev_unitId ev"
    "rc_feasible c = ev_feasible ev" "rc_reachable c = ev_reachable ev"
    "rc_feasible c \<longrightarrow> rc_travelMinutes c = ev_travelMinutes ev"
proof -
  let ?d = "computeWorkCostDeltas db s (map ev_id (filter ev_feasible evs))"
  from assms consider f i where "c = to_ranked ?d ws f i" "f \<in> set evs" "ev_feasible f"
    | f where "c = to_rejected f" "f \<in> set evs" "\<not> ev_feasible f"
    by (auto simp: rank_evaluated_def Let_def dest!: set_zip_leftD)
  then show thesis by cases (auto intro: that)
qed

text \<open>
  The order of the candidates. A ranking changes nothing in the database and lists first the
  feasible candidates, numbered 1, 2, 3, ... by ascending total cost (labour difference plus travel),
  and then the infeasible ones with rank 0.
\<close>

theorem rank_order:
  assumes port: "feasibility_port validate"
    and ok: "rankCandidatesForShift validate rs policy db = (Inr out, db')"
  shows "db' = db \<and> (\<exists>fs js. out = fs @ js \<and>
      list_all rc_feasible fs \<and> map rc_rank fs = map int [1..<Suc (length fs)] \<and>
      sorted (map ranked_cost fs) \<and> list_all (\<lambda>c. \<not> rc_feasible c \<and> rc_rank c = 0) js)"
proof -
  from port ok obtain ws le ce where db': "db' = db"
    and out: "out = rank_evaluated db (rk_shift rs) ws (le @ ce)"
    by (rule rank_InrD)
  let ?evs = "filter ev_feasible (le @ ce)"
  define d where "d = computeWorkCostDeltas db (rk_shift rs) (map ev_id ?evs)"
  define feas where "feas = sort_key (rank_key d ws) ?evs"
  define fs where "fs = map2 (to_ranked d ws) feas (map int [0..<length feas])"
  define js where "js = map to_rejected (sort_key ev_id (filter (\<lambda>c. \<not> ev_feasible c) (le @ ce)))"
  have "out = fs @ js"
    by (simp add: out rank_evaluated_def Let_def d_def feas_def fs_def js_def)
  moreover have "list_all rc_feasible fs" by (auto simp: fs_def list_all_iff)
  moreover have "map rc_rank fs = map int [1..<Suc (length fs)]"
    by (rule nth_equalityI) (auto simp: fs_def simp del: upt_Suc)
  moreover have "sorted (map ranked_cost fs)"
  proof -
    have "map ranked_cost fs = map (total_cost d) feas"
      by (rule nth_equalityI) (auto simp: fs_def)
    then show ?thesis using sorted_total_cost [of d ws ?evs] by (simp only: feas_def)
  qed
  moreover have "list_all (\<lambda>c. \<not> rc_feasible c \<and> rc_rank c = 0) js" by (auto simp: js_def list_all_iff)
  ultimately show ?thesis using db' by blast
qed

text \<open>
  C9. Who can be proposed. Every listed candidate is an employee qualified for the role, other than
  the one who left the shift; a feasible one was accepted by the validator, and one from another unit
  can travel to the site within the policy's limit. A candidate from another unit is only ever listed
  when no candidate of the shift's own unit is feasible.
\<close>

theorem rank_candidates_eligible:
  assumes port: "feasibility_port validate"
    and ok: "rankCandidatesForShift validate rs policy db = (Inr out, db')"
  shows "\<exists>u. rank_unit db rs = Some u \<and>
      (\<forall>c \<in> set out. \<exists>e \<in> set (t_employees db). em_id e = rc_employeeId c \<and>
         em_unitId e = rc_unitId c \<and> rc_reachable c = (em_userId e \<noteq> None) \<and>
         sh_role (rk_shift rs) \<in> set (em_qualifications e) \<and> em_id e \<noteq> sh_employeeId (rk_shift rs) \<and>
         (rc_feasible c \<longrightarrow>
            (\<exists>d. validate (give_away_query (sh_id (rk_shift rs)) (sh_employeeId (rk_shift rs)) (em_id e)) db
                = (Inr d, db) \<and> fd_feasible d) \<and>
            (rc_unitId c = u \<or> rc_travelMinutes c \<le> math_round (tp_maxTravelMinutes policy)))) \<and>
      ((\<exists>c \<in> set out. rc_unitId c \<noteq> u) \<longrightarrow> (\<forall>c \<in> set out. rc_unitId c = u \<longrightarrow> \<not> rc_feasible c))"
proof -
  let ?s = "rk_shift rs"
  from port ok obtain u lp cross ws le ce where u: "rank_unit db rs = Some u"
    and lp: "lp = loadPool db u (sh_role ?s) (sh_employeeId ?s) False"
    and L: "list_all2 (vetted validate db ?s policy True) lp le"
    and cross: "cross = (if list_ex ev_feasible le then [] else loadPool db u (sh_role ?s) (sh_employeeId ?s) True)"
    and C: "list_all2 (vetted validate db ?s policy False) cross ce"
    and out: "out = rank_evaluated db ?s ws (le @ ce)"
    by (rule rank_InrD)
  have le: "\<exists>e \<in> set lp. vetted validate db ?s policy True e ev" if "ev \<in> set le" for ev
    using L that by (fastforce simp: list_all2_conv_all_nth in_set_conv_nth)
  have ce: "\<exists>e \<in> set cross. vetted validate db ?s policy False e ev" if "ev \<in> set ce" for ev
    using C that by (fastforce simp: list_all2_conv_all_nth in_set_conv_nth)
  have in_le: "ev_unitId ev = u" if "ev \<in> set le" for ev
    using le [OF that] by (auto simp: vetted_def lp loadPool_def)
  have in_ce: "ev_unitId ev \<noteq> u" if "ev \<in> set ce" for ev
    using ce [OF that] by (auto simp: vetted_def cross loadPool_def split: if_splits)
  have "\<exists>e \<in> set (t_employees db). em_id e = rc_employeeId c \<and>
         em_unitId e = rc_unitId c \<and> rc_reachable c = (em_userId e \<noteq> None) \<and>
         sh_role ?s \<in> set (em_qualifications e) \<and> em_id e \<noteq> sh_employeeId ?s \<and>
         (rc_feasible c \<longrightarrow>
            (\<exists>d. validate (give_away_query (sh_id ?s) (sh_employeeId ?s) (em_id e)) db = (Inr d, db) \<and> fd_feasible d) \<and>
            (rc_unitId c = u \<or> rc_travelMinutes c \<le> math_round (tp_maxTravelMinutes policy)))"
    if c: "c \<in> set out" for c
  proof -
    from c obtain ev where ev: "ev \<in> set (le @ ce)" "rc_employeeId c = ev_id ev" "rc_unitId c = ev_unitId ev"
      "rc_feasible c = ev_feasible ev" "rc_reachable c = ev_reachable ev"
      "rc_feasible c \<longrightarrow> rc_travelMinutes c = ev_travelMinutes ev"
      unfolding out by (rule in_rank_evaluated)
    from ev(1) consider "ev \<in> set le" | "ev \<in> set ce" by auto
    then consider e where "e \<in> set lp" "vetted validate db ?s policy True e ev"
      | e where "e \<in> set cross" "vetted validate db ?s policy False e ev"
      by cases (use le ce in blast)+
    then show ?thesis
    proof cases
      case 1
      with ev show ?thesis by (intro bexI [of _ e]) (auto simp: vetted_def lp loadPool_def)
    next
      case 2
      with ev show ?thesis
        by (intro bexI [of _ e]) (auto simp: vetted_def cross loadPool_def split: if_splits)
    qed
  qed
  moreover have "\<not> rc_feasible c'" if c: "c \<in> set out" "rc_unitId c \<noteq> u" "c' \<in> set out" "rc_unitId c' = u" for c c'
  proof -
    from c(1) obtain ev where "ev \<in> set (le @ ce)" "rc_unitId c = ev_unitId ev"
      unfolding out by (rule in_rank_evaluated)
    with c(2) in_le have "ce \<noteq> []" by auto
    with C have "\<not> list_ex ev_feasible le" by (auto simp: cross split: if_splits)
    moreover from c(3) obtain ev' where "ev' \<in> set (le @ ce)" "rc_unitId c' = ev_unitId ev'"
      "rc_feasible c' = ev_feasible ev'"
      unfolding out by (rule in_rank_evaluated)
    ultimately show ?thesis using c(4) in_ce by (auto simp: list_ex_iff)
  qed
  ultimately show ?thesis using u by blast
qed

text \<open>Employee \<open>e2\<close> is the one candidate for the shift of \<open>e1\<close>.\<close>

definition sample_rankable :: rankable_shift where
  "sample_rankable = \<lparr>rk_shift = sample_shift ''s1'' ''e1'' 4, rk_unitId = None, rk_lokalizacja = None\<rparr>"

definition sample_ranked :: ranked_candidate where
  "sample_ranked =
     \<lparr>rc_employeeId = ''e2'', rc_feasible = True, rc_reason = None, rc_rank = 1, rc_score = Some 8,
      rc_unitId = ''u1'', rc_homeLat = None, rc_homeLng = None, rc_reachable = True, rc_travelKm = 0, rc_travelMinutes = 0, rc_travelCost = 0,
      rc_workCostDelta = None\<rparr>"

lemma sample_ranking_steps:
  "rank_unit (sample_db SW_DRAFT) sample_rankable = Some ''u1''"
  "loadPool (sample_db SW_DRAFT) ''u1'' ''chef'' ''e1'' False = [sample_employee ''e2'' (Some ''a2'') ''u1'']"
  "rank_evaluated (sample_db SW_DRAFT) (sample_shift ''s1'' ''e1'' 4)
     (week_shifts_of (sample_db SW_DRAFT) (4 * day_ms) [''e2''])
     [(ev_base (sample_shift ''s1'' ''e1'' 4) (sample_employee ''e2'' (Some ''a2'') ''u1''))
       \<lparr>ev_feasible := True, ev_reason := None\<rparr>] = [sample_ranked]"
  by code_simp+

lemma vet_local_allow_all:
  "vetCandidate allow_all_validate s c True lok policy ws =
     ret ((ev_base s c)\<lparr>ev_feasible := True, ev_reason := None\<rparr>)"
  by (rule ext) (simp add: vetCandidate_def allow_all_validate_def)

lemma sample_ranking_any:
  assumes "rank_unit (sample_db SW_DRAFT) rs = Some ''u1''" and "rk_shift rs = sample_shift ''s1'' ''e1'' 4"
  shows "rankCandidatesForShift allow_all_validate rs policy (sample_db SW_DRAFT) =
     (Inr [sample_ranked], sample_db SW_DRAFT)"
proof -
  have "sh_role (sample_shift ''s1'' ''e1'' 4) = ''chef''" "sh_employeeId (sample_shift ''s1'' ''e1'' 4) = ''e1''"
    "sh_date (sample_shift ''s1'' ''e1'' 4) = 4 * day_ms"
    "em_id (sample_employee ''e2'' (Some ''a2'') ''u1'') = ''e2''"
    by (simp_all add: sample_shift_def sample_employee_def)
  with assms show ?thesis
    by (simp add: rankCandidatesForShift_def bnd_resolve_unit sample_ranking_steps vet_local_allow_all rank_cross_def
        del: ret_apply)
qed

lemma sample_ranking:
  "rankCandidatesForShift allow_all_validate sample_rankable policy (sample_db SW_DRAFT) =
     (Inr [sample_ranked], sample_db SW_DRAFT)"
  by (rule sample_ranking_any [OF sample_ranking_steps(1)]) (simp add: sample_rankable_def)

theorem rank_order_witness:
  "\<exists>out. rankCandidatesForShift allow_all_validate sample_rankable DEFAULT_TRAVEL_POLICY (sample_db SW_DRAFT) =
      (Inr out, sample_db SW_DRAFT) \<and> out \<noteq> [] \<and>
     (\<exists>fs js. out = fs @ js \<and> list_all rc_feasible fs \<and> map rc_rank fs = map int [1..<Suc (length fs)] \<and>
      sorted (map ranked_cost fs) \<and> list_all (\<lambda>c. \<not> rc_feasible c \<and> rc_rank c = 0) js)"
  using rank_order [OF allow_all.feasibility_port_axioms sample_ranking [of DEFAULT_TRAVEL_POLICY]]
    sample_ranking [of DEFAULT_TRAVEL_POLICY] by blast

theorem rank_candidates_eligible_witness:
  "\<exists>out. rankCandidatesForShift allow_all_validate sample_rankable DEFAULT_TRAVEL_POLICY (sample_db SW_DRAFT) =
      (Inr out, sample_db SW_DRAFT) \<and>
     (\<exists>c \<in> set out. rc_feasible c \<and> (\<exists>e \<in> set (t_employees (sample_db SW_DRAFT)). em_id e = rc_employeeId c))"
  using rank_candidates_eligible [OF allow_all.feasibility_port_axioms sample_ranking [of DEFAULT_TRAVEL_POLICY]]
    sample_ranking [of DEFAULT_TRAVEL_POLICY] by (fastforce simp: sample_ranked_def)

section \<open>The arrival gate\<close>

lemma Max_insert_absorb:
  fixes x y :: int
  assumes "finite E" and "x \<le> y"
  shows "Max (insert x (insert y E)) = Max (insert y E)"
proof -
  have "y \<le> Max (insert y E)" using assms(1) by simp
  with assms have "x \<le> Max (insert y E)" by (rule_tac order_trans)
  moreover have "Max (insert x (insert y E)) = max x (Max (insert y E))"
    using assms(1) by (intro Max_insert) auto
  ultimately show ?thesis by simp
qed

lemma latest_prev_end_fold:
  "fold (\<lambda>s acc. if abs_end s \<le> limit \<and> (case acc of None \<Rightarrow> True | Some l \<Rightarrow> l < abs_end s)
        then Some (abs_end s) else acc) ss acc =
   (let ends = (case acc of None \<Rightarrow> {} | Some l \<Rightarrow> {l}) \<union> abs_end ` set (filter (\<lambda>s. abs_end s \<le> limit) ss)
    in if ends = {} then None else Some (Max ends))"
proof (induction ss arbitrary: acc)
  case Nil
  show ?case by (simp split: option.splits)
next
  case (Cons s ss)
  show ?case
  proof (cases "abs_end s \<le> limit \<and> (case acc of None \<Rightarrow> True | Some l \<Rightarrow> l < abs_end s)")
    case True
    let ?E = "abs_end ` set (filter (\<lambda>s. abs_end s \<le> limit) ss)"
    have "acc = Some l \<Longrightarrow> Max (insert (abs_end s) (insert l ?E)) = Max (insert (abs_end s) ?E)" for l
      using True Max_insert_absorb [of ?E l "abs_end s"] by (simp add: insert_commute)
    with True Cons.IH [of "Some (abs_end s)"] show ?thesis
      by (cases acc) (simp_all add: Let_def insert_commute del: Max_insert)
  next
    case False
    then consider "\<not> abs_end s \<le> limit" | l where "acc = Some l" "abs_end s \<le> limit" "abs_end s \<le> l"
      by (cases acc) (fastforce simp: not_less)+
    then show ?thesis
    proof cases
      case 1
      with Cons.IH [of acc] show ?thesis by simp
    next
      case 2
      let ?E = "abs_end ` set (filter (\<lambda>s. abs_end s \<le> limit) ss)"
      have "Max (insert l (insert (abs_end s) ?E)) = Max (insert l ?E)"
        using Max_insert_absorb [of ?E "abs_end s" l] 2(3) by (simp add: insert_commute)
      with 2 Cons.IH [of acc] show ?thesis by (simp add: Let_def)
    qed
  qed
qed

text \<open>
  The arrival gate looks at the latest of the candidate's shifts before the vacated one, and that
  is enough: it lets the candidate through exactly when every shift that ends by the start of the
  vacated shift leaves the eleven hours of rest plus the travel time.
\<close>

theorem checkArrivalGap_all:
  "checkArrivalGap shift t ss = None \<longleftrightarrow>
     list_all (\<lambda>s. real_of_int (abs_start shift - abs_end s) / 60000 \<ge> REQUIRED_REST_MINUTES + t)
       (filter (\<lambda>s. abs_end s \<le> abs_start shift) ss)"
proof -
  let ?E = "abs_end ` set (filter (\<lambda>s. abs_end s \<le> abs_start shift) ss)"
  let ?ok = "\<lambda>e. real_of_int (abs_start shift - e) / 60000 \<ge> REQUIRED_REST_MINUTES + t"
  have l: "latest_prev_end (abs_start shift) ss = (if ?E = {} then None else Some (Max ?E))"
    unfolding latest_prev_end_def latest_prev_end_fold by (simp add: Let_def)
  have mono: "?ok e'" if "e' \<le> e" "?ok e" for e e'
    using that by (simp add: field_simps)
  have "checkArrivalGap shift t ss = None \<longleftrightarrow> (\<forall>e \<in> ?E. ?ok e)"
  proof (cases "?E = {}")
    case True
    with l show ?thesis by (simp add: checkArrivalGap_def)
  next
    case False
    then have "Max ?E \<in> ?E" "\<forall>e \<in> ?E. e \<le> Max ?E" by (auto intro: Max_in)
    then have "?ok (Max ?E) \<longleftrightarrow> (\<forall>e \<in> ?E. ?ok e)" using mono by meson
    moreover have "checkArrivalGap shift t ss = None \<longleftrightarrow> ?ok (Max ?E)"
      using l False by (simp add: checkArrivalGap_def Let_def)
    ultimately show ?thesis by simp
  qed
  then show ?thesis by (simp add: list_all_iff)
qed

section \<open>Vacated shifts\<close>

definition vacated :: "tenant_db \<Rightarrow> actor \<Rightarrow> int \<Rightarrow> int \<Rightarrow> shift_row \<Rightarrow> bool" where
  "vacated db act from to s \<longleftrightarrow>
     from \<le> sh_date s \<and> sh_date s \<le> to \<and>
     (\<exists>e. findEmployee db (sh_employeeId s) = Some e \<and>
        (isGlobal (act_roles act) \<or> em_unitId e \<in> set (managedUnitIds db (act_userId act)))) \<and>
     (\<exists>lv \<in> set (t_leaves db). lv_employeeId lv = sh_employeeId s \<and> lv_status lv = LV_APPROVED \<and>
        lv_startDate lv \<le> sh_date s \<and> sh_date s \<le> lv_endDate lv)"

text \<open>
  The two filters of the scan, the relation filter over the window and the exact pass in memory,
  amount to the plain definition of a vacated shift: in the window, of an employee in the caller's
  scope, and covered by an approved leave of that employee. The scan writes nothing.
\<close>

theorem findVacatedShifts_exact:
  "findVacatedShifts act from to db =
     (if to < from then (Inl (BadRequestException ''from must not be after to''), db)
      else (Inr (filter (vacated db act from to) (t_shifts db)), db))"
proof -
  have id: "findEmployee db i = Some e \<Longrightarrow> em_id e = i" for i e
    by (auto simp: findEmployee_def dest: find_row_SomeD)
  have "filter (\<lambda>s. list_ex (\<lambda>lv. lv_startDate lv \<le> sh_date s \<and> sh_date s \<le> lv_endDate lv)
            (approved_leaves db (sh_employeeId s)))
         (filter (\<lambda>s. from \<le> sh_date s \<and> sh_date s \<le> to \<and>
             (case findEmployee db (sh_employeeId s) of None \<Rightarrow> False
              | Some e \<Rightarrow> list_ex (\<lambda>lv. lv_startDate lv \<le> to \<and> from \<le> lv_endDate lv) (approved_leaves db (em_id e)) \<and>
                  (isGlobal (act_roles act) \<or> em_unitId e \<in> set (managedUnitIds db (act_userId act)))))
             (t_shifts db)) =
        filter (vacated db act from to) (t_shifts db)"
    unfolding filter_filter
    by (rule filter_cong [OF refl])
      (fastforce simp: vacated_def approved_leaves_def list_ex_iff id split: option.splits)
  then show ?thesis
    by (simp add: findVacatedShifts_def Let_def)
qed

end
