(* ===== verification/AiProposal.thy ===== *)
theory AiProposal
  imports Replacement AiMachine
begin

text \<open>
  The life of an AI replacement proposal, \<open>ai-grafik/ai-proposal.service.ts\<close>, and the endpoints of
  \<open>ai-grafik/ai-grafik.controller.ts\<close>. Every method that writes is split where the code stops reading
  and starts writing: the write half is a definition of its own, which gets the values that were read
  before as arguments, so that other writers can be put in between. Fresh ids and the clock are
  arguments.
\<close>

section \<open>Reading a proposal\<close>

text \<open>A proposal with its candidates and the display names of their employees.\<close>

record proposal_view =
  pv_row :: ai_proposal_row
  pv_candidates :: "ai_candidate_row list"
  pv_names :: "(string \<times> string) option list"

definition candidates_of :: "tenant_db \<Rightarrow> id \<Rightarrow> ai_candidate_row list" where
  "candidates_of db pid = filter (\<lambda>c. ca_proposalId c = pid) (t_candidates db)"

definition view_of :: "tenant_db \<Rightarrow> ai_proposal_row \<Rightarrow> proposal_view" where
  "view_of db p =
     \<lparr>pv_row = p, pv_candidates = candidates_of db (ap_id p),
      pv_names = map (\<lambda>c. map_option (\<lambda>e. (em_firstName e, em_lastName e)) (findEmployee db (ca_employeeId c)))
        (candidates_of db (ap_id p))\<rparr>"

definition findProposal :: "tenant_db \<Rightarrow> id \<Rightarrow> ai_proposal_row option" where
  "findProposal db i = find_row ap_id i (t_proposals db)"

definition loadProposal :: "id \<Rightarrow> proposal_view tx" where
  "loadProposal i =
     bnd (asks (\<lambda>db. map_option (view_of db) (findProposal db i)))
       (require (NotFoundException ''Proposal not found''))"

text \<open>\<open>findUniqueOrThrow\<close> at the end of a method.\<close>

definition reloadProposal :: "id \<Rightarrow> proposal_view tx" where
  "reloadProposal i =
     bnd (asks (\<lambda>db. map_option (view_of db) (findProposal db i))) (require (P2025 ''AiProposal''))"

definition ap_audit :: "actor \<Rightarrow> string \<Rightarrow> id \<Rightarrow> (string \<times> json) list \<Rightarrow> unit tx" where
  "ap_audit act action proposalId payload =
     audit_log (act_userId act) action ''AiProposal'' proposalId (JObj payload) (act_ipAddress act)"

definition owning_scope :: "actor \<Rightarrow> id option \<Rightarrow> unit tx" where
  "owning_scope act unitId =
     (if isGlobal (act_roles act) then ret ()
      else bnd (asks (\<lambda>db. managedUnitIds db (act_userId act))) (\<lambda>managed.
           ensure (unitId \<in> Some ` set managed) (ForbiddenException ''Proposal is outside your scope'')))"

definition ai_state_name :: "ai_state \<Rightarrow> string" where
  "ai_state_name s = (case s of AI_DRAFT \<Rightarrow> ''DRAFT''
     | AI_PENDING_EMPLOYEE_CONSENT \<Rightarrow> ''PENDING_EMPLOYEE_CONSENT'' | AI_EMPLOYEE_AGREED \<Rightarrow> ''EMPLOYEE_AGREED''
     | AI_PENDING_MANAGER \<Rightarrow> ''PENDING_MANAGER'' | AI_APPROVED \<Rightarrow> ''APPROVED'' | AI_REJECTED \<Rightarrow> ''REJECTED''
     | AI_ESCALATED \<Rightarrow> ''ESCALATED'' | AI_CANCELLED \<Rightarrow> ''CANCELLED'')"

section \<open>Creating a proposal\<close>

text \<open>The ids \<open>randomUUID\<close> and the database give, and the two readings of the clock.\<close>

record fresh =
  fr_proposalId :: id
  fr_seedId :: "nat \<Rightarrow> id"
  fr_clock :: int
  fr_now :: int

record initial_plan =
  ip_state :: ai_state
  ip_auditAction :: string
  ip_escalationReason :: "string option"
  ip_activeSeedId :: "id option"
  ip_expiresAt :: "int option"
  ip_costCandidate :: "ranked_candidate option"

definition seeds :: "(nat \<Rightarrow> id) \<Rightarrow> ranked_candidate list \<Rightarrow> (id \<times> ranked_candidate) list" where
  "seeds seedId ranked = zip (map seedId [0..<length ranked]) ranked"

definition escalated_plan :: "string \<Rightarrow> app_error + initial_plan" where
  "escalated_plan why =
     (case nextProposalState AI_DRAFT DirectEscalate of
        Inl e \<Rightarrow> Inl e
      | Inr st \<Rightarrow> Inr
          \<lparr>ip_state = st, ip_auditAction = ''ai_proposal.escalated'', ip_escalationReason = Some why,
           ip_activeSeedId = None, ip_expiresAt = None, ip_costCandidate = None\<rparr>)"

definition asking_plan ::
  "fresh \<Rightarrow> ai_config_row \<Rightarrow> ranked_candidate list \<Rightarrow> ranked_candidate \<Rightarrow> app_error + initial_plan" where
  "asking_plan fr config ranked active =
     (case nextProposalState AI_DRAFT AskConsent of
        Inl e \<Rightarrow> Inl e
      | Inr st \<Rightarrow> Inr
          \<lparr>ip_state = st, ip_auditAction = ''ai_proposal.created'', ip_escalationReason = None,
           ip_activeSeedId = map_option fst
             (find (\<lambda>s. rc_employeeId (snd s) = rc_employeeId active) (seeds (fr_seedId fr) ranked)),
           ip_expiresAt = Some (fr_clock fr + ac_consentTtlHours config * 60 * 60 * 1000),
           ip_costCandidate = Some active\<rparr>)"

definition plan_initial ::
  "fresh \<Rightarrow> ai_config_row \<Rightarrow> ranked_candidate list \<Rightarrow> app_error + initial_plan" where
  "plan_initial fr config ranked =
     (let feasible = filter rc_feasible ranked; level = ac_autonomyLevel config
      in if feasible = [] then escalated_plan ''NO_FEASIBLE_CANDIDATE''
         else if level = AUTO_ASK_CONSENT \<or> level = AUTO_COMMIT_ON_APPROVAL then
           (case find rc_reachable feasible of
              Some active \<Rightarrow> asking_plan fr config ranked active
            | None \<Rightarrow> escalated_plan ''EMPLOYEE_UNREACHABLE'')
         else Inr
           \<lparr>ip_state = AI_DRAFT, ip_auditAction = ''ai_proposal.created'', ip_escalationReason = None,
            ip_activeSeedId = None, ip_expiresAt = None, ip_costCandidate = Some (hd feasible)\<rparr>)"

text \<open>
  The labour cost of one candidate minus that of the employee who left, re-read for the two of them.
\<close>

definition computeEstimatedCost :: "tenant_db \<Rightarrow> shift_row \<Rightarrow> id \<Rightarrow> id \<Rightarrow> real option" where
  "computeEstimatedCost db shift candidateEmployeeId vacatedEmployeeId =
     (case (findEmployee db candidateEmployeeId, findEmployee db vacatedEmployeeId) of
        (Some candidateEmp, Some vacatedEmp) \<Rightarrow>
          (let rates = findRatesForPairs db [emp_pair candidateEmp, emp_pair vacatedEmp]
           in case (rate_of rates candidateEmp, rate_of rates vacatedEmp) of
                (Some candidateRate, Some vacatedRate) \<Rightarrow>
                  if ra_currency candidateRate \<noteq> ra_currency vacatedRate then None
                  else Some (shiftCost (ra_hourlyRate candidateRate) (sh_start shift) (sh_end shift) -
                    shiftCost (ra_hourlyRate vacatedRate) (sh_start shift) (sh_end shift))
              | _ \<Rightarrow> None)
      | _ \<Rightarrow> None)"

definition candidateData ::
  "id \<Rightarrow> id option \<Rightarrow> int \<Rightarrow> id \<times> ranked_candidate \<Rightarrow> ai_candidate_row" where
  "candidateData proposalId activeSeedId now seed =
     (let i = fst seed; candidate = snd seed; isActive = (activeSeedId = Some i)
      in \<lparr>ca_id = i, ca_proposalId = proposalId, ca_employeeId = rc_employeeId candidate,
          ca_rank = rc_rank candidate, ca_feasible = rc_feasible candidate,
          ca_reason = rc_reason candidate, ca_score = rc_score candidate,
          ca_travelKm = Some (real_of_int (rc_travelKm candidate)),
          ca_travelMinutes = Some (real_of_int (rc_travelMinutes candidate)),
          ca_travelCost = Some (rc_travelCost candidate),
          ca_consentState = (if isActive then CS_PENDING else NOT_ASKED),
          ca_consentRequestedAt = (if isActive then Some now else None), ca_consentAt = None\<rparr>)"

definition proposal_data ::
  "fresh \<Rightarrow> shift_row \<Rightarrow> id \<Rightarrow> string option \<Rightarrow> initial_plan \<Rightarrow> real option \<Rightarrow> ai_proposal_row" where
  "proposal_data fr shift unitId reason plan estimatedCost =
     \<lparr>ap_id = fr_proposalId fr, ap_type = REPLACEMENT, ap_state = ip_state plan, ap_shiftId = sh_id shift,
      ap_vacatedEmployeeId = sh_employeeId shift, ap_activeCandidateId = ip_activeSeedId plan,
      ap_owningUnitId = Some unitId, ap_reason = reason, ap_estimatedCost = map_option round2 estimatedCost,
      ap_decidedByManagerId = None, ap_expiresAt = ip_expiresAt plan\<rparr>"

text \<open>The one insert of the proposal and its candidates, and the audit entry.\<close>

definition create_commit ::
  "fresh \<Rightarrow> actor \<Rightarrow> shift_row \<Rightarrow> id \<Rightarrow> string option \<Rightarrow> ranked_candidate list \<Rightarrow> initial_plan \<Rightarrow> real option \<Rightarrow>
   proposal_view tx" where
  "create_commit fr act shift unitId reason ranked plan estimatedCost =
     (let row = proposal_data fr shift unitId reason plan estimatedCost;
          cands = map (candidateData (fr_proposalId fr) (ip_activeSeedId plan) (fr_now fr))
            (seeds (fr_seedId fr) ranked)
      in bnd (modify (\<lambda>db. db\<lparr>t_proposals := t_proposals db @ [row], t_candidates := t_candidates db @ cands\<rparr>)) (\<lambda>_.
         bnd (asks (\<lambda>db. view_of db row)) (\<lambda>proposal.
         bnd (ap_audit act (ip_auditAction plan) (fr_proposalId fr)
                ([(''shiftId'', JStr (sh_id shift)), (''vacatedEmployeeId'', JStr (sh_employeeId shift)),
                  (''owningUnitId'', JStr unitId), (''state'', JStr (ai_state_name (ip_state plan))),
                  (''candidateCount'', JNum (real (length ranked))),
                  (''feasibleCount'', JNum (real (length (filter rc_feasible ranked))))] @
                 (case ip_activeSeedId plan of None \<Rightarrow> [] | Some i \<Rightarrow> [(''activeCandidateId'', JStr i)]) @
                 (case ip_escalationReason plan of None \<Rightarrow> [] | Some r \<Rightarrow> [(''reason'', JStr r)]))) (\<lambda>_.
         ret proposal))))"

definition shift_scope :: "actor \<Rightarrow> id \<Rightarrow> unit tx" where
  "shift_scope act unitId =
     (if isGlobal (act_roles act) then ret ()
      else bnd (asks (\<lambda>db. managedUnitIds db (act_userId act))) (\<lambda>managed.
           ensure (unitId \<in> set managed) (ForbiddenException ''Shift is outside your scope'')))"

definition createReplacement ::
  "validator \<Rightarrow> fresh \<Rightarrow> actor \<Rightarrow> id \<Rightarrow> string option \<Rightarrow> proposal_view tx" where
  "createReplacement validate fr act shiftId reason =
     bnd (asks (\<lambda>db. find_row sh_id shiftId (t_shifts db))) (\<lambda>found.
     bnd (require (NotFoundException ''Shift not found'') found) (\<lambda>shift.
     bnd (asks (\<lambda>db. findEmployee db (sh_employeeId shift))) (\<lambda>holder.
     bnd (require (P2025 ''Employee'') (map_option em_unitId holder)) (\<lambda>unitId.
     bnd (shift_scope act unitId) (\<lambda>_.
     bnd (rankCandidatesForShift validate
            \<lparr>rk_shift = shift, rk_unitId = Some unitId, rk_lokalizacja = None\<rparr> DEFAULT_TRAVEL_POLICY) (\<lambda>ranked.
     bnd (getConfig act (Some unitId)) (\<lambda>config.
     bnd (lift_sum (plan_initial fr config ranked)) (\<lambda>plan.
     bnd (asks (\<lambda>db. case ip_costCandidate plan of
            None \<Rightarrow> None
          | Some c \<Rightarrow> map_option (\<lambda>d. d + rc_travelCost c)
              (computeEstimatedCost db shift (rc_employeeId c) (sh_employeeId shift)))) (\<lambda>estimatedCost.
     create_commit fr act shift unitId reason ranked plan estimatedCost)))))))))"

section \<open>Asking for consent\<close>

definition pickNextFeasibleCandidate :: "ai_candidate_row list \<Rightarrow> ai_candidate_row option" where
  "pickNextFeasibleCandidate cands =
     (case sort_key ca_rank (filter (\<lambda>c. ca_feasible c \<and> ca_consentState c = NOT_ASKED) cands) of
        [] \<Rightarrow> None | c # _ \<Rightarrow> Some c)"

text \<open>The optimistic lock: flip the proposal while it is in the given state, else a conflict.\<close>

definition flipProposal ::
  "id \<Rightarrow> ai_state \<Rightarrow> (ai_proposal_row \<Rightarrow> ai_proposal_row) \<Rightarrow> string \<Rightarrow> unit tx" where
  "flipProposal i st f msg =
     bnd (updateMany t_proposals put_proposals (\<lambda>r. ap_id r = i \<and> ap_state r = st) f) (\<lambda>count.
     ensure (count \<noteq> 0) (ConflictException msg))"

definition updateCandidate :: "id \<Rightarrow> (ai_candidate_row \<Rightarrow> ai_candidate_row) \<Rightarrow> ai_candidate_row tx" where
  "updateCandidate i f = update_row t_candidates put_candidates ca_id (P2025 ''AiProposalCandidate'') i f"

definition ask_candidate :: "int \<Rightarrow> ai_candidate_row \<Rightarrow> ai_candidate_row" where
  "ask_candidate now c = c\<lparr>ca_consentState := CS_PENDING, ca_consentRequestedAt := Some now\<rparr>"

definition escalate_draft :: "actor \<Rightarrow> ai_proposal_row \<Rightarrow> proposal_view tx" where
  "escalate_draft act proposal =
     bnd (lift_sum (nextProposalState AI_DRAFT DirectEscalate)) (\<lambda>escalated.
     bnd (flipProposal (ap_id proposal) AI_DRAFT (\<lambda>r. r\<lparr>ap_state := escalated\<rparr>) ''Proposal changed concurrently'') (\<lambda>_.
     bnd (ap_audit act ''ai_proposal.escalated'' (ap_id proposal)
            [(''shiftId'', JStr (ap_shiftId proposal)), (''owningUnitId'', json_opt (ap_owningUnitId proposal)),
             (''reason'', JStr ''NO_FEASIBLE_CANDIDATE'')]) (\<lambda>_.
     reloadProposal (ap_id proposal))))"

definition request_commit ::
  "actor \<Rightarrow> int \<Rightarrow> ai_proposal_row \<Rightarrow> ai_candidate_row \<Rightarrow> ai_state \<Rightarrow> int \<Rightarrow> proposal_view tx" where
  "request_commit act now proposal next pending expiresAt =
     bnd (transaction (
       bnd (updateCandidate (ca_id next) (ask_candidate now)) (\<lambda>_.
       flipProposal (ap_id proposal) AI_DRAFT
         (\<lambda>r. r\<lparr>ap_state := pending, ap_activeCandidateId := Some (ca_id next), ap_expiresAt := Some expiresAt\<rparr>)
         ''Proposal changed concurrently''))) (\<lambda>_.
     bnd (ap_audit act ''ai_proposal.consent_requested'' (ap_id proposal)
            [(''shiftId'', JStr (ap_shiftId proposal)), (''activeCandidateId'', JStr (ca_id next)),
             (''employeeId'', JStr (ca_employeeId next)), (''state'', JStr (ai_state_name pending))]) (\<lambda>_.
     reloadProposal (ap_id proposal)))"

definition requestConsent :: "actor \<Rightarrow> int \<Rightarrow> id \<Rightarrow> proposal_view tx" where
  "requestConsent act now proposalId =
     bnd (loadProposal proposalId) (\<lambda>v.
     bnd (owning_scope act (ap_owningUnitId (pv_row v))) (\<lambda>_.
     bnd (ensure (ap_state (pv_row v) = AI_DRAFT) (ConflictException ''Proposal is not a draft'')) (\<lambda>_.
     case pickNextFeasibleCandidate (pv_candidates v) of
       None \<Rightarrow> escalate_draft act (pv_row v)
     | Some next \<Rightarrow>
         bnd (getConfig act (ap_owningUnitId (pv_row v))) (\<lambda>config.
         bnd (lift_sum (nextProposalState AI_DRAFT AskConsent)) (\<lambda>pending.
         request_commit act now (pv_row v) next pending
           (now + ac_consentTtlHours config * 60 * 60 * 1000))))))"

section \<open>Expiry, list and read\<close>

definition isStaleConsent :: "int \<Rightarrow> ai_proposal_row \<Rightarrow> bool" where
  "isStaleConsent clock p \<longleftrightarrow>
     ap_state p = AI_PENDING_EMPLOYEE_CONSENT \<and>
     (case ap_expiresAt p of None \<Rightarrow> False | Some t \<Rightarrow> t < clock)"

definition expire_commit :: "actor \<Rightarrow> ai_proposal_row \<Rightarrow> proposal_view tx" where
  "expire_commit act p =
     bnd (lift_sum (nextProposalState AI_PENDING_EMPLOYEE_CONSENT Expire)) (\<lambda>expired.
     bnd (updateMany t_proposals put_proposals (\<lambda>r. ap_id r = ap_id p \<and> ap_state r = AI_PENDING_EMPLOYEE_CONSENT)
            (\<lambda>r. r\<lparr>ap_state := expired, ap_activeCandidateId := None\<rparr>)) (\<lambda>count.
     bnd (if count > 0 then ap_audit act ''ai_proposal.expired'' (ap_id p)
              [(''shiftId'', JStr (ap_shiftId p)), (''reason'', JStr ''CONSENT_TTL_EXPIRED'')]
          else ret ()) (\<lambda>_.
     reloadProposal (ap_id p))))"

definition expireIfStale :: "int \<Rightarrow> actor \<Rightarrow> proposal_view \<Rightarrow> proposal_view tx" where
  "expireIfStale clock act v =
     (if \<not> isStaleConsent clock (pv_row v) then ret v else expire_commit act (pv_row v))"

text \<open>The active candidate among the loaded ones.\<close>

definition active_candidate :: "proposal_view \<Rightarrow> ai_candidate_row option" where
  "active_candidate v = find (\<lambda>c. Some (ca_id c) = ap_activeCandidateId (pv_row v)) (pv_candidates v)"

definition isMyActivePending :: "proposal_view \<Rightarrow> id \<Rightarrow> bool" where
  "isMyActivePending v employeeId \<longleftrightarrow>
     ap_state (pv_row v) = AI_PENDING_EMPLOYEE_CONSENT \<and>
     (case active_candidate v of
        None \<Rightarrow> False
      | Some active \<Rightarrow> ca_employeeId active = employeeId \<and> ca_consentState active = CS_PENDING)"

definition myEmployeeId :: "actor \<Rightarrow> id option tx" where
  "myEmployeeId act = asks (\<lambda>db. map_option em_id (callerEmployee db (act_userId act)))"

definition list_managed ::
  "int \<Rightarrow> actor \<Rightarrow> bool \<Rightarrow> id list \<Rightarrow> ai_state option \<Rightarrow> proposal_view list tx" where
  "list_managed clock act global managed state =
     bnd (asks (\<lambda>db. map (view_of db)
            (filter (\<lambda>p. (global \<or> ap_owningUnitId p \<in> Some ` set managed) \<and>
               (case state of None \<Rightarrow> True | Some s \<Rightarrow> ap_state p = s)) (t_proposals db)))) (\<lambda>rows.
     mapM (expireIfStale clock act) rows)"

definition list_mine :: "int \<Rightarrow> actor \<Rightarrow> id \<Rightarrow> proposal_view list tx" where
  "list_mine clock act me =
     bnd (asks (\<lambda>db. map (view_of db)
            (filter (\<lambda>p. ap_state p = AI_PENDING_EMPLOYEE_CONSENT \<and>
               list_ex (\<lambda>c. ca_employeeId c = me \<and> ca_consentState c = CS_PENDING) (candidates_of db (ap_id p)))
             (t_proposals db)))) (\<lambda>rows.
     bnd (mapM (expireIfStale clock act) rows) (\<lambda>current.
     ret (filter (\<lambda>p. isMyActivePending p me) current)))"

definition ap_list :: "int \<Rightarrow> actor \<Rightarrow> bool \<Rightarrow> ai_state option \<Rightarrow> proposal_view list tx" where
  "ap_list clock act mine state =
     bnd (asks (\<lambda>db. if isGlobal (act_roles act) then [] else managedUnitIds db (act_userId act))) (\<lambda>managed.
     if isGlobal (act_roles act) \<or> managed \<noteq> []
     then list_managed clock act (isGlobal (act_roles act)) managed state
     else if \<not> mine then ret []
     else bnd (myEmployeeId act) (\<lambda>me. case me of None \<Rightarrow> ret [] | Some i \<Rightarrow> list_mine clock act i))"

definition ap_getById :: "int \<Rightarrow> actor \<Rightarrow> id \<Rightarrow> proposal_view tx" where
  "ap_getById clock act i =
     bnd (loadProposal i) (\<lambda>found.
     bnd (expireIfStale clock act found) (\<lambda>proposal.
     if isGlobal (act_roles act) then ret proposal
     else bnd (asks (\<lambda>db. managedUnitIds db (act_userId act))) (\<lambda>managed.
       if ap_owningUnitId (pv_row proposal) \<in> Some ` set managed then ret proposal
       else bnd (myEmployeeId act) (\<lambda>me.
         case me of
           None \<Rightarrow> throw (ForbiddenException ''Proposal is outside your scope'')
         | Some e \<Rightarrow>
             if isMyActivePending proposal e then ret proposal
             else throw (ForbiddenException ''Proposal is outside your scope'')))))"

section \<open>The employee's answer\<close>

definition accept_commit ::
  "actor \<Rightarrow> int \<Rightarrow> ai_proposal_row \<Rightarrow> ai_candidate_row \<Rightarrow> ai_state \<Rightarrow> proposal_view tx" where
  "accept_commit act now proposal active pendingManager =
     bnd (transaction (
       bnd (updateCandidate (ca_id active) (\<lambda>c. c\<lparr>ca_consentState := GRANTED, ca_consentAt := Some now\<rparr>)) (\<lambda>_.
       flipProposal (ap_id proposal) AI_PENDING_EMPLOYEE_CONSENT (\<lambda>r. r\<lparr>ap_state := pendingManager\<rparr>)
         ''Proposal changed concurrently''))) (\<lambda>_.
     bnd (ap_audit act ''ai_proposal.consented'' (ap_id proposal)
            [(''shiftId'', JStr (ap_shiftId proposal)), (''candidateId'', JStr (ca_id active)),
             (''employeeId'', JStr (ca_employeeId active)), (''state'', JStr (ai_state_name pendingManager))]) (\<lambda>_.
     reloadProposal (ap_id proposal)))"

definition decline_candidate :: "ai_candidate_row \<Rightarrow> ai_candidate_row" where
  "decline_candidate c = c\<lparr>ca_consentState := DECLINED\<rparr>"

definition decline_next_commit ::
  "int \<Rightarrow> ai_proposal_row \<Rightarrow> ai_candidate_row \<Rightarrow> ai_candidate_row \<Rightarrow> ai_state \<Rightarrow> proposal_view tx" where
  "decline_next_commit now proposal active next stay =
     bnd (transaction (
       bnd (updateCandidate (ca_id active) decline_candidate) (\<lambda>_.
       bnd (updateCandidate (ca_id next) (ask_candidate now)) (\<lambda>_.
       flipProposal (ap_id proposal) AI_PENDING_EMPLOYEE_CONSENT
         (\<lambda>r. r\<lparr>ap_state := stay, ap_activeCandidateId := Some (ca_id next)\<rparr>)
         ''Proposal changed concurrently'')))) (\<lambda>_.
     reloadProposal (ap_id proposal))"

definition decline_last_commit ::
  "actor \<Rightarrow> ai_proposal_row \<Rightarrow> ai_candidate_row \<Rightarrow> ai_state \<Rightarrow> proposal_view tx" where
  "decline_last_commit act proposal active escalated =
     bnd (transaction (
       bnd (updateCandidate (ca_id active) decline_candidate) (\<lambda>_.
       flipProposal (ap_id proposal) AI_PENDING_EMPLOYEE_CONSENT
         (\<lambda>r. r\<lparr>ap_state := escalated, ap_activeCandidateId := None\<rparr>) ''Proposal changed concurrently''))) (\<lambda>_.
     bnd (ap_audit act ''ai_proposal.escalated'' (ap_id proposal)
            [(''shiftId'', JStr (ap_shiftId proposal)), (''reason'', JStr ''ALL_CANDIDATES_DECLINED'')]) (\<lambda>_.
     reloadProposal (ap_id proposal)))"

text \<open>The checks of an answer; the result is the candidate who answers.\<close>

definition consent_checks :: "actor \<Rightarrow> proposal_view \<Rightarrow> ai_candidate_row tx" where
  "consent_checks act v =
     bnd (ensure (ap_state (pv_row v) = AI_PENDING_EMPLOYEE_CONSENT)
            (ConflictException ''Proposal is not awaiting employee consent'')) (\<lambda>_.
     bnd (myEmployeeId act) (\<lambda>meId.
     bnd (require (ForbiddenException ''You are not the candidate being asked for consent'')
            (case active_candidate v of
               None \<Rightarrow> None
             | Some a \<Rightarrow> if meId = Some (ca_employeeId a) then Some a else None)) (\<lambda>active.
     bnd (ensure (ca_consentState active = CS_PENDING)
            (ConflictException ''Consent for this candidate is no longer pending'')) (\<lambda>_.
     ret active))))"

definition consent_answer ::
  "actor \<Rightarrow> int \<Rightarrow> proposal_view \<Rightarrow> ai_candidate_row \<Rightarrow> bool \<Rightarrow> proposal_view tx" where
  "consent_answer act now v active accept =
     (if accept then
        bnd (lift_sum (nextProposalState (ap_state (pv_row v)) EmployeeAccept)) (\<lambda>agreed.
        bnd (lift_sum (nextProposalState agreed AiSubmitToManager)) (\<lambda>pendingManager.
        accept_commit act now (pv_row v) active pendingManager))
      else case pickNextFeasibleCandidate (pv_candidates v) of
        Some next \<Rightarrow>
          bnd (lift_sum (nextProposalState (ap_state (pv_row v)) EmployeeDeclineNext)) (\<lambda>stay.
          decline_next_commit now (pv_row v) active next stay)
      | None \<Rightarrow>
          bnd (lift_sum (nextProposalState (ap_state (pv_row v)) EmployeeDeclineLast)) (\<lambda>escalated.
          decline_last_commit act (pv_row v) active escalated))"

definition employeeConsent :: "int \<Rightarrow> int \<Rightarrow> actor \<Rightarrow> id \<Rightarrow> bool \<Rightarrow> proposal_view tx" where
  "employeeConsent clock now act proposalId accept =
     bnd (loadProposal proposalId) (\<lambda>v.
     if isStaleConsent clock (pv_row v) then
       bnd (expireIfStale clock act v) (\<lambda>_. throw (ConflictException ''consent request expired''))
     else bnd (consent_checks act v) (\<lambda>active. consent_answer act now v active accept))"

section \<open>The manager's decision\<close>

definition reject_commit :: "actor \<Rightarrow> ai_proposal_row \<Rightarrow> ai_state \<Rightarrow> proposal_view tx" where
  "reject_commit act proposal rejected =
     bnd (update_row t_proposals put_proposals ap_id (P2025 ''AiProposal'') (ap_id proposal)
            (\<lambda>r. r\<lparr>ap_state := rejected, ap_decidedByManagerId := Some (act_userId act)\<rparr>)) (\<lambda>row.
     bnd (asks (\<lambda>db. view_of db row)) (\<lambda>updated.
     bnd (ap_audit act ''ai_proposal.rejected'' (ap_id proposal) [(''shiftId'', JStr (ap_shiftId proposal))]) (\<lambda>_.
     ret updated)))"

definition ap_approve_commit :: "actor \<Rightarrow> ai_proposal_row \<Rightarrow> id \<Rightarrow> proposal_view tx" where
  "ap_approve_commit act proposal chosen =
     bnd (transaction (
       bnd (updateMany t_shifts put_shifts
              (\<lambda>s. sh_id s = ap_shiftId proposal \<and> sh_employeeId s = ap_vacatedEmployeeId proposal)
              (\<lambda>s. s\<lparr>sh_employeeId := chosen\<rparr>)) (\<lambda>reassigned.
       bnd (ensure (reassigned \<noteq> 0) (ConflictException ''shift changed concurrently'')) (\<lambda>_.
       bnd (lift_sum (nextProposalState AI_PENDING_MANAGER AiManagerApprove)) (\<lambda>approved.
       bnd (flipProposal (ap_id proposal) AI_PENDING_MANAGER
              (\<lambda>r. r\<lparr>ap_state := approved, ap_decidedByManagerId := Some (act_userId act)\<rparr>)
              ''proposal changed concurrently'') (\<lambda>_.
       ap_audit act ''ai_proposal.approved'' (ap_id proposal)
         [(''shiftId'', JStr (ap_shiftId proposal)), (''from'', JStr (ap_vacatedEmployeeId proposal)),
          (''to'', JStr chosen)])))))) (\<lambda>_.
     reloadProposal (ap_id proposal))"

definition ap_managerDecision :: "validator \<Rightarrow> actor \<Rightarrow> id \<Rightarrow> bool \<Rightarrow> proposal_view tx" where
  "ap_managerDecision validate act proposalId approve =
     bnd (loadProposal proposalId) (\<lambda>v.
     bnd (owning_scope act (ap_owningUnitId (pv_row v))) (\<lambda>_.
     bnd (ensure (ap_state (pv_row v) = AI_PENDING_MANAGER)
            (ConflictException ''Proposal is not awaiting a manager decision'')) (\<lambda>_.
     if \<not> approve then
       bnd (lift_sum (nextProposalState (ap_state (pv_row v)) AiManagerReject)) (\<lambda>rejected.
       reject_commit act (pv_row v) rejected)
     else
       bnd (require (ConflictException ''No consenting candidate to commit'')
              (case active_candidate v of
                 None \<Rightarrow> None
               | Some a \<Rightarrow> if ca_consentState a = GRANTED then Some (ca_employeeId a) else None)) (\<lambda>chosen.
       bnd (validate (give_away_query (ap_shiftId (pv_row v)) (ap_vacatedEmployeeId (pv_row v)) chosen)) (\<lambda>feas.
       bnd (ensure (fd_feasible feas) (ConflictException (coalesce (fd_reason feas) ''no longer feasible''))) (\<lambda>_.
       ap_approve_commit act (pv_row v) chosen))))))"

section \<open>The HTTP controller\<close>

definition CONFIG_ROLES :: "role list" where
  "CONFIG_ROLES = [MANAGER, HR, ADMIN_KLIENTA]"

definition EVERY_ROLE :: "role list" where
  "EVERY_ROLE = [PRACOWNIK, MANAGER, HR, ADMIN_KLIENTA]"

datatype ai_request =
  ArGetConfig "id option"
| ArUpdateConfig id ai_config_dto
| ArScan int int
| ArCreateProposal fresh id "string option"
| ArListProposals bool "ai_state option"
| ArGetProposal id
| ArRequestConsent id
| ArConsent id bool
| ArManagerDecision id bool

datatype ai_response =
  RsConfig ai_config_row | RsShifts "shift_row list" | RsProposal proposal_view | RsProposals "proposal_view list"

fun ai_handle :: "validator \<Rightarrow> int \<Rightarrow> actor \<Rightarrow> ai_request \<Rightarrow> ai_response tx" where
  "ai_handle validate now act (ArGetConfig unitId) =
     guarded CONFIG_ROLES act (bnd (getConfig act unitId) (\<lambda>r. ret (RsConfig r)))"
| "ai_handle validate now act (ArUpdateConfig newId dto) =
     guarded CONFIG_ROLES act (bnd (upsertConfig newId act dto) (\<lambda>r. ret (RsConfig r)))"
| "ai_handle validate now act (ArScan from to) =
     guarded CONFIG_ROLES act (bnd (findVacatedShifts act from to) (\<lambda>r. ret (RsShifts r)))"
| "ai_handle validate now act (ArCreateProposal fr shiftId reason) =
     guarded CONFIG_ROLES act (bnd (createReplacement validate fr act shiftId reason) (\<lambda>r. ret (RsProposal r)))"
| "ai_handle validate now act (ArListProposals mine state) =
     guarded EVERY_ROLE act (bnd (ap_list now act mine state) (\<lambda>r. ret (RsProposals r)))"
| "ai_handle validate now act (ArGetProposal i) =
     guarded EVERY_ROLE act (bnd (ap_getById now act i) (\<lambda>r. ret (RsProposal r)))"
| "ai_handle validate now act (ArRequestConsent i) =
     guarded CONFIG_ROLES act (bnd (requestConsent act now i) (\<lambda>r. ret (RsProposal r)))"
| "ai_handle validate now act (ArConsent i accept) =
     guarded EVERY_ROLE act (bnd (employeeConsent now now act i accept) (\<lambda>r. ret (RsProposal r)))"
| "ai_handle validate now act (ArManagerDecision i approve) =
     guarded CONFIG_ROLES act (bnd (ap_managerDecision validate act i approve) (\<lambda>r. ret (RsProposal r)))"

end
