(* ===== verification/AiProposalInv.thy ===== *)
theory AiProposalInv
  imports AiProposal ReplacementProps "HOL-Library.Multiset"
begin

text \<open>
  The consistency of a proposal with its candidates: in every state, who is the active candidate and
  what may have been asked and answered. Every endpoint keeps it.
\<close>

section \<open>The invariant\<close>

text \<open>
  Exactly one candidate is being asked, or has agreed: the active one, who is feasible.
\<close>

definition one_candidate :: "consent_state \<Rightarrow> ai_proposal_row \<Rightarrow> ai_candidate_row list \<Rightarrow> bool" where
  "one_candidate st p cs \<longleftrightarrow>
     (\<exists>c \<in> set cs. ap_activeCandidateId p = Some (ca_id c) \<and> ca_consentState c = st) \<and>
     (\<forall>c \<in> set cs. ca_consentState c \<in> {CS_PENDING, GRANTED} \<longrightarrow> ap_activeCandidateId p = Some (ca_id c))"

definition state_ok :: "ai_proposal_row \<Rightarrow> ai_candidate_row list \<Rightarrow> bool" where
  "state_ok p cs =
     (case ap_state p of
        AI_DRAFT \<Rightarrow> ap_activeCandidateId p = None \<and> list_all (\<lambda>c. ca_consentState c = NOT_ASKED) cs
      | AI_PENDING_EMPLOYEE_CONSENT \<Rightarrow> one_candidate CS_PENDING p cs \<and> ap_expiresAt p \<noteq> None
      | AI_PENDING_MANAGER \<Rightarrow> one_candidate GRANTED p cs
      | AI_APPROVED \<Rightarrow> one_candidate GRANTED p cs \<and> ap_decidedByManagerId p \<noteq> None
      | AI_REJECTED \<Rightarrow> one_candidate GRANTED p cs \<and> ap_decidedByManagerId p \<noteq> None
      | AI_ESCALATED \<Rightarrow> ap_activeCandidateId p = None \<and> list_all (\<lambda>c. ca_consentState c \<noteq> GRANTED) cs
      | _ \<Rightarrow> False)"

definition proposal_ok :: "ai_proposal_row \<Rightarrow> ai_candidate_row list \<Rightarrow> bool" where
  "proposal_ok p cs \<longleftrightarrow> state_ok p cs \<and> list_all (\<lambda>c. ca_consentState c \<noteq> NOT_ASKED \<longrightarrow> ca_feasible c) cs"

definition tables_ok :: "ai_proposal_row list \<Rightarrow> ai_candidate_row list \<Rightarrow> bool" where
  "tables_ok ps cs \<longleftrightarrow>
     distinct (map ap_id ps) \<and> distinct (map ca_id cs) \<and>
     list_all (\<lambda>c. ca_proposalId c \<in> set (map ap_id ps)) cs \<and>
     list_all (\<lambda>p. proposal_ok p (filter (\<lambda>c. ca_proposalId c = ap_id p) cs)) ps"

definition proposals_ok :: "tenant_db \<Rightarrow> bool" where
  "proposals_ok db \<longleftrightarrow> tables_ok (t_proposals db) (t_candidates db)"

lemma tables_okD:
  assumes "tables_ok ps cs"
  shows "distinct (map ap_id ps)" "distinct (map ca_id cs)"
    "p \<in> set ps \<Longrightarrow> proposal_ok p (filter (\<lambda>c. ca_proposalId c = ap_id p) cs)"
  using assms by (auto simp: tables_ok_def list_all_iff)

lemma same_id: "distinct (map key rs) \<Longrightarrow> r \<in> set rs \<Longrightarrow> s \<in> set rs \<Longrightarrow> key r = key s \<Longrightarrow> r = s"
  by (auto simp: distinct_map dest: inj_onD)

lemma filter_map_same:
  "(\<And>c. c \<in> set cs \<Longrightarrow> P (F c) = P c) \<Longrightarrow> filter P (map F cs) = map F (filter P cs)"
  by (induction cs) auto

text \<open>A change of one proposal and of its candidates keeps the others as they are.\<close>

lemma tables_ok_change:
  assumes ok: "tables_ok ps cs" and p: "p \<in> set ps" and g: "ap_id (g p) = ap_id p"
    and F: "\<And>c. ca_id (F c) = ca_id c" "\<And>c. ca_proposalId (F c) = ca_proposalId c"
    and other: "\<And>c. c \<in> set cs \<Longrightarrow> ca_proposalId c \<noteq> ap_id p \<Longrightarrow> F c = c"
    and new: "proposal_ok (g p) (map F (filter (\<lambda>c. ca_proposalId c = ap_id p) cs))"
  shows "tables_ok (map (\<lambda>r. if ap_id r = ap_id p then g r else r) ps) (map F cs)"
proof -
  note d = tables_okD [OF ok]
  have ids: "map ap_id (map (\<lambda>r. if ap_id r = ap_id p then g r else r) ps) = map ap_id ps"
    using same_id [OF d(1) _ p] g by (auto simp: o_def)
  have cids: "map ca_id (map F cs) = map ca_id cs" using F(1) by (simp add: o_def)
  have fk: "list_all (\<lambda>c. ca_proposalId c \<in> set (map ap_id ps)) (map F cs)"
    using ok F(2) by (simp add: tables_ok_def list_all_iff)
  have mine: "filter (\<lambda>c. ca_proposalId c = i) (map F cs) = map F (filter (\<lambda>c. ca_proposalId c = i) cs)" for i
    using F(2) by (intro filter_map_same) simp
  have rest: "map F (filter (\<lambda>c. ca_proposalId c = i) cs) = filter (\<lambda>c. ca_proposalId c = i) cs" if "i \<noteq> ap_id p" for i
    using other that by (intro map_idI) auto
  have "proposal_ok r' (filter (\<lambda>c. ca_proposalId c = ap_id r') (map F cs))"
    if "r \<in> set ps" "r' = (if ap_id r = ap_id p then g r else r)" for r r'
  proof (cases "ap_id r = ap_id p")
    case True
    with same_id [OF d(1) that(1) p] have "r = p" by simp
    with that(2) g new mine show ?thesis by simp
  next
    case False
    with that(2) have r': "r' = r" by simp
    have "filter (\<lambda>c. ca_proposalId c = ap_id r) (map F cs) = filter (\<lambda>c. ca_proposalId c = ap_id r) cs"
      using mine [of "ap_id r"] rest [OF False] by simp
    with d(3) [OF that(1)] show ?thesis by (simp only: r')
  qed
  then have "list_all (\<lambda>r'. proposal_ok r' (filter (\<lambda>c. ca_proposalId c = ap_id r') (map F cs)))
      (map (\<lambda>r. if ap_id r = ap_id p then g r else r) ps)"
    unfolding list_all_iff set_map by (intro ballI) (erule imageE)
  with d(1,2) fk show ?thesis unfolding tables_ok_def ids cids by blast
qed

text \<open>The guarded flip of a row that is in the expected state is a change of that row.\<close>

lemma guarded_update:
  assumes "distinct (map ap_id ps)" and "p \<in> set ps" and "ap_state p = st"
  shows "update_rows (\<lambda>r. ap_id r = ap_id p \<and> ap_state r = st) f ps =
    map (\<lambda>r. if ap_id r = ap_id p then f r else r) ps"
  using same_id [OF assms(1) _ assms(2)] assms(3) by (auto simp: update_rows_def)

lemma update_id_map: "update_rows (\<lambda>r. key r = i) f rs = map (\<lambda>r. if key r = i then f r else r) rs"
  by (simp add: update_rows_def)

section \<open>The write halves\<close>

text \<open>What a method has read when it starts to write: a row and one of its candidates.\<close>

definition loaded :: "tenant_db \<Rightarrow> ai_proposal_row \<Rightarrow> bool" where
  "loaded db p \<longleftrightarrow> p \<in> set (t_proposals db)"

definition loaded_candidate :: "tenant_db \<Rightarrow> ai_proposal_row \<Rightarrow> ai_candidate_row \<Rightarrow> bool" where
  "loaded_candidate db p c \<longleftrightarrow> c \<in> set (t_candidates db) \<and> ca_proposalId c = ap_id p"

lemma wp_reload [svc_wp]:
  "wp (reloadProposal i) Q E db \<longleftrightarrow>
     (case findProposal db i of None \<Rightarrow> E (P2025 ''AiProposal'') db | Some p \<Rightarrow> Q (view_of db p) db)"
  by (simp add: reloadProposal_def svc_wp split: option.splits)

lemma wp_load [svc_wp]:
  "wp (loadProposal i) Q E db \<longleftrightarrow>
     (case findProposal db i of
        None \<Rightarrow> E (NotFoundException ''Proposal not found'') db | Some p \<Rightarrow> Q (view_of db p) db)"
  by (simp add: loadProposal_def svc_wp split: option.splits)

lemma wp_ap_audit [svc_wp]:
  "wp (ap_audit act a i pl) Q E db \<longleftrightarrow>
     Q () (db\<lparr>t_audit := t_audit db @ [\<lparr>au_actorUserId = act_userId act, au_action = a,
       au_entityType = ''AiProposal'', au_entityId = i, au_payload = JObj pl, au_ipAddress = act_ipAddress act\<rparr>]\<rparr>)"
  by (simp add: ap_audit_def audit_log_def svc_wp)

lemma wp_flip [svc_wp]:
  "wp (flipProposal i st f msg) Q E db \<longleftrightarrow>
     (let n = count_rows (\<lambda>r. ap_id r = i \<and> ap_state r = st) (t_proposals db);
          db' = put_proposals (update_rows (\<lambda>r. ap_id r = i \<and> ap_state r = st) f (t_proposals db)) db
      in if n = 0 then E (ConflictException msg) db' else Q () db')"
  by (simp add: flipProposal_def svc_wp Let_def)

lemma proposals_ok_audit [simp]: "proposals_ok (db\<lparr>t_audit := a\<rparr>) = proposals_ok db"
  by (simp add: proposals_ok_def)

lemma wp_loaded_count:
  assumes "loaded db p" and "ap_state p = st"
  shows "count_rows (\<lambda>r. ap_id r = ap_id p \<and> ap_state r = st) (t_proposals db) \<noteq> 0"
  using assms by (auto simp: loaded_def count_rows_0_iff)

lemma loaded_found:
  assumes "proposals_ok db" and "loaded_candidate db p c"
  shows "find_row ca_id (ca_id c) (t_candidates db) = Some c"
  using assms by (auto simp: proposals_ok_def loaded_candidate_def intro!: find_row_in dest: tables_okD)

lemma own_candidate:
  assumes "tables_ok ps cs" and "c \<in> set cs" and "c' \<in> set cs" and "ca_id c' = ca_id c"
  shows "c' = c"
  using same_id [OF tables_okD(2) [OF assms(1)]] assms by blast

text \<open>
  One candidate update and a flip, on a loaded proposal: the invariant reduces to the new row with its
  new candidates.
\<close>

lemma flip_candidate_ok:
  assumes ok: "proposals_ok db" and p: "loaded db p" and st: "ap_state p = st"
    and c: "loaded_candidate db p c"
    and f: "\<And>r. ap_id (f r) = ap_id r" and g: "\<And>r. ca_id (g r) = ca_id r" "\<And>r. ca_proposalId (g r) = ca_proposalId r"
    and new: "proposal_ok (f p) (map (\<lambda>r. if ca_id r = ca_id c then g r else r) (candidates_of db (ap_id p)))"
  shows "tables_ok (update_rows (\<lambda>r. ap_id r = ap_id p \<and> ap_state r = st) f (t_proposals db))
    (update_rows (\<lambda>r. ca_id r = ca_id c) g (t_candidates db))"
proof -
  have t: "tables_ok (t_proposals db) (t_candidates db)" using ok by (simp add: proposals_ok_def)
  have p': "p \<in> set (t_proposals db)" using p by (simp add: loaded_def)
  show ?thesis
    unfolding guarded_update [OF tables_okD(1) [OF t] p' st] update_id_map
  proof (rule tables_ok_change [OF t p'])
    show "x \<in> set (t_candidates db) \<Longrightarrow> ca_proposalId x \<noteq> ap_id p \<Longrightarrow>
        (if ca_id x = ca_id c then g x else x) = x" for x
      using own_candidate [OF t, of c x] c by (auto simp: loaded_candidate_def)
  qed (use f g new in \<open>auto simp: candidates_of_def\<close>)
qed

lemma flip_ok:
  assumes ok: "proposals_ok db" and p: "loaded db p" and st: "ap_state p = st"
    and f: "\<And>r. ap_id (f r) = ap_id r"
    and new: "proposal_ok (f p) (candidates_of db (ap_id p))"
  shows "tables_ok (update_rows (\<lambda>r. ap_id r = ap_id p \<and> ap_state r = st) f (t_proposals db)) (t_candidates db)"
proof -
  have t: "tables_ok (t_proposals db) (t_candidates db)" using ok by (simp add: proposals_ok_def)
  have p': "p \<in> set (t_proposals db)" using p by (simp add: loaded_def)
  have "tables_ok (map (\<lambda>r. if ap_id r = ap_id p then f r else r) (t_proposals db)) (map (\<lambda>c. c) (t_candidates db))"
    by (rule tables_ok_change [OF t p', where F = "\<lambda>c. c"]) (use f new in \<open>auto simp: candidates_of_def\<close>)
  then show ?thesis
    unfolding guarded_update [OF tables_okD(1) [OF t] p' st] by simp
qed

text \<open>
  What is left to check of a change of the candidates: the changed one is the active one, and the
  others are neither asked nor in agreement.
\<close>

lemma one_candidateI:
  assumes "c \<in> set cs" and "ap_activeCandidateId p = Some (ca_id c)"
    and "\<And>r. ca_id (F r) = ca_id r" and "ca_consentState (F c) = st"
    and "\<And>r. r \<in> set cs \<Longrightarrow> ca_id r \<noteq> ca_id c \<Longrightarrow> ca_consentState (F r) \<notin> {CS_PENDING, GRANTED}"
  shows "one_candidate st p (map F cs)"
  unfolding one_candidate_def
proof (intro conjI ballI impI)
  show "\<exists>r \<in> set (map F cs). ap_activeCandidateId p = Some (ca_id r) \<and> ca_consentState r = st"
    using assms(1-4) by (auto intro!: bexI [of _ c])
next
  fix r
  assume r: "r \<in> set (map F cs)" "ca_consentState r \<in> {CS_PENDING, GRANTED}"
  then obtain s where s: "s \<in> set cs" "r = F s" by auto
  with r(2) assms(5) have "ca_id s = ca_id c" by blast
  then show "ap_activeCandidateId p = Some (ca_id r)" using assms(2,3) s by simp
qed

lemma asked_others:
  assumes "one_candidate st p cs" and "ap_activeCandidateId p = Some (ca_id c)"
    and "r \<in> set cs" and "ca_id r \<noteq> ca_id c"
  shows "ca_consentState r \<notin> {CS_PENDING, GRANTED}"
  using assms by (auto simp: one_candidate_def)

lemma feasible_map:
  assumes "list_all (\<lambda>r. ca_consentState r \<noteq> NOT_ASKED \<longrightarrow> ca_feasible r) cs"
    and "\<And>r. ca_feasible (F r) = ca_feasible r"
    and "\<And>r. r \<in> set cs \<Longrightarrow> ca_consentState (F r) \<noteq> ca_consentState r \<Longrightarrow> ca_feasible r"
  shows "list_all (\<lambda>r. ca_consentState r \<noteq> NOT_ASKED \<longrightarrow> ca_feasible r) (map F cs)"
  using assms unfolding list_all_iff by (metis (no_types, lifting) imageE list.set_map)

lemma proposal_okD:
  assumes "proposal_ok p cs"
  shows "list_all (\<lambda>r. ca_consentState r \<noteq> NOT_ASKED \<longrightarrow> ca_feasible r) cs"
    "ap_state p = AI_DRAFT \<Longrightarrow> r \<in> set cs \<Longrightarrow> ca_consentState r = NOT_ASKED"
    "ap_state p = AI_PENDING_EMPLOYEE_CONSENT \<Longrightarrow> one_candidate CS_PENDING p cs"
    "ap_state p = AI_PENDING_EMPLOYEE_CONSENT \<Longrightarrow> ap_expiresAt p \<noteq> None"
    "ap_state p = AI_PENDING_MANAGER \<Longrightarrow> one_candidate GRANTED p cs"
    "r \<in> set cs \<Longrightarrow> ca_consentState r = CS_PENDING \<Longrightarrow> ca_feasible r"
  using assms by (auto simp: proposal_ok_def state_ok_def list_all_iff)

lemma ask_ok:
  assumes ok: "proposal_ok p cs" and st: "ap_state p = AI_DRAFT" and c: "c \<in> set cs" "ca_feasible c"
    and d: "distinct (map ca_id cs)"
  shows "proposal_ok (p\<lparr>ap_state := AI_PENDING_EMPLOYEE_CONSENT, ap_activeCandidateId := Some (ca_id c), ap_expiresAt := Some t\<rparr>)
    (map (\<lambda>r. if ca_id r = ca_id c then ask_candidate now r else r) cs)"
  unfolding proposal_ok_def
proof (rule conjI)
  show "list_all (\<lambda>r. ca_consentState r \<noteq> NOT_ASKED \<longrightarrow> ca_feasible r)
      (map (\<lambda>r. if ca_id r = ca_id c then ask_candidate now r else r) cs)"
    by (rule feasible_map [OF proposal_okD(1) [OF ok]])
      (use c same_id [OF d _ c(1)] in \<open>auto simp: ask_candidate_def split: if_splits\<close>)
qed (simp add: state_ok_def, rule one_candidateI [OF c(1)],
    auto simp: ask_candidate_def proposal_okD(2) [OF ok st])

lemma accept_ok:
  assumes ok: "proposal_ok p cs" and st: "ap_state p = AI_PENDING_EMPLOYEE_CONSENT" and c: "c \<in> set cs"
    and act: "ap_activeCandidateId p = Some (ca_id c)" "ca_consentState c = CS_PENDING" and d: "distinct (map ca_id cs)"
  shows "proposal_ok (p\<lparr>ap_state := AI_PENDING_MANAGER\<rparr>)
    (map (\<lambda>r. if ca_id r = ca_id c then r\<lparr>ca_consentState := GRANTED, ca_consentAt := Some now\<rparr> else r) cs)"
  unfolding proposal_ok_def
proof (rule conjI)
  show "list_all (\<lambda>r. ca_consentState r \<noteq> NOT_ASKED \<longrightarrow> ca_feasible r)
      (map (\<lambda>r. if ca_id r = ca_id c then r\<lparr>ca_consentState := GRANTED, ca_consentAt := Some now\<rparr> else r) cs)"
    by (rule feasible_map [OF proposal_okD(1) [OF ok]])
      (use proposal_okD(6) [OF ok c act(2)] same_id [OF d _ c] in \<open>auto split: if_splits\<close>)
qed (simp add: state_ok_def, rule one_candidateI [OF c],
    use act asked_others [OF proposal_okD(3) [OF ok st] act(1)] in auto)

lemma decline_last_ok:
  assumes ok: "proposal_ok p cs" and st: "ap_state p = AI_PENDING_EMPLOYEE_CONSENT" and c: "c \<in> set cs"
    and act: "ap_activeCandidateId p = Some (ca_id c)" "ca_consentState c = CS_PENDING" and d: "distinct (map ca_id cs)"
  shows "proposal_ok (p\<lparr>ap_state := AI_ESCALATED, ap_activeCandidateId := None\<rparr>)
    (map (\<lambda>r. if ca_id r = ca_id c then decline_candidate r else r) cs)"
  unfolding proposal_ok_def
proof (rule conjI)
  show "list_all (\<lambda>r. ca_consentState r \<noteq> NOT_ASKED \<longrightarrow> ca_feasible r)
      (map (\<lambda>r. if ca_id r = ca_id c then decline_candidate r else r) cs)"
    by (rule feasible_map [OF proposal_okD(1) [OF ok]])
      (use proposal_okD(6) [OF ok c act(2)] same_id [OF d _ c] in \<open>auto simp: decline_candidate_def split: if_splits\<close>)
  show "state_ok (p\<lparr>ap_state := AI_ESCALATED, ap_activeCandidateId := None\<rparr>)
      (map (\<lambda>r. if ca_id r = ca_id c then decline_candidate r else r) cs)"
    using asked_others [OF proposal_okD(3) [OF ok st] act(1)]
    by (auto simp: state_ok_def list_all_iff decline_candidate_def)
qed

lemma decline_next_ok:
  assumes ok: "proposal_ok p cs" and st: "ap_state p = AI_PENDING_EMPLOYEE_CONSENT" and c: "c \<in> set cs"
    and act: "ap_activeCandidateId p = Some (ca_id c)" "ca_consentState c = CS_PENDING" and d: "distinct (map ca_id cs)"
    and n: "n \<in> set cs" "ca_consentState n = NOT_ASKED" "ca_feasible n"
  shows "proposal_ok (p\<lparr>ap_state := AI_PENDING_EMPLOYEE_CONSENT, ap_activeCandidateId := Some (ca_id n)\<rparr>)
    (map ((\<lambda>r. if ca_id r = ca_id n then ask_candidate now r else r) \<circ>
          (\<lambda>r. if ca_id r = ca_id c then decline_candidate r else r)) cs)" (is "proposal_ok _ (map ?F cs)")
  unfolding proposal_ok_def
proof (rule conjI)
  show "list_all (\<lambda>r. ca_consentState r \<noteq> NOT_ASKED \<longrightarrow> ca_feasible r) (map ?F cs)"
    by (rule feasible_map [OF proposal_okD(1) [OF ok]])
      (use proposal_okD(6) [OF ok c act(2)] n(3) same_id [OF d _ c] same_id [OF d _ n(1)] in
        \<open>auto simp: decline_candidate_def ask_candidate_def split: if_splits\<close>)
qed (simp add: state_ok_def proposal_okD(4) [OF ok st, simplified], rule one_candidateI [OF n(1)],
    use asked_others [OF proposal_okD(3) [OF ok st] act(1)] in \<open>auto simp: decline_candidate_def ask_candidate_def\<close>)

lemma expire_ok:
  assumes ok: "proposal_ok p cs" and st: "ap_state p = AI_PENDING_EMPLOYEE_CONSENT" and d: "distinct (map ca_id cs)"
  shows "proposal_ok (p\<lparr>ap_state := AI_ESCALATED, ap_activeCandidateId := None\<rparr>) cs"
proof -
  from proposal_okD(3) [OF ok st] obtain c where c: "c \<in> set cs" "ap_activeCandidateId p = Some (ca_id c)"
      "ca_consentState c = CS_PENDING"
    by (auto simp: one_candidate_def)
  have "ca_consentState r \<noteq> GRANTED" if "r \<in> set cs" for r
    using asked_others [OF proposal_okD(3) [OF ok st] c(2) that] same_id [OF d that c(1)] c(3)
    by (cases "ca_id r = ca_id c") auto
  with proposal_okD(1) [OF ok] show ?thesis by (simp add: proposal_ok_def state_ok_def list_all_iff)
qed

lemma escalate_ok:
  assumes "proposal_ok p cs" and "ap_state p = AI_DRAFT"
  shows "proposal_ok (p\<lparr>ap_state := AI_ESCALATED\<rparr>) cs"
  using assms by (auto simp: proposal_ok_def state_ok_def list_all_iff)

lemma decided_ok:
  assumes "proposal_ok p cs" and "ap_state p = AI_PENDING_MANAGER" and "st \<in> {AI_APPROVED, AI_REJECTED}"
  shows "proposal_ok (p\<lparr>ap_state := st, ap_decidedByManagerId := Some m\<rparr>) cs"
proof -
  have "one_candidate GRANTED (p\<lparr>ap_state := st, ap_decidedByManagerId := Some m\<rparr>) cs"
    using proposal_okD(5) [OF assms(1,2)] by (simp add: one_candidate_def)
  with assms(3) proposal_okD(1) [OF assms(1)] show ?thesis
    unfolding proposal_ok_def state_ok_def by (elim insertE) simp_all
qed

text \<open>Every method starts from a row it has loaded, with the candidates it has loaded.\<close>

lemma loaded_facts:
  assumes "proposals_ok db" and "loaded db p"
  shows "proposal_ok p (candidates_of db (ap_id p))" "distinct (map ca_id (candidates_of db (ap_id p)))"
    "c \<in> set (candidates_of db (ap_id p)) \<longleftrightarrow> loaded_candidate db p c"
  using assms
  by (auto simp: proposals_ok_def loaded_def candidates_of_def loaded_candidate_def distinct_map_filter
      dest: tables_okD)

lemma findProposal_loaded: "findProposal db i = Some p \<Longrightarrow> loaded db p \<and> ap_id p = i"
  by (auto simp: findProposal_def loaded_def dest: find_row_SomeD)

lemma request_commit_ok:
  assumes ok: "proposals_ok db" and p: "loaded db p" "ap_state p = AI_DRAFT" and c: "loaded_candidate db p c" "ca_feasible c"
  shows "wp (request_commit act now p c AI_PENDING_EMPLOYEE_CONSENT t) (\<lambda>_. proposals_ok) (\<lambda>_. proposals_ok) db"
proof -
  note l = loaded_facts [OF ok p(1)]
  have "tables_ok (update_rows (\<lambda>r. ap_id r = ap_id p \<and> ap_state r = AI_DRAFT)
      (\<lambda>r. r\<lparr>ap_state := AI_PENDING_EMPLOYEE_CONSENT, ap_activeCandidateId := Some (ca_id c), ap_expiresAt := Some t\<rparr>)
      (t_proposals db)) (update_rows (\<lambda>r. ca_id r = ca_id c) (ask_candidate now) (t_candidates db))"
    by (rule flip_candidate_ok [OF ok p c(1)], simp_all add: ask_candidate_def)
      (use ask_ok [OF l(1) p(2) _ c(2) l(2)] l(3) c(1) in \<open>simp add: ask_candidate_def\<close>)
  then show ?thesis
    using ok by (auto simp: request_commit_def updateCandidate_def svc_wp loaded_found [OF ok c(1)] Let_def
        proposals_ok_def split: option.splits)
qed

lemma escalate_draft_ok:
  assumes ok: "proposals_ok db" and p: "loaded db p" "ap_state p = AI_DRAFT"
  shows "wp (escalate_draft act p) (\<lambda>_. proposals_ok) (\<lambda>_. proposals_ok) db"
proof -
  have "tables_ok (update_rows (\<lambda>r. ap_id r = ap_id p \<and> ap_state r = AI_DRAFT)
      (\<lambda>r. r\<lparr>ap_state := AI_ESCALATED\<rparr>) (t_proposals db)) (t_candidates db)"
    by (rule flip_ok [OF ok p]) (simp_all add: escalate_ok [OF loaded_facts(1) [OF ok p(1)] p(2)])
  then show ?thesis
    using ok by (auto simp: escalate_draft_def svc_wp Let_def proposals_ok_def wp_loaded_count [OF p]
        split: option.splits)
qed

lemma expire_commit_ok:
  assumes ok: "proposals_ok db"
  shows "wp (expire_commit act p) (\<lambda>_. proposals_ok) (\<lambda>_. proposals_ok) db"
proof -
  have "tables_ok (update_rows (\<lambda>r. ap_id r = ap_id p \<and> ap_state r = AI_PENDING_EMPLOYEE_CONSENT)
      (\<lambda>r. r\<lparr>ap_state := AI_ESCALATED, ap_activeCandidateId := None\<rparr>) (t_proposals db)) (t_candidates db)"
    (is "tables_ok (update_rows ?P ?f _) _")
  proof (cases "count_rows ?P (t_proposals db) = 0")
    case True
    with ok show ?thesis by (simp add: update_rows_none proposals_ok_def)
  next
    case False
    then obtain r where r: "loaded db r" "ap_id r = ap_id p" "ap_state r = AI_PENDING_EMPLOYEE_CONSENT"
      by (auto simp: count_rows_0_iff loaded_def)
    note l = loaded_facts [OF ok r(1)]
    show ?thesis
      using flip_ok [OF ok r(1,3), of ?f] expire_ok [OF l(1) r(3) l(2)] r(2) by simp
  qed
  then show ?thesis
    by (auto simp: expire_commit_def svc_wp Let_def proposals_ok_def split: option.splits)
qed

lemma accept_commit_ok:
  assumes ok: "proposals_ok db" and p: "loaded db p" "ap_state p = AI_PENDING_EMPLOYEE_CONSENT"
    and c: "loaded_candidate db p c" "ap_activeCandidateId p = Some (ca_id c)" "ca_consentState c = CS_PENDING"
  shows "wp (accept_commit act now p c AI_PENDING_MANAGER) (\<lambda>_. proposals_ok) (\<lambda>_. proposals_ok) db"
proof -
  note l = loaded_facts [OF ok p(1)]
  have "tables_ok (update_rows (\<lambda>r. ap_id r = ap_id p \<and> ap_state r = AI_PENDING_EMPLOYEE_CONSENT)
      (\<lambda>r. r\<lparr>ap_state := AI_PENDING_MANAGER\<rparr>) (t_proposals db))
      (update_rows (\<lambda>r. ca_id r = ca_id c) (\<lambda>r. r\<lparr>ca_consentState := GRANTED, ca_consentAt := Some now\<rparr>) (t_candidates db))"
    by (rule flip_candidate_ok [OF ok p c(1)], simp_all)
      (use accept_ok [OF l(1) p(2) _ c(2,3) l(2)] l(3) c(1) in simp)
  then show ?thesis
    using ok by (auto simp: accept_commit_def updateCandidate_def svc_wp loaded_found [OF ok c(1)] Let_def
        proposals_ok_def split: option.splits)
qed

lemma decline_last_commit_ok:
  assumes ok: "proposals_ok db" and p: "loaded db p" "ap_state p = AI_PENDING_EMPLOYEE_CONSENT"
    and c: "loaded_candidate db p c" "ap_activeCandidateId p = Some (ca_id c)" "ca_consentState c = CS_PENDING"
  shows "wp (decline_last_commit act p c AI_ESCALATED) (\<lambda>_. proposals_ok) (\<lambda>_. proposals_ok) db"
proof -
  note l = loaded_facts [OF ok p(1)]
  have "tables_ok (update_rows (\<lambda>r. ap_id r = ap_id p \<and> ap_state r = AI_PENDING_EMPLOYEE_CONSENT)
      (\<lambda>r. r\<lparr>ap_state := AI_ESCALATED, ap_activeCandidateId := None\<rparr>) (t_proposals db))
      (update_rows (\<lambda>r. ca_id r = ca_id c) decline_candidate (t_candidates db))"
    by (rule flip_candidate_ok [OF ok p c(1)], simp_all add: decline_candidate_def)
      (use decline_last_ok [OF l(1) p(2) _ c(2,3) l(2)] l(3) c(1) in \<open>simp add: decline_candidate_def\<close>)
  then show ?thesis
    using ok by (auto simp: decline_last_commit_def updateCandidate_def svc_wp loaded_found [OF ok c(1)] Let_def
        proposals_ok_def split: option.splits)
qed

lemma decline_next_commit_ok:
  assumes ok: "proposals_ok db" and p: "loaded db p" "ap_state p = AI_PENDING_EMPLOYEE_CONSENT"
    and c: "loaded_candidate db p c" "ap_activeCandidateId p = Some (ca_id c)" "ca_consentState c = CS_PENDING"
    and n: "loaded_candidate db p n" "ca_consentState n = NOT_ASKED" "ca_feasible n"
  shows "wp (decline_next_commit now p c n AI_PENDING_EMPLOYEE_CONSENT) (\<lambda>_. proposals_ok) (\<lambda>_. proposals_ok) db"
proof -
  note l = loaded_facts [OF ok p(1)]
  have t: "tables_ok (t_proposals db) (t_candidates db)" using ok by (simp add: proposals_ok_def)
  have p': "p \<in> set (t_proposals db)" using p by (simp add: loaded_def)
  let ?cs = "update_rows (\<lambda>r. ca_id r = ca_id c) decline_candidate (t_candidates db)"
  let ?F = "(\<lambda>r. if ca_id r = ca_id n then ask_candidate now r else r) \<circ> (\<lambda>r. if ca_id r = ca_id c then decline_candidate r else r)"
  have two: "update_rows (\<lambda>r. ca_id r = ca_id n) (ask_candidate now) ?cs = map ?F (t_candidates db)"
    by (simp add: update_id_map)
  have found: "\<exists>r. find_row ca_id (ca_id n) ?cs = Some r"
    using loaded_found [OF ok n(1)] by (simp add: find_row_update_rows decline_candidate_def)
  have "tables_ok (update_rows (\<lambda>r. ap_id r = ap_id p \<and> ap_state r = AI_PENDING_EMPLOYEE_CONSENT)
      (\<lambda>r. r\<lparr>ap_state := AI_PENDING_EMPLOYEE_CONSENT, ap_activeCandidateId := Some (ca_id n)\<rparr>) (t_proposals db))
      (update_rows (\<lambda>r. ca_id r = ca_id n) (ask_candidate now) ?cs)"
    unfolding guarded_update [OF tables_okD(1) [OF t] p' p(2)] two
  proof (rule tables_ok_change [OF t p'])
    show "x \<in> set (t_candidates db) \<Longrightarrow> ca_proposalId x \<noteq> ap_id p \<Longrightarrow> ?F x = x" for x
      using own_candidate [OF t, of c x] own_candidate [OF t, of n x] c(1) n(1)
      by (auto simp: loaded_candidate_def decline_candidate_def)
    have "proposal_ok (p\<lparr>ap_state := AI_PENDING_EMPLOYEE_CONSENT, ap_activeCandidateId := Some (ca_id n)\<rparr>)
        (map ?F (candidates_of db (ap_id p)))"
      by (rule decline_next_ok [OF l(1) p(2) _ c(2,3) l(2) _ n(2,3)]) (use l(3) c(1) n(1) in blast)+
    then show "proposal_ok (p\<lparr>ap_state := AI_PENDING_EMPLOYEE_CONSENT, ap_activeCandidateId := Some (ca_id n)\<rparr>)
        (map ?F (filter (\<lambda>c. ca_proposalId c = ap_id p) (t_candidates db)))"
      by (simp only: candidates_of_def)
  qed (simp_all add: ask_candidate_def decline_candidate_def)
  with ok found show ?thesis
    by (auto simp: decline_next_commit_def updateCandidate_def svc_wp loaded_found [OF ok c(1)] Let_def
        proposals_ok_def split: option.splits)
qed

lemma reject_commit_ok:
  assumes ok: "proposals_ok db" and p: "loaded db p" "ap_state p = AI_PENDING_MANAGER"
  shows "wp (reject_commit act p AI_REJECTED) (\<lambda>_. proposals_ok) (\<lambda>_. proposals_ok) db"
proof -
  have t: "tables_ok (t_proposals db) (t_candidates db)" using ok by (simp add: proposals_ok_def)
  have p': "p \<in> set (t_proposals db)" using p by (simp add: loaded_def)
  have "tables_ok (update_rows (\<lambda>r. ap_id r = ap_id p \<and> ap_state r = AI_PENDING_MANAGER)
      (\<lambda>r. r\<lparr>ap_state := AI_REJECTED, ap_decidedByManagerId := Some (act_userId act)\<rparr>) (t_proposals db)) (t_candidates db)"
    by (rule flip_ok [OF ok p]) (simp_all add: decided_ok [OF loaded_facts(1) [OF ok p(1)] p(2)])
  then have "tables_ok (update_rows (\<lambda>r. ap_id r = ap_id p)
      (\<lambda>r. r\<lparr>ap_state := AI_REJECTED, ap_decidedByManagerId := Some (act_userId act)\<rparr>) (t_proposals db)) (t_candidates db)"
    unfolding guarded_update [OF tables_okD(1) [OF t] p' p(2)] update_id_map .
  then show ?thesis
    using ok by (auto simp: reject_commit_def svc_wp proposals_ok_def split: option.splits)
qed

lemma approve_commit_ok:
  assumes ok: "proposals_ok db" and p: "loaded db p" "ap_state p = AI_PENDING_MANAGER"
  shows "wp (ap_approve_commit act p chosen) (\<lambda>_. proposals_ok) (\<lambda>_. proposals_ok) db"
proof -
  have "tables_ok (update_rows (\<lambda>r. ap_id r = ap_id p \<and> ap_state r = AI_PENDING_MANAGER)
      (\<lambda>r. r\<lparr>ap_state := AI_APPROVED, ap_decidedByManagerId := Some (act_userId act)\<rparr>) (t_proposals db)) (t_candidates db)"
    by (rule flip_ok [OF ok p]) (simp_all add: decided_ok [OF loaded_facts(1) [OF ok p(1)] p(2)])
  then show ?thesis
    using ok by (auto simp: ap_approve_commit_def svc_wp Let_def proposals_ok_def split: option.splits)
qed

section \<open>Creating a proposal\<close>

lemma rank_read_only:
  assumes port: "feasibility_port validate"
  shows "read_only (rankCandidatesForShift validate rs policy)"
  unfolding rankCandidatesForShift_def resolve_unit_def resolve_site_def rank_cross_def
  by (intro read_only_bnd read_only_mapM vet_read_only [OF port]) (auto intro!: read_only_bnd read_only_mapM vet_read_only [OF port] split: option.splits)

lemma vetted_ids: "list_all2 (vetted validate db s policy l) es evs \<Longrightarrow> map ev_id evs = map em_id es"
  by (induction rule: list_all2_induct) (auto simp: vetted_def)

lemma rank_evaluated_ids:
  "mset (map rc_employeeId (rank_evaluated db s ws evs)) = mset (map ev_id evs)"
proof -
  let ?d = "computeWorkCostDeltas db s (map ev_id (filter ev_feasible evs))"
  let ?f = "sort_key (rank_key ?d ws) (filter ev_feasible evs)"
  have "map rc_employeeId (map2 (to_ranked ?d ws) ?f (map int [0..<length ?f])) = map ev_id ?f"
    by (rule nth_equalityI) auto
  then have "map rc_employeeId (rank_evaluated db s ws evs) =
      map ev_id ?f @ map ev_id (sort_key ev_id (filter (\<lambda>c. \<not> ev_feasible c) evs))"
    by (simp add: rank_evaluated_def Let_def)
  then show ?thesis
    by (simp flip: image_mset_union multiset_partition)
qed

text \<open>No employee is listed twice, which is what the unique key of the candidates asks for.\<close>

lemma rank_distinct:
  assumes port: "feasibility_port validate" and emps: "distinct (map em_id (t_employees db))"
    and ok: "rankCandidatesForShift validate rs policy db = (Inr out, db')"
  shows "distinct (map rc_employeeId out)"
proof -
  let ?s = "rk_shift rs"
  from port ok obtain u lp cross ws le ce where "rank_unit db rs = Some u"
    and lp: "lp = loadPool db u (sh_role ?s) (sh_employeeId ?s) False"
    and L: "list_all2 (vetted validate db ?s policy True) lp le"
    and cross: "cross = (if list_ex ev_feasible le then [] else loadPool db u (sh_role ?s) (sh_employeeId ?s) True)"
    and C: "list_all2 (vetted validate db ?s policy False) cross ce"
    and out: "out = rank_evaluated db ?s ws (le @ ce)"
    by (rule rank_InrD)
  have "inj_on em_id (set (t_employees db))" using emps by (simp add: distinct_map)
  moreover have "set lp \<subseteq> set (t_employees db)" "set cross \<subseteq> set (t_employees db)" "set lp \<inter> set cross = {}"
    by (auto simp: lp cross loadPool_def)
  moreover have "distinct lp" "distinct cross"
    using emps by (auto simp: lp cross loadPool_def distinct_map)
  ultimately have "distinct (lp @ cross)" "inj_on em_id (set (lp @ cross))"
    by (auto intro: inj_on_subset)
  then have "distinct (map em_id (lp @ cross))" by (simp only: distinct_map simp_thms)
  then have "distinct (map ev_id (le @ ce))" using vetted_ids [OF L] vetted_ids [OF C] by simp
  then show ?thesis
    unfolding out by (metis rank_evaluated_ids mset_eq_imp_distinct_iff)
qed

text \<open>The ids drawn for a new proposal are new.\<close>

definition fresh_ok :: "tenant_db \<Rightarrow> fresh \<Rightarrow> bool" where
  "fresh_ok db fr \<longleftrightarrow>
     fr_proposalId fr \<notin> ap_id ` set (t_proposals db) \<and> inj (fr_seedId fr) \<and>
     (\<forall>k. fr_seedId fr k \<notin> ca_id ` set (t_candidates db))"

lemma tables_ok_append:
  assumes ok: "tables_ok ps cs" and p: "ap_id p \<notin> ap_id ` set ps"
    and nc: "distinct (map ca_id nc)" "set (map ca_id nc) \<inter> set (map ca_id cs) = {}"
    and mine: "list_all (\<lambda>c. ca_proposalId c = ap_id p) nc" and new: "proposal_ok p nc"
  shows "tables_ok (ps @ [p]) (cs @ nc)"
proof -
  have fk: "ca_proposalId c \<in> ap_id ` set ps" if "c \<in> set cs" for c
    using ok that by (auto simp: tables_ok_def list_all_iff)
  have old: "filter (\<lambda>c. ca_proposalId c = ap_id r) (cs @ nc) = filter (\<lambda>c. ca_proposalId c = ap_id r) cs"
    if "r \<in> set ps" for r
    using mine p that by (auto simp: list_all_iff filter_empty_conv)
  have "filter (\<lambda>c. ca_proposalId c = ap_id p) cs = []"
    using fk p by (metis (mono_tags, lifting) filter_False)
  moreover have "filter (\<lambda>c. ca_proposalId c = ap_id p) nc = nc"
    using mine by (simp add: list_all_iff filter_id_conv)
  ultimately have own: "filter (\<lambda>c. ca_proposalId c = ap_id p) (cs @ nc) = nc" by simp
  have "list_all (\<lambda>r. proposal_ok r (filter (\<lambda>c. ca_proposalId c = ap_id r) (cs @ nc))) ps"
    unfolding list_all_iff by (intro ballI) (simp only: old tables_okD(3) [OF ok])
  moreover have "list_all (\<lambda>c. ca_proposalId c \<in> set (map ap_id (ps @ [p]))) (cs @ nc)"
    using fk mine by (auto simp: list_all_iff)
  ultimately show ?thesis
    using tables_okD(1,2) [OF ok] p nc new own by (simp add: tables_ok_def Int_commute)
qed

lemma seeds_nth: "k < length ranked \<Longrightarrow> seeds f ranked ! k = (f k, ranked ! k)"
  by (simp add: seeds_def)

lemma length_seeds [simp]: "length (seeds f ranked) = length ranked"
  by (simp add: seeds_def)

lemma find_seed:
  assumes d: "distinct (map rc_employeeId ranked)" and k: "k < length ranked"
  shows "find (\<lambda>s. rc_employeeId (snd s) = rc_employeeId (ranked ! k)) (seeds f ranked) = Some (f k, ranked ! k)"
  unfolding find_Some_iff
proof (intro exI conjI allI impI)
  show "k < length (seeds f ranked)" using k by simp
  fix j
  assume "j < k"
  with d k show "rc_employeeId (snd (seeds f ranked ! j)) \<noteq> rc_employeeId (ranked ! k)"
    by (auto simp: seeds_nth distinct_conv_nth)
qed (use k in \<open>auto simp: seeds_nth\<close>)

text \<open>The three starts of a proposal; the one that asks knows whom, and until when.\<close>

lemma plan_initial_cases:
  assumes plan: "plan_initial fr config ranked = Inr plan" and d: "distinct (map rc_employeeId ranked)"
  obtains
    (escalated) "ip_state plan = AI_ESCALATED" "ip_activeSeedId plan = None" "ip_expiresAt plan = None"
      "ip_costCandidate plan = None" "list_all (\<lambda>c. \<not> (rc_feasible c \<and> rc_reachable c)) ranked"
  | (draft) "ip_state plan = AI_DRAFT" "ip_activeSeedId plan = None" "ip_expiresAt plan = None"
      "ac_autonomyLevel config \<in> {SUGGEST_ONLY, AUTO_NOTIFY}" "filter rc_feasible ranked \<noteq> []"
      "ip_costCandidate plan = Some (hd (filter rc_feasible ranked))"
  | (asking) k where "ip_state plan = AI_PENDING_EMPLOYEE_CONSENT" "k < length ranked"
      "ip_activeSeedId plan = Some (fr_seedId fr k)" "rc_feasible (ranked ! k)" "rc_reachable (ranked ! k)"
      "find (\<lambda>c. rc_feasible c \<and> rc_reachable c) ranked = Some (ranked ! k)"
      "ip_expiresAt plan = Some (fr_clock fr + ac_consentTtlHours config * 60 * 60 * 1000)"
      "ip_costCandidate plan = Some (ranked ! k)" "ac_autonomyLevel config \<in> {AUTO_ASK_CONSENT, AUTO_COMMIT_ON_APPROVAL}"
proof -
  have find_filter: "find rc_reachable (filter rc_feasible xs) = find (\<lambda>c. rc_feasible c \<and> rc_reachable c) xs" for xs
    by (induction xs) auto
  let ?level = "ac_autonomyLevel config"
  consider "filter rc_feasible ranked = []" | "filter rc_feasible ranked \<noteq> []" "?level \<in> {SUGGEST_ONLY, AUTO_NOTIFY}"
    | "filter rc_feasible ranked \<noteq> []" "?level \<in> {AUTO_ASK_CONSENT, AUTO_COMMIT_ON_APPROVAL}"
    by (cases ?level) auto
  then show thesis
  proof cases
    case 1
    with plan have "list_all (\<lambda>c. \<not> (rc_feasible c \<and> rc_reachable c)) ranked"
      by (auto simp: filter_empty_conv list_all_iff)
    with 1 plan escalated show thesis by (auto simp: plan_initial_def escalated_plan_def Let_def)
  next
    case 2
    with plan draft show thesis by (auto simp: plan_initial_def Let_def)
  next
    case 3
    show thesis
    proof (cases "find (\<lambda>c. rc_feasible c \<and> rc_reachable c) ranked")
      case None
      then have "list_all (\<lambda>c. \<not> (rc_feasible c \<and> rc_reachable c)) ranked" by (auto simp: find_None_iff list_all_iff)
      with None 3 plan escalated show thesis
        by (auto simp: plan_initial_def escalated_plan_def Let_def find_filter)
    next
      case (Some a)
      then obtain k where k: "k < length ranked" "a = ranked ! k" "rc_feasible a" "rc_reachable a"
        by (auto simp: find_Some_iff)
      from 3 Some plan have "asking_plan fr config ranked a = Inr plan"
        by (auto simp: plan_initial_def Let_def find_filter)
      then show thesis
        using asking [of k] k Some 3 find_seed [OF d k(1)] by (auto simp: asking_plan_def)
    qed
  qed
qed

lemma new_proposal_ok:
  assumes plan: "plan_initial fr config ranked = Inr plan" and d: "distinct (map rc_employeeId ranked)"
    and inj: "inj (fr_seedId fr)"
  shows "proposal_ok (proposal_data fr shift unitId reason plan cost)
    (map (candidateData (fr_proposalId fr) (ip_activeSeedId plan) now) (seeds (fr_seedId fr) ranked))"
  using plan d
proof (cases rule: plan_initial_cases)
  case escalated
  then show ?thesis
    by (simp add: proposal_ok_def state_ok_def proposal_data_def candidateData_def list_all_iff Let_def)
next
  case draft
  then show ?thesis
    by (simp add: proposal_ok_def state_ok_def proposal_data_def candidateData_def list_all_iff Let_def)
next
  case (asking k)
  let ?cs = "map (candidateData (fr_proposalId fr) (Some (fr_seedId fr k)) now) (seeds (fr_seedId fr) ranked)"
  have mem: "s \<in> set (seeds (fr_seedId fr) ranked) \<longleftrightarrow> (\<exists>j < length ranked. s = (fr_seedId fr j, ranked ! j))" for s
    by (auto simp: in_set_conv_nth seeds_nth)
  have k: "(fr_seedId fr k, ranked ! k) \<in> set (seeds (fr_seedId fr) ranked)" using asking(2) mem by blast
  have "one_candidate CS_PENDING (proposal_data fr shift unitId reason plan cost) ?cs"
    unfolding one_candidate_def using asking(3) k
    by (auto simp: proposal_data_def candidateData_def Let_def split: if_splits intro: bexI [OF _ k])
  moreover have "list_all (\<lambda>c. ca_consentState c \<noteq> NOT_ASKED \<longrightarrow> ca_feasible c) ?cs"
    using asking(4) inj by (auto simp: list_all_iff mem candidateData_def Let_def dest: injD)
  ultimately show ?thesis
    using asking(1,3,7) by (simp add: proposal_ok_def state_ok_def proposal_data_def)
qed

lemma create_commit_ok:
  assumes ok: "proposals_ok db" and fr: "fresh_ok db fr"
    and plan: "plan_initial fr config ranked = Inr plan" and d: "distinct (map rc_employeeId ranked)"
  shows "wp (create_commit fr act shift unitId reason ranked plan cost) (\<lambda>_. proposals_ok) (\<lambda>_. proposals_ok) db"
proof -
  let ?cs = "map (candidateData (fr_proposalId fr) (ip_activeSeedId plan) (fr_now fr)) (seeds (fr_seedId fr) ranked)"
  have ids: "map ca_id ?cs = map (fr_seedId fr) [0..<length ranked]"
    by (rule nth_equalityI) (auto simp: seeds_nth candidateData_def Let_def)
  have "tables_ok (t_proposals db @ [proposal_data fr shift unitId reason plan cost]) (t_candidates db @ ?cs)"
  proof (rule tables_ok_append)
    show "distinct (map ca_id ?cs)"
      unfolding ids using fr by (auto simp: distinct_map fresh_ok_def intro: inj_on_subset)
    show "set (map ca_id ?cs) \<inter> set (map ca_id (t_candidates db)) = {}"
      unfolding ids using fr by (auto simp: fresh_ok_def)
    show "proposal_ok (proposal_data fr shift unitId reason plan cost) ?cs"
      using fr by (intro new_proposal_ok [OF plan d]) (simp add: fresh_ok_def)
  qed (use ok fr in \<open>auto simp: proposals_ok_def fresh_ok_def proposal_data_def candidateData_def list_all_iff Let_def\<close>)
  then show ?thesis
    by (simp add: create_commit_def Let_def svc_wp proposals_ok_def)
qed

lemma config_scope_read_only: "read_only (config_scope msg act u)"
  by (auto simp: config_scope_def intro!: read_only_bnd split: option.splits)

lemma getConfig_read_only: "read_only (getConfig act u)"
  unfolding getConfig_def by (rule read_only_bnd [OF config_scope_read_only]) (rule read_only_basic)

lemma createReplacement_ok:
  assumes port: "feasibility_port validate" and ok: "proposals_ok db" and fr: "fresh_ok db fr"
    and emps: "distinct (map em_id (t_employees db))"
  shows "wp (createReplacement validate fr act shiftId reason) (\<lambda>_. proposals_ok) (\<lambda>_. proposals_ok) db"
proof -
  have step: "wp (rankCandidatesForShift validate rs DEFAULT_TRAVEL_POLICY) (\<lambda>ranked.
      wp (getConfig act u) (\<lambda>config. wp (lift_sum (plan_initial fr config ranked)) (\<lambda>plan.
      wp (asks (cost plan)) (\<lambda>c. wp (create_commit fr act shift unitId reason ranked plan c)
         (\<lambda>_. proposals_ok) (\<lambda>_. proposals_ok)) (\<lambda>_. proposals_ok)) (\<lambda>_. proposals_ok)) (\<lambda>_. proposals_ok))
      (\<lambda>_. proposals_ok) db" for rs u cost shift unitId
  proof (rule wp_read_only_Inr [OF rank_read_only [OF port]])
    fix ranked
    assume r: "rankCandidatesForShift validate rs DEFAULT_TRAVEL_POLICY db = (Inr ranked, db)"
    show "wp (getConfig act u) (\<lambda>config. wp (lift_sum (plan_initial fr config ranked)) (\<lambda>plan.
      wp (asks (cost plan)) (\<lambda>c. wp (create_commit fr act shift unitId reason ranked plan c)
         (\<lambda>_. proposals_ok) (\<lambda>_. proposals_ok)) (\<lambda>_. proposals_ok)) (\<lambda>_. proposals_ok)) (\<lambda>_. proposals_ok) db"
      by (rule wp_read_only_Inr [OF getConfig_read_only])
        (auto simp: wp_lift_sum wp_asks ok split: sum.splits
          intro: create_commit_ok [OF ok fr _ rank_distinct [OF port emps r]])
  qed (rule ok)
  show ?thesis
    unfolding createReplacement_def shift_scope_def
    using ok by (auto simp: wp_bnd wp_asks wp_require wp_ensure wp_if wp_ret split: option.splits intro!: step)
qed

end
