(* ===== verification/AiProposalProps.thy ===== *)
theory AiProposalProps
  imports AiProposalInv
begin

text \<open>
  Correctness of the proposal service: every endpoint keeps the invariant of \<open>AiProposalInv\<close>; what a
  new proposal starts as and costs; that only an approving decision moves a shift, and to whom.
\<close>

section \<open>Every endpoint keeps the invariant\<close>

lemma preservesI_wp: "(\<And>db. I db \<Longrightarrow> wp m (\<lambda>_. I) (\<lambda>_. I) db) \<Longrightarrow> preserves I m"
  by (simp add: preserves_iff_wp)

lemma wp_snd: "wp m (\<lambda>_. I) (\<lambda>_. I) db \<Longrightarrow> I (snd (m db))"
  by (auto simp: wp_def split: prod.splits sum.splits)

lemma expireIfStale_ok: "preserves proposals_ok (expireIfStale clock act v)"
  by (auto simp: expireIfStale_def intro: preservesI_wp [OF expire_commit_ok])

lemma upsertConfig_ok: "preserves proposals_ok (upsertConfig newId act dto)"
proof -
  have "proposals_ok (t_aiConfigs_update f db) = proposals_ok db" for f db by (simp add: proposals_ok_def)
  then have "preserves proposals_ok (config_write newId before d)"
    and "preserves proposals_ok (audit_log a b c i pl ip)" for before d a b c i pl ip
    by (auto simp: preserves_iff_wp config_write_def config_update_def config_create_def audit_log_def svc_wp
        split: option.splits)
  then show ?thesis
    unfolding upsertConfig_def
    by (auto intro!: preserves_bnd preserves_read_only [OF config_scope_read_only])
qed

lemma loaded_scope_read_only: "read_only (owning_scope act u)"
  by (auto simp: owning_scope_def intro!: read_only_bnd)

lemma loadProposal_read_only: "read_only (loadProposal i)"
  by (auto simp: loadProposal_def intro!: read_only_bnd)

lemma myEmployeeId_read_only: "read_only (myEmployeeId act)"
  by (simp add: myEmployeeId_def)

lemma pickNext_SomeD:
  "pickNextFeasibleCandidate cs = Some c \<Longrightarrow> c \<in> set cs \<and> ca_feasible c \<and> ca_consentState c = NOT_ASKED"
proof -
  assume "pickNextFeasibleCandidate cs = Some c"
  then obtain xs where "sort_key ca_rank (filter (\<lambda>c. ca_feasible c \<and> ca_consentState c = NOT_ASKED) cs) = c # xs"
    by (auto simp: pickNextFeasibleCandidate_def split: list.splits)
  then have "c \<in> set (sort_key ca_rank (filter (\<lambda>c. ca_feasible c \<and> ca_consentState c = NOT_ASKED) cs))"
    by (simp only: list.set_intros)
  then show ?thesis by simp
qed

lemma pickNext_None_iff:
  "pickNextFeasibleCandidate cs = None \<longleftrightarrow> list_all (\<lambda>c. \<not> (ca_feasible c \<and> ca_consentState c = NOT_ASKED)) cs"
proof -
  have "pickNextFeasibleCandidate cs = None \<longleftrightarrow>
      sort_key ca_rank (filter (\<lambda>c. ca_feasible c \<and> ca_consentState c = NOT_ASKED) cs) = []"
    by (simp add: pickNextFeasibleCandidate_def split: list.splits)
  also have "\<dots> \<longleftrightarrow> set (filter (\<lambda>c. ca_feasible c \<and> ca_consentState c = NOT_ASKED) cs) = {}"
    by (metis set_empty set_sort)
  finally show ?thesis by (auto simp: list_all_iff)
qed

lemma view_candidates [simp]: "pv_candidates (view_of db p) = candidates_of db (ap_id p)"
  "pv_row (view_of db p) = p"
  by (simp_all add: view_of_def)

lemma active_candidate_SomeD:
  "active_candidate (view_of db p) = Some c \<Longrightarrow> loaded_candidate db p c \<and> ap_activeCandidateId p = Some (ca_id c)"
  by (auto simp: active_candidate_def candidates_of_def loaded_candidate_def dest!: find_SomeD)

lemma requestConsent_ok: "preserves proposals_ok (requestConsent act now i)"
proof (rule preservesI_wp)
  fix db
  assume ok: "proposals_ok db"
  have "wp (bnd (getConfig act u) (\<lambda>config. bnd (lift_sum (nextProposalState AI_DRAFT AskConsent)) (\<lambda>pending.
      request_commit act now p c pending (t config)))) (\<lambda>_. proposals_ok) (\<lambda>_. proposals_ok) db"
    if "loaded db p" "ap_state p = AI_DRAFT" "pickNextFeasibleCandidate (candidates_of db (ap_id p)) = Some c" for u p c t
    unfolding wp_bnd
    by (rule wp_read_only_Inr [OF getConfig_read_only])
      (use that pickNext_SomeD [OF that(3)] loaded_facts(3) [OF ok that(1)] ok in
        \<open>auto simp: wp_lift_sum intro!: request_commit_ok\<close>)
  then show "wp (requestConsent act now i) (\<lambda>_. proposals_ok) (\<lambda>_. proposals_ok) db"
    unfolding requestConsent_def owning_scope_def
    using ok by (auto simp: wp_bnd [of "loadProposal i"] wp_load wp_bnd [of "asks f" for f] wp_bnd [of "ensure f g" for f g]
        wp_bnd [of "if c then m else n" for c m n] wp_if wp_ret wp_asks wp_ensure split: option.splits
        dest!: findProposal_loaded intro: escalate_draft_ok)
qed

lemma employeeConsent_ok: "preserves proposals_ok (employeeConsent clock now act i accept)"
proof (rule preservesI_wp)
  fix db
  assume ok: "proposals_ok db"
  have answer: "wp (consent_answer act now (view_of db p) c accept) (\<lambda>_. proposals_ok) (\<lambda>_. proposals_ok) db"
    if "loaded db p" "ap_state p = AI_PENDING_EMPLOYEE_CONSENT" "active_candidate (view_of db p) = Some c"
      "ca_consentState c = CS_PENDING" for p c
  proof -
    have c: "loaded_candidate db p c" "ap_activeCandidateId p = Some (ca_id c)"
      using active_candidate_SomeD [OF that(3)] by blast+
    have n: "loaded_candidate db p n \<and> ca_feasible n \<and> ca_consentState n = NOT_ASKED"
      if "pickNextFeasibleCandidate (candidates_of db (ap_id p)) = Some n" for n
      using pickNext_SomeD [OF that] loaded_facts(3) [OF ok \<open>loaded db p\<close>] by blast
    show ?thesis
      using that c n
      by (auto simp: consent_answer_def wp_bnd wp_lift_sum wp_if split: option.splits
          intro!: accept_commit_ok [OF ok] decline_last_commit_ok [OF ok] decline_next_commit_ok [OF ok])
  qed
  have expire: "wp (expireIfStale clock act v) (\<lambda>_. proposals_ok) (\<lambda>_. proposals_ok) db" for v
    using expireIfStale_ok ok by (auto simp: preserves_iff_wp)
  have checks: "wp (consent_checks act (view_of db p)) (\<lambda>c. wp (consent_answer act now (view_of db p) c accept)
      (\<lambda>_. proposals_ok) (\<lambda>_. proposals_ok)) (\<lambda>_. proposals_ok) db" if "loaded db p" for p
    using that answer ok
    by (auto simp: consent_checks_def myEmployeeId_def wp_bnd wp_ensure wp_asks wp_require wp_ret split: option.splits if_splits)
  show "wp (employeeConsent clock now act i accept) (\<lambda>_. proposals_ok) (\<lambda>_. proposals_ok) db"
    unfolding employeeConsent_def wp_bnd [of "loadProposal i"] wp_load
    using ok by (auto simp: wp_bnd wp_throw [abs_def] wp_if intro: checks expire split: option.splits dest!: findProposal_loaded)
qed

lemma managerDecision_ok:
  assumes port: "feasibility_port validate"
  shows "preserves proposals_ok (ap_managerDecision validate act i approve)"
proof (rule preservesI_wp)
  fix db
  assume ok: "proposals_ok db"
  have approve: "wp (validate q) (\<lambda>feas. wp (ensure (fd_feasible feas) (msg feas)) (\<lambda>_. wp (ap_approve_commit act p chosen)
      (\<lambda>_. proposals_ok) (\<lambda>_. proposals_ok)) (\<lambda>_. proposals_ok)) (\<lambda>_. proposals_ok) db"
    if "loaded db p" "ap_state p = AI_PENDING_MANAGER" for q p chosen msg
    by (rule wp_read_only_Inr [OF feasibility_port.validate_read_only [OF port]])
      (use that ok in \<open>auto simp: wp_ensure intro!: approve_commit_ok\<close>)
  show "wp (ap_managerDecision validate act i approve) (\<lambda>_. proposals_ok) (\<lambda>_. proposals_ok) db"
    unfolding ap_managerDecision_def owning_scope_def
    using ok by (auto simp: wp_bnd wp_load wp_if wp_ret wp_asks wp_ensure wp_require wp_lift_sum
        split: option.splits dest!: findProposal_loaded intro: approve reject_commit_ok)
qed

lemma getById_ok: "preserves proposals_ok (ap_getById clock act i)"
  unfolding ap_getById_def
  by (auto intro!: preserves_bnd preserves_basic preserves_read_only [OF loadProposal_read_only] expireIfStale_ok
      preserves_read_only [OF myEmployeeId_read_only] split: option.splits)

lemma list_ok: "preserves proposals_ok (ap_list clock act mine state)"
  unfolding ap_list_def list_managed_def list_mine_def
  by (auto intro!: preserves_bnd preserves_basic preserves_mapM expireIfStale_ok
      preserves_read_only [OF myEmployeeId_read_only] split: option.splits)

lemma findVacatedShifts_read_only: "read_only (findVacatedShifts act a b)"
  unfolding findVacatedShifts_def by (auto intro!: read_only_bnd)

definition request_fresh :: "tenant_db \<Rightarrow> ai_request \<Rightarrow> bool" where
  "request_fresh db req \<longleftrightarrow> (case req of ArCreateProposal fr _ _ \<Rightarrow> fresh_ok db fr | _ \<Rightarrow> True)"

text \<open>
  C11. Proposals and their candidates stay consistent: whatever the request and its outcome, after it
  every draft has asked nobody, every pending proposal has exactly one candidate who was asked, the
  active one, every proposal before a manager or decided has exactly one who agreed, an escalated one
  has nobody, and only feasible candidates were ever asked.
\<close>

theorem ai_handle_consistent:
  assumes "feasibility_port validate" and "proposals_ok db" and "distinct (map em_id (t_employees db))"
    and "request_fresh db req"
  shows "proposals_ok (snd (ai_handle validate now act req db))"
proof (cases req)
  case (ArCreateProposal fr shiftId reason)
  have "wp (bnd (createReplacement validate fr act shiftId reason) (\<lambda>r. ret (RsProposal r)))
      (\<lambda>_. proposals_ok) (\<lambda>_. proposals_ok) db"
    unfolding wp_bnd using assms(4)
    by (intro wp_mono [OF createReplacement_ok [OF assms(1,2) _ assms(3)]])
      (simp_all add: wp_ret request_fresh_def ArCreateProposal)
  then have "proposals_ok (snd (bnd (createReplacement validate fr act shiftId reason) (\<lambda>r. ret (RsProposal r)) db))"
    by (rule wp_snd)
  moreover obtain m where "ai_handle validate now act req = guarded CONFIG_ROLES act m"
      "m = bnd (createReplacement validate fr act shiftId reason) (\<lambda>r. ret (RsProposal r))"
    by (simp add: ArCreateProposal)
  ultimately show ?thesis using guarded_cases [of CONFIG_ROLES act m db] assms(2) by auto
qed (use assms in \<open>auto intro!: preserves_snd [OF preserves_guarded] preserves_bnd preserves_basic getById_ok list_ok
  requestConsent_ok employeeConsent_ok managerDecision_ok upsertConfig_ok preserves_read_only [OF getConfig_read_only]
  preserves_read_only [OF findVacatedShifts_read_only]\<close>)

end
