(* ===== verification/AiSamples.thy ===== *)
theory AiSamples
  imports AiProposalProps
begin

text \<open>
  A concrete proposal: for the shift \<open>s1\<close> of \<open>e1\<close>, with the candidates \<open>e2\<close> and \<open>e3\<close> in that order.
\<close>

definition sample_proposal :: "ai_state \<Rightarrow> id option \<Rightarrow> ai_proposal_row" where
  "sample_proposal st active =
     \<lparr>ap_id = ''p1'', ap_type = REPLACEMENT, ap_state = st, ap_shiftId = ''s1'', ap_vacatedEmployeeId = ''e1'',
      ap_activeCandidateId = active, ap_owningUnitId = Some ''u1'', ap_reason = None, ap_estimatedCost = None,
      ap_decidedByManagerId = None, ap_expiresAt = Some 1000\<rparr>"

definition sample_candidate :: "id \<Rightarrow> id \<Rightarrow> int \<Rightarrow> consent_state \<Rightarrow> ai_candidate_row" where
  "sample_candidate i e k cs =
     \<lparr>ca_id = i, ca_proposalId = ''p1'', ca_employeeId = e, ca_rank = k, ca_feasible = True, ca_reason = None,
      ca_score = None, ca_travelKm = None, ca_travelMinutes = None, ca_travelCost = None,
      ca_consentState = cs, ca_consentRequestedAt = None, ca_consentAt = None\<rparr>"

definition sample_ai_db :: "ai_state \<Rightarrow> id option \<Rightarrow> consent_state \<Rightarrow> tenant_db" where
  "sample_ai_db st active cs = (sample_db SW_DRAFT)
     \<lparr>t_employees := t_employees (sample_db SW_DRAFT) @ [sample_employee ''e3'' (Some ''a4'') ''u1''],
      t_users := t_users (sample_db SW_DRAFT) @ [\<lparr>us_id = ''a4'', us_keycloakSub = ''k4'',
          us_email = ''k4@x'', us_active = True, us_createdAt = 0\<rparr>],
      t_proposals := [sample_proposal st active],
      t_candidates := [sample_candidate ''c2'' ''e2'' 1 cs, sample_candidate ''c3'' ''e3'' 2 NOT_ASKED]\<rparr>"

definition pending_db :: tenant_db where
  "pending_db = sample_ai_db AI_PENDING_EMPLOYEE_CONSENT (Some ''c2'') CS_PENDING"

definition agreed_db :: tenant_db where
  "agreed_db = sample_ai_db AI_PENDING_MANAGER (Some ''c2'') GRANTED"

definition worker3 :: actor where
  "worker3 = \<lparr>act_userId = ''k4'', act_roles = [''PRACOWNIK''], act_ipAddress = ''ip''\<rparr>"

lemma sample_ai_ok: "proposals_ok pending_db" "proposals_ok agreed_db"
  by code_simp+

lemma sample_ai_keys: "distinct (map em_id (t_employees (sample_ai_db st a c)))"
  by (simp add: sample_ai_db_def sample_defs)

theorem ai_handle_consistent_witness:
  "proposals_ok (snd (ai_handle allow_all_validate 0 worker2 (ArConsent ''p1'' True) pending_db)) \<and>
   ap_state (hd (t_proposals (snd (ai_handle allow_all_validate 0 worker2 (ArConsent ''p1'' True) pending_db))))
     = AI_PENDING_MANAGER"
proof (rule conjI)
  show "proposals_ok (snd (ai_handle allow_all_validate 0 worker2 (ArConsent ''p1'' True) pending_db))"
    by (rule ai_handle_consistent [OF allow_all.feasibility_port_axioms sample_ai_ok(1)])
      (simp_all add: pending_db_def sample_ai_keys request_fresh_def)
  have run: "map ap_state (t_proposals (snd (guarded EVERY_ROLE worker2
      (bnd (employeeConsent 0 0 worker2 ''p1'' True) (\<lambda>r. ret (RsProposal r))) pending_db))) = [AI_PENDING_MANAGER]"
    by code_simp
  then show "ap_state (hd (t_proposals (snd (ai_handle allow_all_validate 0 worker2 (ArConsent ''p1'' True) pending_db))))
     = AI_PENDING_MANAGER"
    by (auto simp: map_eq_Cons_conv)
qed

end
