(* ===== verification/AiProposalCreate.thy ===== *)
theory AiProposalCreate
  imports AiSamples
begin

text \<open>
  What a new proposal starts as: the autonomy gate, the candidate who is asked first, and the cost
  that is shown to the manager.
\<close>

section \<open>The two cost computations agree\<close>

lemma find_filter_in: "(\<And>x. P x \<Longrightarrow> Q x) \<Longrightarrow> find P (filter Q xs) = find P xs"
  by (induction xs) auto

lemma rate_of_pairs:
  assumes "emp_pair e \<in> set pairs"
  shows "rate_of (findRatesForPairs db pairs) e = rate_of (t_rates db) e"
  unfolding rate_of_def rate_for_def findRatesForPairs_def Let_def
  by (rule find_filter_in) (use assms in \<open>force simp: emp_pair_def image_iff\<close>)

text \<open>
  The batched labour cost of the ranking engine and the single one of the proposal service are the
  same number for every listed candidate: the cost on the proposal is the one the ranking used.
\<close>

theorem estimated_cost_agrees:
  "computeWorkCostDeltas db shift ids c =
     (if c \<in> set ids then computeEstimatedCost db shift c (sh_employeeId shift) else None)"
proof (cases "c \<in> set ids")
  case True
  then have ne: "ids \<noteq> []" by auto
  show ?thesis
  proof (cases "findEmployee db (sh_employeeId shift)")
    case None
    then show ?thesis using True
      by (simp add: computeWorkCostDeltas_def computeEstimatedCost_def split: option.splits)
  next
    case (Some v)
    let ?emps = "List.map_filter (findEmployee db) ids"
    have r: "rate_of (findRatesForPairs db (map emp_pair ?emps @ [emp_pair v])) e = rate_of (t_rates db) e"
      if "e = v \<or> findEmployee db c = Some e" for e
      using that True by (intro rate_of_pairs) (force simp: List.map_filter_def)
    have "rate_of (findRatesForPairs db [emp_pair e, emp_pair v]) x = rate_of (t_rates db) x"
      if "x \<in> {e, v}" for e x
      using that by (intro rate_of_pairs) auto
    with r Some True ne show ?thesis
      by (simp add: computeWorkCostDeltas_def computeEstimatedCost_def Let_def split: option.splits)
  qed
next
  case False
  then show ?thesis by (simp add: computeWorkCostDeltas_def Let_def split: option.splits)
qed

section \<open>The autonomy gate\<close>

definition unit_config :: "tenant_db \<Rightarrow> id \<Rightarrow> ai_config_row" where
  "unit_config db u = coalesce (config_row db (Some u)) (defaultConfig [] (Some u))"

text \<open>The state a proposal starts in, as a table.\<close>

definition initial_state :: "autonomy_level \<Rightarrow> ranked_candidate list \<Rightarrow> ai_state" where
  "initial_state level ranked =
     (if \<not> list_ex rc_feasible ranked then AI_ESCALATED
      else if level \<in> {SUGGEST_ONLY, AUTO_NOTIFY} then AI_DRAFT
      else if list_ex (\<lambda>c. rc_feasible c \<and> rc_reachable c) ranked then AI_PENDING_EMPLOYEE_CONSENT
      else AI_ESCALATED)"

lemma getConfig_Inr: "getConfig act (Some u) db = (Inr c, db') \<Longrightarrow> c = unit_config db u \<and> db' = db"
  by (auto simp: getConfig_def config_scope_def unit_config_def bnd_def svc_defs split: if_splits)

lemma createReplacement_InrD:
  assumes port: "feasibility_port validate"
    and run: "createReplacement validate fr act shiftId reason db = (Inr v, db')"
  obtains shift e ranked plan cost where
    "find_row sh_id shiftId (t_shifts db) = Some shift" "findEmployee db (sh_employeeId shift) = Some e"
    "isGlobal (act_roles act) \<or> em_unitId e \<in> set (managedUnitIds db (act_userId act))"
    "rankCandidatesForShift validate \<lparr>rk_shift = shift, rk_unitId = Some (em_unitId e), rk_lokalizacja = None\<rparr>
       DEFAULT_TRAVEL_POLICY db = (Inr ranked, db)"
    "plan_initial fr (unit_config db (em_unitId e)) ranked = Inr plan"
    "cost = (case ip_costCandidate plan of None \<Rightarrow> None
       | Some c \<Rightarrow> map_option (\<lambda>d. d + rc_travelCost c)
           (computeEstimatedCost db shift (rc_employeeId c) (sh_employeeId shift)))"
    "create_commit fr act shift (em_unitId e) reason ranked plan cost db = (Inr v, db')"
proof -
  from run obtain shift e where s: "find_row sh_id shiftId (t_shifts db) = Some shift"
      "findEmployee db (sh_employeeId shift) = Some e"
    by (auto simp: createReplacement_def split: option.splits)
  let ?rs = "\<lparr>rk_shift = shift, rk_unitId = Some (em_unitId e), rk_lokalizacja = None\<rparr>"
  let ?cost = "\<lambda>plan db. case ip_costCandidate plan of None \<Rightarrow> None
       | Some c \<Rightarrow> map_option (\<lambda>d. d + rc_travelCost c)
           (computeEstimatedCost db shift (rc_employeeId c) (sh_employeeId shift))"
  from run s have scope: "isGlobal (act_roles act) \<or> em_unitId e \<in> set (managedUnitIds db (act_userId act))"
    and rest: "bnd (rankCandidatesForShift validate ?rs DEFAULT_TRAVEL_POLICY) (\<lambda>ranked.
       bnd (getConfig act (Some (em_unitId e))) (\<lambda>config.
       bnd (lift_sum (plan_initial fr config ranked)) (\<lambda>plan.
       bnd (asks (?cost plan)) (\<lambda>estimatedCost.
       create_commit fr act shift (em_unitId e) reason ranked plan estimatedCost)))) db = (Inr v, db')"
    by (auto simp: createReplacement_def shift_scope_def bnd_assoc split: if_splits)
  from rest obtain ranked where r: "rankCandidatesForShift validate ?rs DEFAULT_TRAVEL_POLICY db = (Inr ranked, db)"
    and rest: "bnd (getConfig act (Some (em_unitId e))) (\<lambda>config.
       bnd (lift_sum (plan_initial fr config ranked)) (\<lambda>plan.
       bnd (asks (?cost plan)) (\<lambda>estimatedCost.
       create_commit fr act shift (em_unitId e) reason ranked plan estimatedCost))) db = (Inr v, db')"
    by (rule bnd_asserted_Inr [OF rank_read_only [OF port]])
  from rest obtain config where c: "getConfig act (Some (em_unitId e)) db = (Inr config, db)"
    and rest: "bnd (lift_sum (plan_initial fr config ranked)) (\<lambda>plan.
       bnd (asks (?cost plan)) (\<lambda>estimatedCost.
       create_commit fr act shift (em_unitId e) reason ranked plan estimatedCost)) db = (Inr v, db')"
    by (rule bnd_asserted_Inr [OF getConfig_read_only])
  from rest getConfig_Inr [OF c] show thesis
    using that [OF s scope r] by (auto split: sum.splits)
qed

text \<open>
  The autonomy gate. A caller with authority over the unit of the shift gets a proposal for it,
  owned by that unit, with one candidate row per ranked employee. Its state is given by the unit's
  configured level: escalated when nobody is feasible, a draft when people decide, and otherwise
  waiting for the best-ranked candidate who is feasible and can be reached, until the configured time;
  only when there is none of those is it escalated. Nothing else changes but the audit log.
\<close>

theorem createReplacement_gated:
  assumes port: "feasibility_port validate" and emps: "distinct (map em_id (t_employees db))"
    and inj: "inj (fr_seedId fr)"
    and run: "createReplacement validate fr act shiftId reason db = (Inr v, db')"
  shows "\<exists>shift e ranked.
      find_row sh_id shiftId (t_shifts db) = Some shift \<and> findEmployee db (sh_employeeId shift) = Some e \<and>
      (isGlobal (act_roles act) \<or> em_unitId e \<in> set (managedUnitIds db (act_userId act))) \<and>
      rankCandidatesForShift validate \<lparr>rk_shift = shift, rk_unitId = Some (em_unitId e), rk_lokalizacja = None\<rparr>
        DEFAULT_TRAVEL_POLICY db = (Inr ranked, db) \<and>
      ap_owningUnitId (pv_row v) = Some (em_unitId e) \<and> ap_vacatedEmployeeId (pv_row v) = em_id e \<and>
      ap_state (pv_row v) = initial_state (ac_autonomyLevel (unit_config db (em_unitId e))) ranked \<and>
      (ap_state (pv_row v) = AI_PENDING_EMPLOYEE_CONSENT \<longrightarrow>
         (\<exists>k < length ranked. find (\<lambda>c. rc_feasible c \<and> rc_reachable c) ranked = Some (ranked ! k) \<and>
            ap_activeCandidateId (pv_row v) = Some (fr_seedId fr k) \<and>
            ap_expiresAt (pv_row v) =
              Some (fr_clock fr + ac_consentTtlHours (unit_config db (em_unitId e)) * 60 * 60 * 1000))) \<and>
      (\<exists>audit. db' = db\<lparr>t_proposals := t_proposals db @ [pv_row v],
         t_candidates := t_candidates db @
           map (candidateData (fr_proposalId fr) (ap_activeCandidateId (pv_row v)) (fr_now fr))
             (seeds (fr_seedId fr) ranked),
         t_audit := t_audit db @ [audit]\<rparr>)"
proof -
  obtain shift e ranked plan cost where
    s: "find_row sh_id shiftId (t_shifts db) = Some shift" "findEmployee db (sh_employeeId shift) = Some e"
    and scope: "isGlobal (act_roles act) \<or> em_unitId e \<in> set (managedUnitIds db (act_userId act))"
    and r: "rankCandidatesForShift validate \<lparr>rk_shift = shift, rk_unitId = Some (em_unitId e), rk_lokalizacja = None\<rparr>
       DEFAULT_TRAVEL_POLICY db = (Inr ranked, db)"
    and plan: "plan_initial fr (unit_config db (em_unitId e)) ranked = Inr plan"
    and "cost = (case ip_costCandidate plan of None \<Rightarrow> None
       | Some c \<Rightarrow> map_option (\<lambda>d. d + rc_travelCost c)
           (computeEstimatedCost db shift (rc_employeeId c) (sh_employeeId shift)))"
    and commit: "create_commit fr act shift (em_unitId e) reason ranked plan cost db = (Inr v, db')"
    by (rule createReplacement_InrD [OF port run])
  have v: "pv_row v = proposal_data fr shift (em_unitId e) reason plan cost"
    and db': "\<exists>audit. db' = db\<lparr>t_proposals := t_proposals db @ [pv_row v],
         t_candidates := t_candidates db @
           map (candidateData (fr_proposalId fr) (ip_activeSeedId plan) (fr_now fr)) (seeds (fr_seedId fr) ranked),
         t_audit := t_audit db @ [audit]\<rparr>"
    using commit by (auto simp: create_commit_def Let_def ap_audit_def audit_log_def)
  have row: "ap_state (pv_row v) = ip_state plan" "ap_activeCandidateId (pv_row v) = ip_activeSeedId plan"
    "ap_expiresAt (pv_row v) = ip_expiresAt plan" "ap_owningUnitId (pv_row v) = Some (em_unitId e)"
    "ap_vacatedEmployeeId (pv_row v) = em_id e"
    using s(2) by (auto simp: v proposal_data_def findEmployee_def dest: find_row_SomeD)
  have d: "distinct (map rc_employeeId ranked)" by (rule rank_distinct [OF port emps r])
  have "ip_state plan = initial_state (ac_autonomyLevel (unit_config db (em_unitId e))) ranked \<and>
      (ip_state plan = AI_PENDING_EMPLOYEE_CONSENT \<longrightarrow>
         (\<exists>k < length ranked. find (\<lambda>c. rc_feasible c \<and> rc_reachable c) ranked = Some (ranked ! k) \<and>
            ip_activeSeedId plan = Some (fr_seedId fr k) \<and>
            ip_expiresAt plan = Some (fr_clock fr + ac_consentTtlHours (unit_config db (em_unitId e)) * 60 * 60 * 1000)))"
    using plan d
  proof (cases rule: plan_initial_cases)
    case escalated
    moreover have "ac_autonomyLevel (unit_config db (em_unitId e)) \<in> {SUGGEST_ONLY, AUTO_NOTIFY} \<Longrightarrow> \<not> list_ex rc_feasible ranked"
      using plan escalated(1) by (auto simp: plan_initial_def Let_def filter_empty_conv list_ex_iff split: if_splits)
    ultimately show ?thesis
      by (auto simp: initial_state_def list_ex_iff list_all_iff)
  next
    case draft
    then show ?thesis by (auto simp: initial_state_def list_ex_iff filter_empty_conv)
  next
    case (asking k)
    then show ?thesis by (auto simp: initial_state_def list_ex_iff intro: exI [of _ k])
  qed
  with s scope r row db' show ?thesis
    by (intro exI [of _ shift] exI [of _ e] exI [of _ ranked]) simp
qed

text \<open>The manager asks for a replacement for \<open>s1\<close>; \<open>e2\<close> is asked at once.\<close>

definition sample_fresh :: fresh where
  "sample_fresh =
     \<lparr>fr_proposalId = ''p1'', fr_seedId = (\<lambda>k. CHR ''c'' # replicate k CHR ''x''), fr_clock = 0, fr_now = 0\<rparr>"

lemma sample_created:
  "createReplacement allow_all_validate sample_fresh manager1 ''s1'' None (sample_db SW_DRAFT) =
     create_commit sample_fresh manager1 (sample_shift ''s1'' ''e1'' 4) ''u1'' None [sample_ranked]
       \<lparr>ip_state = AI_PENDING_EMPLOYEE_CONSENT, ip_auditAction = ''ai_proposal.created'', ip_escalationReason = None,
        ip_activeSeedId = Some ''c'', ip_expiresAt = Some (24 * 60 * 60 * 1000), ip_costCandidate = Some sample_ranked\<rparr>
       None (sample_db SW_DRAFT)"
proof -
  have steps: "find_row sh_id ''s1'' (t_shifts (sample_db SW_DRAFT)) = Some (sample_shift ''s1'' ''e1'' 4)"
    "findEmployee (sample_db SW_DRAFT) ''e1'' = Some (sample_employee ''e1'' (Some ''a1'') ''u1'')"
    "isGlobal (act_roles manager1) = False" "managedUnitIds (sample_db SW_DRAFT) (act_userId manager1) = [''u1'']"
    "fst (getConfig manager1 (Some ''u1'') (sample_db SW_DRAFT)) = Inr (defaultConfig [] (Some ''u1''))"
    "computeEstimatedCost (sample_db SW_DRAFT) (sample_shift ''s1'' ''e1'' 4) ''e2'' ''e1'' = None"
    "sh_employeeId (sample_shift ''s1'' ''e1'' 4) = ''e1''" "em_unitId (sample_employee ''e1'' (Some ''a1'') ''u1'') = ''u1''"
    "rc_employeeId sample_ranked = ''e2''"
    by code_simp+
  have plan: "plan_initial sample_fresh (defaultConfig [] (Some ''u1'')) [sample_ranked] =
      Inr \<lparr>ip_state = AI_PENDING_EMPLOYEE_CONSENT, ip_auditAction = ''ai_proposal.created'', ip_escalationReason = None,
        ip_activeSeedId = Some ''c'', ip_expiresAt = Some (24 * 60 * 60 * 1000), ip_costCandidate = Some sample_ranked\<rparr>"
    by (simp add: plan_initial_def asking_plan_def sample_ranked_def seeds_def sample_fresh_def defaultConfig_def)
  have config: "getConfig manager1 (Some ''u1'') (sample_db SW_DRAFT) =
      (Inr (defaultConfig [] (Some ''u1'')), sample_db SW_DRAFT)"
    using steps(5) getConfig_read_only [of manager1 "Some ''u1''"] by (metis prod.collapse read_only_def)
  have rank: "rankCandidatesForShift allow_all_validate
        \<lparr>rk_shift = sample_shift ''s1'' ''e1'' 4, rk_unitId = Some ''u1'', rk_lokalizacja = None\<rparr> DEFAULT_TRAVEL_POLICY
        (sample_db SW_DRAFT) = (Inr [sample_ranked], sample_db SW_DRAFT)"
    by (rule sample_ranking_any) (simp_all add: rank_unit_def)
  note run = bnd_eq_Inr [of "rankCandidatesForShift allow_all_validate rs DEFAULT_TRAVEL_POLICY" for rs, OF rank]
    bnd_eq_Inr [of "getConfig manager1 (Some ''u1'')", OF config]
  show ?thesis
    by (simp add: createReplacement_def shift_scope_def steps bnd_assoc run plan)
qed

theorem createReplacement_gated_witness:
  "\<exists>v db'. createReplacement allow_all_validate sample_fresh manager1 ''s1'' None (sample_db SW_DRAFT) = (Inr v, db') \<and>
     ap_state (pv_row v) = AI_PENDING_EMPLOYEE_CONSENT \<and> ap_owningUnitId (pv_row v) = Some ''u1'' \<and>
     (\<exists>audit. t_audit db' = t_audit (sample_db SW_DRAFT) @ [audit])"
proof -
  obtain v db' where run: "createReplacement allow_all_validate sample_fresh manager1 ''s1'' None (sample_db SW_DRAFT) = (Inr v, db')"
    and st: "ap_state (pv_row v) = AI_PENDING_EMPLOYEE_CONSENT" "ap_owningUnitId (pv_row v) = Some ''u1''"
    unfolding sample_created by (simp add: create_commit_def Let_def ap_audit_def audit_log_def proposal_data_def)
  have "distinct (map em_id (t_employees (sample_db SW_DRAFT)))" "inj (fr_seedId sample_fresh)"
    by (simp_all add: sample_defs sample_fresh_def inj_def)
  from createReplacement_gated [OF allow_all.feasibility_port_axioms this run]
  have "\<exists>audit. t_audit db' = t_audit (sample_db SW_DRAFT) @ [audit]" by (elim exE conjE) simp
  with run st show ?thesis by blast
qed

end
