(* ===== verification/AiProposalLife.thy ===== *)
theory AiProposalLife
  imports AiProposalCreate
begin

text \<open>
  The life of a proposal under whole requests: which ones move a shift, how a late answer and how a chain of
  refusals ends. The interleaving of the write halves is the subject of \<open>AiProposalRace\<close>.
\<close>

section \<open>Who moves a shift\<close>

lemmas ap_commit_defs = request_commit_def escalate_draft_def expire_commit_def accept_commit_def
  decline_next_commit_def decline_last_commit_def reject_commit_def create_commit_def updateCandidate_def Let_def

lemma commits_keep_shifts:
  "preserves (\<lambda>db. t_shifts db = S) (request_commit act now p c st t)"
  "preserves (\<lambda>db. t_shifts db = S) (escalate_draft act p)"
  "preserves (\<lambda>db. t_shifts db = S) (expire_commit act p)"
  "preserves (\<lambda>db. t_shifts db = S) (accept_commit act now p c st)"
  "preserves (\<lambda>db. t_shifts db = S) (decline_next_commit now p c n st)"
  "preserves (\<lambda>db. t_shifts db = S) (decline_last_commit act p c st)"
  "preserves (\<lambda>db. t_shifts db = S) (reject_commit act p st)"
  "preserves (\<lambda>db. t_shifts db = S) (create_commit fr act s u reason ranked plan cost)"
  by (simp_all add: preserves_iff_wp ap_commit_defs svc_wp split: option.splits)

lemma audit_keeps_shifts: "preserves (\<lambda>db. t_shifts db = S) (audit_log a b c i pl ip)"
  by (simp add: preserves_iff_wp audit_log_def svc_wp)

lemma config_keeps_shifts: "preserves (\<lambda>db. t_shifts db = S) (upsertConfig newId act dto)"
proof -
  have "preserves (\<lambda>db. t_shifts db = S) (config_write newId before d)" for before d
    by (auto simp: preserves_iff_wp config_write_def config_update_def config_create_def svc_wp split: option.splits)
  then show ?thesis
    unfolding upsertConfig_def
    by (intro preserves_bnd preserves_basic audit_keeps_shifts preserves_read_only [OF config_scope_read_only])
qed

lemma methods_keep_shifts:
  "preserves (\<lambda>db. t_shifts db = S) (requestConsent act now i)"
  "preserves (\<lambda>db. t_shifts db = S) (expireIfStale clock act v)"
  "preserves (\<lambda>db. t_shifts db = S) (employeeConsent clock now act i accept)"
  "preserves (\<lambda>db. t_shifts db = S) (ap_getById clock act i)"
  "preserves (\<lambda>db. t_shifts db = S) (ap_list clock act mine state)"
proof -
  show ex: "preserves (\<lambda>db. t_shifts db = S) (expireIfStale clock act v)" for clock v
    by (simp add: expireIfStale_def commits_keep_shifts preserves_basic)
  show "preserves (\<lambda>db. t_shifts db = S) (requestConsent act now i)"
    unfolding requestConsent_def
    by (auto intro!: preserves_bnd preserves_basic commits_keep_shifts preserves_read_only [OF getConfig_read_only]
        preserves_read_only [OF loadProposal_read_only] preserves_read_only [OF loaded_scope_read_only] split: option.splits)
  show "preserves (\<lambda>db. t_shifts db = S) (employeeConsent clock now act i accept)"
    unfolding employeeConsent_def consent_checks_def consent_answer_def
    by (auto intro!: preserves_bnd preserves_basic commits_keep_shifts ex preserves_read_only [OF myEmployeeId_read_only]
        preserves_read_only [OF loadProposal_read_only] split: option.splits)
  show "preserves (\<lambda>db. t_shifts db = S) (ap_getById clock act i)"
    unfolding ap_getById_def
    by (auto intro!: preserves_bnd preserves_basic ex preserves_read_only [OF myEmployeeId_read_only]
        preserves_read_only [OF loadProposal_read_only] split: option.splits)
  show "preserves (\<lambda>db. t_shifts db = S) (ap_list clock act mine state)"
    unfolding ap_list_def list_managed_def list_mine_def
    by (auto intro!: preserves_bnd preserves_basic preserves_mapM ex preserves_read_only [OF myEmployeeId_read_only]
        split: option.splits)
qed

lemma create_keeps_shifts:
  assumes port: "feasibility_port validate"
  shows "preserves (\<lambda>db. t_shifts db = S) (createReplacement validate fr act shiftId reason)"
  unfolding createReplacement_def shift_scope_def
  by (auto intro!: preserves_bnd preserves_basic commits_keep_shifts preserves_read_only [OF getConfig_read_only]
      preserves_read_only [OF rank_read_only [OF port]])

text \<open>What an approving decision on proposal \<open>i\<close> has checked, and what it did.\<close>

definition ai_reassigned :: "validator \<Rightarrow> actor \<Rightarrow> id \<Rightarrow> tenant_db \<Rightarrow> tenant_db \<Rightarrow> bool" where
  "ai_reassigned validate act i db db' \<longleftrightarrow>
     (\<exists>p c d. findProposal db i = Some p \<and> ap_state p = AI_PENDING_MANAGER \<and>
        (isGlobal (act_roles act) \<or> ap_owningUnitId p \<in> Some ` set (managedUnitIds db (act_userId act))) \<and>
        loaded_candidate db p c \<and> ap_activeCandidateId p = Some (ca_id c) \<and> ca_consentState c = GRANTED \<and>
        validate (give_away_query (ap_shiftId p) (ap_vacatedEmployeeId p) (ca_employeeId c)) db = (Inr d, db) \<and>
        fd_feasible d \<and>
        t_shifts db' = update_rows (\<lambda>s. sh_id s = ap_shiftId p \<and> sh_employeeId s = ap_vacatedEmployeeId p)
          (\<lambda>s. s\<lparr>sh_employeeId := ca_employeeId c\<rparr>) (t_shifts db) \<and>
        t_proposals db' = update_rows (\<lambda>r. ap_id r = i \<and> ap_state r = AI_PENDING_MANAGER)
          (\<lambda>r. r\<lparr>ap_state := AI_APPROVED, ap_decidedByManagerId := Some (act_userId act)\<rparr>) (t_proposals db))"

lemma approve_commit_wp:
  "wp (ap_approve_commit act p chosen) (\<lambda>_ db'. db' = db \<or> R db') (\<lambda>_ db'. db' = db \<or> R db') db"
  if "\<And>db' :: tenant_db. t_shifts db' = update_rows (\<lambda>s. sh_id s = ap_shiftId p \<and> sh_employeeId s = ap_vacatedEmployeeId p)
          (\<lambda>s. s\<lparr>sh_employeeId := chosen\<rparr>) (t_shifts db) \<Longrightarrow>
        t_proposals db' = update_rows (\<lambda>r. ap_id r = ap_id p \<and> ap_state r = AI_PENDING_MANAGER)
          (\<lambda>r. r\<lparr>ap_state := AI_APPROVED, ap_decidedByManagerId := Some (act_userId act)\<rparr>) (t_proposals db) \<Longrightarrow> R db'"
  using that by (auto simp: ap_approve_commit_def svc_wp Let_def split: option.splits)

lemma managerDecision_reassigns:
  assumes port: "feasibility_port validate"
  shows "wp (ap_managerDecision validate act i True) (\<lambda>_ db'. db' = db \<or> ai_reassigned validate act i db db')
    (\<lambda>_ db'. db' = db \<or> ai_reassigned validate act i db db') db"
proof -
  let ?R = "\<lambda>_ db'. db' = db \<or> ai_reassigned validate act i db db'"
  have step: "wp (validate (give_away_query (ap_shiftId p) (ap_vacatedEmployeeId p) (ca_employeeId c)))
      (\<lambda>feas. wp (ensure (fd_feasible feas) (msg feas)) (\<lambda>_. wp (ap_approve_commit act p (ca_employeeId c)) ?R ?R) ?R) ?R db"
    if "findProposal db i = Some p" "ap_state p = AI_PENDING_MANAGER"
      "isGlobal (act_roles act) \<or> ap_owningUnitId p \<in> Some ` set (managedUnitIds db (act_userId act))"
      "active_candidate (view_of db p) = Some c" "ca_consentState c = GRANTED" for p c msg
  proof (rule wp_read_only_Inr [OF feasibility_port.validate_read_only [OF port]])
    fix d
    assume d: "validate (give_away_query (ap_shiftId p) (ap_vacatedEmployeeId p) (ca_employeeId c)) db = (Inr d, db)"
    have "wp (ap_approve_commit act p (ca_employeeId c)) ?R ?R db" if "fd_feasible d"
    proof (rule approve_commit_wp)
      fix db' :: tenant_db
      assume "t_shifts db' = update_rows (\<lambda>s. sh_id s = ap_shiftId p \<and> sh_employeeId s = ap_vacatedEmployeeId p)
          (\<lambda>s. s\<lparr>sh_employeeId := ca_employeeId c\<rparr>) (t_shifts db)"
        "t_proposals db' = update_rows (\<lambda>r. ap_id r = ap_id p \<and> ap_state r = AI_PENDING_MANAGER)
          (\<lambda>r. r\<lparr>ap_state := AI_APPROVED, ap_decidedByManagerId := Some (act_userId act)\<rparr>) (t_proposals db)"
      then show "ai_reassigned validate act i db db'"
        unfolding ai_reassigned_def
        using \<open>findProposal db i = Some p\<close> \<open>ap_state p = _\<close> \<open>isGlobal _ \<or> _\<close> \<open>ca_consentState c = _\<close> d that
          active_candidate_SomeD [OF \<open>active_candidate _ = _\<close>] findProposal_loaded [OF \<open>findProposal db i = Some p\<close>]
        by (intro exI [of _ p] exI [of _ c] exI [of _ d]) simp
    qed
    then show "wp (ensure (fd_feasible d) (msg d)) (\<lambda>_. wp (ap_approve_commit act p (ca_employeeId c)) ?R ?R) ?R db"
      by (simp add: wp_ensure)
  qed simp
  show ?thesis
    unfolding ap_managerDecision_def owning_scope_def
    by (auto simp: wp_bnd wp_load wp_if wp_ret wp_asks wp_ensure wp_require wp_lift_sum split: option.splits intro: step)
qed

text \<open>
  C12. The human in the loop. The only request of the whole proposal API that changes a shift is an
  approving decision, by a global role or a manager of the unit that owns the proposal, on a proposal
  that waits for a manager; the shift goes to the active candidate, who has agreed and whom the
  validator has accepted again, and only if the employee who left it still holds it; and the proposal
  becomes approved with it.
\<close>

theorem shift_moves_with_consent:
  assumes port: "feasibility_port validate" and run: "ai_handle validate now act req db = (r, db')"
    and moved: "t_shifts db' \<noteq> t_shifts db"
  shows "\<exists>i. req = ArManagerDecision i True \<and> ai_reassigned validate act i db db'"
proof -
  have other: thesis if "preserves (\<lambda>x. t_shifts x = t_shifts db) (ai_handle validate now act req)" for thesis
    using preservesD [OF that _ run] moved by simp
  show ?thesis
  proof (cases req)
    case (ArManagerDecision i approve)
    show ?thesis
    proof (cases approve)
      case True
      let ?m = "bnd (ap_managerDecision validate act i True) (\<lambda>r. ret (RsProposal r))"
      from run moved ArManagerDecision True have m: "?m db = (r, db')"
        using guarded_cases [of CONFIG_ROLES act ?m db] by auto
      let ?R = "\<lambda>_ db'. db' = db \<or> ai_reassigned validate act i db db'"
      have "wp ?m ?R ?R db"
        unfolding wp_bnd by (rule wp_mono [OF managerDecision_reassigns [OF port]]) (simp_all add: wp_ret)
      with m have "db' = db \<or> ai_reassigned validate act i db db'"
        by (cases r) (auto simp: wp_def)
      with moved True ArManagerDecision show ?thesis by auto
    next
      case False
      show ?thesis
      proof (rule other)
        show "preserves (\<lambda>x. t_shifts x = t_shifts db) (ai_handle validate now act req)"
          using False ArManagerDecision
          by (auto simp: ap_managerDecision_def intro!: preserves_guarded preserves_bnd preserves_basic commits_keep_shifts
              preserves_read_only [OF loadProposal_read_only] preserves_read_only [OF loaded_scope_read_only])
      qed
    qed
  qed (rule other, auto intro!: preserves_guarded preserves_bnd preserves_basic methods_keep_shifts create_keeps_shifts
      config_keeps_shifts port preserves_read_only [OF getConfig_read_only]
      preserves_read_only [OF findVacatedShifts_read_only])+
qed

theorem shift_moves_with_consent_witness:
  "\<exists>r db'. ai_handle allow_all_validate 0 manager1 (ArManagerDecision ''p1'' True) agreed_db = (r, db') \<and>
     t_shifts db' \<noteq> t_shifts agreed_db \<and> ai_reassigned allow_all_validate manager1 ''p1'' agreed_db db'"
proof -
  let ?m = "guarded CONFIG_ROLES manager1
    (bnd (ap_managerDecision allow_all_validate manager1 ''p1'' True) (\<lambda>r. ret (RsProposal r)))"
  have "map sh_employeeId (t_shifts (snd (?m agreed_db))) = [''e2'', ''e2'']"
    "map sh_employeeId (t_shifts agreed_db) = [''e1'', ''e2'']"
    by code_simp+
  then have moved: "t_shifts (snd (?m agreed_db)) \<noteq> t_shifts agreed_db" by auto
  have run: "ai_handle allow_all_validate 0 manager1 (ArManagerDecision ''p1'' True) agreed_db =
      (fst (?m agreed_db), snd (?m agreed_db))" by simp
  from shift_moves_with_consent [OF allow_all.feasibility_port_axioms run moved]
  have "ai_reassigned allow_all_validate manager1 ''p1'' agreed_db (snd (?m agreed_db))" by auto
  with run moved show ?thesis by (intro exI conjI)
qed

section \<open>Late answers and refusals\<close>

lemma findProposal_update:
  "\<forall>r. ap_id (f r) = ap_id r \<Longrightarrow>
   findProposal (put_proposals (update_rows P f (t_proposals db)) db) i =
     map_option (\<lambda>r. if P r then f r else r) (findProposal db i)"
  by (simp add: findProposal_def find_row_update_rows)

lemma findProposal_audit [simp]: "findProposal (db\<lparr>t_audit := a\<rparr>) i = findProposal db i"
  by (simp add: findProposal_def)

text \<open>
  C13. An answer after the time is up never counts, whatever it is and whoever gives it: it is refused,
  and it escalates the proposal, with nobody active any more. No consent and no shift is changed.
\<close>

theorem late_answer_refused:
  assumes p: "findProposal db i = Some p" "ap_state p = AI_PENDING_EMPLOYEE_CONSENT"
    and late: "ap_expiresAt p = Some t" "t < clock"
  shows "\<exists>db'. employeeConsent clock now act i accept db = (Inl (ConflictException ''consent request expired''), db') \<and>
     findProposal db' i = Some (p\<lparr>ap_state := AI_ESCALATED, ap_activeCandidateId := None\<rparr>) \<and>
     t_candidates db' = t_candidates db \<and> t_shifts db' = t_shifts db"
proof -
  have stale: "isStaleConsent clock p" using p late by (simp add: isStaleConsent_def)
  have id: "ap_id p = i" using findProposal_loaded [OF p(1)] by simp
  have "wp (employeeConsent clock now act i accept) (\<lambda>_ _. False)
     (\<lambda>e db'. e = ConflictException ''consent request expired'' \<and>
        findProposal db' i = Some (p\<lparr>ap_state := AI_ESCALATED, ap_activeCandidateId := None\<rparr>) \<and>
        t_candidates db' = t_candidates db \<and> t_shifts db' = t_shifts db) db"
    using p stale id
    by (simp add: employeeConsent_def expireIfStale_def expire_commit_def svc_wp findProposal_update)
  then show ?thesis by (auto simp: wp_def split: prod.splits sum.splits)
qed

theorem late_answer_refused_witness:
  "\<exists>db'. employeeConsent 1001 1001 worker2 ''p1'' True pending_db =
     (Inl (ConflictException ''consent request expired''), db') \<and>
   findProposal db' ''p1'' = Some (sample_proposal AI_ESCALATED None)"
proof -
  have "findProposal pending_db ''p1'' = Some (sample_proposal AI_PENDING_EMPLOYEE_CONSENT (Some ''c2''))" by code_simp
  from late_answer_refused [OF this, of 1000 1001 1001 worker2 True] show ?thesis
    by (auto simp: sample_proposal_def)
qed

text \<open>The candidates who can still be asked.\<close>

definition remaining :: "tenant_db \<Rightarrow> id \<Rightarrow> nat" where
  "remaining db i = length (filter (\<lambda>c. ca_feasible c \<and> ca_consentState c = NOT_ASKED) (candidates_of db i))"

lemma filter_update_rows:
  assumes "\<And>r. ca_proposalId (f r) = ca_proposalId r"
  shows "filter (\<lambda>c. ca_proposalId c = i) (update_rows P f cs) = update_rows P f (filter (\<lambda>c. ca_proposalId c = i) cs)"
  using assms by (simp add: update_rows_def filter_map_same)

lemma candidates_of_put_candidates: "candidates_of (put_candidates cs db) i = filter (\<lambda>c. ca_proposalId c = i) cs"
  by (simp add: candidates_of_def)

lemma candidates_of_put [simp]:
  "candidates_of (put_proposals ps db) i = candidates_of db i" "candidates_of (db\<lparr>t_audit := a\<rparr>) i = candidates_of db i"
  by (simp_all add: candidates_of_def)

lemma filter_update_away:
  assumes "\<And>r. r \<in> set cs \<Longrightarrow> ca_id r = k \<Longrightarrow> \<not> P r" and "\<And>r. \<not> P (f r)"
  shows "filter P (update_rows (\<lambda>r. ca_id r = k) f cs) = filter P cs"
  using assms by (induction cs) auto

lemma filter_update_one:
  assumes "distinct (map ca_id cs)" and "n \<in> set cs" and "P n" and "\<And>r. \<not> P (f r)"
  shows "Suc (length (filter P (update_rows (\<lambda>r. ca_id r = ca_id n) f cs))) = length (filter P cs)"
  using assms(1,2)
proof (induction cs)
  case (Cons c cs)
  show ?case
  proof (cases "c = n")
    case True
    then have "update_rows (\<lambda>r. ca_id r = ca_id n) f cs = cs"
      using Cons.prems(1) by (auto simp: update_rows_def rev_image_eqI intro!: map_idI)
    with True assms(3,4) show ?thesis by simp
  next
    case False
    with Cons.prems have "n \<in> set cs" "ca_id c \<noteq> ca_id n" by (auto simp: rev_image_eqI)
    with Cons False show ?thesis by auto
  qed
qed simp

text \<open>A refusal promotes the next one, or escalates when there is none.\<close>

definition refused :: "tenant_db \<Rightarrow> id \<Rightarrow> tenant_db \<Rightarrow> bool" where
  "refused db i db' \<longleftrightarrow> (\<exists>p. findProposal db' i = Some p \<and>
     (if remaining db i = 0 then ap_state p = AI_ESCALATED
      else ap_state p = AI_PENDING_EMPLOYEE_CONSENT \<and> Suc (remaining db' i) = remaining db i))"

lemma decline_step:
  assumes ok: "proposals_ok db" and run: "employeeConsent clock now act i False db = (Inr v, db')"
  shows "refused db i db'"
proof -
  let ?Q = "\<lambda>_. refused db i"
  have answer: "wp (consent_answer act now (view_of db p) c False) ?Q (\<lambda>_ _. True) db"
    if p: "findProposal db i = Some p" "ap_state p = AI_PENDING_EMPLOYEE_CONSENT"
      and c: "active_candidate (view_of db p) = Some c" "ca_consentState c = CS_PENDING" for p c
  proof -
    have id: "ap_id p = i" and ld: "loaded db p" using findProposal_loaded [OF p(1)] by auto
    have lc: "loaded_candidate db p c" using active_candidate_SomeD [OF c(1)] by simp
    note cs = loaded_facts(2) [OF ok ld, unfolded id] loaded_facts(3) [OF ok ld, unfolded id]
    have c_away: "\<not> (ca_feasible r \<and> ca_consentState r = NOT_ASKED)" if "r \<in> set (candidates_of db i)" "ca_id r = ca_id c" for r
      using same_id [OF cs(1) that(1) _ that(2)] lc cs(2) c(2) by auto
    show ?thesis
    proof (cases "pickNextFeasibleCandidate (candidates_of db i)")
      case None
      then have "remaining db i = 0"
        unfolding pickNext_None_iff by (simp add: remaining_def list_all_iff filter_empty_conv)
      with None p id show ?thesis
        by (auto simp: consent_answer_def refused_def decline_last_commit_def updateCandidate_def svc_wp Let_def
            findProposal_update [simplified] findProposal_def find_row_update_rows loaded_found [OF ok lc]
            split: option.splits)
    next
      case (Some n)
      note n = pickNext_SomeD [OF Some]
      have ne: "ca_id n \<noteq> ca_id c" using c_away n by blast
      let ?cs = "update_rows (\<lambda>r. ca_id r = ca_id c) decline_candidate (candidates_of db i)"
      have away: "filter (\<lambda>c. ca_feasible c \<and> ca_consentState c = NOT_ASKED) ?cs =
          filter (\<lambda>c. ca_feasible c \<and> ca_consentState c = NOT_ASKED) (candidates_of db i)"
        using c_away by (intro filter_update_away) (auto simp: decline_candidate_def)
      have d: "distinct (map ca_id ?cs)" using cs(1) by (simp add: map_update_rows decline_candidate_def)
      have "n \<in> set ?cs" using n ne by (auto simp: set_update_rows)
      from filter_update_one [OF d this, of "\<lambda>c. ca_feasible c \<and> ca_consentState c = NOT_ASKED" "ask_candidate now"] n away
      have less: "Suc (length (filter (\<lambda>c. ca_feasible c \<and> ca_consentState c = NOT_ASKED)
            (update_rows (\<lambda>r. ca_id r = ca_id n) (ask_candidate now) ?cs))) = remaining db i"
        by (simp add: ask_candidate_def remaining_def)
      then have "remaining db i \<noteq> 0" by linarith
      with less Some p id show ?thesis
        by (auto simp: consent_answer_def refused_def decline_next_commit_def updateCandidate_def svc_wp Let_def remaining_def
            candidates_of_put_candidates filter_update_rows candidates_of_def [of db, symmetric] decline_candidate_def ask_candidate_def
            findProposal_def find_row_update_rows loaded_found [OF ok lc] split: option.splits)
    qed
  qed
  have "wp (employeeConsent clock now act i False) ?Q (\<lambda>_ _. True) db"
    unfolding employeeConsent_def consent_checks_def
    by (auto simp: wp_bnd wp_load wp_if wp_throw [abs_def] myEmployeeId_def wp_ensure wp_asks wp_require wp_ret expireIfStale_def
        wp_mono split: option.splits if_splits intro: answer)
  with run show ?thesis by (auto dest: wp_InrD)
qed

definition decline_all :: "id \<Rightarrow> (int \<times> int \<times> actor) list \<Rightarrow> proposal_view list tx" where
  "decline_all i answers = mapM (\<lambda>(clock, now, act). employeeConsent clock now act i False) answers"

lemma escalated_stuck:
  assumes "findProposal db i = Some p" and "ap_state p = AI_ESCALATED"
  shows "employeeConsent clock now act i accept db =
    (Inl (ConflictException ''Proposal is not awaiting employee consent''), db)"
  using assms by (simp add: employeeConsent_def loadProposal_def bnd_assoc isStaleConsent_def consent_checks_def)

text \<open>
  C14. Asking ends. When everybody who is asked refuses, every refusal uses up one candidate: there is at
  most one refusal of the candidate who is being asked now and one for each feasible candidate who was left to
  ask, so one more than were left, and the last of them escalates the proposal.
\<close>

theorem refusals_end:
  assumes "proposals_ok db" and "decline_all i answers db = (Inr vs, db')"
  shows "length answers \<le> Suc (remaining db i) \<and>
     (length answers = Suc (remaining db i) \<longrightarrow>
        (\<exists>p. findProposal db' i = Some p \<and> ap_state p = AI_ESCALATED))"
  using assms
proof (induction answers arbitrary: db vs)
  case Nil
  then show ?case by simp
next
  case (Cons a answers)
  obtain clock now act where a: "a = (clock, now, act)" by (cases a)
  from Cons.prems(2) obtain v db1 where one: "employeeConsent clock now act i False db = (Inr v, db1)"
    and rest: "bnd (decline_all i answers) (\<lambda>vs. ret (v # vs)) db1 = (Inr vs, db')"
    by (auto simp: decline_all_def a elim: bnd_InrE)
  from rest obtain ws where rest: "decline_all i answers db1 = (Inr ws, db')"
    by (auto simp: bnd_ret_Inr)
  have ok1: "proposals_ok db1" using preservesD [OF employeeConsent_ok Cons.prems(1) one] .
  obtain p where p: "findProposal db1 i = Some p" "if remaining db i = 0 then ap_state p = AI_ESCALATED
      else ap_state p = AI_PENDING_EMPLOYEE_CONSENT \<and> Suc (remaining db1 i) = remaining db i"
    using decline_step [OF Cons.prems(1) one] by (auto simp: refused_def)
  show ?case
  proof (cases "remaining db i = 0")
    case True
    with p have "ap_state p = AI_ESCALATED" by simp
    then have "answers = []"
      using rest escalated_stuck [OF p(1)] by (cases answers) (auto simp: decline_all_def bnd_def split: prod.splits)
    with rest p True show ?thesis by (auto simp: decline_all_def)
  next
    case False
    with p Cons.IH [OF ok1 rest] show ?thesis by simp
  qed
qed

theorem refusals_end_witness:
  "\<exists>vs db'. decline_all ''p1'' [(0, 0, worker2), (0, 0, worker3)] pending_db = (Inr vs, db') \<and>
     (\<exists>p. findProposal db' ''p1'' = Some p \<and> ap_state p = AI_ESCALATED)"
proof -
  have "(case fst (decline_all ''p1'' [(0, 0, worker2), (0, 0, worker3)] pending_db) of Inl _ \<Rightarrow> False | Inr _ \<Rightarrow> True)"
    by code_simp
  then obtain vs db' where run: "decline_all ''p1'' [(0, 0, worker2), (0, 0, worker3)] pending_db = (Inr vs, db')"
    by (cases "decline_all ''p1'' [(0, 0, worker2), (0, 0, worker3)] pending_db") (auto split: sum.splits)
  have "remaining pending_db ''p1'' = 1" by code_simp
  with refusals_end [OF sample_ai_ok(1) run] run show ?thesis by auto
qed

end
