(* ===== verification/AiProposalRace.thy ===== *)
theory AiProposalRace
  imports AiProposalLife
begin

text \<open>
  Proposals under every interleaving of the write halves of the service. A write half carries the
  proposal and the candidates its method has read; the database may have changed since. The guarded
  writes keep every proposal on a path of the transition table and never touch its shift, its former
  holder or its owning unit. Two executions show what the guards leave open.
\<close>

section \<open>Interleaved writes\<close>

inductive ai_write :: "tenant_db \<Rightarrow> tenant_db \<Rightarrow> bool" where
  aw_create: "create_commit fr act s u reason ranked plan cost db = (r, db') \<Longrightarrow>
    fr_proposalId fr \<notin> ap_id ` set (t_proposals db) \<Longrightarrow> ai_write db db'"
| aw_request: "request_commit act now p c AI_PENDING_EMPLOYEE_CONSENT t db = (r, db') \<Longrightarrow> ai_write db db'"
| aw_escalate: "escalate_draft act p db = (r, db') \<Longrightarrow> ai_write db db'"
| aw_expire: "expire_commit act p db = (r, db') \<Longrightarrow> ai_write db db'"
| aw_accept: "accept_commit act now p c AI_PENDING_MANAGER db = (r, db') \<Longrightarrow> ai_write db db'"
| aw_decline_next: "decline_next_commit now p c n AI_PENDING_EMPLOYEE_CONSENT db = (r, db') \<Longrightarrow> ai_write db db'"
| aw_decline_last: "decline_last_commit act p c AI_ESCALATED db = (r, db') \<Longrightarrow> ai_write db db'"
| aw_approve: "ap_approve_commit act p chosen db = (r, db') \<Longrightarrow> ai_write db db'"
| aw_env: "t_proposals db' = t_proposals db \<Longrightarrow> ai_write db db'"

inductive_cases ai_writeE: "ai_write db db'"

text \<open>What may happen to one proposal.\<close>

definition ap_moves :: "ai_proposal_row \<Rightarrow> ai_proposal_row \<Rightarrow> bool" where
  "ap_moves r r' \<longleftrightarrow>
     ap_id r' = ap_id r \<and> ap_shiftId r' = ap_shiftId r \<and> ap_vacatedEmployeeId r' = ap_vacatedEmployeeId r \<and>
     ap_owningUnitId r' = ap_owningUnitId r \<and> ap_estimatedCost r' = ap_estimatedCost r \<and>
     (\<exists>as. ai_machine.run (ap_state r) as = Some (ap_state r'))"

lemma ap_moves_refl [simp, intro]: "ap_moves r r"
  unfolding ap_moves_def by (auto intro: exI [of _ "[]"])

lemma run_trans:
  "ai_machine.run a xs = Some b \<Longrightarrow> ai_machine.run b ys = Some c \<Longrightarrow> ai_machine.run a (xs @ ys) = Some c"
  by (simp add: ai_machine.run_append)

lemma ap_moves_trans: "ap_moves r s \<Longrightarrow> ap_moves s t \<Longrightarrow> ap_moves r t"
  unfolding ap_moves_def using run_trans by fastforce

lemma ap_movesI:
  assumes "ap_id r' = ap_id r" "ap_shiftId r' = ap_shiftId r" "ap_vacatedEmployeeId r' = ap_vacatedEmployeeId r"
    "ap_owningUnitId r' = ap_owningUnitId r" "ap_estimatedCost r' = ap_estimatedCost r"
    and "ai_machine.run (ap_state r) as = Some (ap_state r')"
  shows "ap_moves r r'"
  using assms by (auto simp: ap_moves_def)

definition aps_move :: "ai_proposal_row list \<Rightarrow> ai_proposal_row list \<Rightarrow> bool" where
  "aps_move ps ps' \<longleftrightarrow> list_all2 ap_moves ps (take (length ps) ps')"

lemma aps_move_refl [simp]: "aps_move ps ps"
  by (simp add: aps_move_def list_all2_refl)

lemma aps_move_append [simp]: "aps_move ps (ps @ qs)"
  by (simp add: aps_move_def list_all2_refl)

lemma aps_move_update: "(\<And>r. P r \<Longrightarrow> ap_moves r (f r)) \<Longrightarrow> aps_move ps (update_rows P f ps)"
  by (simp add: aps_move_def update_rows_def list_all2_conv_all_nth)

lemma aps_move_trans:
  assumes "aps_move ps qs" and "aps_move qs rs"
  shows "aps_move ps rs"
proof -
  have len: "length ps \<le> length qs" using assms(1) by (auto simp: aps_move_def dest!: list_all2_lengthD)
  have "list_all2 ap_moves (take (length ps) qs) (take (length ps) rs)"
    using list_all2_takeI [OF assms(2) [unfolded aps_move_def], of "length ps"] len by (simp add: min_def)
  from list_all2_trans [OF ap_moves_trans assms(1) [unfolded aps_move_def] this] show ?thesis
    by (simp add: aps_move_def)
qed

lemma flip_moves:
  "(\<And>r. ap_state r = AI_DRAFT \<Longrightarrow> ap_moves r (r\<lparr>ap_state := AI_PENDING_EMPLOYEE_CONSENT, ap_activeCandidateId := a, ap_expiresAt := t\<rparr>))"
  "(\<And>r. ap_state r = AI_DRAFT \<Longrightarrow> ap_moves r (r\<lparr>ap_state := AI_ESCALATED\<rparr>))"
  "(\<And>r. ap_state r = AI_PENDING_EMPLOYEE_CONSENT \<Longrightarrow> ap_moves r (r\<lparr>ap_state := AI_ESCALATED, ap_activeCandidateId := None\<rparr>))"
  "(\<And>r. ap_state r = AI_PENDING_EMPLOYEE_CONSENT \<Longrightarrow> ap_moves r (r\<lparr>ap_state := AI_PENDING_EMPLOYEE_CONSENT, ap_activeCandidateId := a\<rparr>))"
  "(\<And>r. ap_state r = AI_PENDING_EMPLOYEE_CONSENT \<Longrightarrow> ap_moves r (r\<lparr>ap_state := AI_PENDING_MANAGER\<rparr>))"
  "(\<And>r. ap_state r = AI_PENDING_MANAGER \<Longrightarrow> ap_moves r (r\<lparr>ap_state := AI_APPROVED, ap_decidedByManagerId := a'\<rparr>))"
  by (rule ap_movesI [where as = "[AskConsent]"] ap_movesI [where as = "[DirectEscalate]"] ap_movesI [where as = "[Expire]"]
      ap_movesI [where as = "[EmployeeDeclineNext]"] ap_movesI [where as = "[EmployeeAccept, AiSubmitToManager]"]
      ap_movesI [where as = "[AiManagerApprove]"]; simp)+

lemma commits_move:
  fixes db :: tenant_db
  defines "Q \<equiv> \<lambda>db'. aps_move (t_proposals db) (t_proposals db')"
  shows "wp (create_commit fr act s u reason ranked plan cost) (\<lambda>_. Q) (\<lambda>_. Q) db"
    "wp (request_commit act now p c AI_PENDING_EMPLOYEE_CONSENT t) (\<lambda>_. Q) (\<lambda>_. Q) db"
    "wp (escalate_draft act p) (\<lambda>_. Q) (\<lambda>_. Q) db" "wp (expire_commit act p) (\<lambda>_. Q) (\<lambda>_. Q) db"
    "wp (accept_commit act now p c AI_PENDING_MANAGER) (\<lambda>_. Q) (\<lambda>_. Q) db"
    "wp (decline_next_commit now p c n AI_PENDING_EMPLOYEE_CONSENT) (\<lambda>_. Q) (\<lambda>_. Q) db"
    "wp (decline_last_commit act p c AI_ESCALATED) (\<lambda>_. Q) (\<lambda>_. Q) db"
    "wp (ap_approve_commit act p chosen) (\<lambda>_. Q) (\<lambda>_. Q) db"
  unfolding Q_def
  by (auto simp: ap_commit_defs ap_approve_commit_def svc_wp split: option.splits
      intro!: aps_move_update flip_moves)

lemma wp_snd_of: "wp m (\<lambda>_. Q) (\<lambda>_. Q) db \<Longrightarrow> m db = (r, db') \<Longrightarrow> Q db'"
  by (cases r) (simp_all add: wp_def)

lemma ai_write_moves: "ai_write db db' \<Longrightarrow> aps_move (t_proposals db) (t_proposals db')"
  by (erule ai_writeE) (blast dest: wp_snd_of [OF commits_move(1)] wp_snd_of [OF commits_move(2)]
      wp_snd_of [OF commits_move(3)] wp_snd_of [OF commits_move(4)] wp_snd_of [OF commits_move(5)]
      wp_snd_of [OF commits_move(6)] wp_snd_of [OF commits_move(7)] wp_snd_of [OF commits_move(8)] | simp)+

text \<open>
  C15. Every proposal lives on a path of the transition table under every interleaving of the guarded
  writes with each other and with anything that leaves the table alone: it is never lost, its state
  is reached by legal actions, a decision is final, and the shift, the employee who left it, the
  owning unit and the shown cost never change.
\<close>

theorem proposal_life_path:
  assumes "ai_write\<^sup>*\<^sup>* db db'" and "k < length (t_proposals db)"
  shows "k < length (t_proposals db') \<and> ap_moves (t_proposals db ! k) (t_proposals db' ! k) \<and>
     (ap_state (t_proposals db ! k) \<in> AI_TERMINAL_STATES \<longrightarrow>
        ap_state (t_proposals db' ! k) = ap_state (t_proposals db ! k))"
proof -
  from assms(1) have "aps_move (t_proposals db) (t_proposals db')"
    by (induction rule: rtranclp_induct) (auto dest: ai_write_moves intro: aps_move_trans)
  then have "list_all2 ap_moves (t_proposals db) (take (length (t_proposals db)) (t_proposals db'))"
    by (simp add: aps_move_def)
  with assms(2) have "k < length (t_proposals db')" "ap_moves (t_proposals db ! k) (t_proposals db' ! k)"
    by (auto simp: list_all2_conv_all_nth)
  then show ?thesis
    unfolding ap_moves_def using ai_machine.run_terminal by blast
qed

section \<open>What the guards leave open\<close>

text \<open>
  A rejection is written without a guard on the state: started while the proposal waited for the
  manager and finished after a colleague's approval, it turns the approved proposal into a rejected
  one, which the transition table forbids, while the shift stays with the replacement.
\<close>

theorem reject_overwrites_approved:
  "\<exists>db1 db2. snd (ap_approve_commit manager1 (sample_proposal AI_PENDING_MANAGER (Some ''c2'')) ''e2'' agreed_db) = db1 \<and>
     map ap_state (t_proposals db1) = [AI_APPROVED] \<and>
     snd (reject_commit manager1 (sample_proposal AI_PENDING_MANAGER (Some ''c2'')) AI_REJECTED db1) = db2 \<and>
     map ap_state (t_proposals db2) = [AI_REJECTED] \<and>
     map sh_employeeId (filter (\<lambda>s. sh_id s = ''s1'') (t_shifts db2)) = [''e2''] \<and>
     AI_TRANSITIONS AI_APPROVED AiManagerReject = None"
proof -
  let ?db1 = "snd (ap_approve_commit manager1 (sample_proposal AI_PENDING_MANAGER (Some ''c2'')) ''e2'' agreed_db)"
  let ?db2 = "snd (reject_commit manager1 (sample_proposal AI_PENDING_MANAGER (Some ''c2'')) AI_REJECTED ?db1)"
  have "map ap_state (t_proposals ?db1) = [AI_APPROVED]" "map ap_state (t_proposals ?db2) = [AI_REJECTED]"
    "map sh_employeeId (filter (\<lambda>s. sh_id s = ''s1'') (t_shifts ?db2)) = [''e2'']"
    by code_simp+
  then show ?thesis by (intro exI conjI) simp_all
qed

text \<open>
  Two answers by one candidate, both checked before either is written: the refusal promotes the
  next candidate and keeps the state, so the guard of the acceptance, which looks at the state only,
  lets it through. The proposal then waits for a manager with an active candidate who never agreed,
  and an approval is refused for want of a consenting candidate.
\<close>

theorem consent_race:
  "\<exists>v c db1 db2. fst (loadProposal ''p1'' pending_db) = Inr v \<and>
     fst (consent_checks worker2 v pending_db) = Inr c \<and>
     snd (consent_answer worker2 0 v c False pending_db) = db1 \<and>
     snd (consent_answer worker2 0 v c True db1) = db2 \<and>
     map (\<lambda>p. (ap_state p, ap_activeCandidateId p)) (t_proposals db2) = [(AI_PENDING_MANAGER, Some ''c3'')] \<and>
     map (\<lambda>c. (ca_id c, ca_consentState c)) (t_candidates db2) = [(''c2'', GRANTED), (''c3'', CS_PENDING)] \<and>
     \<not> proposals_ok db2 \<and>
     fst (ap_managerDecision allow_all_validate manager1 ''p1'' True db2) =
       Inl (ConflictException ''No consenting candidate to commit'')"
proof -
  let ?p = "sample_proposal AI_PENDING_EMPLOYEE_CONSENT (Some ''c2'')"
  let ?c = "sample_candidate ''c2'' ''e2'' 1 CS_PENDING"
  let ?v = "view_of pending_db ?p"
  let ?db1 = "snd (consent_answer worker2 0 ?v ?c False pending_db)"
  let ?db2 = "snd (consent_answer worker2 0 ?v ?c True ?db1)"
  have load: "fst (loadProposal ''p1'' pending_db) = Inr ?v"
    and check: "fst (consent_checks worker2 ?v pending_db) = Inr ?c"
    and rows: "map (\<lambda>p. (ap_state p, ap_activeCandidateId p)) (t_proposals ?db2) = [(AI_PENDING_MANAGER, Some ''c3'')]"
    "map (\<lambda>c. (ca_id c, ca_consentState c)) (t_candidates ?db2) = [(''c2'', GRANTED), (''c3'', CS_PENDING)]"
    "\<not> proposals_ok ?db2"
    and refuse: "fst (ap_managerDecision allow_all_validate manager1 ''p1'' True ?db2) =
       Inl (ConflictException ''No consenting candidate to commit'')"
    by code_simp+
  from load check rows refuse show ?thesis by (intro exI conjI) (rule refl | assumption)+
qed

theorem proposal_life_path_witness:
  "ai_write\<^sup>*\<^sup>* agreed_db (snd (ap_approve_commit manager1 (sample_proposal AI_PENDING_MANAGER (Some ''c2'')) ''e2'' agreed_db)) \<and>
   (\<exists>as. ai_machine.run AI_PENDING_MANAGER as = Some (ap_state (t_proposals
      (snd (ap_approve_commit manager1 (sample_proposal AI_PENDING_MANAGER (Some ''c2'')) ''e2'' agreed_db)) ! 0)))"
proof -
  let ?db = "snd (ap_approve_commit manager1 (sample_proposal AI_PENDING_MANAGER (Some ''c2'')) ''e2'' agreed_db)"
  have w: "ai_write\<^sup>*\<^sup>* agreed_db ?db"
    by (rule r_into_rtranclp, rule aw_approve) (rule prod.collapse [symmetric])
  have "0 < length (t_proposals agreed_db)" "ap_state (t_proposals agreed_db ! 0) = AI_PENDING_MANAGER" by code_simp+
  with proposal_life_path [OF w, of 0] w show ?thesis by (auto simp: ap_moves_def)
qed

end
