(* ===== verification/AiProposalList.thy ===== *)
theory AiProposalList
  imports AiProposalLife
begin

text \<open>
  What an employee is shown: exactly the proposals that ask them now.
\<close>

lemma expireIfStale_run:
  assumes "findProposal db (ap_id (pv_row v)) \<noteq> None"
  shows "\<exists>w db'. expireIfStale clock act v db = (Inr w, db') \<and> map ap_id (t_proposals db') = map ap_id (t_proposals db) \<and>
     (if isStaleConsent clock (pv_row v) then ap_state (pv_row w) \<noteq> AI_PENDING_EMPLOYEE_CONSENT else w = v)"
proof (cases "isStaleConsent clock (pv_row v)")
  case True
  from assms obtain r where "findProposal db (ap_id (pv_row v)) = Some r" by blast
  then have "wp (expire_commit act (pv_row v)) (\<lambda>w db'. map ap_id (t_proposals db') = map ap_id (t_proposals db) \<and>
      ap_state (pv_row w) \<noteq> AI_PENDING_EMPLOYEE_CONSENT) (\<lambda>_ _. False) db"
    using findProposal_loaded [of db "ap_id (pv_row v)" r]
    by (auto simp: expire_commit_def svc_wp findProposal_update map_update_rows split: option.splits)
  with True show ?thesis by (auto simp: expireIfStale_def wp_def split: prod.splits sum.splits)
next
  case False
  then show ?thesis by (simp add: expireIfStale_def)
qed

lemma found_iff: "findProposal db i \<noteq> None \<longleftrightarrow> i \<in> set (map ap_id (t_proposals db))"
  by (auto simp: findProposal_def find_row_None_iff)

lemma expire_all_run:
  assumes "\<And>v. v \<in> set vs \<Longrightarrow> findProposal db (ap_id (pv_row v)) \<noteq> None"
  shows "\<exists>ws db'. mapM (expireIfStale clock act) vs db = (Inr ws, db') \<and>
     list_all2 (\<lambda>v w. if isStaleConsent clock (pv_row v) then ap_state (pv_row w) \<noteq> AI_PENDING_EMPLOYEE_CONSENT
        else w = v) vs ws"
  using assms
proof (induction vs arbitrary: db)
  case (Cons v vs)
  have "findProposal db (ap_id (pv_row v)) \<noteq> None" using Cons.prems by simp
  from expireIfStale_run [OF this, of clock act] obtain w db1 where w: "expireIfStale clock act v db = (Inr w, db1)"
    and ids: "map ap_id (t_proposals db1) = map ap_id (t_proposals db)"
    and res: "if isStaleConsent clock (pv_row v) then ap_state (pv_row w) \<noteq> AI_PENDING_EMPLOYEE_CONSENT else w = v"
    by blast
  have "findProposal db1 (ap_id (pv_row u)) \<noteq> None" if "u \<in> set vs" for u
    using Cons.prems [of u] that unfolding found_iff ids by simp
  from Cons.IH [OF this] obtain ws db' where "mapM (expireIfStale clock act) vs db1 = (Inr ws, db')"
    and "list_all2 (\<lambda>v w. if isStaleConsent clock (pv_row v) then ap_state (pv_row w) \<noteq> AI_PENDING_EMPLOYEE_CONSENT
        else w = v) vs ws"
    by blast
  with w res show ?case
    by (intro exI [of _ "w # ws"] exI [of _ db']) (simp add: bnd_def)
qed simp

lemma filter_expired:
  assumes "list_all2 (\<lambda>v w. if isStaleConsent clock (pv_row v) then ap_state (pv_row w) \<noteq> AI_PENDING_EMPLOYEE_CONSENT
        else w = v) vs ws"
  shows "filter (\<lambda>w. isMyActivePending w me) ws =
    filter (\<lambda>v. isMyActivePending v me \<and> \<not> isStaleConsent clock (pv_row v)) vs"
  using assms by (induction rule: list_all2_induct) (auto simp: isMyActivePending_def split: if_splits)

lemma my_active_selected:
  "isMyActivePending (view_of db p) me \<Longrightarrow> ap_state p = AI_PENDING_EMPLOYEE_CONSENT \<and>
     list_ex (\<lambda>c. ca_employeeId c = me \<and> ca_consentState c = CS_PENDING) (candidates_of db (ap_id p))"
  by (auto simp: isMyActivePending_def active_candidate_def list_ex_iff split: option.splits dest: find_SomeD)

text \<open>
  An employee who manages nothing and asks for their own list gets exactly the proposals that wait
  for their consent: those where they are the active candidate, have been asked, and the time is not
  up; in table order, and shown as they are. Stale ones never appear, whatever the earlier lazy
  expiries of the same request did.
\<close>

theorem mine_list_exact:
  assumes "\<not> isGlobal (act_roles act)" and "managedUnitIds db (act_userId act) = []"
    and me: "callerEmployee db (act_userId act) = Some e"
  shows "\<exists>db'. ap_list clock act True st db =
     (Inr (map (view_of db) (filter (\<lambda>p. isMyActivePending (view_of db p) (em_id e) \<and> \<not> isStaleConsent clock p)
        (t_proposals db))), db')"
proof -
  let ?sel = "\<lambda>p. ap_state p = AI_PENDING_EMPLOYEE_CONSENT \<and>
     list_ex (\<lambda>c. ca_employeeId c = em_id e \<and> ca_consentState c = CS_PENDING) (candidates_of db (ap_id p))"
  let ?vs = "map (view_of db) (filter ?sel (t_proposals db))"
  have "findProposal db (ap_id (pv_row v)) \<noteq> None" if "v \<in> set ?vs" for v
    using that unfolding found_iff by auto
  from expire_all_run [OF this] obtain ws db' where ws: "mapM (expireIfStale clock act) ?vs db = (Inr ws, db')"
    and rel: "list_all2 (\<lambda>v w. if isStaleConsent clock (pv_row v) then ap_state (pv_row w) \<noteq> AI_PENDING_EMPLOYEE_CONSENT
        else w = v) ?vs ws"
    by blast
  have "filter (\<lambda>w. isMyActivePending w (em_id e)) ws =
      filter (\<lambda>v. isMyActivePending v (em_id e) \<and> \<not> isStaleConsent clock (pv_row v)) ?vs"
    by (rule filter_expired [OF rel])
  also have "\<dots> = map (view_of db) (filter (\<lambda>p. isMyActivePending (view_of db p) (em_id e) \<and> \<not> isStaleConsent clock p)
        (t_proposals db))"
    by (auto simp: filter_map o_def intro!: arg_cong [where f = "map (view_of db)"] filter_cong dest: my_active_selected)
  finally have "ap_list clock act True st db =
     (Inr (map (view_of db) (filter (\<lambda>p. isMyActivePending (view_of db p) (em_id e) \<and> \<not> isStaleConsent clock p)
        (t_proposals db))), db')"
    using assms ws by (simp add: ap_list_def list_mine_def myEmployeeId_def bnd_def)
  then show ?thesis by blast
qed

theorem mine_list_exact_witness:
  "\<exists>vs db'. ap_list 0 worker2 True None pending_db = (Inr vs, db') \<and>
     map pv_row vs = [sample_proposal AI_PENDING_EMPLOYEE_CONSENT (Some ''c2'')]"
proof -
  have me: "\<not> isGlobal (act_roles worker2)" "managedUnitIds pending_db (act_userId worker2) = []"
    "callerEmployee pending_db (act_userId worker2) = Some (sample_employee ''e2'' (Some ''a2'') ''u1'')"
    and row: "filter (\<lambda>p. isMyActivePending (view_of pending_db p) (em_id (sample_employee ''e2'' (Some ''a2'') ''u1'')) \<and>
      \<not> isStaleConsent 0 p) (t_proposals pending_db) = [sample_proposal AI_PENDING_EMPLOYEE_CONSENT (Some ''c2'')]"
    by code_simp+
  from mine_list_exact [OF me, of 0 None] show ?thesis unfolding row by auto
qed

end
