(* ===== verification/Leave.thy ===== *)
theory Leave
  imports AiProposal
begin

text \<open>
  Leave requests: \<open>leave/leave.service.ts\<close> and the endpoints of \<open>leave/leave.controller.ts\<close>. A calendar
  date is the millisecond of its UTC midnight, which is what the code makes of the ISO string of a
  request; comparing the ISO strings of two dates is comparing the dates.
\<close>

section \<open>Reads\<close>

record create_leave_dto =
  ld_employeeId :: "id option"
  ld_startDate :: int
  ld_endDate :: int
  ld_type :: string

definition leave_audit :: "actor \<Rightarrow> string \<Rightarrow> id \<Rightarrow> (string \<times> json) list \<Rightarrow> unit tx" where
  "leave_audit act action i payload =
     audit_log (act_userId act) action ''LeaveRequest'' i (JObj payload) (act_ipAddress act)"

definition ownEmployeeId :: "tenant_db \<Rightarrow> actor \<Rightarrow> id option" where
  "ownEmployeeId db act = map_option em_id (callerEmployee db (act_userId act))"

definition ownUserId :: "tenant_db \<Rightarrow> actor \<Rightarrow> id option" where
  "ownUserId db act = map_option us_id (find (\<lambda>u. us_keycloakSub u = act_userId act) (t_users db))"

definition leaveEmployeeUnitId :: "tenant_db \<Rightarrow> id \<Rightarrow> id option" where
  "leaveEmployeeUnitId db e = map_option em_unitId (findEmployee db e)"

definition leave_status_name :: "leave_status \<Rightarrow> string" where
  "leave_status_name s = (case s of LV_PENDING \<Rightarrow> ''PENDING'' | LV_APPROVED \<Rightarrow> ''APPROVED''
     | LV_REJECTED \<Rightarrow> ''REJECTED'' | LV_CANCELLED \<Rightarrow> ''CANCELLED'')"

definition findLeave :: "tenant_db \<Rightarrow> id \<Rightarrow> leave_row option" where
  "findLeave db i = find_row lv_id i (t_leaves db)"

definition loadLeave :: "id \<Rightarrow> leave_row tx" where
  "loadLeave i =
     bnd (asks (\<lambda>db. findLeave db i)) (require (NotFoundException (''Leave request '' @ i @ '' not found'')))"

definition reloadLeave :: "id \<Rightarrow> leave_row tx" where
  "reloadLeave i = bnd (asks (\<lambda>db. findLeave db i)) (require (P2025 ''LeaveRequest''))"

section \<open>Filing\<close>

definition leave_owner :: "actor \<Rightarrow> create_leave_dto \<Rightarrow> id tx" where
  "leave_owner act dto =
     (case ld_employeeId dto of
        Some e \<Rightarrow>
          if isGlobal (act_roles act) then ret e
          else bnd (asks (\<lambda>db. ownEmployeeId db act))
                 (require (NotFoundException ''No employee record for the current user''))
      | None \<Rightarrow>
          bnd (asks (\<lambda>db. ownEmployeeId db act))
            (require (NotFoundException ''No employee record for the current user'')))"

definition leave_createRequest :: "id \<Rightarrow> int \<Rightarrow> actor \<Rightarrow> create_leave_dto \<Rightarrow> leave_row tx" where
  "leave_createRequest newId now act dto =
     bnd (ensure (\<not> ld_endDate dto < ld_startDate dto)
            (BadRequestException ''endDate cannot be before startDate'')) (\<lambda>_.
     bnd (leave_owner act dto) (\<lambda>employeeId.
     bnd (asks (\<lambda>db. findEmployee db employeeId)) (\<lambda>owner.
     bnd (ensure (owner \<noteq> None) (P2003 ''leave_requests'')) (\<lambda>_.
     bnd (create_row t_leaves put_leaves
            \<lparr>lv_id = newId, lv_employeeId = employeeId, lv_startDate = ld_startDate dto,
             lv_endDate = ld_endDate dto, lv_status = LV_PENDING, lv_type = ld_type dto,
             lv_decidedByUserId = None, lv_decidedAt = None, lv_reason = None, lv_createdAt = now\<rparr>) (\<lambda>created.
     bnd (leave_audit act ''leave.created'' (lv_id created)
            [(''employeeId'', JStr employeeId), (''startDate'', JNum (real_of_int (ld_startDate dto))),
             (''endDate'', JNum (real_of_int (ld_endDate dto))), (''type'', JStr (ld_type dto)),
             (''status'', JStr (leave_status_name LV_PENDING))]) (\<lambda>_.
     ret created))))))"

section \<open>Listing\<close>

text \<open>Newest first, as \<open>orderBy: { createdAt: 'desc' }\<close> gives them.\<close>

definition leave_find :: "(leave_row \<Rightarrow> bool) \<Rightarrow> leave_status option \<Rightarrow> tenant_db \<Rightarrow> leave_row list" where
  "leave_find P state db =
     sort_key (\<lambda>r. - lv_createdAt r)
       (filter (\<lambda>r. (case state of None \<Rightarrow> True | Some s \<Rightarrow> lv_status r = s) \<and> P r) (t_leaves db))"

definition leave_unit_in :: "tenant_db \<Rightarrow> id list \<Rightarrow> leave_row \<Rightarrow> bool" where
  "leave_unit_in db units r \<longleftrightarrow> leaveEmployeeUnitId db (lv_employeeId r) \<in> Some ` set units"

definition leave_own :: "tenant_db \<Rightarrow> actor \<Rightarrow> leave_status option \<Rightarrow> leave_row list" where
  "leave_own db act state =
     (case ownEmployeeId db act of
        None \<Rightarrow> [] | Some meId \<Rightarrow> leave_find (\<lambda>r. lv_employeeId r = meId) state db)"

definition leave_list :: "actor \<Rightarrow> bool \<Rightarrow> leave_status option \<Rightarrow> id option \<Rightarrow> leave_row list tx" where
  "leave_list act mine state unitId =
     asks (\<lambda>db.
       let managed = managedUnitIds db (act_userId act)
       in if mine then leave_own db act state
          else if isGlobal (act_roles act) then
            (case unitId of
               None \<Rightarrow> leave_find (\<lambda>_. True) state db
             | Some u \<Rightarrow> leave_find (leave_unit_in db [u]) state db)
          else if managed \<noteq> [] then
            leave_find (leave_unit_in db
              (case unitId of None \<Rightarrow> managed | Some u \<Rightarrow> filter (\<lambda>m. m = u) managed)) state db
          else leave_own db act state)"

definition leave_getById :: "actor \<Rightarrow> id \<Rightarrow> leave_row tx" where
  "leave_getById act i =
     bnd (loadLeave i) (\<lambda>leave.
     if isGlobal (act_roles act) then ret leave
     else bnd (asks (\<lambda>db. managedUnitIds db (act_userId act))) (\<lambda>managed.
       if managed \<noteq> [] then
         bnd (asks (\<lambda>db. leaveEmployeeUnitId db (lv_employeeId leave))) (\<lambda>unitId.
         if unitId \<in> Some ` set managed then ret leave
         else throw (ForbiddenException ''Leave request is outside your scope''))
       else
         bnd (asks (\<lambda>db. ownEmployeeId db act)) (\<lambda>meId.
         if meId = Some (lv_employeeId leave) then ret leave
         else throw (ForbiddenException ''Leave request is outside your scope''))))"

section \<open>Deciding\<close>

text \<open>
  The tie-in with the replacement engine: one proposal for each shift that collides with the leave.
  What fails in it is logged and forgotten; what was written before stays.
\<close>

fun replace_all :: "validator \<Rightarrow> (nat \<Rightarrow> fresh) \<Rightarrow> actor \<Rightarrow> string \<Rightarrow> nat \<Rightarrow> shift_row list \<Rightarrow> unit tx" where
  "replace_all validate fr act why k [] = ret ()"
| "replace_all validate fr act why k (s # ss) =
     bnd (createReplacement validate (fr k) act (sh_id s) (Some why)) (\<lambda>_.
     replace_all validate fr act why (Suc k) ss)"

definition autoScanReplacements :: "validator \<Rightarrow> (nat \<Rightarrow> fresh) \<Rightarrow> actor \<Rightarrow> leave_row \<Rightarrow> unit tx" where
  "autoScanReplacements validate fr act leave =
     catch
       (bnd (findVacatedShifts act (lv_startDate leave) (lv_endDate leave)) (\<lambda>vacated.
        replace_all validate fr act (''leave '' @ lv_id leave @ '' approved'') 0
          (filter (\<lambda>s. sh_employeeId s = lv_employeeId leave) vacated)))
       (\<lambda>_. ret ())"

definition leave_scope :: "actor \<Rightarrow> leave_row \<Rightarrow> unit tx" where
  "leave_scope act leave =
     (if isGlobal (act_roles act) then ret ()
      else bnd (asks (\<lambda>db. managedUnitIds db (act_userId act))) (\<lambda>managed.
           bnd (asks (\<lambda>db. leaveEmployeeUnitId db (lv_employeeId leave))) (\<lambda>unitId.
           ensure (unitId \<in> Some ` set managed) (ForbiddenException ''Leave request is outside your scope''))))"

text \<open>Everything \<open>decide\<close> checks before it writes; the result is the decider's user id.\<close>

definition decide_checks :: "actor \<Rightarrow> leave_row \<Rightarrow> id tx" where
  "decide_checks act leave =
     bnd (leave_scope act leave) (\<lambda>_.
     bnd (ensure (lv_status leave = LV_PENDING) (ConflictException ''Leave request is not pending'')) (\<lambda>_.
     bnd (asks (\<lambda>db. ownEmployeeId db act)) (\<lambda>meId.
     bnd (ensure (meId \<noteq> Some (lv_employeeId leave))
            (ForbiddenException ''You cannot decide your own leave request'')) (\<lambda>_.
     bnd (asks (\<lambda>db. ownUserId db act))
       (require (ForbiddenException ''Nie mozna ustalic tozsamosci decydenta''))))))"

definition leave_flip :: "id \<Rightarrow> (leave_row \<Rightarrow> leave_row) \<Rightarrow> unit tx" where
  "leave_flip i f =
     bnd (updateMany t_leaves put_leaves (\<lambda>r. lv_id r = i \<and> lv_status r = LV_PENDING) f) (\<lambda>count.
     ensure (count \<noteq> 0) (ConflictException ''Leave request changed concurrently''))"

definition leave_decided :: "leave_status \<Rightarrow> id \<Rightarrow> int \<Rightarrow> string option \<Rightarrow> leave_row \<Rightarrow> leave_row" where
  "leave_decided target decidedByUserId now reason r =
     r\<lparr>lv_status := target, lv_decidedByUserId := Some decidedByUserId, lv_decidedAt := Some now, lv_reason := reason\<rparr>"

definition decide_commit ::
  "validator \<Rightarrow> (nat \<Rightarrow> fresh) \<Rightarrow> int \<Rightarrow> actor \<Rightarrow> leave_row \<Rightarrow> bool \<Rightarrow> string option \<Rightarrow> leave_status \<Rightarrow> id \<Rightarrow> leave_row tx" where
  "decide_commit validate fr now act leave approve reason target decidedByUserId =
     bnd (leave_flip (lv_id leave) (leave_decided target decidedByUserId now reason)) (\<lambda>_.
     bnd (leave_audit act (if approve then ''leave.approved'' else ''leave.rejected'') (lv_id leave)
            [(''employeeId'', JStr (lv_employeeId leave)), (''status'', JStr (leave_status_name target)),
             (''decidedByUserId'', JStr decidedByUserId)]) (\<lambda>_.
     bnd (if approve then autoScanReplacements validate fr act leave else ret ()) (\<lambda>_.
     reloadLeave (lv_id leave))))"

definition leave_decide ::
  "validator \<Rightarrow> (nat \<Rightarrow> fresh) \<Rightarrow> int \<Rightarrow> actor \<Rightarrow> id \<Rightarrow> bool \<Rightarrow> string option \<Rightarrow> leave_row tx" where
  "leave_decide validate fr now act i approve reason =
     bnd (loadLeave i) (\<lambda>leave.
     bnd (decide_checks act leave) (\<lambda>decidedByUserId.
     bnd (lift_sum (nextLeaveState LV_PENDING (if approve then LvApprove else LvReject))) (\<lambda>target.
     decide_commit validate fr now act leave approve reason target decidedByUserId)))"

section \<open>Cancelling\<close>

definition leave_cancel :: "actor \<Rightarrow> id \<Rightarrow> leave_row tx" where
  "leave_cancel act i =
     bnd (loadLeave i) (\<lambda>leave.
     bnd (asks (\<lambda>db. ownEmployeeId db act)) (\<lambda>meId.
     bnd (ensure (meId = Some (lv_employeeId leave))
            (ForbiddenException ''You can only cancel your own leave request'')) (\<lambda>_.
     bnd (ensure (lv_status leave = LV_PENDING) (ConflictException ''Leave request is not pending'')) (\<lambda>_.
     bnd (lift_sum (nextLeaveState LV_PENDING LvCancel)) (\<lambda>target.
     bnd (leave_flip i (\<lambda>r. r\<lparr>lv_status := target\<rparr>)) (\<lambda>_.
     bnd (leave_audit act ''leave.cancelled'' i
            [(''employeeId'', JStr (lv_employeeId leave)), (''status'', JStr (leave_status_name target))]) (\<lambda>_.
     reloadLeave i)))))))"

section \<open>The HTTP controller\<close>

definition DECIDE_ROLES :: "role list" where
  "DECIDE_ROLES = [MANAGER, HR, ADMIN_KLIENTA]"

datatype leave_request =
  LrCreate id create_leave_dto
| LrList bool "leave_status option" "id option"
| LrGet id
| LrDecide id bool "string option" "nat \<Rightarrow> fresh"
| LrCancel id

fun leave_handle :: "validator \<Rightarrow> int \<Rightarrow> actor \<Rightarrow> leave_request \<Rightarrow> leave_row list tx" where
  "leave_handle validate now act (LrCreate newId dto) =
     guarded EVERY_ROLE act (bnd (leave_createRequest newId now act dto) (\<lambda>r. ret [r]))"
| "leave_handle validate now act (LrList mine state unitId) =
     guarded EVERY_ROLE act (leave_list act mine state unitId)"
| "leave_handle validate now act (LrGet i) = guarded EVERY_ROLE act (bnd (leave_getById act i) (\<lambda>r. ret [r]))"
| "leave_handle validate now act (LrDecide i approve reason fr) =
     guarded DECIDE_ROLES act (bnd (leave_decide validate fr now act i approve reason) (\<lambda>r. ret [r]))"
| "leave_handle validate now act (LrCancel i) =
     guarded EVERY_ROLE act (bnd (leave_cancel act i) (\<lambda>r. ret [r]))"

end
