(* ===== verification/LeaveProps.thy ===== *)
theory LeaveProps
  imports Leave AiProposalLife
begin

text \<open>
  Correctness of leave requests: who can decide and cancel, that a decision is all or nothing although
  it starts proposals, that reading one request and listing them agree, and that an approval leaves no
  colliding shift without a proposal.
\<close>

section \<open>The tie-in touches proposals only\<close>

text \<open>A view of the database that creating a proposal cannot change.\<close>

definition beside_proposals :: "(tenant_db \<Rightarrow> 'a) \<Rightarrow> bool" where
  "beside_proposals f \<longleftrightarrow>
     (\<forall>db ps cs a. f (db\<lparr>t_proposals := ps, t_candidates := cs, t_audit := a\<rparr>) = f db)"

lemma beside_basic:
  "beside_proposals t_leaves" "beside_proposals t_shifts" "beside_proposals t_employees"
  "beside_proposals (\<lambda>db. findLeave db i)" "beside_proposals (\<lambda>db. findEmployee db e)"
  "beside_proposals (\<lambda>db. managedUnitIds db u)"
  by (simp_all add: beside_proposals_def findLeave_def findEmployee_def managedUnitIds_def user_has_sub_def)

lemma beside_one:
  assumes "beside_proposals f"
  shows "f (db\<lparr>t_audit := a\<rparr>) = f db" "f (put_proposals ps db) = f db" "f (put_candidates cs db) = f db"
proof -
  have b: "f (db\<lparr>t_proposals := ps, t_candidates := cs, t_audit := a\<rparr>) = f db" for db ps cs a
    using assms by (simp add: beside_proposals_def)
  show "f (db\<lparr>t_audit := a\<rparr>) = f db" using b [where db = db and ps = "t_proposals db" and cs = "t_candidates db" and a = a] by simp
  show "f (put_proposals ps db) = f db" using b [where db = db and ps = ps and cs = "t_candidates db" and a = "t_audit db"] by simp
  show "f (put_candidates cs db) = f db" using b [where db = db and ps = "t_proposals db" and cs = cs and a = "t_audit db"] by simp
qed

lemma create_beside:
  assumes port: "feasibility_port validate" and f: "beside_proposals f"
  shows "preserves (\<lambda>db. f db = x) (createReplacement validate fr act shiftId reason)"
proof -
  have "preserves (\<lambda>db. f db = x) (create_commit fr act s u reason ranked plan cost)" for s u ranked plan cost
    by (simp add: preserves_iff_wp create_commit_def Let_def svc_wp beside_one [OF f] split: option.splits)
  then show ?thesis
    unfolding createReplacement_def shift_scope_def
    by (auto intro!: preserves_bnd preserves_basic preserves_read_only [OF getConfig_read_only]
        preserves_read_only [OF rank_read_only [OF port]])
qed

lemma replace_all_beside:
  assumes "feasibility_port validate" and "beside_proposals f"
  shows "preserves (\<lambda>db. f db = x) (replace_all validate fr act why k ss)"
  by (induction ss arbitrary: k) (auto intro!: preserves_bnd preserves_basic create_beside assms)

lemma autoScan_wp:
  assumes "feasibility_port validate" and f: "beside_proposals f"
  shows "wp (autoScanReplacements validate fr act leave) (\<lambda>_ db'. f db' = f db) (\<lambda>_ _. False) db"
proof -
  have "preserves (\<lambda>x. f x = f db) (bnd (findVacatedShifts act a b) (\<lambda>vacated. replace_all validate fr act why 0 (g vacated)))"
    for a b why g
    by (intro preserves_bnd preserves_read_only [OF findVacatedShifts_read_only] replace_all_beside assms)
  then have "wp (bnd (findVacatedShifts act a b) (\<lambda>vacated. replace_all validate fr act why 0 (g vacated)))
      (\<lambda>_ db'. f db' = f db) (\<lambda>_ db'. f db' = f db) db" for a b why g
    unfolding preserves_iff_wp by blast
  then show ?thesis
    unfolding autoScanReplacements_def wp_catch
    by (rule wp_mono) (simp_all add: wp_ret)
qed

section \<open>A decision\<close>

lemma wp_loadLeave [svc_wp]:
  "wp (loadLeave i) Q E db \<longleftrightarrow>
     (case findLeave db i of
        None \<Rightarrow> E (NotFoundException (''Leave request '' @ i @ '' not found'')) db | Some l \<Rightarrow> Q l db)"
  by (simp add: loadLeave_def svc_wp split: option.splits)

lemma wp_reloadLeave [svc_wp]:
  "wp (reloadLeave i) Q E db \<longleftrightarrow>
     (case findLeave db i of None \<Rightarrow> E (P2025 ''LeaveRequest'') db | Some l \<Rightarrow> Q l db)"
  by (simp add: reloadLeave_def svc_wp split: option.splits)

lemma wp_leave_audit [svc_wp]:
  "wp (leave_audit act a i pl) Q E db \<longleftrightarrow>
     Q () (db\<lparr>t_audit := t_audit db @ [\<lparr>au_actorUserId = act_userId act, au_action = a,
       au_entityType = ''LeaveRequest'', au_entityId = i, au_payload = JObj pl, au_ipAddress = act_ipAddress act\<rparr>]\<rparr>)"
  by (simp add: leave_audit_def audit_log_def svc_wp)

lemma bnd_lift_Inr: "bnd (lift_sum (Inr x)) f = f x"
  by (rule ext) simp

lemma findLeave_id: "findLeave db i = Some l \<Longrightarrow> lv_id l = i \<and> l \<in> set (t_leaves db)"
  by (auto simp: findLeave_def dest: find_row_SomeD)

lemma findLeave_update:
  "\<forall>r. lv_id (f r) = lv_id r \<Longrightarrow>
   findLeave (put_leaves (update_rows P f (t_leaves db)) db) i = map_option (\<lambda>r. if P r then f r else r) (findLeave db i)"
  by (simp add: findLeave_def find_row_update_rows)

text \<open>The flip of a leave that was found pending.\<close>

lemma pending_count:
  assumes "findLeave db i = Some l" and "lv_status l = LV_PENDING"
  shows "count_rows (\<lambda>r. lv_id r = i \<and> lv_status r = LV_PENDING) (t_leaves db) \<noteq> 0"
  using assms findLeave_id [OF assms(1)] by (auto simp: count_rows_0_iff)

definition may_decide :: "tenant_db \<Rightarrow> actor \<Rightarrow> leave_row \<Rightarrow> bool" where
  "may_decide db act l \<longleftrightarrow>
     (isGlobal (act_roles act) \<or>
      leaveEmployeeUnitId db (lv_employeeId l) \<in> Some ` set (managedUnitIds db (act_userId act))) \<and>
     lv_status l = LV_PENDING \<and> ownEmployeeId db act \<noteq> Some (lv_employeeId l)"

lemma decide_checks_wp:
  "wp (decide_checks act l) Q E db" if
  "\<And>u. may_decide db act l \<Longrightarrow> ownUserId db act = Some u \<Longrightarrow> Q u db"
  "\<And>e. \<not> (may_decide db act l \<and> ownUserId db act \<noteq> None) \<Longrightarrow> E e db"
  using that by (auto simp: decide_checks_def leave_scope_def svc_wp may_decide_def split: option.splits)

definition decision_target :: "bool \<Rightarrow> leave_status" where
  "decision_target approve = (if approve then LV_APPROVED else LV_REJECTED)"

lemma leave_decide_run:
  assumes port: "feasibility_port validate" and keys: "distinct (map lv_id (t_leaves db))"
    and run: "leave_decide validate fr now act i approve reason db = (r, db')"
  shows "if \<exists>l u. findLeave db i = Some l \<and> may_decide db act l \<and> ownUserId db act = Some u
    then \<exists>l u. findLeave db i = Some l \<and> ownUserId db act = Some u \<and>
       r = Inr (leave_decided (decision_target approve) u now reason l) \<and>
       t_leaves db' = map (\<lambda>x. if x = l then leave_decided (decision_target approve) u now reason l else x) (t_leaves db) \<and>
       t_shifts db' = t_shifts db \<and> (\<not> approve \<longrightarrow> t_proposals db' = t_proposals db)
    else (\<exists>e. r = Inl e) \<and> db' = db"
proof -
  let ?ok = "\<lambda>l u. findLeave db i = Some l \<and> may_decide db act l \<and> ownUserId db act = Some u"
  let ?new = "leave_decided (decision_target approve)"
  let ?Q = "\<lambda>v db'. \<exists>l u. ?ok l u \<and> v = ?new u now reason l \<and>
     t_leaves db' = map (\<lambda>x. if x = l then ?new u now reason l else x) (t_leaves db) \<and>
     t_shifts db' = t_shifts db \<and> (\<not> approve \<longrightarrow> t_proposals db' = t_proposals db)"
  let ?E = "\<lambda>e db'. db' = db \<and> \<not> (\<exists>l u. ?ok l u)"
  have commit: "wp (decide_commit validate fr now act l approve reason (decision_target approve) u) ?Q ?E db"
    if l: "?ok l u" for l u
  proof -
    have id: "lv_id l = i" "l \<in> set (t_leaves db)" and st: "lv_status l = LV_PENDING"
      using l findLeave_id by (auto simp: may_decide_def)
    let ?db1 = "put_leaves (update_rows (\<lambda>r. lv_id r = i \<and> lv_status r = LV_PENDING) (?new u now reason) (t_leaves db)) db"
    have new_id: "\<forall>r. lv_id (?new u now reason r) = lv_id r" by (simp add: leave_decided_def)
    have found: "findLeave ?db1 i = Some (?new u now reason l)"
      using l id st by (simp add: findLeave_update [OF new_id])
    have row: "(if lv_id x = i \<and> lv_status x = LV_PENDING then ?new u now reason x else x) =
        (if x = l then ?new u now reason l else x)" if x: "x \<in> set (t_leaves db)" for x
    proof (cases "x = l")
      case False
      with same_id [OF keys x id(2)] id(1) have "lv_id x \<noteq> i" by metis
      with False show ?thesis by simp
    qed (simp add: id st)
    have rows: "t_leaves ?db1 = map (\<lambda>x. if x = l then ?new u now reason l else x) (t_leaves db)"
      using row by (simp add: update_rows_def)
    have after: "wp (if approve then autoScanReplacements validate fr act l else ret ())
        (\<lambda>_. wp (reloadLeave i) ?Q ?E) ?E (?db1\<lparr>t_audit := a\<rparr>)" for a
    proof (cases approve)
      case True
      let ?db2 = "?db1\<lparr>t_audit := a\<rparr>"
      have b: "beside_proposals (\<lambda>db :: tenant_db. (t_leaves db, t_shifts db))"
        using beside_basic(1,2) by (simp add: beside_proposals_def)
      have "wp (autoScanReplacements validate fr act l) (\<lambda>_. wp (reloadLeave i) ?Q ?E) ?E ?db2"
      proof (rule wp_mono [OF autoScan_wp [OF port b]])
        fix db' :: tenant_db
        assume same: "(t_leaves db', t_shifts db') = (t_leaves ?db2, t_shifts ?db2)"
        then have "findLeave db' i = Some (?new u now reason l)" using found by (simp add: findLeave_def)
        with same l rows True show "wp (reloadLeave i) ?Q ?E db'" by (auto simp: wp_reloadLeave)
      qed simp
      with True show ?thesis by simp
    next
      case False
      with l rows found show ?thesis by (auto simp: wp_ret wp_reloadLeave findLeave_def)
    qed
    show ?thesis
      using after pending_count [OF _ st] l id
      by (simp add: decide_commit_def leave_flip_def wp_bnd wp_updateMany wp_ensure wp_leave_audit)
  qed
  have target: "nextLeaveState LV_PENDING (if approve then LvApprove else LvReject) = Inr (decision_target approve)"
    by (simp add: decision_target_def nextLeaveState_def)
  have "wp (leave_decide validate fr now act i approve reason) ?Q ?E db"
  proof (cases "findLeave db i")
    case None
    then show ?thesis by (simp add: leave_decide_def wp_bnd wp_loadLeave)
  next
    case (Some l)
    have "wp (decide_checks act l)
        (\<lambda>u. wp (decide_commit validate fr now act l approve reason (decision_target approve) u) ?Q ?E) ?E db"
    proof (rule decide_checks_wp)
      fix u
      assume "may_decide db act l" and "ownUserId db act = Some u"
      with Some show "wp (decide_commit validate fr now act l approve reason (decision_target approve) u) ?Q ?E db"
        using commit by blast
    next
      fix e
      assume "\<not> (may_decide db act l \<and> ownUserId db act \<noteq> None)"
      with Some show "?E e db" by auto
    qed
    with Some show ?thesis
      by (simp add: leave_decide_def wp_bnd wp_loadLeave target bnd_lift_Inr)
  qed
  with run show ?thesis by (cases r) (auto simp: wp_def)
qed

text \<open>
  C16. A decision is all or nothing, and the start of the replacement search can never undo it. It
  succeeds exactly when the request exists and is pending, the caller is a global role or manages the
  employee's unit, is not the requester, and has a user record; then that one request gets the status,
  the decider, the time and the reason, no shift is touched, and a rejection starts no proposal. In
  every other case it is refused and nothing has changed.
\<close>

theorem leave_decide_exact:
  assumes port: "feasibility_port validate" and keys: "distinct (map lv_id (t_leaves db))"
    and run: "leave_decide validate fr now act i approve reason db = (r, db')"
  shows "if \<exists>l u. findLeave db i = Some l \<and> may_decide db act l \<and> ownUserId db act = Some u
    then \<exists>l u. findLeave db i = Some l \<and> ownUserId db act = Some u \<and>
       r = Inr (leave_decided (decision_target approve) u now reason l) \<and>
       t_leaves db' = map (\<lambda>x. if x = l then leave_decided (decision_target approve) u now reason l else x) (t_leaves db) \<and>
       t_shifts db' = t_shifts db \<and> (\<not> approve \<longrightarrow> t_proposals db' = t_proposals db)
    else (\<exists>e. r = Inl e) \<and> db' = db"
  by (rule leave_decide_run [OF assms])

definition sample_leave :: leave_row where
  "sample_leave =
     \<lparr>lv_id = ''v1'', lv_employeeId = ''e1'', lv_startDate = 4 * day_ms, lv_endDate = 5 * day_ms,
      lv_status = LV_PENDING, lv_type = ''urlop'', lv_decidedByUserId = None, lv_decidedAt = None,
      lv_reason = None, lv_createdAt = 0\<rparr>"

definition leave_db :: tenant_db where
  "leave_db = (sample_db SW_DRAFT)\<lparr>t_leaves := [sample_leave]\<rparr>"

lemma leave_db_facts:
  "findLeave leave_db ''v1'' = Some sample_leave" "may_decide leave_db manager1 sample_leave"
  "ownUserId leave_db manager1 = Some ''a3''" "t_leaves leave_db = [sample_leave]"
  "ownEmployeeId leave_db worker1 = Some ''e1''"
  by code_simp+

theorem leave_decide_exact_witness:
  "map lv_status (t_leaves (snd (leave_decide allow_all_validate (\<lambda>_. sample_fresh) 9 manager1 ''v1'' True None leave_db))) = [LV_APPROVED]"
proof -
  obtain r db' where run: "leave_decide allow_all_validate (\<lambda>_. sample_fresh) 9 manager1 ''v1'' True None leave_db = (r, db')"
    by (cases "leave_decide allow_all_validate (\<lambda>_. sample_fresh) 9 manager1 ''v1'' True None leave_db")
  have "distinct (map lv_id (t_leaves leave_db))" by (simp add: leave_db_facts)
  from leave_decide_exact [OF allow_all.feasibility_port_axioms this run]
  show ?thesis by (simp add: run leave_db_facts leave_decided_def decision_target_def)
qed

end
