(* ===== verification/LeaveLife.thy ===== *)
theory LeaveLife
  imports LeaveProps
begin

text \<open>
  The life of a leave request under every request of the controller, and the agreement of the two ways
  to read one.
\<close>

section \<open>Who changes a request\<close>

lemma leave_cancel_cases:
  assumes found: "findLeave db j = Some l"
    and run: "leave_cancel act i db = (r, db')"
  shows "findLeave db' j = Some l \<or>
    j = i \<and> ownEmployeeId db act = Some (lv_employeeId l) \<and> lv_status l = LV_PENDING \<and>
    findLeave db' j = Some (l\<lparr>lv_status := LV_CANCELLED\<rparr>)"
proof -
  let ?Q = "\<lambda>db'. findLeave db' j = Some l \<or>
    j = i \<and> ownEmployeeId db act = Some (lv_employeeId l) \<and> lv_status l = LV_PENDING \<and>
    findLeave db' j = Some (l\<lparr>lv_status := LV_CANCELLED\<rparr>)"
  have j: "lv_id l = j" using findLeave_id [OF found] by simp
  have up: "findLeave (put_leaves (update_rows (\<lambda>r. lv_id r = i \<and> lv_status r = LV_PENDING)
        (\<lambda>r. r\<lparr>lv_status := LV_CANCELLED\<rparr>) (t_leaves db)) db) j =
      Some (if j = i \<and> lv_status l = LV_PENDING then l\<lparr>lv_status := LV_CANCELLED\<rparr> else l)"
    using found j by (simp add: findLeave_update)
  then have "findLeave (put_leaves (update_rows (\<lambda>r. lv_id r = i \<and> lv_status r = LV_PENDING)
        (\<lambda>r. r\<lparr>lv_status := LV_CANCELLED\<rparr>) (t_leaves db)) db\<lparr>t_audit := a\<rparr>) j =
      Some (if j = i \<and> lv_status l = LV_PENDING then l\<lparr>lv_status := LV_CANCELLED\<rparr> else l)" for a
    by (simp add: findLeave_def)
  with up found have "wp (leave_cancel act i) (\<lambda>_. ?Q) (\<lambda>_. ?Q) db"
    by (auto simp: leave_cancel_def svc_wp leave_flip_def split: option.splits)
  with run show ?thesis by (cases r) (auto simp: wp_def)
qed

lemma leave_create_keeps:
  assumes found: "findLeave db j = Some l" and run: "leave_createRequest newId now act dto db = (r, db')"
  shows "findLeave db' j = Some l"
proof -
  have "wp (leave_createRequest newId now act dto) (\<lambda>_ db'. findLeave db' j = Some l) (\<lambda>_ db'. findLeave db' j = Some l) db"
    using found
    by (auto simp: leave_createRequest_def leave_owner_def svc_wp findLeave_def find_row_append split: option.splits)
  with run show ?thesis by (cases r) (auto simp: wp_def)
qed

lemma leave_reads: "read_only (leave_list act mine state unitId)" "read_only (leave_getById act i)"
  by (auto simp: leave_list_def leave_getById_def loadLeave_def intro!: read_only_bnd)

lemma leave_decide_cases:
  assumes port: "feasibility_port validate" and keys: "distinct (map lv_id (t_leaves db))"
    and found: "findLeave db j = Some l"
    and run: "leave_decide validate fr now act i approve reason db = (r, db')"
  shows "findLeave db' j = Some l \<or>
    (\<exists>u. j = i \<and> may_decide db act l \<and> ownUserId db act = Some u \<and>
       findLeave db' j = Some (leave_decided (decision_target approve) u now reason l))"
proof (cases "\<exists>k u. findLeave db i = Some k \<and> may_decide db act k \<and> ownUserId db act = Some u")
  case True
  from True obtain k u where k: "findLeave db i = Some k" "may_decide db act k" "ownUserId db act = Some u"
    by blast
  from leave_decide_run [OF port keys run, unfolded if_P [OF True]]
  have rows: "t_leaves db' = map (\<lambda>x. if x = k then leave_decided (decision_target approve) u now reason k else x) (t_leaves db)"
    by (elim exE conjE) (simp add: k)
  have rows_eq: "t_leaves db' = update_rows (\<lambda>x. x = k) (leave_decided (decision_target approve) u now reason) (t_leaves db)"
    unfolding rows update_rows_def by (rule map_cong) auto
  have "findLeave db' j = Some (if l = k then leave_decided (decision_target approve) u now reason l else l)"
    unfolding findLeave_def rows_eq
    using found by (subst find_row_update_rows) (auto simp: leave_decided_def findLeave_def)
  with k found findLeave_id [OF found] findLeave_id [OF k(1)] show ?thesis by auto
next
  case False
  from leave_decide_run [OF port keys run, unfolded if_not_P [OF False]] have "db' = db" by (rule conjunct2)
  with found show ?thesis by simp
qed

text \<open>
  C17. A leave request changes only while it is pending, and only in two ways: a decision by somebody
  with a deciding role who is a global role or manages the employee's unit and is not the employee, or a
  cancellation by the employee. Whatever request is handled and however it ends, a decided or cancelled
  leave is as it was, and no request removes one.
\<close>

theorem leave_authority:
  assumes port: "feasibility_port validate" and keys: "distinct (map lv_id (t_leaves db))"
    and found: "findLeave db j = Some l"
    and run: "leave_handle validate now act req db = (r, db')"
  shows "\<exists>l'. findLeave db' j = Some l' \<and>
    (l' = l \<or>
     lv_status l = LV_PENDING \<and>
     ((\<exists>approve reason fr u. req = LrDecide j approve reason fr \<and>
         (\<exists>role \<in> set DECIDE_ROLES. role_name role \<in> set (act_roles act)) \<and>
         (isGlobal (act_roles act) \<or>
           leaveEmployeeUnitId db (lv_employeeId l) \<in> Some ` set (managedUnitIds db (act_userId act))) \<and>
         ownEmployeeId db act \<noteq> Some (lv_employeeId l) \<and> ownUserId db act = Some u \<and>
         l' = leave_decided (if approve then LV_APPROVED else LV_REJECTED) u now reason l) \<or>
      (req = LrCancel j \<and> ownEmployeeId db act = Some (lv_employeeId l) \<and> l' = l\<lparr>lv_status := LV_CANCELLED\<rparr>)))"
proof -
  have body: "db' = db \<or> (\<exists>x. m db = (x, db'))"
    if "guarded roles act (bnd m (\<lambda>r. ret [r])) db = (r, db')" for roles and m :: "leave_row tx"
    using that guarded_cases [of roles act "bnd m (\<lambda>r. ret [r])" db]
    by (auto simp: bnd_def split: prod.splits sum.splits)
  show ?thesis
  proof (cases req)
    case (LrCreate newId dto)
    with body run leave_create_keeps [OF found] found show ?thesis by fastforce
  next
    case (LrList mine state unitId)
    with run leave_reads(1) have "db' = db"
      using guarded_cases [of EVERY_ROLE act "leave_list act mine state unitId" db] read_onlyD by fastforce
    with found show ?thesis by blast
  next
    case (LrGet i)
    with body run leave_reads(2) [THEN read_onlyD] have "db' = db" by fastforce
    with found show ?thesis by blast
  next
    case (LrCancel i)
    with body [of EVERY_ROLE "leave_cancel act i"] run consider "db' = db" | x where "leave_cancel act i db = (x, db')"
      by auto
    then show ?thesis
    proof cases
      case 2
      from leave_cancel_cases [OF found this] LrCancel show ?thesis by auto
    qed (use found in blast)
  next
    case (LrDecide i approve reason fr)
    have g: "guarded DECIDE_ROLES act (bnd (leave_decide validate fr now act i approve reason) (\<lambda>r. ret [r])) db = (r, db')"
      using run by (simp add: LrDecide)
    show ?thesis
    proof (cases "\<exists>role \<in> set DECIDE_ROLES. role_name role \<in> set (act_roles act)")
      case False
      then have "db' = db" using g
        by (auto simp: guarded_def canActivate_def list_ex_iff DECIDE_ROLES_def)
      with found show ?thesis by blast
    next
      case True
      from body [OF g] consider "db' = db" | x where "leave_decide validate fr now act i approve reason db = (x, db')"
        by auto
      then show ?thesis
      proof cases
        case 2
        from leave_decide_cases [OF port keys found this] True LrDecide show ?thesis
          by (auto simp: may_decide_def decision_target_def)
      qed (use found in blast)
    qed
  qed
qed

theorem leave_authority_witness:
  "map lv_status (t_leaves (snd (leave_handle allow_all_validate 0 worker1 (LrCancel ''v1'') leave_db))) = [LV_CANCELLED] \<and>
   (\<exists>l'. findLeave (snd (leave_handle allow_all_validate 0 worker1 (LrCancel ''v1'') leave_db)) ''v1'' = Some l' \<and>
     lv_employeeId l' = ''e1'')"
proof -
  have run: "map lv_status (t_leaves (snd (leave_handle allow_all_validate 0 worker1 (LrCancel ''v1'') leave_db))) = [LV_CANCELLED]"
    by (simp only: leave_handle.simps) code_simp
  obtain r db' where h: "leave_handle allow_all_validate 0 worker1 (LrCancel ''v1'') leave_db = (r, db')"
    by (cases "leave_handle allow_all_validate 0 worker1 (LrCancel ''v1'') leave_db")
  have "distinct (map lv_id (t_leaves leave_db))" by (simp add: leave_db_facts)
  from leave_authority [OF allow_all.feasibility_port_axioms this leave_db_facts(1) h]
  have "\<exists>l'. findLeave db' ''v1'' = Some l' \<and> lv_employeeId l' = ''e1''"
    by (auto simp: sample_leave_def)
  with run h show ?thesis by simp
qed

section \<open>Reading\<close>

text \<open>
  Opening a leave request and listing the leave requests follow the same rule: a caller may open
  exactly the requests that their unfiltered list shows, and is refused every other one.
\<close>

theorem leave_get_iff_listed:
  assumes listed: "leave_list act False None None db = (Inr ls, db)"
  shows "leave_getById act i db =
    (case find_row lv_id i (t_leaves db) of
       None \<Rightarrow> (Inl (NotFoundException (''Leave request '' @ i @ '' not found'')), db)
     | Some l \<Rightarrow> if l \<in> set ls then (Inr l, db)
         else (Inl (ForbiddenException ''Leave request is outside your scope''), db))"
  using listed
proof (cases "find_row lv_id i (t_leaves db)")
  case (Some l)
  then have "l \<in> set (t_leaves db)" by (auto dest: find_row_SomeD)
  with Some listed show ?thesis
    by (auto simp: leave_getById_def leave_list_def loadLeave_def findLeave_def leave_find_def leave_own_def
        leave_unit_in_def bnd_assoc Let_def split: option.splits if_splits)
qed (simp add: leave_getById_def loadLeave_def findLeave_def bnd_assoc)

theorem leave_get_iff_listed_witness:
  "leave_list worker2 False None None leave_db = (Inr [], leave_db) \<and>
   leave_getById worker2 ''v1'' leave_db = (Inl (ForbiddenException ''Leave request is outside your scope''), leave_db)"
proof -
  have "fst (leave_list worker2 False None None leave_db) = Inr []" by code_simp
  then have l: "leave_list worker2 False None None leave_db = (Inr [], leave_db)"
    by (simp add: leave_list_def)
  from leave_get_iff_listed [OF l, of "''v1''"] l show ?thesis
    by (simp add: leave_db_facts sample_leave_def)
qed

end
