(* ===== verification/KeycloakAdmin.thy ===== *)
theory KeycloakAdmin
  imports Domain
begin

text \<open>
  The client of the Keycloak Admin API: \<open>tenant-runtime/keycloak/keycloak-admin.service.ts\<close>.

  The injected \<open>fetch\<close> is a parameter: a service over a server state of unknown type. A request is
  one of the calls the client builds (method, path and body); a response is its status, the
  \<open>Location\<close> header and the parsed body, where \<open>KbNone\<close> is a body that is not JSON. What the code
  relies on of the server is the predicate \<open>keycloak_server\<close>, over an observation of the realm roles
  that are mapped to a login.
\<close>

section \<open>Requests and responses\<close>

text \<open>The first argument is the bearer token (the admin password for \<open>KcToken\<close>), then the realm.\<close>

datatype kc_request =
  KcToken string
| KcCreateUser string string string
| KcFindUser string string string
| KcGetRole string string role
| KcAddMapping string string string "string option" "string option"
| KcDeleteMapping string string string "string option" "string option"
| KcGetMappings string string string
| KcSetEnabled string string string bool
| KcSendEmail string string string

datatype kc_body =
  KbNone
| KbToken "string option"
| KbRole "string option" "string option"
| KbUsers "string list"
| KbRoles "string list"

record kc_response =
  rp_status :: nat
  rp_location :: "string option"
  rp_body :: kc_body

type_synonym 'k fetch = "kc_request \<Rightarrow> ('k, app_error, kc_response) svc"
type_synonym ('k, 'a) kc_svc = "('k, app_error, 'a) svc"

definition rp_ok :: "kc_response \<Rightarrow> bool" where
  "rp_ok resp \<longleftrightarrow> 200 \<le> rp_status resp \<and> rp_status resp < 300"

text \<open>\<open>resp.json()\<close> rejects a body that is not JSON.\<close>

definition resp_json :: "kc_response \<Rightarrow> ('k, kc_body) kc_svc" where
  "resp_json resp = (if rp_body resp = KbNone then throw (PlainError ''SyntaxError'') else ret (rp_body resp))"

section \<open>The calls\<close>

text \<open>A missing \<open>access_token\<close> ends up as the text \<open>undefined\<close> in the header.\<close>

definition getAdminToken :: "'k fetch \<Rightarrow> string \<Rightarrow> ('k, string) kc_svc" where
  "getAdminToken fetch password =
     bnd (fetch (KcToken password)) (\<lambda>resp.
     bnd (resp_json resp) (\<lambda>body.
     ret (case body of KbToken (Some t) \<Rightarrow> t | _ \<Rightarrow> ''undefined'')))"

text \<open>A conflict counts as success; the message of the error is left out.\<close>

definition kc_send :: "'k fetch \<Rightarrow> kc_request \<Rightarrow> ('k, kc_response) kc_svc" where
  "kc_send fetch rq =
     bnd (fetch rq) (\<lambda>r.
     if \<not> rp_ok r \<and> rp_status r \<noteq> 409 then throw (PlainError ''keycloak'') else ret r)"

text \<open>\<open>s.split('/').pop()\<close>.\<close>

definition last_segment :: "string \<Rightarrow> string" where
  "last_segment s = rev (takeWhile (\<lambda>c. c \<noteq> CHR ''/'') (rev s))"

definition kc_createUser :: "'k fetch \<Rightarrow> string \<Rightarrow> string \<Rightarrow> string \<Rightarrow> ('k, string \<times> bool) kc_svc" where
  "kc_createUser fetch password realm email =
     bnd (getAdminToken fetch password) (\<lambda>token.
     bnd (kc_send fetch (KcCreateUser token realm email)) (\<lambda>createResp.
     let fromHeader = last_segment (case rp_location createResp of None \<Rightarrow> [] | Some l \<Rightarrow> l);
         created = (fromHeader \<noteq> [])
     in bnd (if fromHeader = [] then
               bnd (kc_send fetch (KcFindUser token realm email)) (\<lambda>lookupResp.
               bnd (resp_json lookupResp) (\<lambda>body.
               ret (case body of KbUsers (u # _) \<Rightarrow> u | _ \<Rightarrow> [])))
             else ret fromHeader) (\<lambda>kcId.
        if kcId = [] then throw (PlainError ''keycloak createUser: could not resolve kcId'')
        else ret (kcId, created))))"

definition fetchRoleRepresentation ::
  "'k fetch \<Rightarrow> string \<Rightarrow> string \<Rightarrow> role \<Rightarrow> ('k, string option \<times> string option) kc_svc" where
  "fetchRoleRepresentation fetch token realm r =
     bnd (kc_send fetch (KcGetRole token realm r)) (\<lambda>roleResp.
     bnd (resp_json roleResp) (\<lambda>body.
     ret (case body of KbRole i n \<Rightarrow> (i, n) | _ \<Rightarrow> (None, None))))"

definition assignRealmRole :: "'k fetch \<Rightarrow> string \<Rightarrow> string \<Rightarrow> string \<Rightarrow> role \<Rightarrow> ('k, unit) kc_svc" where
  "assignRealmRole fetch password realm kcId r =
     bnd (getAdminToken fetch password) (\<lambda>token.
     bnd (fetchRoleRepresentation fetch token realm r) (\<lambda>roleRep.
     bnd (kc_send fetch (KcAddMapping token realm kcId (fst roleRep) (snd roleRep))) (\<lambda>_. ret ())))"

definition removeRealmRole :: "'k fetch \<Rightarrow> string \<Rightarrow> string \<Rightarrow> string \<Rightarrow> role \<Rightarrow> ('k, unit) kc_svc" where
  "removeRealmRole fetch password realm kcId r =
     bnd (getAdminToken fetch password) (\<lambda>token.
     bnd (fetchRoleRepresentation fetch token realm r) (\<lambda>roleRep.
     bnd (kc_send fetch (KcDeleteMapping token realm kcId (fst roleRep) (snd roleRep))) (\<lambda>_. ret ())))"

definition sendPasswordSetupEmail :: "'k fetch \<Rightarrow> string \<Rightarrow> string \<Rightarrow> string \<Rightarrow> ('k, unit) kc_svc" where
  "sendPasswordSetupEmail fetch password realm kcId =
     bnd (getAdminToken fetch password) (\<lambda>token.
     catch (bnd (fetch (KcSendEmail token realm kcId)) (\<lambda>_. ret ())) (\<lambda>_. ret ()))"

definition setEnabled :: "'k fetch \<Rightarrow> string \<Rightarrow> string \<Rightarrow> string \<Rightarrow> bool \<Rightarrow> ('k, unit) kc_svc" where
  "setEnabled fetch password realm kcId enabled =
     bnd (getAdminToken fetch password) (\<lambda>token.
     bnd (kc_send fetch (KcSetEnabled token realm kcId enabled)) (\<lambda>_. ret ()))"

definition getUserRealmRoles :: "'k fetch \<Rightarrow> string \<Rightarrow> string \<Rightarrow> string \<Rightarrow> ('k, string list) kc_svc" where
  "getUserRealmRoles fetch password realm kcId =
     bnd (getAdminToken fetch password) (\<lambda>token.
     bnd (kc_send fetch (KcGetMappings token realm kcId)) (\<lambda>resp.
     bnd (resp_json resp) (\<lambda>body.
     case body of KbRoles names \<Rightarrow> ret names | _ \<Rightarrow> throw (PlainError ''TypeError''))))"

section \<open>What the server promises\<close>

text \<open>The role names a request may map to, or unmap from, a login.\<close>

fun kc_adds :: "kc_request \<Rightarrow> string \<Rightarrow> string \<Rightarrow> string set" where
  "kc_adds (KcAddMapping t realm u i (Some n)) re v = (if re = realm \<and> v = u then {n} else {})"
| "kc_adds _ _ _ = {}"

fun kc_removes :: "kc_request \<Rightarrow> string \<Rightarrow> string \<Rightarrow> string set" where
  "kc_removes (KcDeleteMapping t realm u i (Some n)) re v = (if re = realm \<and> v = u then {n} else {})"
| "kc_removes _ _ _ = {}"

definition kc_tolerated :: "kc_response \<Rightarrow> bool" where
  "kc_tolerated resp \<longleftrightarrow> rp_ok resp \<or> rp_status resp = 409"

text \<open>
  The documented behaviour of the Admin API, for every request and whatever its outcome: only the two
  role-mapping requests change mappings, and only the named role of the named login; a role
  representation carries the name that was asked for; a removal that is answered has removed; a
  reading of the mappings that is answered is the truth.
\<close>

definition keycloak_server :: "'k fetch \<Rightarrow> ('k \<Rightarrow> string \<Rightarrow> string \<Rightarrow> string set) \<Rightarrow> bool" where
  "keycloak_server fetch mapped \<longleftrightarrow>
     (\<forall>rq k re v. mapped (snd (fetch rq k)) re v \<subseteq> mapped k re v \<union> kc_adds rq re v \<and>
        mapped k re v - kc_removes rq re v \<subseteq> mapped (snd (fetch rq k)) re v) \<and>
     (\<forall>t re r k k' resp i n. fetch (KcGetRole t re r) k = (Inr resp, k') \<and> rp_body resp = KbRole i (Some n) \<longrightarrow>
        n = role_name r) \<and>
     (\<forall>t re v i r k k' resp. fetch (KcDeleteMapping t re v i r) k = (Inr resp, k') \<and> kc_tolerated resp \<longrightarrow>
        (\<exists>n. r = Some n \<and> n \<notin> mapped k' re v)) \<and>
     (\<forall>t re v k k' resp names. fetch (KcGetMappings t re v) k = (Inr resp, k') \<and> kc_tolerated resp \<and>
        rp_body resp = KbRoles names \<longrightarrow> set names = mapped k re v)"

section \<open>What the calls do to the mappings\<close>

text \<open>
  A call that fails half-way may or may not have had its effect; both are covered, because the first law
  constrains the server state of an error as well.
\<close>

lemma wp_fetch:
  assumes "keycloak_server fetch mapped"
    and "\<And>r k'. fetch rq k = (r, k') \<Longrightarrow>
      (\<And>re v. mapped k' re v \<subseteq> mapped k re v \<union> kc_adds rq re v) \<Longrightarrow>
      (\<And>re v. mapped k re v - kc_removes rq re v \<subseteq> mapped k' re v) \<Longrightarrow>
      case r of Inl e \<Rightarrow> E e k' | Inr x \<Rightarrow> Q x k'"
  shows "wp (fetch rq) Q E k"
proof -
  obtain r k' where r: "fetch rq k = (r, k')" by (cases "fetch rq k")
  from assms(1) [unfolded keycloak_server_def, THEN conjunct1, rule_format, where rq = rq and k = k] r
  have "mapped k' re v \<subseteq> mapped k re v \<union> kc_adds rq re v \<and>
      mapped k re v - kc_removes rq re v \<subseteq> mapped k' re v" for re v
    by simp
  with assms(2) [OF r] r show ?thesis by (cases r) (auto simp: wp_def)
qed

lemma keycloak_serverD:
  assumes "keycloak_server fetch mapped"
  shows "fetch (KcGetRole t re r) k = (Inr resp, k') \<Longrightarrow> rp_body resp = KbRole i (Some n) \<Longrightarrow> n = role_name r"
    and "fetch (KcDeleteMapping t re v i m) k = (Inr resp, k') \<Longrightarrow> kc_tolerated resp \<Longrightarrow> \<exists>n. m = Some n \<and> n \<notin> mapped k' re v"
    and "fetch (KcGetMappings t re v) k = (Inr resp, k') \<Longrightarrow> kc_tolerated resp \<Longrightarrow> rp_body resp = KbRoles names \<Longrightarrow>
      set names = mapped k re v"
proof -
  note laws = assms [unfolded keycloak_server_def]
  show "fetch (KcGetRole t re r) k = (Inr resp, k') \<Longrightarrow> rp_body resp = KbRole i (Some n) \<Longrightarrow> n = role_name r"
    using laws [THEN conjunct2, THEN conjunct1] by blast
  show "fetch (KcDeleteMapping t re v i m) k = (Inr resp, k') \<Longrightarrow> kc_tolerated resp \<Longrightarrow> \<exists>n. m = Some n \<and> n \<notin> mapped k' re v"
    using laws [THEN conjunct2, THEN conjunct2, THEN conjunct1] by blast
  show "fetch (KcGetMappings t re v) k = (Inr resp, k') \<Longrightarrow> kc_tolerated resp \<Longrightarrow> rp_body resp = KbRoles names \<Longrightarrow>
      set names = mapped k re v"
    using laws [THEN conjunct2, THEN conjunct2, THEN conjunct2] by blast
qed

lemma kc_change_bounds:
  assumes "n = None \<or> n = Some x"
  shows "kc_adds (KcAddMapping t realm u i n) re v \<subseteq> (if re = realm \<and> v = u then {x} else {})"
    and "kc_removes (KcDeleteMapping t realm u i n) re v \<subseteq> (if re = realm \<and> v = u then {x} else {})"
    and "kc_removes (KcAddMapping t realm u i n) re v = {}"
    and "kc_adds (KcDeleteMapping t realm u i n) re v = {}"
  using assms by auto

text \<open>A request that is about no mapping leaves the mappings alone.\<close>

lemma wp_fetch_neutral:
  assumes "keycloak_server fetch mapped" and "kc_adds rq = (\<lambda>_ _. {})" and "kc_removes rq = (\<lambda>_ _. {})"
    and "\<And>r k'. fetch rq k = (r, k') \<Longrightarrow> mapped k' = mapped k \<Longrightarrow> case r of Inl e \<Rightarrow> E e k' | Inr x \<Rightarrow> Q x k'"
  shows "wp (fetch rq) Q E k"
proof (rule wp_fetch [OF assms(1)])
  fix r k'
  assume "fetch rq k = (r, k')"
    and "\<And>re v. mapped k' re v \<subseteq> mapped k re v \<union> kc_adds rq re v"
    and "\<And>re v. mapped k re v - kc_removes rq re v \<subseteq> mapped k' re v"
  with assms(2,3) have "mapped k' = mapped k"
    by (intro ext) (metis Diff_empty Un_empty_right subset_antisym)
  with assms(4) \<open>fetch rq k = (r, k')\<close> show "case r of Inl e \<Rightarrow> E e k' | Inr x \<Rightarrow> Q x k'" by blast
qed

lemma wp_kc_send:
  "wp (kc_send fetch rq) Q E k \<longleftrightarrow>
     wp (fetch rq) (\<lambda>r k'. if kc_tolerated r then Q r k' else E (PlainError ''keycloak'') k') E k"
  by (auto simp: kc_send_def wp_def bnd_def kc_tolerated_def split: prod.splits sum.splits)

lemma wp_resp_json:
  "wp (resp_json resp) Q E k \<longleftrightarrow>
     (if rp_body resp = KbNone then E (PlainError ''SyntaxError'') k else Q (rp_body resp) k)"
  by (simp add: resp_json_def svc_wp)

lemma wp_token:
  assumes "keycloak_server fetch mapped"
    and "\<And>t k'. mapped k' = mapped k \<Longrightarrow> Q t k'" "\<And>e k'. mapped k' = mapped k \<Longrightarrow> E e k'"
  shows "wp (getAdminToken fetch password) Q E k"
  unfolding getAdminToken_def wp_bnd
  by (rule wp_fetch_neutral [OF assms(1)])
    (auto simp: svc_wp wp_resp_json assms(2,3) fun_eq_iff split: sum.splits kc_body.splits option.splits)

lemma wp_role_rep:
  assumes server: "keycloak_server fetch mapped"
    and "\<And>i n k'. mapped k' = mapped k \<Longrightarrow> n = None \<or> n = Some (role_name r) \<Longrightarrow> Q (i, n) k'"
    and "\<And>e k'. mapped k' = mapped k \<Longrightarrow> E e k'"
  shows "wp (fetchRoleRepresentation fetch token realm r) Q E k"
  unfolding fetchRoleRepresentation_def wp_bnd wp_kc_send
proof (rule wp_fetch_neutral [OF server])
  fix x k'
  assume f: "fetch (KcGetRole token realm r) k = (x, k')" and same: "mapped k' = mapped k"
  have name: "n = role_name r" if "x = Inr resp" "rp_body resp = KbRole i (Some n)" for resp i n
    using keycloak_serverD(1) [OF server] f that by simp
  from same name show "case x of Inl e \<Rightarrow> E e k' | Inr z \<Rightarrow>
      if kc_tolerated z then wp (resp_json z) (\<lambda>x. wp (ret (case x of KbRole i n \<Rightarrow> (i, n) | _ \<Rightarrow> (None, None))) Q E) E k'
      else E (PlainError ''keycloak'') k'"
    by (auto simp: svc_wp wp_resp_json assms(3) split: sum.splits kc_body.splits intro!: assms(2))
       (metis not_Some_eq)
qed (auto simp: fun_eq_iff)

lemma wp_assignRealmRole:
  assumes server: "keycloak_server fetch mapped"
    and after: "\<And>k'. (\<And>re v. mapped k re v \<subseteq> mapped k' re v) \<Longrightarrow>
      (\<And>re v. mapped k' re v \<subseteq> mapped k re v \<union> (if re = realm \<and> v = u then {role_name r} else {})) \<Longrightarrow>
      Q () k' \<and> (\<forall>e. E e k')"
  shows "wp (assignRealmRole fetch password realm u r) Q E k"
  unfolding assignRealmRole_def wp_bnd wp_kc_send
proof (rule wp_token [OF server])
  have same: "Q () k' \<and> (\<forall>e. E e k')" if "mapped k' = mapped k" for k'
    using after [of k'] that by auto
  then show "\<And>e k'. mapped k' = mapped k \<Longrightarrow> E e k'" by blast
  fix t k1
  assume k1: "mapped k1 = mapped k"
  show "wp (fetchRoleRepresentation fetch t realm r) (\<lambda>x. wp (fetch (KcAddMapping t realm u (fst x) (snd x)))
     (\<lambda>r k'. if kc_tolerated r then wp (ret ()) Q E k' else E (PlainError ''keycloak'') k') E) E k1"
  proof (rule wp_role_rep [OF server])
    fix i n k2
    assume k2: "mapped k2 = mapped k1" and n: "n = None \<or> n = Some (role_name r)"
    show "wp (fetch (KcAddMapping t realm u (fst (i, n)) (snd (i, n))))
      (\<lambda>r k'. if kc_tolerated r then wp (ret ()) Q E k' else E (PlainError ''keycloak'') k') E k2"
    proof (rule wp_fetch [OF server])
      fix x k'
      assume up: "\<And>re v. mapped k' re v \<subseteq> mapped k2 re v \<union> kc_adds (KcAddMapping t realm u (fst (i, n)) (snd (i, n))) re v"
        and low: "\<And>re v. mapped k2 re v - kc_removes (KcAddMapping t realm u (fst (i, n)) (snd (i, n))) re v \<subseteq> mapped k' re v"
      have "Q () k' \<and> (\<forall>e. E e k')"
      proof (rule after)
        show "mapped k re v \<subseteq> mapped k' re v" for re v
          using low [of re v] k1 k2 by (simp add: kc_change_bounds [OF n])
        show "mapped k' re v \<subseteq> mapped k re v \<union> (if re = realm \<and> v = u then {role_name r} else {})" for re v
          using up [of re v] k1 k2 kc_change_bounds(1) [OF n, of t realm u i re v] by (simp only: fst_conv snd_conv) blast
      qed
      then show "case x of Inl e \<Rightarrow> E e k' | Inr z \<Rightarrow>
          if kc_tolerated z then wp (ret ()) Q E k' else E (PlainError ''keycloak'') k'"
        by (auto simp: svc_wp split: sum.splits)
    qed
  qed (use same k1 in auto)
qed

lemma wp_removeRealmRole:
  assumes server: "keycloak_server fetch mapped"
    and after: "\<And>k'. (\<And>re v. mapped k' re v \<subseteq> mapped k re v) \<Longrightarrow>
      (\<And>re v. mapped k re v - (if re = realm \<and> v = u then {role_name r} else {}) \<subseteq> mapped k' re v) \<Longrightarrow>
      (role_name r \<notin> mapped k' realm u \<longrightarrow> Q () k') \<and> (\<forall>e. E e k')"
  shows "wp (removeRealmRole fetch password realm u r) Q E k"
  unfolding removeRealmRole_def wp_bnd wp_kc_send
proof (rule wp_token [OF server])
  have same: "\<forall>e. E e k'" if "mapped k' = mapped k" for k'
    using after [of k'] that by auto
  then show "\<And>e k'. mapped k' = mapped k \<Longrightarrow> E e k'" by blast
  fix t k1
  assume k1: "mapped k1 = mapped k"
  show "wp (fetchRoleRepresentation fetch t realm r) (\<lambda>x. wp (fetch (KcDeleteMapping t realm u (fst x) (snd x)))
     (\<lambda>r k'. if kc_tolerated r then wp (ret ()) Q E k' else E (PlainError ''keycloak'') k') E) E k1"
  proof (rule wp_role_rep [OF server])
    fix i n k2
    assume k2: "mapped k2 = mapped k1" and n: "n = None \<or> n = Some (role_name r)"
    show "wp (fetch (KcDeleteMapping t realm u (fst (i, n)) (snd (i, n))))
      (\<lambda>r k'. if kc_tolerated r then wp (ret ()) Q E k' else E (PlainError ''keycloak'') k') E k2"
    proof (rule wp_fetch [OF server])
      fix x k'
      assume f: "fetch (KcDeleteMapping t realm u (fst (i, n)) (snd (i, n))) k2 = (x, k')"
        and up: "\<And>re v. mapped k' re v \<subseteq> mapped k2 re v \<union> kc_adds (KcDeleteMapping t realm u (fst (i, n)) (snd (i, n))) re v"
        and low: "\<And>re v. mapped k2 re v - kc_removes (KcDeleteMapping t realm u (fst (i, n)) (snd (i, n))) re v \<subseteq> mapped k' re v"
      have q: "(role_name r \<notin> mapped k' realm u \<longrightarrow> Q () k') \<and> (\<forall>e. E e k')"
      proof (rule after)
        show "mapped k' re v \<subseteq> mapped k re v" for re v
          using up [of re v] k1 k2 by (simp add: kc_change_bounds [OF n])
        show "mapped k re v - (if re = realm \<and> v = u then {role_name r} else {}) \<subseteq> mapped k' re v" for re v
          using low [of re v] k1 k2 kc_change_bounds(2) [OF n, of t realm u i re v] by (simp only: fst_conv snd_conv) blast
      qed
      have "role_name r \<notin> mapped k' realm u" if "x = Inr resp" "kc_tolerated resp" for resp
        using keycloak_serverD(2) [OF server f [unfolded that(1)] that(2)] n by auto
      with q show "case x of Inl e \<Rightarrow> E e k' | Inr z \<Rightarrow>
          if kc_tolerated z then wp (ret ()) Q E k' else E (PlainError ''keycloak'') k'"
        by (auto simp: svc_wp split: sum.splits)
    qed
  qed (use same k1 in auto)
qed

lemma wp_setEnabled:
  assumes server: "keycloak_server fetch mapped"
    and after: "\<And>x k'. mapped k' = mapped k \<Longrightarrow> Q x k'" "\<And>e k'. mapped k' = mapped k \<Longrightarrow> E e k'"
  shows "wp (setEnabled fetch password realm u b) Q E k"
  unfolding setEnabled_def wp_bnd wp_kc_send
  by (rule wp_token [OF server]; (rule wp_fetch_neutral [OF server])?)
    (auto simp: svc_wp fun_eq_iff after split: sum.splits)

lemma wp_sendPasswordSetupEmail:
  assumes server: "keycloak_server fetch mapped"
    and after: "\<And>x k'. mapped k' = mapped k \<Longrightarrow> Q x k'" "\<And>e k'. mapped k' = mapped k \<Longrightarrow> E e k'"
  shows "wp (sendPasswordSetupEmail fetch password realm u) Q E k"
  unfolding sendPasswordSetupEmail_def wp_bnd wp_catch
  by (rule wp_token [OF server]; (rule wp_fetch_neutral [OF server])?)
    (auto simp: svc_wp fun_eq_iff after split: sum.splits)

lemma wp_createUser:
  assumes server: "keycloak_server fetch mapped"
    and after: "\<And>x k'. mapped k' = mapped k \<Longrightarrow> Q x k'" "\<And>e k'. mapped k' = mapped k \<Longrightarrow> E e k'"
  shows "wp (kc_createUser fetch password realm email) Q E k"
  unfolding kc_createUser_def wp_bnd wp_kc_send Let_def
  by (rule wp_token [OF server]; (rule wp_fetch_neutral [OF server])?)
    (auto simp: svc_wp wp_kc_send wp_resp_json fun_eq_iff after split: sum.splits
      intro!: wp_fetch_neutral [OF server])

lemma wp_getUserRealmRoles:
  assumes server: "keycloak_server fetch mapped"
    and after: "\<And>names k'. mapped k' = mapped k \<Longrightarrow> set names = mapped k realm u \<Longrightarrow> Q names k'"
      "\<And>e k'. mapped k' = mapped k \<Longrightarrow> E e k'"
  shows "wp (getUserRealmRoles fetch password realm u) Q E k"
  unfolding getUserRealmRoles_def wp_bnd wp_kc_send
proof (rule wp_token [OF server])
  fix t k1
  assume k1: "mapped k1 = mapped k"
  show "wp (fetch (KcGetMappings t realm u)) (\<lambda>r k'. if kc_tolerated r then wp (resp_json r)
      (\<lambda>x. wp (case x of KbRoles names \<Rightarrow> ret names | _ \<Rightarrow> throw (PlainError ''TypeError'')) Q E) E k'
      else E (PlainError ''keycloak'') k') E k1"
  proof (rule wp_fetch_neutral [OF server])
    fix x k'
    assume f: "fetch (KcGetMappings t realm u) k1 = (x, k')" and same: "mapped k' = mapped k1"
    have truth: "set names = mapped k realm u" if "x = Inr resp" "kc_tolerated resp" "rp_body resp = KbRoles names" for resp names
      using keycloak_serverD(3) [OF server f [unfolded that(1)] that(2,3)] k1 by simp
    from same k1 truth show "case x of Inl e \<Rightarrow> E e k' | Inr r \<Rightarrow> if kc_tolerated r then wp (resp_json r)
        (\<lambda>x. wp (case x of KbRoles names \<Rightarrow> ret names | _ \<Rightarrow> throw (PlainError ''TypeError'')) Q E) E k'
        else E (PlainError ''keycloak'') k'"
      by (auto simp: svc_wp wp_resp_json after split: sum.splits kc_body.splits)
  qed (auto simp: fun_eq_iff)
qed (use after in auto)

end
