(* ===== verification/Users.thy ===== *)
theory Users
  imports Rbac KeycloakAdmin
begin

text \<open>
  User invites and role management: \<open>users/users.service.ts\<close> and \<open>users/users.controller.ts\<close>.

  Every change here is written twice, to the tenant database and to Keycloak, with no transaction
  across the two. The world of a request is therefore the database, the server state of Keycloak, and
  the fate of the database calls still to come: \<open>w_fate w n\<close> is the failure, if any, of the n-th next
  call (or commit). Keycloak's failures are those of its \<open>fetch\<close>. A claim about every world covers
  every single and multiple failure.
\<close>

section \<open>The world\<close>

datatype outage = Unreachable | SerializationFailure

fun outage_error :: "outage \<Rightarrow> app_error" where
  "outage_error Unreachable = PlainError ''database unreachable''"
| "outage_error SerializationFailure = P2034 ''write conflict''"

record 'k users_world =
  w_db :: tenant_db
  w_kc :: 'k
  w_fate :: "nat \<Rightarrow> outage option"

type_synonym ('k, 'a) users_svc = "('k users_world, app_error, 'a) svc"

definition next_fate :: "'k users_world \<Rightarrow> 'k users_world" where
  "next_fate w = w\<lparr>w_fate := (\<lambda>n. w_fate w (Suc n))\<rparr>"

text \<open>One call of the data layer.\<close>

definition db_call :: "'a tx \<Rightarrow> ('k, 'a) users_svc" where
  "db_call m = (\<lambda>w.
     case w_fate w 0 of
       Some f \<Rightarrow> (Inl (outage_error f), next_fate w)
     | None \<Rightarrow> (case m (w_db w) of (r, db) \<Rightarrow> (r, next_fate w\<lparr>w_db := db\<rparr>)))"

definition kc_call :: "('k, 'a) kc_svc \<Rightarrow> ('k, 'a) users_svc" where
  "kc_call m = (\<lambda>w. case m (w_kc w) of (r, k) \<Rightarrow> (r, w\<lparr>w_kc := k\<rparr>))"

text \<open>
  \<open>$transaction(body, Serializable)\<close>: an exception of the body, and a failed commit, roll the database
  back; what the body did to Keycloak stays.
\<close>

definition serializable :: "('k, 'a) users_svc \<Rightarrow> ('k, 'a) users_svc" where
  "serializable body = (\<lambda>w.
     case body w of
       (Inl e, w') \<Rightarrow> (Inl e, w'\<lparr>w_db := w_db w\<rparr>)
     | (Inr x, w') \<Rightarrow>
         (case w_fate w' 0 of
            Some f \<Rightarrow> (Inl (outage_error f), next_fate w'\<lparr>w_db := w_db w\<rparr>)
          | None \<Rightarrow> (Inr x, next_fate w')))"

abbreviation put_users :: "user_row list \<Rightarrow> tenant_db \<Rightarrow> tenant_db" where
  "put_users rs \<equiv> t_users_update (\<lambda>_. rs)"

abbreviation put_userRoles :: "user_role_row list \<Rightarrow> tenant_db \<Rightarrow> tenant_db" where
  "put_userRoles rs \<equiv> t_userRoles_update (\<lambda>_. rs)"

section \<open>Helpers\<close>

record user_view =
  uv_id :: id
  uv_email :: string
  uv_active :: bool
  uv_createdAt :: int
  uv_roles :: "(role \<times> id option) list"

definition roles_of :: "tenant_db \<Rightarrow> id \<Rightarrow> (role \<times> id option) list" where
  "roles_of db uid = map (\<lambda>r. (ur_role r, ur_unitId r)) (filter (\<lambda>r. ur_userId r = uid) (t_userRoles db))"

definition user_view_of :: "tenant_db \<Rightarrow> user_row \<Rightarrow> user_view" where
  "user_view_of db u =
     \<lparr>uv_id = us_id u, uv_email = us_email u, uv_active = us_active u, uv_createdAt = us_createdAt u,
      uv_roles = roles_of db (us_id u)\<rparr>"

fun ROLE_RANK :: "role \<Rightarrow> int" where
  "ROLE_RANK PRACOWNIK = 0"
| "ROLE_RANK MANAGER = 1"
| "ROLE_RANK HR = 2"
| "ROLE_RANK ADMIN_KLIENTA = 3"

definition users_audit :: "actor \<Rightarrow> string \<Rightarrow> id \<Rightarrow> (string \<times> json) list \<Rightarrow> ('k, unit) users_svc" where
  "users_audit act action i payload =
     db_call (audit_log (act_userId act) action ''User'' i (JObj payload) (act_ipAddress act))"

definition isUniqueViolation :: "app_error \<Rightarrow> bool" where
  "isUniqueViolation err \<longleftrightarrow> (case err of P2002 _ \<Rightarrow> True | _ \<Rightarrow> False)"

definition isSerializationFailure :: "app_error \<Rightarrow> bool" where
  "isSerializationFailure err \<longleftrightarrow> (case err of P2034 _ \<Rightarrow> True | _ \<Rightarrow> False)"

definition mapWriteError :: "app_error \<Rightarrow> ('k, 'a) users_svc" where
  "mapWriteError err =
     throw (if isUniqueViolation err then ConflictException ''A user with this email already exists'' else err)"

text \<open>The constraints of \<open>user_roles\<close>: the composite unique key, the partial one on global rows, two foreign keys.\<close>

definition insert_user_role :: "id \<Rightarrow> role \<Rightarrow> id option \<Rightarrow> unit tx" where
  "insert_user_role userId r unitId =
     bnd (asks (\<lambda>db. list_ex (\<lambda>x. ur_userId x = userId \<and> ur_role x = r \<and> ur_unitId x = unitId) (t_userRoles db))) (\<lambda>dup.
     bnd (ensure (\<not> dup) (P2002 ''user_roles'')) (\<lambda>_.
     bnd (asks (\<lambda>db. list_ex (\<lambda>u. us_id u = userId) (t_users db) \<and>
                     (case unitId of None \<Rightarrow> True | Some i \<Rightarrow> list_ex (\<lambda>u. ou_id u = i) (t_units db)))) (\<lambda>ok.
     bnd (ensure ok (P2003 ''user_roles'')) (\<lambda>_.
     bnd (create_row t_userRoles put_userRoles \<lparr>ur_userId = userId, ur_role = r, ur_unitId = unitId\<rparr>) (\<lambda>_. ret ())))))"

definition insert_user :: "user_row \<Rightarrow> user_view tx" where
  "insert_user u =
     bnd (asks (\<lambda>db. list_ex (\<lambda>x. us_id x = us_id u \<or> us_email x = us_email u \<or>
                                  us_keycloakSub x = us_keycloakSub u) (t_users db))) (\<lambda>dup.
     bnd (ensure (\<not> dup) (P2002 ''users'')) (\<lambda>_.
     bnd (create_row t_users put_users u) (\<lambda>row. asks (\<lambda>db. user_view_of db row))))"

section \<open>Granting and revoking\<close>

definition grant :: "'k fetch \<Rightarrow> string \<Rightarrow> string \<Rightarrow> id \<Rightarrow> string \<Rightarrow> role \<Rightarrow> id option \<Rightarrow> ('k, unit) users_svc" where
  "grant fetch pw realm userId kcId r unitId =
     bnd (catch (db_call (insert_user_role userId r unitId))
            (\<lambda>err. if isUniqueViolation err then ret () else throw err)) (\<lambda>_.
     kc_call (assignRealmRole fetch pw realm kcId r))"

text \<open>
  The filter \<open>unitId: { not: unitId }\<close> as SQL has it: it never selects a row whose unit is null, except
  that \<open>not: null\<close> selects the rows whose unit is not null.
\<close>

definition unit_is_not :: "id option \<Rightarrow> id option \<Rightarrow> bool" where
  "unit_is_not unitId x \<longleftrightarrow> x \<noteq> None \<and> x \<noteq> unitId"

definition revokeInternal :: "'k fetch \<Rightarrow> string \<Rightarrow> string \<Rightarrow> id \<Rightarrow> string \<Rightarrow> role \<Rightarrow> id option \<Rightarrow> ('k, unit) users_svc" where
  "revokeInternal fetch pw realm userId kcId r unitId =
     bnd (db_call (asks (\<lambda>db. count_rows (\<lambda>x. ur_userId x = userId \<and> ur_role x = r \<and> unit_is_not unitId (ur_unitId x))
                               (t_userRoles db)))) (\<lambda>siblingCount.
     bnd (if siblingCount = 0 then kc_call (removeRealmRole fetch pw realm kcId r) else ret ()) (\<lambda>_.
     bnd (db_call (deleteMany t_userRoles put_userRoles
            (\<lambda>x. ur_userId x = userId \<and> ur_role x = r \<and> ur_unitId x = unitId))) (\<lambda>_. ret ())))"

section \<open>The acting user\<close>

definition resolveActingUser :: "tenant_db \<Rightarrow> actor \<Rightarrow> user_row option" where
  "resolveActingUser db act = find (\<lambda>u. us_keycloakSub u = act_userId act) (t_users db)"

definition requireRealAdmin :: "actor \<Rightarrow> ('k, user_view) users_svc" where
  "requireRealAdmin act =
     bnd (db_call (asks (\<lambda>db. map_option (user_view_of db) (resolveActingUser db act)))) (\<lambda>found.
     case found of
       None \<Rightarrow> throw (ForbiddenException ''Actor is not an active user in the current DB state'')
     | Some actingUser \<Rightarrow>
         if \<not> uv_active actingUser
           then throw (ForbiddenException ''Actor is not an active user in the current DB state'')
         else if \<not> list_ex (\<lambda>r. fst r = ADMIN_KLIENTA) (uv_roles actingUser)
           then throw (ForbiddenException ''Actor no longer holds ADMIN_KLIENTA in the current DB state'')
         else ret actingUser)"

definition jwt_admin :: "actor \<Rightarrow> string \<Rightarrow> ('k, unit) users_svc" where
  "jwt_admin act msg = ensure (role_name ADMIN_KLIENTA \<in> set (act_roles act)) (ForbiddenException msg)"

definition assertGlobalAdminGrant :: "role \<Rightarrow> id option \<Rightarrow> ('k, unit) users_svc" where
  "assertGlobalAdminGrant r unitId =
     (if r = ADMIN_KLIENTA \<and> unitId \<noteq> None
        then throw (BadRequestException ''ADMIN_KLIENTA jest zawsze globalny'') else ret ())"

definition active_admins :: "tenant_db \<Rightarrow> id list" where
  "active_admins db =
     map ur_userId (filter (\<lambda>r. ur_role r = ADMIN_KLIENTA \<and>
       list_ex (\<lambda>u. us_id u = ur_userId r \<and> us_active u) (t_users db)) (t_userRoles db))"

definition guardedAdminMutation :: "id \<Rightarrow> ('k, 'a) users_svc \<Rightarrow> ('k, 'a) users_svc" where
  "guardedAdminMutation targetUserId mutate =
     catch
       (serializable
          (bnd (db_call (asks active_admins)) (\<lambda>admins.
           bnd (ensure (\<not> (card (set admins) \<le> 1 \<and> targetUserId \<in> set admins))
                  (ConflictException ''Cannot remove the last ADMIN_KLIENTA of this tenant'')) (\<lambda>_.
           mutate))))
       (\<lambda>err. if isSerializationFailure err
              then throw (ConflictException ''Admin roster changed concurrently'') else throw err)"

definition findTarget :: "id \<Rightarrow> ('k, user_view \<times> string) users_svc" where
  "findTarget targetUserId =
     bnd (db_call (asks (\<lambda>db. map_option (\<lambda>u. (user_view_of db u, us_keycloakSub u)) (find_row us_id targetUserId (t_users db)))))
       (require (NotFoundException (''User '' @ targetUserId @ '' not found'')))"

section \<open>The operations\<close>

definition role_payload :: "role \<Rightarrow> id option \<Rightarrow> (string \<times> json) list" where
  "role_payload r unitId = [(''role'', JStr (role_name r)), (''unitId'', json_opt unitId)]"

definition invite_create ::
  "'k fetch \<Rightarrow> string \<Rightarrow> string \<Rightarrow> id \<Rightarrow> int \<Rightarrow> string \<Rightarrow> string \<Rightarrow> bool \<Rightarrow> ('k, user_view) users_svc" where
  "invite_create fetch pw realm newId now email kcId created =
     catch
       (db_call (insert_user \<lparr>us_id = newId, us_keycloakSub = kcId, us_email = email, us_active = True, us_createdAt = now\<rparr>))
       (\<lambda>err.
          bnd (if created then catch (kc_call (setEnabled fetch pw realm kcId False)) (\<lambda>_. ret ()) else ret ()) (\<lambda>_.
          mapWriteError err))"

definition invite ::
  "'k fetch \<Rightarrow> string \<Rightarrow> id \<Rightarrow> int \<Rightarrow> actor \<Rightarrow> string \<Rightarrow> string \<Rightarrow> role \<Rightarrow> id option \<Rightarrow> ('k, user_view) users_svc" where
  "invite fetch pw newId now act realm email r unitId =
     bnd (jwt_admin act ''Only ADMIN_KLIENTA may invite users'') (\<lambda>_.
     bnd (assertGlobalAdminGrant r unitId) (\<lambda>_.
     bnd (requireRealAdmin act) (\<lambda>_.
     bnd (db_call (asks (\<lambda>db. find (\<lambda>u. us_email u = email) (t_users db)))) (\<lambda>existing.
     bnd (ensure (existing = None) (ConflictException ''Uzytkownik o tym adresie e-mail juz istnieje'')) (\<lambda>_.
     bnd (kc_call (kc_createUser fetch pw realm email)) (\<lambda>(kcId, created).
     bnd (invite_create fetch pw realm newId now email kcId created) (\<lambda>user.
     bnd (grant fetch pw realm (uv_id user) kcId r unitId) (\<lambda>_.
     bnd (kc_call (sendPasswordSetupEmail fetch pw realm kcId)) (\<lambda>_.
     bnd (users_audit act ''user.invited'' (uv_id user) (role_payload r unitId)) (\<lambda>_.
     ret user))))))))))"

definition own_rank :: "user_view \<Rightarrow> int" where
  "own_rank actingUser = fold (\<lambda>r m. max m (ROLE_RANK (fst r))) (uv_roles actingUser) (-1)"

definition assignRole ::
  "'k fetch \<Rightarrow> string \<Rightarrow> actor \<Rightarrow> string \<Rightarrow> id \<Rightarrow> role \<Rightarrow> id option \<Rightarrow> ('k, unit) users_svc" where
  "assignRole fetch pw act realm targetUserId r unitId =
     bnd (jwt_admin act ''Only ADMIN_KLIENTA may manage roles'') (\<lambda>_.
     bnd (assertGlobalAdminGrant r unitId) (\<lambda>_.
     bnd (requireRealAdmin act) (\<lambda>actingUser.
     bnd (findTarget targetUserId) (\<lambda>(target, kcId).
     bnd (ensure (\<not> (uv_id target = uv_id actingUser \<and> own_rank actingUser < ROLE_RANK r))
            (ForbiddenException ''Cannot grant yourself a role higher than your current (real) role'')) (\<lambda>_.
     bnd (grant fetch pw realm (uv_id target) kcId r unitId) (\<lambda>_.
     users_audit act ''role.assigned'' (uv_id target) (role_payload r unitId)))))))"

definition revokeRole ::
  "'k fetch \<Rightarrow> string \<Rightarrow> actor \<Rightarrow> string \<Rightarrow> id \<Rightarrow> role \<Rightarrow> id option \<Rightarrow> ('k, unit) users_svc" where
  "revokeRole fetch pw act realm targetUserId r unitId =
     bnd (jwt_admin act ''Only ADMIN_KLIENTA may manage roles'') (\<lambda>_.
     bnd (requireRealAdmin act) (\<lambda>_.
     bnd (findTarget targetUserId) (\<lambda>(target, kcId).
     bnd (if r = ADMIN_KLIENTA
            then guardedAdminMutation (uv_id target) (revokeInternal fetch pw realm (uv_id target) kcId r unitId)
            else revokeInternal fetch pw realm (uv_id target) kcId r unitId) (\<lambda>_.
     users_audit act ''role.revoked'' (uv_id target) (role_payload r unitId)))))"

definition switch_off :: "'k fetch \<Rightarrow> string \<Rightarrow> string \<Rightarrow> id \<Rightarrow> string \<Rightarrow> ('k, unit) users_svc" where
  "switch_off fetch pw realm userId kcId =
     bnd (kc_call (setEnabled fetch pw realm kcId False)) (\<lambda>_.
     bnd (db_call (update_row t_users put_users us_id (P2025 ''users'') userId (\<lambda>u. u\<lparr>us_active := False\<rparr>))) (\<lambda>_.
     ret ()))"

definition deactivate_commit :: "'k fetch \<Rightarrow> string \<Rightarrow> string \<Rightarrow> user_view \<Rightarrow> string \<Rightarrow> ('k, unit) users_svc" where
  "deactivate_commit fetch pw realm target kcId =
     (if list_ex (\<lambda>r. fst r = ADMIN_KLIENTA) (uv_roles target)
        then guardedAdminMutation (uv_id target) (switch_off fetch pw realm (uv_id target) kcId)
        else switch_off fetch pw realm (uv_id target) kcId)"

definition deactivate :: "'k fetch \<Rightarrow> string \<Rightarrow> actor \<Rightarrow> string \<Rightarrow> id \<Rightarrow> ('k, unit) users_svc" where
  "deactivate fetch pw act realm targetUserId =
     bnd (jwt_admin act ''Only ADMIN_KLIENTA may deactivate users'') (\<lambda>_.
     bnd (requireRealAdmin act) (\<lambda>_.
     bnd (findTarget targetUserId) (\<lambda>(target, kcId).
     bnd (deactivate_commit fetch pw realm target kcId) (\<lambda>_.
     users_audit act ''user.deactivated'' (uv_id target) []))))"

text \<open>Newest first.\<close>

definition users_list :: "('k, user_view list) users_svc" where
  "users_list = db_call (asks (\<lambda>db. map (user_view_of db) (sort_key (\<lambda>u. - us_createdAt u) (t_users db))))"

section \<open>Reconciliation\<close>

datatype finding_kind = db_only | kc_only

record reconcile_finding =
  rn_userId :: id
  rn_role :: role
  rn_kind :: finding_kind

text \<open>The strings that are a role of the program; every other realm role is ignored.\<close>

definition role_of_name :: "string \<Rightarrow> role option" where
  "role_of_name s = find (\<lambda>r. role_name r = s) [PRACOWNIK, MANAGER, HR, ADMIN_KLIENTA]"

text \<open>The first loop, over the roles of the database.\<close>

fun reconcile_db :: "bool \<Rightarrow> id \<Rightarrow> role list \<Rightarrow> role list \<Rightarrow> ('k, reconcile_finding list \<times> nat) users_svc" where
  "reconcile_db fix userId kcRoles [] = ret ([], 0)"
| "reconcile_db fix userId kcRoles (r # rs) =
     (if r \<in> set kcRoles then reconcile_db fix userId kcRoles rs
      else bnd (if fix then db_call (deleteMany t_userRoles put_userRoles (\<lambda>x. ur_userId x = userId \<and> ur_role x = r))
                else ret 0) (\<lambda>_.
           bnd (reconcile_db fix userId kcRoles rs) (\<lambda>(findings, fixedCount).
           ret (\<lparr>rn_userId = userId, rn_role = r, rn_kind = db_only\<rparr> # findings,
                (if fix then Suc fixedCount else fixedCount)))))"

definition reconcile_kc :: "id \<Rightarrow> role list \<Rightarrow> role list \<Rightarrow> reconcile_finding list" where
  "reconcile_kc userId dbRoles kcRoles =
     map (\<lambda>r. \<lparr>rn_userId = userId, rn_role = r, rn_kind = kc_only\<rparr>) (filter (\<lambda>r. r \<notin> set dbRoles) kcRoles)"

text \<open>One user; a failing read of Keycloak skips the user.\<close>

definition read_kc_roles :: "'k fetch \<Rightarrow> string \<Rightarrow> string \<Rightarrow> string \<Rightarrow> ('k, string list option) users_svc" where
  "read_kc_roles fetch pw realm kcId =
     catch (bnd (kc_call (getUserRealmRoles fetch pw realm kcId)) (\<lambda>names. ret (Some names))) (\<lambda>_. ret None)"

definition reconcile_user ::
  "'k fetch \<Rightarrow> string \<Rightarrow> string \<Rightarrow> bool \<Rightarrow> id \<times> string \<times> role list \<Rightarrow> ('k, reconcile_finding list \<times> nat) users_svc" where
  "reconcile_user fetch pw realm fix user =
     bnd (read_kc_roles fetch pw realm (fst (snd user))) (\<lambda>read.
     case read of
       None \<Rightarrow> ret ([], 0)
     | Some names \<Rightarrow>
         let kcRoles = uniq (List.map_filter role_of_name names);
             dbRoles = uniq (snd (snd user))
         in bnd (reconcile_db fix (fst user) kcRoles dbRoles) (\<lambda>(findings, fixedCount).
            ret (findings @ reconcile_kc (fst user) dbRoles kcRoles, fixedCount)))"

fun reconcile_all ::
  "'k fetch \<Rightarrow> string \<Rightarrow> string \<Rightarrow> bool \<Rightarrow> (id \<times> string \<times> role list) list \<Rightarrow> ('k, reconcile_finding list \<times> nat) users_svc" where
  "reconcile_all fetch pw realm fix [] = ret ([], 0)"
| "reconcile_all fetch pw realm fix (u # us) =
     bnd (reconcile_user fetch pw realm fix u) (\<lambda>(fs, n).
     bnd (reconcile_all fetch pw realm fix us) (\<lambda>(gs, m).
     ret (fs @ gs, n + m)))"

definition users_to_reconcile :: "id option \<Rightarrow> tenant_db \<Rightarrow> (id \<times> string \<times> role list) list" where
  "users_to_reconcile userId db =
     map (\<lambda>u. (us_id u, us_keycloakSub u, map fst (roles_of db (us_id u))))
       (filter (\<lambda>u. case userId of None \<Rightarrow> True | Some i \<Rightarrow> i = [] \<or> us_id u = i) (t_users db))"

definition reconcile ::
  "'k fetch \<Rightarrow> string \<Rightarrow> actor \<Rightarrow> string \<Rightarrow> bool \<Rightarrow> id option \<Rightarrow> ('k, reconcile_finding list \<times> nat) users_svc" where
  "reconcile fetch pw act realm fix userId =
     bnd (jwt_admin act ''Only ADMIN_KLIENTA may run reconciliation'') (\<lambda>_.
     bnd (requireRealAdmin act) (\<lambda>_.
     bnd (db_call (asks (users_to_reconcile userId))) (\<lambda>users.
     bnd (reconcile_all fetch pw realm fix users) (\<lambda>(findings, fixedCount).
     bnd (users_audit act ''user.reconciled'' (case userId of None \<Rightarrow> ''ALL'' | Some i \<Rightarrow> i)
            [(''fix'', JBool fix), (''findingsCount'', JNum (real (length findings))), (''fixedCount'', JNum (real fixedCount))]) (\<lambda>_.
     ret (findings, fixedCount))))))"

section \<open>The HTTP controller\<close>

record jwt =
  jw_sub :: string
  jw_roles :: "string list option"
  jw_iss :: "string option"

definition jwt_actor :: "jwt \<Rightarrow> string \<Rightarrow> actor" where
  "jwt_actor user ip =
     \<lparr>act_userId = jw_sub user, act_roles = (case jw_roles user of None \<Rightarrow> [] | Some rs \<Rightarrow> rs), act_ipAddress = ip\<rparr>"

definition alnum :: "char \<Rightarrow> bool" where
  "alnum c \<longleftrightarrow> c \<in> set ''abcdefghijklmnopqrstuvwxyz0123456789''"

text \<open>The regular expression \<open>/\/realms\/(hrobot-[a-z0-9][a-z0-9-]{1,28}[a-z0-9])$/\<close>.\<close>

definition realm_of_iss :: "string \<Rightarrow> string option" where
  "realm_of_iss iss =
     (let seg = last_segment iss;
          front = take (length iss - length seg) iss;
          slug = drop 7 seg
      in if drop (length front - 8) front = ''/realms/'' \<and> take 7 seg = ''hrobot-'' \<and>
            3 \<le> length slug \<and> length slug \<le> 30 \<and> alnum (hd slug) \<and> alnum (last slug) \<and>
            list_all (\<lambda>c. alnum c \<or> c = CHR ''-'') slug
         then Some seg else None)"

definition jwt_realm :: "jwt \<Rightarrow> ('k, string) users_svc" where
  "jwt_realm user =
     require (UnauthorizedException ''Cannot resolve tenant realm from token'')
       (realm_of_iss (case jw_iss user of None \<Rightarrow> [] | Some i \<Rightarrow> i))"

datatype users_request =
  UrList
| UrInvite id string role "id option"
| UrAssign id role "id option"
| UrRevoke id role "id option"
| UrDeactivate id
| UrReconcile "string option" "id option"

datatype users_reply =
  UaUsers "user_view list"
| UaUser user_view
| UaNothing
| UaReport "reconcile_finding list" nat

fun users_body :: "'k fetch \<Rightarrow> string \<Rightarrow> int \<Rightarrow> jwt \<Rightarrow> string \<Rightarrow> users_request \<Rightarrow> ('k, users_reply) users_svc" where
  "users_body fetch pw now user ip UrList = bnd users_list (\<lambda>us. ret (UaUsers us))"
| "users_body fetch pw now user ip (UrInvite newId email r unitId) =
     bnd (jwt_realm user) (\<lambda>realm.
     bnd (invite fetch pw newId now (jwt_actor user ip) realm email r unitId) (\<lambda>u. ret (UaUser u)))"
| "users_body fetch pw now user ip (UrAssign userId r unitId) =
     bnd (jwt_realm user) (\<lambda>realm.
     bnd (assignRole fetch pw (jwt_actor user ip) realm userId r unitId) (\<lambda>_. ret UaNothing))"
| "users_body fetch pw now user ip (UrRevoke userId r unitId) =
     bnd (jwt_realm user) (\<lambda>realm.
     bnd (revokeRole fetch pw (jwt_actor user ip) realm userId r unitId) (\<lambda>_. ret UaNothing))"
| "users_body fetch pw now user ip (UrDeactivate userId) =
     bnd (jwt_realm user) (\<lambda>realm.
     bnd (deactivate fetch pw (jwt_actor user ip) realm userId) (\<lambda>_. ret UaNothing))"
| "users_body fetch pw now user ip (UrReconcile fix userId) =
     bnd (jwt_realm user) (\<lambda>realm.
     bnd (reconcile fetch pw (jwt_actor user ip) realm (fix = Some ''true'') userId) (\<lambda>(fs, n). ret (UaReport fs n)))"

definition users_handle :: "'k fetch \<Rightarrow> string \<Rightarrow> int \<Rightarrow> jwt \<Rightarrow> string \<Rightarrow> users_request \<Rightarrow> ('k, users_reply) users_svc" where
  "users_handle fetch pw now user ip req =
     bnd (lift_sum (canActivate (Some [role_name ADMIN_KLIENTA]) (act_roles (jwt_actor user ip)))) (\<lambda>_.
     users_body fetch pw now user ip req)"

end
