(* ===== verification/UsersInv.thy ===== *)
theory UsersInv
  imports Users
begin

text \<open>
  The rules that take a claim about a users operation apart, and the two invariants of the users module
  operation by operation: every role claim that Keycloak issues is backed by a role row, and the tenant
  keeps an active administrator. Both hold whatever call fails on the way.
\<close>

section \<open>Rules\<close>

lemma next_fate_simps [simp]: "w_db (next_fate w) = w_db w" "w_kc (next_fate w) = w_kc w"
  by (simp_all add: next_fate_def)

lemma wp_db_call [svc_wp]:
  "wp (db_call m) Q E w \<longleftrightarrow>
     (case w_fate w 0 of
        Some f \<Rightarrow> E (outage_error f) (next_fate w)
      | None \<Rightarrow> wp m (\<lambda>x db. Q x (next_fate w\<lparr>w_db := db\<rparr>)) (\<lambda>e db. E e (next_fate w\<lparr>w_db := db\<rparr>)) (w_db w))"
  by (simp add: wp_def db_call_def split: option.splits prod.splits sum.splits)

lemma wp_kc_call [svc_wp]:
  "wp (kc_call m) Q E w \<longleftrightarrow> wp m (\<lambda>x k. Q x (w\<lparr>w_kc := k\<rparr>)) (\<lambda>e k. E e (w\<lparr>w_kc := k\<rparr>)) (w_kc w)"
  by (simp add: wp_def kc_call_def split: prod.splits sum.splits)

lemma wp_serializable [svc_wp]:
  "wp (serializable m) Q E w \<longleftrightarrow>
     wp m (\<lambda>x w'. case w_fate w' 0 of
              Some f \<Rightarrow> E (outage_error f) (next_fate w'\<lparr>w_db := w_db w\<rparr>) | None \<Rightarrow> Q x (next_fate w'))
       (\<lambda>e w'. E e (w'\<lparr>w_db := w_db w\<rparr>)) w"
  by (simp add: wp_def serializable_def split: option.splits prod.splits sum.splits)

text \<open>Nothing but the fate of later calls has moved on.\<close>

definition untouched :: "'k users_world \<Rightarrow> 'k users_world \<Rightarrow> bool" where
  "untouched w w' \<longleftrightarrow> w_db w' = w_db w \<and> w_kc w' = w_kc w"

lemma untouched_simps [simp]: "untouched w w" "untouched w (next_fate w)" "untouched w (next_fate w\<lparr>w_db := w_db w\<rparr>)"
  by (simp_all add: untouched_def)

lemma untouched_trans: "untouched w w1 \<Longrightarrow> untouched w1 w2 \<Longrightarrow> untouched w w2"
  by (simp add: untouched_def)

definition real_admin :: "tenant_db \<Rightarrow> actor \<Rightarrow> bool" where
  "real_admin db act \<longleftrightarrow>
     (\<exists>u. resolveActingUser db act = Some u \<and> us_active u \<and> ADMIN_KLIENTA \<in> fst ` set (roles_of db (us_id u)))"

lemma wp_db_read:
  assumes "\<And>w'. untouched w w' \<Longrightarrow> Q (f (w_db w)) w'" "\<And>e w'. untouched w w' \<Longrightarrow> E e w'"
  shows "wp (db_call (asks f)) Q E w"
  using assms by (auto simp: svc_wp split: option.splits)

lemma user_view_of_simps [simp]:
  "uv_id (user_view_of db u) = us_id u" "uv_active (user_view_of db u) = us_active u"
  "uv_roles (user_view_of db u) = roles_of db (us_id u)"
  by (simp_all add: user_view_of_def)

lemma wp_requireRealAdmin:
  assumes "\<And>u w'. untouched w w' \<Longrightarrow> real_admin (w_db w) act \<Longrightarrow> resolveActingUser (w_db w) act = Some u \<Longrightarrow>
      Q (user_view_of (w_db w) u) w'"
    and "\<And>e w'. untouched w w' \<Longrightarrow> E e w'"
  shows "wp (requireRealAdmin act) Q E w"
  unfolding requireRealAdmin_def wp_bnd
proof (rule wp_db_read)
  fix w'
  assume w': "untouched w w'"
  show "wp (case map_option (user_view_of (w_db w)) (resolveActingUser (w_db w) act) of
      None \<Rightarrow> throw (ForbiddenException ''Actor is not an active user in the current DB state'')
    | Some actingUser \<Rightarrow>
        if \<not> uv_active actingUser then throw (ForbiddenException ''Actor is not an active user in the current DB state'')
        else if \<not> list_ex (\<lambda>r. fst r = ADMIN_KLIENTA) (uv_roles actingUser)
          then throw (ForbiddenException ''Actor no longer holds ADMIN_KLIENTA in the current DB state'')
        else ret actingUser) Q E w'"
  proof (cases "resolveActingUser (w_db w) act")
    case (Some u)
    then have "real_admin (w_db w) act" if "us_active u" "list_ex (\<lambda>r. fst r = ADMIN_KLIENTA) (roles_of (w_db w) (us_id u))"
      using that by (force simp: real_admin_def list_ex_iff)
    with Some w' assms(1) [OF w' _ Some] assms(2) [OF w'] show ?thesis
      by (auto simp: svc_wp)
  qed (use assms w' in \<open>simp add: svc_wp\<close>)
qed (use assms in blast)

lemma wp_findTarget:
  assumes "\<And>u w'. untouched w w' \<Longrightarrow> find_row us_id i (t_users (w_db w)) = Some u \<Longrightarrow>
      Q (user_view_of (w_db w) u, us_keycloakSub u) w'"
    and "\<And>e w'. untouched w w' \<Longrightarrow> E e w'"
  shows "wp (findTarget i) Q E w"
  unfolding findTarget_def wp_bnd
  by (rule wp_db_read) (use assms in \<open>auto simp: svc_wp split: option.splits\<close>)

text \<open>The last-admin guard: a failure of the body, or of its commit, puts the database back.\<close>

lemma wp_rethrow: "wp (if c then throw a else throw b) Q E = E (if c then a else b)"
  by (rule ext) (simp add: svc_wp)

lemma wp_guardedAdminMutation:
  assumes body: "\<And>w1. untouched w w1 \<Longrightarrow>
      \<not> (card (set (active_admins (w_db w))) \<le> 1 \<and> i \<in> set (active_admins (w_db w))) \<Longrightarrow>
      wp m (\<lambda>x w'. Q x (next_fate w') \<and> (\<forall>e. E e (next_fate w'\<lparr>w_db := w_db w\<rparr>)))
        (\<lambda>_ w'. \<forall>e. E e (w'\<lparr>w_db := w_db w\<rparr>)) w1"
    and failed: "\<And>e w'. untouched w w' \<Longrightarrow> E e w'"
  shows "wp (guardedAdminMutation i m) Q E w"
  unfolding guardedAdminMutation_def wp_catch wp_serializable wp_bnd wp_rethrow
proof (rule wp_db_read)
  fix w1
  assume w1: "untouched w w1"
  show "wp (ensure (\<not> (card (set (active_admins (w_db w))) \<le> 1 \<and> i \<in> set (active_admins (w_db w))))
      (ConflictException ''Cannot remove the last ADMIN_KLIENTA of this tenant''))
    (\<lambda>_. wp m (\<lambda>x w'. case w_fate w' 0 of
        Some f \<Rightarrow> E (if isSerializationFailure (outage_error f) then ConflictException ''Admin roster changed concurrently''
          else outage_error f) (next_fate w'\<lparr>w_db := w_db w\<rparr>)
      | None \<Rightarrow> Q x (next_fate w'))
      (\<lambda>e w'. E (if isSerializationFailure e then ConflictException ''Admin roster changed concurrently'' else e)
         (w'\<lparr>w_db := w_db w\<rparr>)))
    (\<lambda>e w'. E (if isSerializationFailure e then ConflictException ''Admin roster changed concurrently'' else e)
      (w'\<lparr>w_db := w_db w\<rparr>)) w1"
    unfolding wp_ensure
  proof (split if_split, intro conjI impI)
    assume "\<not> (card (set (active_admins (w_db w))) \<le> 1 \<and> i \<in> set (active_admins (w_db w)))"
    from body [OF w1 this]
    show "wp m (\<lambda>x w'. case w_fate w' 0 of
        Some f \<Rightarrow> E (if isSerializationFailure (outage_error f) then ConflictException ''Admin roster changed concurrently''
          else outage_error f) (next_fate w'\<lparr>w_db := w_db w\<rparr>)
      | None \<Rightarrow> Q x (next_fate w'))
      (\<lambda>e w'. E (if isSerializationFailure e then ConflictException ''Admin roster changed concurrently'' else e)
         (w'\<lparr>w_db := w_db w\<rparr>)) w1"
      by (rule wp_mono) (auto split: option.split)
  qed (use w1 in \<open>auto simp: untouched_def intro!: failed\<close>)
qed (auto simp: untouched_def intro!: failed)

text \<open>The audit row touches no user and no role.\<close>

definition same_roster :: "'k users_world \<Rightarrow> 'k users_world \<Rightarrow> bool" where
  "same_roster w w' \<longleftrightarrow>
     t_users (w_db w') = t_users (w_db w) \<and> t_userRoles (w_db w') = t_userRoles (w_db w) \<and> w_kc w' = w_kc w"

lemma same_roster_simps [simp]: "same_roster w w"
  by (simp add: same_roster_def)

lemma untouched_roster: "untouched w w' \<Longrightarrow> same_roster w w'"
  by (simp add: untouched_def same_roster_def)

lemma wp_users_audit:
  assumes "\<And>w'. same_roster w w' \<Longrightarrow> Q () w'" "\<And>e w'. same_roster w w' \<Longrightarrow> E e w'"
  shows "wp (users_audit act action i payload) Q E w"
  using assms by (auto simp: users_audit_def audit_log_def svc_wp same_roster_def split: option.splits)

section \<open>Every claim is backed\<close>

text \<open>
  \<open>backed\<close>: for every login of the realm, every role of the program that Keycloak maps to it is held by
  the user with that login in the tenant database.
\<close>

definition holds_role :: "tenant_db \<Rightarrow> string \<Rightarrow> role \<Rightarrow> bool" where
  "holds_role db sub r \<longleftrightarrow>
     (\<exists>u \<in> set (t_users db). us_keycloakSub u = sub \<and>
        (\<exists>x \<in> set (t_userRoles db). ur_userId x = us_id u \<and> ur_role x = r))"

definition backed :: "('k \<Rightarrow> string \<Rightarrow> string \<Rightarrow> string set) \<Rightarrow> string \<Rightarrow> 'k users_world \<Rightarrow> bool" where
  "backed mapped realm w \<longleftrightarrow>
     distinct (map us_id (t_users (w_db w))) \<and>
     (\<forall>sub r. role_name r \<in> mapped (w_kc w) realm sub \<longrightarrow> holds_role (w_db w) sub r)"

lemma role_name_inj [simp]: "role_name r = role_name s \<longleftrightarrow> r = s"
  by (cases r; cases s) simp_all

lemma backed_roster: "same_roster w w' \<Longrightarrow> backed mapped realm w \<Longrightarrow> backed mapped realm w'"
  by (simp add: same_roster_def backed_def holds_role_def)

lemma backed_untouched: "untouched w w' \<Longrightarrow> backed mapped realm w \<Longrightarrow> backed mapped realm w'"
  by (rule backed_roster [OF untouched_roster])

lemma backed_next_fate [simp]: "backed mapped realm (next_fate w) = backed mapped realm w"
  by (simp add: backed_def)

lemma backed_same:
  "backed mapped realm w \<Longrightarrow> mapped k = mapped (w_kc w) \<Longrightarrow> backed mapped realm (w\<lparr>w_kc := k\<rparr>)"
  by (simp add: backed_def)

lemma backed_moved:
  "backed mapped realm w \<Longrightarrow> mapped k = mapped (w_kc w) \<Longrightarrow> backed mapped realm (w\<lparr>w_kc := k, w_fate := f\<rparr>)"
  by (simp add: backed_def)

text \<open>Fewer mappings over the same rows.\<close>

lemma backed_fewer:
  "backed mapped realm w \<Longrightarrow> w_db w' = w_db w \<Longrightarrow> (\<And>re v. mapped (w_kc w') re v \<subseteq> mapped (w_kc w) re v) \<Longrightarrow>
     backed mapped realm w'"
  unfolding backed_def by (metis subsetD)

text \<open>Rows of one role of one user go, and none of their login's claims needed them.\<close>

lemma backed_delete:
  assumes inv: "backed mapped realm w" and u: "u \<in> set (t_users (w_db w))"
    and db: "w_db w' = put_userRoles (delete_rows (\<lambda>x. ur_userId x = us_id u \<and> ur_role x = r \<and> P x) (t_userRoles (w_db w))) (w_db w)"
    and kc: "\<And>re v. mapped (w_kc w') re v \<subseteq> mapped (w_kc w) re v"
    and free: "role_name r \<in> mapped (w_kc w') realm (us_keycloakSub u) \<Longrightarrow>
      \<exists>x \<in> set (t_userRoles (w_db w)). ur_userId x = us_id u \<and> ur_role x = r \<and> \<not> P x"
  shows "backed mapped realm w'"
proof -
  have ids: "v = u" if "v \<in> set (t_users (w_db w))" "us_id v = us_id u" for v
    using that inv u by (auto simp: backed_def distinct_map inj_on_def)
  have "holds_role (w_db w') sub s" if claim: "role_name s \<in> mapped (w_kc w') realm sub" for sub s
  proof (cases "sub = us_keycloakSub u \<and> s = r")
    case True
    with claim free obtain x where "x \<in> set (t_userRoles (w_db w'))" "ur_userId x = us_id u" "ur_role x = r"
      by (auto simp: db)
    moreover have "t_users (w_db w') = t_users (w_db w)" using db by simp
    ultimately show ?thesis using True u unfolding holds_role_def by metis
  next
    case False
    from claim kc inv have "holds_role (w_db w) sub s" unfolding backed_def by blast
    then obtain v x where v: "v \<in> set (t_users (w_db w))" "us_keycloakSub v = sub"
      and x: "x \<in> set (t_userRoles (w_db w))" "ur_userId x = us_id v" "ur_role x = s"
      by (auto simp: holds_role_def)
    have "\<not> (ur_userId x = us_id u \<and> ur_role x = r \<and> P x)" using False v x ids [of v] by auto
    with x have "x \<in> set (t_userRoles (w_db w'))" by (simp add: db)
    moreover have "t_users (w_db w') = t_users (w_db w)" using db by simp
    ultimately show ?thesis using v x unfolding holds_role_def by metis
  qed
  with inv db show ?thesis by (simp add: backed_def)
qed

lemma wp_insert_user_role:
  assumes "\<And>db'. t_users db' = t_users db \<Longrightarrow> set (t_userRoles db) \<subseteq> set (t_userRoles db') \<Longrightarrow>
      (\<exists>x \<in> set (t_userRoles db'). ur_userId x = userId \<and> ur_role x = r) \<Longrightarrow> Q () db'"
    and "\<And>e. \<not> isUniqueViolation e \<or> (\<exists>x \<in> set (t_userRoles db). ur_userId x = userId \<and> ur_role x = r) \<Longrightarrow> E e db"
  shows "wp (insert_user_role userId r unitId) Q E db"
  unfolding insert_user_role_def svc_wp
  by (auto simp: list_ex_iff isUniqueViolation_def intro!: assms)

lemma outage_not_unique [simp]: "\<not> isUniqueViolation (outage_error f)"
  by (cases f) (simp_all add: isUniqueViolation_def)

text \<open>A grant first makes the row, then the claim.\<close>

lemma grant_backed:
  assumes server: "keycloak_server fetch mapped" and inv: "backed mapped realm w"
    and u: "u \<in> set (t_users (w_db w))"
  shows "wp (grant fetch pw realm (us_id u) (us_keycloakSub u) r unitId) (\<lambda>_. backed mapped realm) (\<lambda>_. backed mapped realm) w"
proof -
  have claim: "wp (kc_call (assignRealmRole fetch pw realm (us_keycloakSub u) r)) (\<lambda>_. backed mapped realm) (\<lambda>_. backed mapped realm) w1"
    if w1: "backed mapped realm w1" "holds_role (w_db w1) (us_keycloakSub u) r" for w1
    unfolding wp_kc_call
  proof (rule wp_assignRealmRole [OF server])
    fix k'
    assume more: "\<And>re v. mapped k' re v \<subseteq> mapped (w_kc w1) re v \<union> (if re = realm \<and> v = us_keycloakSub u then {role_name r} else {})"
    have "role_name s \<in> mapped (w_kc w1) realm sub \<or> sub = us_keycloakSub u \<and> s = r"
      if "role_name s \<in> mapped k' realm sub" for sub s
      using that more [of realm sub] by (cases "sub = us_keycloakSub u") auto
    with w1 show "backed mapped realm (w1\<lparr>w_kc := k'\<rparr>) \<and> (\<forall>e. backed mapped realm (w1\<lparr>w_kc := k'\<rparr>))"
      unfolding backed_def by auto
  qed
  have row: "backed mapped realm (next_fate w\<lparr>w_db := db'\<rparr>)"
    if "t_users db' = t_users (w_db w)" "set (t_userRoles (w_db w)) \<subseteq> set (t_userRoles db')" for db'
    using inv that unfolding backed_def holds_role_def by simp (metis subsetD)
  have held: "holds_role db' (us_keycloakSub u) r"
    if "t_users db' = t_users (w_db w)" "\<exists>x \<in> set (t_userRoles db'). ur_userId x = us_id u \<and> ur_role x = r" for db'
    using that u by (auto simp: holds_role_def)
  have go: "wp (kc_call (assignRealmRole fetch pw realm (us_keycloakSub u) r)) (\<lambda>_. backed mapped realm) (\<lambda>_. backed mapped realm)
      (next_fate w\<lparr>w_db := db'\<rparr>)"
    if "t_users db' = t_users (w_db w)" "set (t_userRoles (w_db w)) \<subseteq> set (t_userRoles db')"
      "\<exists>x \<in> set (t_userRoles db'). ur_userId x = us_id u \<and> ur_role x = r" for db'
    by (rule claim) (use row [OF that(1,2)] held [OF that(1,3)] in simp_all)
  show ?thesis
  proof (cases "w_fate w 0")
    case None
    show ?thesis
      unfolding grant_def wp_bnd wp_catch wp_db_call None option.simps
    proof (rule wp_insert_user_role)
      fix e
      assume "\<not> isUniqueViolation e \<or> (\<exists>x \<in> set (t_userRoles (w_db w)). ur_userId x = us_id u \<and> ur_role x = r)"
      then show "wp (if isUniqueViolation e then ret () else throw e)
          (\<lambda>_. wp (kc_call (assignRealmRole fetch pw realm (us_keycloakSub u) r)) (\<lambda>_. backed mapped realm) (\<lambda>_. backed mapped realm))
          (\<lambda>_. backed mapped realm) (next_fate w\<lparr>w_db := w_db w\<rparr>)"
        using go [of "w_db w"] row [of "w_db w"] by (simp add: wp_ret wp_throw)
    qed (rule go)
  qed (use inv in \<open>simp add: grant_def wp_bnd wp_catch wp_db_call wp_throw backed_untouched\<close>)
qed

text \<open>
  A revocation first removes the claim, then the rows. It adds no mapping, so it may also run inside a
  transaction that is rolled back.
\<close>

lemma revokeInternal_backed:
  assumes server: "keycloak_server fetch mapped" and inv: "backed mapped realm w"
    and u: "u \<in> set (t_users (w_db w))"
  shows "wp (revokeInternal fetch pw realm (us_id u) (us_keycloakSub u) r unitId)
    (\<lambda>_ w'. backed mapped realm w' \<and> (\<forall>re v. mapped (w_kc w') re v \<subseteq> mapped (w_kc w) re v))
    (\<lambda>_ w'. backed mapped realm w' \<and> (\<forall>re v. mapped (w_kc w') re v \<subseteq> mapped (w_kc w) re v)) w"
    (is "wp _ (\<lambda>_. ?R) (\<lambda>_. ?R) w")
  unfolding revokeInternal_def wp_bnd
proof (rule wp_db_read)
  fix w1
  assume w1: "untouched w w1"
  let ?n = "count_rows (\<lambda>x. ur_userId x = us_id u \<and> ur_role x = r \<and> unit_is_not unitId (ur_unitId x)) (t_userRoles (w_db w))"
  let ?del = "db_call (deleteMany t_userRoles put_userRoles (\<lambda>x. ur_userId x = us_id u \<and> ur_role x = r \<and> ur_unitId x = unitId))"
  have delete: "wp ?del (\<lambda>_. wp (ret ()) (\<lambda>_. ?R) (\<lambda>_. ?R)) (\<lambda>_. ?R) w2"
    if w2: "w_db w2 = w_db w" "\<And>re v. mapped (w_kc w2) re v \<subseteq> mapped (w_kc w) re v"
      and free: "role_name r \<in> mapped (w_kc w2) realm (us_keycloakSub u) \<Longrightarrow> ?n \<noteq> 0" for w2
  proof (cases "w_fate w2 0")
    case None
    have "\<exists>x \<in> set (t_userRoles (w_db w)). ur_userId x = us_id u \<and> ur_role x = r \<and> ur_unitId x \<noteq> unitId"
      if "role_name r \<in> mapped (w_kc w2) realm (us_keycloakSub u)"
      using free [OF that] by (auto simp: count_rows_0_iff unit_is_not_def)
    then have "backed mapped realm (next_fate w2\<lparr>w_db := put_userRoles
        (delete_rows (\<lambda>x. ur_userId x = us_id u \<and> ur_role x = r \<and> ur_unitId x = unitId) (t_userRoles (w_db w))) (w_db w)\<rparr>)"
      by (intro backed_delete [OF inv u, where P = "\<lambda>x. ur_unitId x = unitId" and r = r]) (use w2(2) in auto)
    with None w2 show ?thesis by (simp add: svc_wp)
  next
    case (Some f)
    have "backed mapped realm (next_fate w2)" by (rule backed_fewer [OF inv]) (use w2 in auto)
    with Some w2 show ?thesis by (simp add: svc_wp)
  qed
  show "wp (if ?n = 0 then kc_call (removeRealmRole fetch pw realm (us_keycloakSub u) r) else ret ())
      (\<lambda>_. wp ?del (\<lambda>_. wp (ret ()) (\<lambda>_. ?R) (\<lambda>_. ?R)) (\<lambda>_. ?R)) (\<lambda>_. ?R) w1"
  proof (cases "?n = 0")
    case True
    have "wp (kc_call (removeRealmRole fetch pw realm (us_keycloakSub u) r))
      (\<lambda>_. wp ?del (\<lambda>_. wp (ret ()) (\<lambda>_. ?R) (\<lambda>_. ?R)) (\<lambda>_. ?R)) (\<lambda>_. ?R) w1"
      unfolding wp_kc_call
      by (rule wp_removeRealmRole [OF server])
        (use w1 in \<open>force simp: untouched_def intro!: delete backed_fewer [OF inv]\<close>)
    with True show ?thesis by simp
  next
    case False
    with w1 show ?thesis by (auto simp: wp_ret untouched_def intro!: delete)
  qed
qed (use inv in \<open>auto simp: untouched_def intro!: backed_fewer [OF inv]\<close>)

text \<open>The last-admin guard around a change that only takes mappings away.\<close>

lemma guarded_mutation_backed:
  assumes inv: "backed mapped realm w"
    and body: "\<And>w1. untouched w w1 \<Longrightarrow>
      wp m (\<lambda>_ w'. backed mapped realm w' \<and> (\<forall>re v. mapped (w_kc w') re v \<subseteq> mapped (w_kc w1) re v))
        (\<lambda>_ w'. backed mapped realm w' \<and> (\<forall>re v. mapped (w_kc w') re v \<subseteq> mapped (w_kc w1) re v)) w1"
  shows "wp (guardedAdminMutation i m) (\<lambda>_. backed mapped realm) (\<lambda>_. backed mapped realm) w"
proof (rule wp_guardedAdminMutation)
  have undone: "backed mapped realm (w'\<lparr>w_db := w_db w\<rparr>)"
    if "\<And>re v. mapped (w_kc w') re v \<subseteq> mapped (w_kc w) re v" for w'
    by (rule backed_fewer [OF inv]) (use that in auto)
  fix w1
  assume w1: "untouched w w1"
  show "wp m (\<lambda>x w'. backed mapped realm (next_fate w') \<and> (\<forall>e. backed mapped realm (next_fate w'\<lparr>w_db := w_db w\<rparr>)))
      (\<lambda>_ w'. \<forall>e. backed mapped realm (w'\<lparr>w_db := w_db w\<rparr>)) w1"
  proof (rule wp_mono [OF body [OF w1]])
    fix w'
    assume w': "backed mapped realm w' \<and> (\<forall>re v. mapped (w_kc w') re v \<subseteq> mapped (w_kc w1) re v)"
    have "backed mapped realm (next_fate w'\<lparr>w_db := w_db w\<rparr>)" "backed mapped realm (w'\<lparr>w_db := w_db w\<rparr>)"
      by (rule undone, use w' w1 in \<open>simp add: untouched_def\<close>)+
    with w' show "backed mapped realm (next_fate w') \<and> (\<forall>e. backed mapped realm (next_fate w'\<lparr>w_db := w_db w\<rparr>))"
      and "\<forall>e. backed mapped realm (w'\<lparr>w_db := w_db w\<rparr>)"
      by (simp_all add: backed_untouched)
  qed
qed (use inv in \<open>simp add: backed_untouched\<close>)

end
