(* ===== verification/UsersProps.thy ===== *)
theory UsersProps
  imports UsersInv
begin

text \<open>
  The users module as a whole: the invariants of every request, who may change anything, and what a
  reconciliation achieves.
\<close>

section \<open>Every request keeps the claims backed\<close>

lemma wp_case_pair: "wp (case x of (a, b) \<Rightarrow> f a b) Q E w = wp (f (fst x) (snd x)) Q E w"
  by (simp add: case_prod_beta)

text \<open>The checks before every change: the claim of the token, then the tenant database.\<close>

lemma wp_jwt_admin:
  assumes "role_name ADMIN_KLIENTA \<in> set (act_roles act) \<Longrightarrow> Q () w" "\<And>e. E e w"
  shows "wp (jwt_admin act msg) Q E w"
  using assms by (simp add: jwt_admin_def wp_ensure)

lemma wp_assertGlobalAdminGrant:
  assumes "r \<noteq> ADMIN_KLIENTA \<or> unitId = None \<Longrightarrow> Q () w" "\<And>e. E e w"
  shows "wp (assertGlobalAdminGrant r unitId) Q E w"
  using assms by (auto simp: assertGlobalAdminGrant_def wp_throw wp_ret)

lemma wp_neutral_calls:
  assumes server: "keycloak_server fetch mapped"
    and E: "\<And>e k'. mapped k' = mapped (w_kc w) \<Longrightarrow> E e (w\<lparr>w_kc := k'\<rparr>)"
  shows "(\<And>x k'. mapped k' = mapped (w_kc w) \<Longrightarrow> Q x (w\<lparr>w_kc := k'\<rparr>)) \<Longrightarrow>
      wp (kc_call (kc_createUser fetch pw realm email)) Q E w"
    and "(\<And>k'. mapped k' = mapped (w_kc w) \<Longrightarrow> P () (w\<lparr>w_kc := k'\<rparr>)) \<Longrightarrow>
      wp (kc_call (setEnabled fetch pw realm u b)) P E w"
    and "(\<And>k'. mapped k' = mapped (w_kc w) \<Longrightarrow> P () (w\<lparr>w_kc := k'\<rparr>)) \<Longrightarrow>
      wp (kc_call (sendPasswordSetupEmail fetch pw realm u)) P E w"
    and "(\<And>names k'. mapped k' = mapped (w_kc w) \<Longrightarrow> set names = mapped (w_kc w) realm u \<Longrightarrow> R names (w\<lparr>w_kc := k'\<rparr>)) \<Longrightarrow>
      wp (kc_call (getUserRealmRoles fetch pw realm u)) R E w"
  unfolding wp_kc_call
     apply (rule wp_createUser [OF server]; (use E in auto))
    apply (rule wp_setEnabled [OF server]; (use E in auto))
   apply (rule wp_sendPasswordSetupEmail [OF server]; (use E in auto))
  apply (rule wp_getUserRealmRoles [OF server]; (use E in auto))
  done

lemma wp_insert_user:
  assumes "\<not> list_ex (\<lambda>x. us_id x = us_id u \<or> us_email x = us_email u \<or> us_keycloakSub x = us_keycloakSub u) (t_users db) \<Longrightarrow>
      Q (user_view_of (put_users (t_users db @ [u]) db) u) (put_users (t_users db @ [u]) db)"
    and "E (P2002 ''users'') db"
  shows "wp (insert_user u) Q E db"
  using assms by (simp add: insert_user_def svc_wp)

lemma wp_invite_create:
  assumes server: "keycloak_server fetch mapped" and inv: "backed mapped realm w"
    and after: "\<And>u w'. u \<in> set (t_users (w_db w')) \<Longrightarrow> us_id u = newId \<Longrightarrow> us_keycloakSub u = kcId \<Longrightarrow>
      backed mapped realm w' \<Longrightarrow> Q (user_view_of (w_db w') u) w'"
    and failed: "\<And>e w'. backed mapped realm w' \<Longrightarrow> E e w'"
  shows "wp (invite_create fetch pw realm newId now email kcId created) Q E w"
proof -
  let ?u = "\<lparr>us_id = newId, us_keycloakSub = kcId, us_email = email, us_active = True, us_createdAt = now\<rparr>"
  have off: "wp (catch (kc_call (setEnabled fetch pw realm kcId False)) (\<lambda>_. ret ())) (\<lambda>_. wp (mapWriteError err) Q E) E w1"
    if w1: "backed mapped realm w1" for w1 err
    unfolding wp_catch
    by (rule wp_neutral_calls [OF server])
      (use w1 in \<open>auto simp: wp_ret mapWriteError_def wp_throw intro!: failed backed_same\<close>)
  have comp: "wp (bnd (if created then catch (kc_call (setEnabled fetch pw realm kcId False)) (\<lambda>_. ret ()) else ret ())
      (\<lambda>_. mapWriteError err)) Q E w1" if w1: "backed mapped realm w1" for w1 err
  proof (cases created)
    case False
    with failed [OF w1] show ?thesis by (simp only: wp_bnd wp_ret mapWriteError_def wp_throw if_False)
  qed (use off [OF w1] in \<open>simp only: wp_bnd if_True\<close>)
  show ?thesis
  proof (cases "w_fate w 0")
    case None
    show ?thesis
      unfolding invite_create_def wp_catch wp_db_call None option.simps
    proof (rule wp_insert_user)
      assume new: "\<not> list_ex (\<lambda>x. us_id x = us_id ?u \<or> us_email x = us_email ?u \<or> us_keycloakSub x = us_keycloakSub ?u) (t_users (w_db w))"
      let ?w = "next_fate w\<lparr>w_db := put_users (t_users (w_db w) @ [?u]) (w_db w)\<rparr>"
      have "backed mapped realm ?w"
        using inv new unfolding backed_def holds_role_def by (auto simp: list_ex_iff)
      then have "Q (user_view_of (w_db ?w) ?u) ?w" by (intro after) simp_all
      then show "Q (user_view_of (put_users (t_users (w_db w) @ [?u]) (w_db w)) ?u) ?w" by simp
    qed (rule comp, rule backed_untouched [OF _ inv], simp)
  next
    case (Some f)
    show ?thesis
      unfolding invite_create_def wp_catch wp_db_call Some option.simps by (rule comp) (simp only: backed_next_fate inv)
  qed
qed

lemma invite_backed:
  assumes server: "keycloak_server fetch mapped" and inv: "backed mapped realm w"
  shows "wp (invite fetch pw newId now act realm email r unitId) (\<lambda>_. backed mapped realm) (\<lambda>_. backed mapped realm) w"
proof -
  let ?E = "\<lambda>_ :: app_error. backed mapped realm"
  have kept: "backed mapped realm w'" if "untouched w w'" for w' by (rule backed_untouched [OF that inv])
  have mail: "wp (kc_call (sendPasswordSetupEmail fetch pw realm kcId))
      (\<lambda>_. wp (users_audit act ''user.invited'' i (role_payload r unitId)) (\<lambda>_. wp (ret v) (\<lambda>_. backed mapped realm) ?E) ?E) ?E w1"
    if w1: "backed mapped realm w1" for w1 kcId i v
    by (rule wp_neutral_calls [OF server])
      (use w1 in \<open>auto simp: wp_ret intro!: wp_users_audit backed_same dest: backed_roster [OF _ backed_same]\<close>)
  have login: "wp (kc_call (kc_createUser fetch pw realm email)) (\<lambda>x. wp (case x of (kcId, created) \<Rightarrow>
        bnd (invite_create fetch pw realm newId now email kcId created) (\<lambda>user.
        bnd (grant fetch pw realm (uv_id user) kcId r unitId) (\<lambda>_.
        bnd (kc_call (sendPasswordSetupEmail fetch pw realm kcId)) (\<lambda>_.
        bnd (users_audit act ''user.invited'' (uv_id user) (role_payload r unitId)) (\<lambda>_. ret user))))) (\<lambda>_. backed mapped realm) ?E) ?E w1"
    if w1: "backed mapped realm w1" for w1
  proof (rule wp_neutral_calls [OF server])
    fix x k'
    assume k': "mapped k' = mapped (w_kc w1)"
    show "wp (case x of (kcId, created) \<Rightarrow>
        bnd (invite_create fetch pw realm newId now email kcId created) (\<lambda>user.
        bnd (grant fetch pw realm (uv_id user) kcId r unitId) (\<lambda>_.
        bnd (kc_call (sendPasswordSetupEmail fetch pw realm kcId)) (\<lambda>_.
        bnd (users_audit act ''user.invited'' (uv_id user) (role_payload r unitId)) (\<lambda>_. ret user))))) (\<lambda>_. backed mapped realm) ?E (w1\<lparr>w_kc := k'\<rparr>)"
      unfolding wp_case_pair wp_bnd
    proof (rule wp_invite_create [OF server])
      fix u w2
      assume u: "u \<in> set (t_users (w_db w2))" "us_id u = newId" "us_keycloakSub u = fst x" and w2: "backed mapped realm w2"
      from grant_backed [OF server w2 u(1), of pw r unitId] u
      show "wp (grant fetch pw realm (uv_id (user_view_of (w_db w2) u)) (fst x) r unitId)
        (\<lambda>_. wp (kc_call (sendPasswordSetupEmail fetch pw realm (fst x)))
          (\<lambda>_. wp (users_audit act ''user.invited'' (uv_id (user_view_of (w_db w2) u)) (role_payload r unitId))
             (\<lambda>_. wp (ret (user_view_of (w_db w2) u)) (\<lambda>_. backed mapped realm) ?E) ?E) ?E) ?E w2"
        by (auto intro: wp_mono mail)
    qed (rule backed_same [OF w1 k'])
  qed (rule backed_same [OF w1])
  have fresh: "wp (db_call (asks (\<lambda>db. find (\<lambda>u. us_email u = email) (t_users db)))) (\<lambda>existing.
      wp (ensure (existing = None) (ConflictException ''Uzytkownik o tym adresie e-mail juz istnieje'')) (\<lambda>_.
      wp (kc_call (kc_createUser fetch pw realm email)) (\<lambda>x. wp (case x of (kcId, created) \<Rightarrow>
        bnd (invite_create fetch pw realm newId now email kcId created) (\<lambda>user.
        bnd (grant fetch pw realm (uv_id user) kcId r unitId) (\<lambda>_.
        bnd (kc_call (sendPasswordSetupEmail fetch pw realm kcId)) (\<lambda>_.
        bnd (users_audit act ''user.invited'' (uv_id user) (role_payload r unitId)) (\<lambda>_. ret user))))) (\<lambda>_. backed mapped realm) ?E) ?E) ?E) ?E w1"
    if w1: "backed mapped realm w1" for w1
  proof (rule wp_db_read)
    fix w2
    assume "untouched w1 w2"
    then have "backed mapped realm w2" by (rule backed_untouched [OF _ w1])
    with login show "wp (ensure (find (\<lambda>u. us_email u = email) (t_users (w_db w1)) = None)
        (ConflictException ''Uzytkownik o tym adresie e-mail juz istnieje'')) (\<lambda>_.
      wp (kc_call (kc_createUser fetch pw realm email)) (\<lambda>x. wp (case x of (kcId, created) \<Rightarrow>
        bnd (invite_create fetch pw realm newId now email kcId created) (\<lambda>user.
        bnd (grant fetch pw realm (uv_id user) kcId r unitId) (\<lambda>_.
        bnd (kc_call (sendPasswordSetupEmail fetch pw realm kcId)) (\<lambda>_.
        bnd (users_audit act ''user.invited'' (uv_id user) (role_payload r unitId)) (\<lambda>_. ret user))))) (\<lambda>_. backed mapped realm) ?E) ?E) ?E w2"
      unfolding wp_ensure by (split if_split) (intro conjI impI; (rule login)?; assumption)
  qed (rule backed_untouched [OF _ w1])
  show ?thesis
    unfolding invite_def wp_bnd
    by (rule wp_jwt_admin, rule wp_assertGlobalAdminGrant, rule wp_requireRealAdmin, rule fresh)
      (use inv kept in auto)
qed

text \<open>The other operations start from the target's row.\<close>

lemma found_user: "find_row us_id i (t_users (w_db w)) = Some u \<Longrightarrow> u \<in> set (t_users (w_db w)) \<and> us_id u = i"
  by (rule find_row_SomeD)

lemma assignRole_backed:
  assumes server: "keycloak_server fetch mapped" and inv: "backed mapped realm w"
  shows "wp (assignRole fetch pw act realm i r unitId) (\<lambda>_. backed mapped realm) (\<lambda>_. backed mapped realm) w"
proof -
  have rest: "wp (findTarget i) (\<lambda>x. wp (case x of (target, kcId) \<Rightarrow>
      bnd (ensure (\<not> (uv_id target = uv_id me \<and> own_rank me < ROLE_RANK r))
            (ForbiddenException ''Cannot grant yourself a role higher than your current (real) role'')) (\<lambda>_.
      bnd (grant fetch pw realm (uv_id target) kcId r unitId) (\<lambda>_.
      users_audit act ''role.assigned'' (uv_id target) (role_payload r unitId)))) (\<lambda>_. backed mapped realm) (\<lambda>_. backed mapped realm))
      (\<lambda>_. backed mapped realm) w1" if "untouched w w1" for w1 me
  proof (rule wp_findTarget)
    fix u w2
    assume w2: "untouched w1 w2" and u: "find_row us_id i (t_users (w_db w1)) = Some u"
    have b2: "backed mapped realm w2" by (rule backed_untouched [OF untouched_trans [OF that w2] inv])
    from u w2 have mem: "u \<in> set (t_users (w_db w2))" by (auto dest: found_user simp: untouched_def)
    have "wp (grant fetch pw realm (us_id u) (us_keycloakSub u) r unitId)
        (\<lambda>_. wp (users_audit act ''role.assigned'' (us_id u) (role_payload r unitId)) (\<lambda>_. backed mapped realm) (\<lambda>_. backed mapped realm))
        (\<lambda>_. backed mapped realm) w2"
      by (rule wp_mono [OF grant_backed [OF server b2 mem]]) (auto intro!: wp_users_audit intro: backed_roster)
    with b2 show "wp (case (user_view_of (w_db w1) u, us_keycloakSub u) of (target, kcId) \<Rightarrow>
      bnd (ensure (\<not> (uv_id target = uv_id me \<and> own_rank me < ROLE_RANK r))
            (ForbiddenException ''Cannot grant yourself a role higher than your current (real) role'')) (\<lambda>_.
      bnd (grant fetch pw realm (uv_id target) kcId r unitId) (\<lambda>_.
      users_audit act ''role.assigned'' (uv_id target) (role_payload r unitId)))) (\<lambda>_. backed mapped realm) (\<lambda>_. backed mapped realm) w2"
      by (simp add: wp_bnd wp_ensure)
  qed (rule backed_untouched [OF untouched_trans [OF that] inv])
  show ?thesis
    unfolding assignRole_def wp_bnd
    by (rule wp_jwt_admin, rule wp_assertGlobalAdminGrant, rule wp_requireRealAdmin, erule rest)
      (auto intro: inv backed_untouched)
qed

lemma revokeRole_backed:
  assumes server: "keycloak_server fetch mapped" and inv: "backed mapped realm w"
  shows "wp (revokeRole fetch pw act realm i r unitId) (\<lambda>_. backed mapped realm) (\<lambda>_. backed mapped realm) w"
proof -
  have rest: "wp (findTarget i) (\<lambda>x. wp (case x of (target, kcId) \<Rightarrow>
      bnd (if r = ADMIN_KLIENTA
            then guardedAdminMutation (uv_id target) (revokeInternal fetch pw realm (uv_id target) kcId r unitId)
            else revokeInternal fetch pw realm (uv_id target) kcId r unitId) (\<lambda>_.
      users_audit act ''role.revoked'' (uv_id target) (role_payload r unitId))) (\<lambda>_. backed mapped realm) (\<lambda>_. backed mapped realm))
      (\<lambda>_. backed mapped realm) w1" if "untouched w w1" for w1
  proof (rule wp_findTarget)
    fix u w2
    assume w2: "untouched w1 w2" and u: "find_row us_id i (t_users (w_db w1)) = Some u"
    have b2: "backed mapped realm w2" by (rule backed_untouched [OF untouched_trans [OF that w2] inv])
    from u w2 have mem: "u \<in> set (t_users (w_db w2))" by (auto dest: found_user simp: untouched_def)
    have audit: "wp (users_audit act ''role.revoked'' (us_id u) (role_payload r unitId)) (\<lambda>_. backed mapped realm) (\<lambda>_. backed mapped realm) w3"
      if "backed mapped realm w3" for w3
      using that by (auto intro!: wp_users_audit intro: backed_roster)
    have guarded: "wp (guardedAdminMutation (us_id u) (revokeInternal fetch pw realm (us_id u) (us_keycloakSub u) r unitId))
        (\<lambda>_. backed mapped realm) (\<lambda>_. backed mapped realm) w2"
      using mem by (intro guarded_mutation_backed [OF b2] revokeInternal_backed [OF server])
        (auto intro: backed_untouched b2 simp: untouched_def)
    have plain: "wp (revokeInternal fetch pw realm (us_id u) (us_keycloakSub u) r unitId)
        (\<lambda>_. backed mapped realm) (\<lambda>_. backed mapped realm) w2"
      by (rule wp_mono [OF revokeInternal_backed [OF server b2 mem]]) auto
    show "wp (case (user_view_of (w_db w1) u, us_keycloakSub u) of (target, kcId) \<Rightarrow>
      bnd (if r = ADMIN_KLIENTA
            then guardedAdminMutation (uv_id target) (revokeInternal fetch pw realm (uv_id target) kcId r unitId)
            else revokeInternal fetch pw realm (uv_id target) kcId r unitId) (\<lambda>_.
      users_audit act ''role.revoked'' (uv_id target) (role_payload r unitId))) (\<lambda>_. backed mapped realm) (\<lambda>_. backed mapped realm) w2"
      unfolding wp_case_pair wp_bnd fst_conv snd_conv user_view_of_simps
      by (split if_split, intro conjI impI)
        (rule wp_mono [OF guarded], erule audit, assumption, rule wp_mono [OF plain], erule audit, assumption)
  qed (rule backed_untouched [OF untouched_trans [OF that] inv])
  show ?thesis
    unfolding revokeRole_def wp_bnd
    by (rule wp_jwt_admin, rule wp_requireRealAdmin, erule rest) (auto intro: inv backed_untouched)
qed

lemma switch_off_backed:
  assumes server: "keycloak_server fetch mapped" and inv: "backed mapped realm w"
  shows "wp (switch_off fetch pw realm i sub)
    (\<lambda>_ w'. backed mapped realm w' \<and> (\<forall>re v. mapped (w_kc w') re v \<subseteq> mapped (w_kc w) re v))
    (\<lambda>_ w'. backed mapped realm w' \<and> (\<forall>re v. mapped (w_kc w') re v \<subseteq> mapped (w_kc w) re v)) w"
proof -
  have off: "backed mapped realm (w\<lparr>w_kc := k', w_fate := f, w_db := put_users (update_rows (\<lambda>u. us_id u = i) (\<lambda>u. u\<lparr>us_active := False\<rparr>)
      (t_users (w_db w))) (w_db w)\<rparr>)" if "mapped k' = mapped (w_kc w)" for k' f
  proof -
    have "map us_id (update_rows (\<lambda>u. us_id u = i) (\<lambda>u. u\<lparr>us_active := False\<rparr>) (t_users (w_db w))) = map us_id (t_users (w_db w))"
      by (rule map_update_rows) simp
    moreover have "holds_role (put_users (update_rows (\<lambda>u. us_id u = i) (\<lambda>u. u\<lparr>us_active := False\<rparr>) (t_users (w_db w))) (w_db w)) s r"
      if "holds_role (w_db w) s r" for s r
    proof -
      from that obtain u where u: "u \<in> set (t_users (w_db w))" "us_keycloakSub u = s"
        and x: "\<exists>x \<in> set (t_userRoles (w_db w)). ur_userId x = us_id u \<and> ur_role x = r"
        by (auto simp: holds_role_def)
      let ?u = "if us_id u = i then u\<lparr>us_active := False\<rparr> else u"
      have "?u \<in> set (update_rows (\<lambda>u. us_id u = i) (\<lambda>u. u\<lparr>us_active := False\<rparr>) (t_users (w_db w)))"
        using u(1) unfolding set_update_rows by (rule imageI)
      with u(2) x show ?thesis unfolding holds_role_def by (intro bexI [of _ ?u]) auto
    qed
    ultimately show ?thesis using inv that by (simp add: backed_def)
  qed
  show ?thesis
    unfolding switch_off_def wp_bnd
    by (rule wp_neutral_calls [OF server])
      (use off inv in \<open>auto simp: svc_wp next_fate_def backed_moved backed_same split: option.splits\<close>)
qed

lemma deactivate_backed:
  assumes server: "keycloak_server fetch mapped" and inv: "backed mapped realm w"
  shows "wp (deactivate fetch pw act realm i) (\<lambda>_. backed mapped realm) (\<lambda>_. backed mapped realm) w"
proof -
  have commit: "wp (deactivate_commit fetch pw realm target sub) (\<lambda>_. wp (users_audit act ''user.deactivated'' k []) (\<lambda>_. backed mapped realm) (\<lambda>_. backed mapped realm))
      (\<lambda>_. backed mapped realm) w2" if b2: "backed mapped realm w2" for w2 target sub k
  proof -
    have audit: "wp (users_audit act ''user.deactivated'' k []) (\<lambda>_. backed mapped realm) (\<lambda>_. backed mapped realm) w3"
      if "backed mapped realm w3" for w3
      using that by (auto intro!: wp_users_audit intro: backed_roster)
    have guarded: "wp (guardedAdminMutation (uv_id target) (switch_off fetch pw realm (uv_id target) sub))
        (\<lambda>_. backed mapped realm) (\<lambda>_. backed mapped realm) w2"
      by (intro guarded_mutation_backed [OF b2] switch_off_backed [OF server]) (rule backed_untouched [OF _ b2])
    have plain: "wp (switch_off fetch pw realm (uv_id target) sub) (\<lambda>_. backed mapped realm) (\<lambda>_. backed mapped realm) w2"
      by (rule wp_mono [OF switch_off_backed [OF server b2]]) auto
    show ?thesis
      unfolding deactivate_commit_def
      by (split if_split, intro conjI impI)
        (rule wp_mono [OF guarded], erule audit, assumption, rule wp_mono [OF plain], erule audit, assumption)
  qed
  show ?thesis
    unfolding deactivate_def wp_bnd
    by (rule wp_jwt_admin, rule wp_requireRealAdmin, rule wp_findTarget)
      (auto simp: wp_bnd intro: commit inv backed_untouched untouched_trans)
qed

text \<open>A reconciliation deletes only the rows of roles that Keycloak does not map to the login.\<close>

lemma reconcile_db_backed:
  assumes inv: "backed mapped realm w" and u: "u \<in> set (t_users (w_db w))"
    and truth: "\<And>r. role_name r \<in> mapped (w_kc w) realm (us_keycloakSub u) \<Longrightarrow> r \<in> set kcRoles"
  shows "wp (reconcile_db fix (us_id u) kcRoles rs)
    (\<lambda>_ w'. backed mapped realm w' \<and> t_users (w_db w') = t_users (w_db w) \<and> w_kc w' = w_kc w)
    (\<lambda>_ w'. backed mapped realm w') w"
  using inv u truth
proof (induction rs arbitrary: w)
  case (Cons r rs)
  show ?case
  proof (cases "r \<in> set kcRoles")
    case False
    let ?del = "deleteMany t_userRoles put_userRoles (\<lambda>x. ur_userId x = us_id u \<and> ur_role x = r)"
    let ?R = "\<lambda>w'. backed mapped realm w' \<and> t_users (w_db w') = t_users (w_db w) \<and> w_kc w' = w_kc w"
    have rest: "wp (bnd (reconcile_db fix (us_id u) kcRoles rs) (\<lambda>(findings, fixedCount). ret (g findings, h fixedCount)))
        (\<lambda>_. ?R) (\<lambda>_. backed mapped realm) w1"
      if w1: "?R w1" for w1 and g :: "reconcile_finding list \<Rightarrow> reconcile_finding list" and h :: "nat \<Rightarrow> nat"
      unfolding wp_bnd
      by (rule wp_mono [OF Cons.IH [of w1]]) (use w1 Cons.prems in \<open>auto simp: wp_ret split: prod.splits\<close>)
    have deleted: "backed mapped realm (next_fate w\<lparr>w_db := put_userRoles
        (delete_rows (\<lambda>x. ur_userId x = us_id u \<and> ur_role x = r) (t_userRoles (w_db w))) (w_db w)\<rparr>)"
      by (rule backed_delete [OF Cons.prems(1,2), where r = r and P = "\<lambda>_. True"])
        (use False Cons.prems(3) in auto)
    have one: "wp (if fix then db_call ?del else ret 0) (\<lambda>_. wp (bnd (reconcile_db fix (us_id u) kcRoles rs)
          (\<lambda>(findings, fixedCount). ret (g findings, h fixedCount))) (\<lambda>_. ?R) (\<lambda>_. backed mapped realm))
        (\<lambda>_. backed mapped realm) w" for g :: "reconcile_finding list \<Rightarrow> reconcile_finding list" and h :: "nat \<Rightarrow> nat"
    proof (split if_split, intro conjI impI)
      have "?R (next_fate w\<lparr>w_db := put_userRoles
          (delete_rows (\<lambda>x. ur_userId x = us_id u \<and> ur_role x = r) (t_userRoles (w_db w))) (w_db w)\<rparr>)"
        using deleted by simp
      then show "wp (db_call ?del) (\<lambda>_. wp (bnd (reconcile_db fix (us_id u) kcRoles rs)
          (\<lambda>(findings, fixedCount). ret (g findings, h fixedCount))) (\<lambda>_. ?R) (\<lambda>_. backed mapped realm)) (\<lambda>_. backed mapped realm) w"
        unfolding wp_db_call wp_deleteMany using rest Cons.prems(1) by (cases "w_fate w 0") auto
      show "wp (ret 0) (\<lambda>_. wp (bnd (reconcile_db fix (us_id u) kcRoles rs)
          (\<lambda>(findings, fixedCount). ret (g findings, h fixedCount))) (\<lambda>_. ?R) (\<lambda>_. backed mapped realm)) (\<lambda>_. backed mapped realm) w"
        unfolding wp_ret by (rule rest) (use Cons.prems in simp)
    qed
    from False one [of "\<lambda>fs. \<lparr>rn_userId = us_id u, rn_role = r, rn_kind = db_only\<rparr> # fs" "\<lambda>n. if fix then Suc n else n"]
    show ?thesis by (simp only: reconcile_db.simps if_False wp_bnd)
  qed (use Cons in auto)
qed (simp add: wp_ret)

lemma wp_read_kc_roles:
  assumes server: "keycloak_server fetch mapped"
    and "\<And>names k'. mapped k' = mapped (w_kc w) \<Longrightarrow> set names = mapped (w_kc w) realm sub \<Longrightarrow> Q (Some names) (w\<lparr>w_kc := k'\<rparr>)"
    and "\<And>k'. mapped k' = mapped (w_kc w) \<Longrightarrow> Q None (w\<lparr>w_kc := k'\<rparr>)"
  shows "wp (read_kc_roles fetch pw realm sub) Q E w"
  unfolding read_kc_roles_def wp_catch wp_bnd
  by (rule wp_neutral_calls [OF server]) (use assms(2,3) in \<open>auto simp: wp_ret\<close>)

lemma role_of_name_iff: "role_of_name s = Some r \<longleftrightarrow> s = role_name r"
  by (cases r) (auto simp: role_of_name_def)

lemma role_of_role_name: "role_of_name (role_name r) = Some r"
  by (simp add: role_of_name_iff)

lemma known_roles: "r \<in> set (List.map_filter role_of_name names) \<longleftrightarrow> role_name r \<in> set names"
proof (induction names)
  case (Cons s names)
  show ?case
    using Cons role_of_name_iff [of s r]
    by (cases "role_of_name s") (auto simp: List.map_filter_simps role_of_role_name dest: role_of_name_iff [THEN iffD1])
qed (simp add: List.map_filter_simps)

lemma reconcile_user_backed:
  assumes server: "keycloak_server fetch mapped" and inv: "backed mapped realm w" and u: "u \<in> set (t_users (w_db w))"
  shows "wp (reconcile_user fetch pw realm fix (us_id u, us_keycloakSub u, rs))
    (\<lambda>_ w'. backed mapped realm w' \<and> t_users (w_db w') = t_users (w_db w)) (\<lambda>_ w'. backed mapped realm w') w"
  unfolding reconcile_user_def wp_bnd fst_conv snd_conv
proof (rule wp_read_kc_roles [OF server])
  fix names k'
  assume k': "mapped k' = mapped (w_kc w)" and names: "set names = mapped (w_kc w) realm (us_keycloakSub u)"
  have "wp (reconcile_db fix (us_id u) (uniq (List.map_filter role_of_name names)) (uniq rs))
    (\<lambda>_ w'. backed mapped realm w' \<and> t_users (w_db w') = t_users (w_db (w\<lparr>w_kc := k'\<rparr>)) \<and> w_kc w' = w_kc (w\<lparr>w_kc := k'\<rparr>))
    (\<lambda>_ w'. backed mapped realm w') (w\<lparr>w_kc := k'\<rparr>)"
    by (rule reconcile_db_backed [OF backed_same [OF inv k']]) (use u k' names in \<open>auto simp: known_roles\<close>)
  then show "wp (case Some names of None \<Rightarrow> ret ([], 0)
      | Some names \<Rightarrow> let kcRoles = uniq (List.map_filter role_of_name names); dbRoles = uniq rs
          in bnd (reconcile_db fix (us_id u) kcRoles dbRoles)
            (\<lambda>(findings, fixedCount). ret (findings @ reconcile_kc (us_id u) dbRoles kcRoles, fixedCount)))
      (\<lambda>_ w'. backed mapped realm w' \<and> t_users (w_db w') = t_users (w_db w)) (\<lambda>_ w'. backed mapped realm w') (w\<lparr>w_kc := k'\<rparr>)"
    unfolding Let_def option.simps wp_bnd
    by (rule wp_mono) (auto simp: wp_ret split: prod.splits)
qed (use inv in \<open>auto simp: wp_ret backed_same\<close>)

lemma reconcile_all_backed:
  assumes server: "keycloak_server fetch mapped"
  shows "backed mapped realm w \<Longrightarrow>
    \<forall>x \<in> set us. \<exists>u \<in> set (t_users (w_db w)). fst x = us_id u \<and> fst (snd x) = us_keycloakSub u \<Longrightarrow>
    wp (reconcile_all fetch pw realm fix us) (\<lambda>_. backed mapped realm) (\<lambda>_. backed mapped realm) w"
proof (induction us arbitrary: w)
  case (Cons x us)
  from Cons.prems(2) obtain u where u: "u \<in> set (t_users (w_db w))" "x = (us_id u, us_keycloakSub u, snd (snd x))"
    by (cases x) auto
  have rest: "wp (bnd (reconcile_all fetch pw realm fix us) (\<lambda>(gs, m). ret (fs @ gs, n + m)))
      (\<lambda>_. backed mapped realm) (\<lambda>_. backed mapped realm) w1"
    if "backed mapped realm w1" "t_users (w_db w1) = t_users (w_db w)" for w1 fs n
    unfolding wp_bnd
    by (rule wp_mono [OF Cons.IH]) (use that Cons.prems in \<open>auto simp: wp_ret split: prod.splits\<close>)
  show ?case
    unfolding reconcile_all.simps wp_bnd
    by (subst u(2)) (rule wp_mono [OF reconcile_user_backed [OF server Cons.prems(1) u(1)]], auto intro: rest)
qed (simp add: wp_ret)

lemma reconcile_backed:
  assumes server: "keycloak_server fetch mapped" and inv: "backed mapped realm w"
  shows "wp (reconcile fetch pw act realm fix i) (\<lambda>_. backed mapped realm) (\<lambda>_. backed mapped realm) w"
proof -
  have run: "wp (db_call (asks (users_to_reconcile i))) (\<lambda>us. wp (reconcile_all fetch pw realm fix us) (\<lambda>x. wp (case x of (fs, n) \<Rightarrow>
      bnd (users_audit act ''user.reconciled'' (case i of None \<Rightarrow> ''ALL'' | Some i \<Rightarrow> i)
        [(''fix'', JBool fix), (''findingsCount'', JNum (real (length fs))), (''fixedCount'', JNum (real n))]) (\<lambda>_. ret (fs, n)))
      (\<lambda>_. backed mapped realm) (\<lambda>_. backed mapped realm)) (\<lambda>_. backed mapped realm)) (\<lambda>_. backed mapped realm) w1"
    if w1: "untouched w w1" for w1
  proof (rule wp_db_read)
    fix w2
    assume w2: "untouched w1 w2"
    have b2: "backed mapped realm w2" by (rule backed_untouched [OF untouched_trans [OF w1 w2] inv])
    have members: "\<forall>x \<in> set (users_to_reconcile i (w_db w1)). \<exists>u \<in> set (t_users (w_db w2)). fst x = us_id u \<and> fst (snd x) = us_keycloakSub u"
      using w2 by (auto simp: users_to_reconcile_def untouched_def)
    show "wp (reconcile_all fetch pw realm fix (users_to_reconcile i (w_db w1))) (\<lambda>x. wp (case x of (fs, n) \<Rightarrow>
      bnd (users_audit act ''user.reconciled'' (case i of None \<Rightarrow> ''ALL'' | Some i \<Rightarrow> i)
        [(''fix'', JBool fix), (''findingsCount'', JNum (real (length fs))), (''fixedCount'', JNum (real n))]) (\<lambda>_. ret (fs, n)))
      (\<lambda>_. backed mapped realm) (\<lambda>_. backed mapped realm)) (\<lambda>_. backed mapped realm) w2"
      by (rule wp_mono [OF reconcile_all_backed [OF server b2 members]])
        (auto simp: wp_bnd wp_ret intro!: wp_users_audit intro: backed_roster split: prod.splits)
  qed (rule backed_untouched [OF untouched_trans [OF w1] inv])
  show ?thesis
    unfolding reconcile_def wp_bnd
    by (rule wp_jwt_admin, rule wp_requireRealAdmin, erule run) (auto intro: inv backed_untouched)
qed

text \<open>
  C22. Whatever request of the users API is handled, whichever database call or Keycloak call of it
  fails, and however it ends: if every role claim that Keycloak issues for the realm was held by the user
  with that login in the tenant database before, it is afterwards. An interrupted change never leaves a
  privilege in a token that the database does not know.
\<close>

theorem claims_stay_backed:
  assumes server: "keycloak_server fetch mapped"
    and realm: "realm_of_iss (case jw_iss user of None \<Rightarrow> [] | Some i \<Rightarrow> i) = Some realm"
    and before: "backed mapped realm w"
    and run: "users_handle fetch pw now user ip req w = (r, w')"
  shows "backed mapped realm w'"
proof -
  note ops = invite_backed assignRole_backed revokeRole_backed deactivate_backed reconcile_backed
  have tail: "wp m (\<lambda>x. wp (ret (g x)) (\<lambda>_. backed mapped realm) (\<lambda>_. backed mapped realm)) (\<lambda>_. backed mapped realm) w"
    if "wp m (\<lambda>_. backed mapped realm) (\<lambda>_. backed mapped realm) w" for m and g :: "'x \<Rightarrow> users_reply"
    using that by (simp only: wp_ret_fun)
  have "wp (users_body fetch pw now user ip req) (\<lambda>_. backed mapped realm) (\<lambda>_. backed mapped realm) w"
  proof (cases req)
    case UrList
    then show ?thesis
      by (auto simp: wp_bnd users_list_def intro!: wp_db_read tail intro: backed_untouched before simp: wp_ret)
  next
    case (UrReconcile b i)
    have "wp (reconcile fetch pw (jwt_actor user ip) realm (b = Some ''true'') i)
        (\<lambda>x. wp (case x of (fs, n) \<Rightarrow> ret (UaReport fs n)) (\<lambda>_. backed mapped realm) (\<lambda>_. backed mapped realm)) (\<lambda>_. backed mapped realm) w"
      by (rule wp_mono [OF reconcile_backed [OF server before]]) (auto simp: wp_ret split: prod.splits)
    then show ?thesis by (simp add: UrReconcile jwt_realm_def realm wp_bnd wp_require)
  qed (auto simp: jwt_realm_def realm wp_bnd wp_require intro!: tail ops server before)
  then have "wp (users_handle fetch pw now user ip req) (\<lambda>_. backed mapped realm) (\<lambda>_. backed mapped realm) w"
    unfolding users_handle_def wp_bnd wp_lift_sum using before by (auto split: sum.splits)
  with run show ?thesis by (cases r) (auto simp: wp_def)
qed

end
