(* ===== verification/UsersAdmin.thy ===== *)
theory UsersAdmin
  imports UsersProps
begin

text \<open>
  Who may change the roster, and the last administrator.
\<close>

section \<open>Authority\<close>

lemma wp_kc_any: "(\<And>x k. Q x (w\<lparr>w_kc := k\<rparr>)) \<Longrightarrow> (\<And>e k. E e (w\<lparr>w_kc := k\<rparr>)) \<Longrightarrow> wp (kc_call m) Q E w"
  unfolding wp_kc_call by (simp add: wp_def split: prod.splits sum.splits)

definition may_manage_users :: "'k users_world \<Rightarrow> jwt \<Rightarrow> bool" where
  "may_manage_users w user \<longleftrightarrow>
     role_name ADMIN_KLIENTA \<in> set (act_roles (jwt_actor user [])) \<and>
     realm_of_iss (case jw_iss user of None \<Rightarrow> [] | Some i \<Rightarrow> i) \<noteq> None \<and>
     real_admin (w_db w) (jwt_actor user [])"

text \<open>Without the right to it, a change stops at the checks, before any call that writes.\<close>

lemma stops_at_checks:
  assumes "\<not> real_admin (w_db w) act"
  shows "wp (bnd (requireRealAdmin act) f) Q (\<lambda>_. untouched w) w"
  unfolding wp_bnd by (rule wp_requireRealAdmin) (use assms in auto)

lemma changes_stop:
  assumes "\<not> (role_name ADMIN_KLIENTA \<in> set (act_roles act) \<and> real_admin (w_db w) act)"
  shows "wp (invite fetch pw newId now act realm email r unitId) (\<lambda>_ _. False) (\<lambda>_. untouched w) w"
    and "wp (assignRole fetch pw act realm i r unitId) (\<lambda>_ _. False) (\<lambda>_. untouched w) w"
    and "wp (revokeRole fetch pw act realm i r unitId) (\<lambda>_ _. False) (\<lambda>_. untouched w) w"
    and "wp (deactivate fetch pw act realm i) (\<lambda>_ _. False) (\<lambda>_. untouched w) w"
    and "wp (reconcile fetch pw act realm b j) (\<lambda>_ _. False) (\<lambda>_. untouched w) w"
  unfolding invite_def assignRole_def revokeRole_def deactivate_def reconcile_def
    wp_bnd [of "jwt_admin _ _"] wp_bnd [of "assertGlobalAdminGrant _ _"]
  using assms
  by (auto intro!: wp_jwt_admin wp_assertGlobalAdminGrant stops_at_checks)

text \<open>
  C23. Nothing of the roster changes without the right to it, whatever the token says: unless the token
  carries the administrator role and a realm of the program, and the caller is now an active user with
  the administrator role in the tenant database, every request but the listing ends in an error, with the
  tenant database (audit log included) as it was and without any call to Keycloak.
\<close>

theorem users_authority:
  assumes "req \<noteq> UrList" and "\<not> may_manage_users w user"
    and run: "users_handle fetch pw now user ip req w = (r, w')"
  shows "w_db w' = w_db w \<and> w_kc w' = w_kc w \<and> isl r"
proof -
  have roles: "act_roles (jwt_actor user ip) = act_roles (jwt_actor user [])"
    and admin: "real_admin (w_db w) (jwt_actor user ip) = real_admin (w_db w) (jwt_actor user [])"
    by (simp_all add: jwt_actor_def real_admin_def resolveActingUser_def)
  let ?realm = "realm_of_iss (case jw_iss user of None \<Rightarrow> [] | Some i \<Rightarrow> i)"
  have "wp (users_body fetch pw now user ip req) (\<lambda>_ _. False) (\<lambda>_. untouched w) w"
  proof (cases "?realm")
    case None
    with assms(1) show ?thesis by (cases req) (auto simp: jwt_realm_def wp_bnd wp_require)
  next
    case (Some realm)
    with assms(2) roles admin have "\<not> (role_name ADMIN_KLIENTA \<in> set (act_roles (jwt_actor user ip)) \<and> real_admin (w_db w) (jwt_actor user ip))"
      by (simp add: may_manage_users_def)
    note stop = changes_stop [OF this]
    have tail: "wp m (\<lambda>x. wp (g x) (\<lambda>_ _. False) (\<lambda>_. untouched w)) (\<lambda>_. untouched w) w"
      if "wp m (\<lambda>_ _. False) (\<lambda>_. untouched w) w" for m and g :: "'x \<Rightarrow> ('a, users_reply) users_svc"
      by (rule wp_mono [OF that]) auto
    from assms(1) show ?thesis
      by (cases req) (auto simp: jwt_realm_def Some wp_bnd wp_require intro!: tail stop)
  qed
  then have "wp (users_handle fetch pw now user ip req) (\<lambda>_ _. False) (\<lambda>_. untouched w) w"
    unfolding users_handle_def wp_bnd wp_lift_sum by (auto split: sum.splits)
  with run show ?thesis by (cases r) (auto simp: wp_def untouched_def)
qed

section \<open>The last administrator\<close>

definition admin_of :: "id \<Rightarrow> 'k users_world \<Rightarrow> bool" where
  "admin_of a w \<longleftrightarrow>
     (\<exists>u \<in> set (t_users (w_db w)). us_id u = a \<and> us_active u) \<and>
     (\<exists>x \<in> set (t_userRoles (w_db w)). ur_userId x = a \<and> ur_role x = ADMIN_KLIENTA)"

lemma in_active_admins: "a \<in> set (active_admins (w_db w)) \<longleftrightarrow> admin_of a w"
  by (force simp: active_admins_def admin_of_def list_ex_iff)

lemma some_admin: "active_admins (w_db w) \<noteq> [] \<longleftrightarrow> (\<exists>a. admin_of a w)"
  using in_active_admins [of _ w] by (metis empty_set equals0D list.set_intros(1) neq_Nil_conv)

lemma admin_of_cong: "w_db w' = w_db w \<Longrightarrow> admin_of a w' = admin_of a w"
  by (simp add: admin_of_def)

lemma admin_of_next [simp]: "admin_of a (next_fate w) = admin_of a w" "admin_of a (w\<lparr>w_kc := k\<rparr>) = admin_of a w"
  by (simp_all add: admin_of_def)

lemma admin_untouched: "untouched w w' \<Longrightarrow> admin_of a w \<Longrightarrow> admin_of a w'"
  by (simp add: untouched_def admin_of_def)

lemma some_untouched: "untouched w w' \<Longrightarrow> admin_of a w \<Longrightarrow> \<exists>a. admin_of a w'"
  by (blast intro: admin_untouched)

lemma admin_audit: "admin_of a w \<Longrightarrow> wp (users_audit act action i payload) (\<lambda>_. admin_of a) (\<lambda>_. admin_of a) w"
  by (rule wp_users_audit) (simp_all add: same_roster_def admin_of_def)

lemma grant_admin:
  assumes "admin_of a w"
  shows "wp (grant fetch pw realm i sub r unitId) (\<lambda>_. admin_of a) (\<lambda>_. admin_of a) w"
proof -
  have kc: "wp (kc_call (assignRealmRole fetch pw realm sub r)) (\<lambda>_. admin_of a) (\<lambda>_. admin_of a) w1"
    if "admin_of a w1" for w1
    by (rule wp_kc_any) (simp_all add: that)
  have row: "admin_of a (next_fate w\<lparr>w_db := db'\<rparr>)"
    if "t_users db' = t_users (w_db w)" "set (t_userRoles (w_db w)) \<subseteq> set (t_userRoles db')" for db'
    using assms that by (auto simp: admin_of_def)
  show ?thesis
  proof (cases "w_fate w 0")
    case None
    show ?thesis
      unfolding grant_def wp_bnd wp_catch wp_db_call None option.simps
      by (rule wp_insert_user_role) (use row [of "w_db w"] in \<open>auto simp: wp_ret wp_throw intro!: kc row\<close>)
  qed (use assms in \<open>simp add: grant_def wp_bnd wp_catch wp_db_call wp_throw\<close>)
qed

lemma revokeInternal_admin:
  assumes "admin_of a w" and "a \<noteq> i \<or> r \<noteq> ADMIN_KLIENTA"
  shows "wp (revokeInternal fetch pw realm i sub r unitId) (\<lambda>_. admin_of a) (\<lambda>_. admin_of a) w"
proof -
  have delete: "wp (db_call (deleteMany t_userRoles put_userRoles (\<lambda>x. ur_userId x = i \<and> ur_role x = r \<and> ur_unitId x = unitId)))
      (\<lambda>_. wp (ret ()) (\<lambda>_. admin_of a) (\<lambda>_. admin_of a)) (\<lambda>_. admin_of a) w1" if "admin_of a w1" for w1
    using that assms(2) by (auto simp: svc_wp admin_of_def split: option.splits)
  show ?thesis
    unfolding revokeInternal_def wp_bnd
    by (rule wp_db_read; (split if_split)?)
      (use assms(1) in \<open>auto simp: wp_ret intro!: wp_kc_any delete intro: admin_untouched\<close>)
qed

lemma switch_off_admin:
  assumes "admin_of a w" and "a \<noteq> i"
  shows "wp (switch_off fetch pw realm i sub) (\<lambda>_. admin_of a) (\<lambda>_. admin_of a) w"
proof -
  from assms obtain u where u: "u \<in> set (t_users (w_db w))" "us_id u = a" "us_active u"
    by (auto simp: admin_of_def)
  with \<open>a \<noteq> i\<close> have "u \<in> set (update_rows (\<lambda>u. us_id u = i) (\<lambda>u. u\<lparr>us_active := False\<rparr>) (t_users (w_db w)))"
    unfolding set_update_rows by (intro image_eqI [of _ _ u]) auto
  with u assms show ?thesis
    unfolding switch_off_def wp_bnd
    by (intro wp_kc_any) (auto simp: svc_wp admin_of_def split: option.splits)
qed

text \<open>The guard: if the change is let through, somebody else is an active administrator.\<close>

lemma guarded_admin:
  assumes some: "\<exists>a. admin_of a w"
    and body: "\<And>a w1. admin_of a w1 \<Longrightarrow> a \<noteq> i \<Longrightarrow> wp m (\<lambda>_. admin_of a) (\<lambda>_. admin_of a) w1"
  shows "wp (guardedAdminMutation i m) (\<lambda>_ w'. \<exists>a. admin_of a w') (\<lambda>_ w'. \<exists>a. admin_of a w') w"
proof (rule wp_guardedAdminMutation)
  fix w1
  assume w1: "untouched w w1" and guard: "\<not> (card (set (active_admins (w_db w))) \<le> 1 \<and> i \<in> set (active_admins (w_db w)))"
  obtain a where a: "admin_of a w" "a \<noteq> i"
  proof (cases "i \<in> set (active_admins (w_db w))")
    case True
    with guard have "\<not> set (active_admins (w_db w)) \<subseteq> {i}" by (metis card_mono card.empty card.insert empty_iff finite.simps One_nat_def)
    with that in_active_admins show ?thesis by blast
  qed (use some that in_active_admins in blast)
  have undone: "\<exists>a. admin_of a (w'\<lparr>w_db := w_db w\<rparr>)" for w' :: "'a users_world"
    using some by (simp add: admin_of_def)
  from a w1 show "wp m (\<lambda>x w'. (\<exists>a. admin_of a (next_fate w')) \<and> (\<forall>e. \<exists>a. admin_of a (next_fate w'\<lparr>w_db := w_db w\<rparr>)))
     (\<lambda>_ w'. \<forall>e. \<exists>a. admin_of a (w'\<lparr>w_db := w_db w\<rparr>)) w1"
    by (intro wp_mono [OF body [of a]]) (auto intro: admin_untouched undone)
qed (use some admin_untouched in blast)

lemma invite_create_admin:
  assumes "admin_of a w"
  shows "wp (invite_create fetch pw realm newId now email sub created) (\<lambda>_. admin_of a) (\<lambda>_. admin_of a) w"
proof -
  have comp: "wp (bnd (if created then catch (kc_call (setEnabled fetch pw realm sub False)) (\<lambda>_. ret ()) else ret ())
      (\<lambda>_. mapWriteError err)) (\<lambda>_. admin_of a) (\<lambda>_. admin_of a) w1" if "admin_of a w1" for w1 err
    unfolding wp_bnd mapWriteError_def wp_throw wp_if wp_catch wp_ret_fun
    by (split if_split, intro conjI impI wp_kc_any) (simp_all only: admin_of_next that)
  show ?thesis
  proof (cases "w_fate w 0")
    case None
    show ?thesis
      unfolding invite_create_def wp_catch wp_db_call None option.simps
    proof (rule wp_insert_user)
      let ?u = "\<lparr>us_id = newId, us_keycloakSub = sub, us_email = email, us_active = True, us_createdAt = now\<rparr>"
      show "admin_of a (next_fate w\<lparr>w_db := put_users (t_users (w_db w) @ [?u]) (w_db w)\<rparr>)"
        using assms by (auto simp: admin_of_def)
      have "admin_of a (next_fate w\<lparr>w_db := w_db w\<rparr>)" using assms by (simp add: admin_of_def)
      then show "wp (bnd (if created then catch (kc_call (setEnabled fetch pw realm sub False)) (\<lambda>_. ret ()) else ret ())
        (\<lambda>_. mapWriteError (P2002 ''users''))) (\<lambda>_. admin_of a) (\<lambda>_. admin_of a) (next_fate w\<lparr>w_db := w_db w\<rparr>)"
        by (rule comp)
    qed
  next
    case (Some f)
    show ?thesis
      unfolding invite_create_def wp_catch wp_db_call Some option.simps by (rule comp) (simp add: assms)
  qed
qed

lemma invite_admin:
  assumes "admin_of a w"
  shows "wp (invite fetch pw newId now act realm email r unitId) (\<lambda>_. admin_of a) (\<lambda>_. admin_of a) w"
proof -
  have mail: "wp (kc_call (sendPasswordSetupEmail fetch pw realm sub)) (\<lambda>_. wp (users_audit act ''user.invited'' i p)
      (\<lambda>_. wp (ret v) (\<lambda>_. admin_of a) (\<lambda>_. admin_of a)) (\<lambda>_. admin_of a)) (\<lambda>_. admin_of a) w1"
    if "admin_of a w1" for w1 sub i p and v :: user_view
    using that by (auto simp: wp_ret_fun intro!: wp_kc_any admin_audit)
  have granted: "wp (grant fetch pw realm (uv_id user) sub r unitId) (\<lambda>_. wp (kc_call (sendPasswordSetupEmail fetch pw realm sub))
      (\<lambda>_. wp (users_audit act ''user.invited'' (uv_id user) p) (\<lambda>_. wp (ret user) (\<lambda>_. admin_of a) (\<lambda>_. admin_of a))
      (\<lambda>_. admin_of a)) (\<lambda>_. admin_of a)) (\<lambda>_. admin_of a) w1" if "admin_of a w1" for w1 sub p and user :: user_view
    by (rule wp_mono [OF grant_admin [OF that]]) (auto intro: mail)
  have created: "wp (invite_create fetch pw realm newId now email sub c) (\<lambda>user. wp (grant fetch pw realm (uv_id user) sub r unitId)
      (\<lambda>_. wp (kc_call (sendPasswordSetupEmail fetch pw realm sub))
      (\<lambda>_. wp (users_audit act ''user.invited'' (uv_id user) p) (\<lambda>_. wp (ret user) (\<lambda>_. admin_of a) (\<lambda>_. admin_of a))
      (\<lambda>_. admin_of a)) (\<lambda>_. admin_of a)) (\<lambda>_. admin_of a)) (\<lambda>_. admin_of a) w1" if "admin_of a w1" for w1 sub p c
    by (rule wp_mono [OF invite_create_admin [OF that]]) (auto intro: granted)
  show ?thesis
    unfolding invite_def wp_bnd wp_case_pair wp_ensure
    by (rule wp_jwt_admin, rule wp_assertGlobalAdminGrant, rule wp_requireRealAdmin, rule wp_db_read,
        split if_split, intro conjI impI, rule wp_kc_any, rule created)
      (unfold admin_of_next, (use assms in \<open>blast intro: admin_untouched\<close>)+)
qed

lemma assignRole_admin:
  assumes "admin_of a w"
  shows "wp (assignRole fetch pw act realm i r unitId) (\<lambda>_. admin_of a) (\<lambda>_. admin_of a) w"
proof -
  have granted: "wp (grant fetch pw realm k sub r unitId) (\<lambda>_. wp (users_audit act ''role.assigned'' k p) (\<lambda>_. admin_of a) (\<lambda>_. admin_of a))
      (\<lambda>_. admin_of a) w1" if "admin_of a w1" for w1 sub p k
    by (rule wp_mono [OF grant_admin [OF that]]) (auto intro: admin_audit)
  show ?thesis
    unfolding assignRole_def wp_bnd wp_case_pair wp_ensure
    by (rule wp_jwt_admin, rule wp_assertGlobalAdminGrant, rule wp_requireRealAdmin, rule wp_findTarget,
        split if_split, intro conjI impI, rule granted)
      (use assms in \<open>blast intro: admin_untouched\<close>)+
qed

text \<open>The two changes that can take an administrator away.\<close>

lemma audit_some: "\<exists>a. admin_of a w \<Longrightarrow> wp (users_audit act action i payload) (\<lambda>_ w'. \<exists>a. admin_of a w') (\<lambda>_ w'. \<exists>a. admin_of a w') w"
  by (elim exE, rule wp_mono [OF admin_audit]) auto

lemma revokeRole_admin:
  assumes "\<exists>a. admin_of a w"
  shows "wp (revokeRole fetch pw act realm i r unitId) (\<lambda>_ w'. \<exists>a. admin_of a w') (\<lambda>_ w'. \<exists>a. admin_of a w') w"
    (is "wp _ (\<lambda>_. ?S) (\<lambda>_. ?S) w")
proof -
  have commit: "wp (if r = ADMIN_KLIENTA then guardedAdminMutation k (revokeInternal fetch pw realm k sub r unitId)
        else revokeInternal fetch pw realm k sub r unitId)
      (\<lambda>_. wp (users_audit act ''role.revoked'' k p) (\<lambda>_. ?S) (\<lambda>_. ?S)) (\<lambda>_. ?S) w1"
    if w1: "?S w1" for w1 k sub p
  proof (split if_split, intro conjI impI)
    show "wp (guardedAdminMutation k (revokeInternal fetch pw realm k sub r unitId))
        (\<lambda>_. wp (users_audit act ''role.revoked'' k p) (\<lambda>_. ?S) (\<lambda>_. ?S)) (\<lambda>_. ?S) w1"
      by (rule wp_mono [OF guarded_admin [OF w1 revokeInternal_admin]]) (auto intro: audit_some)
    assume "r \<noteq> ADMIN_KLIENTA"
    from w1 obtain a where "admin_of a w1" by blast
    with \<open>r \<noteq> ADMIN_KLIENTA\<close> show "wp (revokeInternal fetch pw realm k sub r unitId)
        (\<lambda>_. wp (users_audit act ''role.revoked'' k p) (\<lambda>_. ?S) (\<lambda>_. ?S)) (\<lambda>_. ?S) w1"
      by (intro wp_mono [OF revokeInternal_admin [of a w1 k r]]) (auto intro: audit_some)
  qed
  show ?thesis
    unfolding revokeRole_def wp_bnd wp_case_pair
    by (rule wp_jwt_admin, rule wp_requireRealAdmin, rule wp_findTarget, unfold fst_conv snd_conv, rule commit)
      (use assms in \<open>blast intro: admin_untouched\<close>)+
qed

lemma deactivate_admin:
  assumes "\<exists>a. admin_of a w"
  shows "wp (deactivate fetch pw act realm i) (\<lambda>_ w'. \<exists>a. admin_of a w') (\<lambda>_ w'. \<exists>a. admin_of a w') w"
    (is "wp _ (\<lambda>_. ?S) (\<lambda>_. ?S) w")
proof -
  have commit: "wp (deactivate_commit fetch pw realm (user_view_of (w_db w1) u) sub)
      (\<lambda>_. wp (users_audit act ''user.deactivated'' k []) (\<lambda>_. ?S) (\<lambda>_. ?S)) (\<lambda>_. ?S) w2"
    if w1: "?S w1" and w2: "untouched w1 w2" for w1 w2 k sub u
    unfolding deactivate_commit_def user_view_of_simps
  proof (split if_split, intro conjI impI)
    from w1 w2 have s2: "?S w2" by (blast intro: admin_untouched)
    show "wp (guardedAdminMutation (us_id u) (switch_off fetch pw realm (us_id u) sub))
        (\<lambda>_. wp (users_audit act ''user.deactivated'' k []) (\<lambda>_. ?S) (\<lambda>_. ?S)) (\<lambda>_. ?S) w2"
      by (rule wp_mono [OF guarded_admin [OF s2 switch_off_admin]]) (auto intro: audit_some)
    assume plain: "\<not> list_ex (\<lambda>r. fst r = ADMIN_KLIENTA) (roles_of (w_db w1) (us_id u))"
    from w1 obtain a where a: "admin_of a w1" by blast
    with plain have "a \<noteq> us_id u" by (auto simp: admin_of_def roles_of_def list_ex_iff)
    with a w2 show "wp (switch_off fetch pw realm (us_id u) sub)
        (\<lambda>_. wp (users_audit act ''user.deactivated'' k []) (\<lambda>_. ?S) (\<lambda>_. ?S)) (\<lambda>_. ?S) w2"
      by (intro wp_mono [OF switch_off_admin [of a]]) (auto intro: audit_some admin_untouched)
  qed
  show ?thesis
    unfolding deactivate_def wp_bnd wp_case_pair
    by (rule wp_jwt_admin, rule wp_requireRealAdmin, rule wp_findTarget, unfold fst_conv snd_conv, rule commit)
      (use assms in \<open>blast intro: admin_untouched\<close>)+
qed

text \<open>
  A reconciliation spares the administrator whose claim Keycloak confirms; without the fix it deletes
  nothing.
\<close>

definition spared :: "('k \<Rightarrow> string \<Rightarrow> string \<Rightarrow> string set) \<Rightarrow> string \<Rightarrow> id \<Rightarrow> string \<Rightarrow> 'k users_world \<Rightarrow> bool" where
  "spared mapped realm a sub w \<longleftrightarrow> admin_of a w \<and> role_name ADMIN_KLIENTA \<in> mapped (w_kc w) realm sub"

lemma spared_moved: "spared mapped realm a sub w \<Longrightarrow> mapped k = mapped (w_kc w) \<Longrightarrow> spared mapped realm a sub (w\<lparr>w_kc := k\<rparr>)"
  by (simp add: spared_def)

lemma spared_untouched: "untouched w w' \<Longrightarrow> spared mapped realm a sub w \<Longrightarrow> spared mapped realm a sub w'"
  by (auto simp: spared_def untouched_def admin_of_def)

lemma reconcile_db_spared:
  assumes "spared mapped realm a sub w" and "i = a \<longrightarrow> ADMIN_KLIENTA \<in> set kcRoles \<or> \<not> fix"
  shows "wp (reconcile_db fix i kcRoles rs) (\<lambda>_. spared mapped realm a sub) (\<lambda>_. spared mapped realm a sub) w"
  using assms
proof (induction rs arbitrary: w)
  case (Cons r rs)
  let ?del = "deleteMany t_userRoles put_userRoles (\<lambda>x. ur_userId x = i \<and> ur_role x = r)"
  have rest: "wp (reconcile_db fix i kcRoles rs) (\<lambda>x. wp (case x of (fs, n) \<Rightarrow> ret (g fs, h n)) (\<lambda>_. spared mapped realm a sub)
      (\<lambda>_. spared mapped realm a sub)) (\<lambda>_. spared mapped realm a sub) w1"
    if "spared mapped realm a sub w1" for w1 and g :: "reconcile_finding list \<Rightarrow> reconcile_finding list" and h :: "nat \<Rightarrow> nat"
    by (rule wp_mono [OF Cons.IH [OF that Cons.prems(2)]]) (auto simp: wp_ret split: prod.splits)
  have one: "wp (if fix then db_call ?del else ret 0) (\<lambda>_. wp (reconcile_db fix i kcRoles rs)
      (\<lambda>x. wp (case x of (fs, n) \<Rightarrow> ret (g fs, h n)) (\<lambda>_. spared mapped realm a sub)
      (\<lambda>_. spared mapped realm a sub)) (\<lambda>_. spared mapped realm a sub)) (\<lambda>_. spared mapped realm a sub) w"
    if r: "r \<notin> set kcRoles" for g :: "reconcile_finding list \<Rightarrow> reconcile_finding list" and h :: "nat \<Rightarrow> nat"
  proof (split if_split, intro conjI impI)
    assume "fix"
    with r Cons.prems have "i \<noteq> a \<or> r \<noteq> ADMIN_KLIENTA" by auto
    with Cons.prems(1) have "spared mapped realm a sub (next_fate w\<lparr>w_db := put_userRoles
        (delete_rows (\<lambda>x. ur_userId x = i \<and> ur_role x = r) (t_userRoles (w_db w))) (w_db w)\<rparr>)"
      by (auto simp: spared_def admin_of_def)
    moreover have "spared mapped realm a sub (next_fate w)"
      using Cons.prems(1) by (simp add: spared_def)
    ultimately show "wp (db_call ?del) (\<lambda>_. wp (reconcile_db fix i kcRoles rs)
      (\<lambda>x. wp (case x of (fs, n) \<Rightarrow> ret (g fs, h n)) (\<lambda>_. spared mapped realm a sub)
      (\<lambda>_. spared mapped realm a sub)) (\<lambda>_. spared mapped realm a sub)) (\<lambda>_. spared mapped realm a sub) w"
      unfolding wp_db_call wp_deleteMany by (cases "w_fate w 0") (simp_all only: option.simps rest)
  qed (unfold wp_ret, rule rest, rule Cons.prems(1))
  show ?case
  proof (cases "r \<in> set kcRoles")
    case False
    from one [OF this, of "\<lambda>fs. \<lparr>rn_userId = i, rn_role = r, rn_kind = db_only\<rparr> # fs" "\<lambda>n. if fix then Suc n else n"] False
    show ?thesis by (simp only: reconcile_db.simps if_False wp_bnd)
  qed (use Cons in \<open>simp only: reconcile_db.simps if_True\<close>)
qed (simp add: wp_ret)

lemma reconcile_all_spared:
  assumes server: "keycloak_server fetch mapped"
  shows "spared mapped realm a sub w \<Longrightarrow> (\<forall>x \<in> set us. fst x = a \<longrightarrow> fst (snd x) = sub \<or> \<not> fix) \<Longrightarrow>
    wp (reconcile_all fetch pw realm fix us) (\<lambda>_. spared mapped realm a sub) (\<lambda>_. spared mapped realm a sub) w"
proof (induction us arbitrary: w)
  case (Cons x us)
  have rest: "wp (bnd (reconcile_all fetch pw realm fix us) (\<lambda>(gs, m). ret (fs @ gs, n + m)))
      (\<lambda>_. spared mapped realm a sub) (\<lambda>_. spared mapped realm a sub) w1"
    if "spared mapped realm a sub w1" for w1 fs n
    unfolding wp_bnd
    by (rule wp_mono [OF Cons.IH [OF that]]) (use Cons.prems in \<open>auto simp: wp_ret split: prod.splits\<close>)
  have one: "wp (reconcile_user fetch pw realm fix x) (\<lambda>_. spared mapped realm a sub) (\<lambda>_. spared mapped realm a sub) w"
    unfolding reconcile_user_def wp_bnd
  proof (rule wp_read_kc_roles [OF server])
    fix names k'
    assume k': "mapped k' = mapped (w_kc w)" and names: "set names = mapped (w_kc w) realm (fst (snd x))"
    have "fst x = a \<longrightarrow> ADMIN_KLIENTA \<in> set (uniq (List.map_filter role_of_name names)) \<or> \<not> fix"
      using Cons.prems names by (auto simp: known_roles spared_def simp del: role_name.simps)
    from reconcile_db_spared [OF spared_moved [OF Cons.prems(1) k'] this]
    show "wp (case Some names of None \<Rightarrow> ret ([], 0)
      | Some names \<Rightarrow> let kcRoles = uniq (List.map_filter role_of_name names); dbRoles = uniq (snd (snd x))
          in bnd (reconcile_db fix (fst x) kcRoles dbRoles)
            (\<lambda>(findings, fixedCount). ret (findings @ reconcile_kc (fst x) dbRoles kcRoles, fixedCount)))
      (\<lambda>_. spared mapped realm a sub) (\<lambda>_. spared mapped realm a sub) (w\<lparr>w_kc := k'\<rparr>)"
      unfolding Let_def option.simps wp_bnd
      by (rule wp_mono) (auto simp: wp_ret split: prod.splits)
  qed (use Cons.prems in \<open>auto simp: wp_ret spared_moved\<close>)
  show ?case
    unfolding reconcile_all.simps wp_bnd
    by (rule wp_mono [OF one]) (auto intro: rest)
qed (simp add: wp_ret)

lemma reconcile_spared:
  assumes server: "keycloak_server fetch mapped" and here: "spared mapped realm a sub w"
    and ids: "\<forall>u \<in> set (t_users (w_db w)). us_id u = a \<longrightarrow> us_keycloakSub u = sub \<or> \<not> fix"
  shows "wp (reconcile fetch pw act realm fix i) (\<lambda>_. admin_of a) (\<lambda>_. admin_of a) w"
proof -
  have kept: "admin_of a w'" if "spared mapped realm a sub w'" for w' :: "'a users_world"
    using that by (simp add: spared_def)
  have members: "\<forall>x \<in> set (users_to_reconcile i (w_db w1)). fst x = a \<longrightarrow> fst (snd x) = sub \<or> \<not> fix" if "untouched w w1" for w1
    using ids that by (auto simp: users_to_reconcile_def untouched_def)
  show ?thesis
    unfolding reconcile_def wp_bnd wp_case_pair
    by (rule wp_jwt_admin, rule wp_requireRealAdmin, rule wp_db_read,
        rule wp_mono [OF reconcile_all_spared [OF server]])
      (blast intro: spared_untouched here | erule members
        | (auto simp: wp_ret_fun intro!: admin_audit intro: kept)[1]
        | blast intro: kept spared_untouched here)+
qed

text \<open>Without the fix, a reconciliation reads and reports.\<close>

lemma reconcile_db_no_fix: "\<exists>x. reconcile_db False i kcRoles rs w = (Inr x, w)"
proof (induction rs)
  case (Cons r rs)
  then show ?case by (auto simp: bnd_def split: prod.splits)
qed simp

lemma reconcile_all_no_fix:
  "w_db w = db \<Longrightarrow> wp (reconcile_all fetch pw realm False us) (\<lambda>_ w'. w_db w' = db) (\<lambda>_ w'. w_db w' = db) w"
proof (induction us arbitrary: w)
  case (Cons x us)
  have one: "wp (reconcile_user fetch pw realm False x) (\<lambda>_ w'. w_db w' = db) (\<lambda>_ w'. w_db w' = db) w"
    unfolding reconcile_user_def read_kc_roles_def wp_bnd wp_catch wp_ret_fun
  proof (rule wp_kc_any)
    fix names k
    from reconcile_db_no_fix obtain y where
      y: "reconcile_db False (fst x) (uniq (List.map_filter role_of_name names)) (uniq (snd (snd x))) (w\<lparr>w_kc := k\<rparr>) = (Inr y, w\<lparr>w_kc := k\<rparr>)"
      by blast
    then have "wp (reconcile_db False (fst x) (uniq (List.map_filter role_of_name names)) (uniq (snd (snd x)))) Q E (w\<lparr>w_kc := k\<rparr>)
        = Q y (w\<lparr>w_kc := k\<rparr>)" for Q E
      by (simp add: wp_def)
    with Cons.prems show "wp (case Some names of None \<Rightarrow> ret ([], 0)
      | Some names \<Rightarrow> let kcRoles = uniq (List.map_filter role_of_name names); dbRoles = uniq (snd (snd x))
          in bnd (reconcile_db False (fst x) kcRoles dbRoles)
            (\<lambda>(findings, fixedCount). ret (findings @ reconcile_kc (fst x) dbRoles kcRoles, fixedCount)))
      (\<lambda>_ w'. w_db w' = db) (\<lambda>_ w'. w_db w' = db) (w\<lparr>w_kc := k\<rparr>)"
      by (simp add: Let_def wp_bnd wp_ret split: prod.splits)
  qed (use Cons.prems in \<open>simp add: wp_ret\<close>)
  show ?case
    unfolding reconcile_all.simps wp_bnd
    by (rule wp_mono [OF one]) (auto simp: wp_bnd wp_ret intro!: wp_mono [OF Cons.IH] split: prod.splits)
qed (simp add: wp_ret)

lemma reconcile_no_fix:
  assumes "admin_of a w"
  shows "wp (reconcile fetch pw act realm False i) (\<lambda>_. admin_of a) (\<lambda>_. admin_of a) w"
proof -
  have kept: "admin_of a w'" if "w_db w' = w_db w1" "untouched w w1" for w1 w'
    using that assms by (simp add: untouched_def admin_of_def)
  have run: "wp (reconcile_all fetch pw realm False us) (\<lambda>x. wp (users_audit act ''user.reconciled'' e (p x))
      (\<lambda>_. wp (ret x) (\<lambda>_. admin_of a) (\<lambda>_. admin_of a)) (\<lambda>_. admin_of a)) (\<lambda>_. admin_of a) w1"
    if w1: "untouched w w1" for w1 us e p
    by (rule wp_mono [OF reconcile_all_no_fix [of w1 "w_db w1"]])
      (use w1 in \<open>auto simp: wp_ret_fun intro!: admin_audit intro: kept\<close>)
  show ?thesis
    unfolding reconcile_def wp_bnd wp_case_pair prod.collapse
    by (rule wp_jwt_admin, rule wp_requireRealAdmin, rule wp_db_read, rule run)
      (use assms in \<open>blast intro: admin_untouched untouched_trans\<close>)+
qed

text \<open>
  C24. The tenant keeps an administrator: if there is an active user with the administrator role, there is
  one after any request of the users API, however it ends and whatever fails on the way. The one
  exception is a fixing reconciliation, which has no such guard; for it, the claim holds if Keycloak
  confirms the role of one of the administrators.
\<close>

theorem last_admin_kept:
  assumes before: "active_admins (w_db w) \<noteq> []"
    and reconcile: "\<And>i. req = UrReconcile (Some ''true'') i \<Longrightarrow>
      keycloak_server fetch mapped \<and> distinct (map us_id (t_users (w_db w))) \<and>
      (\<exists>u \<in> set (t_users (w_db w)). \<exists>re. realm_of_iss (case jw_iss user of None \<Rightarrow> [] | Some i \<Rightarrow> i) = Some re \<and>
         us_id u \<in> set (active_admins (w_db w)) \<and> role_name ADMIN_KLIENTA \<in> mapped (w_kc w) re (us_keycloakSub u))"
    and run: "users_handle fetch pw now user ip req w = (r, w')"
  shows "active_admins (w_db w') \<noteq> []"
proof -
  let ?S = "\<lambda>w'. \<exists>a. admin_of a w'"
  from before obtain a where a: "admin_of a w" by (auto simp: some_admin)
  have some: "wp m (\<lambda>x. wp (g x) (\<lambda>_. ?S) (\<lambda>_. ?S)) (\<lambda>_. ?S) w"
    if "wp m (\<lambda>_. ?S) (\<lambda>_. ?S) w" "\<And>x w1. ?S w1 \<Longrightarrow> wp (g x) (\<lambda>_. ?S) (\<lambda>_. ?S) w1"
    for m and g :: "'x \<Rightarrow> ('a, users_reply) users_svc"
    by (rule wp_mono [OF that(1)]) (use that(2) in auto)
  have one: "wp m (\<lambda>_. ?S) (\<lambda>_. ?S) w" if "wp m (\<lambda>_. admin_of b) (\<lambda>_. admin_of b) w" for m :: "('a, 'x) users_svc" and b
    by (rule wp_mono [OF that]) auto
  have "wp (users_body fetch pw now user ip req) (\<lambda>_. ?S) (\<lambda>_. ?S) w"
  proof (cases "realm_of_iss (case jw_iss user of None \<Rightarrow> [] | Some i \<Rightarrow> i)")
    case None
    with a show ?thesis
      by (cases req) (auto simp: jwt_realm_def wp_bnd wp_require users_list_def wp_ret intro!: wp_db_read
          intro: some_untouched)
  next
    case (Some realm)
    note realm = this
    have ex: "\<exists>a. admin_of a w" using a by blast
    show ?thesis
    proof (cases req)
      case UrList
      with a show ?thesis
        by (auto simp: UrList wp_bnd users_list_def wp_ret intro!: wp_db_read intro: some_untouched)
    next
      case (UrReconcile b i)
      have "wp (reconcile fetch pw (jwt_actor user ip) realm (b = Some ''true'') i) (\<lambda>_. ?S) (\<lambda>_. ?S) w"
      proof (cases "b = Some ''true''")
        case True
        with reconcile [of i] UrReconcile have laws: "keycloak_server fetch mapped" "distinct (map us_id (t_users (w_db w)))"
          by auto
        from True reconcile [of i] UrReconcile realm obtain u where u: "u \<in> set (t_users (w_db w))"
            "us_id u \<in> set (active_admins (w_db w))" "role_name ADMIN_KLIENTA \<in> mapped (w_kc w) realm (us_keycloakSub u)"
          by (auto simp del: role_name.simps)
        have "\<forall>v \<in> set (t_users (w_db w)). us_id v = us_id u \<longrightarrow> us_keycloakSub v = us_keycloakSub u \<or> \<not> b = Some ''true''"
          using inj_onD [of us_id "set (t_users (w_db w))"] laws(2) u(1) by (auto simp: distinct_map)
        moreover have "spared mapped realm (us_id u) (us_keycloakSub u) w"
          using u by (simp add: spared_def in_active_admins)
        ultimately show ?thesis by (intro one [OF reconcile_spared [OF laws(1)]])
      next
        case False
        then have "(b = Some ''true'') = False" by simp
        with one [OF reconcile_no_fix [OF a]] show ?thesis by (simp only:)
      qed
      then show ?thesis
        by (auto simp: UrReconcile jwt_realm_def realm wp_bnd wp_require wp_case_pair wp_ret intro!: some)
    next
      case (UrInvite newId email r u)
      show ?thesis
        by (auto simp: UrInvite jwt_realm_def realm wp_bnd wp_require wp_ret intro!: some one [OF invite_admin [OF a]])
    next
      case (UrAssign i r u)
      show ?thesis
        by (auto simp: UrAssign jwt_realm_def realm wp_bnd wp_require wp_ret intro!: some one [OF assignRole_admin [OF a]])
    next
      case (UrRevoke i r u)
      show ?thesis
        by (auto simp: UrRevoke jwt_realm_def realm wp_bnd wp_require wp_ret intro!: some revokeRole_admin [OF ex])
    next
      case (UrDeactivate i)
      show ?thesis
        by (auto simp: UrDeactivate jwt_realm_def realm wp_bnd wp_require wp_ret intro!: some deactivate_admin [OF ex])
    qed
  qed
  then have "wp (users_handle fetch pw now user ip req) (\<lambda>_. ?S) (\<lambda>_. ?S) w"
    unfolding users_handle_def wp_bnd wp_lift_sum using a by (auto split: sum.splits)
  with run show ?thesis by (cases r) (auto simp: wp_def some_admin)
qed

end
