(* ===== verification/UsersSamples.thy ===== *)
theory UsersSamples
  imports UsersAdmin
begin

text \<open>
  A concrete Keycloak and a small tenant, on which the users properties are applied; and what the users
  module does not prevent.
\<close>

section \<open>A Keycloak in memory\<close>

type_synonym demo_kc = "(string \<times> string \<times> string) list"

definition demo_mapped :: "demo_kc \<Rightarrow> string \<Rightarrow> string \<Rightarrow> string set" where
  "demo_mapped k re u = {n. (re, u, n) \<in> set k}"

definition kc_answer :: "nat \<Rightarrow> string option \<Rightarrow> kc_body \<Rightarrow> app_error + kc_response" where
  "kc_answer status loc body = Inr \<lparr>rp_status = status, rp_location = loc, rp_body = body\<rparr>"

fun demo_fetch :: "demo_kc fetch" where
  "demo_fetch (KcToken _) k = (kc_answer 200 None (KbToken (Some ''t'')), k)"
| "demo_fetch (KcCreateUser _ _ email) k = (kc_answer 201 (Some (''/users/'' @ email)) KbNone, k)"
| "demo_fetch (KcFindUser _ _ email) k = (kc_answer 200 None (KbUsers []), k)"
| "demo_fetch (KcGetRole _ _ r) k = (kc_answer 200 None (KbRole (Some ''i'') (Some (role_name r))), k)"
| "demo_fetch (KcAddMapping _ re u _ n) k =
     (case n of None \<Rightarrow> (kc_answer 404 None KbNone, k) | Some m \<Rightarrow> (kc_answer 204 None KbNone, (re, u, m) # k))"
| "demo_fetch (KcDeleteMapping _ re u _ n) k =
     (case n of None \<Rightarrow> (kc_answer 404 None KbNone, k)
      | Some m \<Rightarrow> (kc_answer 204 None KbNone, filter (\<lambda>x. x \<noteq> (re, u, m)) k))"
| "demo_fetch (KcGetMappings _ re u) k =
     (kc_answer 200 None (KbRoles (map (\<lambda>x. snd (snd x)) (filter (\<lambda>x. fst x = re \<and> fst (snd x) = u) k))), k)"
| "demo_fetch (KcSetEnabled _ _ _ _) k = (kc_answer 204 None KbNone, k)"
| "demo_fetch (KcSendEmail _ _ _) k = (kc_answer 204 None KbNone, k)"

lemma demo_server: "keycloak_server demo_fetch demo_mapped"
proof -
  have bounds: "demo_mapped (snd (demo_fetch rq k)) re v \<subseteq> demo_mapped k re v \<union> kc_adds rq re v \<and>
      demo_mapped k re v - kc_removes rq re v \<subseteq> demo_mapped (snd (demo_fetch rq k)) re v" for rq k re v
    by (cases rq) (auto simp: demo_mapped_def split: option.splits)
  have name: "n = role_name r" if "demo_fetch (KcGetRole t re r) k = (Inr resp, k') \<and> rp_body resp = KbRole i (Some n)"
    for t re r k k' resp i n
    using that by (auto simp: kc_answer_def)
  have removed: "\<exists>n. r = Some n \<and> n \<notin> demo_mapped k' re v"
    if "demo_fetch (KcDeleteMapping t re v i r) k = (Inr resp, k') \<and> kc_tolerated resp" for t re v i r k k' resp
    using that by (cases r) (auto simp: kc_answer_def kc_tolerated_def rp_ok_def demo_mapped_def)
  have truth: "set names = demo_mapped k re v"
    if "demo_fetch (KcGetMappings t re v) k = (Inr resp, k') \<and> kc_tolerated resp \<and> rp_body resp = KbRoles names" for t re v k k' resp names
    using that by (force simp: kc_answer_def demo_mapped_def)
  show ?thesis
    unfolding keycloak_server_def
    by (intro conjI allI impI)
      (erule name removed truth | rule bounds [THEN conjunct1] bounds [THEN conjunct2])+
qed

section \<open>A tenant\<close>

definition demo_user :: "id \<Rightarrow> user_row" where
  "demo_user i = \<lparr>us_id = i, us_keycloakSub = ''k'' @ i, us_email = i @ ''@x'', us_active = True, us_createdAt = 0\<rparr>"

definition demo_db :: "id list \<Rightarrow> user_role_row list \<Rightarrow> tenant_db" where
  "demo_db us rs =
     \<lparr>t_users = map demo_user us, t_userRoles = rs, t_units = [\<lparr>ou_id = ''n1'', ou_name = ''One'', ou_parentId = None, ou_managerUserId = None\<rparr>], t_employees = [],
      t_lokalizacje = [], t_templates = [], t_demands = [], t_shifts = [], t_swaps = [], t_leaves = [],
      t_aiConfigs = [], t_proposals = [], t_candidates = [], t_rates = [], t_audit = [], t_company = [], t_grants = [],
      t_workOrders = [], t_complaints = [], t_snapshots = [], t_perfConfigs = [], t_recos = []\<rparr>"

abbreviation urow :: "id \<Rightarrow> role \<Rightarrow> id option \<Rightarrow> user_role_row" where
  "urow i r u \<equiv> \<lparr>ur_userId = i, ur_role = r, ur_unitId = u\<rparr>"

abbreviation demo_realm :: string where
  "demo_realm \<equiv> ''hrobot-acme''"

definition root_jwt :: jwt where
  "root_jwt = \<lparr>jw_sub = ''kroot'', jw_roles = Some [''ADMIN_KLIENTA''], jw_iss = Some ''https://x/realms/hrobot-acme''\<rparr>"

definition demo_world :: "user_role_row list \<Rightarrow> demo_kc \<Rightarrow> (nat \<Rightarrow> outage option) \<Rightarrow> demo_kc users_world" where
  "demo_world rs k fate = \<lparr>w_db = demo_db [''root'', ''b''] rs, w_kc = k, w_fate = fate\<rparr>"

lemma demo_iss: "realm_of_iss (case jw_iss root_jwt of None \<Rightarrow> [] | Some i \<Rightarrow> i) = Some demo_realm"
  by code_simp

section \<open>The properties on the tenant\<close>

text \<open>The database goes away between the removal of the claim and the deletion of the row.\<close>

definition manager_world :: "demo_kc users_world" where
  "manager_world =
     demo_world [urow ''root'' ADMIN_KLIENTA None, urow ''b'' MANAGER (Some ''n1'')]
       [(demo_realm, ''kroot'', ''ADMIN_KLIENTA''), (demo_realm, ''kb'', ''MANAGER'')]
       (\<lambda>n. if n = 3 then Some Unreachable else None)"

lemma manager_world_backed: "backed demo_mapped demo_realm manager_world"
proof -
  have "role_name r = ''ADMIN_KLIENTA'' \<longleftrightarrow> r = ADMIN_KLIENTA" "role_name r = ''MANAGER'' \<longleftrightarrow> r = MANAGER" for r
    by (cases r; simp)+
  then show ?thesis
    by (auto simp: backed_def holds_role_def demo_mapped_def manager_world_def demo_world_def demo_db_def demo_user_def)
qed

theorem claims_stay_backed_witness:
  "(case users_handle demo_fetch ''pw'' 0 root_jwt ''ip'' (UrRevoke ''b'' MANAGER (Some ''n1'')) manager_world of
      (r, w') \<Rightarrow> r = Inl (PlainError ''database unreachable'') \<and>
        w_kc w' = [(demo_realm, ''kroot'', ''ADMIN_KLIENTA'')] \<and> length (t_userRoles (w_db w')) = 2 \<and>
        backed demo_mapped demo_realm w')"
proof -
  obtain r w' where run: "users_handle demo_fetch ''pw'' 0 root_jwt ''ip'' (UrRevoke ''b'' MANAGER (Some ''n1'')) manager_world = (r, w')"
    by (cases "users_handle demo_fetch ''pw'' 0 root_jwt ''ip'' (UrRevoke ''b'' MANAGER (Some ''n1'')) manager_world")
  have "case users_handle demo_fetch ''pw'' 0 root_jwt ''ip'' (UrRevoke ''b'' MANAGER (Some ''n1'')) manager_world of
      (r, w') \<Rightarrow> r = Inl (PlainError ''database unreachable'') \<and>
        w_kc w' = [(demo_realm, ''kroot'', ''ADMIN_KLIENTA'')] \<and> length (t_userRoles (w_db w')) = 2"
    by code_simp
  with claims_stay_backed [OF demo_server demo_iss manager_world_backed run] run show ?thesis by simp
qed

text \<open>A demoted administrator with a token that is still valid.\<close>

definition demoted_world :: "demo_kc users_world" where
  "demoted_world = demo_world [urow ''b'' ADMIN_KLIENTA None, urow ''root'' HR None] [] (\<lambda>_. None)"

theorem users_authority_witness:
  "(case users_handle demo_fetch ''pw'' 0 root_jwt ''ip'' (UrInvite ''c'' ''c@x'' ADMIN_KLIENTA None) demoted_world of
      (r, w') \<Rightarrow> r = Inl (ForbiddenException ''Actor no longer holds ADMIN_KLIENTA in the current DB state'') \<and>
        w_kc w' = [] \<and> w_db w' = w_db demoted_world)"
proof -
  let ?req = "UrInvite ''c'' ''c@x'' ADMIN_KLIENTA None"
  obtain r w' where run: "users_handle demo_fetch ''pw'' 0 root_jwt ''ip'' ?req demoted_world = (r, w')"
    by (cases "users_handle demo_fetch ''pw'' 0 root_jwt ''ip'' ?req demoted_world")
  have no: "\<not> may_manage_users demoted_world root_jwt"
    by (simp add: may_manage_users_def real_admin_def resolveActingUser_def roles_of_def demoted_world_def demo_world_def
        demo_db_def demo_user_def root_jwt_def jwt_actor_def)
  have "fst (users_handle demo_fetch ''pw'' 0 root_jwt ''ip'' ?req demoted_world) =
      Inl (ForbiddenException ''Actor no longer holds ADMIN_KLIENTA in the current DB state'')"
    by code_simp
  with users_authority [OF _ no run] run show ?thesis
    by (simp add: demoted_world_def demo_world_def)
qed

text \<open>One administrator deactivates the other; then the guard refuses the one that is left.\<close>

definition two_admins :: "demo_kc users_world" where
  "two_admins = demo_world [urow ''root'' ADMIN_KLIENTA None, urow ''b'' ADMIN_KLIENTA None] [] (\<lambda>_. None)"

theorem last_admin_kept_witness:
  "(case users_handle demo_fetch ''pw'' 0 root_jwt ''ip'' (UrDeactivate ''b'') two_admins of
      (r, w') \<Rightarrow> r = Inr UaNothing \<and> active_admins (w_db w') = [''root''] \<and>
        (case users_handle demo_fetch ''pw'' 0 root_jwt ''ip'' (UrDeactivate ''root'') w' of
           (r', w'') \<Rightarrow> r' = Inl (ConflictException ''Cannot remove the last ADMIN_KLIENTA of this tenant'') \<and>
             active_admins (w_db w'') \<noteq> []))"
proof -
  obtain r w' where run: "users_handle demo_fetch ''pw'' 0 root_jwt ''ip'' (UrDeactivate ''b'') two_admins = (r, w')"
    by (cases "users_handle demo_fetch ''pw'' 0 root_jwt ''ip'' (UrDeactivate ''b'') two_admins")
  obtain r' w'' where run': "users_handle demo_fetch ''pw'' 0 root_jwt ''ip'' (UrDeactivate ''root'') w' = (r', w'')"
    by (cases "users_handle demo_fetch ''pw'' 0 root_jwt ''ip'' (UrDeactivate ''root'') w'")
  have steps: "case users_handle demo_fetch ''pw'' 0 root_jwt ''ip'' (UrDeactivate ''b'') two_admins of
      (r, w') \<Rightarrow> r = Inr UaNothing \<and> active_admins (w_db w') = [''root''] \<and>
        fst (users_handle demo_fetch ''pw'' 0 root_jwt ''ip'' (UrDeactivate ''root'') w') =
          Inl (ConflictException ''Cannot remove the last ADMIN_KLIENTA of this tenant'')"
    by code_simp
  with run have "active_admins (w_db w') \<noteq> []" by simp
  from last_admin_kept [OF this _ run'] steps run run' show ?thesis by simp
qed

section \<open>What is not prevented\<close>

text \<open>
  Revoking a role for one unit asks for rows of the role with another unit, and the filter leaves rows
  without a unit out: the claim goes although a global row of the same role stays.
\<close>

lemma revoke_strips_global_claim:
  "(case users_handle demo_fetch ''pw'' 0 root_jwt ''ip'' (UrRevoke ''b'' HR (Some ''n1''))
           (demo_world [urow ''root'' ADMIN_KLIENTA None, urow ''b'' HR None, urow ''b'' HR (Some ''n1'')]
             [(demo_realm, ''kb'', ''HR'')] (\<lambda>_. None)) of
      (r, w') \<Rightarrow> r = Inr UaNothing \<and> roles_of (w_db w') ''b'' = [(HR, None)] \<and> w_kc w' = [])"
  by code_simp

text \<open>A fixing reconciliation deletes the row of the last administrator when Keycloak has lost the role.\<close>

lemma reconcile_removes_last_admin:
  "(case users_handle demo_fetch ''pw'' 0 root_jwt ''ip'' (UrReconcile (Some ''true'') None)
           (demo_world [urow ''root'' ADMIN_KLIENTA None] [] (\<lambda>_. None)) of
      (r, w') \<Rightarrow> isl r = False \<and> active_admins (w_db w') = [])"
  by code_simp

text \<open>
  A deactivation decides before its transaction whether the target is an administrator. If the target is
  made one in between, and the other administrator gives the role up, the change goes through unguarded.
\<close>

lemma deactivate_race:
  "(let w = demo_world [urow ''root'' ADMIN_KLIENTA None] [] (\<lambda>_. None) in
    case findTarget ''b'' w of
      (Inl _, _) \<Rightarrow> False
    | (Inr (target, sub), w1) \<Rightarrow>
        let w2 = snd (users_handle demo_fetch ''pw'' 0 root_jwt ''ip'' (UrAssign ''b'' ADMIN_KLIENTA None) w1);
            w3 = snd (users_handle demo_fetch ''pw'' 0 root_jwt ''ip'' (UrRevoke ''root'' ADMIN_KLIENTA None) w2);
            w4 = snd (deactivate_commit demo_fetch ''pw'' demo_realm target sub w3)
        in active_admins (w_db w3) = [''b''] \<and> active_admins (w_db w4) = [])"
  by code_simp

text \<open>The invitation mail is best-effort, but the token it needs is not.\<close>

lemma mail_token_failure:
  assumes "fetch (KcToken pw) k = (Inl e, k')"
  shows "sendPasswordSetupEmail fetch pw realm sub k = (Inl e, k')"
  using assms by (simp add: sendPasswordSetupEmail_def getAdminToken_def bnd_def)

end
