(* ===== verification/Settings.thy ===== *)
theory Settings
  imports Rbac "HOL-Library.List_Lexorder" "HOL-Library.Char_ord"
begin

text \<open>
  Company settings and organizational units: \<open>ustawienia/ustawienia.service.ts\<close> and
  \<open>ustawienia/ustawienia.controller.ts\<close>.

  Moving a unit walks up the parents of the new parent in a \<open>while\<close> loop that ends only when it meets the
  moved unit, a missing row or a root. Such a loop need not end, so it is a partial function, and a method
  that runs it answers an option: \<open>None\<close> is a request that never comes back.
\<close>

section \<open>Requests and errors\<close>

record company_dto =
  cy_companyName :: "string option"
  cy_timezone :: "string option"
  cy_region :: "string option"
  cy_locale :: "string option"

record create_unit_dto =
  cu_name :: string
  cu_parentId :: "id option"

text \<open>A field that may be absent, \<open>null\<close> or given is a nested option.\<close>

record update_unit_dto =
  uu_name :: "string option"
  uu_parentId :: "id option option"
  uu_managerUserId :: "id option option"

definition assertAdmin :: "actor \<Rightarrow> unit tx" where
  "assertAdmin act =
     ensure (role_name ADMIN_KLIENTA \<in> set (act_roles act))
       (ForbiddenException ''Only ADMIN_KLIENTA may change company settings or units'')"

definition settings_mapWriteError :: "app_error \<Rightarrow> 'a tx" where
  "settings_mapWriteError err =
     throw (case err of
       P2002 _ \<Rightarrow> ConflictException ''Unit already exists''
     | P2003 _ \<Rightarrow> BadRequestException ''Invalid parentId or managerUserId: referenced row does not exist''
     | _ \<Rightarrow> err)"

section \<open>The company\<close>

definition defaultCompany :: company_row where
  "defaultCompany =
     \<lparr>cs_id = [], cs_companyName = [], cs_timezone = ''Europe/Warsaw'', cs_region = ''EU-Central'', cs_locale = ''pl-PL''\<rparr>"

definition find_company :: "tenant_db \<Rightarrow> company_row option" where
  "find_company db = (case t_company db of [] \<Rightarrow> None | r # _ \<Rightarrow> Some r)"

definition getCompany :: "company_row tx" where
  "getCompany = asks (\<lambda>db. case find_company db of None \<Rightarrow> defaultCompany | Some r \<Rightarrow> r)"

definition company_empty :: "company_dto \<Rightarrow> bool" where
  "company_empty dto \<longleftrightarrow>
     cy_companyName dto = None \<and> cy_timezone dto = None \<and> cy_region dto = None \<and> cy_locale dto = None"

definition company_patch :: "company_dto \<Rightarrow> company_row \<Rightarrow> company_row" where
  "company_patch dto r = r
     \<lparr>cs_companyName := (case cy_companyName dto of None \<Rightarrow> cs_companyName r | Some x \<Rightarrow> x),
      cs_timezone := (case cy_timezone dto of None \<Rightarrow> cs_timezone r | Some x \<Rightarrow> x),
      cs_region := (case cy_region dto of None \<Rightarrow> cs_region r | Some x \<Rightarrow> x),
      cs_locale := (case cy_locale dto of None \<Rightarrow> cs_locale r | Some x \<Rightarrow> x)\<rparr>"

definition company_update :: "id \<Rightarrow> company_dto \<Rightarrow> company_row tx" where
  "company_update i dto = update_row t_company put_company cs_id (P2025 ''company_settings'') i (company_patch dto)"

text \<open>The singleton index lets one row in.\<close>

definition company_create :: "id \<Rightarrow> company_dto \<Rightarrow> string \<Rightarrow> company_row tx" where
  "company_create newId dto companyName =
     bnd (asks t_company) (\<lambda>rs.
     bnd (ensure (rs = []) (P2002 ''company_settings'')) (\<lambda>_.
     create_row t_company put_company
       (company_patch (dto\<lparr>cy_companyName := Some companyName\<rparr>) (defaultCompany\<lparr>cs_id := newId\<rparr>))))"

definition company_json :: "company_row \<Rightarrow> json" where
  "company_json r =
     JObj [(''id'', JStr (cs_id r)), (''companyName'', JStr (cs_companyName r)), (''timezone'', JStr (cs_timezone r)),
           (''region'', JStr (cs_region r)), (''locale'', JStr (cs_locale r))]"

definition settings_audit :: "actor \<Rightarrow> string \<Rightarrow> string \<Rightarrow> id \<Rightarrow> (string \<times> json) list \<Rightarrow> unit tx" where
  "settings_audit act action entity i payload =
     audit_log (act_userId act) action entity i (JObj payload) (act_ipAddress act)"

text \<open>
  \<open>before\<close> is what the first read answered; a concurrent writer may have made the row since, which is
  why the read is an argument of the write half.
\<close>

definition company_write :: "id \<Rightarrow> company_row option \<Rightarrow> company_dto \<Rightarrow> company_row tx" where
  "company_write newId before dto =
     (case before of
        Some b \<Rightarrow>
          if company_empty dto then throw (BadRequestException ''Brak danych do aktualizacji'')
          else company_update (cs_id b) dto
      | None \<Rightarrow>
          let companyName = (case cy_companyName dto of None \<Rightarrow> [] | Some n \<Rightarrow> trim n)
          in if companyName = [] then throw (BadRequestException ''company_name jest wymagane przy pierwszej konfiguracji'')
             else catch (company_create newId dto companyName)
               (\<lambda>err. case err of
                  P2002 _ \<Rightarrow> bnd (asks find_company) (\<lambda>existing.
                    case existing of
                      None \<Rightarrow> throw (ConflictException ''Company settings already exist'')
                    | Some e \<Rightarrow> company_update (cs_id e) dto)
                | _ \<Rightarrow> throw err))"

definition upsertCompany :: "id \<Rightarrow> actor \<Rightarrow> company_dto \<Rightarrow> company_row tx" where
  "upsertCompany newId act dto =
     bnd (assertAdmin act) (\<lambda>_.
     bnd (asks find_company) (\<lambda>before.
     bnd (company_write newId before dto) (\<lambda>after.
     bnd (settings_audit act ''settings.updated'' ''CompanySettings'' (cs_id after)
            [(''before'', case before of None \<Rightarrow> JNull | Some b \<Rightarrow> company_json b), (''after'', company_json after)]) (\<lambda>_.
     ret after))))"

section \<open>Units\<close>

record unit_projection =
  up_id :: id
  up_name :: string
  up_parentId :: "id option"
  up_managerUserId :: "id option"
  up_children :: "id list"

text \<open>\<open>orderBy: { name: 'asc' }\<close>, with the collation of the database as the order of its sort keys.\<close>

definition settings_listUnits :: "unit_projection list tx" where
  "settings_listUnits = asks (\<lambda>db.
     let units = sort_key ou_name (t_units db)
     in map (\<lambda>u. \<lparr>up_id = ou_id u, up_name = ou_name u, up_parentId = ou_parentId u,
                   up_managerUserId = ou_managerUserId u,
                   up_children = map ou_id (filter (\<lambda>c. ou_parentId c = Some (ou_id u)) units)\<rparr>) units)"

definition unit_json :: "unit_row \<Rightarrow> json" where
  "unit_json u =
     JObj [(''id'', JStr (ou_id u)), (''name'', JStr (ou_name u)), (''parentId'', json_opt (ou_parentId u)),
           (''managerUserId'', json_opt (ou_managerUserId u))]"

definition unit_fks :: "tenant_db \<Rightarrow> unit_row \<Rightarrow> bool" where
  "unit_fks db u \<longleftrightarrow>
     (case ou_parentId u of None \<Rightarrow> True | Some p \<Rightarrow> find_row ou_id p (t_units db) \<noteq> None \<or> p = ou_id u) \<and>
     (case ou_managerUserId u of None \<Rightarrow> True | Some m \<Rightarrow> find_row us_id m (t_users db) \<noteq> None)"

definition unit_insert :: "unit_row \<Rightarrow> unit_row tx" where
  "unit_insert u =
     bnd (asks (\<lambda>db. unit_fks db u)) (\<lambda>ok.
     bnd (ensure ok (P2003 ''organizational_units'')) (\<lambda>_.
     create_row t_units put_units u))"

definition createUnit :: "id \<Rightarrow> actor \<Rightarrow> create_unit_dto \<Rightarrow> unit_row tx" where
  "createUnit newId act dto =
     bnd (assertAdmin act) (\<lambda>_.
     bnd (catch (unit_insert \<lparr>ou_id = newId, ou_name = cu_name dto, ou_parentId = cu_parentId dto, ou_managerUserId = None\<rparr>)
            settings_mapWriteError) (\<lambda>created.
     bnd (settings_audit act ''unit.created'' ''OrganizationalUnit'' (ou_id created) [(''after'', unit_json created)]) (\<lambda>_.
     ret created)))"

text \<open>The loop of the cycle guard, over the rows as the transaction sees them. An empty id is falsy.\<close>

partial_function (option) walk_up :: "unit_row list \<Rightarrow> id \<Rightarrow> id option \<Rightarrow> (app_error + unit) option" where
  "walk_up units i cursor =
     (case cursor of
        None \<Rightarrow> Some (Inr ())
      | Some c \<Rightarrow>
          if c = [] then Some (Inr ())
          else if c = i then Some (Inl (BadRequestException ''Reparent would create a cycle''))
          else (case find_row ou_id c units of
                  None \<Rightarrow> Some (Inl (BadRequestException ''Invalid parentId: unit does not exist''))
                | Some node \<Rightarrow> walk_up units i (ou_parentId node)))"

declare walk_up.simps [code]

definition reparent_check :: "unit_row list \<Rightarrow> id \<Rightarrow> update_unit_dto \<Rightarrow> (app_error + unit) option" where
  "reparent_check units i dto =
     (case uu_parentId dto of
        Some (Some p) \<Rightarrow>
          if p = i then Some (Inl (BadRequestException ''A unit cannot be its own parent''))
          else walk_up units i (Some p)
      | _ \<Rightarrow> Some (Inr ()))"

definition unit_patch :: "update_unit_dto \<Rightarrow> unit_row \<Rightarrow> unit_row" where
  "unit_patch dto u = u
     \<lparr>ou_name := (case uu_name dto of None \<Rightarrow> ou_name u | Some n \<Rightarrow> n),
      ou_parentId := (case uu_parentId dto of None \<Rightarrow> ou_parentId u | Some p \<Rightarrow> p),
      ou_managerUserId := (case uu_managerUserId dto of None \<Rightarrow> ou_managerUserId u | Some m \<Rightarrow> m)\<rparr>"

definition unit_update :: "id \<Rightarrow> update_unit_dto \<Rightarrow> unit_row tx" where
  "unit_update i dto =
     bnd (asks (\<lambda>db. case find_row ou_id i (t_units db) of None \<Rightarrow> True | Some u \<Rightarrow> unit_fks db (unit_patch dto u))) (\<lambda>ok.
     bnd (ensure ok (P2003 ''organizational_units'')) (\<lambda>_.
     update_row t_units put_units ou_id (P2025 ''organizational_units'') i (unit_patch dto)))"

text \<open>The transaction after the guard: the write, with the errors mapped.\<close>

definition unit_commit :: "id \<Rightarrow> update_unit_dto \<Rightarrow> unit_row tx" where
  "unit_commit i dto = transaction (catch (unit_update i dto) settings_mapWriteError)"

definition updateUnit :: "actor \<Rightarrow> id \<Rightarrow> update_unit_dto \<Rightarrow> tenant_db \<Rightarrow> ((app_error + unit_row) \<times> tenant_db) option" where
  "updateUnit act i dto db =
     (case bnd (assertAdmin act) (\<lambda>_.
           bnd (asks (\<lambda>db. find_row ou_id i (t_units db)))
             (require (NotFoundException (''Unit '' @ i @ '' not found'')))) db of
        (Inl e, db1) \<Rightarrow> Some (Inl e, db1)
      | (Inr before, db1) \<Rightarrow>
          (case reparent_check (t_units db1) i dto of
             None \<Rightarrow> None
           | Some guard \<Rightarrow>
               Some (bnd (lift_sum guard) (\<lambda>_.
                     bnd (unit_commit i dto) (\<lambda>updated.
                     bnd (settings_audit act ''unit.updated'' ''OrganizationalUnit'' i
                            [(''before'', unit_json before), (''after'', unit_json updated)]) (\<lambda>_.
                     ret updated))) db1)))"

section \<open>The HTTP controller\<close>

definition SETTINGS_READ_ROLES :: "role list" where
  "SETTINGS_READ_ROLES = [MANAGER, HR, ADMIN_KLIENTA]"

datatype settings_request =
  StGetCompany
| StPatchCompany id company_dto
| StListUnits
| StCreateUnit id create_unit_dto
| StUpdateUnit id update_unit_dto

datatype settings_reply =
  SaCompany company_row
| SaUnits "unit_projection list"
| SaUnit unit_row

definition settings_roles :: "settings_request \<Rightarrow> role list" where
  "settings_roles req =
     (case req of StGetCompany \<Rightarrow> SETTINGS_READ_ROLES | StListUnits \<Rightarrow> SETTINGS_READ_ROLES | _ \<Rightarrow> [ADMIN_KLIENTA])"

fun settings_body :: "actor \<Rightarrow> settings_request \<Rightarrow> tenant_db \<Rightarrow> ((app_error + settings_reply) \<times> tenant_db) option" where
  "settings_body act StGetCompany db = Some (bnd getCompany (\<lambda>r. ret (SaCompany r)) db)"
| "settings_body act (StPatchCompany newId dto) db = Some (bnd (upsertCompany newId act dto) (\<lambda>r. ret (SaCompany r)) db)"
| "settings_body act StListUnits db = Some (bnd settings_listUnits (\<lambda>us. ret (SaUnits us)) db)"
| "settings_body act (StCreateUnit newId dto) db = Some (bnd (createUnit newId act dto) (\<lambda>u. ret (SaUnit u)) db)"
| "settings_body act (StUpdateUnit i dto) db =
     map_option (\<lambda>(r, db'). (map_sum id SaUnit r, db')) (updateUnit act i dto db)"

definition settings_handle :: "actor \<Rightarrow> settings_request \<Rightarrow> tenant_db \<Rightarrow> ((app_error + settings_reply) \<times> tenant_db) option" where
  "settings_handle act req db =
     (case canActivate (Some (map role_name (settings_roles req))) (act_roles act) of
        Inl e \<Rightarrow> Some (Inl e, db)
      | Inr _ \<Rightarrow> settings_body act req db)"

end
