(* ===== verification/SettingsProps.thy ===== *)
theory SettingsProps
  imports Settings UsersSamples
begin

text \<open>
  The organizational tree: every request of the settings API comes back and leaves a forest, and what two
  moves at the same time can do to it.
\<close>

section \<open>Forests\<close>

text \<open>\<open>rooted units i\<close>: following the parents from the unit \<open>i\<close> ends at a root.\<close>

inductive rooted :: "unit_row list \<Rightarrow> id \<Rightarrow> bool" for units where
  root: "find_row ou_id i units = Some u \<Longrightarrow> ou_parentId u = None \<Longrightarrow> rooted units i"
| up: "find_row ou_id i units = Some u \<Longrightarrow> ou_parentId u = Some p \<Longrightarrow> rooted units p \<Longrightarrow> rooted units i"

inductive_cases rootedE: "rooted units i"

definition forest :: "unit_row list \<Rightarrow> bool" where
  "forest units \<longleftrightarrow> distinct (map ou_id units) \<and> [] \<notin> ou_id ` set units \<and> (\<forall>u \<in> set units. rooted units (ou_id u))"

lemma rooted_found: "rooted units i \<Longrightarrow> \<exists>u. find_row ou_id i units = Some u"
  by (erule rooted.cases) auto

lemma forest_rooted: "forest units \<Longrightarrow> find_row ou_id i units = Some u \<Longrightarrow> rooted units i"
  by (auto simp: forest_def dest: find_row_SomeD)

text \<open>
  From a rooted unit the loop ends. If it ends without an objection, the way up does not meet the moved
  unit, so it is the same after any change of the moved unit alone.
\<close>

lemma walk_up_ends:
  assumes "rooted units c" and ids: "[] \<notin> ou_id ` set units" and f: "\<forall>u. ou_id (f u) = ou_id u"
  shows "\<exists>r. walk_up units i (Some c) = Some r \<and>
    (r = Inr () \<longrightarrow> rooted (update_rows (\<lambda>u. ou_id u = i) f units) c)"
  using assms(1)
proof induction
  case (root c u)
  then have "ou_id u = c" "c \<noteq> []" using ids by (metis find_row_SomeD imageI)+
  with root f show ?case
    by (auto simp: walk_up.simps [of units i "Some c"] walk_up.simps [of units i None] find_row_update_rows
        intro!: rooted.root)
next
  case (up c u p)
  then have c: "ou_id u = c" "c \<noteq> []" using ids by (metis find_row_SomeD imageI)+
  from up.IH obtain r where r: "walk_up units i (Some p) = Some r"
    "r = Inr () \<longrightarrow> rooted (update_rows (\<lambda>u. ou_id u = i) f units) p" by blast
  show ?case
  proof (cases "c = i")
    case False
    have "rooted (update_rows (\<lambda>u. ou_id u = i) f units) c" if "r = Inr ()"
      using r(2) that up.hyps c False f by (intro rooted.up [of c _ u p]) (auto simp: find_row_update_rows)
    with False r c up.hyps show ?thesis by (simp add: walk_up.simps [of units i "Some c"])
  next
    case True
    with c have "walk_up units i (Some c) = Some (Inl (BadRequestException ''Reparent would create a cycle''))"
      by (subst walk_up.simps) simp
    then show ?thesis by simp
  qed
qed

lemma rooted_moved:
  assumes "rooted units c" and f: "\<forall>u. ou_id (f u) = ou_id u"
    and i: "rooted (update_rows (\<lambda>u. ou_id u = i) f units) i"
  shows "rooted (update_rows (\<lambda>u. ou_id u = i) f units) c"
  using assms(1)
proof induction
  case (root c u)
  then show ?case
    using i f by (cases "c = i") (auto simp: find_row_update_rows dest: find_row_SomeD intro!: rooted.root [of _ _ u])
next
  case (up c u p)
  then show ?case
    using i f by (cases "c = i") (auto simp: find_row_update_rows dest: find_row_SomeD intro!: rooted.up [of c _ u p])
qed

lemma rooted_same_parents:
  assumes "rooted units c" and "\<forall>u. ou_id (f u) = ou_id u \<and> ou_parentId (f u) = ou_parentId u"
  shows "rooted (update_rows P f units) c"
  using assms(1)
proof induction
  case (root c u)
  with assms(2) show ?case
    by (intro rooted.root [of c _ "if P u then f u else u"]) (auto simp: find_row_update_rows)
next
  case (up c u p)
  with assms(2) show ?case
    by (intro rooted.up [of c _ "if P u then f u else u" p]) (auto simp: find_row_update_rows)
qed

lemma forest_update:
  assumes "forest units" and f: "\<forall>u. ou_id (f u) = ou_id u"
    and "\<And>c. rooted units c \<Longrightarrow> rooted (update_rows P f units) c"
  shows "forest (update_rows P f units)"
proof -
  have ids: "map ou_id (update_rows P f units) = map ou_id units"
    by (rule map_update_rows) (use f in simp)
  moreover have "ou_id ` set (update_rows P f units) = ou_id ` set units"
    using arg_cong [OF ids, of set] by simp
  moreover have "rooted (update_rows P f units) (ou_id u)" if "u \<in> set (update_rows P f units)" for u
    using that assms f by (auto simp: set_update_rows forest_def)
  ultimately show ?thesis using assms(1) unfolding forest_def by metis
qed

lemma unit_patch_simps [simp]: "ou_id (unit_patch dto u) = ou_id u"
  by (simp add: unit_patch_def)

text \<open>A move that passes the guard and the foreign keys keeps the forest.\<close>

lemma forest_reparent:
  assumes forest: "forest units" and guard: "reparent_check units i dto = Some (Inr ())"
    and u: "find_row ou_id i units = Some u"
    and fk: "\<And>p. uu_parentId dto = Some (Some p) \<Longrightarrow> find_row ou_id p units \<noteq> None"
  shows "forest (update_rows (\<lambda>u. ou_id u = i) (unit_patch dto) units)" (is "forest ?units")
proof (rule forest_update [OF forest])
  fix c
  assume c: "rooted units c"
  have u': "find_row ou_id i ?units = Some (unit_patch dto u)"
    using u by (subst find_row_update_rows) (auto dest: find_row_SomeD)
  consider (same) "uu_parentId dto = None" | (out) "uu_parentId dto = Some None" | (under) p where "uu_parentId dto = Some (Some p)"
    by (cases "uu_parentId dto") auto
  then show "rooted ?units c"
  proof cases
    case same
    then show ?thesis by (intro rooted_same_parents [OF c]) (auto simp: unit_patch_def)
  next
    case out
    with u' have "rooted ?units i" by (auto simp: unit_patch_def intro: rooted.root)
    then show ?thesis by (intro rooted_moved [OF c]) auto
  next
    case under
    with fk obtain v where "find_row ou_id p units = Some v" by auto
    then have "rooted units p" by (rule forest_rooted [OF forest])
    moreover from under guard have "walk_up units i (Some p) = Some (Inr ())"
      by (auto simp: reparent_check_def split: if_splits)
    moreover have "[] \<notin> ou_id ` set units" using forest by (simp add: forest_def)
    ultimately have "rooted ?units p" using walk_up_ends [of units p "unit_patch dto" i] by auto
    with u' under have "rooted ?units i" by (auto simp: unit_patch_def intro: rooted.up)
    then show ?thesis by (intro rooted_moved [OF c]) auto
  qed
qed simp

lemma reparent_check_ends:
  assumes "forest units"
  shows "\<exists>g. reparent_check units i dto = Some g"
proof -
  have "\<exists>g. walk_up units i (Some p) = Some g" for p
  proof (cases "find_row ou_id p units")
    case (Some v)
    with assms walk_up_ends [OF forest_rooted, of units p v "\<lambda>u. u" i] show ?thesis by (auto simp: forest_def)
  qed (auto simp: walk_up.simps [of units i "Some p"])
  then show ?thesis by (auto simp: reparent_check_def split: option.splits)
qed

section \<open>Every request\<close>

lemma unit_insert_forest:
  assumes forest: "forest units" and new: "find_row ou_id (ou_id u) units = None" "ou_id u \<noteq> []"
    and fk: "\<And>p. ou_parentId u = Some p \<Longrightarrow> find_row ou_id p units \<noteq> None"
  shows "forest (units @ [u])"
proof -
  have old: "rooted (units @ [u]) c" if "rooted units c" for c
    using that by induction (auto simp: find_row_append intro: rooted.intros)
  have self: "rooted (units @ [u]) (ou_id u)"
  proof (cases "ou_parentId u")
    case None
    with new show ?thesis by (auto simp: find_row_append intro: rooted.root)
  next
    case (Some p)
    with fk obtain v where "find_row ou_id p units = Some v" by auto
    then have p: "rooted (units @ [u]) p" by (intro old forest_rooted [OF forest])
    show ?thesis by (rule rooted.up [OF _ Some p]) (use new in \<open>simp add: find_row_append\<close>)
  qed
  have "rooted (units @ [u]) (ou_id v)" if "v \<in> set (units @ [u])" for v
  proof (cases "v = u")
    case False
    with that have "v \<in> set units" by simp
    with forest have "rooted units (ou_id v)" by (simp add: forest_def)
    then show ?thesis by (rule old)
  qed (simp add: self)
  moreover have "distinct (map ou_id (units @ [u]))" using forest new by (simp add: forest_def find_row_None_iff)
  moreover have "[] \<notin> ou_id ` set (units @ [u])" using forest new(2) by (auto simp: forest_def)
  ultimately show ?thesis unfolding forest_def by blast
qed

lemma createUnit_forest:
  assumes "forest (t_units db)" and "find_row ou_id newId (t_units db) = None" "newId \<noteq> []" "cu_parentId dto \<noteq> Some newId"
  shows "wp (createUnit newId act dto) (\<lambda>_ db'. forest (t_units db')) (\<lambda>_ db'. forest (t_units db')) db"
  using assms
  by (auto simp: createUnit_def assertAdmin_def unit_insert_def settings_mapWriteError_def settings_audit_def audit_log_def
      svc_wp unit_fks_def dest: find_row_SomeD split: option.splits intro!: unit_insert_forest)

lemma unit_commit_forest:
  assumes forest: "forest (t_units db)" and guard: "reparent_check (t_units db) i dto = Some (Inr ())"
  shows "wp (unit_commit i dto) (\<lambda>_ db'. forest (t_units db')) (\<lambda>_ db'. forest (t_units db')) db"
proof -
  have moved: "forest (update_rows (\<lambda>u. ou_id u = i) (unit_patch dto) (t_units db))"
    if u: "find_row ou_id i (t_units db) = Some u" and ok: "unit_fks db (unit_patch dto u)" for u
  proof (rule forest_reparent [OF forest guard u])
    fix p
    assume p: "uu_parentId dto = Some (Some p)"
    with ok u guard show "find_row ou_id p (t_units db) \<noteq> None"
      by (auto simp: unit_fks_def unit_patch_def reparent_check_def dest: find_row_SomeD split: if_splits)
  qed
  show ?thesis
    using forest by (auto simp: unit_commit_def unit_update_def settings_mapWriteError_def svc_wp moved split: option.splits)
qed

lemma updateUnit_forest:
  assumes "forest (t_units db)"
  shows "\<exists>r db'. updateUnit act i dto db = Some (r, db') \<and> forest (t_units db')"
proof (cases "role_name ADMIN_KLIENTA \<in> set (act_roles act) \<and> find_row ou_id i (t_units db) \<noteq> None")
  case True
  then obtain u where u: "find_row ou_id i (t_units db) = Some u" by auto
  obtain g where g: "reparent_check (t_units db) i dto = Some g" using reparent_check_ends [OF assms] by blast
  let ?rest = "bnd (lift_sum g) (\<lambda>_. bnd (unit_commit i dto) (\<lambda>updated.
     bnd (settings_audit act ''unit.updated'' ''OrganizationalUnit'' i
       [(''before'', unit_json u), (''after'', unit_json updated)]) (\<lambda>_. ret updated)))"
  have "wp ?rest (\<lambda>_ db'. forest (t_units db')) (\<lambda>_ db'. forest (t_units db')) db"
  proof (cases g)
    case (Inr x)
    with g have "reparent_check (t_units db) i dto = Some (Inr ())" by (cases x) simp
    from wp_mono [OF unit_commit_forest [OF assms this]] Inr show ?thesis
      by (simp add: svc_wp settings_audit_def audit_log_def)
  qed (use assms in \<open>simp add: svc_wp\<close>)
  moreover obtain r db' where "?rest db = (r, db')" by (cases "?rest db")
  ultimately have "forest (t_units db')" by (cases r) (simp_all add: wp_def)
  moreover have "updateUnit act i dto db = Some (r, db')"
    using True u g \<open>?rest db = (r, db')\<close> by (simp add: updateUnit_def assertAdmin_def)
  ultimately show ?thesis by blast
qed (use assms in \<open>auto simp: updateUnit_def assertAdmin_def\<close>)

text \<open>The company row lives beside the units.\<close>

lemma wp_on_duplicate:
  assumes "wp m Q E db" and "E err db"
  shows "wp (case err of P2002 _ \<Rightarrow> m | _ \<Rightarrow> throw err) Q E db"
  using assms by (cases err) (simp_all add: wp_throw)

lemma company_update_units:
  "t_units db = us \<Longrightarrow> wp (company_update i dto) (\<lambda>_ db'. t_units db' = us) (\<lambda>_ db'. t_units db' = us) db"
  by (auto simp: company_update_def wp_update_row split: option.splits)

lemma wp_company_create:
  "wp (company_create newId dto n) Q E db \<longleftrightarrow>
     (if t_company db = [] then
        Q (company_patch (dto\<lparr>cy_companyName := Some n\<rparr>) (defaultCompany\<lparr>cs_id := newId\<rparr>))
          (put_company (t_company db @ [company_patch (dto\<lparr>cy_companyName := Some n\<rparr>) (defaultCompany\<lparr>cs_id := newId\<rparr>)]) db)
      else E (P2002 ''company_settings'') db)"
  by (simp add: company_create_def svc_wp)

lemma company_write_units:
  assumes "t_units db = us"
  shows "wp (company_write newId before dto) (\<lambda>_ db'. t_units db' = us) (\<lambda>_ db'. t_units db' = us) db"
proof (cases before)
  case None
  let ?h = "\<lambda>err. case err of
        P2002 _ \<Rightarrow> bnd (asks find_company) (\<lambda>existing. case existing of
            None \<Rightarrow> throw (ConflictException ''Company settings already exist'')
          | Some e \<Rightarrow> company_update (cs_id e) dto)
      | _ \<Rightarrow> throw err"
  have again: "wp (bnd (asks find_company) (\<lambda>existing. case existing of
            None \<Rightarrow> throw (ConflictException ''Company settings already exist'')
          | Some e \<Rightarrow> company_update (cs_id e) dto)) (\<lambda>_ db'. t_units db' = us) (\<lambda>_ db'. t_units db' = us) db"
    unfolding wp_bnd wp_asks by (cases "find_company db") (use assms in \<open>auto simp: wp_throw intro: company_update_units\<close>)
  have "wp (company_create newId dto n) (\<lambda>_ db'. t_units db' = us) (\<lambda>err. wp (?h err) (\<lambda>_ db'. t_units db' = us) (\<lambda>_ db'. t_units db' = us)) db" for n
    unfolding wp_company_create
  proof (split if_split, intro conjI impI)
    show "wp (?h (P2002 ''company_settings'')) (\<lambda>_ db'. t_units db' = us) (\<lambda>_ db'. t_units db' = us) db"
      by (rule wp_on_duplicate [OF again]) (rule assms)
  qed (use assms in simp)
  with None assms show ?thesis by (auto simp: company_write_def Let_def wp_throw wp_catch)
qed (use assms in \<open>auto simp: company_write_def wp_throw intro: company_update_units\<close>)

lemma upsertCompany_units:
  "wp (upsertCompany newId act dto) (\<lambda>_ db'. t_units db' = t_units db) (\<lambda>_ db'. t_units db' = t_units db) db"
  unfolding upsertCompany_def wp_bnd assertAdmin_def wp_ensure wp_asks
  by (auto simp: settings_audit_def audit_log_def wp_bnd wp_modify wp_ret intro!: wp_mono [OF company_write_units])

text \<open>
  C25. The organizational units stay a forest: if every chain of parents ends at a root, then every request of the
  settings API comes back, the walk of the cycle guard included, and however it ends, every chain of parents
  ends at a root afterwards.
\<close>

theorem units_stay_forest:
  assumes forest: "forest (t_units db)"
    and fresh: "\<And>newId dto. req = StCreateUnit newId dto \<Longrightarrow> newId \<noteq> [] \<and> find_row ou_id newId (t_units db) = None \<and>
      cu_parentId dto \<noteq> Some newId"
  shows "\<exists>r db'. settings_handle act req db = Some (r, db') \<and> forest (t_units db')"
proof -
  have run: "\<exists>r db'. Some (bnd m (\<lambda>x. ret (g x)) db) = Some (r, db') \<and> forest (t_units db')"
    if "wp m (\<lambda>_ db'. forest (t_units db')) (\<lambda>_ db'. forest (t_units db')) db" for m :: "'x tx" and g :: "'x \<Rightarrow> settings_reply"
    using that by (auto simp: bnd_def wp_def split: prod.splits sum.splits)
  have "\<exists>r db'. settings_body act req db = Some (r, db') \<and> forest (t_units db')"
  proof (cases req)
    case (StCreateUnit newId dto)
    with run [OF createUnit_forest] fresh forest show ?thesis by simp
  next
    case (StUpdateUnit i dto)
    with updateUnit_forest [OF forest, of act i dto] show ?thesis by auto
  next
    case (StPatchCompany newId dto)
    from upsertCompany_units [of newId act dto db] forest
    have "wp (upsertCompany newId act dto) (\<lambda>_ db'. forest (t_units db')) (\<lambda>_ db'. forest (t_units db')) db"
      by (auto elim: wp_mono)
    with StPatchCompany run show ?thesis by simp
  qed (use forest in \<open>auto simp: getCompany_def settings_listUnits_def\<close>)
  with forest show ?thesis by (auto simp: settings_handle_def split: sum.splits)
qed

section \<open>The tree on the tenant\<close>

definition demo_unit :: "id \<Rightarrow> id option \<Rightarrow> unit_row" where
  "demo_unit i p = \<lparr>ou_id = i, ou_name = i, ou_parentId = p, ou_managerUserId = None\<rparr>"

text \<open>Three units: b and c under a.\<close>

definition demo_units :: "unit_row list" where
  "demo_units = [demo_unit ''a'' None, demo_unit ''b'' (Some ''a''), demo_unit ''c'' (Some ''a'')]"

definition tree_db :: tenant_db where
  "tree_db = put_units demo_units (demo_db [''root''] [])"

definition root_actor :: actor where
  "root_actor = \<lparr>act_userId = ''kroot'', act_roles = [''ADMIN_KLIENTA''], act_ipAddress = ''ip''\<rparr>"

definition move_under :: "id \<Rightarrow> update_unit_dto" where
  "move_under p = \<lparr>uu_name = None, uu_parentId = Some (Some p), uu_managerUserId = None\<rparr>"

lemma demo_forest: "forest (t_units tree_db)"
proof -
  have a: "rooted demo_units ''a''"
    by (rule rooted.root [of _ _ "demo_unit ''a'' None"]) (simp_all add: demo_units_def demo_unit_def)
  have "rooted demo_units ''b''"
    by (rule rooted.up [of _ _ "demo_unit ''b'' (Some ''a'')", OF _ _ a]) (simp_all add: demo_units_def demo_unit_def)
  moreover have "rooted demo_units ''c''"
    by (rule rooted.up [of _ _ "demo_unit ''c'' (Some ''a'')", OF _ _ a]) (simp_all add: demo_units_def demo_unit_def)
  ultimately show ?thesis using a
    by (simp add: forest_def tree_db_def demo_units_def demo_unit_def)
qed

text \<open>Moving the root under its child is refused; moving b under c is done.\<close>

theorem units_stay_forest_witness:
  "(case settings_handle root_actor (StUpdateUnit ''a'' (move_under ''b'')) tree_db of
      Some (r, db') \<Rightarrow> r = Inl (BadRequestException ''Reparent would create a cycle'') \<and> forest (t_units db') | None \<Rightarrow> False) \<and>
   (case settings_handle root_actor (StUpdateUnit ''b'' (move_under ''c'')) tree_db of
      Some (r, db') \<Rightarrow> map ou_parentId (t_units db') = [None, Some ''c'', Some ''a''] \<and> forest (t_units db') | None \<Rightarrow> False)"
proof -
  have 1: "map_option fst (settings_handle root_actor (StUpdateUnit ''a'' (move_under ''b'')) tree_db) =
      Some (Inl (BadRequestException ''Reparent would create a cycle''))" by code_simp
  have 2: "map_option (\<lambda>x. map ou_parentId (t_units (snd x))) (settings_handle root_actor (StUpdateUnit ''b'' (move_under ''c'')) tree_db) =
      Some [None, Some ''c'', Some ''a'']" by code_simp
  from units_stay_forest [OF demo_forest, of "StUpdateUnit ''a'' (move_under ''b'')" root_actor]
    units_stay_forest [OF demo_forest, of "StUpdateUnit ''b'' (move_under ''c'')" root_actor] 1 2
  show ?thesis by auto
qed

section \<open>What is not prevented\<close>

text \<open>
  The guard and the write of a move run in a transaction of the default isolation level, so the guards of
  two moves may both run before the writes: b goes under c and c under b. From then on the walk from c never ends.
\<close>

lemma concurrent_moves_make_a_cycle:
  "reparent_check (t_units tree_db) ''b'' (move_under ''c'') = Some (Inr ()) \<and>
   reparent_check (t_units tree_db) ''c'' (move_under ''b'') = Some (Inr ()) \<and>
   map ou_parentId (t_units (snd (unit_commit ''c'' (move_under ''b'') (snd (unit_commit ''b'' (move_under ''c'') tree_db))))) =
     [None, Some ''c'', Some ''b'']"
  by code_simp

lemma walk_on_a_cycle_never_ends:
  assumes units: "find_row ou_id ''b'' units = Some b" "ou_parentId b = Some ''c''"
      "find_row ou_id ''c'' units = Some c" "ou_parentId c = Some ''b''"
    and i: "i \<noteq> ''b''" "i \<noteq> ''c''"
  shows "walk_up units i (Some ''c'') = None"
proof -
  have step: "us = units \<longrightarrow> j = i \<longrightarrow> cursor \<notin> {Some ''b'', Some ''c''}"
    if "walk_up us j cursor = Some r" for us j cursor r
  proof (rule walk_up.raw_induct [OF _ that])
    fix walk us j cursor y
    assume ih: "\<And>us j cursor r. walk us j cursor = Some r \<Longrightarrow> us = units \<longrightarrow> j = i \<longrightarrow> cursor \<notin> {Some ''b'', Some ''c''}"
      and body: "(case cursor of None \<Rightarrow> Some (Inr ())
        | Some c \<Rightarrow> if c = [] then Some (Inr ())
            else if c = j then Some (Inl (BadRequestException ''Reparent would create a cycle''))
            else case find_row ou_id c us of
                None \<Rightarrow> Some (Inl (BadRequestException ''Invalid parentId: unit does not exist''))
              | Some node \<Rightarrow> walk us j (ou_parentId node)) = Some y"
    show "us = units \<longrightarrow> j = i \<longrightarrow> cursor \<notin> {Some ''b'', Some ''c''}"
    proof (intro impI notI)
      assume "us = units" "j = i" "cursor \<in> {Some ''b'', Some ''c''}"
      with body units i have "walk units i (Some ''c'') = Some y \<or> walk units i (Some ''b'') = Some y"
        by (auto split: if_splits)
      with ih [of units i "Some ''c''" y] ih [of units i "Some ''b''" y] show False by auto
    qed
  qed
  show ?thesis by (cases "walk_up units i (Some ''c'')") (auto dest: step)
qed

end
