(* ===== verification/Access.thy ===== *)
theory Access
  imports Rbac
begin

text \<open>
  Access grants (cards, keys, standalone permissions): \<open>dostepy/dostepy.service.ts\<close> and
  \<open>dostepy/dostepy.controller.ts\<close>.

  A response carries the grant's own columns and four columns of its employee. The partial unique index
  \<open>access_grant_active_identifier\<close> of the database admits one ACTIVE grant per type and identifier; the
  insert checks it, and then the foreign keys.
\<close>

section \<open>Requests, responses and errors\<close>

record issue_access_dto =
  ia_employeeId :: id
  ia_type :: access_type
  ia_label :: string
  ia_identifier :: "string option"
  ia_lokalizacjaId :: "id option"
  ia_notes :: "string option"

definition issue_dto_valid :: "issue_access_dto \<Rightarrow> bool" where
  "issue_dto_valid dto \<longleftrightarrow> ia_label dto \<noteq> []"

record access_filter =
  al_employeeId :: "id option"
  al_status :: "string option"

record access_employee =
  ae_id :: id
  ae_firstName :: string
  ae_lastName :: string
  ae_unitId :: id

record access_view =
  av_grant :: access_row
  av_employee :: access_employee

fun access_type_name :: "access_type \<Rightarrow> string" where
  "access_type_name CARD = ''CARD''"
| "access_type_name KEY = ''KEY''"
| "access_type_name PERMISSION = ''PERMISSION''"

fun access_status_name :: "access_status \<Rightarrow> string" where
  "access_status_name AG_ACTIVE = ''ACTIVE''"
| "access_status_name AG_REVOKED = ''REVOKED''"
| "access_status_name AG_LOST = ''LOST''"

text \<open>The projection \<open>EMPLOYEE_SELECT\<close>, and \<open>ACCESS_SELECT\<close> around it.\<close>

definition employee_select :: "employee_row \<Rightarrow> access_employee" where
  "employee_select e = \<lparr>ae_id = em_id e, ae_firstName = em_firstName e, ae_lastName = em_lastName e, ae_unitId = em_unitId e\<rparr>"

definition access_select :: "tenant_db \<Rightarrow> access_row \<Rightarrow> access_view option" where
  "access_select db g =
     map_option (\<lambda>e. \<lparr>av_grant = g, av_employee = employee_select e\<rparr>) (findEmployee db (ag_employeeId g))"

definition access_mapWriteError :: "app_error \<Rightarrow> 'a tx" where
  "access_mapWriteError err =
     throw (case err of
       P2002 _ \<Rightarrow> ConflictException ''Aktywna karta/klucz o tym identyfikatorze juz istnieje''
     | P2003 _ \<Rightarrow> BadRequestException ''Invalid employeeId or lokalizacjaId: referenced record does not exist''
     | _ \<Rightarrow> err)"

definition access_audit :: "actor \<Rightarrow> string \<Rightarrow> id \<Rightarrow> (string \<times> json) list \<Rightarrow> unit tx" where
  "access_audit act action i payload =
     audit_log (act_userId act) action ''AccessGrant'' i (JObj payload) (act_ipAddress act)"

definition assertUnitScope :: "actor \<Rightarrow> id option \<Rightarrow> unit tx" where
  "assertUnitScope act unitId =
     bnd (asks (\<lambda>db. managedUnitIds db (act_userId act))) (\<lambda>managed.
     ensure (isGlobal (act_roles act) \<or> (\<exists>u. unitId = Some u \<and> u \<in> set managed))
       (ForbiddenException ''Access grant is outside your scope''))"

definition resolveUserId :: "tenant_db \<Rightarrow> actor \<Rightarrow> id option" where
  "resolveUserId db act = map_option us_id (find (\<lambda>u. us_keycloakSub u = act_userId act) (t_users db))"

text \<open>An empty text of notes is falsy.\<close>

definition appendReason :: "string option \<Rightarrow> string \<Rightarrow> string" where
  "appendReason notes reason =
     (case notes of
        None \<Rightarrow> ''[revoked] '' @ reason
      | Some n \<Rightarrow> if n = [] then ''[revoked] '' @ reason else n @ [CHR 0x0A] @ ''[revoked] '' @ reason)"

section \<open>Issue\<close>

text \<open>The key of the partial unique index; rows outside of the index have none.\<close>

definition active_key :: "access_row \<Rightarrow> (access_type \<times> string) option" where
  "active_key g =
     (if ag_status g = AG_ACTIVE then map_option (Pair (ag_type g)) (ag_identifier g) else None)"

definition grant_clash :: "access_row list \<Rightarrow> access_row \<Rightarrow> bool" where
  "grant_clash gs g \<longleftrightarrow> active_key g \<noteq> None \<and> list_ex (\<lambda>h. active_key h = active_key g) gs"

definition grant_fks :: "tenant_db \<Rightarrow> access_row \<Rightarrow> bool" where
  "grant_fks db g \<longleftrightarrow>
     findEmployee db (ag_employeeId g) \<noteq> None \<and>
     (case ag_lokalizacjaId g of None \<Rightarrow> True | Some l \<Rightarrow> find_row lo_id l (t_lokalizacje db) \<noteq> None) \<and>
     (case ag_issuedByUserId g of None \<Rightarrow> True | Some u \<Rightarrow> find_row us_id u (t_users db) \<noteq> None)"

definition grant_insert :: "access_row \<Rightarrow> access_row tx" where
  "grant_insert g =
     bnd (asks (\<lambda>db. (grant_clash (t_grants db) g, grant_fks db g))) (\<lambda>(clash, fks).
     bnd (ensure (\<not> clash) (P2002 ''access_grant_active_identifier'')) (\<lambda>_.
     bnd (ensure fks (P2003 ''access_grant'')) (\<lambda>_.
     create_row t_grants put_grants g)))"

definition new_grant :: "id \<Rightarrow> int \<Rightarrow> id option \<Rightarrow> issue_access_dto \<Rightarrow> access_row" where
  "new_grant newId now issuedBy dto =
     \<lparr>ag_id = newId, ag_employeeId = ia_employeeId dto, ag_type = ia_type dto, ag_label = ia_label dto,
      ag_identifier = ia_identifier dto, ag_lokalizacjaId = ia_lokalizacjaId dto, ag_status = AG_ACTIVE,
      ag_issuedByUserId = issuedBy, ag_issuedAt = now, ag_revokedAt = None, ag_notes = ia_notes dto\<rparr>"

definition project :: "access_row \<Rightarrow> access_view tx" where
  "project g = bnd (asks (\<lambda>db. access_select db g)) (require (PlainError ''access_grant.employee''))"

definition access_issue :: "id \<Rightarrow> int \<Rightarrow> actor \<Rightarrow> issue_access_dto \<Rightarrow> access_view tx" where
  "access_issue newId now act dto =
     bnd (asks (\<lambda>db. map_option em_unitId (findEmployee db (ia_employeeId dto)))) (\<lambda>unitId.
     bnd (assertUnitScope act unitId) (\<lambda>_.
     bnd (asks (\<lambda>db. resolveUserId db act)) (\<lambda>issuedBy.
     bnd (catch (grant_insert (new_grant newId now issuedBy dto)) access_mapWriteError) (\<lambda>created.
     bnd (project created) (\<lambda>view.
     bnd (access_audit act ''access.issued'' (ag_id created)
            [(''employeeId'', JStr (ag_employeeId created)),
             (''type'', JStr (access_type_name (ag_type created))),
             (''status'', JStr (access_status_name (ag_status created))),
             (''lokalizacjaId'', json_opt (ag_lokalizacjaId created))]) (\<lambda>_.
     ret view))))))"

section \<open>Revoke\<close>

definition load_grant :: "id \<Rightarrow> access_view tx" where
  "load_grant i =
     bnd (asks (\<lambda>db. find_row ag_id i (t_grants db))) (\<lambda>found.
     bnd (require (NotFoundException (''Access grant '' @ i @ '' not found'')) found) project)"

definition revoked :: "int \<Rightarrow> string option \<Rightarrow> access_row \<Rightarrow> access_row" where
  "revoked now notes g = g\<lparr>ag_status := AG_REVOKED, ag_revokedAt := Some now, ag_notes := notes\<rparr>"

text \<open>The write half: what the first read found is an argument, a concurrent writer may have come between.\<close>

definition revoke_commit :: "int \<Rightarrow> actor \<Rightarrow> access_row \<Rightarrow> string option \<Rightarrow> access_view tx" where
  "revoke_commit now act g reason =
     bnd (updateMany t_grants put_grants (\<lambda>h. ag_id h = ag_id g \<and> ag_status h = AG_ACTIVE)
            (revoked now (case reason of None \<Rightarrow> ag_notes g | Some r \<Rightarrow> Some (appendReason (ag_notes g) r)))) (\<lambda>count.
     bnd (ensure (count \<noteq> 0) (ConflictException ''Access grant changed concurrently'')) (\<lambda>_.
     bnd (access_audit act ''access.revoked'' (ag_id g)
            [(''employeeId'', JStr (ag_employeeId g)), (''status'', JStr (access_status_name AG_REVOKED))]) (\<lambda>_.
     bnd (asks (\<lambda>db. find_row ag_id (ag_id g) (t_grants db))) (\<lambda>found.
     bnd (require (P2025 ''access_grant'') found) project))))"

definition access_revoke :: "int \<Rightarrow> actor \<Rightarrow> id \<Rightarrow> string option \<Rightarrow> access_view tx" where
  "access_revoke now act i reason =
     bnd (load_grant i) (\<lambda>view.
     bnd (assertUnitScope act (Some (ae_unitId (av_employee view)))) (\<lambda>_.
     bnd (ensure (ag_status (av_grant view) = AG_ACTIVE) (ConflictException ''Access grant is not active'')) (\<lambda>_.
     revoke_commit now act (av_grant view) reason)))"

section \<open>Reads\<close>

text \<open>A status outside of the enum is refused by the data layer.\<close>

definition parse_status :: "string \<Rightarrow> access_status option" where
  "parse_status s = find (\<lambda>x. access_status_name x = s) [AG_ACTIVE, AG_REVOKED, AG_LOST]"

definition status_filter :: "string option \<Rightarrow> app_error + access_status option" where
  "status_filter s =
     (case s of
        None \<Rightarrow> Inr None
      | Some t \<Rightarrow> (case parse_status t of
          None \<Rightarrow> Inl (PlainError ''Invalid value for argument status'')
        | Some x \<Rightarrow> Inr (Some x)))"

definition access_where :: "tenant_db \<Rightarrow> actor \<Rightarrow> access_filter \<Rightarrow> access_status option \<Rightarrow> access_row \<Rightarrow> bool" where
  "access_where db act flt st g \<longleftrightarrow>
     (al_employeeId flt = None \<or> al_employeeId flt = Some (ag_employeeId g)) \<and>
     (st = None \<or> st = Some (ag_status g)) \<and>
     (isGlobal (act_roles act) \<or> employee_unit_in db (managedUnitIds db (act_userId act)) (ag_employeeId g))"

definition access_list :: "actor \<Rightarrow> access_filter \<Rightarrow> access_view list tx" where
  "access_list act flt =
     bnd (lift_sum (status_filter (al_status flt))) (\<lambda>st.
     bnd (asks (\<lambda>db. sort_key (\<lambda>g. - ag_issuedAt g) (filter (access_where db act flt st) (t_grants db)))) (\<lambda>gs.
     mapM project gs))"

definition access_getById :: "actor \<Rightarrow> id \<Rightarrow> access_view tx" where
  "access_getById act i =
     bnd (load_grant i) (\<lambda>view.
     bnd (assertUnitScope act (Some (ae_unitId (av_employee view)))) (\<lambda>_.
     ret view))"

section \<open>The HTTP controller\<close>

definition ACCESS_ROLES :: "role list" where
  "ACCESS_ROLES = [MANAGER, HR, ADMIN_KLIENTA]"

datatype access_request =
  AcList access_filter
| AcIssue id int issue_access_dto
| AcRevoke int id "string option"
| AcGet id

datatype access_reply =
  AcViews "access_view list"
| AcView access_view

fun access_body :: "actor \<Rightarrow> access_request \<Rightarrow> access_reply tx" where
  "access_body act (AcList flt) = bnd (access_list act flt) (\<lambda>vs. ret (AcViews vs))"
| "access_body act (AcIssue newId now dto) =
     bnd (ensure (issue_dto_valid dto) (BadRequestException ''label should not be empty'')) (\<lambda>_.
     bnd (access_issue newId now act dto) (\<lambda>v. ret (AcView v)))"
| "access_body act (AcRevoke now i reason) = bnd (access_revoke now act i reason) (\<lambda>v. ret (AcView v))"
| "access_body act (AcGet i) = bnd (access_getById act i) (\<lambda>v. ret (AcView v))"

definition access_handle :: "actor \<Rightarrow> access_request \<Rightarrow> access_reply tx" where
  "access_handle act req = guarded ACCESS_ROLES act (access_body act req)"

lemmas access_defs = access_issue_def access_revoke_def revoke_commit_def access_list_def access_getById_def
  load_grant_def project_def assertUnitScope_def grant_insert_def access_audit_def audit_log_def

end
