(* ===== verification/AccessProps.thy ===== *)
theory AccessProps
  imports Access Samples
begin

text \<open>
  Access grants: what a request does to the table, the one active grant per card, the scope of a manager,
  and the secrecy of the identifiers outside of the responses.
\<close>

lemma findEmployee_frame [simp]:
  "findEmployee (db\<lparr>t_grants := gs\<rparr>) = findEmployee db" "findEmployee (db\<lparr>t_audit := au\<rparr>) = findEmployee db"
  by (rule ext, simp add: findEmployee_def)+

section \<open>What a request does\<close>

definition issued_row :: "actor \<Rightarrow> access_row \<Rightarrow> audit_row" where
  "issued_row act g =
     \<lparr>au_actorUserId = act_userId act, au_action = ''access.issued'', au_entityType = ''AccessGrant'', au_entityId = ag_id g,
      au_payload = JObj [(''employeeId'', JStr (ag_employeeId g)), (''type'', JStr (access_type_name (ag_type g))),
        (''status'', JStr (access_status_name (ag_status g))), (''lokalizacjaId'', json_opt (ag_lokalizacjaId g))],
      au_ipAddress = act_ipAddress act\<rparr>"

definition revoked_row :: "actor \<Rightarrow> access_row \<Rightarrow> audit_row" where
  "revoked_row act g =
     \<lparr>au_actorUserId = act_userId act, au_action = ''access.revoked'', au_entityType = ''AccessGrant'', au_entityId = ag_id g,
      au_payload = JObj [(''employeeId'', JStr (ag_employeeId g)), (''status'', JStr ''REVOKED'')],
      au_ipAddress = act_ipAddress act\<rparr>"

definition access_scope :: "tenant_db \<Rightarrow> actor \<Rightarrow> id \<Rightarrow> bool" where
  "access_scope db act eid \<longleftrightarrow>
     isGlobal (act_roles act) \<or>
     (\<exists>e. findEmployee db eid = Some e \<and> em_unitId e \<in> set (managedUnitIds db (act_userId act)))"

lemma read_only_project [simp]: "read_only (project g)"
  by (auto simp: project_def intro!: read_only_bnd)

lemma read_only_load_grant [simp]: "read_only (load_grant i)"
  by (auto simp: load_grant_def intro!: read_only_bnd)

lemma read_only_assertUnitScope [simp]: "read_only (assertUnitScope act u)"
  by (auto simp: assertUnitScope_def intro!: read_only_bnd)

lemma project_Inr_iff:
  "project g db = (Inr v, db') \<longleftrightarrow>
     db' = db \<and> (\<exists>e. findEmployee db (ag_employeeId g) = Some e \<and> v = \<lparr>av_grant = g, av_employee = employee_select e\<rparr>)"
  by (auto simp: project_def access_select_def split: option.splits)

lemma load_grant_Inr_iff:
  "load_grant i db = (Inr v, db') \<longleftrightarrow>
     (\<exists>g. find_row ag_id i (t_grants db) = Some g \<and> project g db = (Inr v, db'))"
  by (auto simp: load_grant_def split: option.splits)

lemma assertUnitScope_Inr_iff:
  "assertUnitScope act u db = (Inr x, db') \<longleftrightarrow>
     db' = db \<and> (isGlobal (act_roles act) \<or> (\<exists>w. u = Some w \<and> w \<in> set (managedUnitIds db (act_userId act))))"
  by (auto simp: assertUnitScope_def)

lemma grant_insert_iff:
  "grant_insert g db = (Inr x, db') \<longleftrightarrow>
     x = g \<and> db' = put_grants (t_grants db @ [g]) db \<and> \<not> grant_clash (t_grants db) g \<and> grant_fks db g"
  by (auto simp: grant_insert_def)

lemma grant_insert_Inl: "grant_insert g db = (Inl e, db') \<Longrightarrow> db' = db"
  by (auto simp: grant_insert_def split: if_splits)

lemma new_grant_simps [simp]:
  "ag_id (new_grant i now by dto) = i" "ag_employeeId (new_grant i now by dto) = ia_employeeId dto"
  "ag_status (new_grant i now by dto) = AG_ACTIVE" "ag_identifier (new_grant i now by dto) = ia_identifier dto"
  "ag_type (new_grant i now by dto) = ia_type dto" "ag_lokalizacjaId (new_grant i now by dto) = ia_lokalizacjaId dto"
  "ag_issuedByUserId (new_grant i now by dto) = by"
  by (simp_all add: new_grant_def)

text \<open>Issuing succeeds exactly under these conditions, and a failure changes nothing.\<close>

definition issue_ok :: "tenant_db \<Rightarrow> actor \<Rightarrow> access_row \<Rightarrow> bool" where
  "issue_ok db act g \<longleftrightarrow>
     access_scope db act (ag_employeeId g) \<and> \<not> grant_clash (t_grants db) g \<and> grant_fks db g"

lemma issue_outcome:
  fixes db act newId now dto
  defines "g \<equiv> new_grant newId now (resolveUserId db act) dto"
  shows "access_issue newId now act dto db =
    (if issue_ok db act g
     then (Inr \<lparr>av_grant = g, av_employee = employee_select (the (findEmployee db (ia_employeeId dto)))\<rparr>,
           db\<lparr>t_grants := t_grants db @ [g], t_audit := t_audit db @ [issued_row act g]\<rparr>)
     else (Inl (if \<not> access_scope db act (ia_employeeId dto) then ForbiddenException ''Access grant is outside your scope''
                else if grant_clash (t_grants db) g
                  then ConflictException ''Aktywna karta/klucz o tym identyfikatorze juz istnieje''
                else BadRequestException ''Invalid employeeId or lokalizacjaId: referenced record does not exist''), db))"
proof (cases "access_scope db act (ia_employeeId dto)")
  case False
  then show ?thesis
    by (auto simp: access_issue_def assertUnitScope_def access_scope_def issue_ok_def g_def bnd_def svc_defs split: option.splits)
next
  case True
  then have scope: "assertUnitScope act (map_option em_unitId (findEmployee db (ia_employeeId dto))) db = (Inr (), db)"
    by (auto simp: assertUnitScope_def access_scope_def)
  have "findEmployee db (ia_employeeId dto) \<noteq> None" if "grant_fks db g"
    using that by (simp add: grant_fks_def g_def)
  moreover have "ag_employeeId g = ia_employeeId dto" by (simp add: g_def)
  ultimately show ?thesis
    using True
    by (auto simp: access_issue_def scope issue_ok_def grant_insert_def access_mapWriteError_def
        catch_def bnd_def project_def access_select_def access_audit_def audit_log_def issued_row_def svc_defs
        simp flip: g_def split: option.splits)
qed


text \<open>The same for revoking; the write half finds the grant as the first read left it.\<close>

definition revoke_ok :: "tenant_db \<Rightarrow> actor \<Rightarrow> access_row \<Rightarrow> bool" where
  "revoke_ok db act g \<longleftrightarrow> access_scope db act (ag_employeeId g) \<and> ag_status g = AG_ACTIVE"

definition revoked_notes :: "string option \<Rightarrow> access_row \<Rightarrow> string option" where
  "revoked_notes reason g = (case reason of None \<Rightarrow> ag_notes g | Some r \<Rightarrow> Some (appendReason (ag_notes g) r))"

lemma revoked_simps [simp]:
  "ag_id (revoked now notes g) = ag_id g" "ag_employeeId (revoked now notes g) = ag_employeeId g"
  "ag_status (revoked now notes g) = AG_REVOKED" "ag_type (revoked now notes g) = ag_type g"
  "ag_identifier (revoked now notes g) = ag_identifier g"
  by (simp_all add: revoked_def)

lemma revoke_commit_outcome:
  assumes keys: "distinct (map ag_id (t_grants db))" and g: "find_row ag_id i (t_grants db) = Some g"
    and emp: "findEmployee db (ag_employeeId g) = Some e" and active: "ag_status g = AG_ACTIVE"
  shows "revoke_commit now act g reason db =
    (Inr \<lparr>av_grant = revoked now (revoked_notes reason g) g, av_employee = employee_select e\<rparr>,
     db\<lparr>t_grants := update_rows (\<lambda>h. ag_id h = i \<and> ag_status h = AG_ACTIVE) (revoked now (revoked_notes reason g)) (t_grants db),
         t_audit := t_audit db @ [revoked_row act g]\<rparr>)"
proof -
  have i: "ag_id g = i" using g by (auto dest: find_row_SomeD)
  have "0 < count_rows (\<lambda>h. ag_id h = i \<and> ag_status h = AG_ACTIVE) (t_grants db)"
    using count_rows_guarded [OF keys, of i "\<lambda>h. ag_status h = AG_ACTIVE"] g active by blast
  then show ?thesis
    using g i emp active
    by (auto simp: revoke_commit_def access_audit_def audit_log_def project_def access_select_def revoked_row_def
        find_row_update_rows findEmployee_def revoked_notes_def)
qed

lemma revoke_outcome:
  assumes keys: "distinct (map ag_id (t_grants db))" and g: "find_row ag_id i (t_grants db) = Some g"
    and emp: "findEmployee db (ag_employeeId g) = Some e"
  shows "access_revoke now act i reason db =
    (if revoke_ok db act g
     then (Inr \<lparr>av_grant = revoked now (revoked_notes reason g) g, av_employee = employee_select e\<rparr>,
           db\<lparr>t_grants := update_rows (\<lambda>h. ag_id h = i \<and> ag_status h = AG_ACTIVE) (revoked now (revoked_notes reason g)) (t_grants db),
               t_audit := t_audit db @ [revoked_row act g]\<rparr>)
     else (Inl (if \<not> access_scope db act (ag_employeeId g) then ForbiddenException ''Access grant is outside your scope''
                else ConflictException ''Access grant is not active''), db))"
proof -
  have load: "load_grant i db = (Inr \<lparr>av_grant = g, av_employee = employee_select e\<rparr>, db)"
    using g emp by (simp add: load_grant_Inr_iff project_Inr_iff)
  have unit: "ae_unitId (employee_select e) = em_unitId e" by (simp add: employee_select_def)
  show ?thesis
    using emp revoke_commit_outcome [OF keys g emp]
    by (auto simp: access_revoke_def load assertUnitScope_def unit access_scope_def revoke_ok_def svc_simps bnd_def)
qed

lemma access_revoke_missing:
  "find_row ag_id i (t_grants db) = None \<Longrightarrow>
    access_revoke now act i reason db = (Inl (NotFoundException (''Access grant '' @ i @ '' not found'')), db)"
  by (simp add: access_revoke_def load_grant_def bnd_def svc_defs)

lemma access_reads [simp]: "read_only (access_list act flt)" "read_only (access_getById act i)"
  by (auto simp: access_list_def access_getById_def intro!: read_only_bnd read_only_mapM)

section \<open>The invariant\<close>

text \<open>
  Ids are unique, at most one active grant carries a given identifier of a given type, and every grant
  belongs to an employee.
\<close>

definition grants_ok :: "tenant_db \<Rightarrow> bool" where
  "grants_ok db \<longleftrightarrow>
     distinct (map ag_id (t_grants db)) \<and> distinct (List.map_filter active_key (t_grants db)) \<and>
     (\<forall>g \<in> set (t_grants db). findEmployee db (ag_employeeId g) \<noteq> None)"

lemma grants_okD:
  assumes "grants_ok db"
  shows "distinct (map ag_id (t_grants db))" "distinct (List.map_filter active_key (t_grants db))"
    "g \<in> set (t_grants db) \<Longrightarrow> \<exists>e. findEmployee db (ag_employeeId g) = Some e"
  using assms by (auto simp: grants_ok_def)

fun access_fresh :: "access_request \<Rightarrow> tenant_db \<Rightarrow> bool" where
  "access_fresh (AcIssue newId now dto) db \<longleftrightarrow> newId \<notin> ag_id ` set (t_grants db)"
| "access_fresh _ db \<longleftrightarrow> True"

text \<open>Every request either changes nothing, or issues one grant, or revokes one.\<close>

lemma access_handle_cases:
  assumes ok: "grants_ok db" and run: "access_handle act req db = (r, db')"
  obtains (same) "db' = db"
  | (issued) newId now dto g where "req = AcIssue newId now dto" "g = new_grant newId now (resolveUserId db act) dto"
      "issue_ok db act g" "\<exists>e. r = Inr (AcView \<lparr>av_grant = g, av_employee = e\<rparr>)"
      "db' = db\<lparr>t_grants := t_grants db @ [g], t_audit := t_audit db @ [issued_row act g]\<rparr>"
  | (revoked) now i reason g where "req = AcRevoke now i reason" "find_row ag_id i (t_grants db) = Some g"
      "revoke_ok db act g" "\<exists>e. r = Inr (AcView \<lparr>av_grant = revoked now (revoked_notes reason g) g, av_employee = e\<rparr>)"
      "db' = db\<lparr>t_grants := update_rows (\<lambda>h. ag_id h = i \<and> ag_status h = AG_ACTIVE) (revoked now (revoked_notes reason g)) (t_grants db),
                 t_audit := t_audit db @ [revoked_row act g]\<rparr>"
proof -
  from guarded_cases [of ACCESS_ROLES act "access_body act req" db] run
  consider "db' = db" | "access_body act req db = (r, db')"
    by (auto simp: access_handle_def)
  then show thesis
  proof cases
    case 2
    show thesis
    proof (cases req)
      case (AcList flt)
      with 2 have "read_only (access_body act req)" by (auto intro!: read_only_bnd)
      from read_onlyD [OF this 2] show thesis by (rule same)
    next
      case (AcGet i)
      with 2 have "read_only (access_body act req)" by (auto intro!: read_only_bnd)
      from read_onlyD [OF this 2] show thesis by (rule same)
    next
      case (AcIssue newId now dto)
      let ?g = "new_grant newId now (resolveUserId db act) dto"
      show thesis
      proof (cases "issue_dto_valid dto \<and> issue_ok db act ?g")
        case True
        then show thesis
          using 2 AcIssue by (intro issued [of newId now dto ?g]) (auto simp: issue_outcome bnd_def)
      next
        case False
        then have "db' = db" using 2 AcIssue by (auto simp: issue_outcome bnd_def split: if_splits)
        then show thesis by (rule same)
      qed
    next
      case (AcRevoke now i reason)
      show thesis
      proof (cases "find_row ag_id i (t_grants db)")
        case None
        then show thesis using 2 AcRevoke by (intro same) (auto simp: access_revoke_missing bnd_def)
      next
        case (Some g)
        then have "g \<in> set (t_grants db)" by (auto dest: find_row_SomeD)
        then obtain e where "findEmployee db (ag_employeeId g) = Some e" using grants_okD(3) [OF ok] by blast
        note eq = revoke_outcome [OF grants_okD(1) [OF ok] Some this, of now act reason]
        show thesis
        proof (cases "revoke_ok db act g")
          case True
          with eq 2 AcRevoke Some show thesis by (intro revoked [of now i reason g]) (auto simp: bnd_def)
        next
          case False
          with eq 2 AcRevoke show thesis by (intro same) (auto simp: bnd_def)
        qed
      qed
    qed
  qed (rule same)
qed

lemma map_filter_snoc:
  assumes "distinct (List.map_filter f xs)" and "f y = None \<or> f y \<notin> f ` set xs"
  shows "distinct (List.map_filter f (xs @ [y]))"
  using assms by (auto simp: List.map_filter_def) (metis image_eqI)

lemma map_filter_revoked:
  "distinct (List.map_filter active_key gs) \<Longrightarrow>
    distinct (List.map_filter active_key (update_rows P (revoked now notes) gs)) \<and>
    set (List.map_filter active_key (update_rows P (revoked now notes) gs)) \<subseteq> set (List.map_filter active_key gs)"
proof (induction gs)
  case (Cons g gs)
  have "active_key (revoked now notes g) = None" by (simp add: active_key_def)
  with Cons show ?case by (auto simp: List.map_filter_simps split: option.splits)
qed (simp add: List.map_filter_simps)

text \<open>
  C35. Whatever the requests and their outcomes, no two active grants carry the same identifier of the same
  type, grant ids stay unique and every grant belongs to an employee; a request that fails changes nothing.
\<close>

theorem one_active_grant_per_card:
  assumes ok: "grants_ok db" and fresh: "access_fresh req db" and run: "access_handle act req db = (r, db')"
  shows "grants_ok db' \<and> (\<forall>e. r = Inl e \<longrightarrow> db' = db)"
  using ok run
proof (cases rule: access_handle_cases)
  case (issued newId now dto g)
  then have "active_key g = None \<or> active_key g \<notin> active_key ` set (t_grants db)"
    by (auto simp: issue_ok_def grant_clash_def list_ex_iff)
  from map_filter_snoc [OF grants_okD(2) [OF ok] this] issued fresh ok show ?thesis
    by (auto simp: grants_ok_def issue_ok_def grant_fks_def findEmployee_def)
next
  case (revoked now i reason g)
  then have "map ag_id (t_grants db') = map ag_id (t_grants db)"
    by (simp add: map_update_rows)
  with revoked ok show ?thesis
    using map_filter_revoked by (auto simp: grants_ok_def findEmployee_def set_update_rows)
qed (use ok in auto)

section \<open>Scope\<close>

fun reply_views :: "access_reply \<Rightarrow> access_view list" where
  "reply_views (AcViews vs) = vs"
| "reply_views (AcView v) = [v]"

lemma access_list_views:
  assumes "access_list act flt db = (Inr vs, db')" and v: "v \<in> set vs"
  shows "\<exists>g \<in> set (t_grants db). \<exists>st. access_where db act flt st g \<and> av_grant v = g"
proof -
  from assms(1) obtain st where
    "mapM project (sort_key (\<lambda>g. - ag_issuedAt g) (filter (access_where db act flt st) (t_grants db))) db = (Inr vs, db')"
    by (auto simp: access_list_def split: sum.splits)
  from mapM_read_only_InrD [OF _ this]
  have all: "list_all2 (\<lambda>g v. project g db = (Inr v, db))
      (sort_key (\<lambda>g. - ag_issuedAt g) (filter (access_where db act flt st) (t_grants db))) vs"
    by simp
  from v obtain k where "k < length vs" "v = vs ! k" by (auto simp: in_set_conv_nth)
  with list_all2_nthD2 [OF all this(1)] list_all2_lengthD [OF all]
  obtain g where "g \<in> set (sort_key (\<lambda>g. - ag_issuedAt g) (filter (access_where db act flt st) (t_grants db)))"
    "project g db = (Inr v, db)" by (metis nth_mem)
  then show ?thesis by (auto simp: project_Inr_iff)
qed

lemma access_where_scope:
  assumes "distinct (map em_id (t_employees db))" and "access_where db act flt st g"
  shows "access_scope db act (ag_employeeId g)"
proof (cases "isGlobal (act_roles act)")
  case False
  with assms(2) obtain e where e: "e \<in> set (t_employees db)" "em_id e = ag_employeeId g"
    "em_unitId e \<in> set (managedUnitIds db (act_userId act))"
    by (auto simp: access_where_def employee_unit_in_def list_ex_iff)
  from find_row_in [OF assms(1) e(1)] e show ?thesis by (auto simp: access_scope_def findEmployee_def)
qed (simp add: access_scope_def)

lemma access_getById_view:
  assumes "access_getById act i db = (Inr v, db')"
  shows "access_scope db act (ag_employeeId (av_grant v))"
proof -
  from assms obtain db1 where "load_grant i db = (Inr v, db1)"
    "bnd (assertUnitScope act (Some (ae_unitId (av_employee v)))) (\<lambda>_. ret v) db1 = (Inr v, db')"
    by (auto simp: access_getById_def bnd_Inr_iff)
  then show ?thesis
    by (auto simp: load_grant_Inr_iff project_Inr_iff bnd_Inr_iff assertUnitScope_Inr_iff access_scope_def employee_select_def)
qed

text \<open>
  C36. A caller sees, issues and revokes grants only within their scope: for anyone but HR and administrators
  these are the grants of employees of the units they manage. Grants of other employees are neither shown
  nor touched, and only the three management roles get any answer.
\<close>

theorem access_within_scope:
  assumes ok: "grants_ok db" "distinct (map em_id (t_employees db))" and run: "access_handle act req db = (r, db')"
  shows "(\<forall>a. r = Inr a \<longrightarrow>
        (\<forall>v \<in> set (reply_views a). access_scope db act (ag_employeeId (av_grant v))) \<and>
        (\<exists>x \<in> set ACCESS_ROLES. role_name x \<in> set (act_roles act))) \<and>
    (\<forall>g. \<not> access_scope db act (ag_employeeId g) \<longrightarrow> (g \<in> set (t_grants db') \<longleftrightarrow> g \<in> set (t_grants db)))"
proof (intro conjI allI impI)
  fix a
  assume a: "r = Inr a"
  with run have "access_body act req db = (Inr a, db')" and role: "\<exists>x \<in> set ACCESS_ROLES. role_name x \<in> set (act_roles act)"
    by (auto simp: access_handle_def guarded_Inr_iff ACCESS_ROLES_def)
  from ok(1) run show "\<forall>v \<in> set (reply_views a). access_scope db act (ag_employeeId (av_grant v))"
  proof (cases rule: access_handle_cases)
    case same
    show ?thesis
    proof (cases req)
      case (AcList flt)
      with \<open>access_body act req db = (Inr a, db')\<close> obtain vs where "access_list act flt db = (Inr vs, db')" "a = AcViews vs"
        by (auto simp: bnd_ret_Inr)
      then show ?thesis using access_list_views access_where_scope [OF ok(2)] by fastforce
    next
      case (AcGet i)
      with \<open>access_body act req db = (Inr a, db')\<close> show ?thesis by (auto simp: bnd_ret_Inr dest: access_getById_view)
    next
      case (AcIssue newId now dto)
      with \<open>access_body act req db = (Inr a, db')\<close> same have False
        by (auto simp: bnd_ret_Inr issue_outcome split: if_splits dest!: arg_cong [of _ _ t_audit])
      then show ?thesis ..
    next
      case (AcRevoke now i reason)
      with \<open>access_body act req db = (Inr a, db')\<close> obtain v where v: "access_revoke now act i reason db = (Inr v, db)" "a = AcView v"
        using same by (auto simp: bnd_ret_Inr)
      then obtain db1 w where "load_grant i db = (Inr w, db1)" by (auto simp: access_revoke_def bnd_Inr_iff)
      then obtain g e where "find_row ag_id i (t_grants db) = Some g" "findEmployee db (ag_employeeId g) = Some e"
        by (auto simp: load_grant_Inr_iff project_Inr_iff)
      from revoke_outcome [OF grants_okD(1) [OF ok(1)] this, of now act reason] v show ?thesis
        by (auto split: if_splits simp: revoke_ok_def)
    qed
  qed (use a in \<open>auto simp: issue_ok_def revoke_ok_def\<close>)
  show "\<exists>x \<in> set ACCESS_ROLES. role_name x \<in> set (act_roles act)" by (rule role)
next
  fix g :: access_row
  assume out: "\<not> access_scope db act (ag_employeeId g)"
  from ok(1) run show "g \<in> set (t_grants db') \<longleftrightarrow> g \<in> set (t_grants db)"
  proof (cases rule: access_handle_cases)
    case (revoked now i reason h)
    have "access_scope db act (ag_employeeId x)" if "x \<in> set (t_grants db)" "ag_id x = i" for x
      using find_row_in [OF grants_okD(1) [OF ok(1)] that(1)] that(2) revoked by (simp add: revoke_ok_def)
    with revoked out show ?thesis by (auto simp: set_update_rows image_iff)
  qed (use out in \<open>auto simp: issue_ok_def\<close>)
qed

section \<open>Identifiers\<close>

text \<open>Changing every identifier: in the table, in a request and in a response.\<close>

definition relabel :: "(string \<Rightarrow> string) \<Rightarrow> access_row \<Rightarrow> access_row" where
  "relabel f g = g\<lparr>ag_identifier := map_option f (ag_identifier g)\<rparr>"

definition relabel_db :: "(string \<Rightarrow> string) \<Rightarrow> tenant_db \<Rightarrow> tenant_db" where
  "relabel_db f db = put_grants (map (relabel f) (t_grants db)) db"

definition relabel_view :: "(string \<Rightarrow> string) \<Rightarrow> access_view \<Rightarrow> access_view" where
  "relabel_view f v = v\<lparr>av_grant := relabel f (av_grant v)\<rparr>"

fun relabel_reply :: "(string \<Rightarrow> string) \<Rightarrow> access_reply \<Rightarrow> access_reply" where
  "relabel_reply f (AcViews vs) = AcViews (map (relabel_view f) vs)"
| "relabel_reply f (AcView v) = AcView (relabel_view f v)"

fun relabel_req :: "(string \<Rightarrow> string) \<Rightarrow> access_request \<Rightarrow> access_request" where
  "relabel_req f (AcIssue newId now dto) = AcIssue newId now (dto\<lparr>ia_identifier := map_option f (ia_identifier dto)\<rparr>)"
| "relabel_req f req = req"

lemma relabel_simps [simp]:
  "ag_id (relabel f g) = ag_id g" "ag_employeeId (relabel f g) = ag_employeeId g" "ag_type (relabel f g) = ag_type g"
  "ag_status (relabel f g) = ag_status g" "ag_notes (relabel f g) = ag_notes g" "ag_issuedAt (relabel f g) = ag_issuedAt g"
  "ag_lokalizacjaId (relabel f g) = ag_lokalizacjaId g" "ag_issuedByUserId (relabel f g) = ag_issuedByUserId g"
  "ag_identifier (relabel f g) = map_option f (ag_identifier g)"
  by (simp_all add: relabel_def)

lemma relabel_db_simps [simp]:
  "t_grants (relabel_db f db) = map (relabel f) (t_grants db)" "t_employees (relabel_db f db) = t_employees db"
  "t_users (relabel_db f db) = t_users db" "t_userRoles (relabel_db f db) = t_userRoles db"
  "t_lokalizacje (relabel_db f db) = t_lokalizacje db" "t_audit (relabel_db f db) = t_audit db"
  by (simp_all add: relabel_db_def)

lemma relabel_db_reads [simp]:
  "findEmployee (relabel_db f db) i = findEmployee db i" "managedUnitIds (relabel_db f db) sub = managedUnitIds db sub"
  "resolveUserId (relabel_db f db) act = resolveUserId db act"
  "access_where (relabel_db f db) act flt st (relabel f g) = access_where db act flt st g"
  "access_select (relabel_db f db) (relabel f g) = map_option (relabel_view f) (access_select db g)"
  "grant_fks (relabel_db f db) (relabel f g) = grant_fks db g"
  by (simp_all add: findEmployee_def managedUnitIds_def user_has_sub_def resolveUserId_def access_where_def
      employee_unit_in_def access_select_def relabel_view_def grant_fks_def option.map_comp comp_def cong: option.case_cong)

lemma find_row_relabel [simp]: "find_row ag_id i (map (relabel f) gs) = map_option (relabel f) (find_row ag_id i gs)"
  by (induction gs) auto

lemma active_key_relabel [simp]: "active_key (relabel f g) = map_option (map_prod id f) (active_key g)"
  by (simp add: active_key_def option.map_comp comp_def)

lemma clash_relabel:
  assumes "inj f"
  shows "grant_clash (map (relabel f) gs) (relabel f g) = grant_clash gs g"
proof -
  have "inj (map_option (map_prod (id :: access_type \<Rightarrow> access_type) f))"
    using assms by (intro option.inj_map prod.inj_map) simp_all
  then show ?thesis
    by (auto simp: grant_clash_def list_ex_iff inj_eq)
qed

lemma tracks_project: "tracks (relabel_db f) (relabel_view f) (project g) (project (relabel f g))"
  unfolding project_def by (rule tracks_bnd [where g = "map_option (relabel_view f)"]) (simp_all add: svc_tracks)

lemma tracks_load_grant: "tracks (relabel_db f) (relabel_view f) (load_grant i) (load_grant i)"
  unfolding load_grant_def
  by (intro tracks_bnd [where g = "map_option (relabel f)"] tracks_bnd [where g = "relabel f"] tracks_project)
     (simp_all add: svc_tracks)

lemma tracks_assertUnitScope: "tracks (relabel_db f) id (assertUnitScope act u) (assertUnitScope act u)"
  unfolding assertUnitScope_def by (rule tracks_bnd [where g = id]) (simp_all add: svc_tracks)

lemma tracks_access_audit: "tracks (relabel_db f) id (access_audit act a i p) (access_audit act a i p)"
  by (simp add: tracks_def access_audit_def audit_log_def relabel_db_def)


lemma tracks_access_issue:
  assumes "inj f"
  shows "tracks (relabel_db f) (relabel_view f) (access_issue newId now act dto)
    (access_issue newId now act (dto\<lparr>ia_identifier := map_option f (ia_identifier dto)\<rparr>))"
proof -
  have insert: "tracks (relabel_db f) (relabel f)
      (catch (grant_insert (new_grant newId now by dto)) access_mapWriteError)
      (catch (grant_insert (relabel f (new_grant newId now by dto))) access_mapWriteError)" for "by"
  proof (rule tracks_catch)
    show "tracks (relabel_db f) (relabel f) (grant_insert (new_grant newId now by dto))
        (grant_insert (relabel f (new_grant newId now by dto)))"
      by (simp add: tracks_def grant_insert_def clash_relabel [OF assms] relabel_db_def)
        (simp add: clash_relabel [OF assms] flip: relabel_db_def)
    show "tracks (relabel_db f) (relabel f) (access_mapWriteError e) (access_mapWriteError e)" for e
      by (simp add: access_mapWriteError_def svc_tracks)
  qed
  have new: "new_grant newId now by (dto\<lparr>ia_identifier := map_option f (ia_identifier dto)\<rparr>) = relabel f (new_grant newId now by dto)" for "by"
    by (simp add: new_grant_def relabel_def)
  show ?thesis
    unfolding access_issue_def new
    by (intro tracks_bnd_same [OF tracks_assertUnitScope] tracks_bnd [OF insert] tracks_bnd [OF tracks_project]
        tracks_bnd_same [where m = "asks _"])
       (auto intro!: tracks_bnd_same [OF tracks_access_audit] svc_tracks)
qed

lemma tracks_access_revoke: "tracks (relabel_db f) (relabel_view f) (access_revoke now act i reason) (access_revoke now act i reason)"
proof -
  have rv: "update_rows P (revoked now nt) (map (relabel f) gs) = map (relabel f) (update_rows P (revoked now nt) gs) \<and>
      count_rows P (map (relabel f) gs) = count_rows P gs"
    if "\<forall>g. P (relabel f g) = P g" for P nt gs
    using that by (induction gs) (auto simp: revoked_def relabel_def)
  have flip: "tracks (relabel_db f) id
      (updateMany t_grants put_grants (\<lambda>h. ag_id h = j \<and> ag_status h = AG_ACTIVE) (revoked now nt))
      (updateMany t_grants put_grants (\<lambda>h. ag_id h = j \<and> ag_status h = AG_ACTIVE) (revoked now nt))" for j nt
    by (simp add: tracks_def rv) (simp add: relabel_db_def)
  have commit: "tracks (relabel_db f) (relabel_view f) (revoke_commit now act g reason) (revoke_commit now act (relabel f g) reason)" for g
    unfolding revoke_commit_def relabel_simps
    by (intro tracks_bnd_same [OF flip] tracks_bnd_same [OF tracks_access_audit]
          tracks_bnd [where g = "map_option (relabel f)" and m = "asks _"] tracks_bnd [where g = "relabel f" and m = "require _ _"] tracks_project
          tracks_bnd_same [where m = "ensure _ _"])
       (simp_all add: svc_tracks)
  have view: "ae_unitId (av_employee (relabel_view f v)) = ae_unitId (av_employee v)"
    "av_grant (relabel_view f v) = relabel f (av_grant v)" for v
    by (simp_all add: relabel_view_def)
  show ?thesis
    unfolding access_revoke_def
    by (intro tracks_bnd [OF tracks_load_grant], unfold view relabel_simps)
       (intro tracks_bnd_same [OF tracks_assertUnitScope] commit tracks_bnd_same [where m = "ensure _ _"]; simp add: svc_tracks)
qed

lemma tracks_access_getById: "tracks (relabel_db f) (relabel_view f) (access_getById act i) (access_getById act i)"
proof -
  have view: "ae_unitId (av_employee (relabel_view f v)) = ae_unitId (av_employee v)" for v
    by (simp add: relabel_view_def)
  show ?thesis
    unfolding access_getById_def
    by (intro tracks_bnd [OF tracks_load_grant], unfold view)
       (intro tracks_bnd_same [OF tracks_assertUnitScope] tracks_ret refl)
qed

lemma tracks_access_list: "tracks (relabel_db f) (map (relabel_view f)) (access_list act flt) (access_list act flt)"
proof -
  have sorted: "sort_key (\<lambda>g. - ag_issuedAt g) (map (relabel f) gs) = map (relabel f) (sort_key (\<lambda>g. - ag_issuedAt g) gs)" for gs
    by (rule sort_key_map_same) simp
  have reads: "sort_key (\<lambda>g. - ag_issuedAt g) (filter (access_where (relabel_db f db) act flt st) (map (relabel f) (t_grants db))) =
      map (relabel f) (sort_key (\<lambda>g. - ag_issuedAt g) (filter (access_where db act flt st) (t_grants db)))" for db st
    by (simp add: filter_map comp_def sorted)
  show ?thesis
    unfolding access_list_def
    by (intro tracks_bnd_same [where m = "lift_sum _"] tracks_bnd [where g = "map (relabel f)" and m = "asks _"]
          tracks_mapM tracks_project)
       (simp_all add: svc_tracks reads sum.map_id0)
qed

text \<open>
  C37. The identifiers of cards and keys reach nobody but the reader of a grant. If every identifier of the
  table and of the request is replaced, injectively, by another one, the same request gives the same answer
  with the identifiers replaced, the same error, and the same audit log to the letter.
\<close>

theorem identifiers_stay_out_of_audit:
  assumes "inj f" and run: "access_handle act req db = (r, db')"
  shows "access_handle act (relabel_req f req) (relabel_db f db) = (map_sum id (relabel_reply f) r, relabel_db f db') \<and>
    t_audit (snd (access_handle act (relabel_req f req) (relabel_db f db))) = t_audit db'"
proof -
  have "tracks (relabel_db f) (relabel_reply f) (access_body act req) (access_body act (relabel_req f req))"
  proof (cases req)
    case (AcList flt)
    then show ?thesis by (auto intro!: tracks_bnd [OF tracks_access_list] tracks_ret)
  next
    case (AcIssue newId now dto)
    have "issue_dto_valid (dto\<lparr>ia_identifier := x\<rparr>) = issue_dto_valid dto" for x by (simp add: issue_dto_valid_def)
    with AcIssue show ?thesis
      by (auto intro!: tracks_bnd [OF tracks_access_issue [OF assms(1)]] tracks_bnd_same [where m = "ensure _ _"] svc_tracks)
  next
    case (AcRevoke now i reason)
    then show ?thesis by (auto intro!: tracks_bnd [OF tracks_access_revoke] tracks_ret)
  next
    case (AcGet i)
    then show ?thesis by (auto intro!: tracks_bnd [OF tracks_access_getById] tracks_ret)
  qed
  then have "tracks (relabel_db f) (relabel_reply f) (access_handle act req) (access_handle act (relabel_req f req))"
    unfolding access_handle_def guarded_def
    by (intro tracks_bnd_same [where m = "lift_sum _"]) (simp_all add: svc_tracks sum.map_id0)
  from tracksD [OF this run] show ?thesis by simp
qed

section \<open>A sample\<close>

definition sample_card :: "id \<Rightarrow> string \<Rightarrow> access_row" where
  "sample_card i n =
     \<lparr>ag_id = i, ag_employeeId = ''e1'', ag_type = CARD, ag_label = ''door'', ag_identifier = Some n, ag_lokalizacjaId = None,
      ag_status = AG_ACTIVE, ag_issuedByUserId = None, ag_issuedAt = 0, ag_revokedAt = None, ag_notes = None\<rparr>"

definition access_db :: tenant_db where
  "access_db = (sample_db SW_DRAFT)\<lparr>t_grants := [sample_card ''g1'' ''007'']\<rparr>"

definition sample_issue :: access_request where
  "sample_issue = AcIssue ''g2'' 5
     \<lparr>ia_employeeId = ''e1'', ia_type = KEY, ia_label = ''gate'', ia_identifier = Some ''007'', ia_lokalizacjaId = None, ia_notes = None\<rparr>"

lemmas access_sample_defs = access_db_def sample_card_def sample_issue_def sample_defs

lemma access_db_ok: "grants_ok access_db" "distinct (map em_id (t_employees access_db))"
  by (simp_all add: grants_ok_def access_sample_defs List.map_filter_def findEmployee_def)

lemma one_active_grant_per_card_witness:
  "grants_ok (snd (access_handle manager1 sample_issue access_db))"
proof -
  have "access_fresh sample_issue access_db" by (simp add: access_sample_defs)
  from one_active_grant_per_card [OF access_db_ok(1) this surjective_pairing] show ?thesis by simp
qed

lemma access_within_scope_witness:
  "sample_card ''g1'' ''007'' \<in>
     set (t_grants (snd (access_handle (manager1\<lparr>act_userId := ''outsider''\<rparr>) (AcRevoke 7 ''g1'' None) access_db)))"
proof -
  have "\<not> access_scope access_db (manager1\<lparr>act_userId := ''outsider''\<rparr>) (ag_employeeId (sample_card ''g1'' ''007''))"
    by (simp add: access_scope_def managedUnitIds_def access_sample_defs isGlobal_iff user_has_sub_def List.map_filter_def findEmployee_def)
  moreover have "sample_card ''g1'' ''007'' \<in> set (t_grants access_db)" by (simp add: access_db_def)
  ultimately show ?thesis using access_within_scope [OF access_db_ok surjective_pairing] by blast
qed

lemma identifiers_stay_out_of_audit_witness:
  "t_audit (snd (access_handle manager1 (relabel_req rev sample_issue) (relabel_db rev access_db))) =
   t_audit (snd (access_handle manager1 sample_issue access_db))"
  using identifiers_stay_out_of_audit [OF _ surjective_pairing, of rev manager1 sample_issue access_db]
  by (simp add: inj_def)

end
