(* ===== verification/Encryption.thy ===== *)
theory Encryption
  imports Domain "HOL-Library.Word"
begin

text \<open>
  Encryption of personal data and secrets at rest: \<open>packages/shared/src/encryption.ts\<close> and the PESEL
  helpers of \<open>packages/db/src/employeePii.ts\<close>.

  The stored format, the key ring with its versions and the base64 text are the program's own; the cipher
  (AES-256-GCM over a text, with its UTF-8 encoding) and the keyed hash come from the platform and are
  parameters. A byte is an \<open>8 word\<close>.
\<close>

type_synonym byte = "8 word"

datatype crypto_error = CryptoError string | DecryptionError string

section \<open>Base64 and hexadecimal texts\<close>

fun b64_char :: "nat \<Rightarrow> char" where
  "b64_char n =
     (if n < 26 then char_of (65 + n) else if n < 52 then char_of (71 + n)
      else if n < 62 then char_of (n - 4) else if n = 62 then CHR ''+'' else CHR ''/'')"

text \<open>The reader also takes the two characters of the URL alphabet, and skips every other character.\<close>

fun b64_val :: "char \<Rightarrow> nat option" where
  "b64_val c =
     (let n = of_char c in
      if 65 \<le> n \<and> n \<le> 90 then Some (n - 65) else if 97 \<le> n \<and> n \<le> 122 then Some (n - 71)
      else if 48 \<le> n \<and> n \<le> 57 then Some (n + 4)
      else if n = 43 \<or> n = 45 then Some 62 else if n = 47 \<or> n = 95 then Some 63 else None)"

fun b64_encode :: "byte list \<Rightarrow> string" where
  "b64_encode [] = []"
| "b64_encode [a] =
     (let x = unat a in [b64_char (x div 4), b64_char ((x mod 4) * 16), CHR ''='', CHR ''=''])"
| "b64_encode [a, b] =
     (let x = unat a; y = unat b
      in [b64_char (x div 4), b64_char ((x mod 4) * 16 + y div 16), b64_char ((y mod 16) * 4), CHR ''=''])"
| "b64_encode (a # b # c # r) =
     (let x = unat a; y = unat b; z = unat c
      in b64_char (x div 4) # b64_char ((x mod 4) * 16 + y div 16) # b64_char ((y mod 16) * 4 + z div 64) #
         b64_char (z mod 64) # b64_encode r)"

fun b64_bytes :: "nat list \<Rightarrow> byte list" where
  "b64_bytes (a # b # c # d # r) =
     of_nat (a * 4 + b div 16) # of_nat ((b mod 16) * 16 + c div 4) # of_nat ((c mod 4) * 64 + d) # b64_bytes r"
| "b64_bytes [a, b, c] = [of_nat (a * 4 + b div 16), of_nat ((b mod 16) * 16 + c div 4)]"
| "b64_bytes [a, b] = [of_nat (a * 4 + b div 16)]"
| "b64_bytes _ = []"

definition b64_decode :: "string \<Rightarrow> byte list" where
  "b64_decode s = b64_bytes (List.map_filter b64_val s)"

fun hex_val :: "char \<Rightarrow> nat option" where
  "hex_val c =
     (let n = of_char c in
      if 48 \<le> n \<and> n \<le> 57 then Some (n - 48) else if 97 \<le> n \<and> n \<le> 102 then Some (n - 87)
      else if 65 \<le> n \<and> n \<le> 70 then Some (n - 55) else None)"

text \<open>The reader of hexadecimal texts stops at the first pair that is none.\<close>

fun hex_bytes :: "string \<Rightarrow> byte list" where
  "hex_bytes (a # b # r) =
     (case (hex_val a, hex_val b) of (Some x, Some y) \<Rightarrow> of_nat (16 * x + y) # hex_bytes r | _ \<Rightarrow> [])"
| "hex_bytes _ = []"

fun hex_digit :: "nat \<Rightarrow> char" where
  "hex_digit n = (if n < 10 then char_of (48 + n) else char_of (87 + n))"

definition hex_text :: "byte list \<Rightarrow> string" where
  "hex_text bs = concat (map (\<lambda>b. [hex_digit (unat b div 16), hex_digit (unat b mod 16)]) bs)"

section \<open>Key rings\<close>

definition IV_LENGTH :: nat where "IV_LENGTH = 12"
definition AUTH_TAG_LENGTH :: nat where "AUTH_TAG_LENGTH = 16"
definition KEY_LENGTH :: nat where "KEY_LENGTH = 32"
definition MIN_PAYLOAD :: nat where "MIN_PAYLOAD = 1 + IV_LENGTH + AUTH_TAG_LENGTH"

record keyring =
  kr_keys :: "(int \<times> byte list) list"
  kr_activeVersion :: int

definition key_of :: "keyring \<Rightarrow> int \<Rightarrow> byte list option" where
  "key_of kr v = map_of (kr_keys kr) v"

definition assertKey :: "byte list \<Rightarrow> crypto_error + unit" where
  "assertKey key =
     (if length key = KEY_LENGTH then Inr () else Inl (CryptoError ''EncryptionService key must be exactly 32 bytes (256 bits)''))"

fun check_entries :: "(int \<times> byte list) list \<Rightarrow> crypto_error + unit" where
  "check_entries [] = Inr ()"
| "check_entries ((v, k) # es) =
     (if v < 1 \<or> 255 < v
        then Inl (CryptoError (''EncryptionService key version must be an integer 1..255, got '' @ show_int v))
      else (case assertKey k of Inl e \<Rightarrow> Inl e | Inr _ \<Rightarrow> check_entries es))"

text \<open>The two forms of the constructor's argument, a single key or a key ring, and the key in hexadecimal.\<close>

definition single_key :: "byte list \<Rightarrow> crypto_error + keyring" where
  "single_key key =
     (case assertKey key of Inl e \<Rightarrow> Inl e | Inr _ \<Rightarrow> Inr \<lparr>kr_keys = [(1, key)], kr_activeVersion = 1\<rparr>)"

definition make_keyring :: "(int \<times> byte list) list \<Rightarrow> int \<Rightarrow> crypto_error + keyring" where
  "make_keyring entries activeVersion =
     (if entries = [] then Inl (CryptoError ''EncryptionService keyring must contain at least one key'')
      else (case check_entries entries of
          Inl e \<Rightarrow> Inl e
        | Inr _ \<Rightarrow>
            if map_of entries activeVersion = None
              then Inl (CryptoError (''EncryptionService activeVersion '' @ show_int activeVersion @ '' has no key in the keyring''))
            else Inr \<lparr>kr_keys = entries, kr_activeVersion = activeVersion\<rparr>))"

definition fromHexKey :: "string \<Rightarrow> crypto_error + keyring" where
  "fromHexKey hexKey =
     (if length hexKey = 64 \<and> list_all (\<lambda>c. hex_val c \<noteq> None) hexKey then single_key (hex_bytes hexKey)
      else Inl (CryptoError ''EncryptionService.fromHexKey expects exactly 64 hex chars (32 bytes)''))"

section \<open>Encrypt and decrypt\<close>

text \<open>
  The platform's cipher and hash: sealing a text under a key, a nonce and optional associated data gives the
  ciphertext and the tag; opening checks the tag.
\<close>

record platform =
  gcm_seal :: "byte list \<Rightarrow> byte list \<Rightarrow> string option \<Rightarrow> string \<Rightarrow> byte list \<times> byte list"
  gcm_open :: "byte list \<Rightarrow> byte list \<Rightarrow> string option \<Rightarrow> byte list \<Rightarrow> byte list \<Rightarrow> string option"
  hmac_sha256 :: "byte list \<Rightarrow> string \<Rightarrow> byte list"

definition encrypt :: "platform \<Rightarrow> keyring \<Rightarrow> byte list \<Rightarrow> string \<Rightarrow> string option \<Rightarrow> crypto_error + string" where
  "encrypt pf kr iv plaintext aad =
     (case key_of kr (kr_activeVersion kr) of
        None \<Rightarrow> Inl (CryptoError (''EncryptionService active key version '' @ show_int (kr_activeVersion kr) @ '' missing''))
      | Some key \<Rightarrow>
          let (ciphertext, tag) = gcm_seal pf key iv aad plaintext
          in Inr (b64_encode (of_int (kr_activeVersion kr) # iv @ tag @ ciphertext)))"

definition decrypt :: "platform \<Rightarrow> keyring \<Rightarrow> string \<Rightarrow> string option \<Rightarrow> crypto_error + string" where
  "decrypt pf kr payload aad =
     (if payload = [] then Inl (DecryptionError ''decrypt: payload must be a non-empty base64 string'')
      else let data = b64_decode payload in
      if length data < MIN_PAYLOAD
        then Inl (DecryptionError (''decrypt: payload too short ('' @ show_nat (length data) @ ''B < '' @
               show_nat MIN_PAYLOAD @ ''B) - corrupt or not produced by EncryptionService''))
      else let version = uint (hd data) in
      (case key_of kr version of
         None \<Rightarrow> Inl (DecryptionError (''decrypt: unknown key version '' @ show_int version @ '' - wrong keyring or corrupt payload''))
       | Some key \<Rightarrow>
           let iv = take IV_LENGTH (drop 1 data);
               authTag = take AUTH_TAG_LENGTH (drop (1 + IV_LENGTH) data);
               ciphertext = drop (1 + IV_LENGTH + AUTH_TAG_LENGTH) data
           in (case gcm_open pf key iv aad authTag ciphertext of
                 None \<Rightarrow> Inl (DecryptionError ''decrypt: authentication failed - tampered ciphertext, wrong key, or mismatched AAD'')
               | Some plaintext \<Rightarrow> Inr plaintext)))"

definition hmacBlindIndex :: "platform \<Rightarrow> string \<Rightarrow> byte list \<Rightarrow> crypto_error + string" where
  "hmacBlindIndex pf value key =
     (case assertKey key of Inl e \<Rightarrow> Inl e | Inr _ \<Rightarrow> Inr (hex_text (hmac_sha256 pf key value)))"

definition blindIndexEquals :: "string \<Rightarrow> string \<Rightarrow> bool" where
  "blindIndexEquals a b = (hex_bytes a = hex_bytes b)"

section \<open>PESEL\<close>

definition peselAad :: "string \<Rightarrow> string" where
  "peselAad tenantId = ''tenant:'' @ tenantId @ '':employee.pesel''"

definition normalizePesel :: "string \<Rightarrow> string" where
  "normalizePesel pesel = trim pesel"

record encrypted_pesel =
  ep_pesel :: string
  ep_peselHash :: string

definition encryptEmployeePesel ::
  "platform \<Rightarrow> keyring \<Rightarrow> byte list \<Rightarrow> byte list \<Rightarrow> string \<Rightarrow> string \<Rightarrow> crypto_error + encrypted_pesel" where
  "encryptEmployeePesel pf kr iv blindIndexKey tenantId pesel =
     (let normalized = normalizePesel pesel in
      case encrypt pf kr iv normalized (Some (peselAad tenantId)) of
        Inl e \<Rightarrow> Inl e
      | Inr c \<Rightarrow> (case hmacBlindIndex pf normalized blindIndexKey of
          Inl e \<Rightarrow> Inl e
        | Inr h \<Rightarrow> Inr \<lparr>ep_pesel = c, ep_peselHash = h\<rparr>))"

definition decryptEmployeePesel :: "platform \<Rightarrow> keyring \<Rightarrow> string \<Rightarrow> string \<Rightarrow> crypto_error + string" where
  "decryptEmployeePesel pf kr tenantId ciphertext = decrypt pf kr ciphertext (Some (peselAad tenantId))"

definition employeePeselBlindIndex :: "platform \<Rightarrow> byte list \<Rightarrow> string \<Rightarrow> crypto_error + string" where
  "employeePeselBlindIndex pf blindIndexKey pesel = hmacBlindIndex pf (normalizePesel pesel) blindIndexKey"

section \<open>Round trips\<close>

lemma b64_val_char: "n < 64 \<Longrightarrow> b64_val (b64_char n) = Some n"
  by (auto simp: Let_def)

lemma b64_val_pad: "b64_val CHR ''='' = None"
  by (simp add: Let_def)

lemma unat_byte: "unat (x :: byte) < 256"
  using unsigned_less [of x] by simp

lemma b64_pieces:
  assumes "x < (256 :: nat)" "y < 256" "z < 256"
  shows "x div 4 < 64" "(x mod 4) * 16 + y div 16 < 64" "(y mod 16) * 4 + z div 64 < 64" "z mod 64 < 64"
    "(x div 4) * 4 + ((x mod 4) * 16 + y div 16) div 16 = x"
    "(((x mod 4) * 16 + y div 16) mod 16) * 16 + ((y mod 16) * 4 + z div 64) div 4 = y"
    "(((y mod 16) * 4 + z div 64) mod 4) * 64 + z mod 64 = z"
proof -
  have "y div 16 < 16" "z div 64 < 4" using assms by auto
  then show "(x div 4) * 4 + ((x mod 4) * 16 + y div 16) div 16 = x"
    "(((x mod 4) * 16 + y div 16) mod 16) * 16 + ((y mod 16) * 4 + z div 64) div 4 = y"
    "(((y mod 16) * 4 + z div 64) mod 4) * 64 + z mod 64 = z"
    by (simp_all add: div_add1_eq [of _ "y div 16"] mod_mult_self3)
  have "x mod 4 < 4" "y mod 16 < 16" by simp_all
  with \<open>y div 16 < 16\<close> \<open>z div 64 < 4\<close> assms show "x div 4 < 64" "(x mod 4) * 16 + y div 16 < 64"
    "(y mod 16) * 4 + z div 64 < 64" "z mod 64 < 64"
    by linarith+
qed

lemma b64_decode_encode [simp]: "b64_decode (b64_encode bs) = bs"
proof (induction bs rule: b64_encode.induct)
  case (2 a)
  from b64_pieces [OF unat_byte [of a], of 0 0] show ?case
    by (simp add: b64_decode_def List.map_filter_simps b64_val_char b64_val_pad Let_def
        del: b64_char.simps b64_val.simps)
next
  case (3 a b)
  from b64_pieces [OF unat_byte [of a] unat_byte [of b], of 0] show ?case
    by (simp add: b64_decode_def List.map_filter_simps b64_val_char b64_val_pad Let_def
        del: b64_char.simps b64_val.simps)
next
  case (4 a b c r)
  from b64_pieces [OF unat_byte [of a] unat_byte [of b] unat_byte [of c]] 4 show ?case
    by (simp add: b64_decode_def List.map_filter_simps b64_val_char b64_val_pad Let_def
        del: b64_char.simps b64_val.simps)
qed (simp add: b64_decode_def List.map_filter_simps)

lemma b64_encode_nonempty: "bs \<noteq> [] \<Longrightarrow> b64_encode bs \<noteq> []"
  by (cases bs rule: b64_encode.cases) (simp_all add: Let_def)

lemma hex_val_digit: "n < 16 \<Longrightarrow> hex_val (hex_digit n) = Some n"
  by (auto simp: Let_def)

lemma hex_bytes_text [simp]: "hex_bytes (hex_text bs) = bs"
proof (induction bs)
  case (Cons b bs)
  have "unat b div 16 < 16" using unat_byte [of b] by simp
  with Cons show ?case by (simp add: hex_text_def hex_val_digit del: hex_val.simps hex_digit.simps)
qed (simp add: hex_text_def)

lemma hex_text_inj: "hex_text a = hex_text b \<longleftrightarrow> a = b"
  by (metis hex_bytes_text)

text \<open>What the callers rely on of the cipher: sealing gives a tag of 16 bytes, and opens again.\<close>

definition gcm_ok :: "platform \<Rightarrow> bool" where
  "gcm_ok pf \<longleftrightarrow>
     (\<forall>key iv aad p c t. gcm_seal pf key iv aad p = (c, t) \<longrightarrow>
        length t = AUTH_TAG_LENGTH \<and> gcm_open pf key iv aad t c = Some p)"

text \<open>A ring that a constructor accepted, and a ring that has grown out of another.\<close>

definition ring_ok :: "keyring \<Rightarrow> bool" where
  "ring_ok kr \<longleftrightarrow>
     (\<forall>v k. (v, k) \<in> set (kr_keys kr) \<longrightarrow> 1 \<le> v \<and> v \<le> 255 \<and> length k = KEY_LENGTH) \<and>
     key_of kr (kr_activeVersion kr) \<noteq> None"

definition rotated :: "keyring \<Rightarrow> keyring \<Rightarrow> bool" where
  "rotated kr kr' \<longleftrightarrow> (\<forall>v k. key_of kr v = Some k \<longrightarrow> key_of kr' v = Some k)"

lemma check_entries_ok:
  "check_entries es = Inr () \<longleftrightarrow> (\<forall>v k. (v, k) \<in> set es \<longrightarrow> 1 \<le> v \<and> v \<le> 255 \<and> length k = KEY_LENGTH)"
  by (induction es rule: check_entries.induct) (auto simp: assertKey_def split: if_splits)

lemma make_keyring_ok: "make_keyring es v = Inr kr \<Longrightarrow> ring_ok kr"
  using check_entries_ok [of es] by (auto simp: make_keyring_def ring_ok_def key_of_def split: if_splits sum.splits)

lemma single_key_ok: "single_key k = Inr kr \<Longrightarrow> ring_ok kr"
  by (auto simp: single_key_def ring_ok_def key_of_def assertKey_def split: if_splits)

lemma hex_bytes_length: "list_all (\<lambda>c. hex_val c \<noteq> None) s \<Longrightarrow> length (hex_bytes s) = length s div 2"
  by (induction s rule: hex_bytes.induct) (auto simp del: hex_val.simps)

lemma fromHexKey_ok:
  assumes "length s = 64" and "list_all (\<lambda>c. hex_val c \<noteq> None) s"
  shows "\<exists>kr. fromHexKey s = Inr kr \<and> ring_ok kr \<and> key_of kr 1 = Some (hex_bytes s)"
  using hex_bytes_length [OF assms(2)] assms
  by (simp add: fromHexKey_def single_key_def assertKey_def KEY_LENGTH_def ring_ok_def key_of_def)

text \<open>A ciphertext opens under every later ring, for the same associated data.\<close>

lemma decrypt_encrypt:
  assumes gcm: "gcm_ok pf" and ring: "ring_ok kr" and later: "rotated kr kr'" and iv: "length iv = IV_LENGTH"
  shows "\<exists>c. encrypt pf kr iv p aad = Inr c \<and> c \<noteq> [] \<and> decrypt pf kr' c aad = Inr p"
proof -
  let ?v = "kr_activeVersion kr"
  from ring obtain key where key: "key_of kr ?v = Some key" by (auto simp: ring_ok_def)
  then have "(?v, key) \<in> set (kr_keys kr)" by (simp add: key_of_def map_of_SomeD)
  with ring have v: "1 \<le> ?v" "?v \<le> 255" by (auto simp: ring_ok_def)
  obtain c t where seal: "gcm_seal pf key iv aad p = (c, t)" by (cases "gcm_seal pf key iv aad p")
  with gcm have t: "length t = AUTH_TAG_LENGTH" "gcm_open pf key iv aad t c = Some p" by (auto simp: gcm_ok_def)
  have uint: "uint (of_int ?v :: byte) = ?v" using v by (simp add: word_of_int_eq_iff uint_word_of_int)
  have key': "key_of kr' ?v = Some key" using later key by (simp add: rotated_def)
  have "take IV_LENGTH (iv @ t @ c) = iv" "take AUTH_TAG_LENGTH (drop IV_LENGTH (iv @ t @ c)) = t"
    "drop (IV_LENGTH + AUTH_TAG_LENGTH) (iv @ t @ c) = c"
    using iv t(1) by simp_all
  with key key' seal t iv uint show ?thesis
    by (auto simp: encrypt_def decrypt_def Let_def b64_encode_nonempty MIN_PAYLOAD_def)
qed

text \<open>Decrypting fails in one way only, whatever the payload.\<close>

lemma decrypt_only_DecryptionError: "decrypt pf kr c aad = Inl e \<Longrightarrow> \<exists>m. e = DecryptionError m"
  by (auto simp: decrypt_def Let_def simp del: show_nat.simps split: if_splits option.splits)

end
