(* ===== verification/Employees.thy ===== *)
theory Employees
  imports Rbac Encryption
begin

text \<open>
  The employee roster: \<open>employees/employees.service.ts\<close> and \<open>employees/employees.controller.ts\<close>.

  A row carries personal data (the encrypted PESEL, its blind index, the home address and its coordinates)
  that no response and no audit row may carry, except for the last four digits of the PESEL shown to HR and
  administrators. The encryption service is an argument of the methods that use it.
\<close>

section \<open>Requests, responses and errors\<close>

record update_employee_dto =
  ue_firstName :: "string option"
  ue_lastName :: "string option"
  ue_position :: "string option"
  ue_employmentType :: "employment_type option"
  ue_unitId :: "id option"
  ue_etat :: "real option"
  ue_qualifications :: "string list option"
  ue_pesel :: "string option"

record create_employee_dto =
  ce_firstName :: string
  ce_lastName :: string
  ce_position :: string
  ce_employmentType :: employment_type
  ce_unitId :: id
  ce_pesel :: string
  ce_hiredAt :: int
  ce_etat :: "real option"
  ce_qualifications :: "string list option"

definition is_digit :: "char \<Rightarrow> bool" where
  "is_digit c \<longleftrightarrow> 48 \<le> (of_char c :: nat) \<and> (of_char c :: nat) \<le> 57"

definition pesel_pattern :: "string \<Rightarrow> bool" where
  "pesel_pattern s \<longleftrightarrow> length s = 11 \<and> list_all is_digit s"

definition etat_valid :: "real option \<Rightarrow> bool" where
  "etat_valid x = (case x of None \<Rightarrow> True | Some e \<Rightarrow> 0 \<le> e \<and> e \<le> 1)"

definition update_dto_valid :: "update_employee_dto \<Rightarrow> bool" where
  "update_dto_valid dto \<longleftrightarrow>
     etat_valid (ue_etat dto) \<and> (case ue_pesel dto of None \<Rightarrow> True | Some p \<Rightarrow> pesel_pattern p)"

definition create_dto_valid :: "create_employee_dto \<Rightarrow> bool" where
  "create_dto_valid dto \<longleftrightarrow>
     ce_firstName dto \<noteq> [] \<and> ce_lastName dto \<noteq> [] \<and> ce_position dto \<noteq> [] \<and> pesel_pattern (ce_pesel dto) \<and>
     etat_valid (ce_etat dto)"

text \<open>The allowlist projection \<open>SAFE_SELECT\<close>.\<close>

record safe_employee =
  sf_id :: id
  sf_firstName :: string
  sf_lastName :: string
  sf_position :: string
  sf_employmentType :: employment_type
  sf_hiredAt :: int
  sf_unitId :: id
  sf_etat :: real
  sf_qualifications :: "string list"

definition toSafeEmployee :: "employee_row \<Rightarrow> safe_employee" where
  "toSafeEmployee e =
     \<lparr>sf_id = em_id e, sf_firstName = em_firstName e, sf_lastName = em_lastName e, sf_position = em_position e,
      sf_employmentType = em_employmentType e, sf_hiredAt = em_hiredAt e, sf_unitId = em_unitId e,
      sf_etat = em_etat e, sf_qualifications = em_qualifications e\<rparr>"

fun employment_type_name :: "employment_type \<Rightarrow> string" where
  "employment_type_name UMOWA_O_PRACE = ''UMOWA_O_PRACE''"
| "employment_type_name UMOWA_ZLECENIE = ''UMOWA_ZLECENIE''"
| "employment_type_name UMOWA_O_DZIELO = ''UMOWA_O_DZIELO''"
| "employment_type_name B2B = ''B2B''"

definition safe_json :: "safe_employee \<Rightarrow> json" where
  "safe_json s =
     JObj [(''id'', JStr (sf_id s)), (''firstName'', JStr (sf_firstName s)), (''lastName'', JStr (sf_lastName s)),
           (''position'', JStr (sf_position s)), (''employmentType'', JStr (employment_type_name (sf_employmentType s))),
           (''hiredAt'', JNum (real_of_int (sf_hiredAt s))), (''unitId'', JStr (sf_unitId s)),
           (''etat'', JNum (sf_etat s)), (''qualifications'', JArr (map JStr (sf_qualifications s)))]"

definition employees_mapWriteError :: "app_error \<Rightarrow> 'a tx" where
  "employees_mapWriteError err =
     throw (case err of
       P2002 _ \<Rightarrow> ConflictException ''Employee with this PESEL already exists''
     | P2003 _ \<Rightarrow> BadRequestException ''Invalid unitId: unit does not exist''
     | _ \<Rightarrow> err)"

definition employees_audit :: "actor \<Rightarrow> string \<Rightarrow> id \<Rightarrow> (string \<times> json) list \<Rightarrow> unit tx" where
  "employees_audit act action i payload =
     audit_log (act_userId act) action ''Employee'' i (JObj payload) (act_ipAddress act)"

text \<open>The encryption service with its key, as the methods use it: tenant and PESEL, tenant and ciphertext.\<close>

record pii_env =
  pe_encrypt :: "string \<Rightarrow> string \<Rightarrow> crypto_error + encrypted_pesel"
  pe_decrypt :: "string \<Rightarrow> string \<Rightarrow> crypto_error + string"

definition service_pii :: "platform \<Rightarrow> keyring \<Rightarrow> byte list \<Rightarrow> byte list \<Rightarrow> pii_env" where
  "service_pii pf kr iv blindKey =
     \<lparr>pe_encrypt = encryptEmployeePesel pf kr iv blindKey, pe_decrypt = decryptEmployeePesel pf kr\<rparr>"

fun crypto_error_text :: "crypto_error \<Rightarrow> string" where
  "crypto_error_text (CryptoError m) = m"
| "crypto_error_text (DecryptionError m) = m"

definition encrypt_pesel :: "pii_env \<Rightarrow> string \<Rightarrow> string \<Rightarrow> encrypted_pesel tx" where
  "encrypt_pesel env tenantId pesel =
     lift_sum (map_sum (\<lambda>e. PlainError (crypto_error_text e)) id (pe_encrypt env tenantId pesel))"

section \<open>Scope\<close>

definition ownUnitId :: "tenant_db \<Rightarrow> string \<Rightarrow> id option" where
  "ownUnitId db userId = map_option em_unitId (callerEmployee db userId)"

definition resolveScopeUnits :: "tenant_db \<Rightarrow> actor \<Rightarrow> id list" where
  "resolveScopeUnits db act =
     (let units = managedUnitIds db (act_userId act)
      in if units \<noteq> [] then units
         else (case ownUnitId db (act_userId act) of None \<Rightarrow> [] | Some own \<Rightarrow> if own = [] then [] else [own]))"

section \<open>Reads\<close>

definition employees_list :: "actor \<Rightarrow> safe_employee list tx" where
  "employees_list act = asks (\<lambda>db.
     map toSafeEmployee (sort_key (\<lambda>e. - em_hiredAt e)
       (filter (\<lambda>e. isGlobal (act_roles act) \<or> em_unitId e \<in> set (resolveScopeUnits db act)) (t_employees db))))"

definition last4 :: "string \<Rightarrow> string" where
  "last4 s = drop (length s - 4) s"

definition pesel_hint :: "pii_env \<Rightarrow> string \<Rightarrow> string \<Rightarrow> string option" where
  "pesel_hint env tenantId ciphertext =
     (if tenantId = [] \<or> ciphertext = [] then None
      else case pe_decrypt env tenantId ciphertext of Inl _ \<Rightarrow> None | Inr plain \<Rightarrow> Some (last4 plain))"

definition employees_getById :: "pii_env \<Rightarrow> actor \<Rightarrow> id \<Rightarrow> string \<Rightarrow> (safe_employee \<times> string option) tx" where
  "employees_getById env act i tenantId =
     bnd (asks (\<lambda>db. findEmployee db i)) (\<lambda>found.
     bnd (require (NotFoundException (''Employee '' @ i @ '' not found'')) found) (\<lambda>emp.
     bnd (asks (\<lambda>db. resolveScopeUnits db act)) (\<lambda>units.
     bnd (ensure (isGlobal (act_roles act) \<or> em_unitId emp \<in> set units)
            (ForbiddenException ''Employee is outside your scope'')) (\<lambda>_.
     ret (toSafeEmployee emp,
          if isGlobal (act_roles act) then pesel_hint env tenantId (em_pesel emp) else None)))))"

definition employees_me :: "actor \<Rightarrow> safe_employee tx" where
  "employees_me act =
     bnd (asks (\<lambda>db. callerEmployee db (act_userId act))) (\<lambda>found.
     bnd (require (NotFoundException ''No employee record for the current user'') found) (\<lambda>emp.
     ret (toSafeEmployee emp)))"

section \<open>Writes\<close>

definition hash_clash :: "employee_row list \<Rightarrow> employee_row \<Rightarrow> bool" where
  "hash_clash es e \<longleftrightarrow> list_ex (\<lambda>x. em_id x \<noteq> em_id e \<and> em_peselHash x = em_peselHash e) es"

definition employee_fks :: "tenant_db \<Rightarrow> employee_row \<Rightarrow> bool" where
  "employee_fks db e \<longleftrightarrow> find_row ou_id (em_unitId e) (t_units db) \<noteq> None"

text \<open>The constraints of the table: the unique blind index first, then the foreign key of the unit.\<close>

definition employee_constraints :: "employee_row \<Rightarrow> unit tx" where
  "employee_constraints e =
     bnd (asks (\<lambda>db. (hash_clash (t_employees db) e, employee_fks db e))) (\<lambda>(clash, fks).
     bnd (ensure (\<not> clash) (P2002 ''employees.pesel_hash'')) (\<lambda>_.
     ensure fks (P2003 ''employees.unit_id'')))"

definition employee_insert :: "employee_row \<Rightarrow> employee_row tx" where
  "employee_insert e = bnd (employee_constraints e) (\<lambda>_. create_row t_employees put_employees e)"

definition employee_patch :: "update_employee_dto \<Rightarrow> encrypted_pesel option \<Rightarrow> employee_row \<Rightarrow> employee_row" where
  "employee_patch dto enc e = e
     \<lparr>em_firstName := coalesce (ue_firstName dto) (em_firstName e),
      em_lastName := coalesce (ue_lastName dto) (em_lastName e),
      em_position := coalesce (ue_position dto) (em_position e),
      em_employmentType := coalesce (ue_employmentType dto) (em_employmentType e),
      em_unitId := coalesce (ue_unitId dto) (em_unitId e),
      em_etat := coalesce (ue_etat dto) (em_etat e),
      em_qualifications := coalesce (ue_qualifications dto) (em_qualifications e),
      em_pesel := (case enc of None \<Rightarrow> em_pesel e | Some x \<Rightarrow> ep_pesel x),
      em_peselHash := (case enc of None \<Rightarrow> em_peselHash e | Some x \<Rightarrow> ep_peselHash x)\<rparr>"

definition employee_write :: "id \<Rightarrow> update_employee_dto \<Rightarrow> encrypted_pesel option \<Rightarrow> employee_row tx" where
  "employee_write i dto enc =
     bnd (asks (\<lambda>db. findEmployee db i)) (\<lambda>found.
     bnd (require (P2025 ''employees'') found) (\<lambda>e.
     bnd (employee_constraints (employee_patch dto enc e)) (\<lambda>_.
     update_row t_employees put_employees em_id (P2025 ''employees'') i (employee_patch dto enc))))"

definition update_encrypt :: "pii_env \<Rightarrow> string \<Rightarrow> string option \<Rightarrow> encrypted_pesel option tx" where
  "update_encrypt env tenantId pesel =
     (case pesel of
        None \<Rightarrow> ret None
      | Some p \<Rightarrow> if p = [] then ret None else bnd (encrypt_pesel env tenantId p) (\<lambda>x. ret (Some x)))"

definition employees_update :: "pii_env \<Rightarrow> actor \<Rightarrow> id \<Rightarrow> update_employee_dto \<Rightarrow> string \<Rightarrow> safe_employee tx" where
  "employees_update env act i dto tenantId =
     bnd (ensure (isGlobal (act_roles act)) (ForbiddenException ''Only HR/ADMIN may edit employees'')) (\<lambda>_.
     bnd (asks (\<lambda>db. findEmployee db i)) (\<lambda>found.
     bnd (require (NotFoundException (''Employee '' @ i @ '' not found'')) found) (\<lambda>before.
     bnd (update_encrypt env tenantId (ue_pesel dto)) (\<lambda>enc.
     bnd (catch (employee_write i dto enc) employees_mapWriteError) (\<lambda>updated.
     bnd (employees_audit act ''employee.update'' i
            [(''before'', safe_json (toSafeEmployee before)), (''after'', safe_json (toSafeEmployee updated))]) (\<lambda>_.
     ret (toSafeEmployee updated)))))))"

definition new_employee :: "id \<Rightarrow> create_employee_dto \<Rightarrow> encrypted_pesel \<Rightarrow> employee_row" where
  "new_employee newId dto enc =
     \<lparr>em_id = newId, em_userId = None, em_firstName = ce_firstName dto, em_lastName = ce_lastName dto,
      em_position = ce_position dto, em_employmentType = ce_employmentType dto, em_unitId = ce_unitId dto,
      em_homeLat = None, em_homeLng = None, em_etat = coalesce (ce_etat dto) 1,
      em_qualifications = coalesce (ce_qualifications dto) [], em_preferredDaysOff = [], em_preferredShiftStart = [],
      em_hiredAt = ce_hiredAt dto, em_pesel = ep_pesel enc, em_peselHash = ep_peselHash enc, em_homeAddress = None\<rparr>"

definition employees_create :: "pii_env \<Rightarrow> id \<Rightarrow> actor \<Rightarrow> create_employee_dto \<Rightarrow> string \<Rightarrow> safe_employee tx" where
  "employees_create env newId act dto tenantId =
     bnd (ensure (isGlobal (act_roles act)) (ForbiddenException ''Only HR/ADMIN may add employees'')) (\<lambda>_.
     bnd (encrypt_pesel env tenantId (ce_pesel dto)) (\<lambda>enc.
     bnd (catch (employee_insert (new_employee newId dto enc)) employees_mapWriteError) (\<lambda>created.
     bnd (employees_audit act ''employee.create'' (em_id created) [(''after'', safe_json (toSafeEmployee created))]) (\<lambda>_.
     ret (toSafeEmployee created)))))"

section \<open>The HTTP controller\<close>

definition EMPLOYEE_READ_ROLES :: "role list" where
  "EMPLOYEE_READ_ROLES = [MANAGER, HR, ADMIN_KLIENTA, PRACOWNIK]"

definition EMPLOYEE_WRITE_ROLES :: "role list" where
  "EMPLOYEE_WRITE_ROLES = [HR, ADMIN_KLIENTA]"

datatype employees_request =
  EqList
| EqMe
| EqGet id
| EqUpdate id update_employee_dto
| EqCreate id create_employee_dto

datatype employees_reply =
  EaList "safe_employee list"
| EaEmployee safe_employee
| EaProfile safe_employee "string option"

definition employees_roles :: "employees_request \<Rightarrow> role list" where
  "employees_roles req =
     (case req of EqUpdate _ _ \<Rightarrow> EMPLOYEE_WRITE_ROLES | EqCreate _ _ \<Rightarrow> EMPLOYEE_WRITE_ROLES | _ \<Rightarrow> EMPLOYEE_READ_ROLES)"

fun employees_body :: "pii_env \<Rightarrow> string \<Rightarrow> actor \<Rightarrow> employees_request \<Rightarrow> employees_reply tx" where
  "employees_body env tenantId act EqList = bnd (employees_list act) (\<lambda>es. ret (EaList es))"
| "employees_body env tenantId act EqMe = bnd (employees_me act) (\<lambda>e. ret (EaEmployee e))"
| "employees_body env tenantId act (EqGet i) =
     bnd (employees_getById env act i tenantId) (\<lambda>(e, hint). ret (EaProfile e hint))"
| "employees_body env tenantId act (EqUpdate i dto) =
     bnd (ensure (update_dto_valid dto) (BadRequestException ''pesel must be 11 digits'')) (\<lambda>_.
     bnd (employees_update env act i dto tenantId) (\<lambda>e. ret (EaEmployee e)))"
| "employees_body env tenantId act (EqCreate newId dto) =
     bnd (ensure (create_dto_valid dto) (BadRequestException ''pesel must be 11 digits'')) (\<lambda>_.
     bnd (employees_create env newId act dto tenantId) (\<lambda>e. ret (EaEmployee e)))"

definition employees_handle :: "pii_env \<Rightarrow> string \<Rightarrow> actor \<Rightarrow> employees_request \<Rightarrow> employees_reply tx" where
  "employees_handle env tenantId act req =
     guarded (employees_roles req) act (employees_body env tenantId act req)"

end
