(* ===== verification/EmployeesProps.thy ===== *)
theory EmployeesProps
  imports Employees Samples
begin

text \<open>
  The employee roster: one employee per PESEL, who may see and change whom, the round trip of a PESEL
  through the encryption service, and the secrecy of personal data.
\<close>

section \<open>What a request does\<close>

lemma toSafeEmployee_id [simp]: "sf_id (toSafeEmployee e) = em_id e"
  by (simp add: toSafeEmployee_def)

lemma employee_patch_id [simp]: "em_id (employee_patch dto enc e) = em_id e"
  by (simp add: employee_patch_def)

lemma new_employee_simps [simp]:
  "em_id (new_employee i dto enc) = i" "em_peselHash (new_employee i dto enc) = ep_peselHash enc"
  "em_pesel (new_employee i dto enc) = ep_pesel enc" "em_unitId (new_employee i dto enc) = ce_unitId dto"
  by (simp_all add: new_employee_def)

definition create_row_audit :: "actor \<Rightarrow> employee_row \<Rightarrow> audit_row" where
  "create_row_audit act e =
     \<lparr>au_actorUserId = act_userId act, au_action = ''employee.create'', au_entityType = ''Employee'', au_entityId = em_id e,
      au_payload = JObj [(''after'', safe_json (toSafeEmployee e))], au_ipAddress = act_ipAddress act\<rparr>"

definition update_row_audit :: "actor \<Rightarrow> employee_row \<Rightarrow> employee_row \<Rightarrow> audit_row" where
  "update_row_audit act b e =
     \<lparr>au_actorUserId = act_userId act, au_action = ''employee.update'', au_entityType = ''Employee'', au_entityId = em_id b,
      au_payload = JObj [(''before'', safe_json (toSafeEmployee b)), (''after'', safe_json (toSafeEmployee e))],
      au_ipAddress = act_ipAddress act\<rparr>"

definition constraints_ok :: "tenant_db \<Rightarrow> employee_row \<Rightarrow> bool" where
  "constraints_ok db e \<longleftrightarrow> \<not> hash_clash (t_employees db) e \<and> employee_fks db e"

lemma read_only_constraints [simp]: "read_only (employee_constraints e)"
  by (auto simp: employee_constraints_def intro!: read_only_bnd split: prod.splits)

lemma constraints_Inr_iff: "employee_constraints e db = (Inr x, db') \<longleftrightarrow> db' = db \<and> constraints_ok db e"
  by (auto simp: employee_constraints_def constraints_ok_def)

lemma read_only_update_encrypt [simp]: "read_only (update_encrypt env t p)"
  by (auto simp: update_encrypt_def encrypt_pesel_def intro!: read_only_bnd split: option.splits)

lemma read_only_encrypt_pesel [simp]: "read_only (encrypt_pesel env t p)"
  by (simp add: encrypt_pesel_def)

lemma employees_reads [simp]:
  "read_only (employees_list act)" "read_only (employees_me act)" "read_only (employees_getById env act i t)"
  by (auto simp: employees_list_def employees_me_def employees_getById_def intro!: read_only_bnd)

lemma mapWriteError_Inl [simp]: "employees_mapWriteError e db = (Inr x, db') \<longleftrightarrow> False"
  by (simp add: employees_mapWriteError_def)

lemma mapWriteError_same: "employees_mapWriteError e db = (r, db') \<Longrightarrow> db' = db"
  by (simp add: employees_mapWriteError_def)

lemma employee_insert_cases:
  "catch (employee_insert e) employees_mapWriteError db = (r, db') \<Longrightarrow>
     (\<exists>x. r = Inl x \<and> db' = db) \<or> (r = Inr e \<and> constraints_ok db e \<and> db' = put_employees (t_employees db @ [e]) db)"
  using read_onlyD [OF read_only_constraints, of e db]
  by (auto simp: catch_def employee_insert_def employees_mapWriteError_def bnd_def constraints_Inr_iff
      split: prod.splits sum.splits)

lemma employee_write_cases:
  assumes "findEmployee db i = Some b"
    and "catch (employee_write i dto enc) employees_mapWriteError db = (r, db')"
  shows "(\<exists>x. r = Inl x \<and> db' = db) \<or>
     (r = Inr (employee_patch dto enc b) \<and> constraints_ok db (employee_patch dto enc b) \<and>
      db' = put_employees (update_rows (\<lambda>e. em_id e = i) (employee_patch dto enc) (t_employees db)) db)"
  using assms read_onlyD [OF read_only_constraints, of "employee_patch dto enc b" db]
  by (auto simp: catch_def employee_write_def employees_mapWriteError_def bnd_def constraints_Inr_iff findEmployee_def
      update_row_def svc_defs split: prod.splits sum.splits)

text \<open>Every request changes nothing, or adds one employee, or changes one.\<close>

lemma employees_handle_cases:
  assumes run: "employees_handle env t act req db = (r, db')"
  obtains (same) "db' = db" "(\<exists>e. r = Inl e) \<or> req = EqList \<or> req = EqMe \<or> (\<exists>i. req = EqGet i)"
  | (created) newId dto enc e where "req = EqCreate newId dto" "pe_encrypt env t (ce_pesel dto) = Inr enc"
      "e = new_employee newId dto enc" "constraints_ok db e" "isGlobal (act_roles act)" "create_dto_valid dto"
      "r = Inr (EaEmployee (toSafeEmployee e))"
      "db' = db\<lparr>t_employees := t_employees db @ [e], t_audit := t_audit db @ [create_row_audit act e]\<rparr>"
  | (updated) i dto enc b where "req = EqUpdate i dto" "findEmployee db i = Some b"
      "constraints_ok db (employee_patch dto enc b)" "isGlobal (act_roles act)"
      "r = Inr (EaEmployee (toSafeEmployee (employee_patch dto enc b)))"
      "db' = db\<lparr>t_employees := update_rows (\<lambda>e. em_id e = i) (employee_patch dto enc) (t_employees db),
                 t_audit := t_audit db @ [update_row_audit act b (employee_patch dto enc b)]\<rparr>"
proof -
  from guarded_cases [of "employees_roles req" act "employees_body env t act req" db] run
  consider (refused) e where "db' = db" "r = Inl e" | (ran) "employees_body env t act req db = (r, db')"
    by (auto simp: employees_handle_def)
  then show thesis
  proof cases
    case ran
    show thesis
    proof (cases req)
      case EqList
      then have "read_only (employees_body env t act req)" by (auto intro!: read_only_bnd)
      from read_onlyD [OF this ran] show thesis by (rule same) (simp add: EqList)
    next
      case EqMe
      then have "read_only (employees_body env t act req)" by (auto intro!: read_only_bnd)
      from read_onlyD [OF this ran] show thesis by (rule same) (simp add: EqMe)
    next
      case (EqGet i)
      then have "read_only (employees_body env t act req)" by (auto intro!: read_only_bnd split: prod.splits)
      from read_onlyD [OF this ran] show thesis by (rule same) (simp add: EqGet)
    next
      case (EqCreate newId dto)
      show thesis
      proof (cases "create_dto_valid dto \<and> isGlobal (act_roles act)")
        case True
        show thesis
        proof (cases "pe_encrypt env t (ce_pesel dto)")
          case (Inl e)
          with True ran EqCreate show thesis
            by (intro same) (auto simp: employees_create_def encrypt_pesel_def lift_sum_def bnd_def)
        next
          case (Inr enc)
          let ?e = "new_employee newId dto enc"
          obtain x db1 where ins: "catch (employee_insert ?e) employees_mapWriteError db = (x, db1)"
            by (cases "catch (employee_insert ?e) employees_mapWriteError db")
          note run' = ran EqCreate True Inr ins
          from employee_insert_cases [OF ins] show thesis
          proof (elim disjE exE conjE)
            fix ex
            assume "x = Inl ex" "db1 = db"
            with run' show thesis
              by (intro same) (auto simp: employees_create_def encrypt_pesel_def lift_sum_def bnd_def)
          next
            assume "x = Inr ?e" "constraints_ok db ?e" "db1 = put_employees (t_employees db @ [?e]) db"
            with run' show thesis
              by (intro created [of newId dto enc ?e])
                (auto simp: employees_create_def encrypt_pesel_def lift_sum_def bnd_def employees_audit_def audit_log_def
                  create_row_audit_def)
          qed
        qed
      next
        case False
        with ran EqCreate show thesis by (intro same) (auto simp: employees_create_def bnd_def svc_defs split: if_splits)
      qed
    next
      case (EqUpdate i dto)
      show thesis
      proof (cases "update_dto_valid dto \<and> isGlobal (act_roles act) \<and> findEmployee db i \<noteq> None")
        case True
        then obtain b where b: "findEmployee db i = Some b" by blast
        then have bi: "em_id b = i" by (auto simp: findEmployee_def dest: find_row_SomeD)
        obtain y db2 where enc: "update_encrypt env t (ue_pesel dto) db = (y, db2)"
          by (cases "update_encrypt env t (ue_pesel dto) db")
        then have db2: "db2 = db" by (rule read_onlyD [OF read_only_update_encrypt])
        show thesis
        proof (cases y)
          case (Inl e)
          with True ran EqUpdate enc db2 b show thesis
            by (intro same) (auto simp: employees_update_def bnd_def svc_simps)
        next
          case (Inr en)
          obtain x db1 where w: "catch (employee_write i dto en) employees_mapWriteError db = (x, db1)"
            by (cases "catch (employee_write i dto en) employees_mapWriteError db")
          note run' = ran EqUpdate True Inr enc db2 b w
          from employee_write_cases [OF b w] show thesis
          proof (elim disjE exE conjE)
            fix ex
            assume "x = Inl ex" "db1 = db"
            with run' show thesis by (intro same) (auto simp: employees_update_def bnd_def)
          next
            assume "x = Inr (employee_patch dto en b)" "constraints_ok db (employee_patch dto en b)"
              "db1 = put_employees (update_rows (\<lambda>e. em_id e = i) (employee_patch dto en) (t_employees db)) db"
            with run' bi show thesis
              by (intro updated [of i dto b en])
                (auto simp: employees_update_def bnd_def employees_audit_def audit_log_def update_row_audit_def)
          qed
        qed
      next
        case False
        with ran EqUpdate show thesis
          by (intro same) (auto simp: employees_update_def bnd_def svc_defs split: if_splits)
      qed
    qed
  qed (rule same, simp_all)
qed

section \<open>The invariant\<close>

definition employees_ok :: "tenant_db \<Rightarrow> bool" where
  "employees_ok db \<longleftrightarrow>
     distinct (map em_id (t_employees db)) \<and> distinct (map em_peselHash (t_employees db)) \<and>
     (\<forall>e \<in> set (t_employees db). employee_fks db e)"

fun employees_fresh :: "employees_request \<Rightarrow> tenant_db \<Rightarrow> bool" where
  "employees_fresh (EqCreate newId dto) db \<longleftrightarrow> newId \<notin> em_id ` set (t_employees db)"
| "employees_fresh _ db \<longleftrightarrow> True"

lemma distinct_update_one:
  assumes "distinct (map key rs)" and "distinct (map g rs)"
    and b: "find_row key i rs = Some b" and key: "\<forall>r. key (f r) = key r"
    and new: "\<forall>r \<in> set rs. key r \<noteq> i \<longrightarrow> g r \<noteq> g (f b)"
  shows "distinct (map g (update_rows (\<lambda>r. key r = i) f rs))"
  using assms
proof (induction rs)
  case (Cons r rs)
  have only: "update_rows (\<lambda>r. key r = i) f rs = rs" if "key r = i"
    using Cons.prems(1) that by (intro update_rows_none) (auto simp: count_rows_0_iff rev_image_eqI)
  show ?case
  proof (cases "key r = i")
    case True
    with Cons.prems have "b = r" "\<forall>x \<in> set rs. key x \<noteq> i" by (auto simp: rev_image_eqI)
    with only True Cons.prems show ?thesis by auto
  next
    case False
    with Cons.prems have found: "find_row key i rs = Some b" "distinct (map key rs)" by simp_all
    have "x = b" if "x \<in> set rs" "key x = i" for x
      using find_row_in [OF found(2) that(1)] that(2) found(1) by simp
    with Cons.prems False have "g r \<notin> g ` set (update_rows (\<lambda>r. key r = i) f rs)"
      by (auto simp: set_update_rows)
    with False Cons show ?thesis by simp
  qed
qed simp

text \<open>
  C38. No two employees of a tenant have the same blind index of a PESEL, whatever the requests: an insert or a
  change that would repeat one is refused, a request that fails changes nothing, and only HR and
  administrators change anything.
\<close>

theorem one_employee_per_pesel:
  assumes ok: "employees_ok db" and fresh: "employees_fresh req db"
    and run: "employees_handle env t act req db = (r, db')"
  shows "employees_ok db' \<and> (\<forall>e. r = Inl e \<longrightarrow> db' = db) \<and> (db' \<noteq> db \<longrightarrow> isGlobal (act_roles act))"
  using run
proof (cases rule: employees_handle_cases)
  case (created newId dto enc e)
  with fresh have "\<not> list_ex (\<lambda>x. em_peselHash x = em_peselHash e) (t_employees db)"
    by (auto simp: constraints_ok_def hash_clash_def list_ex_iff)
  with created fresh ok show ?thesis
    by (auto simp: employees_ok_def constraints_ok_def employee_fks_def list_ex_iff)
next
  case (updated i dto enc b)
  let ?f = "employee_patch dto enc"
  have b: "find_row em_id i (t_employees db) = Some b" "em_id b = i"
    using updated(2) by (auto simp: findEmployee_def dest: find_row_SomeD)
  have "map em_id (update_rows (\<lambda>e. em_id e = i) ?f (t_employees db)) = map em_id (t_employees db)"
    by (rule map_update_rows) simp
  moreover have "distinct (map em_peselHash (update_rows (\<lambda>e. em_id e = i) ?f (t_employees db)))"
    using ok updated(3) b
    by (intro distinct_update_one [OF _ _ b(1)]) (auto simp: employees_ok_def constraints_ok_def hash_clash_def list_ex_iff)
  moreover have "x = b" if "x \<in> set (t_employees db)" "em_id x = i" for x
    using find_row_in [of em_id "t_employees db" x] that b ok by (simp add: employees_ok_def)
  ultimately show ?thesis
    using updated ok
    by (auto simp: employees_ok_def constraints_ok_def employee_fks_def set_update_rows)
qed (use ok in auto)

section \<open>A PESEL and its reader\<close>

lemma digit_not_space: "is_digit c \<Longrightarrow> \<not> is_space c"
  by (auto simp: is_digit_def is_space_def)

lemma normalize_digits: "pesel_pattern s \<Longrightarrow> normalizePesel s = s"
proof -
  assume s: "pesel_pattern s"
  have all: "\<forall>c \<in> set s. \<not> is_space c"
    using s digit_not_space by (auto simp: pesel_pattern_def list_all_iff)
  have "dropWhile is_space xs = xs" if "\<forall>c \<in> set xs. \<not> is_space c" for xs :: string
    using that by (cases xs) auto
  from this [of s] this [of "rev s"] all show ?thesis by (simp add: normalizePesel_def trim_def)
qed

text \<open>What is stored for a number decrypts to the whole number, and the hint shows its end.\<close>

lemma stored_pesel:
  assumes gcm: "gcm_ok pf" and ring: "ring_ok kr" "rotated kr kr'" and iv: "length iv = IV_LENGTH"
    and enc: "pe_encrypt (service_pii pf kr iv key) t p = Inr x" and p: "pesel_pattern p" and t: "t \<noteq> []"
  shows "decryptEmployeePesel pf kr' t (ep_pesel x) = Inr p \<and>
    pesel_hint (service_pii pf kr' iv' key') t (ep_pesel x) = Some (last4 p)"
proof -
  obtain c where "encrypt pf kr iv p (Some (peselAad t)) = Inr c" "c \<noteq> []" "decrypt pf kr' c (Some (peselAad t)) = Inr p"
    using decrypt_encrypt [OF gcm ring iv, of p "Some (peselAad t)"] by blast
  with enc normalize_digits [OF p] t show ?thesis
    by (auto simp: service_pii_def encryptEmployeePesel_def pesel_hint_def decryptEmployeePesel_def split: sum.splits)
qed

text \<open>
  C39. A PESEL survives its round trip through the encryption service: once a request has added an employee,
  the stored ciphertext decrypts to exactly the given number, all eleven digits of it, under any later key
  ring in which the old key is still present; and HR or an administrator who reads the profile then gets
  exactly the public columns of the answer and the last four digits of that number.
\<close>

theorem pesel_round_trip:
  assumes gcm: "gcm_ok pf" and ring: "ring_ok kr" "rotated kr kr'" and iv: "length iv = IV_LENGTH"
    and run: "employees_handle (service_pii pf kr iv key) t act (EqCreate newId dto) db = (Inr (EaEmployee s), db')"
    and fresh: "newId \<notin> em_id ` set (t_employees db)" and t: "t \<noteq> []"
    and reader: "x \<in> {HR, ADMIN_KLIENTA}" "role_name x \<in> set (act_roles rd)"
  shows "(\<exists>e. findEmployee db' newId = Some e \<and> decryptEmployeePesel pf kr' t (em_pesel e) = Inr (ce_pesel dto)) \<and>
    employees_handle (service_pii pf kr' iv' key') t rd (EqGet newId) db' =
      (Inr (EaProfile s (Some (last4 (ce_pesel dto)))), db')"
  using run
proof (cases rule: employees_handle_cases)
  case (created i d enc e)
  from reader have rd: "isGlobal (act_roles rd)" by (auto simp: isGlobal_iff)
  have "find_row em_id newId (t_employees db) = None" using fresh by (simp add: find_row_None_iff)
  with created have e: "findEmployee db' newId = Some e"
    by (simp add: findEmployee_def find_row_append)
  from created have p: "pesel_pattern (ce_pesel dto)" by (simp add: create_dto_valid_def)
  have stored: "decryptEmployeePesel pf kr' t (em_pesel e) = Inr (ce_pesel dto)"
    "pesel_hint (service_pii pf kr' iv' key') t (em_pesel e) = Some (last4 (ce_pesel dto))"
    using stored_pesel [OF gcm ring iv _ p t] created by simp_all
  have "employees_getById (service_pii pf kr' iv' key') rd newId t db' = (Inr (s, Some (last4 (ce_pesel dto))), db')"
    using created e stored(2) rd by (simp add: employees_getById_def)
  moreover have "canActivate (Some (map role_name (employees_roles (EqGet newId)))) (act_roles rd) = Inr True"
    using reader by (auto simp: canActivate_def employees_roles_def EMPLOYEE_READ_ROLES_def)
  ultimately show ?thesis
    using e stored(1) by (simp add: employees_handle_def guarded_def lift_sum_def bnd_def)
qed auto

section \<open>Personal data\<close>

text \<open>
  Replacing personal data: the ciphertexts by \<open>p\<close>, the blind indexes by \<open>q\<close>, the home address by \<open>h\<close> and its
  coordinates by \<open>g\<close> in the table, and the number in a request by \<open>z\<close>.
\<close>

record pii_mask =
  pm_cipher :: "string \<Rightarrow> string"
  pm_hash :: "string \<Rightarrow> string"
  pm_address :: "string \<Rightarrow> string"
  pm_coord :: "real \<Rightarrow> real"
  pm_number :: "string \<Rightarrow> string"

definition mask_row :: "pii_mask \<Rightarrow> employee_row \<Rightarrow> employee_row" where
  "mask_row m e = e
     \<lparr>em_pesel := pm_cipher m (em_pesel e), em_peselHash := pm_hash m (em_peselHash e),
      em_homeAddress := map_option (pm_address m) (em_homeAddress e),
      em_homeLat := map_option (pm_coord m) (em_homeLat e), em_homeLng := map_option (pm_coord m) (em_homeLng e)\<rparr>"

definition mask_db :: "pii_mask \<Rightarrow> tenant_db \<Rightarrow> tenant_db" where
  "mask_db m db = put_employees (map (mask_row m) (t_employees db)) db"

definition mask_enc :: "pii_mask \<Rightarrow> encrypted_pesel \<Rightarrow> encrypted_pesel" where
  "mask_enc m x = \<lparr>ep_pesel = pm_cipher m (ep_pesel x), ep_peselHash = pm_hash m (ep_peselHash x)\<rparr>"

fun mask_req :: "pii_mask \<Rightarrow> employees_request \<Rightarrow> employees_request" where
  "mask_req m (EqUpdate i dto) = EqUpdate i (dto\<lparr>ue_pesel := map_option (pm_number m) (ue_pesel dto)\<rparr>)"
| "mask_req m (EqCreate newId dto) = EqCreate newId (dto\<lparr>ce_pesel := pm_number m (ce_pesel dto)\<rparr>)"
| "mask_req m req = req"

text \<open>
  Two services that treat the old and the new data alike: they agree on which numbers are equal, and, as far
  as the caller is HR or an administrator, on the last four digits of the stored ones.
\<close>

definition masks :: "pii_mask \<Rightarrow> string \<Rightarrow> pii_env \<Rightarrow> pii_env \<Rightarrow> bool \<Rightarrow> bool" where
  "masks m t env env' shown \<longleftrightarrow>
     inj (pm_hash m) \<and>
     (\<forall>s. pesel_pattern (pm_number m s) = pesel_pattern s \<and> (pm_number m s = [] \<longleftrightarrow> s = [])) \<and>
     (\<forall>s. pe_encrypt env' t (pm_number m s) = map_sum id (mask_enc m) (pe_encrypt env t s)) \<and>
     (shown \<longrightarrow> (\<forall>c. pesel_hint env' t (pm_cipher m c) = pesel_hint env t c))"

lemma mask_row_simps [simp]:
  "em_id (mask_row m e) = em_id e" "em_userId (mask_row m e) = em_userId e" "em_unitId (mask_row m e) = em_unitId e"
  "em_hiredAt (mask_row m e) = em_hiredAt e" "em_pesel (mask_row m e) = pm_cipher m (em_pesel e)"
  "em_peselHash (mask_row m e) = pm_hash m (em_peselHash e)" "toSafeEmployee (mask_row m e) = toSafeEmployee e"
  by (simp_all add: mask_row_def toSafeEmployee_def)

lemma mask_db_simps [simp]:
  "t_employees (mask_db m db) = map (mask_row m) (t_employees db)" "t_users (mask_db m db) = t_users db"
  "t_userRoles (mask_db m db) = t_userRoles db" "t_units (mask_db m db) = t_units db" "t_audit (mask_db m db) = t_audit db"
  by (simp_all add: mask_db_def)

lemma find_row_mask [simp]: "find_row em_id i (map (mask_row m) es) = map_option (mask_row m) (find_row em_id i es)"
  by (induction es) auto

lemma user_has_sub_mask [simp]: "user_has_sub (mask_db m db) = user_has_sub db"
  by (intro ext) (simp add: user_has_sub_def)

lemma callerEmployee_mask [simp]: "callerEmployee (mask_db m db) sub = map_option (mask_row m) (callerEmployee db sub)"
proof -
  have "find (\<lambda>e. case em_userId e of None \<Rightarrow> False | Some uid \<Rightarrow> P uid) (map (mask_row m) es) =
      map_option (mask_row m) (find (\<lambda>e. case em_userId e of None \<Rightarrow> False | Some uid \<Rightarrow> P uid) es)" for P es
    by (induction es) (auto split: option.splits)
  from this [of "\<lambda>uid. user_has_sub db uid sub"] show ?thesis by (simp add: callerEmployee_def cong: option.case_cong)
qed

lemma mask_reads [simp]:
  "findEmployee (mask_db m db) i = map_option (mask_row m) (findEmployee db i)"
  "managedUnitIds (mask_db m db) sub = managedUnitIds db sub"
  "ownUnitId (mask_db m db) sub = ownUnitId db sub"
  "employee_fks (mask_db m db) (mask_row m e) = employee_fks db e"
  by (simp_all add: findEmployee_def managedUnitIds_def ownUnitId_def employee_fks_def option.map_comp comp_def)

lemma resolveScopeUnits_mask [simp]: "resolveScopeUnits (mask_db m db) act = resolveScopeUnits db act"
  by (simp add: resolveScopeUnits_def cong: if_cong)

lemma clash_mask: "inj (pm_hash m) \<Longrightarrow> hash_clash (map (mask_row m) es) (mask_row m e) = hash_clash es e"
  by (auto simp: hash_clash_def list_ex_iff inj_eq)

lemma patch_mask:
  "employee_patch (dto\<lparr>ue_pesel := x\<rparr>) (map_option (mask_enc m) enc) (mask_row m e) = mask_row m (employee_patch dto enc e)"
  by (simp add: employee_patch_def mask_row_def mask_enc_def split: option.splits)

lemma new_employee_mask:
  "new_employee i (dto\<lparr>ce_pesel := x\<rparr>) (mask_enc m enc) = mask_row m (new_employee i dto enc)"
  by (simp add: new_employee_def mask_row_def mask_enc_def)

lemma tracks_employees_audit: "tracks (mask_db m) id (employees_audit act a i p) (employees_audit act a i p)"
  by (simp add: tracks_def employees_audit_def audit_log_def mask_db_def)

lemma tracks_mapWriteError: "tracks h g (employees_mapWriteError e) (employees_mapWriteError e)"
  by (simp add: employees_mapWriteError_def svc_tracks)

lemma tracks_constraints:
  "inj (pm_hash m) \<Longrightarrow> tracks (mask_db m) id (employee_constraints e) (employee_constraints (mask_row m e))"
  by (simp add: tracks_def employee_constraints_def clash_mask)

lemma tracks_insert:
  assumes "inj (pm_hash m)"
  shows "tracks (mask_db m) (mask_row m) (employee_insert e) (employee_insert (mask_row m e))"
  unfolding employee_insert_def
  by (rule tracks_bnd_same [OF tracks_constraints [OF assms]]) (simp add: tracks_def mask_db_def)

lemma update_rows_mask:
  assumes "\<And>e. f' (mask_row m e) = mask_row m (f e)"
  shows "update_rows (\<lambda>e. em_id e = i) f' (map (mask_row m) es) = map (mask_row m) (update_rows (\<lambda>e. em_id e = i) f es)"
  using assms by (induction es) auto

lemma tracks_write:
  assumes "inj (pm_hash m)"
  shows "tracks (mask_db m) (mask_row m) (employee_write i dto enc)
    (employee_write i (dto\<lparr>ue_pesel := x\<rparr>) (map_option (mask_enc m) enc))"
proof -
  have up: "tracks (mask_db m) (mask_row m)
      (update_row t_employees put_employees em_id (P2025 ''employees'') i (employee_patch dto enc))
      (update_row t_employees put_employees em_id (P2025 ''employees'') i
        (employee_patch (dto\<lparr>ue_pesel := x\<rparr>) (map_option (mask_enc m) enc)))"
    using update_rows_mask [where f = "employee_patch dto enc" and i = i,
        of "employee_patch (dto\<lparr>ue_pesel := x\<rparr>) (map_option (mask_enc m) enc)", OF patch_mask]
    by (intro tracksI) (auto simp: patch_mask mask_db_def split: option.splits)
  show ?thesis
    unfolding employee_write_def
    by (intro tracks_bnd [where g = "map_option (mask_row m)" and m = "asks _"] tracks_bnd [where g = "mask_row m" and m = "require _ _"],
        unfold patch_mask)
       (intro tracks_bnd_same [OF tracks_constraints [OF assms]] up svc_tracks mask_reads refl)+
qed

lemma tracks_encrypt_pesel:
  "masks m t env env' shown \<Longrightarrow> tracks (mask_db m) (mask_enc m) (encrypt_pesel env t p) (encrypt_pesel env' t (pm_number m p))"
  unfolding encrypt_pesel_def
  by (rule tracks_lift_sum) (simp add: masks_def sum.map_comp comp_def)

lemma tracks_update_encrypt:
  assumes "masks m t env env' shown"
  shows "tracks (mask_db m) (map_option (mask_enc m)) (update_encrypt env t p) (update_encrypt env' t (map_option (pm_number m) p))"
proof (cases p)
  case (Some s)
  moreover have "pm_number m s = [] \<longleftrightarrow> s = []" using assms by (simp add: masks_def)
  ultimately show ?thesis
    by (auto simp: update_encrypt_def intro!: tracks_bnd [OF tracks_encrypt_pesel [OF assms]] svc_tracks)
qed (simp add: update_encrypt_def tracks_def)

lemma tracks_employees_create:
  assumes "masks m t env env' shown"
  shows "tracks (mask_db m) id (employees_create env newId act dto t)
    (employees_create env' newId act (dto\<lparr>ce_pesel := pm_number m (ce_pesel dto)\<rparr>) t)"
proof -
  have inj: "inj (pm_hash m)" using assms by (simp add: masks_def)
  show ?thesis
    unfolding employees_create_def
    by (auto simp: new_employee_mask intro!: tracks_bnd_same [where m = "ensure _ _"] tracks_bnd [OF tracks_encrypt_pesel [OF assms]]
        tracks_bnd [OF tracks_catch [OF tracks_insert [OF inj] tracks_mapWriteError]]
        tracks_bnd_same [OF tracks_employees_audit] svc_tracks)
qed

lemma tracks_employees_update:
  assumes "masks m t env env' shown"
  shows "tracks (mask_db m) id (employees_update env act i dto t)
    (employees_update env' act i (dto\<lparr>ue_pesel := map_option (pm_number m) (ue_pesel dto)\<rparr>) t)"
proof -
  have inj: "inj (pm_hash m)" using assms by (simp add: masks_def)
  show ?thesis
    unfolding employees_update_def
    by (auto intro!: tracks_bnd_same [where m = "ensure _ _"] tracks_bnd [where g = "map_option (mask_row m)" and m = "asks _"]
        tracks_bnd [where g = "mask_row m" and m = "require _ _"] tracks_bnd [OF tracks_update_encrypt [OF assms]]
        tracks_bnd [OF tracks_catch [OF tracks_write [OF inj] tracks_mapWriteError]]
        tracks_bnd_same [OF tracks_employees_audit] svc_tracks)
qed

lemma tracks_employees_getById:
  assumes "masks m t env env' (isGlobal (act_roles act))"
  shows "tracks (mask_db m) id (employees_getById env act i t) (employees_getById env' act i t)"
proof -
  have "isGlobal (act_roles act) \<Longrightarrow> pesel_hint env' t (pm_cipher m c) = pesel_hint env t c" for c
    using assms by (simp add: masks_def)
  then show ?thesis
    unfolding employees_getById_def
    by (intro tracks_bnd [where g = "map_option (mask_row m)" and m = "asks (\<lambda>db. findEmployee db i)"]
          tracks_bnd [where g = "mask_row m" and m = "require _ _"])
       (auto intro!: tracks_bnd_same [where m = "asks _"] tracks_bnd_same [where m = "ensure _ _"] svc_tracks)
qed

lemma tracks_employees_me: "tracks (mask_db m) id (employees_me act) (employees_me act)"
  unfolding employees_me_def
  by (auto intro!: tracks_bnd [where g = "map_option (mask_row m)" and m = "asks _"]
      tracks_bnd [where g = "mask_row m" and m = "require _ _"] svc_tracks)

lemma tracks_employees_list: "tracks (mask_db m) id (employees_list act) (employees_list act)"
proof -
  have sorted: "sort_key (\<lambda>e. - em_hiredAt e) (map (mask_row m) es) = map (mask_row m) (sort_key (\<lambda>e. - em_hiredAt e) es)" for es
    by (rule sort_key_map_same) simp
  show ?thesis
    unfolding employees_list_def by (rule tracks_asks) (simp add: filter_map comp_def sorted)
qed

text \<open>
  C40. Personal data stay inside the table. Replace every stored ciphertext, blind index, home address and
  coordinate, and the number in the request, by other ones, such that equal numbers stay equal: every request
  gives the same answer, to the letter, and writes the same audit log. Only HR and administrators can tell
  the difference between two ciphertexts at all, and only by the last four digits.
\<close>

theorem personal_data_stay_inside:
  assumes masks: "masks m t env env' (isGlobal (act_roles act))"
    and run: "employees_handle env t act req db = (r, db')"
  shows "employees_handle env' t act (mask_req m req) (mask_db m db) = (r, mask_db m db') \<and>
    t_audit (snd (employees_handle env' t act (mask_req m req) (mask_db m db))) = t_audit db'"
proof -
  have "tracks (mask_db m) id (employees_body env t act req) (employees_body env' t act (mask_req m req))"
  proof (cases req)
    case (EqUpdate i dto)
    have "update_dto_valid (dto\<lparr>ue_pesel := map_option (pm_number m) (ue_pesel dto)\<rparr>) = update_dto_valid dto"
      using masks by (auto simp: update_dto_valid_def masks_def split: option.splits)
    with EqUpdate show ?thesis
      by (auto intro!: tracks_bnd_same [where m = "ensure _ _"] tracks_bnd_same [OF tracks_employees_update [OF masks]] svc_tracks)
  next
    case (EqCreate newId dto)
    have "create_dto_valid (dto\<lparr>ce_pesel := pm_number m (ce_pesel dto)\<rparr>) = create_dto_valid dto"
      using masks by (auto simp: create_dto_valid_def masks_def)
    with EqCreate show ?thesis
      by (auto intro!: tracks_bnd_same [where m = "ensure _ _"] tracks_bnd_same [OF tracks_employees_create [OF masks]] svc_tracks)
  qed (auto intro!: tracks_bnd_same [OF tracks_employees_list] tracks_bnd_same [OF tracks_employees_me]
        tracks_bnd_same [OF tracks_employees_getById [OF masks]] svc_tracks split: prod.splits)
  moreover have "employees_roles (mask_req m req) = employees_roles req"
    by (cases req) (simp_all add: employees_roles_def)
  ultimately have "tracks (mask_db m) id (employees_handle env t act req) (employees_handle env' t act (mask_req m req))"
    unfolding employees_handle_def guarded_def
    by (auto intro!: tracks_bnd_same [where m = "lift_sum _"] svc_tracks simp: sum.map_id0)
  from tracksD [OF this run] show ?thesis by (simp add: sum.map_id0)
qed

section \<open>A sample\<close>

text \<open>A platform that seals without hiding anything, two key rings and a tenant with one unit.\<close>

definition clear_platform :: platform where
  "clear_platform =
     \<lparr>gcm_seal = (\<lambda>key iv aad p. (map (\<lambda>c. of_nat (of_char c)) p, replicate AUTH_TAG_LENGTH 0)),
      gcm_open = (\<lambda>key iv aad tag c. Some (map (\<lambda>b. char_of (unat b)) c)),
      hmac_sha256 = (\<lambda>key v. map (\<lambda>c. of_nat (of_char c)) v)\<rparr>"

definition ring1 :: keyring where
  "ring1 = \<lparr>kr_keys = [(1, replicate KEY_LENGTH 7)], kr_activeVersion = 1\<rparr>"

definition ring2 :: keyring where
  "ring2 = \<lparr>kr_keys = [(1, replicate KEY_LENGTH 7), (2, replicate KEY_LENGTH 9)], kr_activeVersion = 2\<rparr>"

definition sample_pii :: "keyring \<Rightarrow> pii_env" where
  "sample_pii kr = service_pii clear_platform kr (replicate IV_LENGTH 3) (replicate KEY_LENGTH 5)"

definition employees_db :: tenant_db where
  "employees_db = (sample_db SW_DRAFT)\<lparr>t_units := [\<lparr>ou_id = ''u1'', ou_name = ''U'', ou_parentId = None, ou_managerUserId = None\<rparr>]\<rparr>"

definition hr9 :: actor where
  "hr9 = \<lparr>act_userId = ''k9'', act_roles = [''HR''], act_ipAddress = ''ip''\<rparr>"

definition sample_create :: create_employee_dto where
  "sample_create =
     \<lparr>ce_firstName = ''C'', ce_lastName = ''D'', ce_position = ''chef'', ce_employmentType = B2B, ce_unitId = ''u1'',
      ce_pesel = ''44051401359'', ce_hiredAt = 0, ce_etat = None, ce_qualifications = None\<rparr>"

lemmas employees_sample_defs = employees_db_def hr9_def sample_create_def sample_defs

lemma clear_platform_ok: "gcm_ok clear_platform"
  by (auto simp: gcm_ok_def clear_platform_def comp_def unat_of_nat of_char_of intro!: map_idI)

lemma rings_ok: "ring_ok ring1" "rotated ring1 ring2"
  by (auto simp: ring_ok_def rotated_def ring1_def ring2_def key_of_def)

lemma employees_db_ok: "employees_ok employees_db"
  by (simp add: employees_ok_def employees_sample_defs employee_fks_def)

lemma sample_encrypts: "\<exists>x. pe_encrypt (sample_pii ring1) ''t1'' ''44051401359'' = Inr x \<and> ep_peselHash x = hex_text (map (\<lambda>c. of_nat (of_char c)) ''44051401359'')"
proof -
  have "pesel_pattern ''44051401359''" by (simp add: pesel_pattern_def is_digit_def)
  from normalize_digits [OF this] decrypt_encrypt [OF clear_platform_ok rings_ok, of "replicate IV_LENGTH 3" "''44051401359''" "Some (peselAad ''t1'')"]
  show ?thesis
    by (auto simp: sample_pii_def service_pii_def encryptEmployeePesel_def hmacBlindIndex_def assertKey_def clear_platform_def)
qed

lemma sample_new_employee:
  "\<exists>s db'. employees_handle (sample_pii ring1) ''t1'' hr9 (EqCreate ''e9'' sample_create) employees_db = (Inr (EaEmployee s), db')"
proof -
  obtain x where x: "pe_encrypt (sample_pii ring1) ''t1'' ''44051401359'' = Inr x"
    "ep_peselHash x = hex_text (map (\<lambda>c. of_nat (of_char c)) ''44051401359'')"
    using sample_encrypts by blast
  have "hex_text (map (\<lambda>c. of_nat (of_char c)) ''44051401359'') \<noteq> ''h'' @ i" for i
    by (simp add: hex_text_def char_of_def)
  from x this this [symmetric] show ?thesis
    by (simp add: employees_handle_def guarded_def canActivate_def employees_roles_def EMPLOYEE_WRITE_ROLES_def
        create_dto_valid_def pesel_pattern_def is_digit_def etat_valid_def employees_create_def encrypt_pesel_def
        employee_insert_def employee_constraints_def hash_clash_def employee_fks_def employees_audit_def audit_log_def
        catch_def bnd_def lift_sum_def isGlobal_iff employees_sample_defs)
qed

lemma one_employee_per_pesel_witness:
  "employees_ok (snd (employees_handle (sample_pii ring1) ''t1'' hr9 (EqCreate ''e9'' sample_create) employees_db))"
proof -
  have "employees_fresh (EqCreate ''e9'' sample_create) employees_db" by (simp add: employees_sample_defs)
  from one_employee_per_pesel [OF employees_db_ok this surjective_pairing] show ?thesis by simp
qed

lemma pesel_round_trip_witness:
  "\<exists>e s db'. findEmployee db' ''e9'' = Some e \<and> 
     decryptEmployeePesel clear_platform ring2 ''t1'' (em_pesel e) = Inr ''44051401359'' \<and>
     employees_handle (sample_pii ring2) ''t1'' hr9 (EqGet ''e9'') db' = (Inr (EaProfile s (Some ''1359'')), db')"
proof -
  obtain s db' where run: "employees_handle (sample_pii ring1) ''t1'' hr9 (EqCreate ''e9'' sample_create) employees_db =
      (Inr (EaEmployee s), db')"
    using sample_new_employee by blast
  have "(\<exists>e. findEmployee db' ''e9'' = Some e \<and>
        decryptEmployeePesel clear_platform ring2 ''t1'' (em_pesel e) = Inr (ce_pesel sample_create)) \<and>
      employees_handle (sample_pii ring2) ''t1'' hr9 (EqGet ''e9'') db' =
      (Inr (EaProfile s (Some (last4 (ce_pesel sample_create)))), db')"
    unfolding sample_pii_def
    by (rule pesel_round_trip [OF clear_platform_ok rings_ok _ run [unfolded sample_pii_def], of HR])
      (simp_all add: employees_sample_defs)
  then show ?thesis by (auto simp: sample_create_def last4_def)
qed

definition mirror :: pii_mask where
  "mirror = \<lparr>pm_cipher = rev, pm_hash = rev, pm_address = rev, pm_coord = uminus, pm_number = id\<rparr>"

definition mirror_pii :: "pii_env \<Rightarrow> pii_env" where
  "mirror_pii env =
     \<lparr>pe_encrypt = (\<lambda>t s. map_sum id (mask_enc mirror) (pe_encrypt env t s)), pe_decrypt = (\<lambda>t c. pe_decrypt env t (rev c))\<rparr>"

lemma personal_data_stay_inside_witness:
  "t_audit (snd (employees_handle (mirror_pii (sample_pii ring1)) ''t1'' hr9 (mask_req mirror (EqCreate ''e9'' sample_create))
      (mask_db mirror employees_db))) =
   t_audit (snd (employees_handle (sample_pii ring1) ''t1'' hr9 (EqCreate ''e9'' sample_create) employees_db))"
proof -
  have "masks mirror ''t1'' (sample_pii ring1) (mirror_pii (sample_pii ring1)) (isGlobal (act_roles hr9))"
    by (simp add: masks_def mirror_def mirror_pii_def pesel_hint_def inj_def)
  from personal_data_stay_inside [OF this surjective_pairing] show ?thesis by (rule conjunct2)
qed

end
