(* ===== verification/ClientCache.thy ===== *)
theory ClientCache
  imports Prelude
begin

text \<open>
  The cache of tenant database clients, \<open>packages/db/src/TenantPrismaManager.ts\<close>, under every interleaving of
  its asynchronous calls. A client is a number. One function per stretch of code that runs without an
  \<open>await\<close>; the step relation interleaves them with the evictions of the LRU cache, which may drop any entry
  (capacity or idle time) at any moment. \<open>cc_open\<close> is the set of clients that are connected.
\<close>

section \<open>The state and its operations\<close>

record client_cache =
  cc_cache :: "(id \<times> nat) list"
  cc_inflight :: "id list"
  cc_granted :: "nat list"
  cc_leases :: "nat \<Rightarrow> nat"
  cc_deferred :: "nat list"
  cc_open :: "nat list"
  cc_next :: nat

definition disconnect :: "nat \<Rightarrow> client_cache \<Rightarrow> client_cache" where
  "disconnect c s = s\<lparr>cc_open := filter (\<lambda>x. x \<noteq> c) (cc_open s)\<rparr>"

definition disposeClient :: "nat \<Rightarrow> client_cache \<Rightarrow> client_cache" where
  "disposeClient c s = (if 0 < cc_leases s c then s\<lparr>cc_deferred := c # cc_deferred s\<rparr> else disconnect c s)"

text \<open>The eviction of an entry, by the LRU policy, the idle timer or \<open>evict\<close>.\<close>

definition cache_drop :: "id \<Rightarrow> client_cache \<Rightarrow> client_cache" where
  "cache_drop tid s =
     (case map_of (cc_cache s) tid of
        None \<Rightarrow> s
      | Some c \<Rightarrow> disposeClient c (s\<lparr>cc_cache := filter (\<lambda>e. fst e \<noteq> tid) (cc_cache s)\<rparr>))"

text \<open>
  The first stretch of \<open>getClient\<close>: a cached client is granted, a call for a tenant whose client is being
  opened waits for it, and otherwise the opening begins.
\<close>

definition getClient_begin :: "id \<Rightarrow> client_cache \<Rightarrow> client_cache" where
  "getClient_begin tid s =
     (case map_of (cc_cache s) tid of
        Some c \<Rightarrow> s\<lparr>cc_granted := c # cc_granted s\<rparr>
      | None \<Rightarrow> if tid \<in> set (cc_inflight s) then s else s\<lparr>cc_inflight := tid # cc_inflight s\<rparr>)"

text \<open>The stretch behind \<open>$connect\<close>: the new client is cached and granted to \<open>n\<close> waiting calls.\<close>

definition getClient_opened :: "id \<Rightarrow> nat \<Rightarrow> client_cache \<Rightarrow> client_cache" where
  "getClient_opened tid n s =
     (let c = cc_next s;
          s1 = cache_drop tid s
      in s1\<lparr>cc_cache := (tid, c) # cc_cache s1, cc_open := c # cc_open s1, cc_next := Suc c,
           cc_inflight := filter (\<lambda>x. x \<noteq> tid) (cc_inflight s1), cc_granted := replicate n c @ cc_granted s1\<rparr>)"

definition getClient_failed :: "id \<Rightarrow> client_cache \<Rightarrow> client_cache" where
  "getClient_failed tid s = s\<lparr>cc_inflight := filter (\<lambda>x. x \<noteq> tid) (cc_inflight s)\<rparr>"

text \<open>\<open>withClient\<close>: the borrow is counted when the awaited \<open>getClient\<close> has answered, and released at the end.\<close>

definition borrow :: "nat \<Rightarrow> client_cache \<Rightarrow> client_cache" where
  "borrow c s = s\<lparr>cc_granted := remove1 c (cc_granted s), cc_leases := (cc_leases s)(c := Suc (cc_leases s c))\<rparr>"

definition release :: "nat \<Rightarrow> client_cache \<Rightarrow> client_cache" where
  "release c s =
     (let s1 = s\<lparr>cc_leases := (cc_leases s)(c := cc_leases s c - 1)\<rparr>
      in if cc_leases s1 c = 0 \<and> c \<in> set (cc_deferred s)
         then disconnect c (s1\<lparr>cc_deferred := filter (\<lambda>x. x \<noteq> c) (cc_deferred s)\<rparr>) else s1)"

definition disconnectAll :: "client_cache \<Rightarrow> client_cache" where
  "disconnectAll s =
     (let clients = map snd (cc_cache s)
      in fold disconnect clients (fold disposeClient clients (s\<lparr>cc_cache := []\<rparr>)))"

inductive cache_step :: "client_cache \<Rightarrow> client_cache \<Rightarrow> bool" where
  begins: "cache_step s (getClient_begin tid s)"
| opened: "tid \<in> set (cc_inflight s) \<Longrightarrow> cache_step s (getClient_opened tid n s)"
| failed: "tid \<in> set (cc_inflight s) \<Longrightarrow> cache_step s (getClient_failed tid s)"
| answered: "c \<in> set (cc_granted s) \<Longrightarrow> cache_step s (s\<lparr>cc_granted := remove1 c (cc_granted s)\<rparr>)"
| borrows: "c \<in> set (cc_granted s) \<Longrightarrow> cache_step s (borrow c s)"
| releases: "0 < cc_leases s c \<Longrightarrow> cache_step s (release c s)"
| evicts: "cache_step s (cache_drop tid s)"

inductive_cases cache_stepE: "cache_step s t"

inductive cache_run :: "client_cache \<Rightarrow> client_cache \<Rightarrow> bool" where
  done_run: "cache_run s s"
| step_run: "cache_step s t \<Longrightarrow> cache_run t u \<Longrightarrow> cache_run s u"

definition no_clients :: client_cache where
  "no_clients = \<lparr>cc_cache = [], cc_inflight = [], cc_granted = [], cc_leases = (\<lambda>_. 0), cc_deferred = [], cc_open = [], cc_next = 0\<rparr>"

lemmas client_defs = disconnect_def disposeClient_def cache_drop_def getClient_begin_def getClient_opened_def
  getClient_failed_def borrow_def release_def

section \<open>What the leases guarantee\<close>

text \<open>A client is dropped only through the cache, and a new one has a new number.\<close>

definition cache_wf :: "client_cache \<Rightarrow> bool" where
  "cache_wf s \<longleftrightarrow>
     distinct (map fst (cc_cache s)) \<and> distinct (map snd (cc_cache s)) \<and>
     (\<forall>c \<in> set (map snd (cc_cache s)) \<union> set (cc_open s) \<union> set (cc_deferred s) \<union> set (cc_granted s). c < cc_next s) \<and>
     (\<forall>c. 0 < cc_leases s c \<longrightarrow> c < cc_next s) \<and>
     (\<forall>c \<in> set (cc_deferred s). 0 < cc_leases s c \<and> c \<notin> set (map snd (cc_cache s))) \<and>
     (\<forall>c \<in> set (cc_open s). c \<in> set (map snd (cc_cache s)) \<or> c \<in> set (cc_deferred s))"

lemma delete_entry:
  assumes "distinct (map fst xs)" "distinct (map snd xs)" "map_of xs k = Some c"
  shows "set (map snd (filter (\<lambda>e. fst e \<noteq> k) xs)) = set (map snd xs) - {c}"
  using assms
proof (induction xs)
  case (Cons x xs)
  show ?case
  proof (cases "fst x = k")
    case True
    have "\<forall>e \<in> set xs. fst e \<noteq> k"
    proof
      fix e assume "e \<in> set xs"
      then have "fst e \<in> fst ` set xs" by (rule imageI)
      moreover have "fst x \<notin> fst ` set xs" using Cons.prems(1) by simp
      ultimately show "fst e \<noteq> k" using True by metis
    qed
    with Cons.prems(3) True have "c = snd x" "filter (\<lambda>e. fst e \<noteq> k) xs = xs" by simp_all
    with True Cons.prems show ?thesis by auto
  next
    case False
    with Cons.prems have c: "map_of xs k = Some c" by simp
    from map_of_SomeD [OF c] have "c \<in> set (map snd xs)" by force
    with False Cons c show ?thesis by auto
  qed
qed simp

lemma cache_drop_wf: "cache_wf s \<Longrightarrow> cache_wf (cache_drop tid s)"
proof (cases "map_of (cc_cache s) tid")
  case (Some c)
  assume wf: "cache_wf s"
  then have d: "distinct (map fst (cc_cache s))" "distinct (map snd (cc_cache s))" by (auto simp: cache_wf_def)
  from map_of_SomeD [OF Some] have "c \<in> set (map snd (cc_cache s))" by force
  with wf delete_entry [OF d Some] Some show ?thesis
    by (auto simp: cache_wf_def cache_drop_def disposeClient_def disconnect_def distinct_map_filter)
qed (simp add: cache_drop_def)

lemma cache_drop_frame:
  "cc_next (cache_drop tid s) = cc_next s" "cc_granted (cache_drop tid s) = cc_granted s"
  "cc_leases (cache_drop tid s) = cc_leases s" "cc_inflight (cache_drop tid s) = cc_inflight s"
  "tid \<notin> fst ` set (cc_cache (cache_drop tid s))"
  by (auto simp: cache_drop_def disposeClient_def disconnect_def map_of_eq_None_iff split: option.splits)

lemma getClient_opened_wf: "cache_wf s \<Longrightarrow> cache_wf (getClient_opened tid n s)"
proof -
  assume "cache_wf s"
  then have wf: "cache_wf (cache_drop tid s)" by (rule cache_drop_wf)
  let ?d = "cache_drop tid s" and ?n = "cc_next s" and ?t = "getClient_opened tid n s"
  have t: "cc_cache ?t = (tid, ?n) # cc_cache ?d" "cc_open ?t = ?n # cc_open ?d" "cc_next ?t = Suc ?n"
    "cc_granted ?t = replicate n ?n @ cc_granted ?d" "cc_leases ?t = cc_leases ?d" "cc_deferred ?t = cc_deferred ?d"
    by (simp_all add: getClient_opened_def Let_def)
  have known: "c < ?n" if "c \<in> set (map snd (cc_cache ?d)) \<or> c \<in> set (cc_open ?d) \<or> c \<in> set (cc_deferred ?d) \<or>
      c \<in> set (cc_granted ?d) \<or> 0 < cc_leases ?d c" for c
    using wf that unfolding cache_wf_def cache_drop_frame(1) by blast
  then have fresh: "?n \<notin> set (map snd (cc_cache ?d))" "?n \<notin> set (cc_deferred ?d)" by blast+
  show ?thesis
    unfolding cache_wf_def
  proof (intro conjI)
    show "distinct (map fst (cc_cache ?t))" "distinct (map snd (cc_cache ?t))"
      using wf fresh(1) cache_drop_frame(5) [of tid s] by (simp_all add: t cache_wf_def)
    show "\<forall>c \<in> set (map snd (cc_cache ?t)) \<union> set (cc_open ?t) \<union> set (cc_deferred ?t) \<union> set (cc_granted ?t). c < cc_next ?t"
      using known by (force simp: t less_Suc_eq)
    show "\<forall>c. 0 < cc_leases ?t c \<longrightarrow> c < cc_next ?t" using known by (simp add: t less_SucI)
    show "\<forall>c \<in> set (cc_deferred ?t). 0 < cc_leases ?t c \<and> c \<notin> set (map snd (cc_cache ?t))"
      using wf fresh(2) by (auto simp: t cache_wf_def)
    show "\<forall>c \<in> set (cc_open ?t). c \<in> set (map snd (cc_cache ?t)) \<or> c \<in> set (cc_deferred ?t)"
      using wf by (auto simp: t cache_wf_def)
  qed
qed

lemma release_wf: "cache_wf s \<Longrightarrow> cache_wf (release c s)"
  by (auto simp: cache_wf_def release_def disconnect_def Let_def)

lemma granted_known: "cache_wf s \<Longrightarrow> c \<in> set (cc_granted s) \<Longrightarrow> c < cc_next s"
  by (auto simp: cache_wf_def)

lemma getClient_begin_wf: "cache_wf s \<Longrightarrow> cache_wf (getClient_begin tid s)"
proof (cases "map_of (cc_cache s) tid")
  case (Some c)
  assume wf: "cache_wf s"
  from map_of_SomeD [OF Some] have "c \<in> set (map snd (cc_cache s))" by force
  with wf have "c < cc_next s" unfolding cache_wf_def by blast
  with wf Some show ?thesis by (simp add: getClient_begin_def cache_wf_def)
qed (simp add: getClient_begin_def cache_wf_def)

lemma granted_wf:
  assumes "cache_wf s" "c \<in> set (cc_granted s)"
  shows "cache_wf (s\<lparr>cc_granted := remove1 c (cc_granted s)\<rparr>)" "cache_wf (borrow c s)"
  using assms granted_known [OF assms] set_remove1_subset [of c "cc_granted s"]
  by (auto simp: borrow_def cache_wf_def)

lemma failed_wf: "cache_wf s \<Longrightarrow> cache_wf (getClient_failed tid s)"
  by (simp add: getClient_failed_def cache_wf_def)

lemma cache_step_wf: "cache_step s t \<Longrightarrow> cache_wf s \<Longrightarrow> cache_wf t"
  by (induction rule: cache_step.induct)
    (blast intro: getClient_begin_wf getClient_opened_wf granted_wf release_wf cache_drop_wf failed_wf)+

text \<open>A borrowed client that is connected stays connected until its last borrower releases it.\<close>

lemma borrowed_stays_open:
  assumes "cache_step s t" and "cache_wf s" and "0 < cc_leases s c" and "c \<in> set (cc_open s)"
  shows "c \<in> set (cc_open t) \<or> cc_leases t c = 0"
  using assms
  by (cases rule: cache_step.cases)
     (auto simp: client_defs Let_def split: option.splits if_splits)

text \<open>Nothing leaks: a connected client is cached, or evicted and waiting for its last borrower.\<close>

lemma no_client_leaks: "cache_run s t \<Longrightarrow> cache_wf s \<Longrightarrow> cache_wf t"
  by (induction rule: cache_run.induct) (auto intro: cache_step_wf)

text \<open>
  The gap before the count: a client that is evicted between the answer of \<open>getClient\<close> and the count of the
  borrow is disconnected, and the borrow then holds a disconnected client.
\<close>

lemma evicted_before_the_borrow:
  "\<exists>s. cache_run no_clients s \<and> cc_leases s 0 = 1 \<and> cc_open s = []"
proof -
  define s1 where "s1 = getClient_begin ''t1'' no_clients"
  define s2 where "s2 = getClient_opened ''t1'' 1 s1"
  define s3 where "s3 = cache_drop ''t1'' s2"
  define s4 where "s4 = borrow 0 s3"
  note defs = s1_def s2_def s3_def s4_def client_defs no_clients_def
  have "cache_step no_clients s1" unfolding s1_def by (rule begins)
  moreover have "cache_step s1 s2" unfolding s2_def by (rule opened) (simp add: defs)
  moreover have "cache_step s2 s3" unfolding s3_def by (rule evicts)
  moreover have "cache_step s3 s4" unfolding s4_def by (rule borrows) (simp add: defs)
  ultimately have "cache_run no_clients s4" by (blast intro: cache_run.intros)
  moreover have "cc_leases s4 0 = 1 \<and> cc_open s4 = []" by (simp add: defs)
  ultimately show ?thesis by blast
qed

text \<open>A shutdown disconnects borrowed clients too.\<close>

lemma shutdown_ignores_borrows:
  assumes "cc_cache s = [(tid, c)]" and "cc_leases s c = Suc n"
  shows "c \<notin> set (cc_open (disconnectAll s)) \<and> cc_leases (disconnectAll s) c = Suc n"
  using assms by (simp add: disconnectAll_def disposeClient_def disconnect_def)

end
