(* ===== verification/ControlPlane.thy ===== *)
theory ControlPlane
  imports KeycloakAdmin Encryption
begin

text \<open>
  The control plane: sign-up of a tenant, the transactional outbox, the provisioning pipeline and its durable
  retries (\<open>apps/control-plane/src\<close>: \<open>tenants\<close>, \<open>outbox\<close>, \<open>provisioning\<close>).

  Everything outside of the control-plane database (the Postgres server that hosts the tenants, the migration
  tool, the tenant database that is seeded, Keycloak, the message broker) is a world of unknown type with one
  call per kind of request; any call may fail. A service runs over the database and the world together.
\<close>

section \<open>The database and the world\<close>

datatype provisioning_step = CREATE_DB | RUN_MIGRATIONS | SEED | KEYCLOAK_SETUP | DONE | FAILED

record tenant_meta =
  mt_adminEmail :: "string option"
  mt_realmName :: "string option"
  mt_keycloakClientId :: "string option"

record tenant_row =
  tn_id :: id
  tn_slug :: string
  tn_name :: string
  tn_status :: tenant_status
  tn_dbUrl :: "string option"
  tn_metadata :: tenant_meta
  tn_provisionedAt :: "int option"

record job_row =
  pj_id :: id
  pj_tenantId :: id
  pj_step :: provisioning_step
  pj_attemptCount :: int
  pj_lastError :: "string option"
  pj_nextAttemptAt :: "int option"

text \<open>The message of the pipeline, which is also the payload of an outbox event.\<close>

record provision_msg =
  ms_jobId :: id
  ms_tenantId :: id

record outbox_row =
  ob_id :: id
  ob_routingKey :: string
  ob_payload :: provision_msg
  ob_publishedAt :: "int option"
  ob_createdAt :: int

record 'w plane =
  pl_tenants :: "tenant_row list"
  pl_jobs :: "job_row list"
  pl_outbox :: "outbox_row list"
  pl_world :: 'w

type_synonym ('w, 'a) plane_svc = "('w plane, app_error, 'a) svc"

abbreviation put_tenants :: "tenant_row list \<Rightarrow> 'w plane \<Rightarrow> 'w plane" where
  "put_tenants rs \<equiv> pl_tenants_update (\<lambda>_. rs)"

abbreviation put_jobs :: "job_row list \<Rightarrow> 'w plane \<Rightarrow> 'w plane" where
  "put_jobs rs \<equiv> pl_jobs_update (\<lambda>_. rs)"

abbreviation put_outbox :: "outbox_row list \<Rightarrow> 'w plane \<Rightarrow> 'w plane" where
  "put_outbox rs \<equiv> pl_outbox_update (\<lambda>_. rs)"

interpretation tenant_table: table pl_tenants put_tenants tn_id
  by unfold_locales auto

interpretation job_table: table pl_jobs put_jobs pj_id
  by unfold_locales auto

interpretation outbox_table: table pl_outbox put_outbox ob_id
  by unfold_locales auto

text \<open>The statements of the database step, and the requests of the Keycloak step.\<close>

datatype pg_cmd =
  PgRoleExists string
| PgAlterRole string string
| PgCreateRole string string
| PgDbExists string
| PgCreateDb string string

text \<open>The first argument is the bearer token (the admin password for \<open>KpToken\<close>), then the realm.\<close>

datatype kp_request =
  KpToken string
| KpRealm string string
| KpRole string string role
| KpClient string string string
| KpUser string string string string
| KpFind string string string
| KpGetRole string string role
| KpMap string string string "string option" "string option"
| KpEmail string string string

record exec_failure =
  xf_stderr :: "string option"
  xf_stdout :: "string option"
  xf_message :: "string option"

record 'w infra =
  if_pg :: "pg_cmd \<Rightarrow> ('w, app_error, bool) svc"
  if_migrate :: "string \<Rightarrow> ('w, exec_failure, unit) svc"
  if_seedUnit :: "string \<Rightarrow> string \<Rightarrow> ('w, app_error, unit) svc"
  if_disconnect :: "string \<Rightarrow> ('w, app_error, unit) svc"
  if_fetch :: "kp_request \<Rightarrow> ('w, app_error, kc_response) svc"
  if_emit :: "string \<Rightarrow> provision_msg \<Rightarrow> ('w, app_error, unit) svc"

text \<open>What a run is given: the world's calls, the encryption service, the settings and the random values.\<close>

record 'w plane_env =
  en_infra :: "'w infra"
  en_encrypt :: "string \<Rightarrow> crypto_error + string"
  en_decrypt :: "string \<Rightarrow> crypto_error + string"
  en_host :: string
  en_port :: string
  en_adminPassword :: string
  en_dbPassword :: string
  en_tempPassword :: string

definition at_world :: "('w, 'e, 'a) svc \<Rightarrow> ('w plane, 'e, 'a) svc" where
  "at_world m = (\<lambda>pl. case m (pl_world pl) of (r, w) \<Rightarrow> (r, pl\<lparr>pl_world := w\<rparr>))"

definition crypto :: "crypto_error + 'a \<Rightarrow> ('w, 'a) plane_svc" where
  "crypto r = lift_sum (map_sum (\<lambda>e. case e of CryptoError m \<Rightarrow> PlainError m | DecryptionError m \<Rightarrow> PlainError m) id r)"

section \<open>Sign-up\<close>

record signup_dto =
  sg_companyName :: string
  sg_slug :: string
  sg_adminEmail :: string

definition slug_char :: "char \<Rightarrow> bool" where
  "slug_char c \<longleftrightarrow> (let n = (of_char c :: nat) in (97 \<le> n \<and> n \<le> 122) \<or> (48 \<le> n \<and> n \<le> 57))"

definition slug_valid :: "string \<Rightarrow> bool" where
  "slug_valid s \<longleftrightarrow>
     3 \<le> length s \<and> length s \<le> 30 \<and> list_all (\<lambda>c. slug_char c \<or> c = CHR ''-'') s \<and> slug_char (hd s) \<and> slug_char (last s)"

definition signup_dto_valid :: "signup_dto \<Rightarrow> bool" where
  "signup_dto_valid dto \<longleftrightarrow> 2 \<le> length (sg_companyName dto) \<and> length (sg_companyName dto) \<le> 100 \<and> slug_valid (sg_slug dto)"

definition isSlugAvailable :: "string \<Rightarrow> ('w, bool) plane_svc" where
  "isSlugAvailable slug = asks (\<lambda>pl. \<not> list_ex (\<lambda>t. tn_slug t = slug) (pl_tenants pl))"

definition tenant_insert :: "tenant_row \<Rightarrow> ('w, tenant_row) plane_svc" where
  "tenant_insert t =
     bnd (isSlugAvailable (tn_slug t)) (\<lambda>free.
     bnd (ensure free (P2002 ''tenants.slug'')) (\<lambda>_.
     create_row pl_tenants put_tenants t))"

definition signup :: "id \<Rightarrow> id \<Rightarrow> id \<Rightarrow> int \<Rightarrow> signup_dto \<Rightarrow> ('w, id) plane_svc" where
  "signup tenantId jobId eventId now dto =
     catch
       (transaction
          (bnd (tenant_insert
                  \<lparr>tn_id = tenantId, tn_slug = sg_slug dto, tn_name = sg_companyName dto, tn_status = TS_PENDING, tn_dbUrl = None,
                   tn_metadata = \<lparr>mt_adminEmail = Some (sg_adminEmail dto), mt_realmName = None, mt_keycloakClientId = None\<rparr>,
                   tn_provisionedAt = None\<rparr>) (\<lambda>tenant.
           bnd (create_row pl_jobs put_jobs
                  \<lparr>pj_id = jobId, pj_tenantId = tn_id tenant, pj_step = CREATE_DB, pj_attemptCount = 0, pj_lastError = None,
                   pj_nextAttemptAt = None\<rparr>) (\<lambda>job.
           bnd (create_row pl_outbox put_outbox
                  \<lparr>ob_id = eventId, ob_routingKey = ''tenant.provision'',
                   ob_payload = \<lparr>ms_jobId = pj_id job, ms_tenantId = tn_id tenant\<rparr>, ob_publishedAt = None, ob_createdAt = now\<rparr>) (\<lambda>_.
           ret (pj_id job))))))
       (\<lambda>err. if is_P2002 err then throw (ConflictException ''Ta nazwa jest juz zajeta'') else throw err)"

section \<open>The outbox and the retries\<close>

text \<open>A claim takes the first rows of an order and marks them; \<open>RETURNING\<close> answers them.\<close>

definition BATCH :: nat where "BATCH = 50"

definition pending_events :: "outbox_row list \<Rightarrow> outbox_row list" where
  "pending_events obs = take BATCH (sort_key ob_createdAt (filter (\<lambda>e. ob_publishedAt e = None) obs))"

definition publish_one :: "'w plane_env \<Rightarrow> outbox_row \<Rightarrow> ('w, unit) plane_svc" where
  "publish_one env e =
     catch (at_world (if_emit (en_infra env) (ob_routingKey e) (ob_payload e)))
       (\<lambda>err. bnd (update_row pl_outbox put_outbox ob_id (P2025 ''outbox_events'') (ob_id e) (\<lambda>x. x\<lparr>ob_publishedAt := None\<rparr>)) (\<lambda>_. ret ()))"

definition publishPending :: "'w plane_env \<Rightarrow> int \<Rightarrow> ('w, unit) plane_svc" where
  "publishPending env now =
     bnd (asks (\<lambda>pl. pending_events (pl_outbox pl))) (\<lambda>events.
     bnd (updateMany pl_outbox put_outbox (\<lambda>x. ob_id x \<in> ob_id ` set events) (\<lambda>x. x\<lparr>ob_publishedAt := Some now\<rparr>)) (\<lambda>_.
     bnd (mapM (publish_one env) events) (\<lambda>_. ret ())))"

definition due_at :: "int \<Rightarrow> job_row \<Rightarrow> bool" where
  "due_at now j \<longleftrightarrow>
     (case pj_nextAttemptAt j of None \<Rightarrow> False | Some t \<Rightarrow> t \<le> now) \<and> pj_step j \<noteq> DONE \<and> pj_step j \<noteq> FAILED"

definition due_jobs :: "int \<Rightarrow> job_row list \<Rightarrow> job_row list" where
  "due_jobs now js = take BATCH (sort_key (\<lambda>j. the (pj_nextAttemptAt j)) (filter (due_at now) js))"

definition job_msg :: "job_row \<Rightarrow> provision_msg" where
  "job_msg j = \<lparr>ms_jobId = pj_id j, ms_tenantId = pj_tenantId j\<rparr>"

definition reenqueue_one :: "'w plane_env \<Rightarrow> int \<Rightarrow> job_row \<Rightarrow> ('w, unit) plane_svc" where
  "reenqueue_one env now j =
     catch (at_world (if_emit (en_infra env) ''tenant.provision'' (job_msg j)))
       (\<lambda>err. bnd (update_row pl_jobs put_jobs pj_id (P2025 ''provisioning_jobs'') (pj_id j)
                      (\<lambda>x. x\<lparr>pj_nextAttemptAt := Some (now + 10000)\<rparr>)) (\<lambda>_. ret ()))"

definition reEnqueueDue :: "'w plane_env \<Rightarrow> int \<Rightarrow> ('w, unit) plane_svc" where
  "reEnqueueDue env now =
     bnd (asks (\<lambda>pl. due_jobs now (pl_jobs pl))) (\<lambda>due.
     bnd (updateMany pl_jobs put_jobs (\<lambda>x. pj_id x \<in> pj_id ` set due) (\<lambda>x. x\<lparr>pj_nextAttemptAt := None\<rparr>)) (\<lambda>_.
     bnd (mapM (reenqueue_one env now) due) (\<lambda>_. ret ())))"

section \<open>Redacting error messages\<close>

definition lower :: "char \<Rightarrow> char" where
  "lower c = (let n = (of_char c :: nat) in if 65 \<le> n \<and> n \<le> 90 then char_of (n + 32) else c)"

fun strip_ci :: "string \<Rightarrow> string \<Rightarrow> string option" where
  "strip_ci [] s = Some s"
| "strip_ci (p # ps) [] = None"
| "strip_ci (p # ps) (c # s) = (if lower c = p then strip_ci ps s else None)"

definition url_char :: "char \<Rightarrow> bool" where
  "url_char c \<longleftrightarrow> c \<noteq> CHR ''@'' \<and> \<not> is_space c"

text \<open>\<open>/postgresql:\/\/[^@\s]*@/gi\<close>: the text behind a match at the head.\<close>

definition match_url :: "string \<Rightarrow> string option" where
  "match_url s =
     (case strip_ci ''postgresql://'' s of
        None \<Rightarrow> None
      | Some r \<Rightarrow> (case dropWhile url_char r of c # rest \<Rightarrow> if c = CHR ''@'' then Some rest else None | [] \<Rightarrow> None))"

lemma strip_ci_length: "strip_ci p s = Some r \<Longrightarrow> length s = length p + length r"
  by (induction p s rule: strip_ci.induct) (auto split: if_splits)

lemma match_url_shorter: "match_url s = Some rest \<Longrightarrow> length rest < length s"
proof -
  assume "match_url s = Some rest"
  then obtain r c where r: "strip_ci ''postgresql://'' s = Some r" "dropWhile url_char r = c # rest"
    by (auto simp: match_url_def split: option.splits list.splits if_splits)
  have "length (c # rest) \<le> length r" using length_dropWhile_le [of url_char r] r(2) by simp
  with strip_ci_length [OF r(1)] show ?thesis by simp
qed

function redact_url :: "string \<Rightarrow> string" where
  "redact_url s =
     (case match_url s of
        Some rest \<Rightarrow> ''postgresql://***@'' @ redact_url rest
      | None \<Rightarrow> (case s of [] \<Rightarrow> [] | c # r \<Rightarrow> c # redact_url r))"
  by pat_completeness auto

termination
  by (relation "measure length") (auto dest: match_url_shorter)

declare redact_url.simps [simp del]

definition token_char :: "char \<Rightarrow> bool" where
  "token_char c \<longleftrightarrow>
     (let n = (of_char c :: nat)
      in (97 \<le> n \<and> n \<le> 122) \<or> (65 \<le> n \<and> n \<le> 90) \<or> (48 \<le> n \<and> n \<le> 57) \<or> n = 95 \<or> n = 46 \<or> n = 45)"

text \<open>\<open>/Bearer\s+[\w.-]+/gi\<close>.\<close>

definition match_bearer :: "string \<Rightarrow> string option" where
  "match_bearer s =
     (case strip_ci ''bearer'' s of
        None \<Rightarrow> None
      | Some r \<Rightarrow>
          let t = dropWhile is_space r
          in if t = r \<or> t = [] \<or> \<not> token_char (hd t) then None else Some (dropWhile token_char t))"

lemma match_bearer_shorter: "match_bearer s = Some rest \<Longrightarrow> length rest < length s"
proof -
  assume "match_bearer s = Some rest"
  then obtain r where r: "strip_ci ''bearer'' s = Some r" "rest = dropWhile token_char (dropWhile is_space r)"
    by (auto simp: match_bearer_def Let_def split: option.splits if_splits)
  have "length rest \<le> length r"
    using le_trans [OF length_dropWhile_le [of token_char "dropWhile is_space r"] length_dropWhile_le [of is_space r]] r(2) by simp
  with strip_ci_length [OF r(1)] show ?thesis by simp
qed

function redact_bearer :: "string \<Rightarrow> string" where
  "redact_bearer s =
     (case match_bearer s of
        Some rest \<Rightarrow> ''Bearer ***'' @ redact_bearer rest
      | None \<Rightarrow> (case s of [] \<Rightarrow> [] | c # r \<Rightarrow> c # redact_bearer r))"
  by pat_completeness auto

termination
  by (relation "measure length") (auto dest: match_bearer_shorter)

declare redact_bearer.simps [simp del]

definition redact :: "string \<Rightarrow> string" where
  "redact s = redact_bearer (redact_url s)"

section \<open>The steps\<close>

definition find_tenant :: "id \<Rightarrow> ('w, tenant_row) plane_svc" where
  "find_tenant i = bnd (asks (\<lambda>pl. find_row tn_id i (pl_tenants pl))) (require (P2025 ''tenants''))"

definition tenant_update :: "id \<Rightarrow> (tenant_row \<Rightarrow> tenant_row) \<Rightarrow> ('w, unit) plane_svc" where
  "tenant_update i f = bnd (update_row pl_tenants put_tenants tn_id (P2025 ''tenants'') i f) (\<lambda>_. ret ())"

definition job_update :: "id \<Rightarrow> (job_row \<Rightarrow> job_row) \<Rightarrow> ('w, unit) plane_svc" where
  "job_update i f = bnd (update_row pl_jobs put_jobs pj_id (P2025 ''provisioning_jobs'') i f) (\<lambda>_. ret ())"

definition to_step :: "job_row \<Rightarrow> provisioning_step \<Rightarrow> ('w, unit) plane_svc" where
  "to_step job s = job_update (pj_id job) (\<lambda>j. j\<lparr>pj_step := s\<rparr>)"

definition safe_id :: "id \<Rightarrow> string" where
  "safe_id i = filter (\<lambda>c. c \<noteq> CHR ''-'') i"

definition db_name :: "id \<Rightarrow> string" where "db_name i = ''hrobot_t_'' @ safe_id i"
definition db_user :: "id \<Rightarrow> string" where "db_user i = ''hu_'' @ safe_id i"

definition db_url :: "'w plane_env \<Rightarrow> id \<Rightarrow> string" where
  "db_url env i =
     ''postgresql://'' @ db_user i @ '':'' @ en_dbPassword env @ ''@'' @ en_host env @ '':'' @ en_port env @ ''/'' @ db_name i"

definition ensure_role :: "'w plane_env \<Rightarrow> id \<Rightarrow> ('w, unit) plane_svc" where
  "ensure_role env i =
     bnd (at_world (if_pg (en_infra env) (PgRoleExists (db_user i)))) (\<lambda>roleExists.
     bnd (at_world (if_pg (en_infra env)
            (if roleExists then PgAlterRole (db_user i) (en_dbPassword env) else PgCreateRole (db_user i) (en_dbPassword env)))) (\<lambda>_.
     ret ()))"

definition ensure_db :: "'w plane_env \<Rightarrow> id \<Rightarrow> ('w, unit) plane_svc" where
  "ensure_db env i =
     bnd (at_world (if_pg (en_infra env) (PgDbExists (db_name i)))) (\<lambda>dbExists.
     if dbExists then ret ()
     else bnd (at_world (if_pg (en_infra env) (PgCreateDb (db_name i) (db_user i)))) (\<lambda>_. ret ()))"

definition createDbStep :: "'w plane_env \<Rightarrow> job_row \<Rightarrow> ('w, unit) plane_svc" where
  "createDbStep env job =
     bnd (find_tenant (pj_tenantId job)) (\<lambda>tenant.
     bnd (crypto (en_encrypt env (db_url env (tn_id tenant)))) (\<lambda>enc.
     bnd (tenant_update (pj_tenantId job) (\<lambda>t. t\<lparr>tn_dbUrl := Some enc\<rparr>)) (\<lambda>_.
     bnd (ensure_role env (tn_id tenant)) (\<lambda>_.
     bnd (ensure_db env (tn_id tenant)) (\<lambda>_.
     to_step job RUN_MIGRATIONS)))))"

text \<open>The stored url of a tenant without one is \<open>null\<close>, which the decryption refuses.\<close>

definition stored_url :: "'w plane_env \<Rightarrow> tenant_row \<Rightarrow> ('w, string) plane_svc" where
  "stored_url env t = crypto (en_decrypt env (case tn_dbUrl t of None \<Rightarrow> [] | Some u \<Rightarrow> u))"

fun join_lines :: "string list \<Rightarrow> string" where
  "join_lines xs = join_with [CHR 0x0A] xs"

definition exec_detail :: "exec_failure \<Rightarrow> string" where
  "exec_detail x =
     (let parts = filter (\<lambda>s. s \<noteq> []) (map (\<lambda>v. case v of None \<Rightarrow> [] | Some s \<Rightarrow> trim s) [xf_stderr x, xf_stdout x, xf_message x]);
          detail = join_lines parts
      in if detail = [] then ''migration failed'' else detail)"

definition run_migrate :: "'w plane_env \<Rightarrow> string \<Rightarrow> ('w, unit) plane_svc" where
  "run_migrate env url =
     (\<lambda>pl. case at_world (if_migrate (en_infra env) url) pl of
        (Inl x, pl') \<Rightarrow> (Inl (PlainError (redact_url (exec_detail x))), pl')
      | (Inr u, pl') \<Rightarrow> (Inr u, pl'))"

definition runMigrationsStep :: "'w plane_env \<Rightarrow> job_row \<Rightarrow> ('w, unit) plane_svc" where
  "runMigrationsStep env job =
     bnd (find_tenant (pj_tenantId job)) (\<lambda>tenant.
     bnd (stored_url env tenant) (\<lambda>url.
     bnd (run_migrate env url) (\<lambda>_.
     to_step job SEED)))"

text \<open>\<open>try { create } finally { disconnect }\<close>: an error of the disconnect replaces the outcome.\<close>

definition seed_unit :: "'w plane_env \<Rightarrow> string \<Rightarrow> ('w, unit) plane_svc" where
  "seed_unit env url =
     (\<lambda>pl. case at_world (if_seedUnit (en_infra env) url ''Cala firma'') pl of
        (r, pl1) \<Rightarrow> (case at_world (if_disconnect (en_infra env) url) pl1 of
            (Inl e, pl2) \<Rightarrow> (Inl e, pl2)
          | (Inr _, pl2) \<Rightarrow> (r, pl2)))"

definition seedStep :: "'w plane_env \<Rightarrow> job_row \<Rightarrow> ('w, unit) plane_svc" where
  "seedStep env job =
     bnd (find_tenant (pj_tenantId job)) (\<lambda>tenant.
     bnd (stored_url env tenant) (\<lambda>url.
     bnd (seed_unit env url) (\<lambda>_.
     to_step job KEYCLOAK_SETUP)))"

text \<open>The client of this step, where a conflict counts as success.\<close>

definition kp_send :: "'w plane_env \<Rightarrow> kp_request \<Rightarrow> ('w, app_error, kc_response) svc" where
  "kp_send env rq =
     bnd (if_fetch (en_infra env) rq) (\<lambda>r.
     if \<not> rp_ok r \<and> rp_status r \<noteq> 409 then throw (PlainError ''keycloak'') else ret r)"

definition kp_token :: "'w plane_env \<Rightarrow> ('w, app_error, string) svc" where
  "kp_token env =
     bnd (if_fetch (en_infra env) (KpToken (en_adminPassword env))) (\<lambda>resp.
     bnd (resp_json resp) (\<lambda>body.
     ret (case body of KbToken (Some t) \<Rightarrow> t | _ \<Rightarrow> ''undefined'')))"

definition kp_user :: "'w plane_env \<Rightarrow> string \<Rightarrow> string \<Rightarrow> string \<Rightarrow> ('w, app_error, string) svc" where
  "kp_user env token realm email =
     bnd (kp_send env (KpUser token realm email (en_tempPassword env))) (\<lambda>resp.
     let userId = last_segment (case rp_location resp of None \<Rightarrow> [] | Some l \<Rightarrow> l)
     in if userId \<noteq> [] then ret userId
        else bnd (kp_send env (KpFind token realm email)) (\<lambda>lookupResp.
             bnd (resp_json lookupResp) (\<lambda>body.
             ret (case body of KbUsers (u # _) \<Rightarrow> u | _ \<Rightarrow> []))))"

definition kp_email :: "'w plane_env \<Rightarrow> string \<Rightarrow> string \<Rightarrow> string \<Rightarrow> ('w, app_error, unit) svc" where
  "kp_email env token realm userId =
     catch (bnd (if_fetch (en_infra env) (KpEmail token realm userId)) (\<lambda>_. ret ())) (\<lambda>_. ret ())"

definition setup_realm :: "'w plane_env \<Rightarrow> string \<Rightarrow> string \<Rightarrow> string \<Rightarrow> ('w, app_error, unit) svc" where
  "setup_realm env slug realm email =
     bnd (kp_token env) (\<lambda>token.
     bnd (kp_send env (KpRealm token realm)) (\<lambda>_.
     bnd (mapM (\<lambda>r. kp_send env (KpRole token realm r)) [PRACOWNIK, MANAGER, HR, ADMIN_KLIENTA]) (\<lambda>_.
     bnd (kp_send env (KpClient token realm slug)) (\<lambda>_.
     bnd (kp_user env token realm email) (\<lambda>userId.
     bnd (kp_send env (KpGetRole token realm ADMIN_KLIENTA)) (\<lambda>roleResp.
     bnd (resp_json roleResp) (\<lambda>body.
     bnd (kp_send env (case body of KbRole i n \<Rightarrow> KpMap token realm userId i n | _ \<Rightarrow> KpMap token realm userId None None)) (\<lambda>_.
     kp_email env token realm userId))))))))"

definition realm_name :: "tenant_row \<Rightarrow> string" where
  "realm_name t = ''hrobot-'' @ tn_slug t"

definition keycloakSetupStep :: "'w plane_env \<Rightarrow> job_row \<Rightarrow> ('w, unit) plane_svc" where
  "keycloakSetupStep env job =
     bnd (find_tenant (pj_tenantId job)) (\<lambda>tenant.
     bnd (at_world (setup_realm env (tn_slug tenant) (realm_name tenant) (coalesce (mt_adminEmail (tn_metadata tenant)) []))) (\<lambda>_.
     bnd (tenant_update (pj_tenantId job) (\<lambda>t. t\<lparr>tn_metadata := (tn_metadata tenant)
            \<lparr>mt_realmName := Some (realm_name tenant), mt_keycloakClientId := Some ''hrobot-web''\<rparr>\<rparr>)) (\<lambda>_.
     to_step job DONE)))"

definition doneStep :: "int \<Rightarrow> job_row \<Rightarrow> ('w, unit) plane_svc" where
  "doneStep now job =
     bnd (tenant_update (pj_tenantId job) (\<lambda>t. t\<lparr>tn_status := TS_ACTIVE, tn_provisionedAt := Some now\<rparr>)) (\<lambda>_.
     to_step job DONE)"

section \<open>The pipeline\<close>

definition retry_delay :: "int \<Rightarrow> int" where
  "retry_delay attempts =
     (if attempts = 0 then 30000 else if attempts = 1 then 120000 else 600000)"

fun step_handler :: "'w plane_env \<Rightarrow> int \<Rightarrow> provisioning_step \<Rightarrow> (job_row \<Rightarrow> ('w, unit) plane_svc) option" where
  "step_handler env now CREATE_DB = Some (createDbStep env)"
| "step_handler env now RUN_MIGRATIONS = Some (runMigrationsStep env)"
| "step_handler env now SEED = Some (seedStep env)"
| "step_handler env now KEYCLOAK_SETUP = Some (keycloakSetupStep env)"
| "step_handler env now DONE = Some (doneStep now)"
| "step_handler env now FAILED = None"

fun error_message :: "app_error \<Rightarrow> string" where
  "error_message (PlainError m) = m"
| "error_message (P2002 m) = m"
| "error_message (P2003 m) = m"
| "error_message (P2025 m) = m"
| "error_message (P2034 m) = m"
| "error_message _ = ''Error''"

definition job_failed :: "int \<Rightarrow> job_row \<Rightarrow> app_error \<Rightarrow> ('w, unit) plane_svc" where
  "job_failed now job err =
     (let message = redact (error_message err); nextAttempt = pj_attemptCount job + 1
      in if 3 \<le> nextAttempt
         then job_update (pj_id job) (\<lambda>j. j\<lparr>pj_step := FAILED, pj_lastError := Some message, pj_attemptCount := nextAttempt\<rparr>)
         else job_update (pj_id job) (\<lambda>j. j\<lparr>pj_attemptCount := nextAttempt, pj_lastError := Some message,
                pj_nextAttemptAt := Some (now + retry_delay (pj_attemptCount job))\<rparr>))"

definition advance :: "'w plane_env \<Rightarrow> job_row \<Rightarrow> ('w, unit) plane_svc" where
  "advance env job =
     bnd (asks (\<lambda>pl. map_option pj_step (find_row pj_id (pj_id job) (pl_jobs pl)))) (\<lambda>next.
     case next of
       None \<Rightarrow> ret ()
     | Some s \<Rightarrow>
         if s \<noteq> pj_step job \<and> s \<noteq> FAILED then at_world (if_emit (en_infra env) ''tenant.provision'' (job_msg job)) else ret ())"

definition process_msg :: "'w plane_env \<Rightarrow> int \<Rightarrow> provision_msg \<Rightarrow> ('w, unit) plane_svc" where
  "process_msg env now msg =
     bnd (asks (\<lambda>pl. find_row pj_id (ms_jobId msg) (pl_jobs pl))) (\<lambda>found.
     case found of
       None \<Rightarrow> ret ()
     | Some job \<Rightarrow>
         (case step_handler env now (pj_step job) of
            None \<Rightarrow> ret ()
          | Some handler \<Rightarrow> catch (bnd (handler job) (\<lambda>_. advance env job)) (job_failed now job)))"

record job_status =
  js_step :: provisioning_step
  js_attemptCount :: int
  js_done :: bool
  js_failed :: bool
  js_errorCode :: "string option"

definition provisioning_status :: "id \<Rightarrow> ('w, job_status) plane_svc" where
  "provisioning_status jobId =
     bnd (asks (\<lambda>pl. find_row pj_id jobId (pl_jobs pl))) (\<lambda>found.
     bnd (require (NotFoundException ''Provisioning job not found'') found) (\<lambda>job.
     let failed = (pj_step job = FAILED)
     in ret \<lparr>js_step = pj_step job, js_attemptCount = pj_attemptCount job, js_done = (failed \<or> pj_step job = DONE),
             js_failed = failed, js_errorCode = (if failed then Some ''PROVISIONING_FAILED'' else None)\<rparr>))"

end
