(* ===== verification/TenantRoute.thy ===== *)
theory TenantRoute
  imports Rbac ControlPlane "HOL-Library.AList"
begin

text \<open>
  The pipeline of every tenant-scoped request: the token check, the role guard, the resolution of the tenant
  and its database, the handler and the audit of mutations
  (\<open>apps/tenant-runtime/src/tenant-runtime\<close>: \<open>tenant-route.decorator.ts\<close>, \<open>keycloak-jwt.strategy.ts\<close>,
  \<open>rbac.guard.ts\<close>, \<open>tenant-context.interceptor.ts\<close>, \<open>tenant-connection-resolver.service.ts\<close>,
  \<open>audit.interceptor.ts\<close>).

  The token library (decoding, signature check, key set download) is a parameter. Redis is a store of values
  with an expiry that may be down at any call; the tenant databases are the ones behind the connection urls.
\<close>

section \<open>Issuers\<close>

definition REALM :: string where "REALM = ''/realms/hrobot-''"

fun strip_prefix :: "string \<Rightarrow> string \<Rightarrow> string option" where
  "strip_prefix [] s = Some s"
| "strip_prefix (p # ps) [] = None"
| "strip_prefix (p # ps) (c # s) = (if c = p then strip_prefix ps s else None)"

text \<open>The class \<open>.\<close>: anything but a line end.\<close>

definition line_char :: "char \<Rightarrow> bool" where
  "line_char c \<longleftrightarrow> c \<noteq> CHR 0x0A \<and> c \<noteq> CHR 0x0D"

text \<open>\<open>/\/realms\/hrobot-(.+)$/\<close>, which may match anywhere: the leftmost match wins.\<close>

fun extractSlug :: "string \<Rightarrow> string" where
  "extractSlug [] = []"
| "extractSlug (c # s) =
     (case strip_prefix REALM (c # s) of
        Some r \<Rightarrow> if r \<noteq> [] \<and> list_all line_char r then r else extractSlug s
      | None \<Rightarrow> extractSlug s)"

text \<open>The anchored check behind the configured host.\<close>

definition isTrustedIssuer :: "string \<Rightarrow> string \<Rightarrow> bool" where
  "isTrustedIssuer iss base =
     (case strip_prefix base iss of
        None \<Rightarrow> False
      | Some tail \<Rightarrow> (case strip_prefix REALM tail of None \<Rightarrow> False | Some slug \<Rightarrow> slug_valid slug))"

section \<open>Tokens\<close>

record jwt_payload =
  jw_sub :: string
  jw_iss :: string
  jw_roles :: "string list option"
  jw_exp :: int

text \<open>
  What the token library does: \<open>decode\<close> reads the claims and the key id without checking anything,
  \<open>signing_key\<close> fetches a key from a key-set url, \<open>verify\<close> checks signature and expiry. A missing issuer
  is the empty text, which the code treats alike.
\<close>

record jwt_lib =
  jl_decode :: "string \<Rightarrow> (jwt_payload \<times> string option) option"
  jl_signingKey :: "string \<Rightarrow> string \<Rightarrow> string option"
  jl_verify :: "string \<Rightarrow> int \<Rightarrow> string \<Rightarrow> jwt_payload option"

definition secretOrKey :: "jwt_lib \<Rightarrow> string \<Rightarrow> string \<Rightarrow> app_error + string" where
  "secretOrKey lib base raw =
     (case jl_decode lib raw of
        None \<Rightarrow> Inl (PlainError ''JWT missing iss or kid'')
      | Some (payload, kid) \<Rightarrow>
          (case kid of
             None \<Rightarrow> Inl (PlainError ''JWT missing iss or kid'')
           | Some k \<Rightarrow>
               if jw_iss payload = [] \<or> k = [] then Inl (PlainError ''JWT missing iss or kid'')
               else if \<not> isTrustedIssuer (jw_iss payload) base then Inl (PlainError ''Untrusted token issuer'')
               else (case jl_signingKey lib (jw_iss payload @ ''/protocol/openid-connect/certs'') k of
                       None \<Rightarrow> Inl (PlainError ''JWT key resolution failed'')
                     | Some key \<Rightarrow> Inr key)))"

text \<open>The guard answers every failure with 401; \<open>validate\<close> passes the payload on.\<close>

definition authenticate :: "jwt_lib \<Rightarrow> string \<Rightarrow> int \<Rightarrow> string option \<Rightarrow> app_error + jwt_payload" where
  "authenticate lib base now bearer =
     (case bearer of
        None \<Rightarrow> Inl (UnauthorizedException ''Unauthorized'')
      | Some raw \<Rightarrow>
          (case secretOrKey lib base raw of
             Inl e \<Rightarrow> Inl (UnauthorizedException ''Unauthorized'')
           | Inr key \<Rightarrow>
               (case jl_verify lib key now raw of
                  None \<Rightarrow> Inl (UnauthorizedException ''Unauthorized'')
                | Some payload \<Rightarrow> Inr payload)))"

section \<open>The tenant of a request\<close>

record tenant_entry =
  te_id :: id
  te_status :: tenant_status

record runtime =
  rt_redis :: "(string \<times> tenant_entry \<times> int) list"
  rt_clients :: "(id \<times> string) list"
  rt_dbs :: "string \<Rightarrow> tenant_db"

type_synonym 'a runtime_svc = "(runtime, app_error, 'a) svc"

text \<open>What the surroundings of one request decide: which calls succeed while it is served.\<close>

record weather =
  we_redisGet :: bool
  we_redisSet :: bool
  we_connect :: bool
  we_audit :: bool

definition CACHE_TTL :: int where "CACHE_TTL = 30"

definition redis_get :: "bool \<Rightarrow> int \<Rightarrow> string \<Rightarrow> tenant_entry option runtime_svc" where
  "redis_get up now key =
     bnd (ensure up (PlainError ''redis'')) (\<lambda>_.
     asks (\<lambda>rt. case map_of (rt_redis rt) key of None \<Rightarrow> None | Some (e, expiry) \<Rightarrow> if now < expiry then Some e else None))"

definition redis_setex :: "bool \<Rightarrow> int \<Rightarrow> string \<Rightarrow> int \<Rightarrow> tenant_entry \<Rightarrow> unit runtime_svc" where
  "redis_setex up now key ttl e =
     bnd (ensure up (PlainError ''redis'')) (\<lambda>_.
     modify (\<lambda>rt. rt\<lparr>rt_redis := AList.update key (e, now + 1000 * ttl) (rt_redis rt)\<rparr>))"

definition slug_key :: "string \<Rightarrow> string" where
  "slug_key slug = ''tenant:slug:'' @ slug"

definition lookupTenant :: "weather \<Rightarrow> int \<Rightarrow> tenant_row list \<Rightarrow> string \<Rightarrow> string \<Rightarrow> tenant_entry runtime_svc" where
  "lookupTenant we now tenants cacheKey slug =
     bnd (catch (redis_get (we_redisGet we) now cacheKey) (\<lambda>err. ret None)) (\<lambda>cached.
     case cached of
       Some e \<Rightarrow> ret e
     | None \<Rightarrow>
         bnd (require (UnauthorizedException (''Unknown tenant slug: '' @ slug)) (find (\<lambda>t. tn_slug t = slug) tenants)) (\<lambda>tenant.
         let entry = \<lparr>te_id = tn_id tenant, te_status = tn_status tenant\<rparr>
         in bnd (catch (redis_setex (we_redisSet we) now cacheKey CACHE_TTL entry) (\<lambda>err. ret ())) (\<lambda>_.
            ret entry)))"

definition resolveDbUrl :: "(string \<Rightarrow> crypto_error + string) \<Rightarrow> tenant_row list \<Rightarrow> id \<Rightarrow> app_error + string" where
  "resolveDbUrl dec tenants tenantId =
     (case find_row tn_id tenantId tenants of
        None \<Rightarrow> Inl (P2025 ''tenants'')
      | Some tenant \<Rightarrow>
          (case tn_dbUrl tenant of
             None \<Rightarrow> Inl (PlainError (''Tenant '' @ tenantId @ '' has no db_url''))
           | Some c \<Rightarrow>
               if c = [] then Inl (PlainError (''Tenant '' @ tenantId @ '' has no db_url''))
               else map_sum (\<lambda>e. case e of CryptoError m \<Rightarrow> PlainError m | DecryptionError m \<Rightarrow> PlainError m) id (dec c)))"

text \<open>
  \<open>TenantPrismaManager.getClient\<close> as one request sees it; a client is given by the url it is connected to.
\<close>

definition getClient :: "(string \<Rightarrow> crypto_error + string) \<Rightarrow> weather \<Rightarrow> tenant_row list \<Rightarrow> id \<Rightarrow> string runtime_svc" where
  "getClient dec we tenants tenantId =
     bnd (ensure (trim tenantId \<noteq> []) (PlainError ''TenantPrismaManager.getClient: tenantId must be a non-empty string'')) (\<lambda>_.
     bnd (asks (\<lambda>rt. map_of (rt_clients rt) tenantId)) (\<lambda>cached.
     case cached of
       Some url \<Rightarrow> ret url
     | None \<Rightarrow>
         bnd (lift_sum (resolveDbUrl dec tenants tenantId)) (\<lambda>url.
         bnd (ensure (we_connect we) (PlainError ''connect'')) (\<lambda>_.
         bnd (modify (\<lambda>rt. rt\<lparr>rt_clients := (tenantId, url) # rt_clients rt\<rparr>)) (\<lambda>_.
         ret url)))))"

definition resolve_context ::
  "(string \<Rightarrow> crypto_error + string) \<Rightarrow> weather \<Rightarrow> int \<Rightarrow> tenant_row list \<Rightarrow> jwt_payload \<Rightarrow> (id \<times> string) runtime_svc" where
  "resolve_context dec we now tenants user =
     (let slug = extractSlug (jw_iss user)
      in bnd (ensure (slug \<noteq> []) (UnauthorizedException ''Cannot resolve tenant from token'')) (\<lambda>_.
         bnd (lookupTenant we now tenants (slug_key slug) slug) (\<lambda>entry.
         bnd (ensure (te_status entry = TS_ACTIVE) (ForbiddenException ''Tenant account is not active'')) (\<lambda>_.
         bnd (getClient dec we tenants (te_id entry)) (\<lambda>client.
         ret (te_id entry, client))))))"

section \<open>The audit of mutations\<close>

definition SENSITIVE_KEYS :: "string list" where
  "SENSITIVE_KEYS =
     [''pesel'', ''password'', ''passwordhash'', ''token'', ''accesstoken'', ''refreshtoken'', ''secret'', ''ssn'', ''identifier'']"

definition sensitive :: "string \<Rightarrow> bool" where
  "sensitive k \<longleftrightarrow> map lower k \<in> set SENSITIVE_KEYS"

fun redactAuditPayload :: "json \<Rightarrow> json" where
  "redactAuditPayload (JArr vs) = JArr (map redactAuditPayload vs)"
| "redactAuditPayload (JObj kvs) =
     JObj (map (\<lambda>kv. if sensitive (fst kv) then (fst kv, JStr ''***'') else (fst kv, redactAuditPayload (snd kv))) kvs)"
| "redactAuditPayload v = v"

record http_request =
  hr_method :: string
  hr_path :: string
  hr_ip :: "string option"
  hr_body :: json
  hr_params :: "(string \<times> string) list"
  hr_bearer :: "string option"

definition MUTATING :: "string list" where
  "MUTATING = [''POST'', ''PATCH'', ''PUT'', ''DELETE'']"

definition upper :: "char \<Rightarrow> char" where
  "upper c = (let n = (of_char c :: nat) in if 97 \<le> n \<and> n \<le> 122 then char_of (n - 32) else c)"

definition mutating :: "http_request \<Rightarrow> bool" where
  "mutating req \<longleftrightarrow> map upper (hr_method req) \<in> set MUTATING"

definition request_audit :: "http_request \<Rightarrow> jwt_payload \<Rightarrow> unit tx" where
  "request_audit req user =
     audit_log (jw_sub user) (map lower (hr_method req) @ ''.'' @ hr_path req) ''Request'' (hr_path req)
       (JObj [(''body'', redactAuditPayload (hr_body req)), (''params'', JObj (map (\<lambda>(k, v). (k, JStr v)) (hr_params req)))])
       (coalesce (hr_ip req) ''0.0.0.0'')"

text \<open>A service of one tenant database, run on the database behind a url.\<close>

definition on_db :: "string \<Rightarrow> 'a tx \<Rightarrow> 'a runtime_svc" where
  "on_db url m = (\<lambda>rt. case m (rt_dbs rt url) of (r, db) \<Rightarrow> (r, rt\<lparr>rt_dbs := (rt_dbs rt)(url := db)\<rparr>))"

text \<open>The audit record is written behind the answer; its failure is only logged.\<close>

definition audited :: "weather \<Rightarrow> http_request \<Rightarrow> jwt_payload \<Rightarrow> string \<Rightarrow> 'a runtime_svc \<Rightarrow> 'a runtime_svc" where
  "audited we req user url m =
     bnd m (\<lambda>x.
     bnd (if mutating req \<and> we_audit we then on_db url (request_audit req user) else ret ()) (\<lambda>_.
     ret x))"

section \<open>The whole request\<close>

record route_env =
  re_lib :: jwt_lib
  re_base :: string
  re_decrypt :: "string \<Rightarrow> crypto_error + string"

definition tenantRoute ::
  "route_env \<Rightarrow> weather \<Rightarrow> int \<Rightarrow> tenant_row list \<Rightarrow> string list \<Rightarrow> http_request \<Rightarrow> (jwt_payload \<Rightarrow> id \<Rightarrow> 'a tx) \<Rightarrow>
     'a runtime_svc" where
  "tenantRoute env we now tenants roles req handler =
     bnd (lift_sum (authenticate (re_lib env) (re_base env) now (hr_bearer req))) (\<lambda>user.
     bnd (lift_sum (canActivate (if roles = [] then None else Some roles) (coalesce (jw_roles user) []))) (\<lambda>_.
     bnd (resolve_context (re_decrypt env) we now tenants user) (\<lambda>(tenantId, client).
     audited we req user client (on_db client (handler user tenantId)))))"

end
