(* ===== verification/TenantRouteProps.thy ===== *)
theory TenantRouteProps
  imports TenantRoute Samples
begin

text \<open>
  What the request pipeline guarantees: the slug of a trusted issuer is the one of its realm, a request is
  served for the tenant whose realm signed its token and on that tenant's database only, with an activity
  check that is at most thirty seconds old, and the audit of a mutation shows the body up to its secrets.
\<close>

section \<open>Issuers\<close>

lemma strip_prefix_iff: "strip_prefix p s = Some r \<longleftrightarrow> s = p @ r"
  by (induction p s rule: strip_prefix.induct) auto

lemma strip_prefix_None_iff: "strip_prefix p s = None \<longleftrightarrow> (\<forall>r. s \<noteq> p @ r)"
  using strip_prefix_iff [of p s] by (metis not_None_eq option.distinct(1))

lemma isTrustedIssuer_iff: "isTrustedIssuer iss base \<longleftrightarrow> (\<exists>slug. slug_valid slug \<and> iss = base @ REALM @ slug)"
  by (auto simp: isTrustedIssuer_def strip_prefix_iff strip_prefix_None_iff split: option.splits)

text \<open>The host names in use do not contain the marker of a realm.\<close>

fun host_ok :: "string \<Rightarrow> bool" where
  "host_ok [] = True"
| "host_ok (c # s) = (strip_prefix REALM (c # s) = None \<and> host_ok s)"

lemma realm_no_border: "\<forall>n \<in> {1..14}. take (15 - n) REALM \<noteq> drop n REALM"
proof -
  have "{1..14::nat} = set [1..<15]" by auto
  moreover have "list_all (\<lambda>n. take (15 - n) REALM \<noteq> drop n REALM) [1..<15]"
    by code_simp
  ultimately show ?thesis by (simp only: list_all_iff)
qed

lemma length_REALM: "length REALM = 15"
  by (simp add: REALM_def)

lemma no_realm_across:
  assumes "strip_prefix REALM (c # s) = None"
  shows "strip_prefix REALM (c # s @ REALM @ r) = None"
proof (rule ccontr)
  assume "strip_prefix REALM (c # s @ REALM @ r) \<noteq> None"
  then obtain q where q: "(c # s) @ REALM @ r = REALM @ q" by (auto simp: strip_prefix_None_iff)
  show False
  proof (cases "15 \<le> length (c # s)")
    case True
    then have "\<exists>q'. c # s = REALM @ q'"
      using q length_REALM by (metis append_eq_append_conv_if append_take_drop_id)
    with assms show False by (auto simp: strip_prefix_None_iff)
  next
    case False
    let ?n = "length (c # s)"
    have n: "?n \<in> {1..14}" using False by simp
    from q have "drop ?n (take 15 ((c # s) @ REALM @ r)) = drop ?n REALM" by (simp add: length_REALM)
    then have "take (15 - ?n) REALM = drop ?n REALM"
      using n length_REALM by (simp add: drop_take)
    with n realm_no_border show False by blast
  qed
qed

lemma slug_chars:
  assumes "slug_valid s"
  shows "s \<noteq> [] \<and> list_all line_char s"
proof -
  have "\<not> slug_char (CHR 0x0A)" "\<not> slug_char (CHR 0x0D)" by code_simp+
  moreover have "CHR ''-'' \<noteq> CHR 0x0A" "CHR ''-'' \<noteq> CHR 0x0D" by simp_all
  ultimately have "line_char c" if "slug_char c \<or> c = CHR ''-''" for c
    using that unfolding line_char_def by metis
  moreover have "3 \<le> length s" "\<forall>c \<in> set s. slug_char c \<or> c = CHR ''-''"
    using assms unfolding slug_valid_def list_all_iff by blast+
  ultimately show ?thesis unfolding list_all_iff by fastforce
qed

lemma extractSlug_realm: "slug_valid slug \<Longrightarrow> extractSlug (REALM @ slug) = slug"
  using slug_chars [of slug] by (simp add: REALM_def)

lemma extractSlug_issuer: "host_ok base \<Longrightarrow> slug_valid slug \<Longrightarrow> extractSlug (base @ REALM @ slug) = slug"
  by (induction base) (auto simp: extractSlug_realm no_realm_across)

section \<open>Tokens\<close>

text \<open>
  What the pipeline relies on: a key that the key set of a realm publishes accepts only tokens that this realm
  has issued, and the verified claims are the ones that a decoding shows.
\<close>

definition authentic :: "jwt_lib \<Rightarrow> string \<Rightarrow> (string \<Rightarrow> jwt_payload \<Rightarrow> bool) \<Rightarrow> bool" where
  "authentic lib base issued \<longleftrightarrow>
     (\<forall>slug kid key now raw p.
        jl_signingKey lib ((base @ REALM @ slug) @ ''/protocol/openid-connect/certs'') kid = Some key \<longrightarrow>
        jl_verify lib key now raw = Some p \<longrightarrow> issued slug p \<and> map_option fst (jl_decode lib raw) = Some p)"

lemma authenticateD:
  assumes "authenticate lib base now bearer = Inr p" and "authentic lib base issued"
  shows "\<exists>slug. slug_valid slug \<and> jw_iss p = base @ REALM @ slug \<and> issued slug p"
proof -
  from assms(1) obtain raw payload kid key where raw: "bearer = Some raw" "jl_decode lib raw = Some (payload, Some kid)"
    and trusted: "isTrustedIssuer (jw_iss payload) base"
    and key: "jl_signingKey lib (jw_iss payload @ ''/protocol/openid-connect/certs'') kid = Some key"
    and verified: "jl_verify lib key now raw = Some p"
    by (auto simp: authenticate_def secretOrKey_def split: option.splits sum.splits if_splits prod.splits)
  from trusted obtain slug where slug: "slug_valid slug" "jw_iss payload = base @ REALM @ slug"
    by (auto simp: isTrustedIssuer_iff)
  from assms(2) key verified have "issued slug p" "map_option fst (jl_decode lib raw) = Some p"
    unfolding authentic_def slug(2) by blast+
  with slug raw show ?thesis by auto
qed

section \<open>The caches\<close>

record 'a visit =
  vi_now :: int
  vi_tenants :: "tenant_row list"
  vi_weather :: weather
  vi_evicted :: "id list"
  vi_roles :: "string list"
  vi_req :: http_request
  vi_handler :: "jwt_payload \<Rightarrow> id \<Rightarrow> 'a tx"

definition forget :: "id list \<Rightarrow> runtime \<Rightarrow> runtime" where
  "forget ids rt = rt\<lparr>rt_clients := filter (\<lambda>c. fst c \<notin> set ids) (rt_clients rt)\<rparr>"

definition serve :: "route_env \<Rightarrow> 'a visit \<Rightarrow> 'a runtime_svc" where
  "serve env v rt =
     tenantRoute env (vi_weather v) (vi_now v) (vi_tenants v) (vi_roles v) (vi_req v) (vi_handler v) (forget (vi_evicted v) rt)"

definition serve_all :: "route_env \<Rightarrow> 'a visit list \<Rightarrow> runtime \<Rightarrow> runtime" where
  "serve_all env vs rt = foldl (\<lambda>rt v. snd (serve env v rt)) rt vs"

text \<open>
  Every cached entry was read from the tenants table by an earlier request, whose time is thirty seconds
  before the expiry, and every cached client was resolved by an earlier request.
\<close>

definition backed :: "'a visit set \<Rightarrow> string \<Rightarrow> tenant_entry \<Rightarrow> int \<Rightarrow> bool" where
  "backed V key e expiry \<longleftrightarrow>
     (\<exists>v \<in> V. \<exists>slug t. expiry = vi_now v + 30000 \<and> key = slug_key slug \<and>
        find (\<lambda>t. tn_slug t = slug) (vi_tenants v) = Some t \<and> e = \<lparr>te_id = tn_id t, te_status = tn_status t\<rparr>)"

definition resolved :: "route_env \<Rightarrow> 'a visit set \<Rightarrow> id \<Rightarrow> string \<Rightarrow> bool" where
  "resolved env V tid u \<longleftrightarrow> (\<exists>v \<in> V. resolveDbUrl (re_decrypt env) (vi_tenants v) tid = Inr u)"

definition caches_ok :: "route_env \<Rightarrow> 'a visit set \<Rightarrow> runtime \<Rightarrow> bool" where
  "caches_ok env V rt \<longleftrightarrow>
     (\<forall>key e expiry. map_of (rt_redis rt) key = Some (e, expiry) \<longrightarrow> backed V key e expiry) \<and>
     (\<forall>tid u. (tid, u) \<in> set (rt_clients rt) \<longrightarrow> resolved env V tid u)"

lemma backed_mono: "backed V key e expiry \<Longrightarrow> V \<subseteq> W \<Longrightarrow> backed W key e expiry"
  by (auto simp: backed_def)

lemma resolved_mono: "resolved env V tid u \<Longrightarrow> V \<subseteq> W \<Longrightarrow> resolved env W tid u"
  by (auto simp: resolved_def)

lemma slug_key_inj [simp]: "slug_key s = slug_key s' \<longleftrightarrow> s = s'"
  by (simp add: slug_key_def)

text \<open>An answer of the lookup was true of the tenants table at most thirty seconds ago.\<close>

definition seen :: "'a visit set \<Rightarrow> int \<Rightarrow> string \<Rightarrow> tenant_entry \<Rightarrow> bool" where
  "seen V now slug e \<longleftrightarrow>
     (\<exists>v \<in> V. now < vi_now v + 30000 \<and>
        (\<exists>t. find (\<lambda>t. tn_slug t = slug) (vi_tenants v) = Some t \<and> te_id e = tn_id t \<and> te_status e = tn_status t))"

lemma wp_lookupTenant:
  assumes ok: "caches_ok env V rt" and v: "v \<in> V"
  shows "wp (lookupTenant we (vi_now v) (vi_tenants v) (slug_key slug) slug)
    (\<lambda>e rt'. caches_ok env V rt' \<and> rt_dbs rt' = rt_dbs rt \<and> seen V (vi_now v) slug e)
    (\<lambda>_ rt'. rt' = rt) rt"
proof -
  have hit: "seen V (vi_now v) slug e"
    if "map_of (rt_redis rt) (slug_key slug) = Some (e, expiry)" "vi_now v < expiry" for e expiry
  proof -
    from ok that(1) have "backed V (slug_key slug) e expiry" by (auto simp: caches_ok_def)
    with that(2) show ?thesis by (auto simp: backed_def seen_def)
  qed
  have miss: "caches_ok env V (rt\<lparr>rt_redis := AList.update (slug_key slug) (\<lparr>te_id = tn_id t, te_status = tn_status t\<rparr>, vi_now v + 30000) (rt_redis rt)\<rparr>)"
    if "find (\<lambda>t. tn_slug t = slug) (vi_tenants v) = Some t" for t
    using ok v that by (auto simp: caches_ok_def update_conv' backed_def fun_upd_def)
  have fresh: "seen V (vi_now v) slug \<lparr>te_id = tn_id t, te_status = tn_status t\<rparr>"
    if "find (\<lambda>t. tn_slug t = slug) (vi_tenants v) = Some t" for t
    unfolding seen_def using that by (intro bexI [OF _ v]) simp
  show ?thesis
    using ok hit miss fresh
    by (auto simp: lookupTenant_def redis_get_def redis_setex_def CACHE_TTL_def svc_wp Let_def split: option.splits)
qed

lemma wp_getClient:
  assumes ok: "caches_ok env V rt" and v: "v \<in> V"
  shows "wp (getClient (re_decrypt env) we (vi_tenants v) tid)
    (\<lambda>u rt'. caches_ok env V rt' \<and> rt_dbs rt' = rt_dbs rt \<and> resolved env V tid u) (\<lambda>_ rt'. rt' = rt) rt"
proof -
  have "resolved env V tid u" if "map_of (rt_clients rt) tid = Some u" for u
    using ok map_of_SomeD [OF that] by (auto simp: caches_ok_def)
  moreover have "resolved env V tid u" if "resolveDbUrl (re_decrypt env) (vi_tenants v) tid = Inr u" for u
    using v that by (auto simp: resolved_def)
  ultimately show ?thesis
    using ok by (auto simp: getClient_def svc_wp caches_ok_def split: option.splits sum.splits)
qed

lemma wp_resolve_context:
  assumes ok: "caches_ok env V rt" and v: "v \<in> V"
  shows "wp (resolve_context (re_decrypt env) we (vi_now v) (vi_tenants v) user)
    (\<lambda>(tid, u) rt'. caches_ok env V rt' \<and> rt_dbs rt' = rt_dbs rt \<and> resolved env V tid u \<and>
       seen V (vi_now v) (extractSlug (jw_iss user)) \<lparr>te_id = tid, te_status = TS_ACTIVE\<rparr>)
    (\<lambda>_ rt'. caches_ok env V rt' \<and> rt_dbs rt' = rt_dbs rt) rt"
proof -
  let ?slug = "extractSlug (jw_iss user)"
  let ?E = "\<lambda>_ rt'. caches_ok env V rt' \<and> rt_dbs rt' = rt_dbs rt"
  have client: "wp (getClient (re_decrypt env) we (vi_tenants v) (te_id e))
      (\<lambda>u rt'. caches_ok env V rt' \<and> rt_dbs rt' = rt_dbs rt \<and> resolved env V (te_id e) u \<and>
         seen V (vi_now v) ?slug \<lparr>te_id = te_id e, te_status = TS_ACTIVE\<rparr>) ?E rt1"
    if "caches_ok env V rt1" "rt_dbs rt1 = rt_dbs rt" "seen V (vi_now v) ?slug e" "te_status e = TS_ACTIVE" for e rt1
    by (rule wp_mono [OF wp_getClient [OF that(1) v]]) (use that in \<open>auto simp: seen_def\<close>)
  have look: "wp (lookupTenant we (vi_now v) (vi_tenants v) (slug_key ?slug) ?slug)
      (\<lambda>e rt1. wp (bnd (ensure (te_status e = TS_ACTIVE) (ForbiddenException ''Tenant account is not active'')) (\<lambda>_.
         bnd (getClient (re_decrypt env) we (vi_tenants v) (te_id e)) (\<lambda>client. ret (te_id e, client))))
         (\<lambda>(tid, u) rt'. caches_ok env V rt' \<and> rt_dbs rt' = rt_dbs rt \<and> resolved env V tid u \<and>
            seen V (vi_now v) ?slug \<lparr>te_id = tid, te_status = TS_ACTIVE\<rparr>) ?E rt1) ?E rt"
    by (rule wp_mono [OF wp_lookupTenant [OF ok v]]) (use ok client in \<open>auto simp: svc_wp wp_ret_fun\<close>)
  show ?thesis
  proof (cases "?slug = []")
    case True
    with ok show ?thesis by (simp add: resolve_context_def Let_def svc_wp)
  next
    case False
    then have "resolve_context (re_decrypt env) we (vi_now v) (vi_tenants v) user rt =
        bnd (lookupTenant we (vi_now v) (vi_tenants v) (slug_key ?slug) ?slug) (\<lambda>e.
        bnd (ensure (te_status e = TS_ACTIVE) (ForbiddenException ''Tenant account is not active'')) (\<lambda>_.
        bnd (getClient (re_decrypt env) we (vi_tenants v) (te_id e)) (\<lambda>client. ret (te_id e, client)))) rt"
      by (simp add: resolve_context_def Let_def)
    moreover have "wp (bnd (lookupTenant we (vi_now v) (vi_tenants v) (slug_key ?slug) ?slug) (\<lambda>e.
        bnd (ensure (te_status e = TS_ACTIVE) (ForbiddenException ''Tenant account is not active'')) (\<lambda>_.
        bnd (getClient (re_decrypt env) we (vi_tenants v) (te_id e)) (\<lambda>client. ret (te_id e, client)))))
        (\<lambda>(tid, u) rt'. caches_ok env V rt' \<and> rt_dbs rt' = rt_dbs rt \<and> resolved env V tid u \<and>
           seen V (vi_now v) ?slug \<lparr>te_id = tid, te_status = TS_ACTIVE\<rparr>) ?E rt"
      using look by (simp only: wp_bnd)
    ultimately show ?thesis
      unfolding wp_def [of "resolve_context (re_decrypt env) we (vi_now v) (vi_tenants v) user"] wp_def [of "bnd _ _"] by simp
  qed
qed

section \<open>A request\<close>

text \<open>What the handler and the audit record make of the database they run on.\<close>

definition handled :: "'a visit \<Rightarrow> jwt_payload \<Rightarrow> id \<Rightarrow> tenant_db \<Rightarrow> (app_error + 'a) \<times> tenant_db" where
  "handled v user tid db =
     (case vi_handler v user tid db of
        (Inl e, db') \<Rightarrow> (Inl e, db')
      | (Inr x, db') \<Rightarrow>
          (Inr x, if mutating (vi_req v) \<and> we_audit (vi_weather v) then snd (request_audit (vi_req v) user db') else db'))"

lemma audited_handled:
  "audited (vi_weather v) (vi_req v) user u (on_db u (vi_handler v user tid)) rt =
     (case handled v user tid (rt_dbs rt u) of (r, db) \<Rightarrow> (r, rt\<lparr>rt_dbs := (rt_dbs rt)(u := db)\<rparr>))"
  by (cases "mutating (vi_req v) \<and> we_audit (vi_weather v)"; cases "vi_handler v user tid (rt_dbs rt u)"; cases "fst (vi_handler v user tid (rt_dbs rt u))")
     (auto simp: audited_def handled_def on_db_def bnd_def request_audit_def audit_log_def)

lemma caches_ok_forget: "caches_ok env V rt \<Longrightarrow> caches_ok env V (forget ids rt)"
  by (simp add: caches_ok_def forget_def)

lemma forget_dbs [simp]: "rt_dbs (forget ids rt) = rt_dbs rt"
  by (simp add: forget_def)

lemma serve_cases:
  assumes ok: "caches_ok env V rt" and v: "v \<in> V" and run: "serve env v rt = (r, rt')"
  shows "caches_ok env V rt' \<and>
    ((\<exists>e. r = Inl e \<and> rt_dbs rt' = rt_dbs rt) \<or>
     (\<exists>user tid u. authenticate (re_lib env) (re_base env) (vi_now v) (hr_bearer (vi_req v)) = Inr user \<and>
        (vi_roles v = [] \<or> set (vi_roles v) \<inter> set (coalesce (jw_roles user) []) \<noteq> {}) \<and>
        resolved env V tid u \<and> seen V (vi_now v) (extractSlug (jw_iss user)) \<lparr>te_id = tid, te_status = TS_ACTIVE\<rparr> \<and>
        r = fst (handled v user tid (rt_dbs rt u)) \<and> rt_dbs rt' = (rt_dbs rt)(u := snd (handled v user tid (rt_dbs rt u)))))"
proof -
  let ?rt = "forget (vi_evicted v) rt"
  let ?auth = "authenticate (re_lib env) (re_base env) (vi_now v) (hr_bearer (vi_req v))"
  have okf: "caches_ok env V ?rt" using ok by (rule caches_ok_forget)
  show ?thesis
  proof (cases ?auth)
    case (Inl e)
    with run okf show ?thesis by (auto simp: serve_def tenantRoute_def)
  next
    case (Inr user)
    let ?act = "canActivate (if vi_roles v = [] then None else Some (vi_roles v)) (coalesce (jw_roles user) [])"
    show ?thesis
    proof (cases ?act)
      case (Inl e)
      with run okf Inr show ?thesis by (auto simp: serve_def tenantRoute_def)
    next
      case act: (Inr b)
      then have roles: "vi_roles v = [] \<or> set (vi_roles v) \<inter> set (coalesce (jw_roles user) []) \<noteq> {}"
        by (auto simp: canActivate_def list_ex_iff split: if_splits)
      obtain rr rt1 where res: "resolve_context (re_decrypt env) (vi_weather v) (vi_now v) (vi_tenants v) user ?rt = (rr, rt1)"
        by fastforce
      from wp_resolve_context [OF okf v, of "vi_weather v" user] res
      have wp: "case rr of Inl e \<Rightarrow> caches_ok env V rt1 \<and> rt_dbs rt1 = rt_dbs rt
        | Inr (tid, u) \<Rightarrow> caches_ok env V rt1 \<and> rt_dbs rt1 = rt_dbs rt \<and> resolved env V tid u \<and>
            seen V (vi_now v) (extractSlug (jw_iss user)) \<lparr>te_id = tid, te_status = TS_ACTIVE\<rparr>"
        by (auto simp: wp_def split: sum.splits)
      have serve: "serve env v rt = (case rr of Inl e \<Rightarrow> (Inl e, rt1)
        | Inr (tid, u) \<Rightarrow> audited (vi_weather v) (vi_req v) user u (on_db u (vi_handler v user tid)) rt1)"
        using Inr act by (simp add: serve_def tenantRoute_def) (simp add: bnd_def res split: sum.splits prod.splits)
      show ?thesis
      proof (cases rr)
        case (Inl e)
        with wp serve run show ?thesis by auto
      next
        case rr: (Inr p)
        obtain tid u where p: "p = (tid, u)" by fastforce
        have "r = fst (handled v user tid (rt_dbs rt u))"
          and rt': "rt' = rt1\<lparr>rt_dbs := (rt_dbs rt)(u := snd (handled v user tid (rt_dbs rt u)))\<rparr>"
          using serve run wp rr p by (simp_all add: audited_handled split: prod.splits)
        moreover have "caches_ok env V rt'" using wp rr p by (simp add: rt' caches_ok_def)
        ultimately show ?thesis using wp rr p Inr roles by auto
      qed
    qed
  qed
qed

lemma caches_ok_all:
  assumes "caches_ok env V rt" and "set vs \<subseteq> V"
  shows "caches_ok env V (serve_all env vs rt)"
  using assms
proof (induction vs arbitrary: rt)
  case (Cons v vs)
  have "caches_ok env V (snd (serve env v rt))"
    using serve_cases [OF Cons.prems(1), of v] Cons.prems(2) by (metis insert_subset list.simps(15) surjective_pairing)
  with Cons show ?case by (simp add: serve_all_def)
qed (simp add: serve_all_def)

text \<open>
  C6. Tenants are isolated. Whatever was served before, with whatever failures of Redis, the databases and the
  audit, a request either fails and touches no database, or it carries a token that the realm of one tenant
  issued and whose roles satisfy the route, the tenants table showed this tenant active less than thirty
  seconds earlier, the handler ran for this tenant's id on the database whose url the table held for that id
  when some request resolved it, and every other database is as it was.
\<close>

theorem tenants_are_isolated:
  assumes lib: "authentic (re_lib env) (re_base env) issued" and host: "host_ok (re_base env)"
    and cold: "rt_redis rt0 = []" "rt_clients rt0 = []"
    and run: "serve env v (serve_all env vs rt0) = (r, rt')"
  shows "(\<exists>e. r = Inl e \<and> rt_dbs rt' = rt_dbs (serve_all env vs rt0)) \<or>
    (\<exists>user slug t u. issued slug user \<and> jw_iss user = re_base env @ REALM @ slug \<and>
       (vi_roles v = [] \<or> set (vi_roles v) \<inter> set (coalesce (jw_roles user) []) \<noteq> {}) \<and>
       (\<exists>v' \<in> set (vs @ [v]). vi_now v < vi_now v' + 30000 \<and>
          find (\<lambda>t. tn_slug t = slug) (vi_tenants v') = Some t \<and> tn_status t = TS_ACTIVE) \<and>
       (\<exists>v' \<in> set (vs @ [v]). resolveDbUrl (re_decrypt env) (vi_tenants v') (tn_id t) = Inr u) \<and>
       r = fst (handled v user (tn_id t) (rt_dbs (serve_all env vs rt0) u)) \<and>
       rt_dbs rt' = (rt_dbs (serve_all env vs rt0))(u := snd (handled v user (tn_id t) (rt_dbs (serve_all env vs rt0) u))))"
proof -
  let ?V = "set (vs @ [v])" and ?dbs = "rt_dbs (serve_all env vs rt0)"
  have "caches_ok env ?V rt0" using cold by (simp add: caches_ok_def)
  then have ok: "caches_ok env ?V (serve_all env vs rt0)" by (rule caches_ok_all) auto
  have v: "v \<in> ?V" by simp
  let ?refused = "\<exists>e. r = Inl e \<and> rt_dbs rt' = ?dbs"
  show ?thesis
  proof (cases ?refused)
    case False
    with serve_cases [OF ok v run] obtain user tid u
      where auth: "authenticate (re_lib env) (re_base env) (vi_now v) (hr_bearer (vi_req v)) = Inr user"
        and roles: "vi_roles v = [] \<or> set (vi_roles v) \<inter> set (coalesce (jw_roles user) []) \<noteq> {}"
        and url: "resolved env ?V tid u"
        and seen: "seen ?V (vi_now v) (extractSlug (jw_iss user)) \<lparr>te_id = tid, te_status = TS_ACTIVE\<rparr>"
        and out: "r = fst (handled v user tid (?dbs u))" "rt_dbs rt' = ?dbs(u := snd (handled v user tid (?dbs u)))"
      by blast
    from authenticateD [OF auth lib] obtain slug where slug: "slug_valid slug" "jw_iss user = re_base env @ REALM @ slug"
      "issued slug user" by blast
    then have "extractSlug (jw_iss user) = slug" using host by (simp add: extractSlug_issuer)
    with seen obtain v' t where t: "v' \<in> ?V" "vi_now v < vi_now v' + 30000"
      "find (\<lambda>t. tn_slug t = slug) (vi_tenants v') = Some t" "tid = tn_id t" "TS_ACTIVE = tn_status t"
      unfolding seen_def tenant_entry.simps by blast
    have active: "\<exists>v' \<in> ?V. vi_now v < vi_now v' + 30000 \<and>
        find (\<lambda>t. tn_slug t = slug) (vi_tenants v') = Some t \<and> tn_status t = TS_ACTIVE"
      using t(2,3,5) by (intro bexI [OF _ t(1)]) simp
    have url': "\<exists>v' \<in> ?V. resolveDbUrl (re_decrypt env) (vi_tenants v') (tn_id t) = Inr u"
      using url unfolding resolved_def t(4) .
    show ?thesis
    proof (rule disjI2, intro exI conjI)
      show "issued slug user" "jw_iss user = re_base env @ REALM @ slug" by (fact slug)+
      show "vi_roles v = [] \<or> set (vi_roles v) \<inter> set (coalesce (jw_roles user) []) \<noteq> {}" by (fact roles)
      show "\<exists>v' \<in> ?V. vi_now v < vi_now v' + 30000 \<and>
          find (\<lambda>t. tn_slug t = slug) (vi_tenants v') = Some t \<and> tn_status t = TS_ACTIVE" by (fact active)
      show "\<exists>v' \<in> ?V. resolveDbUrl (re_decrypt env) (vi_tenants v') (tn_id t) = Inr u" by (fact url')
      show "r = fst (handled v user (tn_id t) (?dbs u))"
        "rt_dbs rt' = ?dbs(u := snd (handled v user (tn_id t) (?dbs u)))" using out t(4) by simp_all
    qed
  qed simp
qed

section \<open>The audit of a body\<close>

text \<open>Two bodies that differ at most in the values of sensitive keys, at any depth.\<close>

fun alike :: "json \<Rightarrow> json \<Rightarrow> bool" and alikes :: "json list \<Rightarrow> json list \<Rightarrow> bool"
  and alike_entries :: "(string \<times> json) list \<Rightarrow> (string \<times> json) list \<Rightarrow> bool" where
  "alike (JArr vs) w = (case w of JArr ws \<Rightarrow> alikes vs ws | _ \<Rightarrow> False)"
| "alike (JObj kvs) w = (case w of JObj kws \<Rightarrow> alike_entries kvs kws | _ \<Rightarrow> False)"
| "alike JNull w = (w = JNull)"
| "alike (JBool b) w = (w = JBool b)"
| "alike (JStr s) w = (w = JStr s)"
| "alike (JNum x) w = (w = JNum x)"
| "alikes [] ws = (ws = [])"
| "alikes (v # vs) ws = (case ws of [] \<Rightarrow> False | w # ws' \<Rightarrow> alike v w \<and> alikes vs ws')"
| "alike_entries [] kws = (kws = [])"
| "alike_entries ((k, v) # kvs) kws =
     (case kws of [] \<Rightarrow> False | (k', w) # kws' \<Rightarrow> k' = k \<and> (sensitive k \<or> alike v w) \<and> alike_entries kvs kws')"

lemma redact_alike:
  "redactAuditPayload v = redactAuditPayload w \<longleftrightarrow> alike v w"
  "map redactAuditPayload vs = map redactAuditPayload ws \<longleftrightarrow> alikes vs ws"
  "redactAuditPayload (JObj kvs) = redactAuditPayload (JObj kws) \<longleftrightarrow> alike_entries kvs kws"
proof (induction v w and vs ws and kvs kws rule: alike_alikes_alike_entries.induct)
  case (1 vs w)
  then show ?case by (cases w) auto
next
  case (2 kvs w)
  then show ?case by (cases w) auto
next
  case (8 v vs ws)
  then show ?case by (cases ws) auto
next
  case (10 k v kvs kws)
  show ?case
  proof (cases kws)
    case (Cons x kws')
    obtain k' w where x: "x = (k', w)" by fastforce
    with 10 Cons show ?thesis by auto
  qed simp
qed (rename_tac w, case_tac w, auto)+

text \<open>
  C10. What the audit record of a mutation shows. Two request bodies leave the same record exactly if they are
  the same up to the values of the sensitive keys (passwords, tokens, PESEL numbers, card identifiers and
  their like), at any depth and in any spelling of the key: nothing of those values reaches the audit log,
  and everything else does.
\<close>

theorem audit_shows_all_but_secrets:
  "t_audit (snd (request_audit (req\<lparr>hr_body := v\<rparr>) user db)) = t_audit (snd (request_audit (req\<lparr>hr_body := w\<rparr>) user db)) \<longleftrightarrow>
     alike v w"
  using redact_alike(1) [of v w] by (simp add: request_audit_def audit_log_def)

section \<open>A sample\<close>

definition sample_base :: string where "sample_base = ''https://kc''"

definition sample_payload :: jwt_payload where
  "sample_payload = \<lparr>jw_sub = ''k1'', jw_iss = sample_base @ REALM @ ''acme'', jw_roles = Some [''HR''], jw_exp = 90\<rparr>"

definition sample_issued :: "string \<Rightarrow> jwt_payload \<Rightarrow> bool" where
  "sample_issued slug p \<longleftrightarrow> slug = ''acme'' \<and> p = sample_payload"

text \<open>One realm with one key, and one token signed with it.\<close>

definition sample_lib :: jwt_lib where
  "sample_lib =
     \<lparr>jl_decode = (\<lambda>raw. if raw = ''token'' then Some (sample_payload, Some ''kid'') else None),
      jl_signingKey = (\<lambda>url kid. if url = (sample_base @ REALM @ ''acme'') @ ''/protocol/openid-connect/certs'' then Some ''key'' else None),
      jl_verify = (\<lambda>key now raw. if key = ''key'' \<and> raw = ''token'' \<and> now < 90 then Some sample_payload else None)\<rparr>"

definition sample_route :: route_env where
  "sample_route = \<lparr>re_lib = sample_lib, re_base = sample_base, re_decrypt = Inr\<rparr>"

definition sample_tenant :: "id \<Rightarrow> string \<Rightarrow> string \<Rightarrow> tenant_row" where
  "sample_tenant i slug url =
     \<lparr>tn_id = i, tn_slug = slug, tn_name = slug, tn_status = TS_ACTIVE, tn_dbUrl = Some url,
      tn_metadata = \<lparr>mt_adminEmail = None, mt_realmName = None, mt_keycloakClientId = None\<rparr>, tn_provisionedAt = None\<rparr>"

definition sample_visit :: "unit visit" where
  "sample_visit =
     \<lparr>vi_now = 5, vi_tenants = [sample_tenant ''t2'' ''other'' ''url2'', sample_tenant ''t1'' ''acme'' ''url1''],
      vi_weather = \<lparr>we_redisGet = True, we_redisSet = False, we_connect = True, we_audit = True\<rparr>, vi_evicted = [], vi_roles = [''HR''],
      vi_req = \<lparr>hr_method = ''post'', hr_path = ''/x'', hr_ip = None, hr_body = JObj [(''Pesel'', JStr ''1'')], hr_params = [],
        hr_bearer = Some ''token''\<rparr>,
      vi_handler = (\<lambda>user tid. ret ())\<rparr>"

definition cold_runtime :: runtime where
  "cold_runtime = \<lparr>rt_redis = [], rt_clients = [], rt_dbs = (\<lambda>_. empty_db)\<rparr>"

lemma sample_authentic: "authentic (re_lib sample_route) (re_base sample_route) sample_issued"
proof -
  have "slug = ''acme''" if "(sample_base @ REALM @ slug) @ c = (sample_base @ REALM @ ''acme'') @ c" for slug c :: string
    using that by (simp only: append_same_eq same_append_eq)
  then show ?thesis
    by (auto simp only: authentic_def sample_route_def sample_lib_def sample_issued_def route_env.simps jwt_lib.simps
        split: if_splits option.splits) simp_all
qed

lemma tenants_are_isolated_witness:
  "\<exists>rt' u db. serve sample_route sample_visit (serve_all sample_route [sample_visit] cold_runtime) = (Inr (), rt') \<and>
     rt_dbs rt' = (rt_dbs (serve_all sample_route [sample_visit] cold_runtime))(u := db)"
proof -
  have "case fst (serve sample_route sample_visit (serve_all sample_route [sample_visit] cold_runtime)) of Inl _ \<Rightarrow> False | Inr _ \<Rightarrow> True"
    by code_simp
  then obtain rt' where run: "serve sample_route sample_visit (serve_all sample_route [sample_visit] cold_runtime) = (Inr (), rt')"
    by (cases "serve sample_route sample_visit (serve_all sample_route [sample_visit] cold_runtime)") (auto split: sum.splits)
  have "host_ok (re_base sample_route)" by code_simp
  from tenants_are_isolated [OF sample_authentic this _ _ run] run show ?thesis
    by (auto simp: cold_runtime_def)
qed

end
