(* ===== verification/ControlPlaneProps.thy ===== *)
theory ControlPlaneProps
  imports ControlPlane
begin

text \<open>
  The control plane: what may be left in an error message, what one message does to a job and its tenant, and
  the way of a job through the pipeline.
\<close>

section \<open>Redaction\<close>

definition URL_PREFIX :: string where "URL_PREFIX = ''postgresql://''"

text \<open>\<open>closed s\<close>: the first character of \<open>s\<close> that ends a user part is an at sign.\<close>

definition closed :: "string \<Rightarrow> bool" where
  "closed s \<longleftrightarrow> (\<exists>rest. dropWhile url_char s = CHR ''@'' # rest)"

lemma match_url_iff:
  "match_url s = Some rest \<longleftrightarrow> (\<exists>r. strip_ci URL_PREFIX s = Some r \<and> dropWhile url_char r = CHR ''@'' # rest)"
  by (auto simp: match_url_def URL_PREFIX_def split: option.splits list.splits if_splits)
    (metis dropWhile_eq_Nil_conv list.distinct(1))

lemma match_url_None: "match_url s = None \<longleftrightarrow> (\<forall>r. strip_ci URL_PREFIX s = Some r \<longrightarrow> \<not> closed r)"
proof (cases "match_url s")
  case (Some rest)
  with match_url_iff [of s rest] show ?thesis by (auto simp: closed_def)
next
  case None
  then have "\<nexists>r rest. strip_ci URL_PREFIX s = Some r \<and> dropWhile url_char r = CHR ''@'' # rest"
    using match_url_iff [of s] by simp
  with None show ?thesis by (auto simp: closed_def)
qed

lemma match_redacted: "match_url (''postgresql://***@'' @ t) = Some t"
  by (simp add: match_url_def lower_def Let_def url_char_def is_space_def)

lemma redact_url_match: "match_url s = Some rest \<Longrightarrow> redact_url s = ''postgresql://***@'' @ redact_url rest"
  by (subst redact_url.simps) simp

lemma redact_url_Nil [simp]: "redact_url [] = []"
  by (subst redact_url.simps) (simp add: match_url_def)

lemma redact_url_Cons: "match_url (c # r) = None \<Longrightarrow> redact_url (c # r) = c # redact_url r"
  by (subst redact_url.simps) simp

lemma closed_simps [simp]:
  "closed [] \<longleftrightarrow> False" "closed (c # s) \<longleftrightarrow> (if url_char c then closed s else c = CHR ''@'')"
  by (auto simp: closed_def)

lemma strip_closed: "strip_ci p s = Some r \<Longrightarrow> list_all url_char p \<Longrightarrow> closed s \<longleftrightarrow> closed r"
proof (induction p s rule: strip_ci.induct)
  case (3 p ps c s)
  then have "lower c = p" "strip_ci ps s = Some r" by (auto split: if_splits)
  moreover have "url_char c" if "url_char (lower c)"
    using that by (auto simp: url_char_def lower_def is_space_def Let_def split: if_splits)
  ultimately show ?case using 3 by auto
qed auto

text \<open>Redaction keeps whether a user part is closed.\<close>

lemma closed_redact: "closed (redact_url s) \<longleftrightarrow> closed s"
proof (induction s rule: redact_url.induct)
  case (1 s)
  show ?case
  proof (cases "match_url s")
    case (Some rest)
    then obtain r where r: "strip_ci URL_PREFIX s = Some r" "closed r"
      by (auto simp: match_url_iff closed_def)
    have "list_all url_char URL_PREFIX" by (simp add: URL_PREFIX_def url_char_def is_space_def)
    with strip_closed [OF r(1)] r(2) have "closed s" by simp
    moreover have "closed (redact_url s)"
      using Some by (simp add: redact_url_match url_char_def is_space_def)
    ultimately show ?thesis by simp
  next
    case None
    with 1 show ?thesis by (cases s) (auto simp: redact_url_Cons)
  qed
qed

text \<open>A text without the letter that begins the prefix cannot appear at the head by redaction.\<close>

lemma strip_redact:
  "strip_ci q (redact_url s) = Some t \<Longrightarrow> CHR ''p'' \<notin> set q \<Longrightarrow> \<exists>r. strip_ci q s = Some r \<and> t = redact_url r"
proof (induction q arbitrary: s t)
  case (Cons c q)
  show ?case
  proof (cases "match_url s")
    case (Some rest)
    with Cons.prems show ?thesis by (auto simp: redact_url_match lower_def Let_def split: if_splits)
  next
    case None
    with Cons show ?thesis by (cases s) (auto simp: redact_url_Cons split: if_splits)
  qed
qed simp

lemma no_match_inside: "lower c \<noteq> CHR ''p'' \<Longrightarrow> match_url (c # s) = None"
  by (simp add: match_url_None URL_PREFIX_def)

text \<open>
  Wherever a connection url with a user part is found in a redacted text, the user part is three stars.
\<close>

lemma redact_url_clean:
  assumes "redact_url s = a @ b" and "match_url b = Some rest"
  shows "b = ''postgresql://***@'' @ rest"
  using assms
proof (induction s arbitrary: a rule: redact_url.induct)
  case (1 s)
  show ?case
  proof (cases "match_url s")
    case (Some rest')
    let ?w = "''postgresql://***@''"
    from Some "1.prems"(1) have split: "?w @ redact_url rest' = a @ b" by (simp add: redact_url_match)
    consider (here) "a = []" | (inside) "a \<noteq> []" "length a < length ?w" | (beyond) "length ?w \<le> length a"
      by fastforce
    then show ?thesis
    proof cases
      case here
      with split have "b = ?w @ redact_url rest'" by simp
      with "1.prems"(2) match_redacted [of "redact_url rest'"] show ?thesis by (simp only: option.inject)
    next
      case inside
      define w :: string where "w = ''postgresql://***@''"
      from split have "b = drop (length a) (w @ redact_url rest')" by (simp add: w_def)
      with inside(2) have b: "b = drop (length a) w @ redact_url rest'" by (simp add: w_def [symmetric])
      from inside obtain k where k: "length a = Suc k" "k < length (tl w)" by (cases "length a") (auto simp: w_def)
      then have "drop (length a) w = tl w ! k # drop (Suc k) (tl w)"
        using Cons_nth_drop_Suc [OF k(2)] by (simp add: drop_Suc)
      moreover have "list_all (\<lambda>c. lower c \<noteq> CHR ''p'') (tl w)" by (simp add: w_def lower_def Let_def)
      with k(2) have "lower (tl w ! k) \<noteq> CHR ''p''" by (simp add: list_all_length)
      ultimately have "match_url b = None" using b no_match_inside by simp
      with "1.prems"(2) show ?thesis by simp
    next
      case beyond
      define w :: string where "w = ''postgresql://***@''"
      from beyond have "length w \<le> length a" by (simp add: w_def)
      moreover from split have "w @ redact_url rest' = a @ b" by (simp only: w_def)
      ultimately obtain a' where "redact_url rest' = a' @ b" by (auto simp: append_eq_append_conv2)
      with "1.IH"(2) [OF Some] "1.prems"(2) show ?thesis by blast
    qed
  next
    case None
    show ?thesis
    proof (cases s)
      case Nil
      with "1.prems" show ?thesis by (simp add: match_url_def)
    next
      case (Cons c r)
      with None have red: "redact_url s = c # redact_url r" by (simp add: redact_url_Cons)
      show ?thesis
      proof (cases a)
        case (Cons x a')
        with red "1.prems"(1) have "redact_url r = a' @ b" by simp
        with "1.IH"(1) [OF None \<open>s = c # r\<close>] "1.prems"(2) show ?thesis by blast
      next
        case Nil
        with "1.prems" red obtain t where t: "strip_ci URL_PREFIX (c # redact_url r) = Some t" "closed t"
          by (auto simp: match_url_iff closed_def)
        then have "lower c = CHR ''p''" "strip_ci (tl URL_PREFIX) (redact_url r) = Some t"
          by (auto simp: URL_PREFIX_def split: if_splits)
        moreover from this(2) have "\<exists>u. strip_ci (tl URL_PREFIX) r = Some u \<and> t = redact_url u"
          by (rule strip_redact) (simp add: URL_PREFIX_def)
        ultimately obtain u where "strip_ci URL_PREFIX s = Some u" "t = redact_url u"
          using \<open>s = c # r\<close> by (auto simp: URL_PREFIX_def)
        with t(2) None show ?thesis by (auto simp: match_url_None closed_redact)
      qed
    qed
  qed
qed

section \<open>What one message does\<close>

text \<open>\<open>leads J m K\<close>: from \<open>J\<close>, a success of \<open>m\<close> ends in \<open>K\<close> and a failure is still in \<open>J\<close>.\<close>

definition leads :: "('db \<Rightarrow> bool) \<Rightarrow> ('db, 'e, 'a) svc \<Rightarrow> ('db \<Rightarrow> bool) \<Rightarrow> bool" where
  "leads J m K \<longleftrightarrow> (\<forall>db. J db \<longrightarrow> wp m (\<lambda>_. K) (\<lambda>_. J) db)"

lemma leads_bnd: "preserves J m \<Longrightarrow> (\<And>x. leads J (f x) K) \<Longrightarrow> leads J (bnd m f) K"
proof -
  assume m: "preserves J m" and f: "\<And>x. leads J (f x) K"
  have "wp (bnd m f) (\<lambda>_. K) (\<lambda>_. J) db" if "J db" for db
  proof -
    from m that have "wp m (\<lambda>_. J) (\<lambda>_. J) db" by (simp add: preserves_iff_wp)
    then show ?thesis
      unfolding wp_bnd by (rule wp_mono) (use f in \<open>simp_all add: leads_def\<close>)
  qed
  then show ?thesis by (simp add: leads_def)
qed

lemma leads_Inr: "leads J m K \<Longrightarrow> J db \<Longrightarrow> m db = (Inr x, db') \<Longrightarrow> K db'"
  by (auto simp: leads_def wp_def)

lemma leads_Inl: "leads J m K \<Longrightarrow> J db \<Longrightarrow> m db = (Inl e, db') \<Longrightarrow> J db'"
  by (auto simp: leads_def wp_def)

definition world_free :: "('w plane \<Rightarrow> bool) \<Rightarrow> bool" where
  "world_free I \<longleftrightarrow> (\<forall>pl w. I (pl\<lparr>pl_world := w\<rparr>) = I pl)"

definition tenants_free :: "('w plane \<Rightarrow> bool) \<Rightarrow> bool" where
  "tenants_free I \<longleftrightarrow> (\<forall>pl ts. I (put_tenants ts pl) = I pl)"

definition jobs_free :: "('w plane \<Rightarrow> bool) \<Rightarrow> bool" where
  "jobs_free I \<longleftrightarrow> (\<forall>pl js. I (put_jobs js pl) = I pl)"

lemma preserves_at_world: "world_free I \<Longrightarrow> preserves I (at_world m)"
  by (auto simp: preserves_def at_world_def world_free_def split: prod.splits)

lemma preserves_tenant_update: "tenants_free I \<Longrightarrow> preserves I (tenant_update i f)"
  by (auto simp: preserves_def tenant_update_def tenants_free_def split: option.splits)

lemma preserves_job_update: "jobs_free I \<Longrightarrow> preserves I (job_update i f)"
  by (auto simp: preserves_def job_update_def jobs_free_def split: option.splits)

lemma preserves_crypto [intro]: "preserves I (crypto x)"
  by (simp add: crypto_def preserves_basic)

lemma preserves_find_tenant [intro]: "preserves I (find_tenant i)"
  by (auto simp: find_tenant_def)

lemma preserves_run_migrate: "world_free I \<Longrightarrow> preserves I (run_migrate env url)"
  by (auto simp: preserves_def run_migrate_def at_world_def world_free_def split: prod.splits sum.splits)

lemma preserves_seed_unit: "world_free I \<Longrightarrow> preserves I (seed_unit env url)"
  by (auto simp: preserves_def seed_unit_def at_world_def world_free_def split: prod.splits sum.splits)

lemma preserves_stored_url [intro]: "preserves I (stored_url env t)"
  by (auto simp: stored_url_def)

lemma preserves_ensure_role: "world_free I \<Longrightarrow> preserves I (ensure_role env i)"
  by (auto simp: ensure_role_def intro!: preserves_at_world)

lemma preserves_ensure_db: "world_free I \<Longrightarrow> preserves I (ensure_db env i)"
  by (auto simp: ensure_db_def intro!: preserves_at_world)

lemmas preserves_plane = preserves_at_world preserves_tenant_update preserves_job_update preserves_run_migrate
  preserves_seed_unit preserves_ensure_role preserves_ensure_db

fun next_step :: "provisioning_step \<Rightarrow> provisioning_step option" where
  "next_step CREATE_DB = Some RUN_MIGRATIONS"
| "next_step RUN_MIGRATIONS = Some SEED"
| "next_step SEED = Some KEYCLOAK_SETUP"
| "next_step KEYCLOAK_SETUP = Some DONE"
| "next_step DONE = Some DONE"
| "next_step FAILED = None"

abbreviation jobs_are :: "job_row list \<Rightarrow> 'w plane \<Rightarrow> bool" where
  "jobs_are js pl \<equiv> pl_jobs pl = js"

abbreviation change_job :: "id \<Rightarrow> (job_row \<Rightarrow> job_row) \<Rightarrow> job_row list \<Rightarrow> job_row list" where
  "change_job i \<equiv> update_rows (\<lambda>j. pj_id j = i)"

lemma jobs_are_free [simp]: "world_free (jobs_are js)" "tenants_free (jobs_are js)"
  by (simp_all add: world_free_def tenants_free_def)

lemma leads_to_step: "leads (jobs_are js) (to_step job s) (jobs_are (change_job (pj_id job) (\<lambda>j. j\<lparr>pj_step := s\<rparr>) js))"
  by (auto simp: leads_def to_step_def job_update_def wp_def split: option.splits)

text \<open>A step that succeeds moves its job on, and a step that fails leaves the jobs as they were.\<close>

lemma step_handler_leads:
  assumes "step_handler env now (pj_step job) = Some h" and "next_step (pj_step job) = Some s"
  shows "leads (jobs_are js) (h job) (jobs_are (change_job (pj_id job) (\<lambda>j. j\<lparr>pj_step := s\<rparr>) js))"
  using assms
  by (cases "pj_step job")
    (auto simp: createDbStep_def runMigrationsStep_def seedStep_def keycloakSetupStep_def doneStep_def
      intro!: leads_bnd leads_to_step preserves_plane)

lemma step_handler_exists: "step_handler env now s \<noteq> None \<longleftrightarrow> next_step s \<noteq> None"
  by (cases s) auto

definition failed_patch :: "int \<Rightarrow> job_row \<Rightarrow> string \<Rightarrow> job_row \<Rightarrow> job_row" where
  "failed_patch now job m j =
     (if 3 \<le> pj_attemptCount job + 1
      then j\<lparr>pj_step := FAILED, pj_lastError := Some m, pj_attemptCount := pj_attemptCount job + 1\<rparr>
      else j\<lparr>pj_attemptCount := pj_attemptCount job + 1, pj_lastError := Some m,
             pj_nextAttemptAt := Some (now + retry_delay (pj_attemptCount job))\<rparr>)"

lemma job_failed_eq:
  assumes "find_row pj_id (pj_id job) (pl_jobs pl) \<noteq> None"
  shows "job_failed now job e pl =
    (Inr (), put_jobs (change_job (pj_id job) (failed_patch now job (redact (error_message e))) (pl_jobs pl)) pl)"
  using assms by (auto simp: job_failed_def job_update_def failed_patch_def [abs_def] Let_def)

lemma preserves_advance: "world_free I \<Longrightarrow> preserves I (advance env job)"
  unfolding advance_def
  by (rule preserves_bnd) (auto intro: preserves_at_world split: option.splits)

text \<open>What happens to the row of the job.\<close>

inductive job_move :: "int \<Rightarrow> job_row \<Rightarrow> job_row \<Rightarrow> bool" for now where
  moves_on: "next_step (pj_step j) = Some s \<Longrightarrow> job_move now j (j\<lparr>pj_step := s\<rparr>)"
| retries: "next_step (pj_step j) = Some s \<Longrightarrow> s' \<in> {pj_step j, s} \<Longrightarrow> pj_attemptCount j < 2 \<Longrightarrow>
    job_move now j (j\<lparr>pj_step := s', pj_attemptCount := pj_attemptCount j + 1, pj_lastError := Some (redact m),
      pj_nextAttemptAt := Some (now + retry_delay (pj_attemptCount j))\<rparr>)"
| gives_up: "next_step (pj_step j) = Some s \<Longrightarrow> 2 \<le> pj_attemptCount j \<Longrightarrow>
    job_move now j (j\<lparr>pj_step := FAILED, pj_lastError := Some (redact m), pj_attemptCount := pj_attemptCount j + 1\<rparr>)"

inductive_cases job_moveE: "job_move now j j'"

lemma job_move_failed:
  assumes "next_step (pj_step j) = Some s" and "s' \<in> {pj_step j, s}"
  shows "job_move now j (failed_patch now j (redact m) (j\<lparr>pj_step := s'\<rparr>))"
  using assms retries [of j s s' now m] gives_up [of j s now m] by (auto simp: failed_patch_def)

lemma change_job_found:
  assumes "distinct (map pj_id js)" and "find_row pj_id i js = Some j" and "f j = g j"
  shows "change_job i f js = change_job i g js"
proof -
  have "x = j" if "x \<in> set js" "pj_id x = i" for x
    using find_row_in [OF assms(1) that(1)] that(2) assms(2) by simp
  then show ?thesis using assms(3) by (auto simp: update_rows_def)
qed

lemma change_job_twice:
  assumes "\<forall>x. pj_id (f x) = pj_id x"
  shows "change_job i g (change_job i f js) = change_job i (g \<circ> f) js"
  using assms by (induction js) auto

lemma process_job:
  assumes keys: "distinct (map pj_id (pl_jobs pl))" and j: "find_row pj_id (ms_jobId msg) (pl_jobs pl) = Some j"
    and live: "pj_step j \<noteq> FAILED" and run: "process_msg env now msg pl = (r, pl')"
  shows "r = Inr () \<and> (\<exists>j'. job_move now j j' \<and> pl_jobs pl' = change_job (pj_id j) (\<lambda>_. j') (pl_jobs pl))"
proof -
  let ?js = "pl_jobs pl"
  have i: "pj_id j = ms_jobId msg" using j by (auto dest: find_row_SomeD)
  from live obtain s where s: "next_step (pj_step j) = Some s" by (cases "pj_step j") auto
  then obtain h where h: "step_handler env now (pj_step j) = Some h" using step_handler_exists by fastforce
  have run': "catch (bnd (h j) (\<lambda>_. advance env j)) (job_failed now j) pl = (r, pl')"
    using run j h by (simp add: process_msg_def)
  note lead = step_handler_leads [OF h s, of ?js]
  obtain r1 pl1 where 1: "h j pl = (r1, pl1)" by (cases "h j pl")
  show ?thesis
  proof (cases r1)
    case (Inl e)
    with leads_Inl [OF lead] 1 have js1: "pl_jobs pl1 = ?js" by blast
    with j i have "find_row pj_id (pj_id j) (pl_jobs pl1) \<noteq> None" by simp
    from job_failed_eq [OF this] run' 1 Inl js1
    have "r = Inr ()" "pl_jobs pl' = change_job (pj_id j) (failed_patch now j (redact (error_message e))) ?js"
      by (auto simp: catch_def bnd_def)
    moreover have "job_move now j (failed_patch now j (redact (error_message e)) j)"
      using job_move_failed [OF s, of "pj_step j"] by simp
    moreover have "change_job (pj_id j) (failed_patch now j (redact (error_message e))) ?js =
        change_job (pj_id j) (\<lambda>_. failed_patch now j (redact (error_message e)) j) ?js"
      using j i by (intro change_job_found [OF keys]) auto
    ultimately show ?thesis by auto
  next
    case (Inr u)
    with leads_Inr [OF lead] 1 have js1: "pl_jobs pl1 = change_job (pj_id j) (\<lambda>j. j\<lparr>pj_step := s\<rparr>) ?js" by blast
    have moved: "change_job (pj_id j) f ?js = change_job (pj_id j) (\<lambda>_. f j) ?js" for f
      using j i by (intro change_job_found [OF keys]) auto
    obtain r2 pl2 where 2: "advance env j pl1 = (r2, pl2)" by (cases "advance env j pl1")
    have js2: "pl_jobs pl2 = pl_jobs pl1"
      using preservesD [OF preserves_advance [OF jobs_are_free(1)] _ 2] by blast
    show ?thesis
    proof (cases r2)
      case (Inr v)
      with run' 1 2 \<open>r1 = Inr u\<close> have "r = Inr ()" "pl' = pl2" by (auto simp: catch_def bnd_def)
      with js1 js2 moved [of "\<lambda>j. j\<lparr>pj_step := s\<rparr>"] moves_on [OF s, of now] show ?thesis by auto
    next
      case (Inl e)
      have "find_row pj_id (pj_id j) (pl_jobs pl2) \<noteq> None"
        using j i js1 js2 by (simp add: find_row_update_rows)
      from job_failed_eq [OF this] run' 1 2 Inl \<open>r1 = Inr u\<close> js1 js2
      have "r = Inr ()" "pl_jobs pl' = change_job (pj_id j) (failed_patch now j (redact (error_message e)) \<circ> (\<lambda>j. j\<lparr>pj_step := s\<rparr>)) ?js"
        by (auto simp: catch_def bnd_def change_job_twice)
      moreover have "job_move now j (failed_patch now j (redact (error_message e)) (j\<lparr>pj_step := s\<rparr>))"
        using job_move_failed [OF s, of s] by simp
      ultimately show ?thesis
        using moved [of "failed_patch now j (redact (error_message e)) \<circ> (\<lambda>j. j\<lparr>pj_step := s\<rparr>)"] by auto
    qed
  qed
qed

section \<open>Tenants\<close>

definition only_tenant :: "id \<Rightarrow> tenant_row list \<Rightarrow> 'w plane \<Rightarrow> bool" where
  "only_tenant i ts pl \<longleftrightarrow> filter (\<lambda>t. tn_id t \<noteq> i) (pl_tenants pl) = filter (\<lambda>t. tn_id t \<noteq> i) ts"

definition same_status :: "tenant_row list \<Rightarrow> 'w plane \<Rightarrow> bool" where
  "same_status ts pl \<longleftrightarrow>
     map (\<lambda>t. (tn_id t, tn_status t, tn_slug t)) (pl_tenants pl) = map (\<lambda>t. (tn_id t, tn_status t, tn_slug t)) ts"

definition outbox_is :: "outbox_row list \<Rightarrow> 'w plane \<Rightarrow> bool" where
  "outbox_is os pl \<longleftrightarrow> pl_outbox pl = os"

lemma frames_free [simp]:
  "world_free (only_tenant i ts)" "jobs_free (only_tenant i ts)" "world_free (same_status ts)" "jobs_free (same_status ts)"
  "world_free (outbox_is os)" "jobs_free (outbox_is os)" "tenants_free (outbox_is os)"
  by (simp_all add: world_free_def jobs_free_def tenants_free_def only_tenant_def same_status_def outbox_is_def)

lemma filter_update_other:
  "(\<And>r. key (f r) = key r) \<Longrightarrow> filter (\<lambda>r. key r \<noteq> i) (update_rows (\<lambda>r. key r = i) f rs) = filter (\<lambda>r. key r \<noteq> i) rs"
  by (induction rs) auto

lemma tenant_update_only: "(\<And>t. tn_id (f t) = tn_id t) \<Longrightarrow> preserves (only_tenant i ts) (tenant_update i f)"
  by (auto simp: preserves_def tenant_update_def only_tenant_def filter_update_other split: option.splits)

lemma tenant_update_status:
  "(\<And>t. tn_id (f t) = tn_id t \<and> tn_status (f t) = tn_status t \<and> tn_slug (f t) = tn_slug t) \<Longrightarrow>
    preserves (same_status ts) (tenant_update i f)"
  by (auto simp: preserves_def tenant_update_def same_status_def map_update_rows split: option.splits)

lemmas step_defs = createDbStep_def runMigrationsStep_def seedStep_def keycloakSetupStep_def doneStep_def to_step_def

lemma step_handler_only:
  "step_handler env now (pj_step job) = Some h \<Longrightarrow> preserves (only_tenant (pj_tenantId job) ts) (h job)"
  by (cases "pj_step job")
    (auto simp: step_defs intro!: preserves_bnd preserves_at_world preserves_job_update preserves_run_migrate preserves_seed_unit
      preserves_ensure_role preserves_ensure_db tenant_update_only)

lemma step_handler_status:
  "step_handler env now (pj_step job) = Some h \<Longrightarrow> pj_step job \<noteq> DONE \<Longrightarrow> preserves (same_status ts) (h job)"
  by (cases "pj_step job")
    (auto simp: step_defs intro!: preserves_bnd preserves_at_world preserves_job_update preserves_run_migrate preserves_seed_unit
      preserves_ensure_role preserves_ensure_db tenant_update_status)

lemma step_handler_outbox:
  "step_handler env now (pj_step job) = Some h \<Longrightarrow> preserves (outbox_is os) (h job)"
  by (cases "pj_step job") (auto simp: step_defs intro!: preserves_bnd preserves_plane)

lemma preserves_process:
  assumes I: "world_free I" "jobs_free I"
    and h: "\<And>job h. find_row pj_id (ms_jobId msg) (pl_jobs pl) = Some job \<Longrightarrow> step_handler env now (pj_step job) = Some h \<Longrightarrow>
      preserves I (h job)"
    and start: "I pl"
  shows "I (snd (process_msg env now msg pl))"
proof (cases "find_row pj_id (ms_jobId msg) (pl_jobs pl)")
  case (Some job)
  have "preserves I (job_failed now job e)" for e
    using I by (auto simp: job_failed_def Let_def intro!: preserves_job_update)
  then have "preserves I (catch (bnd (h job) (\<lambda>_. advance env job)) (job_failed now job))"
    if "step_handler env now (pj_step job) = Some h" for h
    using assms(3) [OF Some that] by (auto intro!: preserves_advance [OF I(1)])
  with Some start show ?thesis by (auto simp: process_msg_def preserves_def split: option.splits)
qed (use start in \<open>simp add: process_msg_def\<close>)

section \<open>The way of a job\<close>

text \<open>A job has failed exactly when it has used its three attempts.\<close>

definition job_ok :: "job_row \<Rightarrow> bool" where
  "job_ok j \<longleftrightarrow> 0 \<le> pj_attemptCount j \<and> (if pj_step j = FAILED then pj_attemptCount j = 3 else pj_attemptCount j \<le> 2)"

text \<open>The steps and attempts a job has left.\<close>

fun steps_left :: "provisioning_step \<Rightarrow> nat" where
  "steps_left CREATE_DB = 4"
| "steps_left RUN_MIGRATIONS = 3"
| "steps_left SEED = 2"
| "steps_left KEYCLOAK_SETUP = 1"
| "steps_left DONE = 0"
| "steps_left FAILED = 0"

definition budget :: "job_row \<Rightarrow> nat" where
  "budget j = steps_left (pj_step j) + nat (3 - pj_attemptCount j)"

lemma job_move_ok: "job_move now j j' \<Longrightarrow> job_ok j \<Longrightarrow> job_ok j'"
  by (erule job_moveE; cases "pj_step j") (auto simp: job_ok_def)

lemma job_move_budget:
  "job_move now j j' \<Longrightarrow> job_ok j \<Longrightarrow> budget j' < budget j \<or> (pj_step j = DONE \<and> j' = j)"
  by (erule job_moveE; cases "pj_step j") (auto simp: job_ok_def budget_def)

lemma job_move_id: "job_move now j j' \<Longrightarrow> pj_id j' = pj_id j"
  by (erule job_moveE) auto

lemma done_stays:
  assumes keys: "distinct (map pj_id (pl_jobs pl))" and j: "find_row pj_id (ms_jobId msg) (pl_jobs pl) = Some j"
    and last: "pj_step j = DONE" and tenant: "find_row tn_id (pj_tenantId j) (pl_tenants pl) = Some t"
  shows "pl_jobs (snd (process_msg env now msg pl)) = pl_jobs pl"
proof -
  have i: "pj_id j = ms_jobId msg" using j by (auto dest: find_row_SomeD)
  have "change_job (pj_id j) (\<lambda>x. x\<lparr>pj_step := DONE\<rparr>) (pl_jobs pl) = change_job (pj_id j) (\<lambda>x. x) (pl_jobs pl)"
    using j i last by (intro change_job_found [OF keys]) auto
  also have "\<dots> = pl_jobs pl" by (simp add: update_rows_def)
  finally show ?thesis
    using j i last tenant
    by (simp add: process_msg_def doneStep_def tenant_update_def to_step_def job_update_def advance_def catch_def bnd_def)
qed

text \<open>
  C31. Processing a message never fails. A message about an unknown or a failed job changes nothing. Otherwise
  it changes at most the job the message names, by one step of the pipeline, one recorded attempt with a
  redacted error, or the final failure after the third attempt; every change uses up some of the job's budget
  of steps and attempts, so only finitely many can happen. A job at its last step is left as it is whenever its
  tenant exists (the step that makes the tenant active is merely repeated); if the tenant row is gone, even
  such a job records attempts and fails. Beyond the job, at most the tenant of that job changes, a tenant
  becomes active only in the last step, and the outbox is left alone.
\<close>

theorem process_msg_moves:
  assumes keys: "distinct (map pj_id (pl_jobs pl))" and ok: "\<forall>j \<in> set (pl_jobs pl). job_ok j"
    and run: "process_msg env now msg pl = (r, pl')"
  shows "r = Inr () \<and>
    (case find_row pj_id (ms_jobId msg) (pl_jobs pl) of
       None \<Rightarrow> pl' = pl
     | Some j \<Rightarrow>
         if pj_step j = FAILED then pl' = pl
         else (\<exists>j'. job_move now j j' \<and> job_ok j' \<and> pl_jobs pl' = change_job (pj_id j) (\<lambda>_. j') (pl_jobs pl) \<and>
                 (budget j' < budget j \<or> (pj_step j = DONE \<and> j' = j))) \<and>
              (pj_step j = DONE \<and> find_row tn_id (pj_tenantId j) (pl_tenants pl) \<noteq> None \<longrightarrow> pl_jobs pl' = pl_jobs pl) \<and>
              only_tenant (pj_tenantId j) (pl_tenants pl) pl' \<and>
              (pj_step j \<noteq> DONE \<longrightarrow> same_status (pl_tenants pl) pl') \<and> pl_outbox pl' = pl_outbox pl)"
proof (cases "find_row pj_id (ms_jobId msg) (pl_jobs pl)")
  case None
  with run show ?thesis by (simp add: process_msg_def)
next
  case (Some j)
  show ?thesis
  proof (cases "pj_step j = FAILED")
    case True
    with run Some show ?thesis by (simp add: process_msg_def)
  next
    case False
    from Some ok have "job_ok j" by (auto dest: find_row_SomeD)
    have pl': "pl' = snd (process_msg env now msg pl)" using run by simp
    have 1: "only_tenant (pj_tenantId j) (pl_tenants pl) pl'"
      unfolding pl' by (rule preserves_process [where I = "only_tenant (pj_tenantId j) (pl_tenants pl)"])
        (use Some in \<open>auto intro: step_handler_only simp: only_tenant_def\<close>)
    have 2: "same_status (pl_tenants pl) pl'" if "pj_step j \<noteq> DONE"
      unfolding pl' by (rule preserves_process [where I = "same_status (pl_tenants pl)"])
        (use Some that in \<open>auto intro: step_handler_status simp: same_status_def\<close>)
    have 3: "outbox_is (pl_outbox pl) pl'"
      unfolding pl'
      by (rule preserves_process [where I = "outbox_is (pl_outbox pl)"]) (auto intro: step_handler_outbox simp: outbox_is_def)
    have 4: "pl_jobs pl' = pl_jobs pl" if "pj_step j = DONE" "find_row tn_id (pj_tenantId j) (pl_tenants pl) \<noteq> None"
      using done_stays [OF keys Some that(1)] that(2) pl' by auto
    obtain j' where 5: "r = Inr ()" and move: "job_move now j j'"
      and 6: "pl_jobs pl' = change_job (pj_id j) (\<lambda>_. j') (pl_jobs pl)"
      using process_job [OF keys Some False run] by blast
    have "\<exists>j'. job_move now j j' \<and> job_ok j' \<and> pl_jobs pl' = change_job (pj_id j) (\<lambda>_. j') (pl_jobs pl) \<and>
        (budget j' < budget j \<or> (pj_step j = DONE \<and> j' = j))"
      using move 6 job_move_ok [OF move \<open>job_ok j\<close>] job_move_budget [OF move \<open>job_ok j\<close>] by blast
    with 1 2 3 4 5 Some False show ?thesis by (simp add: outbox_is_def)
  qed
qed

end
