(* ===== verification/ProvisioningRun.thy ===== *)
theory ProvisioningRun
  imports ControlPlaneProps
begin

text \<open>
  From sign-up to an active tenant: a run in which every call outside succeeds reaches the active tenant with
  exactly one message per step, the stored connection url fits the password of the role, and the one place
  where a lost message strands a tenant.
\<close>

section \<open>Sign-up\<close>

definition new_tenant :: "id \<Rightarrow> signup_dto \<Rightarrow> tenant_row" where
  "new_tenant tid dto =
     \<lparr>tn_id = tid, tn_slug = sg_slug dto, tn_name = sg_companyName dto, tn_status = TS_PENDING, tn_dbUrl = None,
      tn_metadata = \<lparr>mt_adminEmail = Some (sg_adminEmail dto), mt_realmName = None, mt_keycloakClientId = None\<rparr>,
      tn_provisionedAt = None\<rparr>"

definition new_job :: "id \<Rightarrow> id \<Rightarrow> job_row" where
  "new_job jid tid =
     \<lparr>pj_id = jid, pj_tenantId = tid, pj_step = CREATE_DB, pj_attemptCount = 0, pj_lastError = None, pj_nextAttemptAt = None\<rparr>"

definition signup_event :: "id \<Rightarrow> id \<Rightarrow> id \<Rightarrow> int \<Rightarrow> outbox_row" where
  "signup_event eid jid tid now =
     \<lparr>ob_id = eid, ob_routingKey = ''tenant.provision'', ob_payload = \<lparr>ms_jobId = jid, ms_tenantId = tid\<rparr>,
      ob_publishedAt = None, ob_createdAt = now\<rparr>"

lemma signup_outcome:
  "signup tid jid eid now dto pl =
    (if sg_slug dto \<in> tn_slug ` set (pl_tenants pl)
     then (Inl (ConflictException ''Ta nazwa jest juz zajeta''), pl)
     else (Inr jid, pl\<lparr>pl_tenants := pl_tenants pl @ [new_tenant tid dto], pl_jobs := pl_jobs pl @ [new_job jid tid],
                       pl_outbox := pl_outbox pl @ [signup_event eid jid tid now]\<rparr>))"
proof -
  have "list_ex (\<lambda>t. tn_slug t = sg_slug dto) (pl_tenants pl) \<longleftrightarrow> sg_slug dto \<in> tn_slug ` set (pl_tenants pl)"
    by (force simp: list_ex_iff)
  then show ?thesis
    by (simp add: signup_def tenant_insert_def isSlugAvailable_def catch_def transaction_def bnd_def is_P2002_def
        new_tenant_def new_job_def signup_event_def svc_defs)
qed

section \<open>A world that works\<close>

text \<open>\<open>sent w\<close> is what the broker of the world \<open>w\<close> has been given.\<close>

definition works :: "('w \<Rightarrow> 'b) \<Rightarrow> ('w, 'e, 'a) svc \<Rightarrow> bool" where
  "works sent m \<longleftrightarrow> (\<forall>w. \<exists>x w'. m w = (Inr x, w') \<and> sent w' = sent w)"

fun wants_json :: "kp_request \<Rightarrow> bool" where
  "wants_json (KpToken _) = True"
| "wants_json (KpFind _ _ _) = True"
| "wants_json (KpGetRole _ _ _) = True"
| "wants_json _ = False"

definition reliable :: "'w plane_env \<Rightarrow> ('w \<Rightarrow> provision_msg list) \<Rightarrow> bool" where
  "reliable env sent \<longleftrightarrow>
     (\<forall>c. works sent (if_pg (en_infra env) c)) \<and> (\<forall>u. works sent (if_migrate (en_infra env) u)) \<and>
     (\<forall>u n. works sent (if_seedUnit (en_infra env) u n)) \<and> (\<forall>u. works sent (if_disconnect (en_infra env) u)) \<and>
     (\<forall>rq w. \<exists>resp w'. if_fetch (en_infra env) rq w = (Inr resp, w') \<and> sent w' = sent w \<and> rp_ok resp \<and>
        (wants_json rq \<longrightarrow> rp_body resp \<noteq> KbNone)) \<and>
     (\<forall>k m w. \<exists>w'. if_emit (en_infra env) k m w = (Inr (), w') \<and> sent w' = sent w @ [m]) \<and>
     (\<forall>s. \<exists>c. en_encrypt env s = Inr c \<and> en_decrypt env c = Inr s)"

lemma reliableD:
  assumes "reliable env sent"
  shows "works sent (if_pg (en_infra env) c)" "works sent (if_migrate (en_infra env) u)"
    "works sent (if_seedUnit (en_infra env) u n)" "works sent (if_disconnect (en_infra env) u)"
    "\<exists>resp w'. if_fetch (en_infra env) rq w = (Inr resp, w') \<and> sent w' = sent w \<and> rp_ok resp \<and>
        (wants_json rq \<longrightarrow> rp_body resp \<noteq> KbNone)"
    "\<exists>w'. if_emit (en_infra env) k m w = (Inr (), w') \<and> sent w' = sent w @ [m]"
    "\<exists>c. en_encrypt env s = Inr c \<and> en_decrypt env c = Inr s"
  using assms unfolding reliable_def by blast+

lemma works_ret [intro]: "works sent (ret x)"
  by (simp add: works_def)

lemma works_bnd: "works sent m \<Longrightarrow> (\<And>x. works sent (f x)) \<Longrightarrow> works sent (bnd m f)"
  unfolding works_def bnd_def by (metis (no_types, lifting) old.prod.case sum.case(2))

lemma works_catch: "works sent m \<Longrightarrow> works sent (catch m h)"
  unfolding works_def catch_def by (metis (no_types, lifting) old.prod.case sum.case(2))

lemma works_mapM: "(\<And>x. works sent (f x)) \<Longrightarrow> works sent (mapM f xs)"
  by (induction xs) (auto intro!: works_bnd)

lemma works_fetch: "reliable env sent \<Longrightarrow> works sent (if_fetch (en_infra env) rq)"
  using reliableD(5) [of env sent rq] by (fastforce simp: works_def)

lemma works_kp_send:
  assumes "reliable env sent"
  shows "works sent (kp_send env rq)"
  unfolding works_def
proof
  fix w
  from reliableD(5) [OF assms, of rq w] show "\<exists>x w'. kp_send env rq w = (Inr x, w') \<and> sent w' = sent w"
    by (auto simp: kp_send_def bnd_def)
qed

lemma works_json:
  assumes "reliable env sent" and "wants_json rq" and "\<And>b. works sent (f b)"
  shows "works sent (bnd (kp_send env rq) (\<lambda>resp. bnd (resp_json resp) f))"
  unfolding works_def
proof
  fix w
  from reliableD(5) [OF assms(1), of rq w] assms(2) obtain resp w1 where
    "if_fetch (en_infra env) rq w = (Inr resp, w1)" "sent w1 = sent w" "rp_ok resp" "rp_body resp \<noteq> KbNone" by blast
  with assms(3) show "\<exists>x w'. bnd (kp_send env rq) (\<lambda>resp. bnd (resp_json resp) f) w = (Inr x, w') \<and> sent w' = sent w"
    by (simp add: kp_send_def resp_json_def bnd_def works_def) metis
qed

lemma works_kp_token:
  assumes "reliable env sent"
  shows "works sent (kp_token env)"
  unfolding works_def
proof
  fix w
  from reliableD(5) [OF assms, of "KpToken (en_adminPassword env)" w]
  show "\<exists>x w'. kp_token env w = (Inr x, w') \<and> sent w' = sent w"
    by (auto simp: kp_token_def resp_json_def bnd_def)
qed

lemma works_kp_user:
  assumes "reliable env sent"
  shows "works sent (kp_user env token realm email)"
  unfolding kp_user_def Let_def
  by (rule works_bnd [OF works_kp_send [OF assms]]) (auto intro!: works_json [OF assms])

lemma works_setup_realm:
  assumes "reliable env sent"
  shows "works sent (setup_realm env slug realm email)"
  unfolding setup_realm_def kp_email_def
  by (intro works_bnd [OF works_kp_token [OF assms]] works_bnd [OF works_mapM] works_bnd [OF works_kp_user [OF assms]]
      works_json [OF assms] works_bnd [OF works_kp_send [OF assms]] works_kp_send [OF assms] works_catch
      works_bnd [OF works_fetch [OF assms]] works_ret) simp_all

lemma wp_at_world:
  assumes "works sent m" and "\<And>x w. sent w = sent (pl_world pl) \<Longrightarrow> Q x (pl\<lparr>pl_world := w\<rparr>)"
  shows "wp (at_world m) Q E pl"
proof -
  from assms(1) obtain x w where "m (pl_world pl) = (Inr x, w)" "sent w = sent (pl_world pl)"
    unfolding works_def by blast
  with assms(2) show ?thesis by (simp add: wp_def at_world_def)
qed

section \<open>Stages\<close>

text \<open>\<open>stage\<close>: the job of the message is at a step, its tenant is there, with a readable url if asked for.\<close>

definition stage :: "'w plane_env \<Rightarrow> ('w \<Rightarrow> provision_msg list) \<Rightarrow> provision_msg \<Rightarrow> provisioning_step \<Rightarrow> bool \<Rightarrow> bool \<Rightarrow>
    provision_msg list \<Rightarrow> 'w plane \<Rightarrow> bool" where
  "stage env sent msg s readable active ms pl \<longleftrightarrow>
     (\<exists>j. find_row pj_id (ms_jobId msg) (pl_jobs pl) = Some j \<and> pj_tenantId j = ms_tenantId msg \<and> pj_step j = s) \<and>
     (\<exists>t. find_row tn_id (ms_tenantId msg) (pl_tenants pl) = Some t \<and>
        (readable \<longrightarrow> (\<exists>c u. tn_dbUrl t = Some c \<and> en_decrypt env c = Inr u)) \<and> (active \<longrightarrow> tn_status t = TS_ACTIVE)) \<and>
     sent (pl_world pl) = ms"

lemma stage_world [simp]:
  "sent w = sent (pl_world pl) \<Longrightarrow> stage env sent msg s rd ac ms (pl\<lparr>pl_world := w\<rparr>) = stage env sent msg s rd ac ms pl"
  by (simp add: stage_def)

lemma wp_world_stage:
  assumes "works sent m" and "stage env sent msg s rd ac ms pl"
    and "\<And>x pl'. stage env sent msg s rd ac ms pl' \<Longrightarrow> Q x pl'"
  shows "wp (at_world m) Q E pl"
  by (rule wp_at_world [OF assms(1)]) (use assms(2,3) in simp)

lemma wp_to_step:
  assumes "stage env sent msg s rd ac ms pl" and "pj_id job = ms_jobId msg"
    and "\<And>pl'. stage env sent msg s' rd ac ms pl' \<Longrightarrow> Q () pl'"
  shows "wp (to_step job s') Q E pl"
proof -
  from assms(1) obtain j where j: "find_row pj_id (ms_jobId msg) (pl_jobs pl) = Some j" by (auto simp: stage_def)
  then have "pj_id j = ms_jobId msg" by (auto dest: find_row_SomeD)
  with j assms show ?thesis
    by (auto simp: to_step_def job_update_def svc_wp stage_def find_row_update_rows)
qed

lemma wp_tenant_update:
  assumes "stage env sent msg s rd ac ms pl" and "\<And>t. tn_id (f t) = tn_id t"
    and "\<And>t. (rd \<longrightarrow> (\<exists>c u. tn_dbUrl t = Some c \<and> en_decrypt env c = Inr u)) \<Longrightarrow> rd' \<Longrightarrow>
      (\<exists>c u. tn_dbUrl (f t) = Some c \<and> en_decrypt env c = Inr u)"
    and "\<And>t. (ac \<longrightarrow> tn_status t = TS_ACTIVE) \<Longrightarrow> ac' \<Longrightarrow> tn_status (f t) = TS_ACTIVE"
    and "\<And>pl'. stage env sent msg s rd' ac' ms pl' \<Longrightarrow> Q () pl'"
  shows "wp (tenant_update (ms_tenantId msg) f) Q E pl"
proof -
  from assms(1) obtain t where t: "find_row tn_id (ms_tenantId msg) (pl_tenants pl) = Some t" by (auto simp: stage_def)
  then have "tn_id t = ms_tenantId msg" by (auto dest: find_row_SomeD)
  with t assms show ?thesis
    by (auto simp: tenant_update_def svc_wp stage_def find_row_update_rows)
qed

lemma wp_find_tenant:
  assumes "stage env sent msg s rd ac ms pl"
    and "\<And>t. find_row tn_id (ms_tenantId msg) (pl_tenants pl) = Some t \<Longrightarrow>
      (rd \<longrightarrow> (\<exists>c u. tn_dbUrl t = Some c \<and> en_decrypt env c = Inr u)) \<Longrightarrow> Q t pl"
  shows "wp (find_tenant (ms_tenantId msg)) Q E pl"
  using assms by (auto simp: find_tenant_def svc_wp stage_def)

lemma wp_noFail: "wp m Q (\<lambda>_ _. False) db \<Longrightarrow> \<exists>x db'. m db = (Inr x, db') \<and> Q x db'"
  by (auto simp: wp_def split: prod.splits sum.splits)

text \<open>Each handler, in a world that works, moves its stage on.\<close>

definition about :: "provision_msg \<Rightarrow> job_row \<Rightarrow> bool" where
  "about msg job \<longleftrightarrow> pj_id job = ms_jobId msg \<and> pj_tenantId job = ms_tenantId msg"

lemma createDb_stage:
  assumes env: "reliable env sent" and ids: "about msg job" and st: "stage env sent msg CREATE_DB False False ms pl"
  shows "wp (createDbStep env job) (\<lambda>_. stage env sent msg RUN_MIGRATIONS True False ms) (\<lambda>_ _. False) pl"
proof -
  have tid: "pj_tenantId job = ms_tenantId msg" and jid: "pj_id job = ms_jobId msg"
    using ids by (simp_all add: about_def)
  show ?thesis
    unfolding createDbStep_def tid wp_bnd
  proof (rule wp_find_tenant [OF st], goal_cases)
    case (1 t)
    obtain c where c: "en_encrypt env (db_url env (tn_id t)) = Inr c" "en_decrypt env c = Inr (db_url env (tn_id t))"
      using reliableD(7) [OF env] by blast
    have pg: "works sent (if_pg (en_infra env) x)" for x by (rule reliableD(1) [OF env])
    show ?case
      unfolding crypto_def c(1) wp_lift_sum ensure_role_def ensure_db_def wp_bnd
      using c(2)
      by (auto simp: svc_wp intro!: wp_tenant_update [OF st, where rd' = True and ac' = False] wp_world_stage [OF pg]
          wp_to_step [OF _ jid])
  qed
qed

lemma wp_stored_url:
  assumes "tn_dbUrl t = Some c" and "en_decrypt env c = Inr u" and "Q u pl"
  shows "wp (stored_url env t) Q E pl"
  using assms by (simp add: stored_url_def crypto_def svc_wp)

lemma wp_run_migrate:
  assumes "works sent (if_migrate (en_infra env) url)" and "stage env sent msg s rd ac ms pl"
    and "\<And>x pl'. stage env sent msg s rd ac ms pl' \<Longrightarrow> Q x pl'"
  shows "wp (run_migrate env url) Q E pl"
proof -
  obtain x w where "if_migrate (en_infra env) url (pl_world pl) = (Inr x, w)" "sent w = sent (pl_world pl)"
    using assms(1) unfolding works_def by blast
  with assms(2,3) show ?thesis by (simp add: wp_def run_migrate_def at_world_def)
qed

lemma wp_seed_unit:
  assumes "\<And>n. works sent (if_seedUnit (en_infra env) url n)" and "works sent (if_disconnect (en_infra env) url)"
    and "stage env sent msg s rd ac ms pl" and "\<And>x pl'. stage env sent msg s rd ac ms pl' \<Longrightarrow> Q x pl'"
  shows "wp (seed_unit env url) Q E pl"
proof -
  obtain x w where 1: "if_seedUnit (en_infra env) url ''Cala firma'' (pl_world pl) = (Inr x, w)" "sent w = sent (pl_world pl)"
    using assms(1) unfolding works_def by blast
  obtain y v where 2: "if_disconnect (en_infra env) url w = (Inr y, v)" "sent v = sent w"
    using assms(2) unfolding works_def by blast
  from 1 2 assms(3,4) show ?thesis by (simp add: wp_def seed_unit_def at_world_def)
qed

lemma runMigrations_stage:
  assumes env: "reliable env sent" and ids: "about msg job" and st: "stage env sent msg RUN_MIGRATIONS True False ms pl"
  shows "wp (runMigrationsStep env job) (\<lambda>_. stage env sent msg SEED True False ms) (\<lambda>_ _. False) pl"
proof -
  have tid: "pj_tenantId job = ms_tenantId msg" and jid: "pj_id job = ms_jobId msg"
    using ids by (simp_all add: about_def)
  show ?thesis
    unfolding runMigrationsStep_def tid wp_bnd
  proof (rule wp_find_tenant [OF st], goal_cases)
    case (1 t)
    then obtain c u where c: "tn_dbUrl t = Some c" "en_decrypt env c = Inr u" by blast
    show ?case
      by (rule wp_stored_url [OF c], rule wp_run_migrate [OF reliableD(2) [OF env] st]) (rule wp_to_step [OF _ jid])
  qed
qed

lemma seed_stage:
  assumes env: "reliable env sent" and ids: "about msg job" and st: "stage env sent msg SEED True False ms pl"
  shows "wp (seedStep env job) (\<lambda>_. stage env sent msg KEYCLOAK_SETUP True False ms) (\<lambda>_ _. False) pl"
proof -
  have tid: "pj_tenantId job = ms_tenantId msg" and jid: "pj_id job = ms_jobId msg"
    using ids by (simp_all add: about_def)
  show ?thesis
    unfolding seedStep_def tid wp_bnd
  proof (rule wp_find_tenant [OF st], goal_cases)
    case (1 t)
    then obtain c u where c: "tn_dbUrl t = Some c" "en_decrypt env c = Inr u" by blast
    show ?case
      by (rule wp_stored_url [OF c], rule wp_seed_unit [OF reliableD(3) [OF env] reliableD(4) [OF env] st]) (rule wp_to_step [OF _ jid])
  qed
qed

lemma keycloakSetup_stage:
  assumes env: "reliable env sent" and ids: "about msg job" and st: "stage env sent msg KEYCLOAK_SETUP True False ms pl"
  shows "wp (keycloakSetupStep env job) (\<lambda>_. stage env sent msg DONE True False ms) (\<lambda>_ _. False) pl"
proof -
  have tid: "pj_tenantId job = ms_tenantId msg" and jid: "pj_id job = ms_jobId msg"
    using ids by (simp_all add: about_def)
  show ?thesis
    unfolding keycloakSetupStep_def tid wp_bnd
  proof (rule wp_find_tenant [OF st], goal_cases)
    case (1 t)
    show ?case
      by (rule wp_world_stage [OF works_setup_realm [OF env] st], erule wp_tenant_update [where rd' = True and ac' = False])
        (auto intro: wp_to_step [OF _ jid])
  qed
qed

lemma done_stage:
  assumes ids: "about msg job" and st: "stage env sent msg DONE True False ms pl"
  shows "wp (doneStep now job) (\<lambda>_. stage env sent msg DONE True True ms) (\<lambda>_ _. False) pl"
proof -
  have tid: "pj_tenantId job = ms_tenantId msg" and jid: "pj_id job = ms_jobId msg"
    using ids by (simp_all add: about_def)
  show ?thesis
    unfolding doneStep_def tid wp_bnd
    by (rule wp_tenant_update [OF st, where rd' = True and ac' = True]) (auto intro: wp_to_step [OF _ jid])
qed

text \<open>Processing the message of a stage: on to the next one, with one message for it.\<close>

lemma wp_process:
  assumes env: "reliable env sent" and st: "stage env sent msg s rd ac ms pl"
    and h: "step_handler env now s = Some h"
    and step: "\<And>job. about msg job \<Longrightarrow> wp (h job) (\<lambda>_. stage env sent msg s' rd' ac' ms) (\<lambda>_ _. False) pl"
    and s': "s' \<noteq> FAILED"
  shows "wp (process_msg env now msg) (\<lambda>_. stage env sent msg s' rd' ac' (if s' = s then ms else ms @ [msg])) (\<lambda>_ _. False) pl"
proof -
  from st obtain j where j: "find_row pj_id (ms_jobId msg) (pl_jobs pl) = Some j" "pj_step j = s" "about msg j"
    by (auto simp: stage_def about_def dest: find_row_SomeD)
  have adv: "wp (advance env j) (\<lambda>_. stage env sent msg s' rd' ac' (if s' = s then ms else ms @ [msg])) (\<lambda>_ _. False) pl1"
    if st1: "stage env sent msg s' rd' ac' ms pl1" for pl1
  proof -
    obtain w where "if_emit (en_infra env) ''tenant.provision'' (job_msg j) (pl_world pl1) = (Inr (), w)"
      "sent w = sent (pl_world pl1) @ [job_msg j]"
      using reliableD(6) [OF env] by blast
    moreover have "job_msg j = msg" using j(3) by (simp add: job_msg_def about_def)
    ultimately show ?thesis
      using st1 j(2,3) s' by (auto simp: advance_def svc_wp wp_def at_world_def stage_def about_def)
  qed
  have "wp (bnd (h j) (\<lambda>_. advance env j)) (\<lambda>_. stage env sent msg s' rd' ac' (if s' = s then ms else ms @ [msg])) (\<lambda>_ _. False) pl"
    unfolding wp_bnd by (rule wp_mono [OF step [OF j(3)]]) (use adv in auto)
  then have "wp (catch (bnd (h j) (\<lambda>_. advance env j)) (job_failed now j))
      (\<lambda>_. stage env sent msg s' rd' ac' (if s' = s then ms else ms @ [msg])) (\<lambda>_ _. False) pl"
    unfolding wp_catch by (rule wp_mono) auto
  with j h show ?thesis by (simp add: process_msg_def svc_wp)
qed

lemma process_all:
  assumes env: "reliable env sent" and st: "stage env sent msg CREATE_DB False False ms pl"
  shows "wp (mapM (\<lambda>now. process_msg env now msg) [n1, n2, n3, n4, n5])
    (\<lambda>_. stage env sent msg DONE True True (ms @ [msg, msg, msg, msg])) (\<lambda>_ _. False) pl"
proof -
  note process = wp_process [OF env, where msg = msg]
  have 1: "wp (process_msg env n1 msg) (\<lambda>_. stage env sent msg RUN_MIGRATIONS True False (ms @ [msg])) (\<lambda>_ _. False) pl"
    using process [OF st, of n1 "createDbStep env" RUN_MIGRATIONS] createDb_stage [OF env _ st] by simp
  have 2: "wp (process_msg env n2 msg) (\<lambda>_. stage env sent msg SEED True False (ms @ [msg])) (\<lambda>_ _. False) pl"
    if "stage env sent msg RUN_MIGRATIONS True False ms pl" for ms pl
    using process [OF that, of n2 "runMigrationsStep env" SEED] runMigrations_stage [OF env _ that] by simp
  have 3: "wp (process_msg env n3 msg) (\<lambda>_. stage env sent msg KEYCLOAK_SETUP True False (ms @ [msg])) (\<lambda>_ _. False) pl"
    if "stage env sent msg SEED True False ms pl" for ms pl
    using process [OF that, of n3 "seedStep env" KEYCLOAK_SETUP] seed_stage [OF env _ that] by simp
  have 4: "wp (process_msg env n4 msg) (\<lambda>_. stage env sent msg DONE True False (ms @ [msg])) (\<lambda>_ _. False) pl"
    if "stage env sent msg KEYCLOAK_SETUP True False ms pl" for ms pl
    using process [OF that, of n4 "keycloakSetupStep env" DONE] keycloakSetup_stage [OF env _ that] by simp
  have 5: "wp (process_msg env n5 msg) (\<lambda>_. stage env sent msg DONE True True ms) (\<lambda>_ _. False) pl"
    if "stage env sent msg DONE True False ms pl" for ms pl
    using process [OF that, of n5 "doneStep n5" DONE] done_stage [OF _ that] by simp
  show ?thesis
    unfolding mapM.simps wp_bnd wp_ret
    by (rule wp_mono [OF 1], rule wp_mono [OF 2], assumption, rule wp_mono [OF 3], assumption,
        rule wp_mono [OF 4], assumption, rule wp_mono [OF 5]) simp_all
qed

section \<open>From sign-up to an active tenant\<close>

lemma publish_all:
  assumes env: "reliable env sent"
  shows "wp (mapM (publish_one env) es) (\<lambda>_ pl'. \<exists>w. pl' = pl\<lparr>pl_world := w\<rparr> \<and> sent w = sent (pl_world pl) @ map ob_payload es)
    (\<lambda>_ _. False) pl"
proof (induction es arbitrary: pl)
  case Nil
  show ?case by (auto simp: wp_def intro: exI [of _ "pl_world pl"])
next
  case (Cons e es)
  obtain w where w: "if_emit (en_infra env) (ob_routingKey e) (ob_payload e) (pl_world pl) = (Inr (), w)"
    "sent w = sent (pl_world pl) @ [ob_payload e]"
    using reliableD(6) [OF env] by blast
  then have one: "publish_one env e pl = (Inr (), pl\<lparr>pl_world := w\<rparr>)"
    by (simp add: publish_one_def catch_def at_world_def)
  have "wp (bnd (mapM (publish_one env) es) (\<lambda>ys. ret (() # ys)))
      (\<lambda>_ pl'. \<exists>v. pl' = pl\<lparr>pl_world := v\<rparr> \<and> sent v = sent (pl_world pl) @ map ob_payload (e # es)) (\<lambda>_ _. False) (pl\<lparr>pl_world := w\<rparr>)"
    unfolding wp_bnd wp_ret by (rule wp_mono [OF Cons.IH]) (auto simp: w(2))
  with one show ?case by (simp add: wp_def bnd_def)
qed

definition signup_msg :: "id \<Rightarrow> id \<Rightarrow> provision_msg" where
  "signup_msg jid tid = \<lparr>ms_jobId = jid, ms_tenantId = tid\<rparr>"

text \<open>
  C32. A tenant that signs up becomes active. When every call outside of the database succeeds, the sign-up, one
  turn of the outbox relay and five messages lead to a finished job and an active tenant: the relay sends the
  first message, each of the first four steps sends exactly one more, and the last one none.
\<close>

theorem signup_becomes_active:
  assumes env: "reliable env sent" and slug: "sg_slug dto \<notin> tn_slug ` set (pl_tenants pl)"
    and fresh: "tid \<notin> tn_id ` set (pl_tenants pl)" "jid \<notin> pj_id ` set (pl_jobs pl)"
    and room: "length (filter (\<lambda>e. ob_publishedAt e = None) (pl_outbox pl)) < BATCH"
  shows "\<exists>xs pl' t j. bnd (signup tid jid eid now dto) (\<lambda>_. bnd (publishPending env now1) (\<lambda>_.
      mapM (\<lambda>now. process_msg env now (signup_msg jid tid)) [n1, n2, n3, n4, n5])) pl = (Inr xs, pl') \<and>
    find_row tn_id tid (pl_tenants pl') = Some t \<and> tn_status t = TS_ACTIVE \<and>
    find_row pj_id jid (pl_jobs pl') = Some j \<and> pj_step j = DONE \<and>
    sent (pl_world pl') = sent (pl_world pl) @ map ob_payload (pending_events (pl_outbox pl @ [signup_event eid jid tid now])) @
      replicate 4 (signup_msg jid tid) \<and>
    signup_msg jid tid \<in> ob_payload ` set (pending_events (pl_outbox pl @ [signup_event eid jid tid now]))"
proof -
  define msg where "msg = signup_msg jid tid"
  let ?os = "pl_outbox pl @ [signup_event eid jid tid now]"
  let ?pl1 = "pl\<lparr>pl_tenants := pl_tenants pl @ [new_tenant tid dto], pl_jobs := pl_jobs pl @ [new_job jid tid], pl_outbox := ?os\<rparr>"
  let ?es = "pending_events ?os"
  let ?ms = "sent (pl_world pl) @ map ob_payload ?es"
  have "signup_event eid jid tid now \<in> set ?es"
    using room by (simp add: pending_events_def signup_event_def)
  then have found: "msg \<in> ob_payload ` set ?es" by (force simp: signup_event_def msg_def signup_msg_def)
  have no: "find_row tn_id tid (pl_tenants pl) = None" "find_row pj_id jid (pl_jobs pl) = None"
    using fresh by (simp_all add: find_row_None_iff)
  have start: "stage env sent msg CREATE_DB False False ms (pl2\<lparr>pl_world := w\<rparr>)"
    if "sent w = ms" "pl_tenants pl2 = pl_tenants ?pl1" "pl_jobs pl2 = pl_jobs ?pl1" for ms pl2 w
    using that no by (auto simp: stage_def msg_def signup_msg_def find_row_append new_tenant_def new_job_def)
  have "wp (publishPending env now1) (\<lambda>_. stage env sent msg CREATE_DB False False ?ms) (\<lambda>_ _. False) ?pl1"
    unfolding publishPending_def wp_bnd wp_asks wp_updateMany wp_ret
    by (rule wp_mono [OF publish_all [OF env]]) (auto intro!: start)
  then have "wp (bnd (publishPending env now1) (\<lambda>_. mapM (\<lambda>now. process_msg env now msg) [n1, n2, n3, n4, n5]))
      (\<lambda>_. stage env sent msg DONE True True (?ms @ [msg, msg, msg, msg])) (\<lambda>_ _. False) ?pl1"
    unfolding wp_bnd by (rule wp_mono) (use process_all [OF env] in blast, simp)
  moreover have "signup tid jid eid now dto pl = (Inr jid, ?pl1)"
    using slug by (simp add: signup_outcome)
  ultimately have "wp (bnd (signup tid jid eid now dto) (\<lambda>_. bnd (publishPending env now1) (\<lambda>_.
      mapM (\<lambda>now. process_msg env now msg) [n1, n2, n3, n4, n5])))
      (\<lambda>_. stage env sent msg DONE True True (?ms @ [msg, msg, msg, msg])) (\<lambda>_ _. False) pl"
    by (simp add: wp_def bnd_def)
  from wp_noFail [OF this] obtain xs pl' where
    "bnd (signup tid jid eid now dto) (\<lambda>_. bnd (publishPending env now1) (\<lambda>_.
      mapM (\<lambda>now. process_msg env now msg) [n1, n2, n3, n4, n5])) pl = (Inr xs, pl')"
    and st: "stage env sent msg DONE True True (?ms @ [msg, msg, msg, msg]) pl'" by blast
  moreover from st obtain t j where "find_row tn_id tid (pl_tenants pl') = Some t" "tn_status t = TS_ACTIVE"
    "find_row pj_id jid (pl_jobs pl') = Some j" "pj_step j = DONE"
    "sent (pl_world pl') = ?ms @ [msg, msg, msg, msg]"
    by (auto simp: stage_def msg_def signup_msg_def)
  ultimately show ?thesis
    using found unfolding msg_def by (intro exI [of _ xs] exI [of _ pl'] exI [of _ t] exI [of _ j]) (simp add: numeral_eq_Suc)
qed

section \<open>The database of a tenant\<close>

text \<open>What the step relies on of the server, over an observation of the passwords of its roles.\<close>

definition pg_server :: "'w infra \<Rightarrow> ('w \<Rightarrow> string \<Rightarrow> string option) \<Rightarrow> bool" where
  "pg_server srv pw \<longleftrightarrow>
     (\<forall>u p w b w'. if_pg srv (PgAlterRole u p) w = (Inr b, w') \<longrightarrow> pw w' u = Some p) \<and>
     (\<forall>u p w b w'. if_pg srv (PgCreateRole u p) w = (Inr b, w') \<longrightarrow> pw w' u = Some p) \<and>
     (\<forall>n u w r w'. if_pg srv (PgDbExists n) w = (r, w') \<or> if_pg srv (PgCreateDb n u) w = (r, w') \<longrightarrow> pw w' = pw w)"

lemma at_world_Inr: "at_world m pl = (Inr x, pl') \<longleftrightarrow> (\<exists>w. m (pl_world pl) = (Inr x, w) \<and> pl' = pl\<lparr>pl_world := w\<rparr>)"
  by (auto simp: at_world_def split: prod.splits)

lemma crypto_Inr: "crypto x pl = (Inr c, pl') \<longleftrightarrow> x = Inr c \<and> pl' = pl"
  by (cases x) (auto simp: crypto_def lift_sum_def)

text \<open>
  C33. The stored connection url never drifts from the server: whenever the database step succeeds, for a new
  role or one left by an earlier attempt, the stored url decrypts to the url of the tenant's own database and
  user with exactly the password that the role now has.
\<close>

theorem stored_url_fits_role:
  assumes pg: "pg_server (en_infra env) pw" and enc: "\<And>s c. en_encrypt env s = Inr c \<Longrightarrow> en_decrypt env c = Inr s"
    and run: "createDbStep env job pl = (Inr (), pl')"
  shows "\<exists>t c. find_row tn_id (pj_tenantId job) (pl_tenants pl') = Some t \<and> tn_dbUrl t = Some c \<and>
    en_decrypt env c = Inr (db_url env (tn_id t)) \<and> pw (pl_world pl') (db_user (tn_id t)) = Some (en_dbPassword env)"
proof -
  from run obtain t c pl1 pl2 where t: "find_row tn_id (pj_tenantId job) (pl_tenants pl) = Some t"
    and c: "en_encrypt env (db_url env (tn_id t)) = Inr c"
    and up: "tenant_update (pj_tenantId job) (\<lambda>t. t\<lparr>tn_dbUrl := Some c\<rparr>) pl = (Inr (), pl1)"
    and role: "ensure_role env (tn_id t) pl1 = (Inr (), pl2)"
    and rest: "bnd (ensure_db env (tn_id t)) (\<lambda>_. to_step job RUN_MIGRATIONS) pl2 = (Inr (), pl')"
    by (auto simp: createDbStep_def bnd_Inr_iff find_tenant_def crypto_Inr split: option.splits)
  have id: "tn_id t = pj_tenantId job" using t by (auto dest: find_row_SomeD)
  have pl1: "find_row tn_id (pj_tenantId job) (pl_tenants pl1) = Some (t\<lparr>tn_dbUrl := Some c\<rparr>)"
    using up t id by (auto simp: tenant_update_def find_row_update_rows)
  have pl2: "pl_tenants pl2 = pl_tenants pl1" "pw (pl_world pl2) (db_user (tn_id t)) = Some (en_dbPassword env)"
    using role pg by (auto simp: ensure_role_def bnd_Inr_iff at_world_Inr pg_server_def split: if_splits)
  from rest obtain pl3 where 3: "ensure_db env (tn_id t) pl2 = (Inr (), pl3)" "to_step job RUN_MIGRATIONS pl3 = (Inr (), pl')"
    by (auto simp: bnd_Inr_iff)
  from 3(1) pg have "pl_tenants pl3 = pl_tenants pl2" "pw (pl_world pl3) = pw (pl_world pl2)"
    by (auto simp: ensure_db_def bnd_Inr_iff at_world_Inr pg_server_def split: if_splits)
  moreover from 3(2) have "pl_tenants pl' = pl_tenants pl3" "pl_world pl' = pl_world pl3"
    by (auto simp: to_step_def job_update_def split: option.splits)
  ultimately show ?thesis using pl1 pl2 enc [OF c] by auto
qed

section \<open>A stranded tenant\<close>

text \<open>
  C34. One lost message strands a tenant for good: if the broker refuses the message that follows the Keycloak
  step, the job is at its last step and counts as done, its tenant is as inactive as before, and the retry
  relay will never pick the job up again.
\<close>

theorem lost_last_message_strands:
  assumes job: "find_row pj_id (ms_jobId msg) (pl_jobs pl) = Some j" "pj_step j = KEYCLOAK_SETUP" "pj_attemptCount j < 2"
    and tenant: "find_row tn_id (pj_tenantId j) (pl_tenants pl) = Some t"
    and realm: "setup_realm env (tn_slug t) (realm_name t) (coalesce (mt_adminEmail (tn_metadata t)) []) (pl_world pl) = (Inr (), w1)"
    and refused: "if_emit (en_infra env) ''tenant.provision'' (job_msg j) w1 = (Inl e, w2)"
    and run: "process_msg env now msg pl = (r, pl')"
  shows "\<exists>j' t' st. find_row pj_id (pj_id j) (pl_jobs pl') = Some j' \<and> pj_step j' = DONE \<and>
    find_row tn_id (pj_tenantId j) (pl_tenants pl') = Some t' \<and> tn_status t' = tn_status t \<and>
    provisioning_status (pj_id j) pl' = (Inr st, pl') \<and> js_done st \<and> \<not> js_failed st \<and>
    (\<forall>now'. j' \<notin> set (due_jobs now' (pl_jobs pl')))"
proof -
  have ids: "pj_id j = ms_jobId msg" "tn_id t = pj_tenantId j" using job(1) tenant by (auto dest: find_row_SomeD)
  let ?meta = "\<lambda>x. x\<lparr>tn_metadata := (tn_metadata t)\<lparr>mt_realmName := Some (realm_name t), mt_keycloakClientId := Some ''hrobot-web''\<rparr>\<rparr>"
  let ?pl1 = "pl\<lparr>pl_world := w1, pl_tenants := update_rows (\<lambda>x. tn_id x = pj_tenantId j) ?meta (pl_tenants pl),
    pl_jobs := change_job (pj_id j) (\<lambda>x. x\<lparr>pj_step := DONE\<rparr>) (pl_jobs pl)\<rparr>"
  have handler: "keycloakSetupStep env j pl = (Inr (), ?pl1)"
    using tenant realm job(1) ids
    by (simp add: keycloakSetupStep_def find_tenant_def at_world_def bnd_def tenant_update_def to_step_def job_update_def)
  have found: "find_row pj_id (pj_id j) (pl_jobs ?pl1) = Some (j\<lparr>pj_step := DONE\<rparr>)"
    using job(1) ids by (simp add: find_row_update_rows)
  have "advance env j ?pl1 = (Inl e, ?pl1\<lparr>pl_world := w2\<rparr>)"
    using found job(2) refused by (simp add: advance_def at_world_def)
  then have "process_msg env now msg pl = job_failed now j e (?pl1\<lparr>pl_world := w2\<rparr>)"
    using job handler by (simp add: process_msg_def catch_def bnd_def)
  with run found have pl': "pl' = put_jobs (change_job (pj_id j) (failed_patch now j (redact (error_message e))) (pl_jobs ?pl1))
      (?pl1\<lparr>pl_world := w2\<rparr>)"
    using job_failed_eq [of j "?pl1\<lparr>pl_world := w2\<rparr>" now e] by simp
  have keep: "\<forall>x. pj_id (failed_patch now j m x) = pj_id x" for m by (simp add: failed_patch_def)
  have "find_row pj_id (pj_id j) (pl_jobs pl') = Some (failed_patch now j (redact (error_message e)) (j\<lparr>pj_step := DONE\<rparr>))"
    using found by (simp add: pl' find_row_update_rows [OF keep])
  moreover have "pj_step (failed_patch now j m (j\<lparr>pj_step := DONE\<rparr>)) = DONE" for m
    using job(3) by (simp add: failed_patch_def)
  moreover have "find_row tn_id (pj_tenantId j) (pl_tenants pl') = Some (?meta t)"
    using tenant ids by (simp add: pl' find_row_update_rows)
  moreover have "j' \<notin> set (due_jobs now' js)" if "pj_step j' = DONE" for j' now' js
    using that by (auto simp: due_jobs_def due_at_def dest: in_set_takeD)
  ultimately show ?thesis by (simp add: provisioning_status_def Let_def)
qed

end
