(* ===== verification/ProvisioningSamples.thy ===== *)
theory ProvisioningSamples
  imports ProvisioningRun EmployeesProps
begin

text \<open>
  The control plane on a concrete world: a Postgres server that keeps the passwords of its roles, a Keycloak
  that answers everything, tenant databases that count their root units, and a broker that is up or down.
\<close>

record plane_world =
  dw_sent :: "provision_msg list"
  dw_passwords :: "(string \<times> string) list"
  dw_units :: nat
  dw_brokerUp :: bool
  dw_hangsUp :: bool

definition world0 :: plane_world where
  "world0 = \<lparr>dw_sent = [], dw_passwords = [], dw_units = 0, dw_brokerUp = True, dw_hangsUp = False\<rparr>"

fun demo_pg :: "pg_cmd \<Rightarrow> (plane_world, app_error, bool) svc" where
  "demo_pg (PgRoleExists u) w = (Inr (map_of (dw_passwords w) u \<noteq> None), w)"
| "demo_pg (PgAlterRole u p) w = (Inr True, w\<lparr>dw_passwords := (u, p) # dw_passwords w\<rparr>)"
| "demo_pg (PgCreateRole u p) w = (Inr True, w\<lparr>dw_passwords := (u, p) # dw_passwords w\<rparr>)"
| "demo_pg (PgDbExists n) w = (Inr False, w)"
| "demo_pg (PgCreateDb n u) w = (Inr True, w)"

fun plane_fetch :: "kp_request \<Rightarrow> (plane_world, app_error, kc_response) svc" where
  "plane_fetch (KpToken p) w = (Inr \<lparr>rp_status = 200, rp_location = None, rp_body = KbToken (Some ''t'')\<rparr>, w)"
| "plane_fetch (KpGetRole t r x) w = (Inr \<lparr>rp_status = 200, rp_location = None, rp_body = KbRole (Some ''i'') (Some (role_name x))\<rparr>, w)"
| "plane_fetch _ w = (Inr \<lparr>rp_status = 201, rp_location = Some ''/users/k1'', rp_body = KbUsers [''k1'']\<rparr>, w)"

text \<open>The connection may end with an error when it is closed, or the broker may refuse a message.\<close>

definition demo_env :: "bool \<Rightarrow> bool \<Rightarrow> plane_world plane_env" where
  "demo_env up hangs =
     \<lparr>en_infra =
        \<lparr>if_pg = demo_pg,
         if_migrate = (\<lambda>url w. (Inr (), w)),
         if_seedUnit = (\<lambda>url n w. (Inr (), w\<lparr>dw_units := dw_units w + 1\<rparr>)),
         if_disconnect = (\<lambda>url w. (if hangs then Inl (PlainError ''closed'') else Inr (), w)),
         if_fetch = plane_fetch,
         if_emit = (\<lambda>k m w. if up then (Inr (), w\<lparr>dw_sent := dw_sent w @ [m]\<rparr>) else (Inl (PlainError ''down''), w))\<rparr>,
      en_encrypt = (\<lambda>s. encrypt clear_platform ring1 (replicate IV_LENGTH 3) s None),
      en_decrypt = (\<lambda>c. decrypt clear_platform ring1 c None),
      en_host = ''pg'', en_port = ''5432'', en_adminPassword = ''a'', en_dbPassword = ''s3cret'', en_tempPassword = ''b''\<rparr>"

lemma demo_url: "\<exists>c. en_encrypt (demo_env up hangs) s = Inr c \<and> en_decrypt (demo_env up hangs) c = Inr s"
  using decrypt_encrypt [OF clear_platform_ok rings_ok(1), of ring1 "replicate IV_LENGTH 3" s None]
  by (auto simp: demo_env_def rotated_def)

lemma demo_reliable: "reliable (demo_env True False) dw_sent"
proof -
  have "works dw_sent (demo_pg c)" for c
    unfolding works_def by (cases c) auto
  moreover have "\<exists>resp w'. plane_fetch rq w = (Inr resp, w') \<and> dw_sent w' = dw_sent w \<and> rp_ok resp \<and>
      (wants_json rq \<longrightarrow> rp_body resp \<noteq> KbNone)" for rq w
    by (cases rq) (simp_all add: rp_ok_def)
  ultimately show ?thesis
    using demo_url [of True False] by (simp add: reliable_def demo_env_def works_def)
qed

lemma plane_server: "pg_server (en_infra (demo_env up hangs)) (\<lambda>w u. map_of (dw_passwords w) u)"
  by (auto simp: pg_server_def demo_env_def)

definition plane0 :: "plane_world plane" where
  "plane0 = \<lparr>pl_tenants = [], pl_jobs = [], pl_outbox = [], pl_world = world0\<rparr>"

definition sample_signup :: signup_dto where
  "sample_signup = \<lparr>sg_companyName = ''Acme'', sg_slug = ''acme'', sg_adminEmail = ''a@acme''\<rparr>"

lemma signup_becomes_active_witness:
  "\<exists>xs pl' t. bnd (signup ''t-1'' ''j1'' ''o1'' 5 sample_signup) (\<lambda>_. bnd (publishPending (demo_env True False) 6) (\<lambda>_.
      mapM (\<lambda>now. process_msg (demo_env True False) now (signup_msg ''j1'' ''t-1'')) [7, 8, 9, 10, 11])) plane0 = (Inr xs, pl') \<and>
    find_row tn_id ''t-1'' (pl_tenants pl') = Some t \<and> tn_status t = TS_ACTIVE"
proof -
  have "sg_slug sample_signup \<notin> tn_slug ` set (pl_tenants plane0)" "''t-1'' \<notin> tn_id ` set (pl_tenants plane0)"
    "''j1'' \<notin> pj_id ` set (pl_jobs plane0)" "length (filter (\<lambda>e. ob_publishedAt e = None) (pl_outbox plane0)) < BATCH"
    by (simp_all add: plane0_def BATCH_def)
  from signup_becomes_active [OF demo_reliable this, of "''o1''" 5 6 7 8 9 10 11] show ?thesis by blast
qed

definition plane_at :: "provisioning_step \<Rightarrow> plane_world \<Rightarrow> plane_world plane" where
  "plane_at s w =
     \<lparr>pl_tenants = [new_tenant ''t-1'' sample_signup], pl_jobs = [(new_job ''j1'' ''t-1'')\<lparr>pj_step := s\<rparr>], pl_outbox = [], pl_world = w\<rparr>"

lemma process_msg_moves_witness:
  "\<exists>j'. job_move 5 (new_job ''j1'' ''t-1'') j' \<and>
     pl_jobs (snd (process_msg (demo_env True False) 5 (signup_msg ''j1'' ''t-1'') (plane_at CREATE_DB world0))) = [j']"
proof -
  have "distinct (map pj_id (pl_jobs (plane_at CREATE_DB world0)))" "\<forall>j \<in> set (pl_jobs (plane_at CREATE_DB world0)). job_ok j"
    by (simp_all add: plane_at_def new_job_def job_ok_def)
  from process_msg_moves [OF this surjective_pairing, of "demo_env True False" 5 "signup_msg ''j1'' ''t-1''"]
  show ?thesis by (auto simp: plane_at_def signup_msg_def new_job_def)
qed

lemma stored_url_fits_role_witness:
  "\<exists>pl' t c. createDbStep (demo_env True False) (new_job ''j1'' ''t-1'') (plane_at CREATE_DB world0) = (Inr (), pl') \<and>
     find_row tn_id ''t-1'' (pl_tenants pl') = Some t \<and> tn_dbUrl t = Some c \<and>
     map_of (dw_passwords (pl_world pl')) (db_user (tn_id t)) = Some ''s3cret''"
proof -
  have "about (signup_msg ''j1'' ''t-1'') (new_job ''j1'' ''t-1'')"
    "stage (demo_env True False) dw_sent (signup_msg ''j1'' ''t-1'') CREATE_DB False False [] (plane_at CREATE_DB world0)"
    by (simp_all add: about_def signup_msg_def new_job_def stage_def plane_at_def new_tenant_def world0_def)
  from wp_noFail [OF createDb_stage [OF demo_reliable this]]
  obtain pl' where run: "createDbStep (demo_env True False) (new_job ''j1'' ''t-1'') (plane_at CREATE_DB world0) = (Inr (), pl')"
    by auto
  have "en_encrypt (demo_env True False) s = Inr c \<Longrightarrow> en_decrypt (demo_env True False) c = Inr s" for s c
    using demo_url [of True False s] by auto
  from stored_url_fits_role [OF plane_server this run] run show ?thesis
    by (auto simp: new_job_def demo_env_def)
qed

lemma lost_last_message_strands_witness:
  "\<exists>j' t'. find_row pj_id ''j1'' (pl_jobs (snd (process_msg (demo_env False False) 5 (signup_msg ''j1'' ''t-1'')
       (plane_at KEYCLOAK_SETUP world0)))) = Some j' \<and> pj_step j' = DONE \<and>
     find_row tn_id ''t-1'' (pl_tenants (snd (process_msg (demo_env False False) 5 (signup_msg ''j1'' ''t-1'')
       (plane_at KEYCLOAK_SETUP world0)))) = Some t' \<and> tn_status t' = TS_PENDING"
proof -
  let ?j = "(new_job ''j1'' ''t-1'')\<lparr>pj_step := KEYCLOAK_SETUP\<rparr>" and ?t = "new_tenant ''t-1'' sample_signup"
  have "find_row pj_id (ms_jobId (signup_msg ''j1'' ''t-1'')) (pl_jobs (plane_at KEYCLOAK_SETUP world0)) = Some ?j"
    "pj_step ?j = KEYCLOAK_SETUP" "pj_attemptCount ?j < 2"
    "find_row tn_id (pj_tenantId ?j) (pl_tenants (plane_at KEYCLOAK_SETUP world0)) = Some ?t"
    by (simp_all add: plane_at_def signup_msg_def new_job_def new_tenant_def)
  moreover have "setup_realm (demo_env False False) (tn_slug ?t) (realm_name ?t)
      (coalesce (mt_adminEmail (tn_metadata ?t)) []) (pl_world (plane_at KEYCLOAK_SETUP world0)) = (Inr (), world0)"
    by (simp add: setup_realm_def kp_token_def kp_send_def kp_user_def kp_email_def demo_env_def resp_json_def rp_ok_def
        plane_at_def bnd_def catch_def last_segment_def Let_def)
  moreover have "if_emit (en_infra (demo_env False False)) ''tenant.provision'' (job_msg ?j) world0 = (Inl (PlainError ''down''), world0)"
    by (simp add: demo_env_def)
  ultimately show ?thesis
    using lost_last_message_strands [OF _ _ _ _ _ _ surjective_pairing, of "signup_msg ''j1'' ''t-1''" "plane_at KEYCLOAK_SETUP world0"
        ?j ?t "demo_env False False" world0 "PlainError ''down''" world0 5]
    by (auto simp: new_job_def new_tenant_def)
qed

text \<open>The seeding step is not idempotent: a failed close makes the retry create a second root unit.\<close>

lemma retried_seed_creates_two_units:
  "dw_units (pl_world (snd (seed_unit (demo_env True False) url (snd (seed_unit (demo_env True True) url (plane_at SEED world0)))))) = 2"
  by (simp add: seed_unit_def at_world_def demo_env_def plane_at_def world0_def)

lemma redact_url_clean_witness:
  "redact_url ''x postgresql://u:p@h'' = ''x '' @ ''postgresql://***@'' @ ''h''"
proof -
  have red: "redact_url ''x postgresql://u:p@h'' = ''x '' @ ''postgresql://***@h''" by code_simp
  have "match_url ''postgresql://***@h'' = Some ''h''" by code_simp
  from redact_url_clean [OF red this] red show ?thesis by simp
qed

end
