(* ===== verification/Scoring.thy ===== *)
theory Scoring
  imports Domain
begin

text \<open>
  The pure scoring core of the strategic brain: \<open>strategic-brain/scoring.util.ts\<close> and the allowlist of
  \<open>strategic-brain/scoring-input.ts\<close>. A missing number (\<open>null\<close>) is \<open>None\<close>; a floating-point number is an
  exact real. The properties of these functions are in \<open>ScoringProps\<close>.
\<close>

section \<open>Constants\<close>

definition RETENTION_SCORE_THRESHOLD :: real where
  "RETENTION_SCORE_THRESHOLD = 50"

definition CONFIDENCE_SAMPLE_N_TARGET :: real where
  "CONFIDENCE_SAMPLE_N_TARGET = 20"

definition COMPOSITE_MIN_PRESENT_DIMENSIONS :: nat where
  "COMPOSITE_MIN_PRESENT_DIMENSIONS = 2"

section \<open>Metrics of the completed work\<close>

text \<open>A completed item is its \<open>cycleMinutes\<close>.\<close>

definition medianCycleMinutes :: "real list \<Rightarrow> real option" where
  "medianCycleMinutes completed =
     (if completed = [] then None
      else
        let sorted = sort completed; mid = length sorted div 2
        in if length sorted mod 2 = 1 then Some (sorted ! mid)
           else Some ((sorted ! (mid - 1) + sorted ! mid) / 2))"

definition defectRate :: "int \<Rightarrow> int \<Rightarrow> real option" where
  "defectRate complaintCount completedCount =
     (if completedCount < 1 then None else Some (real_of_int complaintCount / real_of_int completedCount))"

definition slaHitRate :: "real list \<Rightarrow> real \<Rightarrow> real option" where
  "slaHitRate completed slaTargetMinutes =
     (if completed = [] then None
      else Some (real (length (filter (\<lambda>c. c \<le> slaTargetMinutes) completed)) / real (length completed)))"

section \<open>The composite\<close>

record score_dims =
  sd_performance :: "real option"
  sd_timeliness :: "real option"
  sd_quality :: "real option"
  sd_development :: "real option"

record score_weights =
  wt_performance :: real
  wt_timeliness :: real
  wt_quality :: real
  wt_development :: real

text \<open>The present dimensions with their weights, in the order of the object's keys.\<close>

definition present_dims :: "score_dims \<Rightarrow> score_weights \<Rightarrow> (real \<times> real) list" where
  "present_dims dims weights =
     List.map_filter (\<lambda>(d, w). map_option (\<lambda>x. (x, w)) d)
       [(sd_performance dims, wt_performance weights), (sd_timeliness dims, wt_timeliness weights),
        (sd_quality dims, wt_quality weights), (sd_development dims, wt_development weights)]"

definition compositeScore :: "score_dims \<Rightarrow> score_weights \<Rightarrow> real option" where
  "compositeScore dims weights =
     (let keys = present_dims dims weights in
      if length keys < COMPOSITE_MIN_PRESENT_DIMENSIONS then None
      else
        let presentWeightSum = foldl (\<lambda>s (_, w). s + w) 0 keys in
        if presentWeightSum \<le> 0 then None
        else Some (foldl (\<lambda>s (x, w). s + x * w) 0 keys / presentWeightSum))"

section \<open>The trend\<close>

text \<open>The loop keeps the pair of the numerator and the denominator.\<close>

definition developmentSlope :: "(real \<times> real) list \<Rightarrow> int \<Rightarrow> real option" where
  "developmentSlope series minValidWindows =
     (if int (length series) < minValidWindows then None
      else
        let n = real (length series);
            meanT = foldl (\<lambda>s (t, _). s + t) 0 series / n;
            meanScore = foldl (\<lambda>s (_, y). s + y) 0 series / n;
            (numerator, denominator) =
              foldl (\<lambda>(num, den) (t, y). let dt = t - meanT in (num + dt * (y - meanScore), den + dt * dt)) (0, 0) series
        in if denominator = 0 then Some 0 else Some (numerator / denominator))"

section \<open>Peer normalization\<close>

text \<open>\<open>{ value, meaningful }\<close>.\<close>

record peer_normalization =
  pn_value :: "real option"
  pn_meaningful :: bool

definition normalizeToPeerGroup :: "real \<Rightarrow> real list \<Rightarrow> int \<Rightarrow> peer_normalization" where
  "normalizeToPeerGroup v peerValues minPeerGroupSize =
     (let n = length peerValues in
      if n = 0 then \<lparr>pn_value = None, pn_meaningful = False\<rparr>
      else
        let (below, equal) =
              foldl (\<lambda>(b, q) p. if p < v then (b + 1, q) else if p = v then (b, q + 1) else (b, q)) (0 :: nat, 0 :: nat) peerValues;
            percentile = (100 * (real below + 1 / 2 * real equal)) / real n
        in \<lparr>pn_value = Some percentile, pn_meaningful = (int n \<ge> minPeerGroupSize)\<rparr>)"

section \<open>Confidence and the retention signal\<close>

definition clamp01 :: "real \<Rightarrow> real" where
  "clamp01 x = max 0 (min 1 x)"

definition confidence :: "int \<Rightarrow> int \<Rightarrow> int \<Rightarrow> real" where
  "confidence sampleN daysEmployed minDays =
     (let sampleFactor = clamp01 (real_of_int sampleN / CONFIDENCE_SAMPLE_N_TARGET);
          tenureFactor =
            (if minDays > 0 then clamp01 (real_of_int daysEmployed / real_of_int minDays)
             else clamp01 (if daysEmployed > 0 then 1 else 0))
      in clamp01 (sampleFactor * tenureFactor))"

datatype retention_signal = RET_UTRZYMAC | RET_OBSERWOWAC | RET_RYZYKO | RET_INWESTOWAC

definition retentionSignal :: "real \<Rightarrow> real option \<Rightarrow> real \<Rightarrow> real \<Rightarrow> real \<Rightarrow> retention_signal" where
  "retentionSignal score slope confidenceValue minSlopeForGrowth confidenceMin =
     (if confidenceValue < confidenceMin then RET_OBSERWOWAC
      else case slope of
        None \<Rightarrow> RET_OBSERWOWAC
      | Some sl \<Rightarrow>
          let isHighScore = score \<ge> RETENTION_SCORE_THRESHOLD;
              isRising = sl > minSlopeForGrowth;
              isDeclining = sl < 0
          in if \<not> isHighScore then (if isRising then RET_INWESTOWAC else RET_RYZYKO)
             else if isDeclining then RET_RYZYKO else RET_UTRZYMAC)"

section \<open>The allowlisted input of the scorer\<close>

datatype scoring_value = SvNum int | SvNums "real list" | SvText string | SvDate int

definition ALLOWED_KEYS :: "string list" where
  "ALLOWED_KEYS = [''throughput'', ''completedCount'', ''complaintCount'', ''cycleMinutes'', ''slaHits'', ''peerGroupKey'', ''hiredAt'']"

definition isAllowedKey :: "string \<Rightarrow> bool" where
  "isAllowedKey key \<longleftrightarrow> key \<in> set ALLOWED_KEYS"

text \<open>The record is the list of its entries; the loop copies them one by one.\<close>

fun buildScoringInput :: "(string \<times> scoring_value) list \<Rightarrow> app_error + (string \<times> scoring_value) list" where
  "buildScoringInput [] = Inr []"
| "buildScoringInput ((key, v) # raw) =
     (if \<not> isAllowedKey key
      then Inl (PlainError (''buildScoringInput: unexpected key \"'' @ key @ ''\" entered scorer (M11 proxy-guard)''))
      else map_sum id (\<lambda>result. (key, v) # result) (buildScoringInput raw))"

end
