(* ===== verification/ScoringProps.thy ===== *)
theory ScoringProps
  imports Scoring "HOL-Library.Multiset"
begin

text \<open>
  What the scoring functions compute: the slope is the least-squares fit, the composite is a weighted
  average of the present dimensions whatever the scale of the weights, the percentiles of a group are
  centered at 50, the median splits the sample, and nothing outside the allowlist enters the scorer.
\<close>

section \<open>Sums in loops\<close>

lemma foldl_add_pairs:
  fixes g :: "'a \<Rightarrow> 'b \<Rightarrow> real"
  shows "foldl (\<lambda>s (x, y). s + g x y) c xs = c + (\<Sum>(x, y) \<leftarrow> xs. g x y)"
  by (induction xs arbitrary: c) (auto simp: algebra_simps)

lemma foldl_sum_list: "foldl (+) (c :: real) xs = c + sum_list xs"
  by (induction xs arbitrary: c) auto

lemma sum_list_swap:
  fixes h :: "'a \<Rightarrow> 'b \<Rightarrow> real"
  shows "(\<Sum>x \<leftarrow> xs. \<Sum>y \<leftarrow> ys. h x y) = (\<Sum>y \<leftarrow> ys. \<Sum>x \<leftarrow> xs. h x y)"
  by (induction xs) (simp_all add: sum_list_addf)

lemma sum_list_zero_nonneg:
  fixes xs :: "real list"
  shows "\<forall>x \<in> set xs. 0 \<le> x \<Longrightarrow> sum_list xs = 0 \<longleftrightarrow> (\<forall>x \<in> set xs. x = 0)"
  by (induction xs) (auto simp: add_nonneg_eq_0_iff sum_list_nonneg)

section \<open>The composite\<close>

lemma compositeScore_eq:
  "compositeScore dims ws =
     (let keys = present_dims dims ws; total = (\<Sum>(x, w) \<leftarrow> keys. w) in
      if length keys < 2 \<or> total \<le> 0 then None else Some ((\<Sum>(x, w) \<leftarrow> keys. x * w) / total))"
  using foldl_add_pairs [of "\<lambda>_ w. w" 0 "present_dims dims ws"]
    foldl_add_pairs [of "\<lambda>x w. x * w" 0 "present_dims dims ws"]
  by (simp add: compositeScore_def COMPOSITE_MIN_PRESENT_DIMENSIONS_def Let_def)

text \<open>A weighted average lies between any bounds of its values.\<close>

lemma weighted_upper:
  fixes keys :: "(real \<times> real) list"
  shows "\<forall>(x, w) \<in> set keys. 0 \<le> w \<and> x \<le> hi \<Longrightarrow> (\<Sum>(x, w) \<leftarrow> keys. x * w) \<le> hi * (\<Sum>(x, w) \<leftarrow> keys. w)"
proof (induction keys)
  case (Cons k keys)
  obtain x w where k: "k = (x, w)" by (cases k)
  with Cons.prems have "x * w \<le> hi * w" by (auto intro: mult_right_mono)
  with Cons k show ?case by (auto simp: distrib_left)
qed simp

lemma weighted_lower:
  fixes keys :: "(real \<times> real) list"
  shows "\<forall>(x, w) \<in> set keys. 0 \<le> w \<and> lo \<le> x \<Longrightarrow> lo * (\<Sum>(x, w) \<leftarrow> keys. w) \<le> (\<Sum>(x, w) \<leftarrow> keys. x * w)"
proof (induction keys)
  case (Cons k keys)
  obtain x w where k: "k = (x, w)" by (cases k)
  with Cons.prems have "lo * w \<le> x * w" by (auto intro: mult_right_mono)
  with Cons k show ?case by (auto simp: distrib_left)
qed simp

definition nonneg_weights :: "score_weights \<Rightarrow> bool" where
  "nonneg_weights ws \<longleftrightarrow> 0 \<le> wt_performance ws \<and> 0 \<le> wt_timeliness ws \<and> 0 \<le> wt_quality ws \<and> 0 \<le> wt_development ws"

definition dim_values :: "score_dims \<Rightarrow> real set" where
  "dim_values dims = {x. Some x \<in> {sd_performance dims, sd_timeliness dims, sd_quality dims, sd_development dims}}"

lemma present_dims_values: "fst ` set (present_dims dims ws) = dim_values dims"
  by (auto simp: present_dims_def dim_values_def List.map_filter_def image_iff split: option.splits if_splits)

lemma present_dims_nonneg: "nonneg_weights ws \<Longrightarrow> (x, w) \<in> set (present_dims dims ws) \<Longrightarrow> 0 \<le> w"
  by (auto simp: present_dims_def nonneg_weights_def List.map_filter_def split: option.splits if_splits)

lemma compositeScore_SomeD:
  assumes "compositeScore dims ws = Some c"
  shows "0 < (\<Sum>(x, w) \<leftarrow> present_dims dims ws. w)"
    "c = (\<Sum>(x, w) \<leftarrow> present_dims dims ws. x * w) / (\<Sum>(x, w) \<leftarrow> present_dims dims ws. w)"
  using assms by (auto simp: compositeScore_eq Let_def split: if_splits)

lemma compositeScore_le:
  assumes c: "compositeScore dims ws = Some c" and ws: "nonneg_weights ws" and b: "\<And>x. x \<in> dim_values dims \<Longrightarrow> x \<le> hi"
  shows "c \<le> hi"
proof -
  have "\<forall>(x, w) \<in> set (present_dims dims ws). 0 \<le> w \<and> x \<le> hi"
    using present_dims_nonneg [OF ws] b present_dims_values [of dims ws] by (force simp: image_iff)
  from weighted_upper [OF this] compositeScore_SomeD [OF c] show ?thesis by (simp add: pos_divide_le_eq)
qed

lemma compositeScore_ge:
  assumes c: "compositeScore dims ws = Some c" and ws: "nonneg_weights ws" and b: "\<And>x. x \<in> dim_values dims \<Longrightarrow> lo \<le> x"
  shows "lo \<le> c"
proof -
  have "\<forall>(x, w) \<in> set (present_dims dims ws). 0 \<le> w \<and> lo \<le> x"
    using present_dims_nonneg [OF ws] b present_dims_values [of dims ws] by (force simp: image_iff)
  from weighted_lower [OF this] compositeScore_SomeD [OF c] show ?thesis by (simp add: pos_le_divide_eq)
qed

text \<open>Renormalization: only the proportions of the weights count.\<close>

definition scale_weights :: "real \<Rightarrow> score_weights \<Rightarrow> score_weights" where
  "scale_weights k ws = \<lparr>wt_performance = k * wt_performance ws, wt_timeliness = k * wt_timeliness ws,
     wt_quality = k * wt_quality ws, wt_development = k * wt_development ws\<rparr>"

lemma present_dims_scale: "present_dims dims (scale_weights k ws) = map (\<lambda>(x, w). (x, k * w)) (present_dims dims ws)"
  by (cases "sd_performance dims"; cases "sd_timeliness dims"; cases "sd_quality dims"; cases "sd_development dims")
    (simp_all add: present_dims_def scale_weights_def List.map_filter_def)

lemma sum_list_scaled:
  "(\<Sum>(x, w) \<leftarrow> map (\<lambda>(x, w). (x, k * w)) keys. w) = k * (\<Sum>(x, w) \<leftarrow> keys. (w :: real))"
  "(\<Sum>(x, w) \<leftarrow> map (\<lambda>(x, w). (x, k * w)) keys. x * w) = k * (\<Sum>(x, w) \<leftarrow> keys. (x * w :: real))"
  by (induction keys) (auto simp: algebra_simps)

lemma compositeScore_scale:
  assumes "0 < k"
  shows "compositeScore dims (scale_weights k ws) = compositeScore dims ws"
proof -
  have "k * total \<le> 0 \<longleftrightarrow> total \<le> 0" for total :: real
    using assms by (simp add: mult_le_0_iff)
  with assms show ?thesis
    unfolding compositeScore_eq present_dims_scale Let_def sum_list_scaled by simp
qed

section \<open>The trend\<close>

definition sse :: "real \<Rightarrow> real \<Rightarrow> (real \<times> real) list \<Rightarrow> real" where
  "sse a b series = (\<Sum>(t, y) \<leftarrow> series. (y - a - b * t)\<^sup>2)"

abbreviation sum_t :: "(real \<times> real) list \<Rightarrow> real" where "sum_t s \<equiv> (\<Sum>(t, y) \<leftarrow> s. t)"
abbreviation sum_y :: "(real \<times> real) list \<Rightarrow> real" where "sum_y s \<equiv> (\<Sum>(t, y) \<leftarrow> s. y)"
abbreviation sum_tt :: "(real \<times> real) list \<Rightarrow> real" where "sum_tt s \<equiv> (\<Sum>(t, y) \<leftarrow> s. t * t)"
abbreviation sum_ty :: "(real \<times> real) list \<Rightarrow> real" where "sum_ty s \<equiv> (\<Sum>(t, y) \<leftarrow> s. t * y)"
abbreviation sum_yy :: "(real \<times> real) list \<Rightarrow> real" where "sum_yy s \<equiv> (\<Sum>(t, y) \<leftarrow> s. y * y)"

lemma sse_expand:
  "sse a b s = sum_yy s + real (length s) * a\<^sup>2 + b\<^sup>2 * sum_tt s - 2 * a * sum_y s - 2 * b * sum_ty s + 2 * a * b * sum_t s"
  unfolding sse_def by (induction s) (auto simp: algebra_simps power2_eq_square)

lemma slope_loop:
  "foldl (\<lambda>(num, den) (t, y). let dt = t - mt in (num + dt * (y - my), den + dt * dt)) (p, q) s =
     (p + sum_ty s - mt * sum_y s - my * sum_t s + real (length s) * mt * my,
      q + sum_tt s - 2 * mt * sum_t s + real (length s) * mt\<^sup>2)"
  by (induction s arbitrary: p q) (auto simp: algebra_simps power2_eq_square Let_def)

text \<open>The two moments the loop computes, about the means.\<close>

definition num_of :: "(real \<times> real) list \<Rightarrow> real" where
  "num_of s = sum_ty s - sum_t s * sum_y s / real (length s)"

definition den_of :: "(real \<times> real) list \<Rightarrow> real" where
  "den_of s = sum_tt s - (sum_t s)\<^sup>2 / real (length s)"

lemma developmentSlope_eq:
  assumes "s \<noteq> []"
  shows "developmentSlope s m =
    (if int (length s) < m then None else Some (if den_of s = 0 then 0 else num_of s / den_of s))"
proof -
  let ?n = "real (length s)"
  have n: "?n > 0" using assms by simp
  have "sum_ty s - sum_t s / ?n * sum_y s - sum_y s / ?n * sum_t s + ?n * (sum_t s / ?n) * (sum_y s / ?n) = num_of s"
    "sum_tt s - 2 * (sum_t s / ?n) * sum_t s + ?n * (sum_t s / ?n)\<^sup>2 = den_of s"
    using n by (simp_all add: num_of_def den_of_def field_simps power2_eq_square)
  with foldl_add_pairs [of "\<lambda>t _. t" 0 s] foldl_add_pairs [of "\<lambda>_ y. y" 0 s] show ?thesis
    unfolding developmentSlope_def slope_loop by (simp add: Let_def)
qed

lemma sum_centered_squares: "(\<Sum>(t, y) \<leftarrow> s. (t - m)\<^sup>2) = sum_tt s - 2 * m * sum_t s + real (length s) * m\<^sup>2"
  by (induction s) (auto simp: algebra_simps power2_eq_square)

lemma den_nonneg: "s \<noteq> [] \<Longrightarrow> den_of s = (\<Sum>(t, y) \<leftarrow> s. (t - sum_t s / real (length s))\<^sup>2)"
  unfolding sum_centered_squares by (simp add: den_of_def field_simps power2_eq_square)

lemma den_pos:
  assumes "(t1, y1) \<in> set s" "(t2, y2) \<in> set s" "t1 \<noteq> t2"
  shows "0 < den_of s"
proof -
  let ?m = "sum_t s / real (length s)"
  let ?sq = "map (\<lambda>(t, y). (t - ?m)\<^sup>2) s"
  have d: "den_of s = sum_list ?sq" using den_nonneg [of s] assms(1) by fastforce
  have nonneg: "\<forall>x \<in> set ?sq. 0 \<le> x" by auto
  moreover have "(t1 - ?m)\<^sup>2 \<in> set ?sq" "(t2 - ?m)\<^sup>2 \<in> set ?sq" using assms by force+
  moreover have "(t1 - ?m)\<^sup>2 \<noteq> 0 \<or> (t2 - ?m)\<^sup>2 \<noteq> 0" using assms(3) by simp
  ultimately have "sum_list ?sq \<noteq> 0" using sum_list_zero_nonneg [OF nonneg] by blast
  with sum_list_nonneg [of ?sq] nonneg d show ?thesis by fastforce
qed

text \<open>The error of any line is the error of the fitted line plus two squares.\<close>

lemma sse_split:
  assumes n: "s \<noteq> []" and d: "den_of s \<noteq> 0"
  defines "b \<equiv> num_of s / den_of s" and "n \<equiv> real (length s)"
  shows "sse a' b' s = sse (sum_y s / n - b * (sum_t s / n)) b s +
    (b' - b)\<^sup>2 * den_of s + n * (a' + b' * (sum_t s / n) - sum_y s / n)\<^sup>2"
proof -
  have n0: "n > 0" using n by (simp add: n_def)
  have tt: "sum_tt s = den_of s + (sum_t s)\<^sup>2 / n" and ty: "sum_ty s = b * den_of s + sum_t s * sum_y s / n"
    using d by (simp_all add: den_of_def num_of_def n_def b_def)
  have line: "sse a'' b'' s = sum_yy s - (sum_y s)\<^sup>2 / n - 2 * b'' * b * den_of s + b''\<^sup>2 * den_of s +
      n * (a'' + b'' * (sum_t s / n) - sum_y s / n)\<^sup>2" for a'' b''
    unfolding sse_expand n_def [symmetric] tt ty using n0
    by (simp add: field_simps power2_eq_square)
  have zero: "sum_y s / n - b * (sum_t s / n) + b * (sum_t s / n) - sum_y s / n = 0" by simp
  show ?thesis
    unfolding line [of a' b'] line [of "sum_y s / n - b * (sum_t s / n)" b] zero
    by (simp add: power2_eq_square algebra_simps)
qed

text \<open>
  The development slope is the least-squares trend: over a series with at least two different instants it is the
  slope of a line whose squared error no other line reaches.
\<close>

theorem slope_least_squares:
  assumes s: "(t1, y1) \<in> set series" "(t2, y2) \<in> set series" "t1 \<noteq> t2"
    and b: "developmentSlope series m = Some b"
  shows "\<exists>a. \<forall>a' b'. sse a b series \<le> sse a' b' series \<and> (sse a' b' series = sse a b series \<longrightarrow> a' = a \<and> b' = b)"
proof -
  let ?n = "real (length series)"
  have ne: "series \<noteq> []" using s by auto
  have d: "0 < den_of series" by (rule den_pos [OF s])
  with b ne have b': "b = num_of series / den_of series"
    by (auto simp: developmentSlope_eq split: if_splits)
  define a where "a = sum_y series / ?n - b * (sum_t series / ?n)"
  have split: "sse a' b'' series = sse a b series + (b'' - b)\<^sup>2 * den_of series +
      ?n * (a' + b'' * (sum_t series / ?n) - sum_y series / ?n)\<^sup>2" for a' b''
    using sse_split [OF ne, of a' b''] d by (simp add: a_def b')
  have "sse a b series \<le> sse a' b'' series \<and> (sse a' b'' series = sse a b series \<longrightarrow> a' = a \<and> b'' = b)" for a' b''
  proof (intro conjI impI)
    have pos: "0 \<le> (b'' - b)\<^sup>2 * den_of series" "0 \<le> ?n * (a' + b'' * (sum_t series / ?n) - sum_y series / ?n)\<^sup>2"
      using d by simp_all
    then show "sse a b series \<le> sse a' b'' series" unfolding split [of a' b''] by simp
    assume "sse a' b'' series = sse a b series"
    then have "(b'' - b)\<^sup>2 * den_of series + ?n * (a' + b'' * (sum_t series / ?n) - sum_y series / ?n)\<^sup>2 = 0"
      unfolding split [of a' b''] by simp
    with pos have "(b'' - b)\<^sup>2 * den_of series = 0" "?n * (a' + b'' * (sum_t series / ?n) - sum_y series / ?n)\<^sup>2 = 0"
      by linarith+
    with d ne have "b'' = b" "a' + b'' * (sum_t series / ?n) - sum_y series / ?n = 0" by simp_all
    then show "a' = a" "b'' = b" by (simp_all add: a_def)
  qed
  then show ?thesis by blast
qed

lemma slope_least_squares_witness:
  "\<exists>a. \<forall>a' b'. sse a 2 [(0, 1), (1, 3), (2, 5)] \<le> sse a' b' [(0, 1), (1, 3), (2, 5)] \<and>
     (sse a' b' [(0, 1), (1, 3), (2, 5)] = sse a 2 [(0, 1), (1, 3), (2, 5)] \<longrightarrow> a' = a \<and> b' = 2)"
proof (rule slope_least_squares [where m = 3 and ?t1.0 = 0 and ?y1.0 = 1 and ?t2.0 = 1 and ?y2.0 = 3])
  show "developmentSlope [(0, 1), (1, 3), (2, 5)] 3 = Some 2"
    by (simp add: developmentSlope_eq den_of_def num_of_def)
qed simp_all

section \<open>Peer normalization\<close>

text \<open>The weight of a peer in the percentile of a value.\<close>

definition rank_part :: "real \<Rightarrow> real \<Rightarrow> real" where
  "rank_part v p = (if p < v then 1 else if p = v then 1 / 2 else 0)"

lemma peer_loop:
  assumes "foldl (\<lambda>(b, q) p. if p < v then (b + 1, q) else if p = v then (b, q + 1) else (b, q)) (b0, q0) ps = (b, q)"
  shows "real b + 1 / 2 * real q = real b0 + 1 / 2 * real q0 + (\<Sum>p \<leftarrow> ps. rank_part v p)"
  using assms
proof (induction ps arbitrary: b0 q0)
  case (Cons p ps)
  show ?case
  proof (cases "p < v")
    case True
    with Cons.IH [of "b0 + 1" q0] Cons.prems show ?thesis by (simp add: rank_part_def)
  next
    case False
    with Cons.IH [of b0 q0] Cons.IH [of b0 "q0 + 1"] Cons.prems show ?thesis
      by (cases "p = v") (simp_all add: rank_part_def)
  qed
qed simp

lemma normalize_value:
  assumes "ps \<noteq> []"
  shows "pn_value (normalizeToPeerGroup v ps k) = Some (100 * (\<Sum>p \<leftarrow> ps. rank_part v p) / real (length ps))"
proof -
  obtain b q where "foldl (\<lambda>(b, q) p. if p < v then (b + 1, q) else if p = v then (b, q + 1) else (b, q)) (0 :: nat, 0 :: nat) ps = (b, q)"
    by fastforce
  with peer_loop [OF this] assms show ?thesis by (simp add: normalizeToPeerGroup_def Let_def)
qed

lemma rank_part_bounds: "0 \<le> rank_part v p" "rank_part v p \<le> 1"
  by (simp_all add: rank_part_def)

lemma rank_part_mono: "v \<le> v' \<Longrightarrow> rank_part v p \<le> rank_part v' p"
  by (simp add: rank_part_def)

lemma rank_part_symmetric: "rank_part v p + rank_part p v = 1"
  by (simp add: rank_part_def)

lemma rank_sum_bounds: "0 \<le> (\<Sum>p \<leftarrow> ps. rank_part v p)" "(\<Sum>p \<leftarrow> ps. rank_part v p) \<le> real (length ps)"
  by (induction ps) (auto intro: add_mono [OF rank_part_bounds(1), of _ 0] simp: rank_part_def)

lemma percentile_bounds:
  assumes "pn_value (normalizeToPeerGroup v ps k) = Some x"
  shows "0 \<le> x \<and> x \<le> 100"
proof (cases "ps = []")
  case False
  with assms have x: "x = 100 * (\<Sum>p \<leftarrow> ps. rank_part v p) / real (length ps)" by (simp add: normalize_value)
  from False have "0 < real (length ps)" by simp
  then show ?thesis using rank_sum_bounds [of v ps] by (simp add: x divide_le_eq)
qed (use assms in \<open>simp add: normalizeToPeerGroup_def\<close>)

text \<open>The group's percentiles add up to half of everything, by pairing every two members.\<close>

lemma rank_sum_total: "(\<Sum>v \<leftarrow> ps. \<Sum>p \<leftarrow> ps. rank_part v p) = (real (length ps))\<^sup>2 / 2"
proof -
  let ?S = "\<Sum>v \<leftarrow> ps. \<Sum>p \<leftarrow> ps. rank_part v p"
  have "?S + (\<Sum>v \<leftarrow> ps. \<Sum>p \<leftarrow> ps. rank_part p v) = (\<Sum>v \<leftarrow> ps. \<Sum>p \<leftarrow> ps. rank_part v p + rank_part p v)"
    by (simp add: sum_list_addf)
  also have "\<dots> = (real (length ps))\<^sup>2"
    by (simp add: rank_part_symmetric sum_list_triv power2_eq_square)
  also have "(\<Sum>v \<leftarrow> ps. \<Sum>p \<leftarrow> ps. rank_part p v) = ?S"
    by (rule sum_list_swap)
  finally show ?thesis by simp
qed

text \<open>
  Peer normalization ranks a value on a scale from 0 to 100 that keeps the order of the values, and it is fair to the
  group as a whole: over any group that is not empty the percentiles of its members average to exactly 50.
\<close>

theorem percentiles_centered:
  fixes k :: int
  assumes "ps \<noteq> []"
  defines "pct \<equiv> (\<lambda>v. the (pn_value (normalizeToPeerGroup v ps k)))"
  shows "(\<Sum>v \<leftarrow> ps. pct v) = 50 * real (length ps) \<and> (\<forall>v. 0 \<le> pct v \<and> pct v \<le> 100) \<and>
    (\<forall>v v'. v \<le> v' \<longrightarrow> pct v \<le> pct v')"
proof (intro conjI allI impI)
  let ?n = "real (length ps)"
  have n: "0 < ?n" using assms(1) by simp
  have pct: "pct v = 100 / ?n * (\<Sum>p \<leftarrow> ps. rank_part v p)" for v
    using assms(1) by (simp add: pct_def normalize_value)
  have "(\<Sum>v \<leftarrow> ps. pct v) = 100 / ?n * (\<Sum>v \<leftarrow> ps. \<Sum>p \<leftarrow> ps. rank_part v p)"
    unfolding pct by (simp only: sum_list_const_mult)
  with n show "(\<Sum>v \<leftarrow> ps. pct v) = 50 * ?n"
    by (simp add: rank_sum_total power2_eq_square)
  fix v v' :: real
  have "pn_value (normalizeToPeerGroup v ps k) = Some (pct v)"
    using assms(1) by (simp add: pct_def normalize_value)
  from percentile_bounds [OF this] show "0 \<le> pct v" "pct v \<le> 100" by auto
  assume "v \<le> v'"
  then have "(\<Sum>p \<leftarrow> ps. rank_part v p) \<le> (\<Sum>p \<leftarrow> ps. rank_part v' p)"
    by (intro sum_list_mono rank_part_mono)
  with n show "pct v \<le> pct v'" unfolding pct by (intro mult_left_mono) simp_all
qed

section \<open>The median\<close>

text \<open>
  At least half of the items took at most the median, and at least half took at least the median.
\<close>

lemma sorted_below: "sorted xs \<Longrightarrow> i < length xs \<Longrightarrow> xs ! i \<le> m \<Longrightarrow> i + 1 \<le> length (filter (\<lambda>x. x \<le> m) xs)"
proof (induction xs arbitrary: i)
  case (Cons x xs)
  show ?case
  proof (cases i)
    case (Suc j)
    with Cons have "j + 1 \<le> length (filter (\<lambda>x. x \<le> m) xs)" by simp
    moreover from Cons.prems Suc have "x \<le> m" by (fastforce dest: nth_mem)
    ultimately show ?thesis using Suc by simp
  qed (use Cons in simp)
qed simp

lemma sorted_above: "sorted xs \<Longrightarrow> i < length xs \<Longrightarrow> m \<le> xs ! i \<Longrightarrow> length xs - i \<le> length (filter (\<lambda>x. m \<le> x) xs)"
proof (induction xs arbitrary: i)
  case (Cons x xs)
  show ?case
  proof (cases i)
    case 0
    with Cons.prems have "filter (\<lambda>x. m \<le> x) (x # xs) = x # xs" by (intro filter_True) auto
    with 0 show ?thesis by simp
  next
    case (Suc j)
    with Cons have "length xs - j \<le> length (filter (\<lambda>x. m \<le> x) xs)" by simp
    with Suc show ?thesis by simp
  qed
qed simp

lemma length_filter_sort: "length (filter P (sort xs)) = length (filter P xs)"
  by (metis mset_filter mset_sort size_mset)

lemma median_splits:
  fixes xs :: "real list"
  assumes "medianCycleMinutes xs = Some m"
  shows "length xs \<le> 2 * length (filter (\<lambda>c. c \<le> m) xs) \<and> length xs \<le> 2 * length (filter (\<lambda>c. m \<le> c) xs)"
proof -
  let ?s = "sort xs" and ?k = "length xs div 2"
  from assms have ne: "xs \<noteq> []" by (auto simp: medianCycleMinutes_def)
  then have k: "?k < length ?s" by (cases xs) auto
  show ?thesis
  proof (cases "length xs mod 2 = 1")
    case True
    with assms ne have m: "m = ?s ! ?k" by (simp add: medianCycleMinutes_def Let_def)
    have "?k + 1 \<le> length (filter (\<lambda>c. c \<le> m) xs)" "length xs - ?k \<le> length (filter (\<lambda>c. m \<le> c) xs)"
      using sorted_below [OF sorted_sort k, of m] sorted_above [OF sorted_sort k, of m]
      by (simp_all add: m length_filter_sort)
    with True show ?thesis by presburger
  next
    case False
    with assms ne have m: "m = (?s ! (?k - 1) + ?s ! ?k) / 2" by (simp add: medianCycleMinutes_def Let_def)
    from ne have "0 < length xs" by simp
    with False have k1: "1 \<le> ?k" by presburger
    then have k': "?k - 1 < length ?s" "?s ! (?k - 1) \<le> ?s ! ?k" using k by (auto intro: sorted_nth_mono)
    then have "?s ! (?k - 1) \<le> m" "m \<le> ?s ! ?k" by (simp_all add: m)
    then have "?k - 1 + 1 \<le> length (filter (\<lambda>c. c \<le> m) xs)" "length xs - ?k \<le> length (filter (\<lambda>c. m \<le> c) xs)"
      using sorted_below [OF sorted_sort k'(1), of m] sorted_above [OF sorted_sort k, of m]
      by (simp_all add: length_filter_sort)
    with False k1 show ?thesis by presburger
  qed
qed

section \<open>Bounds of the other numbers\<close>

lemma clamp01_bounds [simp]: "0 \<le> clamp01 x" "clamp01 x \<le> 1"
  by (simp_all add: clamp01_def)

lemma confidence_bounds [simp]: "0 \<le> confidence n d m" "confidence n d m \<le> 1"
  by (simp_all add: confidence_def Let_def)

lemma defectRate_nonneg: "defectRate c n = Some x \<Longrightarrow> 0 \<le> c \<Longrightarrow> 0 \<le> x"
  by (auto simp: defectRate_def split: if_splits)

section \<open>The allowlist\<close>

lemma buildScoringInput_ok: "\<forall>(key, v) \<in> set raw. isAllowedKey key \<Longrightarrow> buildScoringInput raw = Inr raw"
  by (induction raw) auto

lemma buildScoringInput_Inr_iff:
  "buildScoringInput raw = Inr r \<longleftrightarrow> r = raw \<and> (\<forall>key \<in> fst ` set raw. key \<in> set ALLOWED_KEYS)"
proof (induction raw arbitrary: r)
  case (Cons kv raw)
  then show ?case
    by (cases kv; cases "buildScoringInput raw") (auto simp: isAllowedKey_def)
qed auto

end
