(* ===== verification/PerfConfig.thy ===== *)
theory PerfConfig
  imports Scoring "HOL-Library.List_Lexorder" "HOL-Library.Char_ord"
begin

text \<open>
  The scoring configuration of the strategic brain, \<open>strategic-brain/performance-config.service.ts\<close> with
  the bounds of \<open>strategic-brain/dto/performance-config.dto.ts\<close>: one row per unit, and one row without a
  unit for the tenant-wide default. The hash function of \<open>node:crypto\<close> over the JSON text of the sorted
  entries is the parameter \<open>digest\<close>, the decimal text of a number the parameter \<open>num_text\<close>.
\<close>

section \<open>Requests\<close>

record perf_input =
  px_unitId :: "id option"
  px_weightPerformance :: "real option"
  px_weightTimeliness :: "real option"
  px_weightQuality :: "real option"
  px_weightDevelopment :: "real option"
  px_slaTargetMinutes :: "int option"
  px_defectThreshold :: "real option"
  px_confidenceMinDays :: "int option"
  px_windowDays :: "int option"
  px_minValidWindows :: "int option"
  px_minSlopeForGrowth :: "real option"
  px_minPeerGroupSize :: "int option"
  px_proactivityLevel :: "proactivity_level option"

text \<open>The ranges the DTO's decorators demand; an absent field is not checked.\<close>

definition in_range :: "'a :: linorder \<Rightarrow> 'a \<Rightarrow> 'a option \<Rightarrow> bool" where
  "in_range lo hi x \<longleftrightarrow> (case x of None \<Rightarrow> True | Some v \<Rightarrow> lo \<le> v \<and> v \<le> hi)"

definition perf_dto_valid :: "perf_input \<Rightarrow> bool" where
  "perf_dto_valid d \<longleftrightarrow>
     in_range 0 1 (px_weightPerformance d) \<and> in_range 0 1 (px_weightTimeliness d) \<and>
     in_range 0 1 (px_weightQuality d) \<and> in_range 0 1 (px_weightDevelopment d) \<and>
     in_range 1 10080 (px_slaTargetMinutes d) \<and> in_range 0 1 (px_defectThreshold d) \<and>
     in_range 0 3650 (px_confidenceMinDays d) \<and> in_range 1 365 (px_windowDays d) \<and>
     in_range 1 100 (px_minValidWindows d) \<and>
     (case px_minSlopeForGrowth d of None \<Rightarrow> True | Some s \<Rightarrow> 0 \<le> s) \<and>
     in_range 1 1000 (px_minPeerGroupSize d)"

section \<open>The weights\<close>

definition WEIGHT_SUM_EPSILON :: real where
  "WEIGHT_SUM_EPSILON = 1 / 10 ^ 6"

text \<open>\<open>WEIGHT_KEYS\<close> with the value each has in the input.\<close>

definition weight_values :: "perf_input \<Rightarrow> (string \<times> real option) list" where
  "weight_values d =
     [(''weightPerformance'', px_weightPerformance d), (''weightTimeliness'', px_weightTimeliness d),
      (''weightQuality'', px_weightQuality d), (''weightDevelopment'', px_weightDevelopment d)]"

definition validateWeightSum :: "(real \<Rightarrow> string) \<Rightarrow> perf_input \<Rightarrow> app_error + unit" where
  "validateWeightSum num_text d =
     (let provided = filter (\<lambda>(_, v). v \<noteq> None) (weight_values d) in
      if provided = [] then Inr ()
      else if length provided \<noteq> length (weight_values d)
        then Inl (BadRequestException (''Performance config weights must be set all four at once (missing: '' @
               join_with '', '' (map fst (filter (\<lambda>(_, v). v = None) (weight_values d))) @ '')''))
      else
        let total = foldl (\<lambda>acc (_, v). acc + coalesce v 0) 0 (weight_values d) in
        if \<bar>total - 1\<bar> > WEIGHT_SUM_EPSILON
        then Inl (BadRequestException (''Performance config weights (performance+timeliness+quality+development) must sum to 1.00, got '' @
               num_text total))
        else Inr ())"

section \<open>The hash of a configuration\<close>

definition config_entries :: "perf_fields \<Rightarrow> (string \<times> real) list" where
  "config_entries c =
     [(''weightPerformance'', pf_weightPerformance c), (''weightTimeliness'', pf_weightTimeliness c),
      (''weightQuality'', pf_weightQuality c), (''weightDevelopment'', pf_weightDevelopment c),
      (''slaTargetMinutes'', real_of_int (pf_slaTargetMinutes c)), (''defectThreshold'', pf_defectThreshold c),
      (''confidenceMinDays'', real_of_int (pf_confidenceMinDays c)), (''windowDays'', real_of_int (pf_windowDays c)),
      (''minValidWindows'', real_of_int (pf_minValidWindows c)), (''minSlopeForGrowth'', pf_minSlopeForGrowth c),
      (''minPeerGroupSize'', real_of_int (pf_minPeerGroupSize c))]"

definition configHash :: "((string \<times> real) list \<Rightarrow> string) \<Rightarrow> perf_fields \<Rightarrow> string" where
  "configHash digest c = take 16 (digest (sort_key fst (config_entries c)))"

section \<open>Reading\<close>

text \<open>The defaults of the schema's columns, which \<open>defaultConfig\<close> mirrors.\<close>

definition default_fields :: perf_fields where
  "default_fields =
     \<lparr>pf_weightPerformance = 3 / 10, pf_weightTimeliness = 25 / 100, pf_weightQuality = 25 / 100, pf_weightDevelopment = 2 / 10,
      pf_slaTargetMinutes = 120, pf_defectThreshold = 1 / 10, pf_confidenceMinDays = 30, pf_windowDays = 14,
      pf_minValidWindows = 3, pf_minSlopeForGrowth = 1 / 2, pf_minPeerGroupSize = 5\<rparr>"

definition perf_default :: "id \<Rightarrow> id option \<Rightarrow> perf_config_row" where
  "perf_default i unitId =
     \<lparr>pc_id = i, pc_unitId = unitId, pc_fields = default_fields, pc_proactivityLevel = PROAKTYWNE_REKOMENDACJE\<rparr>"

definition perf_row :: "tenant_db \<Rightarrow> id option \<Rightarrow> perf_config_row option" where
  "perf_row db key = find (\<lambda>r. pc_unitId r = key) (t_perfConfigs db)"

text \<open>The unit's own row, else the tenant-wide row, else the defaults. An empty unit id is falsy.\<close>

definition effective_config :: "tenant_db \<Rightarrow> id option \<Rightarrow> perf_config_row" where
  "effective_config db unitId =
     (let global = coalesce (perf_row db None) (perf_default [] unitId) in
      case unitId of
        None \<Rightarrow> global
      | Some u \<Rightarrow> if u = [] then global else coalesce (perf_row db (Some u)) global)"

definition getEffectiveConfig :: "id option \<Rightarrow> perf_config_row tx" where
  "getEffectiveConfig unitId = asks (\<lambda>db. effective_config db unitId)"

text \<open>\<open>resolveConfig\<close> and \<open>resolveConfigFields\<close>: the projection to the scoring fields.\<close>

definition resolve_fields :: "tenant_db \<Rightarrow> id option \<Rightarrow> perf_fields" where
  "resolve_fields db unitId = pc_fields (effective_config db unitId)"

section \<open>Writing\<close>

definition perf_patch :: "perf_input \<Rightarrow> perf_config_row \<Rightarrow> perf_config_row" where
  "perf_patch d r = r
     \<lparr>pc_fields :=
        \<lparr>pf_weightPerformance = coalesce (px_weightPerformance d) (pf_weightPerformance (pc_fields r)),
         pf_weightTimeliness = coalesce (px_weightTimeliness d) (pf_weightTimeliness (pc_fields r)),
         pf_weightQuality = coalesce (px_weightQuality d) (pf_weightQuality (pc_fields r)),
         pf_weightDevelopment = coalesce (px_weightDevelopment d) (pf_weightDevelopment (pc_fields r)),
         pf_slaTargetMinutes = coalesce (px_slaTargetMinutes d) (pf_slaTargetMinutes (pc_fields r)),
         pf_defectThreshold = coalesce (px_defectThreshold d) (pf_defectThreshold (pc_fields r)),
         pf_confidenceMinDays = coalesce (px_confidenceMinDays d) (pf_confidenceMinDays (pc_fields r)),
         pf_windowDays = coalesce (px_windowDays d) (pf_windowDays (pc_fields r)),
         pf_minValidWindows = coalesce (px_minValidWindows d) (pf_minValidWindows (pc_fields r)),
         pf_minSlopeForGrowth = coalesce (px_minSlopeForGrowth d) (pf_minSlopeForGrowth (pc_fields r)),
         pf_minPeerGroupSize = coalesce (px_minPeerGroupSize d) (pf_minPeerGroupSize (pc_fields r))\<rparr>,
      pc_proactivityLevel := coalesce (px_proactivityLevel d) (pc_proactivityLevel r)\<rparr>"

definition perf_update :: "id \<Rightarrow> perf_input \<Rightarrow> perf_config_row tx" where
  "perf_update i d = update_row t_perfConfigs put_perfConfigs pc_id (P2025 ''performance_config'') i (perf_patch d)"

text \<open>\<open>create\<close> under the unique index on the unit and the partial index on the default row.\<close>

definition perf_create :: "id \<Rightarrow> id option \<Rightarrow> perf_input \<Rightarrow> perf_config_row tx" where
  "perf_create newId key d =
     bnd (asks (\<lambda>db. perf_row db key)) (\<lambda>existing.
     bnd (ensure (existing = None) (P2002 ''performance_config'')) (\<lambda>_.
     create_row t_perfConfigs put_perfConfigs (perf_patch d (perf_default newId key))))"

text \<open>
  The write of \<open>upsertConfig\<close> after the read of the default row, which is an argument because another
  writer may have made that row since.
\<close>

definition perf_write :: "id \<Rightarrow> perf_config_row option \<Rightarrow> perf_input \<Rightarrow> perf_config_row tx" where
  "perf_write newId before d =
     (case px_unitId d of
        None \<Rightarrow>
          (case before of
             Some b \<Rightarrow> perf_update (pc_id b) d
           | None \<Rightarrow>
               catch (perf_create newId None d) (\<lambda>err.
                 if is_P2002 err
                 then bnd (asks (\<lambda>db. perf_row db None)) (\<lambda>existing.
                      bnd (require (ConflictException ''Performance config default already exists'') existing) (\<lambda>e.
                      perf_update (pc_id e) d))
                 else throw err))
      | Some u \<Rightarrow>
          bnd (asks (\<lambda>db. perf_row db (Some u))) (\<lambda>existing.
          case existing of
            Some e \<Rightarrow> perf_update (pc_id e) d
          | None \<Rightarrow> perf_create newId (Some u) d))"

definition perf_upsertConfig :: "(real \<Rightarrow> string) \<Rightarrow> id \<Rightarrow> perf_input \<Rightarrow> perf_config_row tx" where
  "perf_upsertConfig num_text newId d =
     bnd (lift_sum (validateWeightSum num_text d)) (\<lambda>_.
     bnd (asks (\<lambda>db. perf_row db None)) (\<lambda>before.
     perf_write newId before d))"

section \<open>Every stored configuration is normalized\<close>

definition fields_ok :: "perf_fields \<Rightarrow> bool" where
  "fields_ok c \<longleftrightarrow>
     0 \<le> pf_weightPerformance c \<and> 0 \<le> pf_weightTimeliness c \<and> 0 \<le> pf_weightQuality c \<and> 0 \<le> pf_weightDevelopment c \<and>
     \<bar>pf_weightPerformance c + pf_weightTimeliness c + pf_weightQuality c + pf_weightDevelopment c - 1\<bar> \<le> WEIGHT_SUM_EPSILON \<and>
     1 \<le> pf_slaTargetMinutes c \<and> 0 \<le> pf_defectThreshold c \<and> pf_defectThreshold c \<le> 1 \<and>
     0 \<le> pf_confidenceMinDays c \<and> 1 \<le> pf_windowDays c \<and> 1 \<le> pf_minValidWindows c \<and>
     0 \<le> pf_minSlopeForGrowth c \<and> 1 \<le> pf_minPeerGroupSize c"

definition perf_ok :: "tenant_db \<Rightarrow> bool" where
  "perf_ok db \<longleftrightarrow> distinct (map pc_unitId (t_perfConfigs db)) \<and> (\<forall>r \<in> set (t_perfConfigs db). fields_ok (pc_fields r))"

lemma default_fields_ok: "fields_ok default_fields"
  by (simp add: fields_ok_def default_fields_def WEIGHT_SUM_EPSILON_def)

lemma effective_config_ok: "perf_ok db \<Longrightarrow> fields_ok (pc_fields (effective_config db unitId))"
  by (auto simp: effective_config_def coalesce_def perf_row_def perf_ok_def perf_default_def default_fields_ok Let_def
      dest!: find_SomeD split: option.splits)

text \<open>The weights of an accepted input are all absent, or all given with a sum of one.\<close>

lemma validateWeightSum_Inr:
  assumes "validateWeightSum num_text d = Inr ()"
  obtains "px_weightPerformance d = None" "px_weightTimeliness d = None" "px_weightQuality d = None" "px_weightDevelopment d = None"
  | p t q v where "px_weightPerformance d = Some p" "px_weightTimeliness d = Some t" "px_weightQuality d = Some q"
      "px_weightDevelopment d = Some v" "\<bar>p + t + q + v - 1\<bar> \<le> WEIGHT_SUM_EPSILON"
  using assms
  by (cases "px_weightPerformance d"; cases "px_weightTimeliness d"; cases "px_weightQuality d"; cases "px_weightDevelopment d")
    (auto simp: validateWeightSum_def weight_values_def Let_def coalesce_def split: if_splits)

lemma perf_patch_keys [simp]: "pc_id (perf_patch d r) = pc_id r" "pc_unitId (perf_patch d r) = pc_unitId r"
  by (simp_all add: perf_patch_def)

lemma in_rangeD: "in_range lo hi x \<Longrightarrow> lo \<le> v \<Longrightarrow> lo \<le> coalesce x v"
  by (simp add: in_range_def coalesce_def split: option.splits)

lemma perf_patch_ok:
  assumes valid: "perf_dto_valid d" and w: "validateWeightSum num_text d = Inr ()" and r: "fields_ok (pc_fields r)"
  shows "fields_ok (pc_fields (perf_patch d r))"
proof -
  have rest: "1 \<le> coalesce (px_slaTargetMinutes d) (pf_slaTargetMinutes (pc_fields r))"
    "0 \<le> coalesce (px_confidenceMinDays d) (pf_confidenceMinDays (pc_fields r))"
    "1 \<le> coalesce (px_windowDays d) (pf_windowDays (pc_fields r))"
    "1 \<le> coalesce (px_minValidWindows d) (pf_minValidWindows (pc_fields r))"
    "1 \<le> coalesce (px_minPeerGroupSize d) (pf_minPeerGroupSize (pc_fields r))"
    "0 \<le> coalesce (px_defectThreshold d) (pf_defectThreshold (pc_fields r))"
    using valid r by (auto simp: perf_dto_valid_def fields_ok_def intro: in_rangeD)
  from valid r have "in_range 0 1 (px_defectThreshold d)" "pf_defectThreshold (pc_fields r) \<le> 1"
    by (simp_all add: perf_dto_valid_def fields_ok_def)
  then have "coalesce (px_defectThreshold d) (pf_defectThreshold (pc_fields r)) \<le> 1"
    by (cases "px_defectThreshold d") (simp_all add: in_range_def coalesce_def)
  moreover
  from valid r have "case px_minSlopeForGrowth d of None \<Rightarrow> True | Some s \<Rightarrow> 0 \<le> s" "0 \<le> pf_minSlopeForGrowth (pc_fields r)"
    by (simp_all add: perf_dto_valid_def fields_ok_def)
  then have "0 \<le> coalesce (px_minSlopeForGrowth d) (pf_minSlopeForGrowth (pc_fields r))"
    by (cases "px_minSlopeForGrowth d") (simp_all add: coalesce_def)
  moreover
  let ?w = "\<lambda>x y. coalesce (x d) (y (pc_fields r))"
  have old: "0 \<le> pf_weightPerformance (pc_fields r)" "0 \<le> pf_weightTimeliness (pc_fields r)" "0 \<le> pf_weightQuality (pc_fields r)"
    "0 \<le> pf_weightDevelopment (pc_fields r)" "\<bar>pf_weightPerformance (pc_fields r) + pf_weightTimeliness (pc_fields r) +
      pf_weightQuality (pc_fields r) + pf_weightDevelopment (pc_fields r) - 1\<bar> \<le> WEIGHT_SUM_EPSILON"
    using r by (simp_all add: fields_ok_def)
  from valid have "in_range 0 1 (px_weightPerformance d)" "in_range 0 1 (px_weightTimeliness d)" "in_range 0 1 (px_weightQuality d)"
    "in_range 0 1 (px_weightDevelopment d)"
    by (simp_all add: perf_dto_valid_def)
  with old have nonneg: "0 \<le> ?w px_weightPerformance pf_weightPerformance" "0 \<le> ?w px_weightTimeliness pf_weightTimeliness"
    "0 \<le> ?w px_weightQuality pf_weightQuality" "0 \<le> ?w px_weightDevelopment pf_weightDevelopment"
    by (blast intro: in_rangeD)+
  moreover have "\<bar>?w px_weightPerformance pf_weightPerformance + ?w px_weightTimeliness pf_weightTimeliness +
      ?w px_weightQuality pf_weightQuality + ?w px_weightDevelopment pf_weightDevelopment - 1\<bar> \<le> WEIGHT_SUM_EPSILON"
    by (cases rule: validateWeightSum_Inr [OF w]) (use old(5) in \<open>simp_all only: coalesce_def option.case\<close>)
  ultimately show ?thesis
    using rest unfolding fields_ok_def perf_patch_def by (intro conjI) simp_all
qed

lemma perf_update_ok:
  assumes "perf_dto_valid d" "validateWeightSum num_text d = Inr ()"
  shows "preserves perf_ok (perf_update i d)"
proof (rule preservesI)
  fix db
  assume ok: "perf_ok db"
  have "map pc_unitId (update_rows (\<lambda>r. pc_id r = i) (perf_patch d) (t_perfConfigs db)) = map pc_unitId (t_perfConfigs db)"
    by (rule map_update_rows) simp
  with ok assms show "perf_ok (snd (perf_update i d db))"
    by (auto simp: perf_update_def perf_ok_def set_update_rows intro: perf_patch_ok split: option.splits)
qed

lemma perf_create_ok:
  assumes "perf_dto_valid d" "validateWeightSum num_text d = Inr ()"
  shows "preserves perf_ok (perf_create newId key d)"
proof (rule preservesI)
  fix db
  assume ok: "perf_ok db"
  have "fields_ok (pc_fields (perf_patch d (perf_default newId key)))"
    by (rule perf_patch_ok [OF assms]) (simp add: perf_default_def default_fields_ok)
  with ok show "perf_ok (snd (perf_create newId key d db))"
    by (auto simp: perf_create_def perf_ok_def perf_row_def perf_default_def find_None_iff)
qed

lemma perf_write_ok:
  assumes "perf_dto_valid d" "validateWeightSum num_text d = Inr ()"
  shows "preserves perf_ok (perf_write newId before d)"
  using perf_update_ok [OF assms] perf_create_ok [OF assms]
  by (auto simp: perf_write_def split: option.splits intro!: preserves_bnd preserves_catch)

text \<open>
  Every stored scoring configuration stays normalized: a configuration write with a valid body, on every outcome
  and also when another writer made the default row after it was read, leaves at most one row per unit and one
  default row, no negative weight, and in every row four weights that sum to one up to the tolerance.
\<close>

theorem config_stays_normalized:
  assumes "perf_ok db" and "perf_dto_valid d"
  shows "perf_ok (snd (bnd (lift_sum (validateWeightSum num_text d)) (\<lambda>_. perf_write newId before d) db)) \<and>
    perf_ok (snd (perf_upsertConfig num_text newId d db))"
proof (cases "validateWeightSum num_text d")
  case (Inr u)
  then have "validateWeightSum num_text d = Inr ()" by simp
  from preserves_snd [OF perf_write_ok [OF assms(2) this] assms(1)] Inr show ?thesis
    by (simp add: perf_upsertConfig_def)
qed (use assms in \<open>simp add: perf_upsertConfig_def\<close>)

end
