(* ===== verification/Snapshot.thy ===== *)
theory Snapshot
  imports PerfConfig Rbac WeekTime
begin

text \<open>
  The snapshot cache of the strategic brain, \<open>strategic-brain/snapshot.service.ts\<close>: one row per employee
  and window, computed from the work orders, complaints and approved leaves of the window, and the read
  paths over these rows. What the code takes from outside is collected in \<open>brain_env\<close>: the hash of a
  configuration's entries and the texts of a decimal and of a number.

  Rows that an \<open>orderBy\<close> does not separate keep the order of the table.
\<close>

section \<open>Environment and windows\<close>

record brain_env =
  be_digest :: "(string \<times> real) list \<Rightarrow> string"
  be_decimal :: "real \<Rightarrow> string"
  be_number :: "real \<Rightarrow> string"
  be_collate :: "string \<Rightarrow> nat list"

definition ALGORITHM_VERSION :: int where
  "ALGORITHM_VERSION = 1"

text \<open>\<open>{ start, end }\<close>.\<close>

record brain_window =
  bw_start :: int
  bw_end :: int

definition minute_ms :: int where
  "minute_ms = 60 * 1000"

section \<open>Structural exclusions\<close>

text \<open>\<open>toLowerCase\<close> within the 8-bit characters.\<close>

definition char_lower :: "char \<Rightarrow> char" where
  "char_lower c =
     (let n = (of_char c :: nat) in
      if 65 \<le> n \<and> n \<le> 90 \<or> 192 \<le> n \<and> n \<le> 222 \<and> n \<noteq> 215 then char_of (n + 32) else c)"

fun starts_with :: "string \<Rightarrow> string \<Rightarrow> bool" where
  "starts_with [] s = True"
| "starts_with (c # cs) [] = False"
| "starts_with (c # cs) (d # ds) = (c = d \<and> starts_with cs ds)"

text \<open>\<open>s.includes(sub)\<close>.\<close>

fun has_substring :: "string \<Rightarrow> string \<Rightarrow> bool" where
  "has_substring [] sub = (sub = [])"
| "has_substring (c # s) sub = (starts_with sub (c # s) \<or> has_substring s sub)"

definition LEAVE_TYPE_EXCLUSION_MAP :: "(string \<times> string) list" where
  "LEAVE_TYPE_EXCLUSION_MAP = [(''l4'', ''L4''), (''chorob'', ''L4''), (''urlop'', ''URLOP'')]"

definition mapLeaveTypeToExclusion :: "string \<Rightarrow> string option" where
  "mapLeaveTypeToExclusion ty =
     map_option snd (find (\<lambda>(sub, _). has_substring (map char_lower ty) sub) LEAVE_TYPE_EXCLUSION_MAP)"

definition deriveExclusion :: "leave_row list \<Rightarrow> int \<Rightarrow> brain_window \<Rightarrow> int \<Rightarrow> string option" where
  "deriveExclusion leaves hiredAt w confidenceMinDays =
     (case List.map_filter (\<lambda>l. mapLeaveTypeToExclusion (lv_type l)) leaves of
        category # _ \<Rightarrow> Some category
      | [] \<Rightarrow>
          let onboardingEnd = hiredAt + confidenceMinDays * day_ms
          in if bw_start w < onboardingEnd \<and> bw_end w > hiredAt then Some ''ONBOARDING'' else None)"

definition buildPeerGroupKey :: "brain_env \<Rightarrow> employee_row \<Rightarrow> string" where
  "buildPeerGroupKey env e = em_position e @ ''|'' @ em_unitId e @ ''|'' @ be_decimal env (em_etat e)"

section \<open>Loading the window\<close>

definition window_orders :: "tenant_db \<Rightarrow> id \<Rightarrow> brain_window \<Rightarrow> work_order_row list" where
  "window_orders db eid w =
     filter (\<lambda>o'. wo_assignedToEmployeeId o' = eid \<and> bw_start w \<le> wo_assignedAt o' \<and> wo_assignedAt o' < bw_end w \<and>
       wo_status o' \<noteq> WO_CANCELLED) (t_workOrders db)"

definition window_complaints :: "tenant_db \<Rightarrow> id \<Rightarrow> brain_window \<Rightarrow> complaint_row list" where
  "window_complaints db eid w =
     filter (\<lambda>c. cm_employeeId c = eid \<and> bw_start w \<le> cm_createdAt c \<and> cm_createdAt c < bw_end w) (t_complaints db)"

definition window_leaves :: "tenant_db \<Rightarrow> id \<Rightarrow> brain_window \<Rightarrow> leave_row list" where
  "window_leaves db eid w =
     filter (\<lambda>l. lv_employeeId l = eid \<and> lv_status l = LV_APPROVED \<and> lv_startDate l \<le> bw_end w \<and> bw_start w \<le> lv_endDate l)
       (t_leaves db)"

text \<open>The \<open>DONE\<close> orders with the instant of their completion.\<close>

definition done_orders :: "work_order_row list \<Rightarrow> (work_order_row \<times> int) list" where
  "done_orders orders =
     List.map_filter (\<lambda>o'. if wo_status o' = WO_DONE then map_option (\<lambda>t. (o', t)) (wo_completedAt o') else None) orders"

section \<open>Computing a snapshot\<close>

text \<open>\<open>Math.round\<close>.\<close>

definition js_round :: "real \<Rightarrow> int" where
  "js_round x = \<lfloor>x + 1 / 2\<rfloor>"

definition weights_of :: "perf_fields \<Rightarrow> score_weights" where
  "weights_of c = \<lparr>wt_performance = pf_weightPerformance c, wt_timeliness = pf_weightTimeliness c,
     wt_quality = pf_weightQuality c, wt_development = pf_weightDevelopment c\<rparr>"

definition days_employed :: "int \<Rightarrow> brain_window \<Rightarrow> int" where
  "days_employed hiredAt w = max 0 ((bw_end w - hiredAt) div day_ms)"

text \<open>\<open>input.key ?? 0\<close>.\<close>

definition input_num :: "(string \<times> scoring_value) list \<Rightarrow> string \<Rightarrow> int" where
  "input_num input key = (case map_of input key of Some (SvNum n) \<Rightarrow> n | _ \<Rightarrow> 0)"

definition input_nums :: "(string \<times> scoring_value) list \<Rightarrow> string \<Rightarrow> real list" where
  "input_nums input key = (case map_of input key of Some (SvNums ns) \<Rightarrow> ns | _ \<Rightarrow> [])"

definition raw_input :: "brain_env \<Rightarrow> employee_row \<Rightarrow> work_order_row list \<Rightarrow> complaint_row list \<Rightarrow> (string \<times> scoring_value) list" where
  "raw_input env employee orders complaints =
     (let done = done_orders orders;
          completedCount = int (length done)
      in [(''throughput'', SvNum completedCount),
          (''completedCount'', SvNum completedCount),
          (''complaintCount'', SvNum (int (length complaints))),
          (''cycleMinutes'', SvNums (map (\<lambda>(o', t). real_of_int (t - wo_assignedAt o') / real_of_int minute_ms) done)),
          (''slaHits'', SvNum (int (length (filter (\<lambda>(o', t). t \<le> wo_dueAt o') done)))),
          (''peerGroupKey'', SvText (buildPeerGroupKey env employee)),
          (''hiredAt'', SvDate (em_hiredAt employee))])"

text \<open>The row the method writes, given the input that passed the allowlist.\<close>

definition snapshot_data ::
  "brain_env \<Rightarrow> perf_fields \<Rightarrow> employee_row \<Rightarrow> brain_window \<Rightarrow> int \<Rightarrow> leave_row list \<Rightarrow> (string \<times> scoring_value) list \<Rightarrow> snapshot_row"
where
  "snapshot_data env config employee w completedCount leaves input =
     (let median = medianCycleMinutes (input_nums input ''cycleMinutes'');
          defect = defectRate (input_num input ''complaintCount'') (input_num input ''completedCount'');
          sla = (if completedCount > 0 then Some (real_of_int (input_num input ''slaHits'') / real_of_int completedCount) else None);
          dims = \<lparr>sd_performance = None, sd_timeliness = map_option (\<lambda>s. s * 100) sla,
                   sd_quality = map_option (\<lambda>d. (1 - d) * 100) defect, sd_development = None\<rparr>;
          days = days_employed (em_hiredAt employee) w
      in \<lparr>sn_id = [], sn_employeeId = em_id employee, sn_windowStart = bw_start w, sn_windowEnd = bw_end w,
          sn_throughput = completedCount, sn_medianCycleMinutes = map_option js_round median,
          sn_slaHitRate = sla, sn_defectRate = defect,
          sn_compositeScore = compositeScore dims (weights_of config), sn_developmentSlope = None,
          sn_confidence = confidence completedCount days (pf_confidenceMinDays config),
          sn_peerGroupKey = buildPeerGroupKey env employee,
          sn_isNewHire = (days < pf_confidenceMinDays config),
          sn_excludedReason = deriveExclusion leaves (em_hiredAt employee) w (pf_confidenceMinDays config),
          sn_algorithmVersion = ALGORITHM_VERSION, sn_configHash = configHash (be_digest env) config\<rparr>)"

definition snapshot_key :: "snapshot_row \<Rightarrow> id \<times> int \<times> int" where
  "snapshot_key s = (sn_employeeId s, sn_windowStart s, sn_windowEnd s)"

text \<open>\<open>upsert\<close> on the unique key of employee and window: every computed column is overwritten.\<close>

definition snapshot_upsert :: "id \<Rightarrow> snapshot_row \<Rightarrow> snapshot_row tx" where
  "snapshot_upsert newId data =
     bnd (asks (\<lambda>db. find (\<lambda>s. snapshot_key s = snapshot_key data) (t_snapshots db))) (\<lambda>existing.
     case existing of
       Some s \<Rightarrow> bnd (updateMany t_snapshots put_snapshots (\<lambda>x. snapshot_key x = snapshot_key data)
                     (\<lambda>x. data\<lparr>sn_id := sn_id x\<rparr>)) (\<lambda>_. ret (data\<lparr>sn_id := sn_id s\<rparr>))
     | None \<Rightarrow> create_row t_snapshots put_snapshots (data\<lparr>sn_id := newId\<rparr>))"

definition computeSnapshot :: "brain_env \<Rightarrow> id \<Rightarrow> id \<Rightarrow> brain_window \<Rightarrow> snapshot_row tx" where
  "computeSnapshot env newId employeeId w =
     bnd (asks (\<lambda>db. findEmployee db employeeId)) (\<lambda>found.
     bnd (require (PlainError (''SnapshotService: employee '' @ employeeId @ '' not found'')) found) (\<lambda>employee.
     bnd (asks (\<lambda>db. resolve_fields db (Some (em_unitId employee)))) (\<lambda>config.
     bnd (asks (\<lambda>db. window_orders db employeeId w)) (\<lambda>orders.
     bnd (asks (\<lambda>db. window_complaints db employeeId w)) (\<lambda>complaints.
     bnd (asks (\<lambda>db. window_leaves db employeeId w)) (\<lambda>leaves.
     bnd (lift_sum (buildScoringInput (raw_input env employee orders complaints))) (\<lambda>input.
     snapshot_upsert newId
       (snapshot_data env config employee w (int (length (done_orders orders))) leaves input))))))))"

section \<open>Reading\<close>

record heat_cell =
  hc_employeeId :: id
  hc_windowStart :: int
  hc_windowEnd :: int
  hc_throughput :: int
  hc_slaHitRate :: "real option"
  hc_defectRate :: "real option"
  hc_compositeScore :: "real option"
  hc_developmentSlope :: "real option"
  hc_confidence :: real
  hc_isNewHire :: bool
  hc_excludedReason :: "string option"

definition toHeatCell :: "snapshot_row \<Rightarrow> heat_cell" where
  "toHeatCell s =
     \<lparr>hc_employeeId = sn_employeeId s, hc_windowStart = sn_windowStart s, hc_windowEnd = sn_windowEnd s,
      hc_throughput = sn_throughput s, hc_slaHitRate = sn_slaHitRate s, hc_defectRate = sn_defectRate s,
      hc_compositeScore = sn_compositeScore s, hc_developmentSlope = sn_developmentSlope s,
      hc_confidence = sn_confidence s, hc_isNewHire = sn_isNewHire s, hc_excludedReason = sn_excludedReason s\<rparr>"

text \<open>A \<open>Map\<close> filled by \<open>if (!map.has(k)) map.set(k, x)\<close>: the first element per key, in order.\<close>

definition first_per :: "('a \<Rightarrow> 'k) \<Rightarrow> 'a list \<Rightarrow> 'a list" where
  "first_per key xs = foldl (\<lambda>acc x. if key x \<in> key ` set acc then acc else acc @ [x]) [] xs"

definition in_scope :: "id list option \<Rightarrow> id \<Rightarrow> bool" where
  "in_scope scopeUnitIds u \<longleftrightarrow> (case scopeUnitIds of None \<Rightarrow> True | Some us \<Rightarrow> u \<in> set us)"

definition brain_overview :: "tenant_db \<Rightarrow> id list option \<Rightarrow> heat_cell list" where
  "brain_overview db scopeUnitIds =
     (let ids = map em_id (filter (\<lambda>e. in_scope scopeUnitIds (em_unitId e)) (t_employees db)) in
      if ids = [] then []
      else
        let snaps = sort_key (\<lambda>s. - sn_windowEnd s) (filter (\<lambda>s. sn_employeeId s \<in> set ids) (t_snapshots db))
        in map toHeatCell (first_per sn_employeeId snaps))"

record card_factors =
  cf_compositeScore :: "real option"
  cf_developmentSlope :: "real option"
  cf_confidence :: real
  cf_slaHitRate :: "real option"
  cf_defectRate :: "real option"
  cf_throughput :: int
  cf_isNewHire :: bool
  cf_excludedReason :: "string option"

definition factors_of :: "snapshot_row \<Rightarrow> card_factors" where
  "factors_of s =
     \<lparr>cf_compositeScore = sn_compositeScore s, cf_developmentSlope = sn_developmentSlope s, cf_confidence = sn_confidence s,
      cf_slaHitRate = sn_slaHitRate s, cf_defectRate = sn_defectRate s, cf_throughput = sn_throughput s,
      cf_isNewHire = sn_isNewHire s, cf_excludedReason = sn_excludedReason s\<rparr>"

record employee_card =
  ec_employeeId :: id
  ec_series :: "heat_cell list"
  ec_retentionSignal :: "retention_signal option"
  ec_factors :: "card_factors option"

definition CARD_RETENTION_CONFIDENCE_MIN :: real where
  "CARD_RETENTION_CONFIDENCE_MIN = 1 / 2"

definition buildCard :: "tenant_db \<Rightarrow> id \<Rightarrow> employee_card" where
  "buildCard db employeeId =
     (let series = sort_key sn_windowEnd (filter (\<lambda>s. sn_employeeId s = employeeId) (t_snapshots db));
          (signal, factors) =
            (if series = [] then (None, None)
             else
               let latest = last series;
                   cfg = resolve_fields db None;
                   sig = (case sn_compositeScore latest of
                            None \<Rightarrow> RET_OBSERWOWAC
                          | Some c \<Rightarrow> retentionSignal c (sn_developmentSlope latest) (sn_confidence latest)
                                       (pf_minSlopeForGrowth cfg) CARD_RETENTION_CONFIDENCE_MIN)
               in (Some sig, Some (factors_of latest)))
      in \<lparr>ec_employeeId = employeeId, ec_series = map toHeatCell series, ec_retentionSignal = signal, ec_factors = factors\<rparr>)"

definition employeeCard :: "id \<Rightarrow> id list option \<Rightarrow> employee_card tx" where
  "employeeCard employeeId scopeUnitIds =
     bnd (asks (\<lambda>db. findEmployee db employeeId)) (\<lambda>found.
     bnd (require (NotFoundException (''Employee '' @ employeeId @ '' not found'')) found) (\<lambda>employee.
     bnd (ensure (in_scope scopeUnitIds (em_unitId employee)) (ForbiddenException ''Employee is outside your scope'')) (\<lambda>_.
     asks (\<lambda>db. buildCard db employeeId))))"

definition employeeCardByKeycloakSub :: "string \<Rightarrow> employee_card tx" where
  "employeeCardByKeycloakSub keycloakSub =
     bnd (asks (\<lambda>db. callerEmployee db keycloakSub)) (\<lambda>found.
     bnd (require (NotFoundException ''No employee record for the current user'') found) (\<lambda>me.
     asks (\<lambda>db. buildCard db (em_id me))))"

end
