(* ===== verification/Recruitment.thy ===== *)
theory Recruitment
  imports Snapshot "HOL-Library.AList"
begin

text \<open>
  The capacity gap, the finalization of a window and the recommendations of the strategic brain:
  \<open>strategic-brain/capacity-gap.service.ts\<close> and \<open>strategic-brain/recommendation.service.ts\<close>.
\<close>

section \<open>The capacity gap\<close>

record capacity_gap_result =
  cg_lokalizacjaId :: id
  cg_weekStart :: int
  cg_byRole :: "role_gap list"
  cg_totalGap :: int

definition gap_demands :: "tenant_db \<Rightarrow> id \<Rightarrow> int \<Rightarrow> demand_row list" where
  "gap_demands db lokalizacjaId weekStart =
     filter (\<lambda>d. de_lokalizacjaId d = lokalizacjaId \<and> weekStart \<le> de_date d \<and> de_date d < weekStart + 7 * 24 * 60 * 60 * 1000)
       (t_demands db)"

definition demand_shifts :: "tenant_db \<Rightarrow> demand_row \<Rightarrow> shift_row list" where
  "demand_shifts db d = filter (\<lambda>s. sh_demandId s = Some (de_id d)) (t_shifts db)"

text \<open>The loop over the demands: a \<open>Map\<close> in insertion order.\<close>

definition gap_entry :: "tenant_db \<Rightarrow> (string \<times> int \<times> int) list \<Rightarrow> demand_row \<Rightarrow> (string \<times> int \<times> int) list" where
  "gap_entry db m d =
     (let (required, assigned) = coalesce (map_of m (de_requiredRole d)) (0, 0)
      in AList.update (de_requiredRole d)
           (required + de_requiredCount d, assigned + int (length (demand_shifts db d))) m)"

definition capacityGap :: "brain_env \<Rightarrow> tenant_db \<Rightarrow> id \<Rightarrow> int \<Rightarrow> capacity_gap_result" where
  "capacityGap env db lokalizacjaId weekStart =
     (let byRoleMap = foldl (gap_entry db) [] (gap_demands db lokalizacjaId weekStart);
          byRole = sort_key (\<lambda>r. be_collate env (rg_role r))
            (map (\<lambda>(role, required, assigned).
               \<lparr>rg_role = role, rg_required = required, rg_assigned = assigned, rg_gap = required - assigned\<rparr>) byRoleMap)
      in \<lparr>cg_lokalizacjaId = lokalizacjaId, cg_weekStart = weekStart, cg_byRole = byRole,
          cg_totalGap = foldl (\<lambda>s r. s + rg_gap r) 0 byRole\<rparr>)"

section \<open>Finalizing a window\<close>

definition RETENTION_CONFIDENCE_MIN :: real where
  "RETENTION_CONFIDENCE_MIN = 1 / 2"

definition SLA_TARGET_HIT_RATE :: real where
  "SLA_TARGET_HIT_RATE = 8 / 10"

definition PEER_FALLBACK_CONFIDENCE_PENALTY :: real where
  "PEER_FALLBACK_CONFIDENCE_PENALTY = 85 / 100"

definition PEER_NOT_MEANINGFUL_CONFIDENCE_PENALTY :: real where
  "PEER_NOT_MEANINGFUL_CONFIDENCE_PENALTY = 7 / 10"

text \<open>\<open>s.split('|')\<close>.\<close>

fun split_bar :: "string \<Rightarrow> string list" where
  "split_bar [] = [[]]"
| "split_bar (c # s) =
     (case split_bar s of
        [] \<Rightarrow> []
      | p # ps \<Rightarrow> if c = CHR ''|'' then [] # p # ps else (c # p) # ps)"

definition fallbackKeys :: "string \<Rightarrow> string list" where
  "fallbackKeys peerGroupKey =
     (let parts = split_bar peerGroupKey;
          position = (case parts of p # _ \<Rightarrow> p | [] \<Rightarrow> []);
          unitId = (case parts of _ # u # _ \<Rightarrow> u | _ \<Rightarrow> [])
      in [peerGroupKey, position @ ''|'' @ unitId, position, ''__GLOBAL__''])"

text \<open>The index of throughputs: one entry per snapshot of the window and level, in the order of the pushes.\<close>

definition throughputByLevel :: "snapshot_row list \<Rightarrow> (string \<times> real) list" where
  "throughputByLevel current =
     concat (map (\<lambda>s. map (\<lambda>key. (key, real_of_int (sn_throughput s))) (fallbackKeys (sn_peerGroupKey s))) current)"

definition peers_at :: "(string \<times> real) list \<Rightarrow> string \<Rightarrow> real list" where
  "peers_at index key = map snd (filter (\<lambda>(k, _). k = key) index)"

text \<open>The ladder: the chosen peers, whether it fell back, whether the group is large enough.\<close>

fun climb :: "(string \<Rightarrow> real list) \<Rightarrow> int \<Rightarrow> nat \<Rightarrow> string list \<Rightarrow> real list \<times> bool \<times> bool \<Rightarrow> real list \<times> bool \<times> bool" where
  "climb peers minSize i [] acc = acc"
| "climb peers minSize i (level # levels) acc =
     (let ps = peers level in
      if int (length ps) \<ge> minSize then (ps, i > 0, True)
      else climb peers minSize (i + 1) levels (ps, i > 0, False))"

definition choose_peers :: "snapshot_row list \<Rightarrow> int \<Rightarrow> string \<Rightarrow> real list \<times> bool \<times> bool" where
  "choose_peers current minSize peerGroupKey =
     climb (peers_at (throughputByLevel current)) minSize 0 (fallbackKeys peerGroupKey) ([], False, False)"

definition slopeToDevelopmentScore :: "real \<Rightarrow> real \<Rightarrow> real" where
  "slopeToDevelopmentScore slope minSlopeForGrowth =
     (let span = (if minSlopeForGrowth > 0 then minSlopeForGrowth else 1 / 2);
          raw = 50 + (slope / span) * 25
      in max 0 (min 100 raw))"

text \<open>The composites of the employee's earlier windows that are not excluded, oldest first.\<close>

definition prior_points :: "snapshot_row list \<Rightarrow> brain_window \<Rightarrow> id \<Rightarrow> real list" where
  "prior_points all w eid =
     List.map_filter sn_compositeScore
       (sort_key sn_windowEnd
         (filter (\<lambda>x. sn_employeeId x = eid \<and> sn_windowEnd x < bw_end w \<and> sn_excludedReason x = None) all))"

definition trend_slope :: "real list \<Rightarrow> int \<Rightarrow> real option" where
  "trend_slope series minValidWindows =
     developmentSlope (map (\<lambda>(t, score). (real t, score)) (zip [0..<length series] series)) minValidWindows"

text \<open>The final composite, slope and confidence of one snapshot of the window.\<close>

definition finalize_values ::
  "perf_fields \<Rightarrow> snapshot_row list \<Rightarrow> snapshot_row list \<Rightarrow> brain_window \<Rightarrow> snapshot_row \<Rightarrow> real option \<times> real option \<times> real"
where
  "finalize_values cfg all current w s =
     (let (peers, fellBack, meaningful) = choose_peers current (pf_minPeerGroupSize cfg) (sn_peerGroupKey s);
          performanceDim = pn_value (normalizeToPeerGroup (real_of_int (sn_throughput s)) peers (pf_minPeerGroupSize cfg));
          timeliness = map_option (\<lambda>x. x * 100) (sn_slaHitRate s);
          quality = map_option (\<lambda>x. (1 - x) * 100) (sn_defectRate s);
          dims = \<lparr>sd_performance = performanceDim, sd_timeliness = timeliness, sd_quality = quality, sd_development = None\<rparr>;
          provisional = compositeScore dims (weights_of cfg);
          priors = prior_points all w (sn_employeeId s);
          series = (case provisional of
                      Some p \<Rightarrow> if sn_excludedReason s = None then priors @ [p] else priors
                    | None \<Rightarrow> priors);
          slope = trend_slope series (pf_minValidWindows cfg);
          developmentDim = map_option (\<lambda>sl. slopeToDevelopmentScore sl (pf_minSlopeForGrowth cfg)) slope;
          finalComposite = compositeScore (dims\<lparr>sd_development := developmentDim\<rparr>) (weights_of cfg);
          conf1 = (if fellBack then sn_confidence s * PEER_FALLBACK_CONFIDENCE_PENALTY else sn_confidence s);
          conf2 = (if \<not> meaningful then conf1 * PEER_NOT_MEANINGFUL_CONFIDENCE_PENALTY else conf1)
      in (finalComposite, slope, conf2))"

definition finalize_patch :: "real option \<times> real option \<times> real \<Rightarrow> snapshot_row \<Rightarrow> snapshot_row" where
  "finalize_patch v x = (case v of (composite, slope, conf) \<Rightarrow> x
     \<lparr>sn_compositeScore := composite, sn_developmentSlope := slope, sn_confidence := conf,
      sn_algorithmVersion := ALGORITHM_VERSION\<rparr>)"

text \<open>
  The \<open>upsert\<close> of the loop. Its create branch lacks required columns, so it would fail; the rows it
  updates were read in the same transaction.
\<close>

definition finalize_write :: "brain_window \<Rightarrow> snapshot_row \<Rightarrow> real option \<times> real option \<times> real \<Rightarrow> unit tx" where
  "finalize_write w s v =
     bnd (updateMany t_snapshots put_snapshots (\<lambda>x. snapshot_key x = (sn_employeeId s, bw_start w, bw_end w)) (finalize_patch v)) (\<lambda>n.
     ensure (n > 0) (PlainError ''employee_performance_snapshot: missing required columns''))"

definition upto_window :: "tenant_db \<Rightarrow> brain_window \<Rightarrow> snapshot_row list" where
  "upto_window db w = sort_key sn_windowEnd (filter (\<lambda>s. sn_windowEnd s \<le> bw_end w) (t_snapshots db))"

definition in_window :: "brain_window \<Rightarrow> snapshot_row \<Rightarrow> bool" where
  "in_window w s \<longleftrightarrow> sn_windowStart s = bw_start w \<and> sn_windowEnd s = bw_end w"

definition finalizeWindow :: "brain_window \<Rightarrow> unit tx" where
  "finalizeWindow w =
     bnd (asks (\<lambda>db. resolve_fields db None)) (\<lambda>cfg.
     bnd (asks (\<lambda>db. upto_window db w)) (\<lambda>all.
     bnd (mapM (\<lambda>s. finalize_write w s (finalize_values cfg all (filter (in_window w) all) w s)) (filter (in_window w) all)) (\<lambda>_.
     ret ())))"

section \<open>Retention\<close>

record retention_result =
  re_employeeId :: id
  re_signal :: retention_signal
  re_factors :: card_factors

definition emitRetention :: "tenant_db \<Rightarrow> brain_window \<Rightarrow> retention_result list" where
  "emitRetention db w =
     (let cfg = resolve_fields db None in
      map (\<lambda>s. \<lparr>re_employeeId = sn_employeeId s,
          re_signal = (case sn_compositeScore s of
             None \<Rightarrow> RET_OBSERWOWAC
           | Some c \<Rightarrow> retentionSignal c (sn_developmentSlope s) (sn_confidence s) (pf_minSlopeForGrowth cfg) RETENTION_CONFIDENCE_MIN),
          re_factors = factors_of s\<rparr>)
        (filter (in_window w) (t_snapshots db)))"

section \<open>Recruitment recommendations\<close>

definition scope_of :: "reco_row \<Rightarrow> reco_scope_type \<times> id" where
  "scope_of r = (rr_scopeType r, rr_scopeId r)"

definition newest_first :: "reco_row list \<Rightarrow> reco_row list" where
  "newest_first rs = sort_key (\<lambda>r. - rr_computedAt r) rs"

definition listRecruitment :: "tenant_db \<Rightarrow> id list option \<Rightarrow> reco_row list" where
  "listRecruitment db scopeIds =
     filter (\<lambda>r. in_scope scopeIds (rr_scopeId r)) (first_per scope_of (newest_first (t_recos db)))"

definition brain_acknowledge :: "int \<Rightarrow> id \<Rightarrow> id \<Rightarrow> reco_row tx" where
  "brain_acknowledge now i userId =
     update_row t_recos put_recos rr_id (P2025 ''recruitment_recommendation'') i
       (\<lambda>r. r\<lparr>rr_acknowledgedByUserId := Some userId, rr_acknowledgedAt := Some now\<rparr>)"

definition currentRecommendation :: "tenant_db \<Rightarrow> reco_scope_type \<times> id \<Rightarrow> reco_row option" where
  "currentRecommendation db scope =
     (case newest_first (filter (\<lambda>r. scope_of r = scope) (t_recos db)) of [] \<Rightarrow> None | r # _ \<Rightarrow> Some r)"

definition average :: "real list \<Rightarrow> real option" where
  "average xs = (if xs = [] then None else Some (foldl (+) 0 xs / real (length xs)))"

definition reco_factors_of :: "brain_env \<Rightarrow> tenant_db \<Rightarrow> id \<Rightarrow> int \<Rightarrow> reco_factors" where
  "reco_factors_of env db scopeId weekStart =
     (let cfg = resolve_fields db None;
          gap = capacityGap env db scopeId weekStart;
          snaps = sort_key (\<lambda>s. - sn_windowEnd s) (filter (\<lambda>s. sn_excludedReason s = None) (t_snapshots db));
          avgDefectRate = average (List.map_filter sn_defectRate snaps);
          avgSlaHitRate = average (List.map_filter sn_slaHitRate snaps)
      in \<lparr>rf_totalGap = cg_totalGap gap, rf_byRole = cg_byRole gap,
          rf_avgDefectRate = avgDefectRate, rf_avgSlaHitRate = avgSlaHitRate,
          rf_defectThreshold = pf_defectThreshold cfg, rf_slaTargetRate = SLA_TARGET_HIT_RATE,
          rf_qualityBelowTarget = (case avgDefectRate of None \<Rightarrow> False | Some a \<Rightarrow> a > pf_defectThreshold cfg),
          rf_timelinessBelowTarget = (case avgSlaHitRate of None \<Rightarrow> False | Some a \<Rightarrow> a < SLA_TARGET_HIT_RATE),
          rf_employeeCount = length snaps, rf_weekStart = weekStart\<rparr>)"

definition verdict_of :: "reco_factors \<Rightarrow> recruitment_verdict" where
  "verdict_of f =
     (if rf_totalGap f > 0 then WZNOW
      else if \<not> (rf_qualityBelowTarget f \<or> rf_timelinessBelowTarget f) then WSTRZYMAJ
      else UTRZYMAJ)"

definition isUnchanged :: "reco_row \<Rightarrow> recruitment_verdict \<Rightarrow> reco_factors \<Rightarrow> bool" where
  "isUnchanged current verdict f \<longleftrightarrow>
     rr_verdict current = verdict \<and> rf_totalGap (rr_factors current) = rf_totalGap f \<and>
     rf_qualityBelowTarget (rr_factors current) = rf_qualityBelowTarget f \<and>
     rf_timelinessBelowTarget (rr_factors current) = rf_timelinessBelowTarget f"

text \<open>The letters with diacritics of the Polish text are written without them.\<close>

definition buildRationale :: "recruitment_verdict \<Rightarrow> reco_factors \<Rightarrow> string" where
  "buildRationale verdict f =
     (if verdict = WZNOW then
        ''Luka kadrowa wg zapotrzebowania grafiku: '' @ show_int (rf_totalGap f) @ ''. Zalecane wznowienie rekrutacji.''
      else if verdict = WSTRZYMAJ then
        ''Obsada pokryta (luka '' @ show_int (rf_totalGap f) @ '') i metryki w normie. Zalecane wstrzymanie rekrutacji.''
      else
        ''Obsada pokryta, ale ponizej celu ('' @
        join_with '' + '' ((if rf_qualityBelowTarget f then [''jakosc''] else []) @
                          (if rf_timelinessBelowTarget f then [''terminowosc''] else [])) @
        ''). Utrzymac stan, poprawic proces bez zwiekszania obsady.'')"

definition new_event :: "int \<Rightarrow> id \<Rightarrow> reco_scope_type \<times> id \<Rightarrow> reco_factors \<Rightarrow> reco_row option \<Rightarrow> reco_row" where
  "new_event now newId scope f current =
     \<lparr>rr_id = newId, rr_scopeType = fst scope, rr_scopeId = snd scope, rr_verdict = verdict_of f,
      rr_rationale = buildRationale (verdict_of f) f, rr_factors = f,
      rr_replaces = map_option rr_id current, rr_computedAt = now,
      rr_acknowledgedByUserId = None, rr_acknowledgedAt = None\<rparr>"

definition emitRecruitment :: "brain_env \<Rightarrow> int \<Rightarrow> id \<Rightarrow> reco_scope_type \<times> id \<Rightarrow> int \<Rightarrow> reco_row tx" where
  "emitRecruitment env now newId scope weekStart =
     bnd (asks (\<lambda>db. reco_factors_of env db (snd scope) weekStart)) (\<lambda>f.
     bnd (asks (\<lambda>db. currentRecommendation db scope)) (\<lambda>current.
     case current of
       Some c \<Rightarrow> if isUnchanged c (verdict_of f) f then ret c
                 else create_row t_recos put_recos (new_event now newId scope f current)
     | None \<Rightarrow> create_row t_recos put_recos (new_event now newId scope f current)))"

end
