(* ===== verification/BrainRun.thy ===== *)
theory BrainRun
  imports Recruitment "HOL-Library.Word"
begin

text \<open>
  The nightly run of the strategic brain, \<open>strategic-brain/strategic-brain.scheduler.ts\<close>, and its HTTP
  surface, \<open>strategic-brain/strategic-brain.controller.ts\<close>. One reading of the clock stands for all
  readings of one run; \<open>ids\<close> gives the new row of an employee or a location its id, and \<open>hash\<close> is SHA-256
  as a list of bytes.
\<close>

section \<open>The analysis of one tenant\<close>

definition WEEK_MS :: int where
  "WEEK_MS = 7 * day_ms"

definition currentWindow :: "int \<Rightarrow> int \<Rightarrow> brain_window" where
  "currentWindow now windowDays =
     (let windowMs = windowDays * day_ms; start = (now div windowMs) * windowMs
      in \<lparr>bw_start = start, bw_end = start + windowMs\<rparr>)"

definition currentWeekStart :: "int \<Rightarrow> int" where
  "currentWeekStart now = (now div WEEK_MS) * WEEK_MS"

text \<open>The three writing passes, each over the list its query returns.\<close>

definition snapshot_pass :: "brain_env \<Rightarrow> (id \<Rightarrow> id) \<Rightarrow> brain_window \<Rightarrow> unit tx" where
  "snapshot_pass env ids w =
     bnd (asks (\<lambda>db. map em_id (t_employees db))) (\<lambda>employees.
     bnd (mapM (\<lambda>e. computeSnapshot env (ids e) e w) employees) (\<lambda>_. ret ()))"

definition recruitment_pass :: "brain_env \<Rightarrow> (id \<Rightarrow> id) \<Rightarrow> int \<Rightarrow> unit tx" where
  "recruitment_pass env ids now =
     bnd (asks (\<lambda>db. map lo_id (t_lokalizacje db))) (\<lambda>locations.
     bnd (mapM (\<lambda>l. emitRecruitment env now (ids l) (RS_LOKALIZACJA, l) (currentWeekStart now)) locations) (\<lambda>_. ret ()))"

definition analyzeTenant :: "brain_env \<Rightarrow> (id \<Rightarrow> id) \<Rightarrow> int \<Rightarrow> unit tx" where
  "analyzeTenant env ids now =
     bnd (asks (\<lambda>db. currentWindow now (pf_windowDays (resolve_fields db None)))) (\<lambda>w.
     bnd (snapshot_pass env ids w) (\<lambda>_.
     bnd (finalizeWindow w) (\<lambda>_.
     bnd (asks (\<lambda>db. emitRetention db w)) (\<lambda>_.
     recruitment_pass env ids now))))"

section \<open>The advisory lock and the batch\<close>

text \<open>\<open>BigInt.asIntN(64, hash.readBigUInt64BE(0))\<close>.\<close>

definition advisoryLockKey :: "(string \<Rightarrow> 8 word list) \<Rightarrow> id \<Rightarrow> int" where
  "advisoryLockKey hash tenantId =
     sint (word_of_int (foldl (\<lambda>a b. a * 256 + uint b) 0 (take 8 (hash tenantId))) :: 64 word)"

text \<open>\<open>held\<close> are the keys other runs hold: the try-lock fails on them, and the tenant is skipped.\<close>

definition runForTenant :: "(string \<Rightarrow> 8 word list) \<Rightarrow> int set \<Rightarrow> brain_env \<Rightarrow> (id \<Rightarrow> id) \<Rightarrow> int \<Rightarrow> id \<Rightarrow> unit tx" where
  "runForTenant hash held env ids now tenantId =
     transaction (
       if advisoryLockKey hash tenantId \<in> held then ret ()
       else analyzeTenant env ids now)"

text \<open>
  The loop over the active tenants of the control plane. \<open>connect\<close> is the error of \<open>withClient\<close> when a
  tenant's client cannot be borrowed; every error of a tenant is logged, and the loop goes on.
\<close>

definition scheduler_step ::
  "(id \<Rightarrow> app_error option) \<Rightarrow> (id \<Rightarrow> unit tx) \<Rightarrow> (id \<Rightarrow> tenant_db) \<times> (id \<times> app_error) list \<Rightarrow> id \<Rightarrow> (id \<Rightarrow> tenant_db) \<times> (id \<times> app_error) list"
where
  "scheduler_step connect body st tenantId =
     (case connect tenantId of
        Some e \<Rightarrow> (fst st, snd st @ [(tenantId, e)])
      | None \<Rightarrow>
          (case body tenantId (fst st tenantId) of
             (Inl e, db') \<Rightarrow> ((fst st)(tenantId := db'), snd st @ [(tenantId, e)])
           | (Inr _, db') \<Rightarrow> ((fst st)(tenantId := db'), snd st)))"

definition scheduler_run ::
  "(id \<Rightarrow> app_error option) \<Rightarrow> (string \<Rightarrow> 8 word list) \<Rightarrow> int set \<Rightarrow> brain_env \<Rightarrow> (id \<Rightarrow> id) \<Rightarrow> int \<Rightarrow> (id \<times> tenant_status) list \<Rightarrow>
    (id \<Rightarrow> tenant_db) \<Rightarrow> (id \<Rightarrow> tenant_db) \<times> (id \<times> app_error) list"
where
  "scheduler_run connect hash held env ids now tenants dbs =
     foldl (scheduler_step connect (runForTenant hash held env ids now)) (dbs, []) (map fst (filter (\<lambda>t. snd t = TS_ACTIVE) tenants))"

section \<open>The HTTP controller\<close>

definition OVERVIEW_ROLES :: "role list" where
  "OVERVIEW_ROLES = [HR, ADMIN_KLIENTA, MANAGER]"

definition SELF_ROLES :: "role list" where
  "SELF_ROLES = [MANAGER, HR, ADMIN_KLIENTA, PRACOWNIK]"

definition BRAIN_ADMIN_ROLES :: "role list" where
  "BRAIN_ADMIN_ROLES = [HR, ADMIN_KLIENTA]"

definition resolveScope :: "tenant_db \<Rightarrow> actor \<Rightarrow> id list option" where
  "resolveScope db act = (if isGlobal (act_roles act) then None else Some (managedUnitIds db (act_userId act)))"

datatype brain_request =
  BrOverview
| BrMe
| BrEmployee id
| BrRecruitment
| BrAcknowledge int id
| BrGetConfig "id option"
| BrPatchConfig id perf_input

datatype brain_reply =
  BaOverview "heat_cell list" "reco_row list"
| BaCard employee_card
| BaRecruitment "reco_row list"
| BaReco reco_row
| BaConfig perf_config_row

definition brain_roles :: "brain_request \<Rightarrow> role list" where
  "brain_roles req =
     (case req of
        BrMe \<Rightarrow> SELF_ROLES
      | BrAcknowledge _ _ \<Rightarrow> BRAIN_ADMIN_ROLES
      | BrGetConfig _ \<Rightarrow> BRAIN_ADMIN_ROLES
      | BrPatchConfig _ _ \<Rightarrow> BRAIN_ADMIN_ROLES
      | _ \<Rightarrow> OVERVIEW_ROLES)"

definition acknowledge_handler :: "actor \<Rightarrow> int \<Rightarrow> id \<Rightarrow> reco_row tx" where
  "acknowledge_handler act now i =
     bnd (brain_acknowledge now i (act_userId act)) (\<lambda>updated.
     bnd (audit_log (act_userId act) ''strategic-brain.recruitment.acknowledge'' ''RecruitmentRecommendation'' i
            (JObj [(''recommendationId'', JStr i)]) (act_ipAddress act)) (\<lambda>_.
     ret updated))"

fun brain_body :: "brain_env \<Rightarrow> actor \<Rightarrow> brain_request \<Rightarrow> brain_reply tx" where
  "brain_body env act BrOverview =
     bnd (asks (\<lambda>db. resolveScope db act)) (\<lambda>scope.
     asks (\<lambda>db. BaOverview (brain_overview db scope) (listRecruitment db scope)))"
| "brain_body env act BrMe = bnd (employeeCardByKeycloakSub (act_userId act)) (\<lambda>c. ret (BaCard c))"
| "brain_body env act (BrEmployee i) =
     bnd (asks (\<lambda>db. resolveScope db act)) (\<lambda>scope.
     bnd (employeeCard i scope) (\<lambda>c. ret (BaCard c)))"
| "brain_body env act BrRecruitment =
     bnd (asks (\<lambda>db. resolveScope db act)) (\<lambda>scope.
     asks (\<lambda>db. BaRecruitment (listRecruitment db scope)))"
| "brain_body env act (BrAcknowledge now i) = bnd (acknowledge_handler act now i) (\<lambda>r. ret (BaReco r))"
| "brain_body env act (BrGetConfig u) = bnd (getEffectiveConfig u) (\<lambda>c. ret (BaConfig c))"
| "brain_body env act (BrPatchConfig newId dto) =
     bnd (ensure (perf_dto_valid dto) (BadRequestException ''Validation failed'')) (\<lambda>_.
     bnd (perf_upsertConfig (be_number env) newId dto) (\<lambda>c. ret (BaConfig c)))"

definition brain_handle :: "brain_env \<Rightarrow> actor \<Rightarrow> brain_request \<Rightarrow> brain_reply tx" where
  "brain_handle env act req = guarded (brain_roles req) act (brain_body env act req)"

end
