(* ===== verification/BrainSpec.thy ===== *)
theory BrainSpec
  imports BrainRun ScoringProps
begin

text \<open>
  The nightly run as a function of the tables: what each of its three passes leaves behind. The properties
  of the run in the later theories rest on these equations instead of on its loops.
\<close>

section \<open>Keys\<close>

text \<open>The primary and unique keys of the tables, and the foreign key of the snapshots.\<close>

definition brain_keys :: "tenant_db \<Rightarrow> bool" where
  "brain_keys db \<longleftrightarrow> distinct (map em_id (t_employees db)) \<and> distinct (map snapshot_key (t_snapshots db)) \<and>
     (\<forall>s \<in> set (t_snapshots db). sn_employeeId s \<in> em_id ` set (t_employees db))"

section \<open>The snapshot of an employee\<close>

definition scored_row :: "brain_env \<Rightarrow> tenant_db \<Rightarrow> brain_window \<Rightarrow> employee_row \<Rightarrow> snapshot_row" where
  "scored_row env db w e =
     snapshot_data env (resolve_fields db (Some (em_unitId e))) e w
       (int (length (done_orders (window_orders db (em_id e) w)))) (window_leaves db (em_id e) w)
       (raw_input env e (window_orders db (em_id e) w) (window_complaints db (em_id e) w))"

lemma raw_input_allowed [simp]: "buildScoringInput (raw_input env e orders complaints) = Inr (raw_input env e orders complaints)"
  by (rule buildScoringInput_ok) (simp add: raw_input_def Let_def isAllowedKey_def ALLOWED_KEYS_def)

lemma scored_row_simps [simp]:
  "sn_employeeId (scored_row env db w e) = em_id e" "sn_windowStart (scored_row env db w e) = bw_start w"
  "sn_windowEnd (scored_row env db w e) = bw_end w" "snapshot_key (scored_row env db w e) = (em_id e, bw_start w, bw_end w)"
  by (simp_all add: scored_row_def snapshot_data_def snapshot_key_def Let_def)

text \<open>A snapshot reads no snapshot and no recommendation.\<close>

lemma perf_row_put [simp]:
  "perf_row (put_snapshots rs db) u = perf_row db u" "perf_row (put_recos qs db) u = perf_row db u"
  by (simp_all add: perf_row_def)

lemma resolve_fields_put [simp]:
  "resolve_fields (put_snapshots rs db) u = resolve_fields db u" "resolve_fields (put_recos qs db) u = resolve_fields db u"
  by (cases u; simp add: resolve_fields_def effective_config_def Let_def)+

lemma scored_row_put [simp]:
  "scored_row env (put_snapshots rs db) w e = scored_row env db w e"
  "scored_row env (put_recos qs db) w e = scored_row env db w e"
  by (simp_all add: scored_row_def window_orders_def window_complaints_def window_leaves_def)

definition upsert_rows :: "id \<Rightarrow> snapshot_row \<Rightarrow> snapshot_row list \<Rightarrow> snapshot_row list" where
  "upsert_rows newId data rs =
     (if snapshot_key data \<in> snapshot_key ` set rs
      then update_rows (\<lambda>x. snapshot_key x = snapshot_key data) (\<lambda>x. data\<lparr>sn_id := sn_id x\<rparr>) rs
      else rs @ [data\<lparr>sn_id := newId\<rparr>])"

lemma snapshot_upsert_rows: "\<exists>y. snapshot_upsert newId data db = (Inr y, put_snapshots (upsert_rows newId data (t_snapshots db)) db)"
proof (cases "find (\<lambda>s. snapshot_key s = snapshot_key data) (t_snapshots db)")
  case None
  then have "snapshot_key data \<notin> snapshot_key ` set (t_snapshots db)" by (force simp: find_None_iff)
  with None show ?thesis by (simp add: snapshot_upsert_def upsert_rows_def)
next
  case (Some s)
  then have "s \<in> set (t_snapshots db)" "snapshot_key s = snapshot_key data" by (auto dest: find_SomeD)
  then have "snapshot_key data \<in> snapshot_key ` set (t_snapshots db)" by (auto intro: rev_image_eqI)
  with Some show ?thesis by (simp add: snapshot_upsert_def upsert_rows_def)
qed

lemma computeSnapshot_rows:
  assumes "findEmployee db i = Some e"
  shows "\<exists>y. computeSnapshot env newId i w (put_snapshots rs db) =
    (Inr y, put_snapshots (upsert_rows newId (scored_row env db w e) rs) db)"
proof -
  from assms have "em_id e = i" by (auto simp: findEmployee_def dest: find_row_SomeD)
  with assms snapshot_upsert_rows [of newId "scored_row env db w e" "put_snapshots rs db"] show ?thesis
    by (simp add: computeSnapshot_def scored_row_def findEmployee_def window_orders_def window_complaints_def window_leaves_def)
qed

section \<open>The snapshot pass\<close>

text \<open>The rows after the pass over the employees \<open>es\<close>: one fresh row each, the rows of other windows untouched.\<close>

definition pass_rows :: "brain_env \<Rightarrow> (id \<Rightarrow> id) \<Rightarrow> tenant_db \<Rightarrow> brain_window \<Rightarrow> employee_row list \<Rightarrow> snapshot_row list \<Rightarrow> snapshot_row list" where
  "pass_rows env ids db w es rs = foldl (\<lambda>rs e. upsert_rows (ids (em_id e)) (scored_row env db w e) rs) rs es"

lemma mapM_map: "mapM f (map h xs) = mapM (\<lambda>x. f (h x)) xs"
  by (induction xs) simp_all

lemma snapshot_pass_rows:
  assumes "distinct (map em_id (t_employees db))"
  shows "snapshot_pass env ids w db = (Inr (), put_snapshots (pass_rows env ids db w (t_employees db) (t_snapshots db)) db)"
proof -
  have "\<exists>ys. mapM (\<lambda>e. computeSnapshot env (ids (em_id e)) (em_id e) w) (t_employees db) (put_snapshots (t_snapshots db) db) =
      (Inr ys, put_snapshots (pass_rows env ids db w (t_employees db) (t_snapshots db)) db)"
    unfolding pass_rows_def
  proof (rule mapM_puts [where P = "\<lambda>_. True"])
    fix e rs
    assume "e \<in> set (t_employees db)"
    with assms have "findEmployee db (em_id e) = Some e" by (simp add: findEmployee_def find_row_in)
    then show "(\<exists>y. computeSnapshot env (ids (em_id e)) (em_id e) w (put_snapshots rs db) =
        (Inr y, put_snapshots (upsert_rows (ids (em_id e)) (scored_row env db w e) rs) db)) \<and> True"
      by (simp add: computeSnapshot_rows)
  qed simp
  then show ?thesis by (auto simp: snapshot_pass_def mapM_map bnd_def)
qed

lemma in_window_key: "in_window w s \<longleftrightarrow> snapshot_key s = (sn_employeeId s, bw_start w, bw_end w)"
  by (auto simp: in_window_def snapshot_key_def)

lemma upsert_rows_keys:
  assumes "distinct (map snapshot_key rs)"
  shows "distinct (map snapshot_key (upsert_rows newId data rs))"
    "snapshot_key ` set (upsert_rows newId data rs) = insert (snapshot_key data) (snapshot_key ` set rs)"
proof -
  have "snapshot_key (data\<lparr>sn_id := i\<rparr>) = snapshot_key data" for i by (simp add: snapshot_key_def)
  moreover then have "map snapshot_key (update_rows (\<lambda>x. snapshot_key x = snapshot_key data) (\<lambda>x. data\<lparr>sn_id := sn_id x\<rparr>) rs) =
      map snapshot_key rs"
    by (intro map_update_rows) simp
  ultimately show "distinct (map snapshot_key (upsert_rows newId data rs))"
    "snapshot_key ` set (upsert_rows newId data rs) = insert (snapshot_key data) (snapshot_key ` set rs)"
    using assms by (auto simp: upsert_rows_def simp flip: set_map)
qed

text \<open>What is in the table after the pass.\<close>

definition window_key :: "brain_window \<Rightarrow> employee_row \<Rightarrow> id \<times> int \<times> int" where
  "window_key w e = (em_id e, bw_start w, bw_end w)"

lemma pass_rows_keys:
  assumes "distinct (map snapshot_key rs)"
  shows "distinct (map snapshot_key (pass_rows env ids db w es rs))"
    "snapshot_key ` set (pass_rows env ids db w es rs) = window_key w ` set es \<union> snapshot_key ` set rs"
  using assms
proof (induction es arbitrary: rs)
  case (Cons e es)
  {
    case 1
    with Cons.IH(1) [OF upsert_rows_keys(1)] show ?case by (simp add: pass_rows_def)
  next
    case 2
    with Cons.IH(2) [OF upsert_rows_keys(1)] show ?case
      by (auto simp: pass_rows_def upsert_rows_keys(2) window_key_def)
  }
qed (simp_all add: pass_rows_def)

lemma upsert_rows_in:
  "s \<in> set (upsert_rows newId data rs) \<longleftrightarrow>
     s \<in> set rs \<and> snapshot_key s \<noteq> snapshot_key data \<or>
     (\<exists>x \<in> set rs. snapshot_key x = snapshot_key data \<and> s = data\<lparr>sn_id := sn_id x\<rparr>) \<or>
     snapshot_key data \<notin> snapshot_key ` set rs \<and> s = data\<lparr>sn_id := newId\<rparr>"
  by (cases "snapshot_key data \<in> snapshot_key ` set rs") (auto simp: upsert_rows_def set_update_rows image_iff)

text \<open>A row of the pass is fresh for its employee, or an old row of no employee of the pass in this window.\<close>

lemma pass_rows_in:
  assumes "s \<in> set (pass_rows env ids db w es rs)" and "distinct (map em_id es)"
  shows "(\<exists>e \<in> set es. s = (scored_row env db w e)\<lparr>sn_id := sn_id s\<rparr>) \<or> s \<in> set rs \<and> snapshot_key s \<notin> window_key w ` set es"
  using assms
proof (induction es arbitrary: rs)
  case (Cons e es)
  let ?rs = "upsert_rows (ids (em_id e)) (scored_row env db w e) rs"
  from Cons.prems have "s \<in> set (pass_rows env ids db w es ?rs)" by (simp add: pass_rows_def)
  with Cons.IH Cons.prems consider (fresh) "\<exists>e \<in> set es. s = (scored_row env db w e)\<lparr>sn_id := sn_id s\<rparr>"
    | (old) "s \<in> set ?rs" "snapshot_key s \<notin> window_key w ` set es" by auto
  then show ?case
  proof cases
    case old
    from old(1) show ?thesis unfolding upsert_rows_in using old(2) by (auto simp: window_key_def)
  qed auto
qed (simp add: pass_rows_def)

text \<open>The pass again over rows that already hold every employee's window: each row is recomputed in place.\<close>

lemma pass_rows_again:
  assumes dist: "distinct (map snapshot_key rs)" and es: "distinct (map em_id es)"
    and all: "window_key w ` set es \<subseteq> snapshot_key ` set rs"
  shows "pass_rows env ids db w es rs =
    map (\<lambda>s. case find (\<lambda>e. window_key w e = snapshot_key s) es of
        None \<Rightarrow> s | Some e \<Rightarrow> (scored_row env db w e)\<lparr>sn_id := sn_id s\<rparr>) rs"
  using assms
proof (induction es arbitrary: rs)
  case (Cons e es)
  let ?upd = "\<lambda>s :: snapshot_row. (scored_row env db w e)\<lparr>sn_id := sn_id s\<rparr>"
  have rs': "upsert_rows (ids (em_id e)) (scored_row env db w e) rs = map (\<lambda>s. if snapshot_key s = window_key w e then ?upd s else s) rs"
    using Cons.prems(3) by (auto simp: upsert_rows_def update_rows_def window_key_def)
  let ?rs = "map (\<lambda>s. if snapshot_key s = window_key w e then ?upd s else s) rs"
  have key: "snapshot_key (?upd s) = window_key w e" for s
    by (simp add: snapshot_key_def window_key_def)
  then have keys: "map snapshot_key ?rs = map snapshot_key rs" by simp
  have none: "find (\<lambda>e'. window_key w e' = window_key w e) es = None"
    using Cons.prems(2) by (auto simp: find_None_iff window_key_def image_iff)
  have "pass_rows env ids db w (e # es) rs = pass_rows env ids db w es ?rs"
    by (simp add: pass_rows_def flip: rs')
  also have "\<dots> = map (\<lambda>s. case find (\<lambda>e. window_key w e = snapshot_key s) es of
        None \<Rightarrow> s | Some e \<Rightarrow> (scored_row env db w e)\<lparr>sn_id := sn_id s\<rparr>) ?rs"
  proof (rule Cons.IH)
    show "distinct (map snapshot_key ?rs)" using Cons.prems(1) keys by metis
    show "window_key w ` set es \<subseteq> snapshot_key ` set ?rs"
    proof -
      from keys have "set (map snapshot_key ?rs) = set (map snapshot_key rs)" by (rule arg_cong)
      then have "snapshot_key ` set ?rs = snapshot_key ` set rs" by (simp only: set_map)
      with Cons.prems(3) show ?thesis by (simp only:) simp
    qed
  qed (use Cons.prems in simp)
  finally show ?case by (auto simp: comp_def none key intro!: map_cong)
qed (simp add: pass_rows_def)

section \<open>The finalization\<close>

definition finalized_row :: "perf_fields \<Rightarrow> snapshot_row list \<Rightarrow> brain_window \<Rightarrow> snapshot_row \<Rightarrow> snapshot_row" where
  "finalized_row cfg all w s =
     (if in_window w s then finalize_patch (finalize_values cfg all (filter (in_window w) all) w s) s else s)"

lemma finalize_patch_simps [simp]:
  "snapshot_key (finalize_patch v x) = snapshot_key x" "sn_id (finalize_patch v x) = sn_id x"
  "in_window w (finalize_patch v x) = in_window w x" "sn_employeeId (finalize_patch v x) = sn_employeeId x"
  "sn_windowEnd (finalize_patch v x) = sn_windowEnd x"
  by (auto simp: finalize_patch_def snapshot_key_def in_window_def split: prod.splits)

text \<open>Writing one value per key, key by key, is one pass over the table.\<close>

lemma foldl_update_rows:
  assumes "distinct (map key ks)" and "\<And>k x. key (h k x) = key x"
  shows "foldl (\<lambda>rs k. update_rows (\<lambda>x. key x = key k) (h k) rs) rs ks =
    map (\<lambda>x. case find (\<lambda>k. key k = key x) ks of None \<Rightarrow> x | Some k \<Rightarrow> h k x) rs"
  using assms(1)
proof (induction ks arbitrary: rs)
  case (Cons k ks)
  have none: "find (\<lambda>k'. key k' = key k) ks = None"
    using Cons.prems by (auto simp: find_None_iff image_iff)
  have "(case find (\<lambda>k'. key k' = key (if key x = key k then h k x else x)) ks of None \<Rightarrow> (if key x = key k then h k x else x)
      | Some k' \<Rightarrow> h k' (if key x = key k then h k x else x)) =
      (case find (\<lambda>k. key k = key x) (k # ks) of None \<Rightarrow> x | Some k' \<Rightarrow> h k' x)" for x
    using none assms(2) by auto
  then show ?case using Cons by (simp add: update_rows_def comp_def)
qed simp

lemma in_upto_window: "s \<in> set (upto_window db w) \<longleftrightarrow> s \<in> set (t_snapshots db) \<and> sn_windowEnd s \<le> bw_end w"
  by (simp add: upto_window_def)

lemma distinct_sort_key_map: "distinct (map g (sort_key f xs)) \<longleftrightarrow> distinct (map g xs)"
  by (simp add: distinct_map)

lemma finalizeWindow_rows:
  assumes keys: "distinct (map snapshot_key (t_snapshots db))"
  shows "finalizeWindow w db =
    (Inr (), put_snapshots (map (finalized_row (resolve_fields db None) (upto_window db w) w) (t_snapshots db)) db)"
proof -
  let ?cfg = "resolve_fields db None" and ?all = "upto_window db w"
  let ?cur = "filter (in_window w) ?all"
  let ?h = "\<lambda>s. finalize_patch (finalize_values ?cfg ?all ?cur w s)"
  let ?P = "\<lambda>rs. map snapshot_key rs = map snapshot_key (t_snapshots db)"
  have cur: "s \<in> set ?cur \<longleftrightarrow> s \<in> set (t_snapshots db) \<and> in_window w s" for s
    by (auto simp: in_upto_window in_window_def)
  have dist: "distinct (map snapshot_key ?cur)"
    using keys by (simp add: upto_window_def distinct_sort_key_map filter_sort distinct_map_filter)
  have "\<exists>ys. mapM (\<lambda>s. finalize_write w s (finalize_values ?cfg ?all ?cur w s)) ?cur (put_snapshots (t_snapshots db) db) =
    (Inr ys, put_snapshots (foldl (\<lambda>rs s. update_rows (\<lambda>x. snapshot_key x = snapshot_key s) (?h s) rs) (t_snapshots db) ?cur) db)"
  proof (rule mapM_puts [where P = ?P])
    fix s rs
    assume s: "s \<in> set ?cur" and P: "?P rs"
    then have "snapshot_key s \<in> snapshot_key ` set rs" using cur by (metis imageI set_map)
    then have "0 < count_rows (\<lambda>x. snapshot_key x = snapshot_key s) rs"
      by (metis (mono_tags, lifting) count_rows_0_iff gr0I imageE)
    moreover from s have "(sn_employeeId s, bw_start w, bw_end w) = snapshot_key s" by (simp add: in_window_key)
    ultimately show "(\<exists>y. finalize_write w s (finalize_values ?cfg ?all ?cur w s) (put_snapshots rs db) =
        (Inr y, put_snapshots (update_rows (\<lambda>x. snapshot_key x = snapshot_key s) (?h s) rs) db)) \<and>
        ?P (update_rows (\<lambda>x. snapshot_key x = snapshot_key s) (?h s) rs)"
      using P by (simp add: finalize_write_def map_update_rows)
  qed simp
  moreover have "foldl (\<lambda>rs s. update_rows (\<lambda>x. snapshot_key x = snapshot_key s) (?h s) rs) (t_snapshots db) ?cur =
      map (finalized_row ?cfg ?all w) (t_snapshots db)"
  proof -
    have "(case find (\<lambda>k. snapshot_key k = snapshot_key x) ?cur of None \<Rightarrow> x | Some k \<Rightarrow> ?h k x) = finalized_row ?cfg ?all w x"
      if x: "x \<in> set (t_snapshots db)" for x
    proof (cases "find (\<lambda>k. snapshot_key k = snapshot_key x) ?cur")
      case None
      with x cur have "\<not> in_window w x" by (auto simp: find_None_iff)
      with None show ?thesis by (simp add: finalized_row_def)
    next
      case (Some k)
      have k: "k \<in> set ?cur" "snapshot_key k = snapshot_key x" using find_SomeD [OF Some] by auto
      then have k': "k \<in> set (t_snapshots db)" "in_window w k" by (simp_all only: cur)
      from keys have "inj_on snapshot_key (set (t_snapshots db))" by (simp add: distinct_map)
      from inj_onD [OF this k(2) k'(1) x] have "k = x" .
      with Some k'(2) show ?thesis by (simp only: finalized_row_def option.case if_True)
    qed
    then show ?thesis by (simp add: foldl_update_rows [OF dist])
  qed
  ultimately show ?thesis by (auto simp: finalizeWindow_def bnd_def)
qed

section \<open>The recruitment pass\<close>

definition head_reco :: "reco_row list \<Rightarrow> reco_scope_type \<times> id \<Rightarrow> reco_row option" where
  "head_reco rs scope = (case newest_first (filter (\<lambda>r. scope_of r = scope) rs) of [] \<Rightarrow> None | r # _ \<Rightarrow> Some r)"

definition emit_rows :: "int \<Rightarrow> id \<Rightarrow> reco_factors \<Rightarrow> reco_scope_type \<times> id \<Rightarrow> reco_row list \<Rightarrow> reco_row list" where
  "emit_rows now newId f scope rs =
     (if \<exists>c. head_reco rs scope = Some c \<and> isUnchanged c (verdict_of f) f then rs
      else rs @ [new_event now newId scope f (head_reco rs scope)])"

definition reco_rows ::
  "int \<Rightarrow> (id \<Rightarrow> id) \<Rightarrow> (id \<Rightarrow> reco_factors) \<Rightarrow> id list \<Rightarrow> reco_row list \<Rightarrow> reco_row list"
where
  "reco_rows now ids f ls rs = foldl (\<lambda>rs l. emit_rows now (ids l) (f l) (RS_LOKALIZACJA, l) rs) rs ls"

lemma reco_factors_put [simp]: "reco_factors_of env (put_recos qs db) l wk = reco_factors_of env db l wk"
proof -
  have entry: "gap_entry (put_recos qs db) = gap_entry db"
    by (intro ext) (simp add: gap_entry_def demand_shifts_def)
  have "capacityGap env (put_recos qs db) l wk = capacityGap env db l wk"
    by (simp add: capacityGap_def gap_demands_def entry)
  then show ?thesis by (simp add: reco_factors_of_def Let_def)
qed

lemma emitRecruitment_rows:
  "\<exists>y. emitRecruitment env now i scope wk (put_recos rs db) =
    (Inr y, put_recos (emit_rows now i (reco_factors_of env db (snd scope) wk) scope rs) db)"
proof -
  have "currentRecommendation (put_recos rs db) scope = head_reco rs scope"
    by (simp add: currentRecommendation_def head_reco_def)
  then show ?thesis
    by (cases "head_reco rs scope") (simp_all add: emitRecruitment_def emit_rows_def)
qed

abbreviation factors_at :: "brain_env \<Rightarrow> tenant_db \<Rightarrow> int \<Rightarrow> id \<Rightarrow> reco_factors" where
  "factors_at env db now \<equiv> (\<lambda>l. reco_factors_of env db l (currentWeekStart now))"

lemma recruitment_pass_rows:
  "recruitment_pass env ids now db =
    (Inr (), put_recos (reco_rows now ids (factors_at env db now) (map lo_id (t_lokalizacje db)) (t_recos db)) db)"
proof -
  have "\<exists>ys. mapM (\<lambda>l. emitRecruitment env now (ids l) (RS_LOKALIZACJA, l) (currentWeekStart now)) ls (put_recos (t_recos db) db) =
      (Inr ys, put_recos (reco_rows now ids (factors_at env db now) ls (t_recos db)) db)" for ls
    unfolding reco_rows_def
    by (rule mapM_puts [where P = "\<lambda>_. True"])
      (use emitRecruitment_rows [of env now _ "(RS_LOKALIZACJA, _)"] in auto)
  from this [of "map lo_id (t_lokalizacje db)"] show ?thesis
    by (auto simp: recruitment_pass_def bnd_def)
qed

section \<open>The whole analysis\<close>

definition run_window :: "tenant_db \<Rightarrow> int \<Rightarrow> brain_window" where
  "run_window db now = currentWindow now (pf_windowDays (resolve_fields db None))"

definition run_scored :: "brain_env \<Rightarrow> (id \<Rightarrow> id) \<Rightarrow> int \<Rightarrow> tenant_db \<Rightarrow> snapshot_row list" where
  "run_scored env ids now db = pass_rows env ids db (run_window db now) (t_employees db) (t_snapshots db)"

definition fin_rows :: "perf_fields \<Rightarrow> brain_window \<Rightarrow> snapshot_row list \<Rightarrow> snapshot_row list" where
  "fin_rows cfg w rs = map (finalized_row cfg (sort_key sn_windowEnd (filter (\<lambda>s. sn_windowEnd s \<le> bw_end w) rs)) w) rs"

definition run_snapshots :: "brain_env \<Rightarrow> (id \<Rightarrow> id) \<Rightarrow> int \<Rightarrow> tenant_db \<Rightarrow> snapshot_row list" where
  "run_snapshots env ids now db = fin_rows (resolve_fields db None) (run_window db now) (run_scored env ids now db)"

definition run_recos :: "brain_env \<Rightarrow> (id \<Rightarrow> id) \<Rightarrow> int \<Rightarrow> tenant_db \<Rightarrow> reco_row list" where
  "run_recos env ids now db =
     reco_rows now ids (factors_at env (put_snapshots (run_snapshots env ids now db) db) now)
       (map lo_id (t_lokalizacje db)) (t_recos db)"

definition analysis :: "brain_env \<Rightarrow> (id \<Rightarrow> id) \<Rightarrow> int \<Rightarrow> tenant_db \<Rightarrow> tenant_db" where
  "analysis env ids now db = put_recos (run_recos env ids now db) (put_snapshots (run_snapshots env ids now db) db)"

lemma brain_keysD:
  assumes "brain_keys db"
  shows "distinct (map em_id (t_employees db))" "distinct (map snapshot_key (t_snapshots db))"
    "\<And>s. s \<in> set (t_snapshots db) \<Longrightarrow> sn_employeeId s \<in> em_id ` set (t_employees db)"
  using assms by (simp_all add: brain_keys_def)

theorem analyzeTenant_rows:
  assumes "brain_keys db"
  shows "analyzeTenant env ids now db = (Inr (), analysis env ids now db)"
proof -
  note keys = brain_keysD [OF assms]
  let ?w = "run_window db now"
  let ?db1 = "put_snapshots (run_scored env ids now db) db"
  have "distinct (map snapshot_key (t_snapshots ?db1))"
    using pass_rows_keys(1) [OF keys(2)] by (simp add: run_scored_def)
  from finalizeWindow_rows [OF this, of ?w]
  have "finalizeWindow ?w ?db1 = (Inr (), put_snapshots (run_snapshots env ids now db) db)"
    by (simp add: run_snapshots_def fin_rows_def upto_window_def)
  moreover have "snapshot_pass env ids ?w db = (Inr (), ?db1)"
    using snapshot_pass_rows [OF keys(1)] by (simp add: run_scored_def)
  ultimately show ?thesis
    by (simp add: analyzeTenant_def bnd_eq_Inr recruitment_pass_rows analysis_def run_recos_def flip: run_window_def)
qed

text \<open>The rows the run leaves: the same keys, and what a row of the window consists of.\<close>

lemma finalized_row_simps [simp]:
  "snapshot_key (finalized_row cfg all w s) = snapshot_key s" "sn_id (finalized_row cfg all w s) = sn_id s"
  "sn_employeeId (finalized_row cfg all w s) = sn_employeeId s"
  by (simp_all add: finalized_row_def)

lemma fin_rows_keys [simp]: "map snapshot_key (fin_rows cfg w rs) = map snapshot_key rs"
  by (simp add: fin_rows_def)

lemma analysis_keys:
  assumes "brain_keys db"
  shows "brain_keys (analysis env ids now db)"
    "snapshot_key ` set (run_snapshots env ids now db) =
       window_key (run_window db now) ` set (t_employees db) \<union> snapshot_key ` set (t_snapshots db)"
proof -
  note keys = brain_keysD [OF assms]
  have ks: "snapshot_key ` set (run_snapshots env ids now db) = snapshot_key ` set (run_scored env ids now db)"
    by (metis fin_rows_keys run_snapshots_def set_map)
  also have "\<dots> = window_key (run_window db now) ` set (t_employees db) \<union> snapshot_key ` set (t_snapshots db)"
    unfolding run_scored_def by (rule pass_rows_keys(2) [OF keys(2)])
  finally show eq: "snapshot_key ` set (run_snapshots env ids now db) =
       window_key (run_window db now) ` set (t_employees db) \<union> snapshot_key ` set (t_snapshots db)" .
  have "sn_employeeId s \<in> em_id ` set (t_employees db)" if "s \<in> set (run_snapshots env ids now db)" for s
  proof -
    from that eq have "snapshot_key s \<in> window_key (run_window db now) ` set (t_employees db) \<union> snapshot_key ` set (t_snapshots db)"
      by blast
    with keys(3) show ?thesis by (auto simp: window_key_def snapshot_key_def)
  qed
  moreover have "distinct (map snapshot_key (run_snapshots env ids now db))"
    using pass_rows_keys(1) [OF keys(2)] by (simp add: run_snapshots_def run_scored_def)
  ultimately show "brain_keys (analysis env ids now db)"
    using keys(1) by (simp add: brain_keys_def analysis_def)
qed

end
