(* ===== verification/BrainOnce.thy ===== *)
theory BrainOnce
  imports BrainSpec Samples
begin

text \<open>
  The nightly run is idempotent within a scoring window and week.
\<close>

section \<open>The newest recommendation\<close>

lemma insort_key_smaller: "\<forall>y \<in> set ys. k x < k y \<Longrightarrow> insort_key k x ys = x # ys"
  by (cases ys) auto

lemma sort_key_new_minimum:
  "\<forall>y \<in> set ys. k x < k y \<Longrightarrow> sort_key k (ys @ [x]) = x # sort_key k ys"
proof (induction ys)
  case (Cons y ys)
  then show ?case by (auto simp: not_le)
qed simp

lemma scope_new_event [simp]: "scope_of (new_event now i scope f c) = scope"
  by (simp add: scope_of_def new_event_def)

lemma head_reco_new:
  assumes "\<forall>r \<in> set rs. scope_of r = scope_of e \<longrightarrow> rr_computedAt r < rr_computedAt e"
  shows "head_reco (rs @ [e]) (scope_of e) = Some e"
proof -
  have "newest_first (filter (\<lambda>r. scope_of r = scope_of e) rs @ [e]) = e # newest_first (filter (\<lambda>r. scope_of r = scope_of e) rs)"
    unfolding newest_first_def by (rule sort_key_new_minimum) (use assms in auto)
  then show ?thesis by (simp add: head_reco_def)
qed

lemma head_reco_other: "scope_of e \<noteq> scope \<Longrightarrow> head_reco (rs @ [e]) scope = head_reco rs scope"
  by (simp add: head_reco_def)

lemma head_reco_in: "head_reco rs scope = Some c \<Longrightarrow> c \<in> set rs \<and> scope_of c = scope"
proof -
  assume "head_reco rs scope = Some c"
  then have "c \<in> set (newest_first (filter (\<lambda>r. scope_of r = scope) rs))"
    by (auto simp: head_reco_def split: list.splits)
  then show ?thesis by (simp add: newest_first_def)
qed

section \<open>A second recruitment pass\<close>

text \<open>Nothing new is to be said of a location; nothing of it was said at this instant or later.\<close>

definition settled :: "(id \<Rightarrow> reco_factors) \<Rightarrow> reco_row list \<Rightarrow> id \<Rightarrow> bool" where
  "settled f rs l \<longleftrightarrow> (\<exists>c. head_reco rs (RS_LOKALIZACJA, l) = Some c \<and> isUnchanged c (verdict_of (f l)) (f l))"

definition quiet :: "int \<Rightarrow> reco_row list \<Rightarrow> id \<Rightarrow> bool" where
  "quiet now rs l \<longleftrightarrow> (\<forall>r \<in> set rs. scope_of r = (RS_LOKALIZACJA, l) \<longrightarrow> rr_computedAt r < now)"

lemma emit_settled: "settled f rs l \<Longrightarrow> emit_rows now i (f l) (RS_LOKALIZACJA, l) rs = rs"
  by (simp add: emit_rows_def settled_def)

lemma isUnchanged_new: "isUnchanged (new_event now i scope f c) (verdict_of f) f"
  by (simp add: isUnchanged_def new_event_def)

lemma emit_settles:
  assumes "settled f rs l \<or> quiet now rs l"
  shows "settled f (emit_rows now i (f l) (RS_LOKALIZACJA, l) rs) l"
proof (cases "settled f rs l")
  case False
  let ?e = "new_event now i (RS_LOKALIZACJA, l) (f l) (head_reco rs (RS_LOKALIZACJA, l))"
  from False assms have "\<forall>r \<in> set rs. scope_of r = scope_of ?e \<longrightarrow> rr_computedAt r < rr_computedAt ?e"
    by (simp add: quiet_def new_event_def scope_of_def)
  from head_reco_new [OF this] have "head_reco (rs @ [?e]) (RS_LOKALIZACJA, l) = Some ?e" by simp
  with False isUnchanged_new show ?thesis by (auto simp: emit_rows_def settled_def)
qed (simp add: emit_settled)

lemma emit_other:
  assumes "l' \<noteq> l"
  shows "settled f (emit_rows now i g (RS_LOKALIZACJA, l) rs) l' = settled f rs l'"
    "quiet now' (emit_rows now i g (RS_LOKALIZACJA, l) rs) l' = quiet now' rs l'"
  using assms by (auto simp: emit_rows_def settled_def quiet_def head_reco_other)

lemma reco_rows_keeps_settled: "settled f rs l \<Longrightarrow> settled f (reco_rows now ids f ls rs) l"
proof (induction ls arbitrary: rs)
  case (Cons l' ls)
  have "settled f (emit_rows now (ids l') (f l') (RS_LOKALIZACJA, l') rs) l"
    using Cons.prems by (cases "l' = l") (simp_all add: emit_settled emit_other)
  with Cons.IH show ?case by (simp add: reco_rows_def)
qed (simp add: reco_rows_def)

lemma reco_rows_settles:
  "\<forall>l \<in> set ls. settled f rs l \<or> quiet now rs l \<Longrightarrow> \<forall>l \<in> set ls. settled f (reco_rows now ids f ls rs) l"
proof (induction ls arbitrary: rs)
  case (Cons l ls)
  let ?rs = "emit_rows now (ids l) (f l) (RS_LOKALIZACJA, l) rs"
  have step: "reco_rows now ids f (l # ls) rs = reco_rows now ids f ls ?rs" by (simp add: reco_rows_def)
  have l: "settled f ?rs l" using Cons.prems by (intro emit_settles) simp
  have "\<forall>l' \<in> set ls. settled f ?rs l' \<or> quiet now ?rs l'"
  proof
    fix l'
    assume "l' \<in> set ls"
    with Cons.prems l show "settled f ?rs l' \<or> quiet now ?rs l'" by (cases "l' = l") (auto simp: emit_other)
  qed
  from Cons.IH [OF this] reco_rows_keeps_settled [OF l] show ?case unfolding step by auto
qed simp

lemma reco_rows_noop: "\<forall>l \<in> set ls. settled f rs l \<Longrightarrow> reco_rows now ids f ls rs = rs"
  by (induction ls arbitrary: rs) (simp_all add: reco_rows_def emit_settled)

section \<open>A second snapshot pass\<close>

lemma window_key_of: "snapshot_key s = window_key w e \<Longrightarrow> in_window w s"
  by (auto simp: snapshot_key_def window_key_def in_window_def)

lemma rescored:
  assumes keys: "brain_keys db" and s: "s \<in> set (run_scored env ids now db)"
  shows "(case find (\<lambda>e. window_key (run_window db now) e = snapshot_key s) (t_employees db) of
      None \<Rightarrow> finalized_row cfg all (run_window db now) s
    | Some e \<Rightarrow> (scored_row env db (run_window db now) e)\<lparr>sn_id := sn_id s\<rparr>) = s"
proof -
  note k = brain_keysD [OF keys]
  let ?w = "run_window db now"
  from s k(1) consider (fresh) e where "e \<in> set (t_employees db)" "s = (scored_row env db ?w e)\<lparr>sn_id := sn_id s\<rparr>"
    | (old) "s \<in> set (t_snapshots db)" "snapshot_key s \<notin> window_key ?w ` set (t_employees db)"
    unfolding run_scored_def using pass_rows_in by blast
  then show ?thesis
  proof cases
    case fresh
    have "snapshot_key ((scored_row env db ?w e)\<lparr>sn_id := sn_id s\<rparr>) = window_key ?w e"
      by (simp add: snapshot_key_def window_key_def)
    then have key: "snapshot_key s = window_key ?w e" using fresh(2) by metis
    have "find (\<lambda>e'. window_key ?w e' = snapshot_key s) (t_employees db) = find_row em_id (em_id e) (t_employees db)"
      by (simp add: key window_key_def find_row_def)
    also have "\<dots> = Some e" using k(1) fresh(1) by (rule find_row_in)
    finally show ?thesis using fresh(2) by simp
  next
    case old
    then have none: "find (\<lambda>e. window_key ?w e = snapshot_key s) (t_employees db) = None"
      by (simp add: find_None_iff) (metis imageI)
    have "\<not> in_window ?w s"
    proof
      assume "in_window ?w s"
      then have "snapshot_key s = (sn_employeeId s, bw_start ?w, bw_end ?w)" by (simp add: in_window_key)
      moreover from k(3) [OF old(1)] obtain e where e: "e \<in> set (t_employees db)" "em_id e = sn_employeeId s" by auto
      ultimately have "snapshot_key s = window_key ?w e" by (simp add: window_key_def)
      with old(2) e(1) show False by blast
    qed
    with none show ?thesis by (simp add: finalized_row_def)
  qed
qed

lemma pass_over_finalized:
  assumes keys: "brain_keys db"
  shows "pass_rows env ids' db (run_window db now) (t_employees db) (run_snapshots env ids now db) = run_scored env ids now db"
proof -
  note k = brain_keysD [OF keys]
  let ?w = "run_window db now" and ?rs = "run_scored env ids now db"
  let ?all = "sort_key sn_windowEnd (filter (\<lambda>s. sn_windowEnd s \<le> bw_end ?w) ?rs)"
  let ?fin = "finalized_row (resolve_fields db None) ?all ?w"
  have rs: "run_snapshots env ids now db = map ?fin ?rs" by (simp add: run_snapshots_def fin_rows_def)
  have "pass_rows env ids' db ?w (t_employees db) (run_snapshots env ids now db) =
      map (\<lambda>s. case find (\<lambda>e. window_key ?w e = snapshot_key s) (t_employees db) of
        None \<Rightarrow> s | Some e \<Rightarrow> (scored_row env db ?w e)\<lparr>sn_id := sn_id s\<rparr>) (run_snapshots env ids now db)"
    by (rule pass_rows_again)
      (use analysis_keys [OF keys, of env ids now] k(1) in \<open>simp_all add: brain_keys_def analysis_def\<close>)
  also have "\<dots> = map (\<lambda>s. case find (\<lambda>e. window_key ?w e = snapshot_key s) (t_employees db) of
        None \<Rightarrow> ?fin s | Some e \<Rightarrow> (scored_row env db ?w e)\<lparr>sn_id := sn_id s\<rparr>) ?rs"
    unfolding rs by (simp add: comp_def cong: option.case_cong)
  also have "\<dots> = ?rs"
    by (rule map_idI) (rule rescored [OF keys])
  finally show ?thesis .
qed

text \<open>The parts of the database the run reads beside its own two tables.\<close>

lemma run_window_put [simp]:
  "run_window (put_snapshots rs db) now = run_window db now" "run_window (put_recos qs db) now = run_window db now"
  by (simp_all add: run_window_def)

lemma pass_rows_put [simp]:
  "pass_rows env ids (put_snapshots rs db) w es ss = pass_rows env ids db w es ss"
  "pass_rows env ids (put_recos qs db) w es ss = pass_rows env ids db w es ss"
  by (simp_all add: pass_rows_def)

lemma run_snapshots_again:
  assumes keys: "brain_keys db" and w: "run_window db now' = run_window db now"
  shows "run_snapshots env ids' now' (analysis env ids now db) = run_snapshots env ids now db"
proof -
  have "run_scored env ids' now' (analysis env ids now db) = run_scored env ids now db"
    using pass_over_finalized [OF keys, of env ids' now ids] w by (simp add: run_scored_def analysis_def)
  with w show ?thesis by (simp add: run_snapshots_def analysis_def)
qed

text \<open>
  C26. A nightly run within the same period changes nothing: run again with the clock still in the same scoring window
  and the same week, whatever the new ids would be, the analysis of a tenant succeeds and leaves the database,
  snapshots and recommendations included, exactly as the first run left it. (The first run's instant is later than
  every recommendation before it.)
\<close>

theorem analyze_idempotent:
  assumes keys: "brain_keys db" and clock: "\<forall>r \<in> set (t_recos db). rr_computedAt r < now"
    and window: "run_window db now' = run_window db now" and week: "currentWeekStart now' = currentWeekStart now"
  shows "\<exists>db'. analyzeTenant env ids now db = (Inr (), db') \<and> analyzeTenant env ids' now' db' = (Inr (), db')"
proof -
  let ?db1 = "analysis env ids now db"
  let ?f = "factors_at env (put_snapshots (run_snapshots env ids now db) db) now"
  let ?ls = "map lo_id (t_lokalizacje db)"
  have snaps: "run_snapshots env ids' now' ?db1 = run_snapshots env ids now db"
    by (rule run_snapshots_again [OF keys window])
  have settled: "\<forall>l \<in> set ?ls. settled ?f (run_recos env ids now db) l"
    unfolding run_recos_def by (rule reco_rows_settles) (use clock in \<open>auto simp: quiet_def\<close>)
  have same: "put_snapshots (run_snapshots env ids now db) ?db1 = ?db1" by (simp add: analysis_def)
  have f: "factors_at env ?db1 now = ?f" unfolding analysis_def by (simp only: reco_factors_put)
  have tables: "t_lokalizacje ?db1 = t_lokalizacje db" "t_recos ?db1 = run_recos env ids now db" by (simp_all add: analysis_def)
  have "run_recos env ids' now' ?db1 = reco_rows now' ids' ?f ?ls (run_recos env ids now db)"
    unfolding run_recos_def [of env ids' now'] snaps week same f tables ..
  also have "\<dots> = run_recos env ids now db" by (rule reco_rows_noop [OF settled])
  finally have recos: "run_recos env ids' now' ?db1 = run_recos env ids now db" .
  have "analysis env ids' now' ?db1 = ?db1"
    unfolding analysis_def [of env ids' now'] snaps recos by (simp add: analysis_def)
  with analyzeTenant_rows [OF keys] analyzeTenant_rows [OF analysis_keys(1) [OF keys]] show ?thesis by auto
qed

end
