(* ===== verification/BrainProps.thy ===== *)
theory BrainProps
  imports BrainOnce
begin

text \<open>
  Properties of the strategic brain: whatever is run or requested, the stored numbers stay in their ranges.
\<close>

section \<open>The ranges of the stored numbers\<close>

definition snapshot_ok :: "snapshot_row \<Rightarrow> bool" where
  "snapshot_ok s \<longleftrightarrow>
     0 \<le> sn_throughput s \<and> 0 \<le> sn_confidence s \<and> sn_confidence s \<le> 1 \<and>
     (sn_slaHitRate s = None \<longleftrightarrow> sn_throughput s = 0) \<and> (sn_defectRate s = None \<longleftrightarrow> sn_throughput s = 0) \<and>
     (\<forall>x. sn_slaHitRate s = Some x \<longrightarrow> 0 \<le> x \<and> x \<le> 1) \<and>
     (\<forall>x. sn_defectRate s = Some x \<longrightarrow> 0 \<le> x) \<and>
     (\<forall>c. sn_compositeScore s = Some c \<longrightarrow> c \<le> 100 \<and> ((\<forall>d. sn_defectRate s = Some d \<longrightarrow> d \<le> 1) \<longrightarrow> 0 \<le> c)) \<and>
     sn_excludedReason s \<in> {None, Some ''L4'', Some ''URLOP'', Some ''ONBOARDING''}"

definition brain_ok :: "tenant_db \<Rightarrow> bool" where
  "brain_ok db \<longleftrightarrow> brain_keys db \<and> perf_ok db \<and> (\<forall>s \<in> set (t_snapshots db). snapshot_ok s)"

lemma weights_of_nonneg: "fields_ok c \<Longrightarrow> nonneg_weights (weights_of c)"
  by (simp add: fields_ok_def nonneg_weights_def weights_of_def)

lemma mapLeave_range: "mapLeaveTypeToExclusion ty \<in> {None, Some ''L4'', Some ''URLOP''}"
  by (auto simp: mapLeaveTypeToExclusion_def LEAVE_TYPE_EXCLUSION_MAP_def)

lemma deriveExclusion_range: "deriveExclusion leaves h w d \<in> {None, Some ''L4'', Some ''URLOP'', Some ''ONBOARDING''}"
proof (cases "List.map_filter (\<lambda>l. mapLeaveTypeToExclusion (lv_type l)) leaves")
  case (Cons category rest)
  then have "category \<in> set (List.map_filter (\<lambda>l. mapLeaveTypeToExclusion (lv_type l)) leaves)" by simp
  then obtain l :: leave_row where "mapLeaveTypeToExclusion (lv_type l) = Some category" by (auto simp: List.map_filter_def)
  with mapLeave_range [of "lv_type l"] Cons show ?thesis by (auto simp: deriveExclusion_def)
qed (auto simp: deriveExclusion_def Let_def)

text \<open>The composite of a timeliness and a quality on the scale of 100, beside two dimensions in range.\<close>

lemma composite_range:
  assumes c: "compositeScore \<lparr>sd_performance = p, sd_timeliness = map_option (\<lambda>x. x * 100) sla,
      sd_quality = map_option (\<lambda>x. (1 - x) * 100) defect, sd_development = v\<rparr> (weights_of cfg) = Some c"
    and cfg: "fields_ok cfg" and sla: "\<And>x. sla = Some x \<Longrightarrow> 0 \<le> x \<and> x \<le> 1" and defect: "\<And>x. defect = Some x \<Longrightarrow> 0 \<le> x"
    and pv: "\<And>x. Some x \<in> {p, v} \<Longrightarrow> 0 \<le> x \<and> x \<le> 100"
  shows "c \<le> 100 \<and> ((\<forall>d. defect = Some d \<longrightarrow> d \<le> 1) \<longrightarrow> 0 \<le> c)"
proof (intro conjI impI)
  note le = compositeScore_le [OF c weights_of_nonneg [OF cfg]] and ge = compositeScore_ge [OF c weights_of_nonneg [OF cfg]]
  show "c \<le> 100"
    by (rule le) (use sla defect pv in \<open>cases sla; cases defect; auto simp: dim_values_def\<close>)
  assume "\<forall>d. defect = Some d \<longrightarrow> d \<le> 1"
  then show "0 \<le> c"
    by (intro ge) (use sla pv in \<open>cases sla; cases defect; auto simp: dim_values_def\<close>)
qed

lemma input_lookups:
  "input_num (raw_input env e os cs) ''slaHits'' = int (length (filter (\<lambda>(o', t). t \<le> wo_dueAt o') (done_orders os)))"
  "input_num (raw_input env e os cs) ''complaintCount'' = int (length cs)"
  "input_num (raw_input env e os cs) ''completedCount'' = int (length (done_orders os))"
  by (simp_all add: input_num_def raw_input_def Let_def)

lemma scored_ok:
  assumes cfg: "perf_ok db"
  shows "snapshot_ok ((scored_row env db w e)\<lparr>sn_id := i\<rparr>)"
proof -
  let ?s = "scored_row env db w e" and ?os = "window_orders db (em_id e) w" and ?cs = "window_complaints db (em_id e) w"
  let ?n = "int (length (done_orders ?os))"
  let ?hits = "int (length (filter (\<lambda>(o', t). t \<le> wo_dueAt o') (done_orders ?os)))"
  let ?cfg = "resolve_fields db (Some (em_unitId e))"
  have sla: "sn_slaHitRate ?s = (if ?n > 0 then Some (real_of_int ?hits / real_of_int ?n) else None)"
    and defect: "sn_defectRate ?s = defectRate (int (length ?cs)) ?n"
    and n: "sn_throughput ?s = ?n"
    and conf: "0 \<le> sn_confidence ?s" "sn_confidence ?s \<le> 1"
    and excluded: "sn_excludedReason ?s \<in> {None, Some ''L4'', Some ''URLOP'', Some ''ONBOARDING''}"
    using deriveExclusion_range by (simp_all add: scored_row_def snapshot_data_def Let_def input_lookups)
  have composite: "sn_compositeScore ?s = compositeScore \<lparr>sd_performance = None, sd_timeliness = map_option (\<lambda>x. x * 100) (sn_slaHitRate ?s),
      sd_quality = map_option (\<lambda>x. (1 - x) * 100) (sn_defectRate ?s), sd_development = None\<rparr> (weights_of ?cfg)"
    by (simp add: scored_row_def snapshot_data_def Let_def)
  have "?hits \<le> ?n" by simp
  then have sla_range: "0 \<le> x \<and> x \<le> 1" if "sn_slaHitRate ?s = Some x" for x
    using that unfolding sla by (auto split: if_splits simp: divide_le_eq)
  have defect_range: "0 \<le> x" if "sn_defectRate ?s = Some x" for x
    using that unfolding defect by (rule defectRate_nonneg) simp
  have nones: "sn_slaHitRate ?s = None \<longleftrightarrow> ?n = 0" "sn_defectRate ?s = None \<longleftrightarrow> ?n = 0"
    unfolding sla defect by (auto simp: defectRate_def split: if_splits)
  have "fields_ok ?cfg" using effective_config_ok [OF cfg] by (simp add: resolve_fields_def)
  then have "c \<le> 100 \<and> ((\<forall>d. sn_defectRate ?s = Some d \<longrightarrow> d \<le> 1) \<longrightarrow> 0 \<le> c)" if "sn_compositeScore ?s = Some c" for c
    by (rule composite_range [OF that [unfolded composite]]) (use sla_range defect_range in auto)
  with sla_range defect_range nones conf excluded show ?thesis
    unfolding snapshot_ok_def by (simp add: n)
qed

lemma slope_score_range: "0 \<le> slopeToDevelopmentScore s m" "slopeToDevelopmentScore s m \<le> 100"
  by (simp_all add: slopeToDevelopmentScore_def Let_def)

text \<open>What the finalization writes into a row that is in range.\<close>

lemma finalize_values_range:
  assumes s: "snapshot_ok s" and cfg: "fields_ok cfg" and v: "finalize_values cfg all current w s = (composite, slope, conf)"
  shows "0 \<le> conf \<and> conf \<le> 1 \<and>
    (\<forall>c. composite = Some c \<longrightarrow> c \<le> 100 \<and> ((\<forall>d. sn_defectRate s = Some d \<longrightarrow> d \<le> 1) \<longrightarrow> 0 \<le> c))"
proof -
  obtain peers fellBack meaningful where ladder: "choose_peers current (pf_minPeerGroupSize cfg) (sn_peerGroupKey s) = (peers, fellBack, meaningful)"
    by (metis prod.exhaust)
  let ?p = "pn_value (normalizeToPeerGroup (real_of_int (sn_throughput s)) peers (pf_minPeerGroupSize cfg))"
  let ?v = "\<lambda>sl. map_option (\<lambda>sl. slopeToDevelopmentScore sl (pf_minSlopeForGrowth cfg)) sl"
  let ?A = "\<lambda>sl. compositeScore \<lparr>sd_performance = ?p, sd_timeliness = map_option (\<lambda>x. x * 100) (sn_slaHitRate s),
       sd_quality = map_option (\<lambda>x. (1 - x) * 100) (sn_defectRate s), sd_development = ?v sl\<rparr> (weights_of cfg)"
  let ?C = "if \<not> meaningful then (if fellBack then sn_confidence s * PEER_FALLBACK_CONFIDENCE_PENALTY else sn_confidence s)
        * PEER_NOT_MEANINGFUL_CONFIDENCE_PENALTY
     else if fellBack then sn_confidence s * PEER_FALLBACK_CONFIDENCE_PENALTY else sn_confidence s"
  have "\<exists>sl. finalize_values cfg all current w s = (?A sl, sl, ?C)"
    unfolding finalize_values_def ladder Let_def prod.case score_dims.update_convs by (rule exI) (rule refl)
  then obtain sl where "finalize_values cfg all current w s = (?A sl, sl, ?C)" ..
  then have "(composite, slope, conf) = (?A sl, sl, ?C)" by (rule trans [OF v [symmetric]])
  then have composite: "composite = ?A sl" and conf: "conf = ?C" by (simp_all only: prod.inject)
  have pv: "0 \<le> x \<and> x \<le> 100" if "Some x \<in> {?p, ?v sl}" for x
  proof -
    from that consider "?p = Some x" | y where "x = slopeToDevelopmentScore y (pf_minSlopeForGrowth cfg)"
      by (cases sl) auto
    then show ?thesis by cases (auto simp: slope_score_range dest: percentile_bounds)
  qed
  have "c \<le> 100 \<and> ((\<forall>d. sn_defectRate s = Some d \<longrightarrow> d \<le> 1) \<longrightarrow> 0 \<le> c)" if "composite = Some c" for c
    by (rule composite_range [OF that [unfolded composite] cfg _ _ pv]) (use s in \<open>auto simp: snapshot_ok_def\<close>)
  moreover have "0 \<le> conf \<and> conf \<le> 1"
  proof -
    from s have s01: "0 \<le> sn_confidence s" "sn_confidence s \<le> 1" by (simp_all add: snapshot_ok_def)
    then show ?thesis
      by (auto simp: conf PEER_FALLBACK_CONFIDENCE_PENALTY_def PEER_NOT_MEANINGFUL_CONFIDENCE_PENALTY_def)
  qed
  ultimately show ?thesis by blast
qed

lemma finalized_ok:
  assumes "snapshot_ok s" "fields_ok cfg"
  shows "snapshot_ok (finalized_row cfg all w s)"
proof -
  obtain composite slope conf where v: "finalize_values cfg all (filter (in_window w) all) w s = (composite, slope, conf)"
    by (metis prod.exhaust)
  from finalize_values_range [OF assms v] assms(1) show ?thesis
    by (simp add: finalized_row_def finalize_patch_def v snapshot_ok_def)
qed

lemma analysis_ok:
  assumes "brain_ok db"
  shows "brain_ok (analysis env ids now db)"
proof -
  from assms have keys: "brain_keys db" and perf: "perf_ok db" and ok: "\<forall>s \<in> set (t_snapshots db). snapshot_ok s"
    by (simp_all add: brain_ok_def)
  have "snapshot_ok s" if s: "s \<in> set (run_scored env ids now db)" for s
  proof -
    from pass_rows_in [OF s [unfolded run_scored_def] brain_keysD(1) [OF keys]] ok show ?thesis
      using scored_ok [OF perf] by metis
  qed
  moreover have "fields_ok (resolve_fields db None)" using effective_config_ok [OF perf] by (simp add: resolve_fields_def)
  ultimately have "\<forall>s \<in> set (run_snapshots env ids now db). snapshot_ok s"
    by (auto simp: run_snapshots_def fin_rows_def intro: finalized_ok)
  moreover have "perf_ok (analysis env ids now db)" using perf by (simp add: analysis_def perf_ok_def)
  ultimately show ?thesis
    using analysis_keys(1) [OF keys] by (simp add: brain_ok_def analysis_def)
qed

text \<open>A request writes configurations, acknowledgements and audit rows only.\<close>

lemma perf_write_frame:
  assumes frame: "\<And>rs db. F (put_perfConfigs rs db) = F db"
  shows "F (snd (perf_write newId before d db)) = F db"
  using frame
  by (auto simp: perf_write_def perf_update_def perf_create_def catch_def svc_defs find_row_def
      split: option.splits prod.splits sum.splits if_splits)

lemma brain_handle_ok:
  assumes "brain_ok db"
  shows "brain_ok (snd (brain_handle env act req db))"
proof -
  have reco: "brain_ok (put_recos rs db) = brain_ok db" for rs and db :: tenant_db
    by (simp add: brain_ok_def brain_keys_def perf_ok_def)
  have audit: "brain_ok (db\<lparr>t_audit := a\<rparr>) = brain_ok db" for a and db :: tenant_db
    by (simp add: brain_ok_def brain_keys_def perf_ok_def)
  have "brain_ok (snd (brain_body env act req db))"
  proof (cases req)
    case (BrPatchConfig newId dto)
    have "brain_ok (snd (perf_upsertConfig (be_number env) newId dto db))" if valid: "perf_dto_valid dto"
    proof -
      let ?db' = "snd (perf_upsertConfig (be_number env) newId dto db)"
      have "perf_ok ?db'" using config_stays_normalized [OF _ valid] assms by (simp add: brain_ok_def)
      moreover have "t_snapshots ?db' = t_snapshots db" "t_employees ?db' = t_employees db"
        using perf_write_frame [of t_snapshots] perf_write_frame [of t_employees]
        by (simp_all add: perf_upsertConfig_def split: sum.split)
      ultimately show ?thesis using assms by (simp add: brain_ok_def brain_keys_def)
    qed
    with BrPatchConfig assms show ?thesis
      by (auto simp: bnd_def split: prod.splits sum.splits)
  qed (use assms in \<open>auto simp: employeeCardByKeycloakSub_def employeeCard_def acknowledge_handler_def brain_acknowledge_def
      audit_log_def getEffectiveConfig_def bnd_assoc reco audit split: option.splits\<close>)
  with assms show ?thesis by (auto simp: brain_handle_def guarded_def split: sum.splits)
qed

text \<open>
  C27. The stored numbers keep their types: in a tenant whose configurations are normalized and whose snapshots are in
  range, a nightly run succeeds, and after it and after every request of the strategic brain there is one snapshot per
  employee and window, confidences and hit rates lie between 0 and 1, no composite score exceeds 100, and none is
  negative while there are no more complaints than completed orders.
\<close>

theorem brain_keeps_types:
  assumes "brain_ok db"
  shows "(\<exists>db'. analyzeTenant env ids now db = (Inr (), db') \<and> brain_ok db') \<and> brain_ok (snd (brain_handle env act req db))"
proof -
  from assms have "brain_keys db" by (simp add: brain_ok_def)
  from analyzeTenant_rows [OF this] analysis_ok [OF assms] brain_handle_ok [OF assms] show ?thesis by auto
qed

end
