(* ===== verification/BrainHistory.thy ===== *)
theory BrainHistory
  imports BrainProps
begin

text \<open>
  The recommendations as an append-only history, the run's blindness to personal data, the isolation of the
  tenants in the nightly batch, and the capacity gap as demand less staffing.
\<close>

section \<open>The history of recommendations\<close>

text \<open>Each event replaces the one before it.\<close>

fun chain_from :: "id option \<Rightarrow> reco_row list \<Rightarrow> bool" where
  "chain_from p [] = True"
| "chain_from p (r # rs) = (rr_replaces r = p \<and> chain_from (Some (rr_id r)) rs)"

definition history_ok :: "reco_row list \<Rightarrow> bool" where
  "history_ok rs \<longleftrightarrow> (\<forall>scope.
     chain_from None (filter (\<lambda>r. scope_of r = scope) rs) \<and>
     sorted_wrt (\<lambda>r r'. rr_computedAt r < rr_computedAt r') (filter (\<lambda>r. scope_of r = scope) rs))"

lemma history_okD:
  assumes "history_ok rs"
  shows "chain_from None (filter (\<lambda>r. scope_of r = scope) rs)"
    "sorted_wrt (\<lambda>r r'. rr_computedAt r < rr_computedAt r') (filter (\<lambda>r. scope_of r = scope) rs)"
  using assms unfolding history_ok_def by blast+

lemma chain_from_snoc:
  "chain_from p (rs @ [r]) \<longleftrightarrow> chain_from p rs \<and> rr_replaces r = (if rs = [] then p else Some (rr_id (last rs)))"
  by (induction rs arbitrary: p) auto

text \<open>In a strictly increasing history the newest event is the last one.\<close>

lemma newest_is_last:
  assumes "sorted_wrt (\<lambda>r r'. rr_computedAt r < rr_computedAt r') rs" and "rs \<noteq> []"
  shows "\<exists>rest. newest_first rs = last rs # rest"
  using assms
proof (induction rs rule: rev_induct)
  case (snoc r rs)
  from snoc.prems(1) have "\<forall>y \<in> set rs. - rr_computedAt r < - rr_computedAt y"
    by (auto simp: sorted_wrt_append)
  from sort_key_new_minimum [where k = "\<lambda>r. - rr_computedAt r", OF this] show ?case
    by (simp add: newest_first_def)
qed simp

lemma head_reco_last:
  assumes "history_ok rs"
  shows "head_reco rs scope =
    (let own = filter (\<lambda>r. scope_of r = scope) rs in if own = [] then None else Some (last own))"
proof (cases "filter (\<lambda>r. scope_of r = scope) rs = []")
  case False
  from newest_is_last [OF history_okD(2) [OF assms] False] False show ?thesis by (auto simp: head_reco_def Let_def)
qed (simp add: head_reco_def newest_first_def)

text \<open>One emission: nothing, or one event that replaces the newest of its scope.\<close>

lemma emit_history:
  assumes h: "history_ok rs" and clock: "\<forall>r \<in> set rs. scope_of r = scope \<longrightarrow> rr_computedAt r < now"
  shows "history_ok (emit_rows now i f scope rs)"
proof (cases "\<exists>c. head_reco rs scope = Some c \<and> isUnchanged c (verdict_of f) f")
  case False
  let ?e = "new_event now i scope f (head_reco rs scope)"
  have "chain_from None (filter (\<lambda>r. scope_of r = s) (rs @ [?e])) \<and>
      sorted_wrt (\<lambda>r r'. rr_computedAt r < rr_computedAt r') (filter (\<lambda>r. scope_of r = s) (rs @ [?e]))" for s
  proof (cases "s = scope")
    case True
    let ?own = "filter (\<lambda>r. scope_of r = scope) rs"
    have "rr_replaces ?e = (if ?own = [] then None else Some (rr_id (last ?own)))"
      by (simp add: new_event_def head_reco_last [OF h] Let_def)
    with history_okD [OF h, of scope] clock True show ?thesis
      by (auto simp: chain_from_snoc sorted_wrt_append new_event_def)
  qed (use history_okD [OF h, of s] in simp)
  then have "history_ok (rs @ [?e])" by (simp only: history_ok_def) blast
  with False show ?thesis by (simp only: emit_rows_def if_False)
qed (use h in \<open>simp add: emit_rows_def\<close>)

lemma emit_appends: "\<exists>new. emit_rows now i f scope rs = rs @ new \<and> (\<forall>r \<in> set new. scope_of r = scope \<and> rr_computedAt r = now)"
  by (auto simp: emit_rows_def new_event_def scope_of_def)

text \<open>A scope is fresh while nothing was said of it at this instant; the pass visits distinct scopes.\<close>

lemma reco_rows_history:
  assumes "history_ok rs" and "distinct ls" and "\<forall>l \<in> set ls. quiet now rs l"
  shows "history_ok (reco_rows now ids f ls rs) \<and>
    (\<exists>new. reco_rows now ids f ls rs = rs @ new \<and> (\<forall>r \<in> set new. rr_computedAt r = now))"
  using assms
proof (induction ls arbitrary: rs)
  case (Cons l ls)
  let ?rs = "emit_rows now (ids l) (f l) (RS_LOKALIZACJA, l) rs"
  have "history_ok ?rs" using Cons.prems by (intro emit_history) (auto simp: quiet_def)
  moreover have "\<forall>l' \<in> set ls. quiet now ?rs l'"
  proof
    fix l'
    assume l': "l' \<in> set ls"
    with Cons.prems(2) have "l' \<noteq> l" by auto
    with l' Cons.prems(3) show "quiet now ?rs l'" by (simp add: emit_other)
  qed
  ultimately have "history_ok (reco_rows now ids f ls ?rs) \<and>
      (\<exists>new. reco_rows now ids f ls ?rs = ?rs @ new \<and> (\<forall>r \<in> set new. rr_computedAt r = now))"
    using Cons.IH Cons.prems(2) by simp
  moreover have "reco_rows now ids f (l # ls) rs = reco_rows now ids f ls ?rs" by (simp add: reco_rows_def)
  moreover obtain new where "?rs = rs @ new" "\<forall>r \<in> set new. rr_computedAt r = now"
    using emit_appends [of now "ids l" "f l" "(RS_LOKALIZACJA, l)" rs] by blast
  ultimately show ?case by auto
qed (simp add: reco_rows_def)

text \<open>An acknowledgement stamps a row; the event in it stays.\<close>

definition reco_event :: "reco_row \<Rightarrow> reco_row" where
  "reco_event r = r\<lparr>rr_acknowledgedByUserId := None, rr_acknowledgedAt := None\<rparr>"

lemma reco_event_simps:
  "scope_of (reco_event r) = scope_of r" "rr_computedAt (reco_event r) = rr_computedAt r"
  "rr_id (reco_event r) = rr_id r" "rr_replaces (reco_event r) = rr_replaces r"
  by (simp_all add: reco_event_def scope_of_def)

lemma brain_handle_events:
  "map reco_event (t_recos (snd (brain_handle env act req db))) = map reco_event (t_recos db)"
proof -
  have stamp: "map reco_event (update_rows P (\<lambda>r. r\<lparr>rr_acknowledgedByUserId := x, rr_acknowledgedAt := y\<rparr>) rs) = map reco_event rs"
    for P x y rs
    by (rule map_update_rows) (simp add: reco_event_def)
  have config: "t_recos (snd (perf_upsertConfig (be_number env) newId dto db)) = t_recos db" for newId dto
    using perf_write_frame [of t_recos] by (simp add: perf_upsertConfig_def split: sum.split)
  have "map reco_event (t_recos (snd (brain_body env act req db))) = map reco_event (t_recos db)"
  proof (cases req)
    case (BrPatchConfig newId dto)
    with config [of newId dto] show ?thesis by (auto simp: bnd_def split: prod.splits sum.splits)
  qed (auto simp: employeeCardByKeycloakSub_def employeeCard_def acknowledge_handler_def brain_acknowledge_def
      audit_log_def getEffectiveConfig_def bnd_assoc stamp split: option.splits)
  then show ?thesis by (auto simp: brain_handle_def guarded_def split: sum.splits)
qed

lemma history_events: "map reco_event rs = map reco_event rs' \<Longrightarrow> history_ok rs \<Longrightarrow> history_ok rs'"
proof -
  have chain: "chain_from p (map reco_event rs) = chain_from p rs" for p rs
    by (induction rs arbitrary: p) (auto simp: reco_event_simps)
  have own: "filter (\<lambda>r. scope_of r = scope) (map reco_event rs) = map reco_event (filter (\<lambda>r. scope_of r = scope) rs)" for scope rs
    by (simp add: filter_map comp_def reco_event_simps)
  have "history_ok (map reco_event rs) = history_ok rs" for rs
    by (simp add: history_ok_def own chain sorted_wrt_map reco_event_simps)
  then show "map reco_event rs = map reco_event rs' \<Longrightarrow> history_ok rs \<Longrightarrow> history_ok rs'" by metis
qed

text \<open>
  C29. The recommendations are an immutable history: a nightly run only appends events, each replacing the newest event
  of its own location, so that every scope stays one chain in the order of time; and a request changes no event, not
  even the acknowledgement that stamps it.
\<close>

theorem recommendations_append_only:
  assumes keys: "brain_keys db" and lok: "distinct (map lo_id (t_lokalizacje db))" and h: "history_ok (t_recos db)"
    and clock: "\<forall>r \<in> set (t_recos db). rr_computedAt r < now"
  shows "(\<exists>db' new. analyzeTenant env ids now db = (Inr (), db') \<and> t_recos db' = t_recos db @ new \<and> history_ok (t_recos db')) \<and>
    map reco_event (t_recos (snd (brain_handle env act req db))) = map reco_event (t_recos db) \<and>
    history_ok (t_recos (snd (brain_handle env act req db)))"
proof -
  have "\<forall>l \<in> set (map lo_id (t_lokalizacje db)). quiet now (t_recos db) l" using clock by (simp add: quiet_def)
  from reco_rows_history [OF h lok this] obtain new where "history_ok (run_recos env ids now db)" "run_recos env ids now db = t_recos db @ new"
    unfolding run_recos_def by metis
  with analyzeTenant_rows [OF keys, of env ids now]
  have "\<exists>db' new. analyzeTenant env ids now db = (Inr (), db') \<and> t_recos db' = t_recos db @ new \<and> history_ok (t_recos db')"
    by (auto simp: analysis_def)
  with brain_handle_events [of env act req db] history_events [OF brain_handle_events [symmetric] h] show ?thesis by blast
qed

section \<open>Personal data\<close>

text \<open>
  A pseudonymization changes whatever it likes of an employee but the key, the unit, the position, the working
  time and the date of hire: names, contact, identity numbers, address, home coordinates, preferences,
  qualifications, the form of employment, the linked login.
\<close>

definition pseudonymization :: "(employee_row \<Rightarrow> employee_row) \<Rightarrow> bool" where
  "pseudonymization f \<longleftrightarrow> (\<forall>e. em_id (f e) = em_id e \<and> em_unitId (f e) = em_unitId e \<and> em_position (f e) = em_position e \<and>
     em_etat (f e) = em_etat e \<and> em_hiredAt (f e) = em_hiredAt e)"

lemma resolve_fields_employees [simp]: "resolve_fields (put_employees es db) u = resolve_fields db u"
proof -
  have "perf_row (put_employees es db) = perf_row db" by (intro ext) (simp add: perf_row_def)
  then show ?thesis by (cases u) (simp_all add: resolve_fields_def effective_config_def Let_def)
qed

lemma scored_row_blind:
  assumes "pseudonymization f"
  shows "scored_row env (put_employees es db) w (f e) = scored_row env db w e"
proof -
  have raw: "raw_input env (f e) os cs = raw_input env e os cs" for os cs
    using assms by (simp add: raw_input_def buildPeerGroupKey_def pseudonymization_def)
  have "snapshot_data env cfg (f e) w n ls input = snapshot_data env cfg e w n ls input" for cfg n ls input
    using assms by (simp add: snapshot_data_def buildPeerGroupKey_def pseudonymization_def)
  with assms raw show ?thesis
    by (simp add: scored_row_def window_orders_def window_complaints_def window_leaves_def pseudonymization_def)
qed

lemma reco_factors_employees: "reco_factors_of env (put_employees es db) l wk = reco_factors_of env db l wk"
proof -
  have entry: "gap_entry (put_employees es db) = gap_entry db"
    by (intro ext) (simp add: gap_entry_def demand_shifts_def)
  have "capacityGap env (put_employees es db) l wk = capacityGap env db l wk"
    by (simp add: capacityGap_def gap_demands_def entry)
  then show ?thesis by (simp add: reco_factors_of_def Let_def)
qed

lemma analysis_blind:
  assumes f: "pseudonymization f"
  shows "analysis env ids now (put_employees (map f (t_employees db)) db) =
    put_employees (map f (t_employees db)) (analysis env ids now db)"
proof -
  let ?db = "put_employees (map f (t_employees db)) db"
  have w: "run_window ?db now = run_window db now" by (simp add: run_window_def)
  have "pass_rows env ids ?db w (map f es) rs = pass_rows env ids db w es rs" for es rs w
    using scored_row_blind [OF f] f by (induction es arbitrary: rs) (simp_all add: pass_rows_def pseudonymization_def)
  then have snaps: "run_snapshots env ids now ?db = run_snapshots env ids now db"
    by (simp add: run_snapshots_def run_scored_def w)
  have swap: "put_snapshots rs ?db = put_employees (map f (t_employees db)) (put_snapshots rs db)" for rs by simp
  have "run_recos env ids now ?db = run_recos env ids now db"
    unfolding run_recos_def snaps swap reco_factors_employees by simp
  with snaps show ?thesis by (simp add: analysis_def)
qed

text \<open>
  C28. The nightly run is blind to personal data: scoring a pseudonymized tenant gives the same snapshots and the same
  recommendations, so no name, identity number, address, coordinates, form of employment or login can move a score.
\<close>

theorem run_blind_to_personal_data:
  assumes keys: "brain_keys db" and f: "pseudonymization f" and run: "analyzeTenant env ids now db = (r, db')"
  shows "analyzeTenant env ids now (put_employees (map f (t_employees db)) db) =
    (r, put_employees (map f (t_employees db)) db')"
proof -
  have "brain_keys (put_employees (map f (t_employees db)) db)"
    using keys f by (auto simp: brain_keys_def comp_def pseudonymization_def image_iff)
  from analyzeTenant_rows [OF this] analyzeTenant_rows [OF keys] analysis_blind [OF f] run show ?thesis by auto
qed

section \<open>The batch\<close>

lemma scheduler_steps:
  assumes "distinct ts"
  shows "fst (foldl (scheduler_step connect body) (dbs, errs) ts) t =
    (if t \<in> set ts \<and> connect t = None then snd (body t (dbs t)) else dbs t)"
  using assms
proof (induction ts arbitrary: dbs errs)
  case (Cons u ts)
  obtain dbs1 errs1 where step: "scheduler_step connect body (dbs, errs) u = (dbs1, errs1)" by fastforce
  then have "dbs1 = (if connect u = None then dbs(u := snd (body u (dbs u))) else dbs)"
    by (auto simp: scheduler_step_def split: option.splits prod.splits sum.splits)
  with Cons step show ?case by (cases "t = u") (auto split: if_splits)
qed simp

text \<open>
  C30. The batch reaches every tenant: whatever fails for others, each active tenant whose client can be borrowed and whose
  lock is free ends with its own finished analysis, and every other tenant's database is left as it was.
\<close>

theorem batch_reaches_every_tenant:
  assumes dist: "distinct (map fst tenants)" and keys: "\<And>t. brain_keys (dbs t)"
    and run: "scheduler_run connect hash held env ids now tenants dbs = (dbs', errs)"
  shows "if (t, TS_ACTIVE) \<in> set tenants \<and> connect t = None \<and> advisoryLockKey hash t \<notin> held
    then analyzeTenant env ids now (dbs t) = (Inr (), dbs' t) else dbs' t = dbs t"
proof -
  let ?ts = "map fst (filter (\<lambda>t. snd t = TS_ACTIVE) tenants)"
  have active: "t \<in> set ?ts \<longleftrightarrow> (t, TS_ACTIVE) \<in> set tenants" by force
  have "distinct ?ts" using dist by (rule distinct_map_filter)
  from scheduler_steps [OF this, of connect "runForTenant hash held env ids now" dbs "[]" t]
  have "dbs' t = (if (t, TS_ACTIVE) \<in> set tenants \<and> connect t = None
      then snd (runForTenant hash held env ids now t (dbs t)) else dbs t)"
    unfolding active using run by (simp add: scheduler_run_def)
  moreover have "snd (runForTenant hash held env ids now t (dbs t)) =
      (if advisoryLockKey hash t \<in> held then dbs t else analysis env ids now (dbs t))"
    by (simp add: runForTenant_def transaction_def analyzeTenant_rows [OF keys])
  ultimately show ?thesis by (simp add: analyzeTenant_rows [OF keys])
qed

section \<open>The capacity gap\<close>

definition role_sums :: "(string \<times> int \<times> int) list \<Rightarrow> string \<Rightarrow> int \<times> int" where
  "role_sums m r = coalesce (map_of m r) (0, 0)"

definition gap_total :: "(string \<times> int \<times> int) list \<Rightarrow> int" where
  "gap_total m = (\<Sum>(_, required, assigned) \<leftarrow> m. required - assigned)"

lemma gap_total_update:
  "gap_total (AList.update r (q, a) m) = gap_total m + (q - a) - (fst (role_sums m r) - snd (role_sums m r))"
  by (induction m) (auto simp: gap_total_def role_sums_def coalesce_def)

definition staffed :: "tenant_db \<Rightarrow> demand_row \<Rightarrow> int" where
  "staffed db d = int (length (demand_shifts db d))"

lemma gap_entry_eq:
  "gap_entry db m d = AList.update (de_requiredRole d)
     (fst (role_sums m (de_requiredRole d)) + de_requiredCount d, snd (role_sums m (de_requiredRole d)) + staffed db d) m"
  by (simp add: gap_entry_def role_sums_def staffed_def split: prod.split)

lemma role_sums_update: "role_sums (AList.update r v m) r' = (if r' = r then v else role_sums m r')"
  by (simp add: role_sums_def update_conv' coalesce_def)

lemma gap_loop:
  assumes "distinct (map fst m)"
  shows "distinct (map fst (foldl (gap_entry db) m ds)) \<and>
    fst ` set (foldl (gap_entry db) m ds) = fst ` set m \<union> de_requiredRole ` set ds \<and>
    gap_total (foldl (gap_entry db) m ds) = gap_total m + (\<Sum>d \<leftarrow> ds. de_requiredCount d - staffed db d) \<and>
    role_sums (foldl (gap_entry db) m ds) r =
      (fst (role_sums m r) + (\<Sum>d \<leftarrow> filter (\<lambda>d. de_requiredRole d = r) ds. de_requiredCount d),
       snd (role_sums m r) + (\<Sum>d \<leftarrow> filter (\<lambda>d. de_requiredRole d = r) ds. staffed db d))"
  using assms
proof (induction ds arbitrary: m)
  case (Cons d ds)
  have "distinct (map fst (gap_entry db m d))" unfolding gap_entry_eq by (rule distinct_update) (rule Cons.prems)
  moreover have "fst ` set (gap_entry db m d) = insert (de_requiredRole d) (fst ` set m)"
    by (simp add: gap_entry_eq dom_update)
  moreover have "gap_total (gap_entry db m d) = gap_total m + (de_requiredCount d - staffed db d)"
    unfolding gap_entry_eq gap_total_update by simp
  ultimately show ?case using Cons.IH [of "gap_entry db m d"]
    by (auto simp: gap_entry_eq role_sums_update)
qed simp

lemma sum_list_sorted: "(\<Sum>x \<leftarrow> sort_key f xs. g x) = (\<Sum>x \<leftarrow> xs. (g x :: int))"
  by (metis mset_map mset_sort sum_mset_sum_list)

text \<open>
  The capacity gap is the demand of the location's week less the shifts that staff it: in total over all the demands, and
  role by role, with one entry for each role that is asked for, also when demands are overstaffed.
\<close>

theorem capacity_gap_exact:
  fixes env :: brain_env and db :: tenant_db and l :: id and wk :: int
  defines "ds \<equiv> gap_demands db l wk" and "g \<equiv> capacityGap env db l wk"
  shows "cg_totalGap g = (\<Sum>d \<leftarrow> ds. de_requiredCount d - staffed db d) \<and>
    distinct (map rg_role (cg_byRole g)) \<and> rg_role ` set (cg_byRole g) = de_requiredRole ` set ds \<and>
    list_all (\<lambda>r. rg_required r = (\<Sum>d \<leftarrow> filter (\<lambda>d. de_requiredRole d = rg_role r) ds. de_requiredCount d) \<and>
        rg_assigned r = (\<Sum>d \<leftarrow> filter (\<lambda>d. de_requiredRole d = rg_role r) ds. staffed db d) \<and>
        rg_gap r = rg_required r - rg_assigned r) (cg_byRole g)"
proof -
  let ?m = "foldl (gap_entry db) [] ds"
  let ?rows = "map (\<lambda>(role, required, assigned).
     \<lparr>rg_role = role, rg_required = required, rg_assigned = assigned, rg_gap = required - assigned\<rparr>) ?m"
  note loop = gap_loop [of "[]" db ds, simplified]
  have rows: "cg_byRole g = sort_key (\<lambda>r. be_collate env (rg_role r)) ?rows"
    by (simp add: g_def ds_def capacityGap_def Let_def)
  have foldl_add: "foldl (\<lambda>s r. s + rg_gap r) c rs = c + (\<Sum>r \<leftarrow> rs. rg_gap r)" for c rs
    by (induction rs arbitrary: c) simp_all
  have "cg_totalGap g = (\<Sum>r \<leftarrow> cg_byRole g. rg_gap r)"
    unfolding g_def capacityGap_def Let_def by (simp add: foldl_add)
  also have "\<dots> = gap_total ?m"
    unfolding rows sum_list_sorted by (simp add: gap_total_def comp_def split_def)
  finally have total: "cg_totalGap g = (\<Sum>d \<leftarrow> ds. de_requiredCount d - staffed db d)"
    using loop by (simp add: gap_total_def)
  have roles: "map rg_role ?rows = map fst ?m" by (simp add: comp_def case_prod_beta)
  have "distinct (map rg_role (cg_byRole g))"
    unfolding rows distinct_sort_key_map roles using loop by simp
  moreover have "rg_role ` set (cg_byRole g) = de_requiredRole ` set ds"
    using loop arg_cong [OF roles, of set] unfolding rows set_sort by (simp only: set_map set_empty2 list.set image_empty Un_empty_left)
  moreover have "list_all (\<lambda>r. rg_required r = (\<Sum>d \<leftarrow> filter (\<lambda>d. de_requiredRole d = rg_role r) ds. de_requiredCount d) \<and>
        rg_assigned r = (\<Sum>d \<leftarrow> filter (\<lambda>d. de_requiredRole d = rg_role r) ds. staffed db d) \<and>
        rg_gap r = rg_required r - rg_assigned r) (cg_byRole g)"
  proof -
    have "q = (\<Sum>d \<leftarrow> filter (\<lambda>d. de_requiredRole d = role) ds. de_requiredCount d) \<and>
        a = (\<Sum>d \<leftarrow> filter (\<lambda>d. de_requiredRole d = role) ds. staffed db d)" if "(role, q, a) \<in> set ?m" for role q a
    proof -
      from loop have "distinct (map fst ?m)" by simp
      with that have "role_sums ?m role = (q, a)" by (simp add: role_sums_def coalesce_def)
      with gap_loop [of "[]" db ds role] show ?thesis by (simp add: role_sums_def coalesce_def)
    qed
    then show ?thesis unfolding rows list_all_iff set_sort by fastforce
  qed
  ultimately show ?thesis using total by blast
qed

end
