(* ===== verification/BrainSamples.thy ===== *)
theory BrainSamples
  imports BrainHistory
begin

text \<open>
  The theorems on the strategic brain applied to a small tenant, and what the model shows beside them.
\<close>

section \<open>A small tenant\<close>

definition env0 :: brain_env where
  "env0 = \<lparr>be_digest = (\<lambda>_. ''h''), be_decimal = (\<lambda>_. ''1''), be_number = (\<lambda>_. ''n''), be_collate = map of_char\<rparr>"

definition done_order :: "id \<Rightarrow> id \<Rightarrow> int \<Rightarrow> int \<Rightarrow> work_order_row" where
  "done_order i e due completed =
     \<lparr>wo_id = i, wo_assignedToEmployeeId = e, wo_assignedAt = 2 * day_ms, wo_dueAt = due, wo_completedAt = Some completed,
      wo_status = WO_DONE\<rparr>"

text \<open>One employee with an order done in time and one done late; a demand for two that nobody staffs.\<close>

definition brain_db :: tenant_db where
  "brain_db = empty_db
     \<lparr>t_employees := [sample_employee ''e1'' None ''u1''],
      t_lokalizacje := [\<lparr>lo_id = ''l1'', lo_name = ''A'', lo_typ = ''T'', lo_lat = None, lo_lng = None\<rparr>],
      t_workOrders := [done_order ''o1'' ''e1'' (4 * day_ms) (3 * day_ms), done_order ''o2'' ''e1'' (3 * day_ms) (5 * day_ms)],
      t_demands := [\<lparr>de_id = ''d1'', de_lokalizacjaId = ''l1'', de_date = 8 * day_ms, de_start = ''08:00'', de_end = ''16:00'',
         de_requiredRole = ''chef'', de_requiredCount = 2, de_source = DS_MANUAL\<rparr>]\<rparr>"

definition hr_actor :: actor where
  "hr_actor = \<lparr>act_userId = ''k9'', act_roles = [''HR''], act_ipAddress = ''ip''\<rparr>"

lemmas brain_sample_defs = brain_db_def empty_db_def sample_employee_def done_order_def

lemma brain_db_ok: "brain_ok brain_db"
  by (simp add: brain_ok_def brain_keys_def perf_ok_def brain_sample_defs)

lemma brain_db_keys: "brain_keys brain_db"
  using brain_db_ok by (simp add: brain_ok_def)

text \<open>What the run computes: hit rate one half, no defect, and a gap of two.\<close>

lemma brain_db_snapshots:
  "map (\<lambda>s. (sn_id s, sn_throughput s, sn_slaHitRate s, sn_defectRate s)) (run_snapshots env0 id (10 * day_ms) brain_db) =
     [(''e1'', 2, Some (1 / 2), Some 0)]"
  by code_simp

lemma brain_db_verdict: "verdict_of (reco_factors_of env0 brain_db ''l1'' (currentWeekStart (10 * day_ms))) = WZNOW"
  by code_simp

lemma brain_db_run:
  "\<exists>db'. analyzeTenant env0 id (10 * day_ms) brain_db = (Inr (), db') \<and>
     map (\<lambda>s. (sn_id s, sn_throughput s, sn_slaHitRate s, sn_defectRate s)) (t_snapshots db') = [(''e1'', 2, Some (1 / 2), Some 0)]"
  using analyzeTenant_rows [OF brain_db_keys] brain_db_snapshots by (simp add: analysis_def)

theorem analyze_idempotent_witness:
  "\<exists>db'. analyzeTenant env0 id (10 * day_ms) brain_db = (Inr (), db') \<and> analyzeTenant env0 id (11 * day_ms) db' = (Inr (), db')"
  by (rule analyze_idempotent [OF brain_db_keys])
    (simp_all add: run_window_def currentWindow_def currentWeekStart_def WEEK_MS_def resolve_fields_def effective_config_def
      perf_row_def coalesce_def perf_default_def default_fields_def day_ms_def brain_sample_defs)

theorem brain_keeps_types_witness:
  "(\<exists>db'. analyzeTenant env0 id (10 * day_ms) brain_db = (Inr (), db') \<and> brain_ok db') \<and>
   brain_ok (snd (brain_handle env0 hr_actor BrOverview brain_db))"
  by (rule brain_keeps_types [OF brain_db_ok])

theorem recommendations_append_only_witness:
  "(\<exists>db' new. analyzeTenant env0 id (10 * day_ms) brain_db = (Inr (), db') \<and> t_recos db' = t_recos brain_db @ new \<and> history_ok (t_recos db')) \<and>
   map reco_event (t_recos (snd (brain_handle env0 hr_actor BrRecruitment brain_db))) = map reco_event (t_recos brain_db) \<and>
   history_ok (t_recos (snd (brain_handle env0 hr_actor BrRecruitment brain_db)))"
  by (rule recommendations_append_only [OF brain_db_keys]) (simp_all add: brain_sample_defs history_ok_def)

definition hide_names :: "employee_row \<Rightarrow> employee_row" where
  "hide_names e = e\<lparr>em_firstName := ''X'', em_lastName := ''Y'', em_pesel := [], em_homeAddress := None\<rparr>"

theorem run_blind_to_personal_data_witness:
  "analyzeTenant env0 id (10 * day_ms) (put_employees (map hide_names (t_employees brain_db)) brain_db) =
    (fst (analyzeTenant env0 id (10 * day_ms) brain_db),
     put_employees (map hide_names (t_employees brain_db)) (snd (analyzeTenant env0 id (10 * day_ms) brain_db)))"
  by (rule run_blind_to_personal_data [OF brain_db_keys]) (simp_all add: pseudonymization_def hide_names_def)

text \<open>Two active tenants, of which the client of the first cannot be borrowed.\<close>

definition hash0 :: "string \<Rightarrow> 8 word list" where
  "hash0 s = map of_char (s @ ''00000000'')"

definition down :: "id \<Rightarrow> app_error option" where
  "down t = (if t = ''t1'' then Some (PlainError ''unreachable'') else None)"

theorem batch_reaches_every_tenant_witness:
  "analyzeTenant env0 id (10 * day_ms) brain_db =
    (Inr (), fst (scheduler_run down hash0 {} env0 id (10 * day_ms) [(''t1'', TS_ACTIVE), (''t2'', TS_ACTIVE)] (\<lambda>_. brain_db)) ''t2'')"
proof -
  obtain dbs' errs where run: "scheduler_run down hash0 {} env0 id (10 * day_ms) [(''t1'', TS_ACTIVE), (''t2'', TS_ACTIVE)] (\<lambda>_. brain_db) = (dbs', errs)"
    by fastforce
  from batch_reaches_every_tenant [OF _ _ run, of "''t2''"] brain_db_keys run show ?thesis by (simp add: down_def)
qed

section \<open>What the model shows beside\<close>

text \<open>
  More complaints than completed orders make the quality, and with it the composite, negative, although the
  dimensions are meant to be on a scale from 0 to 100.
\<close>

lemma negative_composite:
  "sn_compositeScore (scored_row env0 (brain_db\<lparr>t_workOrders := [done_order ''o1'' ''e1'' (3 * day_ms) (5 * day_ms)],
      t_complaints := replicate 3 \<lparr>cm_id = ''c'', cm_employeeId = ''e1'', cm_createdAt = 4 * day_ms\<rparr>\<rparr>)
      \<lparr>bw_start = 0, bw_end = 14 * day_ms\<rparr> (sample_employee ''e1'' None ''u1'')) = Some (- 100)"
  by code_simp

text \<open>Finalizing a window again applies the confidence penalty again: only a recomputation resets it.\<close>

lemma finalize_compounds:
  "let rs = run_snapshots env0 id (10 * day_ms) brain_db
   in map sn_confidence (fin_rows default_fields \<lparr>bw_start = 0, bw_end = 14 * day_ms\<rparr> rs) \<noteq> map sn_confidence rs"
  by code_simp

text \<open>The week of the capacity gap starts on a Thursday, the schedule's week on a Monday.\<close>

lemma brain_week_starts_on_thursday: "getUTCDay (currentWeekStart now) = 4"
proof -
  have "currentWeekStart now div day_ms = 7 * (now div WEEK_MS)"
    by (simp add: currentWeekStart_def WEEK_MS_def day_ms_def)
  then show ?thesis by (simp add: getUTCDay_def)
qed

end
