(* ===== verification/Grafik.thy ===== *)
theory Grafik
  imports Replacement
begin

text \<open>
  The schedule: shifts, staffing demands and templates, \<open>grafik/grafik.service.ts\<close> and the endpoints of
  \<open>grafik/grafik.controller.ts\<close>. The solve half packs a week into a problem, hands it to the optimizer
  and persists the answer. A calendar date in a request is its UTC midnight in milliseconds; names are
  ordered by their character codes; fresh ids are arguments.
\<close>

section \<open>The client of the optimizer\<close>

text \<open>
  What the transport may do with a request: nobody answers, an HTTP status that is not ok, or a body,
  which is a result when it passes the schema of the contract.
\<close>

datatype http_reply = Unreachable | HttpStatus int | HttpBody "solve_result option"

definition http_solve :: "(problem_input \<Rightarrow> http_reply) \<Rightarrow> optimizer" where
  "http_solve fetch problem =
     (case fetch problem of
        Unreachable \<Rightarrow> Inl (PlainError ''grafik-optimizer is unreachable'')
      | HttpStatus status \<Rightarrow> Inl (PlainError (''grafik-optimizer /solve failed with status '' @ show_int status))
      | HttpBody None \<Rightarrow> Inl (PlainError ''ZodError'')
      | HttpBody (Some result) \<Rightarrow> Inr result)"

section \<open>Unit scoping and audit\<close>

definition assertManagesUnit :: "actor \<Rightarrow> id \<Rightarrow> unit tx" where
  "assertManagesUnit act unitId =
     (if isGlobal (act_roles act) then ret ()
      else bnd (asks (\<lambda>db. managedUnitIds db (act_userId act))) (\<lambda>units.
           ensure (unitId \<in> set units) (ForbiddenException ''MANAGER may only act on their own unit'')))"

definition employeeUnitId :: "id \<Rightarrow> id tx" where
  "employeeUnitId employeeId =
     bnd (asks (\<lambda>db. map_option em_unitId (findEmployee db employeeId)))
       (require (NotFoundException (''Employee '' @ employeeId @ '' not found'')))"

definition assertManagesEmployee :: "actor \<Rightarrow> id \<Rightarrow> unit tx" where
  "assertManagesEmployee act employeeId = bnd (employeeUnitId employeeId) (assertManagesUnit act)"

definition grafik_audit :: "actor \<Rightarrow> string \<Rightarrow> string \<Rightarrow> id \<Rightarrow> (string \<times> json) list \<Rightarrow> unit tx" where
  "grafik_audit act action entityType entityId payload =
     audit_log (act_userId act) action entityType entityId (JObj payload) (act_ipAddress act)"

section \<open>Name catalogs\<close>

definition listLokalizacje :: "lokalizacja_row list tx" where
  "listLokalizacje = asks (\<lambda>db. sort_key lo_name (t_lokalizacje db))"

definition listUnits :: "unit_row list tx" where
  "listUnits = asks (\<lambda>db. sort_key ou_name (t_units db))"

section \<open>Shifts\<close>

definition source_name :: "shift_source \<Rightarrow> string" where
  "source_name s = (case s of AUTO \<Rightarrow> ''AUTO'' | MANUAL \<Rightarrow> ''MANUAL'')"

definition shift_json :: "shift_row \<Rightarrow> json" where
  "shift_json s =
     JObj [(''id'', JStr (sh_id s)), (''employeeId'', JStr (sh_employeeId s)),
       (''lokalizacjaId'', JStr (sh_lokalizacjaId s)), (''demandId'', json_opt (sh_demandId s)),
       (''date'', JNum (real_of_int (sh_date s))), (''start'', JStr (sh_start s)), (''end'', JStr (sh_end s)),
       (''role'', JStr (sh_role s)), (''source'', JStr (source_name (sh_source s)))]"

text \<open>\<open>orderBy: [{ date: 'desc' }, { start: 'asc' }]\<close>.\<close>

definition shifts_where :: "(shift_row \<Rightarrow> bool) \<Rightarrow> tenant_db \<Rightarrow> shift_row list" where
  "shifts_where P db = sort_key (\<lambda>s. (- sh_date s, sh_start s)) (filter P (t_shifts db))"

text \<open>The relation filter \<open>employee: { user: { keycloakSub } }\<close>.\<close>

definition shift_of_sub :: "tenant_db \<Rightarrow> string \<Rightarrow> shift_row \<Rightarrow> bool" where
  "shift_of_sub db sub s =
     (case findEmployee db (sh_employeeId s) of
        None \<Rightarrow> False
      | Some e \<Rightarrow> (case em_userId e of None \<Rightarrow> False | Some uid \<Rightarrow> user_has_sub db uid sub))"

definition shift_in_units :: "tenant_db \<Rightarrow> id list \<Rightarrow> shift_row \<Rightarrow> bool" where
  "shift_in_units db units s = employee_unit_in db units (sh_employeeId s)"

definition listShifts :: "actor \<Rightarrow> shift_row list tx" where
  "listShifts act =
     asks (\<lambda>db.
       if isGlobal (act_roles act) then shifts_where (\<lambda>_. True) db
       else let units = managedUnitIds db (act_userId act)
         in if units \<noteq> [] then shifts_where (shift_in_units db units) db
            else shifts_where (shift_of_sub db (act_userId act)) db)"

definition grafik_loadShift :: "id \<Rightarrow> shift_row tx" where
  "grafik_loadShift i =
     bnd (asks (\<lambda>db. find_row sh_id i (t_shifts db))) (require (NotFoundException (''Shift '' @ i @ '' not found'')))"

definition getShift :: "actor \<Rightarrow> id \<Rightarrow> shift_row tx" where
  "getShift act i =
     bnd (grafik_loadShift i) (\<lambda>shift.
     bnd (assertManagesEmployee act (sh_employeeId shift)) (\<lambda>_.
     ret shift))"

text \<open>The foreign keys of a shift row, checked by the database on insert and update.\<close>

definition shift_fks :: "tenant_db \<Rightarrow> shift_row \<Rightarrow> bool" where
  "shift_fks db s \<longleftrightarrow>
     findEmployee db (sh_employeeId s) \<noteq> None \<and>
     find_row lo_id (sh_lokalizacjaId s) (t_lokalizacje db) \<noteq> None \<and>
     (case sh_demandId s of None \<Rightarrow> True | Some d \<Rightarrow> find_row de_id d (t_demands db) \<noteq> None)"

definition insert_shift :: "shift_row \<Rightarrow> shift_row tx" where
  "insert_shift s =
     bnd (asks (\<lambda>db. shift_fks db s)) (\<lambda>ok.
     bnd (ensure ok (P2003 ''shifts'')) (\<lambda>_.
     create_row t_shifts put_shifts s))"

text \<open>
  Deleting shifts: a swap request of the shift's holder and a proposal for the shift restrict the
  delete; a swap request that asks for the shift loses the reference.
\<close>

definition shifts_restricted :: "tenant_db \<Rightarrow> id list \<Rightarrow> bool" where
  "shifts_restricted db ids \<longleftrightarrow>
     list_ex (\<lambda>w. sw_requesterShiftId w \<in> set ids) (t_swaps db) \<or>
     list_ex (\<lambda>p. ap_shiftId p \<in> set ids) (t_proposals db)"

definition drop_target :: "id list \<Rightarrow> swap_row \<Rightarrow> swap_row" where
  "drop_target ids w = (if sw_targetShiftId w \<in> Some ` set ids then w\<lparr>sw_targetShiftId := None\<rparr> else w)"

definition delete_shift_rows :: "id list \<Rightarrow> unit tx" where
  "delete_shift_rows ids =
     bnd (asks (\<lambda>db. shifts_restricted db ids)) (\<lambda>restricted.
     bnd (ensure (\<not> restricted) (P2003 ''shifts'')) (\<lambda>_.
     modify (\<lambda>db. db\<lparr>t_shifts := delete_rows (\<lambda>s. sh_id s \<in> set ids) (t_shifts db),
                      t_swaps := map (drop_target ids) (t_swaps db)\<rparr>)))"

record create_shift_dto =
  sd_employeeId :: id
  sd_lokalizacjaId :: id
  sd_demandId :: "id option"
  sd_date :: int
  sd_start :: string
  sd_end :: string
  sd_role :: string
  sd_source :: "shift_source option"

definition shift_data :: "id \<Rightarrow> create_shift_dto \<Rightarrow> shift_row" where
  "shift_data newId dto =
     \<lparr>sh_id = newId, sh_employeeId = sd_employeeId dto, sh_lokalizacjaId = sd_lokalizacjaId dto,
      sh_demandId = sd_demandId dto, sh_date = sd_date dto, sh_start = sd_start dto, sh_end = sd_end dto,
      sh_role = sd_role dto, sh_source = (case sd_source dto of None \<Rightarrow> AUTO | Some s \<Rightarrow> s)\<rparr>"

definition createShift :: "id \<Rightarrow> actor \<Rightarrow> create_shift_dto \<Rightarrow> shift_row tx" where
  "createShift newId act dto =
     bnd (assertManagesEmployee act (sd_employeeId dto)) (\<lambda>_.
     bnd (insert_shift (shift_data newId dto)) (\<lambda>shift.
     bnd (grafik_audit act ''shift.create'' ''Shift'' (sh_id shift) [(''after'', shift_json shift)]) (\<lambda>_.
     ret shift)))"

text \<open>A field of a PATCH body: absent, or the new value.\<close>

definition patch :: "'a option \<Rightarrow> 'a \<Rightarrow> 'a" where
  "patch new old = (case new of None \<Rightarrow> old | Some x \<Rightarrow> x)"

record update_shift_dto =
  su_employeeId :: "id option"
  su_lokalizacjaId :: "id option"
  su_demandId :: "id option option"
  su_date :: "int option"
  su_start :: "string option"
  su_end :: "string option"
  su_role :: "string option"
  su_source :: "shift_source option"

definition shift_patch :: "update_shift_dto \<Rightarrow> shift_row \<Rightarrow> shift_row" where
  "shift_patch dto s =
     \<lparr>sh_id = sh_id s, sh_employeeId = patch (su_employeeId dto) (sh_employeeId s),
      sh_lokalizacjaId = patch (su_lokalizacjaId dto) (sh_lokalizacjaId s),
      sh_demandId = patch (su_demandId dto) (sh_demandId s), sh_date = patch (su_date dto) (sh_date s),
      sh_start = patch (su_start dto) (sh_start s), sh_end = patch (su_end dto) (sh_end s),
      sh_role = patch (su_role dto) (sh_role s), sh_source = patch (su_source dto) (sh_source s)\<rparr>"

definition updateShift :: "actor \<Rightarrow> id \<Rightarrow> update_shift_dto \<Rightarrow> shift_row tx" where
  "updateShift act i dto =
     bnd (grafik_loadShift i) (\<lambda>before.
     bnd (assertManagesEmployee act (sh_employeeId before)) (\<lambda>_.
     bnd (case su_employeeId dto of
            None \<Rightarrow> ret ()
          | Some e \<Rightarrow> if e \<noteq> [] \<and> e \<noteq> sh_employeeId before then assertManagesEmployee act e else ret ()) (\<lambda>_.
     bnd (asks (\<lambda>db. shift_fks db (shift_patch dto before))) (\<lambda>ok.
     bnd (ensure ok (P2003 ''shifts'')) (\<lambda>_.
     bnd (update_row t_shifts put_shifts sh_id (P2025 ''Shift'') i (shift_patch dto)) (\<lambda>after.
     bnd (grafik_audit act ''shift.update'' ''Shift'' i
            [(''before'', shift_json before), (''after'', shift_json after)]) (\<lambda>_.
     ret after)))))))"

definition deleteShift :: "actor \<Rightarrow> id \<Rightarrow> id tx" where
  "deleteShift act i =
     bnd (grafik_loadShift i) (\<lambda>before.
     bnd (assertManagesEmployee act (sh_employeeId before)) (\<lambda>_.
     bnd (delete_shift_rows [i]) (\<lambda>_.
     bnd (grafik_audit act ''shift.delete'' ''Shift'' i [(''before'', shift_json before)]) (\<lambda>_.
     ret i))))"

section \<open>Demands\<close>

definition demands_where :: "(demand_row \<Rightarrow> bool) \<Rightarrow> tenant_db \<Rightarrow> demand_row list" where
  "demands_where P db = sort_key (\<lambda>d. (- de_date d, de_start d)) (filter P (t_demands db))"

definition listDemands :: "actor \<Rightarrow> demand_row list tx" where
  "listDemands act =
     asks (\<lambda>db.
       if isGlobal (act_roles act) then demands_where (\<lambda>_. True) db
       else let units = managedUnitIds db (act_userId act);
                locIds = map sh_lokalizacjaId
                  (filter (if units \<noteq> [] then shift_in_units db units else shift_of_sub db (act_userId act)) (t_shifts db))
         in demands_where (\<lambda>d. de_lokalizacjaId d \<in> set locIds) db)"

definition demand_json :: "demand_row \<Rightarrow> json" where
  "demand_json d =
     JObj [(''id'', JStr (de_id d)), (''lokalizacjaId'', JStr (de_lokalizacjaId d)),
       (''date'', JNum (real_of_int (de_date d))), (''start'', JStr (de_start d)), (''end'', JStr (de_end d)),
       (''requiredRole'', JStr (de_requiredRole d)), (''requiredCount'', JNum (real_of_int (de_requiredCount d))),
       (''source'', JStr (case de_source d of DS_TEMPLATE \<Rightarrow> ''TEMPLATE'' | DS_MANUAL \<Rightarrow> ''MANUAL''))]"

definition getDemand :: "id \<Rightarrow> demand_row tx" where
  "getDemand i =
     bnd (asks (\<lambda>db. find_row de_id i (t_demands db))) (require (NotFoundException (''ShiftDemand '' @ i @ '' not found'')))"

definition demand_fk :: "demand_row \<Rightarrow> unit tx" where
  "demand_fk d =
     bnd (asks (\<lambda>db. find_row lo_id (de_lokalizacjaId d) (t_lokalizacje db) \<noteq> None)) (\<lambda>ok.
     ensure ok (P2003 ''shift_demands''))"

record create_demand_dto =
  dd_lokalizacjaId :: id
  dd_date :: int
  dd_start :: string
  dd_end :: string
  dd_requiredRole :: string
  dd_requiredCount :: int
  dd_source :: "demand_source option"

definition demand_data :: "id \<Rightarrow> create_demand_dto \<Rightarrow> demand_row" where
  "demand_data newId dto =
     \<lparr>de_id = newId, de_lokalizacjaId = dd_lokalizacjaId dto, de_date = dd_date dto, de_start = dd_start dto,
      de_end = dd_end dto, de_requiredRole = dd_requiredRole dto, de_requiredCount = dd_requiredCount dto,
      de_source = (case dd_source dto of None \<Rightarrow> DS_MANUAL | Some s \<Rightarrow> s)\<rparr>"

definition createDemand :: "id \<Rightarrow> actor \<Rightarrow> create_demand_dto \<Rightarrow> demand_row tx" where
  "createDemand newId act dto =
     bnd (demand_fk (demand_data newId dto)) (\<lambda>_.
     bnd (create_row t_demands put_demands (demand_data newId dto)) (\<lambda>demand.
     bnd (grafik_audit act ''shiftDemand.create'' ''ShiftDemand'' (de_id demand) [(''after'', demand_json demand)]) (\<lambda>_.
     ret demand)))"

record update_demand_dto =
  du_lokalizacjaId :: "id option"
  du_date :: "int option"
  du_start :: "string option"
  du_end :: "string option"
  du_requiredRole :: "string option"
  du_requiredCount :: "int option"
  du_source :: "demand_source option"

definition demand_patch :: "update_demand_dto \<Rightarrow> demand_row \<Rightarrow> demand_row" where
  "demand_patch dto d =
     \<lparr>de_id = de_id d, de_lokalizacjaId = patch (du_lokalizacjaId dto) (de_lokalizacjaId d),
      de_date = patch (du_date dto) (de_date d), de_start = patch (du_start dto) (de_start d),
      de_end = patch (du_end dto) (de_end d), de_requiredRole = patch (du_requiredRole dto) (de_requiredRole d),
      de_requiredCount = patch (du_requiredCount dto) (de_requiredCount d),
      de_source = patch (du_source dto) (de_source d)\<rparr>"

definition updateDemand :: "actor \<Rightarrow> id \<Rightarrow> update_demand_dto \<Rightarrow> demand_row tx" where
  "updateDemand act i dto =
     bnd (getDemand i) (\<lambda>before.
     bnd (demand_fk (demand_patch dto before)) (\<lambda>_.
     bnd (update_row t_demands put_demands de_id (P2025 ''ShiftDemand'') i (demand_patch dto)) (\<lambda>after.
     bnd (grafik_audit act ''shiftDemand.update'' ''ShiftDemand'' i
            [(''before'', demand_json before), (''after'', demand_json after)]) (\<lambda>_.
     ret after))))"

text \<open>Deleting a demand clears the reference of the shifts that were made for it.\<close>

definition delete_demand_row :: "id \<Rightarrow> unit tx" where
  "delete_demand_row i =
     modify (\<lambda>db. db\<lparr>t_demands := delete_rows (\<lambda>d. de_id d = i) (t_demands db),
       t_shifts := update_rows (\<lambda>s. sh_demandId s = Some i) (\<lambda>s. s\<lparr>sh_demandId := None\<rparr>) (t_shifts db)\<rparr>)"

definition deleteDemand :: "actor \<Rightarrow> id \<Rightarrow> id tx" where
  "deleteDemand act i =
     bnd (getDemand i) (\<lambda>before.
     bnd (delete_demand_row i) (\<lambda>_.
     bnd (grafik_audit act ''shiftDemand.delete'' ''ShiftDemand'' i [(''before'', demand_json before)]) (\<lambda>_.
     ret i)))"

section \<open>Templates\<close>

definition listTemplates :: "template_row list tx" where
  "listTemplates = asks (\<lambda>db. sort_key tp_nazwa (t_templates db))"

definition template_json :: "template_row \<Rightarrow> json" where
  "template_json t =
     JObj [(''id'', JStr (tp_id t)), (''lokalizacjaTyp'', JStr (tp_lokalizacjaTyp t)), (''nazwa'', JStr (tp_nazwa t)),
       (''dni'', JArr (map JStr (tp_dni t))), (''okna'', JArr (tp_okna t))]"

definition getTemplate :: "id \<Rightarrow> template_row tx" where
  "getTemplate i =
     bnd (asks (\<lambda>db. find_row tp_id i (t_templates db)))
       (require (NotFoundException (''ShiftTemplate '' @ i @ '' not found'')))"

record create_template_dto =
  td_lokalizacjaTyp :: string
  td_nazwa :: string
  td_dni :: "string list option"
  td_okna :: "json list"

definition template_data :: "id \<Rightarrow> create_template_dto \<Rightarrow> template_row" where
  "template_data newId dto =
     \<lparr>tp_id = newId, tp_lokalizacjaTyp = td_lokalizacjaTyp dto, tp_nazwa = td_nazwa dto,
      tp_dni = (case td_dni dto of None \<Rightarrow> [] | Some d \<Rightarrow> d), tp_okna = td_okna dto\<rparr>"

definition createTemplate :: "id \<Rightarrow> actor \<Rightarrow> create_template_dto \<Rightarrow> template_row tx" where
  "createTemplate newId act dto =
     bnd (create_row t_templates put_templates (template_data newId dto)) (\<lambda>template.
     bnd (grafik_audit act ''shiftTemplate.create'' ''ShiftTemplate'' (tp_id template)
            [(''after'', template_json template)]) (\<lambda>_.
     ret template))"

record update_template_dto =
  tu_lokalizacjaTyp :: "string option"
  tu_nazwa :: "string option"
  tu_dni :: "string list option"
  tu_okna :: "json list option"

definition template_patch :: "update_template_dto \<Rightarrow> template_row \<Rightarrow> template_row" where
  "template_patch dto t =
     \<lparr>tp_id = tp_id t, tp_lokalizacjaTyp = patch (tu_lokalizacjaTyp dto) (tp_lokalizacjaTyp t),
      tp_nazwa = patch (tu_nazwa dto) (tp_nazwa t), tp_dni = patch (tu_dni dto) (tp_dni t),
      tp_okna = patch (tu_okna dto) (tp_okna t)\<rparr>"

definition updateTemplate :: "actor \<Rightarrow> id \<Rightarrow> update_template_dto \<Rightarrow> template_row tx" where
  "updateTemplate act i dto =
     bnd (getTemplate i) (\<lambda>before.
     bnd (update_row t_templates put_templates tp_id (P2025 ''ShiftTemplate'') i (template_patch dto)) (\<lambda>after.
     bnd (grafik_audit act ''shiftTemplate.update'' ''ShiftTemplate'' i
            [(''before'', template_json before), (''after'', template_json after)]) (\<lambda>_.
     ret after)))"

definition deleteTemplate :: "actor \<Rightarrow> id \<Rightarrow> id tx" where
  "deleteTemplate act i =
     bnd (getTemplate i) (\<lambda>before.
     bnd (deleteMany t_templates put_templates (\<lambda>t. tp_id t = i)) (\<lambda>_.
     bnd (grafik_audit act ''shiftTemplate.delete'' ''ShiftTemplate'' i [(''before'', template_json before)]) (\<lambda>_.
     ret i)))"

end
