(* ===== verification/GrafikSolve.thy ===== *)
theory GrafikSolve
  imports Grafik
begin

text \<open>
  \<open>GrafikService.solveGrafik\<close>: resolve the caller's scope, pack a week into a problem, ask the optimizer
  and replace the machine-made shifts of the scope by the answer. The second half is the dispatch of the
  HTTP controller.
\<close>

section \<open>Scope\<close>

record solve_dto =
  so_weekStart :: int
  so_unitId :: "id option"
  so_lokalizacjaIds :: "id list option"

definition resolveUnitScope :: "actor \<Rightarrow> id option \<Rightarrow> id list option tx" where
  "resolveUnitScope act unitId =
     (if isGlobal (act_roles act) then ret (if absent_id unitId then None else map_option (\<lambda>u. [u]) unitId)
      else bnd (asks (\<lambda>db. managedUnitIds db (act_userId act))) (\<lambda>managed.
           if \<not> absent_id unitId then
             bnd (ensure (unitId \<in> Some ` set managed) (ForbiddenException ''MANAGER may only solve their own unit'')) (\<lambda>_.
             ret (map_option (\<lambda>u. [u]) unitId))
           else
             bnd (ensure (managed \<noteq> []) (ForbiddenException ''MANAGER manages no unit'')) (\<lambda>_.
             ret (Some managed))))"

definition in_opt :: "'a list option \<Rightarrow> 'a \<Rightarrow> bool" where
  "in_opt xs x \<longleftrightarrow> (case xs of None \<Rightarrow> True | Some ys \<Rightarrow> x \<in> set ys)"

definition in_week :: "int \<Rightarrow> int \<Rightarrow> bool" where
  "in_week weekStart d \<longleftrightarrow> weekStart \<le> d \<and> d < weekStart + 7 * day_ms"

section \<open>Packing\<close>

definition week_demands :: "tenant_db \<Rightarrow> solve_dto \<Rightarrow> demand_row list" where
  "week_demands db dto =
     filter (\<lambda>d. in_week (so_weekStart dto) (de_date d) \<and> in_opt (so_lokalizacjaIds dto) (de_lokalizacjaId d))
       (t_demands db)"

definition scope_employees :: "tenant_db \<Rightarrow> id list option \<Rightarrow> employee_row list" where
  "scope_employees db scope = filter (\<lambda>e. in_opt scope (em_unitId e)) (t_employees db)"

text \<open>The approved leaves that overlap the week, and an employee's leave days in it, sorted.\<close>

definition week_leaves :: "tenant_db \<Rightarrow> int \<Rightarrow> id list \<Rightarrow> leave_row list" where
  "week_leaves db weekStart employeeIds =
     filter (\<lambda>lv. lv_employeeId lv \<in> set employeeIds \<and> lv_status lv = LV_APPROVED \<and>
       lv_startDate lv < weekStart + 7 * day_ms \<and> weekStart \<le> lv_endDate lv) (t_leaves db)"

definition leave_days :: "int \<Rightarrow> leave_row list \<Rightarrow> id \<Rightarrow> int list" where
  "leave_days weekStart leaveRows e =
     sort (remdups (concat (map (\<lambda>lv.
       map isoDate (filter (\<lambda>day. lv_startDate lv \<le> day \<and> day \<le> lv_endDate lv)
         (map (\<lambda>offset. weekStart + offset * day_ms) [0..6])))
       (filter (\<lambda>lv. lv_employeeId lv = e) leaveRows))))"

text \<open>The human-placed shifts of the week, pinned to their employee by a qualification of their own.\<close>

definition manual_shifts :: "tenant_db \<Rightarrow> solve_dto \<Rightarrow> id list \<Rightarrow> shift_row list" where
  "manual_shifts db dto employeeIds =
     filter (\<lambda>s. sh_source s = MANUAL \<and> in_week (so_weekStart dto) (sh_date s) \<and>
       sh_employeeId s \<in> set employeeIds \<and> in_opt (so_lokalizacjaIds dto) (sh_lokalizacjaId s)) (t_shifts db)"

definition pin_token :: "shift_row \<Rightarrow> string" where
  "pin_token s = ''__pinned__'' @ sh_id s"

definition pinned_demand :: "shift_row \<Rightarrow> demand_input" where
  "pinned_demand s =
     \<lparr>di_id = pin_token s, di_locId = sh_lokalizacjaId s, di_date = isoDate (sh_date s),
      di_start = sh_start s, di_end = sh_end s, di_role = pin_token s, di_count = 1\<rparr>"

definition pinned_quals :: "shift_row list \<Rightarrow> id \<Rightarrow> string list" where
  "pinned_quals manualShifts e = map pin_token (filter (\<lambda>s. sh_employeeId s = e) manualShifts)"

definition packed_locs :: "demand_row list \<Rightarrow> shift_row list \<Rightarrow> id list" where
  "packed_locs demandRows manualShifts = uniq (map de_lokalizacjaId demandRows @ map sh_lokalizacjaId manualShifts)"

definition pack_demand :: "demand_row \<Rightarrow> demand_input" where
  "pack_demand d =
     \<lparr>di_id = de_id d, di_locId = de_lokalizacjaId d, di_date = isoDate (de_date d),
      di_start = de_start d, di_end = de_end d, di_role = de_requiredRole d, di_count = de_requiredCount d\<rparr>"

definition packPreferences :: "string list \<Rightarrow> string list \<Rightarrow> preferences option" where
  "packPreferences preferredDaysOff preferredShiftStart =
     (let days = (if preferredDaysOff = [] then None else Some preferredDaysOff);
          starts = (if preferredShiftStart = [] then None else Some preferredShiftStart)
      in if days = None \<and> starts = None then None
         else Some \<lparr>pr_preferredDaysOff = days, pr_preferredShiftStart = starts\<rparr>)"

definition both_coords :: "real option \<Rightarrow> real option \<Rightarrow> lat_lng option" where
  "both_coords lat lng = (case (lat, lng) of (Some a, Some b) \<Rightarrow> Some (a, b) | _ \<Rightarrow> None)"

definition pack_employee :: "int \<Rightarrow> leave_row list \<Rightarrow> shift_row list \<Rightarrow> employee_row \<Rightarrow> employee_input" where
  "pack_employee weekStart leaveRows manualShifts e =
     \<lparr>ei_id = em_id e, ei_qualifications = em_qualifications e @ pinned_quals manualShifts (em_id e),
      ei_etat = em_etat e, ei_homeLatLng = both_coords (em_homeLat e) (em_homeLng e),
      ei_approvedLeaveDates = leave_days weekStart leaveRows (em_id e), ei_historyHours = 0,
      ei_preferences = packPreferences (em_preferredDaysOff e) (em_preferredShiftStart e)\<rparr>"

definition pack_location :: "lokalizacja_row \<Rightarrow> location_input" where
  "pack_location l = \<lparr>li_id = lo_id l, li_latLng = both_coords (lo_lat l) (lo_lng l)\<rparr>"

definition travel_matrix :: "employee_row list \<Rightarrow> lokalizacja_row list \<Rightarrow> travel_entry list" where
  "travel_matrix employeeRows locationRows =
     concat (map (\<lambda>e. case both_coords (em_homeLat e) (em_homeLng e) of
         None \<Rightarrow> []
       | Some (aLat, aLng) \<Rightarrow>
           List.map_filter (\<lambda>l. case both_coords (lo_lat l) (lo_lng l) of
               None \<Rightarrow> None
             | Some (bLat, bLng) \<Rightarrow>
                 Some \<lparr>te_employeeId = em_id e, te_locId = lo_id l,
                   te_minutes = commuteMinutes (aLat, aLng) (bLat, bLng) ASSUMED_COMMUTE_KMH\<rparr>) locationRows)
       employeeRows)"

definition PREFERENCE_WEIGHT :: real where
  "PREFERENCE_WEIGHT = 40"

text \<open>Everything that is read before the optimizer is asked.\<close>

record week_data =
  wd_demands :: "demand_row list"
  wd_employees :: "employee_row list"
  wd_leaves :: "leave_row list"
  wd_manual :: "shift_row list"
  wd_locIds :: "id list"
  wd_locations :: "lokalizacja_row list"

definition load_week :: "tenant_db \<Rightarrow> solve_dto \<Rightarrow> id list option \<Rightarrow> week_data" where
  "load_week db dto unitScope =
     (let demandRows = week_demands db dto;
          employeeRows = scope_employees db unitScope;
          employeeIds = map em_id employeeRows;
          manualShifts = manual_shifts db dto employeeIds;
          locIds = packed_locs demandRows manualShifts
      in \<lparr>wd_demands = demandRows, wd_employees = employeeRows,
          wd_leaves = week_leaves db (so_weekStart dto) employeeIds, wd_manual = manualShifts,
          wd_locIds = locIds, wd_locations = filter (\<lambda>l. lo_id l \<in> set locIds) (t_lokalizacje db)\<rparr>)"

definition pack_week :: "int \<Rightarrow> week_data \<Rightarrow> problem_input" where
  "pack_week weekStart w =
     \<lparr>pi_weekStart = weekStart,
      pi_locations = map pack_location (wd_locations w),
      pi_employees = map (pack_employee weekStart (wd_leaves w) (wd_manual w)) (wd_employees w),
      pi_demands = map pack_demand (wd_demands w) @ map pinned_demand (wd_manual w),
      pi_travelMatrix = travel_matrix (wd_employees w) (wd_locations w),
      pi_weights = \<lparr>we_d = 1, we_e = 1, we_g = 1, we_p = Some PREFERENCE_WEIGHT\<rparr>,
      pi_solverConfig = \<lparr>sc_seed = 42, sc_timeLimit = 10\<rparr>\<rparr>"

section \<open>Persisting\<close>

definition stale_shifts :: "tenant_db \<Rightarrow> int \<Rightarrow> id list option \<Rightarrow> id list \<Rightarrow> shift_row list" where
  "stale_shifts db weekStart unitScope locIds =
     filter (\<lambda>s. sh_source s = AUTO \<and> in_week weekStart (sh_date s) \<and> sh_lokalizacjaId s \<in> set locIds \<and>
       (case unitScope of None \<Rightarrow> True | Some units \<Rightarrow> shift_in_units db units s)) (t_shifts db)"

definition clear_stale :: "id list \<Rightarrow> unit tx" where
  "clear_stale staleIds =
     (if staleIds = [] then ret ()
      else bnd (deleteMany t_swaps put_swaps
                  (\<lambda>w. sw_requesterShiftId w \<in> set staleIds \<or> sw_targetShiftId w \<in> Some ` set staleIds)) (\<lambda>_.
           delete_shift_rows staleIds))"

definition auto_shift :: "id \<Rightarrow> id \<Rightarrow> demand_row \<Rightarrow> shift_row" where
  "auto_shift newId employeeId d =
     \<lparr>sh_id = newId, sh_employeeId = employeeId, sh_lokalizacjaId = de_lokalizacjaId d,
      sh_demandId = Some (de_id d), sh_date = de_date d, sh_start = de_start d, sh_end = de_end d,
      sh_role = de_requiredRole d, sh_source = AUTO\<rparr>"

text \<open>One row per assignment of a packed demand to a packed employee; the \<open>k\<close>-th row gets the id \<open>fr k\<close>.\<close>

fun persist :: "(nat \<Rightarrow> id) \<Rightarrow> demand_row list \<Rightarrow> id list \<Rightarrow> nat \<Rightarrow> assignment list \<Rightarrow> shift_row list tx" where
  "persist fr demandRows employeeIds k [] = ret []"
| "persist fr demandRows employeeIds k (a # as) =
     (case find_row de_id (as_demandId a) demandRows of
        None \<Rightarrow> persist fr demandRows employeeIds k as
      | Some d \<Rightarrow>
          if as_employeeId a \<notin> set employeeIds then persist fr demandRows employeeIds k as
          else bnd (insert_shift (auto_shift (fr k) (as_employeeId a) d)) (\<lambda>s.
               bnd (persist fr demandRows employeeIds (Suc k) as) (\<lambda>ss. ret (s # ss))))"

definition replace_auto ::
  "(nat \<Rightarrow> id) \<Rightarrow> int \<Rightarrow> id list option \<Rightarrow> week_data \<Rightarrow> assignment list \<Rightarrow> shift_row list tx" where
  "replace_auto fr weekStart unitScope w assignments =
     transaction (
       bnd (asks (\<lambda>db. map sh_id (stale_shifts db weekStart unitScope (wd_locIds w)))) (\<lambda>staleIds.
       bnd (clear_stale staleIds) (\<lambda>_.
       persist fr (wd_demands w) (map em_id (wd_employees w)) 0 assignments)))"

definition solve_status_name :: "solve_status \<Rightarrow> string" where
  "solve_status_name s = (case s of OPTIMAL \<Rightarrow> ''OPTIMAL'' | FEASIBLE \<Rightarrow> ''FEASIBLE'' | INFEASIBLE \<Rightarrow> ''INFEASIBLE'')"

definition solve_payload :: "solve_dto \<Rightarrow> id list option \<Rightarrow> solve_result \<Rightarrow> nat \<Rightarrow> (string \<times> json) list" where
  "solve_payload dto unitScope result created =
     (let strings = (\<lambda>xs. case xs of None \<Rightarrow> JNull | Some ys \<Rightarrow> JArr (map JStr ys))
      in [(''scope'', JObj [(''weekStart'', JNum (real_of_int (so_weekStart dto))), (''unitIds'', strings unitScope),
            (''lokalizacjaIds'', strings (so_lokalizacjaIds dto))]),
          (''status'', JStr (solve_status_name (sr_status result))),
          (''assignmentsCreated'', JNum (of_nat created)),
          (''unmet'', JArr (map (\<lambda>u. JObj [(''demandId'', JStr (um_demandId u)), (''reason'', JStr (um_reason u))])
             (sr_unmet result)))])"

record solve_grafik_result =
  sg_status :: solve_status
  sg_assignmentsCreated :: nat
  sg_unmet :: "unmet list"
  sg_metrics :: metrics
  sg_shifts :: "shift_row list"

definition solve_answer :: "solve_result \<Rightarrow> shift_row list \<Rightarrow> solve_grafik_result" where
  "solve_answer result shifts =
     \<lparr>sg_status = sr_status result, sg_assignmentsCreated = length shifts, sg_unmet = sr_unmet result,
      sg_metrics = sr_metrics result, sg_shifts = shifts\<rparr>"

text \<open>The id that stands for a week in the audit log is its ISO date.\<close>

definition solve_persist ::
  "(nat \<Rightarrow> id) \<Rightarrow> (int \<Rightarrow> string) \<Rightarrow> actor \<Rightarrow> solve_dto \<Rightarrow> id list option \<Rightarrow> week_data \<Rightarrow> solve_result \<Rightarrow>
     solve_grafik_result tx" where
  "solve_persist fr shown act dto unitScope w result =
     (if sr_status result = INFEASIBLE then
        bnd (grafik_audit act ''grafik.solve'' ''Grafik'' (shown (so_weekStart dto))
               (solve_payload dto unitScope result 0)) (\<lambda>_.
        ret (solve_answer result []))
      else
        bnd (replace_auto fr (so_weekStart dto) unitScope w (sr_assignments result)) (\<lambda>shifts.
        bnd (grafik_audit act ''grafik.solve'' ''Grafik'' (shown (so_weekStart dto))
               (solve_payload dto unitScope result (length shifts))) (\<lambda>_.
        ret (solve_answer result shifts))))"

definition solveGrafik ::
  "optimizer \<Rightarrow> (nat \<Rightarrow> id) \<Rightarrow> (int \<Rightarrow> string) \<Rightarrow> actor \<Rightarrow> solve_dto \<Rightarrow> solve_grafik_result tx" where
  "solveGrafik solve fr shown act dto =
     bnd (resolveUnitScope act (so_unitId dto)) (\<lambda>unitScope.
     bnd (asks (\<lambda>db. load_week db dto unitScope)) (\<lambda>w.
     bnd (lift_sum (solve (pack_week (so_weekStart dto) w))) (\<lambda>result.
     solve_persist fr shown act dto unitScope w result)))"

section \<open>The HTTP controller\<close>

definition READ_ROLES :: "role list" where
  "READ_ROLES = [MANAGER, HR, ADMIN_KLIENTA, PRACOWNIK]"

definition SHIFT_WRITE_ROLES :: "role list" where
  "SHIFT_WRITE_ROLES = [MANAGER, HR, ADMIN_KLIENTA]"

definition CATALOG_WRITE_ROLES :: "role list" where
  "CATALOG_WRITE_ROLES = [HR, ADMIN_KLIENTA]"

datatype grafik_request =
  GrSolve "nat \<Rightarrow> id" solve_dto
| GrListShifts | GrGetShift id | GrListLokalizacje | GrListUnits
| GrCreateShift id create_shift_dto | GrUpdateShift id update_shift_dto | GrDeleteShift id
| GrListDemands | GrGetDemand id
| GrCreateDemand id create_demand_dto | GrUpdateDemand id update_demand_dto | GrDeleteDemand id
| GrListTemplates | GrGetTemplate id
| GrCreateTemplate id create_template_dto | GrUpdateTemplate id update_template_dto | GrDeleteTemplate id

datatype grafik_response =
  GsSolved solve_grafik_result
| GsShifts "shift_row list" | GsDemands "demand_row list" | GsTemplates "template_row list"
| GsLokalizacje "(id \<times> string \<times> string) list" | GsUnits "(id \<times> string) list"
| GsDeleted id

definition answer :: "('a \<Rightarrow> 'b) \<Rightarrow> 'a tx \<Rightarrow> 'b tx" where
  "answer f m = bnd m (\<lambda>x. ret (f x))"

fun grafik_body :: "optimizer \<Rightarrow> (int \<Rightarrow> string) \<Rightarrow> actor \<Rightarrow> grafik_request \<Rightarrow> grafik_response tx" where
  "grafik_body solve shown act (GrSolve fr dto) = answer GsSolved (solveGrafik solve fr shown act dto)"
| "grafik_body solve shown act GrListShifts = answer GsShifts (listShifts act)"
| "grafik_body solve shown act (GrGetShift i) = answer (\<lambda>s. GsShifts [s]) (getShift act i)"
| "grafik_body solve shown act GrListLokalizacje =
     answer (\<lambda>ls. GsLokalizacje (map (\<lambda>l. (lo_id l, lo_name l, lo_typ l)) ls)) listLokalizacje"
| "grafik_body solve shown act GrListUnits = answer (\<lambda>us. GsUnits (map (\<lambda>u. (ou_id u, ou_name u)) us)) listUnits"
| "grafik_body solve shown act (GrCreateShift i dto) = answer (\<lambda>s. GsShifts [s]) (createShift i act dto)"
| "grafik_body solve shown act (GrUpdateShift i dto) = answer (\<lambda>s. GsShifts [s]) (updateShift act i dto)"
| "grafik_body solve shown act (GrDeleteShift i) = answer GsDeleted (deleteShift act i)"
| "grafik_body solve shown act GrListDemands = answer GsDemands (listDemands act)"
| "grafik_body solve shown act (GrGetDemand i) = answer (\<lambda>d. GsDemands [d]) (getDemand i)"
| "grafik_body solve shown act (GrCreateDemand i dto) = answer (\<lambda>d. GsDemands [d]) (createDemand i act dto)"
| "grafik_body solve shown act (GrUpdateDemand i dto) = answer (\<lambda>d. GsDemands [d]) (updateDemand act i dto)"
| "grafik_body solve shown act (GrDeleteDemand i) = answer GsDeleted (deleteDemand act i)"
| "grafik_body solve shown act GrListTemplates = answer GsTemplates listTemplates"
| "grafik_body solve shown act (GrGetTemplate i) = answer (\<lambda>t. GsTemplates [t]) (getTemplate i)"
| "grafik_body solve shown act (GrCreateTemplate i dto) = answer (\<lambda>t. GsTemplates [t]) (createTemplate i act dto)"
| "grafik_body solve shown act (GrUpdateTemplate i dto) = answer (\<lambda>t. GsTemplates [t]) (updateTemplate act i dto)"
| "grafik_body solve shown act (GrDeleteTemplate i) = answer GsDeleted (deleteTemplate act i)"

fun grafik_roles :: "grafik_request \<Rightarrow> role list" where
  "grafik_roles (GrSolve fr dto) = SHIFT_WRITE_ROLES"
| "grafik_roles (GrCreateShift i dto) = SHIFT_WRITE_ROLES"
| "grafik_roles (GrUpdateShift i dto) = SHIFT_WRITE_ROLES"
| "grafik_roles (GrDeleteShift i) = SHIFT_WRITE_ROLES"
| "grafik_roles (GrCreateDemand i dto) = CATALOG_WRITE_ROLES"
| "grafik_roles (GrUpdateDemand i dto) = CATALOG_WRITE_ROLES"
| "grafik_roles (GrDeleteDemand i) = CATALOG_WRITE_ROLES"
| "grafik_roles (GrCreateTemplate i dto) = CATALOG_WRITE_ROLES"
| "grafik_roles (GrUpdateTemplate i dto) = CATALOG_WRITE_ROLES"
| "grafik_roles (GrDeleteTemplate i) = CATALOG_WRITE_ROLES"
| "grafik_roles _ = READ_ROLES"

definition grafik_handle ::
  "optimizer \<Rightarrow> (int \<Rightarrow> string) \<Rightarrow> actor \<Rightarrow> grafik_request \<Rightarrow> grafik_response tx" where
  "grafik_handle solve shown act req = guarded (grafik_roles req) act (grafik_body solve shown act req)"

end
