(* ===== verification/GrafikRun.thy ===== *)
theory GrafikRun
  imports GrafikSolve
begin

text \<open>
  What a run of the solver can do to the database: the three outcomes of \<open>solveGrafik\<close>, each with the
  exact database it leaves behind.
\<close>

section \<open>The persisted rows\<close>

text \<open>The assignments that pass the trust boundary: a packed demand and a packed employee.\<close>

definition picked :: "demand_row list \<Rightarrow> id list \<Rightarrow> assignment list \<Rightarrow> (id \<times> demand_row) list" where
  "picked demandRows employeeIds as =
     List.map_filter (\<lambda>a. case find_row de_id (as_demandId a) demandRows of
         None \<Rightarrow> None
       | Some d \<Rightarrow> if as_employeeId a \<in> set employeeIds then Some (as_employeeId a, d) else None) as"

definition picked_rows :: "(nat \<Rightarrow> id) \<Rightarrow> nat \<Rightarrow> (id \<times> demand_row) list \<Rightarrow> shift_row list" where
  "picked_rows fr k ps = map (\<lambda>(i, e, d). auto_shift (fr i) e d) (enumerate k ps)"

lemma picked_rows_simps [simp]:
  "picked_rows fr k [] = []"
  "picked_rows fr k ((e, d) # ps) = auto_shift (fr k) e d # picked_rows fr (Suc k) ps"
  by (simp_all add: picked_rows_def)

lemma in_picked:
  "(e, d) \<in> set (picked ds es as) \<longleftrightarrow>
     e \<in> set es \<and> (\<exists>a \<in> set as. as_employeeId a = e \<and> find_row de_id (as_demandId a) ds = Some d)"
  by (induction as) (auto simp: picked_def List.map_filter_simps split: option.splits)

lemma in_picked_rows: "s \<in> set (picked_rows fr k ps) \<Longrightarrow> \<exists>i e d. (e, d) \<in> set ps \<and> s = auto_shift (fr i) e d"
  by (induction ps arbitrary: k) fastforce+

lemma picked_rows_in: "(e, d) \<in> set ps \<Longrightarrow> \<exists>i. auto_shift (fr i) e d \<in> set (picked_rows fr k ps)"
  by (induction ps arbitrary: k) fastforce+

lemma auto_shift_simps [simp]:
  "sh_id (auto_shift i e d) = i" "sh_employeeId (auto_shift i e d) = e" "sh_source (auto_shift i e d) = AUTO"
  "sh_demandId (auto_shift i e d) = Some (de_id d)" "sh_lokalizacjaId (auto_shift i e d) = de_lokalizacjaId d"
  "sh_date (auto_shift i e d) = de_date d" "sh_start (auto_shift i e d) = de_start d"
  "sh_end (auto_shift i e d) = de_end d" "sh_role (auto_shift i e d) = de_requiredRole d"
  by (simp_all add: auto_shift_def)

lemma picked_rows_ids: "map sh_id (picked_rows fr k ps) = map fr [k..<k + length ps]"
proof -
  have "map sh_id (picked_rows fr k ps) = map fr (map fst (enumerate k ps))"
    unfolding picked_rows_def map_map by (rule map_cong) auto
  then show ?thesis by (simp only: map_fst_enumerate)
qed

lemma persist_Inr:
  "persist fr ds es k as db = (Inr ss, db') \<Longrightarrow>
     ss = picked_rows fr k (picked ds es as) \<and> db' = put_shifts (t_shifts db @ ss) db"
proof (induction as arbitrary: k db ss)
  case (Cons a as)
  show ?case
  proof (cases "find_row de_id (as_demandId a) ds")
    case None
    with Cons show ?thesis by (simp add: picked_def List.map_filter_simps)
  next
    case (Some d)
    show ?thesis
    proof (cases "as_employeeId a \<in> set es")
      case False
      with Some Cons show ?thesis by (simp add: picked_def List.map_filter_simps)
    next
      case True
      let ?s = "auto_shift (fr k) (as_employeeId a) d"
      from Cons.prems Some True obtain ss1
        where rest: "persist fr ds es (Suc k) as (put_shifts (t_shifts db @ [?s]) db) = (Inr ss1, db')" and ss: "ss = ?s # ss1"
        by (auto simp: insert_shift_def bnd_assoc bnd_ret_Inr split: if_splits)
      from Cons.IH [OF rest] ss Some True show ?thesis
        by (simp add: picked_def List.map_filter_simps)
    qed
  qed
qed (simp add: picked_def List.map_filter_simps)

section \<open>Clearing the previous answer\<close>

definition swap_refers :: "id list \<Rightarrow> swap_row \<Rightarrow> bool" where
  "swap_refers ids w \<longleftrightarrow> sw_requesterShiftId w \<in> set ids \<or> sw_targetShiftId w \<in> Some ` set ids"

lemma drop_target_other: "\<not> swap_refers ids w \<Longrightarrow> drop_target ids w = w"
  by (simp add: swap_refers_def drop_target_def)

lemma clear_stale_run:
  "clear_stale ids db =
    (if ids \<noteq> [] \<and> list_ex (\<lambda>p. ap_shiftId p \<in> set ids) (t_proposals db)
     then (Inl (P2003 ''shifts''), put_swaps (delete_rows (swap_refers ids) (t_swaps db)) db)
     else (Inr (), db\<lparr>t_shifts := delete_rows (\<lambda>s. sh_id s \<in> set ids) (t_shifts db),
       t_swaps := delete_rows (swap_refers ids) (t_swaps db)\<rparr>))"
proof (cases "ids = []")
  case True
  then show ?thesis by (simp add: clear_stale_def delete_rows_def swap_refers_def)
next
  case False
  have "map (drop_target ids) (delete_rows (swap_refers ids) ws) = delete_rows (swap_refers ids) ws" for ws
    by (rule map_idI) (simp add: drop_target_other)
  moreover have "\<not> list_ex (\<lambda>w. sw_requesterShiftId w \<in> set ids) (delete_rows (swap_refers ids) ws)" for ws
    by (auto simp: list_ex_iff swap_refers_def)
  moreover have "(\<lambda>w. sw_requesterShiftId w \<in> set ids \<or> sw_targetShiftId w \<in> Some ` set ids) = swap_refers ids"
    by (rule ext) (simp add: swap_refers_def)
  ultimately show ?thesis using False
    by (simp add: clear_stale_def delete_shift_rows_def shifts_restricted_def)
qed

section \<open>The three outcomes\<close>

lemma resolveUnitScope_read_only [simp]: "read_only (resolveUnitScope act u)"
  by (auto simp: resolveUnitScope_def intro!: read_only_bnd)

lemma resolveUnitScope_manager:
  assumes "resolveUnitScope act u db = (Inr scope, db')" and "\<not> isGlobal (act_roles act)"
  shows "\<exists>units. scope = Some units \<and> set units \<subseteq> set (managedUnitIds db (act_userId act))"
  using assms by (auto simp: resolveUnitScope_def absent_id_def split: if_splits)

lemma replace_auto_Inr:
  assumes "replace_auto fr weekStart unitScope w as db = (Inr ss, db')"
  shows "ss = picked_rows fr 0 (picked (wd_demands w) (map em_id (wd_employees w)) as) \<and>
    (let ids = map sh_id (stale_shifts db weekStart unitScope (wd_locIds w))
     in db' = db\<lparr>t_shifts := delete_rows (\<lambda>s. sh_id s \<in> set ids) (t_shifts db) @ ss,
          t_swaps := delete_rows (swap_refers ids) (t_swaps db)\<rparr>)"
  using assms
  by (auto simp: replace_auto_def transaction_Inr_iff bnd_def clear_stale_run Let_def
      dest!: persist_Inr split: if_splits prod.splits sum.splits)

lemma grafik_audit_run:
  "grafik_audit act a t i pl db = (Inr (), db\<lparr>t_audit := t_audit db @ [\<lparr>au_actorUserId = act_userId act, au_action = a,
     au_entityType = t, au_entityId = i, au_payload = JObj pl, au_ipAddress = act_ipAddress act\<rparr>]\<rparr>)"
  by (simp add: grafik_audit_def audit_log_def)

lemma solve_outcomes:
  assumes run: "solveGrafik solve fr shown act dto db = (r, db')"
  obtains
    (refused) e where "r = Inl e" "db' = db"
  | (infeasible) scope result audit where
      "resolveUnitScope act (so_unitId dto) db = (Inr scope, db)"
      "solve (pack_week (so_weekStart dto) (load_week db dto scope)) = Inr result" "sr_status result = INFEASIBLE"
      "r = Inr (solve_answer result [])" "db' = db\<lparr>t_audit := t_audit db @ [audit]\<rparr>"
  | (solved) scope result audit w ids ss where
      "resolveUnitScope act (so_unitId dto) db = (Inr scope, db)" "w = load_week db dto scope"
      "solve (pack_week (so_weekStart dto) w) = Inr result" "sr_status result \<noteq> INFEASIBLE"
      "ids = map sh_id (stale_shifts db (so_weekStart dto) scope (wd_locIds w))"
      "ss = picked_rows fr 0 (picked (wd_demands w) (map em_id (wd_employees w)) (sr_assignments result))"
      "r = Inr (solve_answer result ss)"
      "db' = db\<lparr>t_shifts := delete_rows (\<lambda>s. sh_id s \<in> set ids) (t_shifts db) @ ss,
         t_swaps := delete_rows (swap_refers ids) (t_swaps db), t_audit := t_audit db @ [audit]\<rparr>"
proof (cases "fst (resolveUnitScope act (so_unitId dto) db)")
  case (Inl e)
  then have "resolveUnitScope act (so_unitId dto) db = (Inl e, db)"
    using resolveUnitScope_read_only by (metis prod.collapse read_only_def)
  with run show thesis by (intro refused) (auto simp: solveGrafik_def bnd_eq_Inl)
next
  case (Inr scope)
  then have scope: "resolveUnitScope act (so_unitId dto) db = (Inr scope, db)"
    using resolveUnitScope_read_only by (metis prod.collapse read_only_def)
  let ?w = "load_week db dto scope"
  have rest: "bnd (lift_sum (solve (pack_week (so_weekStart dto) ?w)))
      (solve_persist fr shown act dto scope ?w) db = (r, db')"
    using run by (simp add: solveGrafik_def bnd_eq_Inr [where m = "resolveUnitScope act (so_unitId dto)", OF scope])
  show thesis
  proof (cases "solve (pack_week (so_weekStart dto) ?w)")
    case (Inl e)
    with rest show thesis by (intro refused) auto
  next
    case result: (Inr result)
    show thesis
    proof (cases "sr_status result = INFEASIBLE")
      case True
      with rest result have "solve_persist fr shown act dto scope ?w result db = (r, db')" by simp
      with True obtain a where "r = Inr (solve_answer result [])" "db' = db\<lparr>t_audit := t_audit db @ [a]\<rparr>"
        by (auto simp: solve_persist_def bnd_eq_Inr [where m = "grafik_audit x y z i pl" for x y z i pl, OF grafik_audit_run])
      then show thesis using infeasible [OF scope result True] by blast
    next
      case False
      obtain r1 db1 where repl: "replace_auto fr (so_weekStart dto) scope ?w (sr_assignments result) db = (r1, db1)"
        by (cases "replace_auto fr (so_weekStart dto) scope ?w (sr_assignments result) db")
      show thesis
      proof (cases r1)
        case (Inl e)
        from repl Inl have "db1 = db" unfolding replace_auto_def by (auto dest: transaction_rollback)
        with rest result False Inl repl show thesis
          by (intro refused) (auto simp: solve_persist_def bnd_eq_Inl [where m = "replace_auto fr (so_weekStart dto) scope ?w (sr_assignments result)", OF repl [unfolded Inl]])
      next
        case (Inr ss)
        note ok = repl [unfolded Inr]
        from rest result False obtain a where "r = Inr (solve_answer result ss)" "db' = db1\<lparr>t_audit := t_audit db1 @ [a]\<rparr>"
          by (auto simp: solve_persist_def bnd_eq_Inr [where m = "replace_auto fr (so_weekStart dto) scope ?w (sr_assignments result)", OF ok] bnd_eq_Inr [where m = "grafik_audit x y z i pl" for x y z i pl, OF grafik_audit_run])
        with replace_auto_Inr [OF ok] show thesis
          by (intro solved [OF scope refl result False refl]) (auto simp: Let_def)
      qed
    qed
  qed
qed

end
