(* ===== verification/GrafikSamples.thy ===== *)
theory GrafikSamples
  imports GrafikRun Samples
begin

text \<open>
  A concrete week: the employee \<open>e2\<close> alone in the unit \<open>u2\<close>, with a human-placed shift on Tuesday, and a
  demand for Wednesday.
\<close>

definition planner :: actor where
  "planner = \<lparr>act_userId = ''k9'', act_roles = [''HR''], act_ipAddress = ''ip''\<rparr>"

definition sample_demand :: "id \<Rightarrow> id \<Rightarrow> int \<Rightarrow> demand_row" where
  "sample_demand i l d =
     \<lparr>de_id = i, de_lokalizacjaId = l, de_date = d * day_ms, de_start = ''08:00'', de_end = ''16:00'',
      de_requiredRole = ''chef'', de_requiredCount = 1, de_source = DS_MANUAL\<rparr>"

definition grafik_db :: tenant_db where
  "grafik_db = (sample_db SW_DRAFT)
     \<lparr>t_employees := [sample_employee ''e1'' (Some ''a1'') ''u1'', sample_employee ''e2'' (Some ''a2'') ''u2''],
      t_demands := [sample_demand ''d1'' ''l1'' 6]\<rparr>"

definition week_dto :: "id option \<Rightarrow> id list option \<Rightarrow> solve_dto" where
  "week_dto u ls = \<lparr>so_weekStart = 4 * day_ms, so_unitId = u, so_lokalizacjaIds = ls\<rparr>"

definition unit2_dto :: solve_dto where
  "unit2_dto = week_dto (Some ''u2'') None"

text \<open>Nobody in the samples has coordinates, so there is nothing to travel.\<close>

lemma travel_matrix_none: "\<forall>e \<in> set es. em_homeLat e = None \<Longrightarrow> travel_matrix es ls = []"
  by (simp add: travel_matrix_def both_coords_def)

definition unit2_week :: week_data where
  "unit2_week =
     \<lparr>wd_demands = [sample_demand ''d1'' ''l1'' 6], wd_employees = [sample_employee ''e2'' (Some ''a2'') ''u2''],
      wd_leaves = [], wd_manual = [sample_shift ''s2'' ''e2'' 5], wd_locIds = [''l1''],
      wd_locations = t_lokalizacje grafik_db\<rparr>"

lemma unit2_loaded:
  "resolveUnitScope planner (so_unitId unit2_dto) grafik_db = (Inr (Some [''u2'']), grafik_db)"
  "load_week grafik_db unit2_dto (Some [''u2'']) = unit2_week"
  "so_weekStart unit2_dto = 4 * day_ms"
proof -
  have "fst (resolveUnitScope planner (so_unitId unit2_dto) grafik_db) = Inr (Some [''u2''])" by code_simp
  then show "resolveUnitScope planner (so_unitId unit2_dto) grafik_db = (Inr (Some [''u2'']), grafik_db)"
    using resolveUnitScope_read_only by (metis prod.collapse read_only_def)
  show "load_week grafik_db unit2_dto (Some [''u2'']) = unit2_week" by code_simp
  show "so_weekStart unit2_dto = 4 * day_ms" by (simp add: unit2_dto_def week_dto_def)
qed

lemma unit2_feasible: "full_ok (pack_week (4 * day_ms) unit2_week)"
proof -
  have travel: "travel_matrix (wd_employees unit2_week) (wd_locations unit2_week) = []"
    by (rule travel_matrix_none) (simp add: unit2_week_def sample_employee_def)
  show ?thesis unfolding pack_week_def travel by code_simp
qed

definition unit2_result :: solve_result where
  "unit2_result = full_result (pack_week (4 * day_ms) unit2_week) OPTIMAL"

lemma unit2_assignments:
  "sr_assignments unit2_result = [\<lparr>as_employeeId = ''e2'', as_demandId = ''d1''\<rparr>, \<lparr>as_employeeId = ''e2'', as_demandId = ''__pinned__s2''\<rparr>]"
  "sr_status unit2_result = OPTIMAL" "sr_unmet unit2_result = []"
  by (simp_all add: unit2_result_def full_result_def pack_week_def unit2_week_def pack_employee_def pack_demand_def
      sample_demand_def sample_employee_def sample_shift_def pinned_demand_def pin_token_def)

lemma unit2_solved:
  "\<exists>v db'. solveGrafik full_solve (\<lambda>k. ''n1'') (\<lambda>_. ''1970-01-05'') planner unit2_dto grafik_db = (Inr v, db') \<and>
     sg_status v = OPTIMAL \<and> sg_shifts v = [auto_shift ''n1'' ''e2'' (sample_demand ''d1'' ''l1'' 6)]"
proof -
  have solved: "full_solve (pack_week (4 * day_ms) unit2_week) = Inr unit2_result"
    using unit2_feasible by (simp add: full_solve_def unit2_result_def)
  have "fst (replace_auto (\<lambda>k. ''n1'') (4 * day_ms) (Some [''u2'']) unit2_week
      [\<lparr>as_employeeId = ''e2'', as_demandId = ''d1''\<rparr>, \<lparr>as_employeeId = ''e2'', as_demandId = ''__pinned__s2''\<rparr>] grafik_db) =
      Inr [auto_shift ''n1'' ''e2'' (sample_demand ''d1'' ''l1'' 6)]"
    by code_simp
  then obtain db1 where "replace_auto (\<lambda>k. ''n1'') (4 * day_ms) (Some [''u2'']) unit2_week
      (sr_assignments unit2_result) grafik_db = (Inr [auto_shift ''n1'' ''e2'' (sample_demand ''d1'' ''l1'' 6)], db1)"
    unfolding unit2_assignments by (metis prod.collapse)
  note repl = bnd_eq_Inr [where m = "replace_auto (\<lambda>k. ''n1'') (4 * day_ms) (Some [''u2'']) unit2_week (sr_assignments unit2_result)", OF this]
  show ?thesis
    by (simp add: solveGrafik_def bnd_eq_Inr [where m = "resolveUnitScope planner (so_unitId unit2_dto)", OF unit2_loaded(1)]
        unit2_loaded(2,3) solved solve_persist_def unit2_assignments(2) repl
        bnd_eq_Inr [where m = "grafik_audit x y z i pl" for x y z i pl, OF grafik_audit_run] solve_answer_def)
qed

lemma grafik_db_ok: "wf_keys grafik_db" "day_ms dvd so_weekStart unit2_dto"
  by code_simp+

end
