(* ===== verification/GrafikLegal.thy ===== *)
theory GrafikLegal
  imports GrafikSamples
begin

text \<open>
  What a solved week is worth: with an optimizer that keeps its hard constraints on the packed problem,
  the schedule that is persisted keeps them on the tenant's own rows, the pinned human-placed shifts
  included.
\<close>

section \<open>What the packing relies on\<close>

text \<open>Ids are UUIDs and roles are names of jobs: none of them looks like a pin.\<close>

definition is_pin :: "string \<Rightarrow> bool" where
  "is_pin x \<longleftrightarrow> take 10 x = ''__pinned__''"

definition pins_free :: "tenant_db \<Rightarrow> bool" where
  "pins_free db \<longleftrightarrow>
     list_all (\<lambda>d. \<not> is_pin (de_id d) \<and> \<not> is_pin (de_requiredRole d)) (t_demands db) \<and>
     list_all (\<lambda>e. list_all (\<lambda>q. \<not> is_pin q) (em_qualifications e)) (t_employees db)"

text \<open>A \<open>@db.Date\<close> is a UTC midnight.\<close>

definition dates_aligned :: "tenant_db \<Rightarrow> bool" where
  "dates_aligned db \<longleftrightarrow>
     list_all (\<lambda>d. day_ms dvd de_date d) (t_demands db) \<and> list_all (\<lambda>s. day_ms dvd sh_date s) (t_shifts db)"

lemma is_pin_token [simp]: "is_pin (pin_token s)"
  by (simp add: is_pin_def pin_token_def)

lemma pin_token_inj: "pin_token s = pin_token t \<longleftrightarrow> sh_id s = sh_id t"
  by (simp add: pin_token_def)

lemma isoDate_aligned: "day_ms dvd d \<Longrightarrow> isoDate d = d"
  by (auto simp: isoDate_def utc_midnight_plus_def elim: dvdE)

section \<open>Leave days\<close>

text \<open>In the week, the packed leave days of an employee are the days that an approved leave covers.\<close>

lemma week_day_offset:
  assumes "day_ms dvd w" "day_ms dvd d" "in_week w d"
  shows "\<exists>k \<in> {0..6}. d = w + k * day_ms"
proof -
  from assms(1,2) obtain a b where ab: "w = a * day_ms" "d = b * day_ms" unfolding dvd_def by (metis mult.commute)
  with assms(3) have "a \<le> b \<and> b < a + 7" by (simp add: in_week_def day_ms_def)
  with ab show ?thesis by (intro bexI [of _ "b - a"]) (auto simp: day_ms_def)
qed

lemma leave_days_iff:
  assumes "day_ms dvd w" "day_ms dvd d" "in_week w d" and "e \<in> set es"
  shows "d \<in> set (leave_days w (week_leaves db w es) e) \<longleftrightarrow>
    (\<exists>lv \<in> set (t_leaves db). lv_employeeId lv = e \<and> lv_status lv = LV_APPROVED \<and>
       lv_startDate lv \<le> d \<and> d \<le> lv_endDate lv)" (is "?L \<longleftrightarrow> ?R")
proof
  obtain k where k: "k \<in> {0..6}" "d = w + k * day_ms" using week_day_offset [OF assms(1-3)] by blast
  assume ?R
  then obtain lv where lv: "lv \<in> set (t_leaves db)" "lv_employeeId lv = e" "lv_status lv = LV_APPROVED"
    "lv_startDate lv \<le> d" "d \<le> lv_endDate lv" by blast
  with assms(3,4) have "lv \<in> set (week_leaves db w es)" by (auto simp: week_leaves_def in_week_def)
  with lv k isoDate_aligned [OF assms(2)] show ?L by (force simp: leave_days_def)
next
  assume ?L
  then obtain lv day where "lv \<in> set (week_leaves db w es)" "lv_employeeId lv = e" "lv_startDate lv \<le> day"
    "day \<le> lv_endDate lv" and day: "d = isoDate day" "\<exists>k. day = w + k * day_ms"
    by (auto simp: leave_days_def)
  moreover have "d = day" using day assms(1) by (auto simp: isoDate_aligned)
  ultimately show ?R by (auto simp: week_leaves_def)
qed

section \<open>From the packed problem back to the rows\<close>

abbreviation slot_window :: "int \<Rightarrow> shift_row \<Rightarrow> int \<times> int" where
  "slot_window w s \<equiv> abs_window w (demand_of_shift s)"

text \<open>Two shifts stand for the same slot: a created one for its demand, a human-placed one for itself.\<close>

definition slot :: "shift_row \<Rightarrow> shift_source \<times> id option" where
  "slot s = (sh_source s, if sh_source s = AUTO then sh_demandId s else Some (sh_id s))"

lemma window_eq:
  "di_date a = di_date b \<Longrightarrow> di_start a = di_start b \<Longrightarrow> di_end a = di_end b \<Longrightarrow> abs_window w a = abs_window w b"
  by (simp add: abs_window_def)

lemma packed_facts:
  assumes "w = load_week db dto scope"
  shows "set (wd_demands w) \<subseteq> set (t_demands db)" "set (wd_employees w) \<subseteq> set (t_employees db)"
    "set (wd_manual w) \<subseteq> set (t_shifts db)"
    "d \<in> set (wd_demands w) \<Longrightarrow> in_week (so_weekStart dto) (de_date d)"
    "s \<in> set (wd_manual w) \<Longrightarrow> in_week (so_weekStart dto) (sh_date s) \<and> sh_source s = MANUAL"
    "wd_leaves w = week_leaves db (so_weekStart dto) (map em_id (wd_employees w))"
  by (auto simp: assms load_week_def Let_def week_demands_def scope_employees_def manual_shifts_def)

lemma pins_free_quals:
  assumes "pins_free db" and "e \<in> set (t_employees db)"
  shows "pin_token m \<notin> set (em_qualifications e)"
proof
  assume "pin_token m \<in> set (em_qualifications e)"
  with assms have "\<not> is_pin (pin_token m)" unfolding pins_free_def list_all_iff by blast
  then show False by simp
qed

lemma demand_by_id:
  assumes keys: "wf_keys db" and pins: "pins_free db" and w: "w = load_week db dto scope"
    and d: "d \<in> set (wd_demands w)" and di: "di \<in> set (pi_demands (pack_week ws w))" "di_id di = de_id d"
  shows "di = pack_demand d"
proof -
  from d packed_facts(1) [OF w] have d': "d \<in> set (t_demands db)" by blast
  from di consider d2 where "d2 \<in> set (wd_demands w)" "di = pack_demand d2" | m where "di = pinned_demand m"
    by (auto simp: pack_week_def)
  then show ?thesis
  proof cases
    case 1
    with di(2) packed_facts(1) [OF w] have "d2 \<in> set (t_demands db)" "de_id d2 = de_id d" by (auto simp: pack_demand_def)
    then have "d2 = d"
      using d' wf_keysD(7) [OF keys] by (auto simp: distinct_map dest: inj_onD)
    with 1 show ?thesis by simp
  next
    case 2
    with di(2) have "is_pin (de_id d)" by (simp add: pinned_demand_def) (metis is_pin_token)
    with d' pins show ?thesis by (auto simp: pins_free_def list_all_iff)
  qed
qed

lemma employee_by_id:
  assumes keys: "wf_keys db" and w: "w = load_week db dto scope" and e: "e \<in> set (wd_employees w)"
    and ei: "ei \<in> set (pi_employees (pack_week ws w))" "ei_id ei = em_id e"
  shows "ei = pack_employee ws (wd_leaves w) (wd_manual w) e"
proof -
  from ei obtain e2 where e2: "e2 \<in> set (wd_employees w)" "ei = pack_employee ws (wd_leaves w) (wd_manual w) e2"
    by (auto simp: pack_week_def)
  with ei(2) have "em_id e2 = em_id e" by (simp add: pack_employee_def)
  with e e2 packed_facts(2) [OF w] wf_keysD(6) [OF keys] have "e2 = e" by (auto simp: distinct_map dest: inj_onD)
  with e2 show ?thesis by simp
qed

text \<open>A created row is an assignment of the answer; its employee is qualified and not on leave.\<close>

lemma created_eligible:
  assumes keys: "wf_keys db" and pins: "pins_free db" and w: "w = load_week db dto scope"
    and ok: "phase1_ok (pack_week ws w) (assigned result)"
    and p: "(em_id e, d) \<in> set (picked (wd_demands w) (map em_id (wd_employees w)) (sr_assignments result))"
    and e: "e \<in> set (wd_employees w)"
  shows "d \<in> set (wd_demands w) \<and> (em_id e, de_id d) \<in> assigned result \<and>
    de_requiredRole d \<in> set (em_qualifications e) \<and> isoDate (de_date d) \<notin> set (leave_days ws (wd_leaves w) (em_id e))"
proof -
  from p obtain a where a: "a \<in> set (sr_assignments result)" "as_employeeId a = em_id e"
    and found: "find_row de_id (as_demandId a) (wd_demands w) = Some d" by (auto simp: in_picked)
  from find_row_SomeD [OF found] have d: "d \<in> set (wd_demands w)" and id: "as_demandId a = de_id d" by auto
  with a have x: "(em_id e, de_id d) \<in> assigned result" by (force simp: assigned_def)
  with ok obtain ei di where ei: "ei \<in> set (pi_employees (pack_week ws w))" "ei_id ei = em_id e"
    and di: "di \<in> set (pi_demands (pack_week ws w))" "di_id di = de_id d" and el: "eligible ei di"
    unfolding phase1_ok_def by fastforce
  have "de_requiredRole d \<in> set (em_qualifications e) \<union> set (pinned_quals (wd_manual w) (em_id e))"
    and leave: "isoDate (de_date d) \<notin> set (leave_days ws (wd_leaves w) (em_id e))"
    using el employee_by_id [OF keys w e ei] demand_by_id [OF keys pins w d di]
    by (auto simp: eligible_def pack_employee_def pack_demand_def)
  moreover have "de_requiredRole d \<notin> set (pinned_quals (wd_manual w) (em_id e))"
    using pins d packed_facts(1) [OF w] by (fastforce simp: pins_free_def list_all_iff pinned_quals_def)
  ultimately show ?thesis using d x by blast
qed

text \<open>The pin works: only the employee of a human-placed shift can take its demand, so they do.\<close>

lemma pinned_assigned:
  assumes keys: "wf_keys db" and pins: "pins_free db" and w: "w = load_week db dto scope"
    and ok: "phase1_ok (pack_week ws w) X" and m: "m \<in> set (wd_manual w)"
  shows "(sh_employeeId m, pin_token m) \<in> X \<and>
    (\<exists>e \<in> set (wd_employees w). em_id e = sh_employeeId m \<and> isoDate (sh_date m) \<notin> set (leave_days ws (wd_leaves w) (em_id e)))"
proof -
  have "pinned_demand m \<in> set (pi_demands (pack_week ws w))" using m by (simp add: pack_week_def)
  with ok have "card {eid. (eid, di_id (pinned_demand m)) \<in> X} = 1"
    unfolding phase1_ok_def by (force simp: pinned_demand_def)
  then obtain eid where x: "(eid, pin_token m) \<in> X" by (auto simp: card_1_singleton_iff pinned_demand_def)
  with ok obtain ei di where ei: "ei \<in> set (pi_employees (pack_week ws w))" "ei_id ei = eid"
    and di: "di \<in> set (pi_demands (pack_week ws w))" "di_id di = pin_token m" and el: "eligible ei di"
    unfolding phase1_ok_def by fastforce
  from ei obtain e where e: "e \<in> set (wd_employees w)" "ei = pack_employee ws (wd_leaves w) (wd_manual w) e" "em_id e = eid"
    by (auto simp: pack_week_def pack_employee_def)
  from di consider d where "d \<in> set (wd_demands w)" "di = pack_demand d" | m2 where "m2 \<in> set (wd_manual w)" "di = pinned_demand m2"
    by (auto simp: pack_week_def)
  then have di_eq: "di = pinned_demand m"
  proof cases
    case 1
    with di(2) have "is_pin (de_id d)" by (simp add: pack_demand_def)
    with 1 pins packed_facts(1) [OF w] show ?thesis by (auto simp: pins_free_def list_all_iff)
  next
    case 2
    with di(2) have "sh_id m2 = sh_id m" by (simp add: pinned_demand_def pin_token_inj)
    with 2 m packed_facts(3) [OF w] wf_keysD(1) [OF keys] have "m2 = m" by (auto simp: distinct_map dest: inj_onD)
    with 2 show ?thesis by simp
  qed
  have "pin_token m \<in> set (em_qualifications e) \<union> set (pinned_quals (wd_manual w) eid)"
    and leave: "isoDate (sh_date m) \<notin> set (leave_days ws (wd_leaves w) eid)"
    using el e di_eq by (auto simp: eligible_def pack_employee_def pinned_demand_def)
  moreover have "pin_token m \<notin> set (em_qualifications e)"
    using pins_free_quals [OF pins] e packed_facts(2) [OF w] by blast
  ultimately obtain m2 where m2: "m2 \<in> set (wd_manual w)" "sh_employeeId m2 = eid" "sh_id m2 = sh_id m"
    by (auto simp: pinned_quals_def pin_token_inj)
  with m packed_facts(3) [OF w] wf_keysD(1) [OF keys] have "m2 = m" by (auto simp: distinct_map dest: inj_onD)
  with m2 x e leave show ?thesis by auto
qed

section \<open>The legal week\<close>

lemma phase1_ok_apart:
  assumes "phase1_ok p X" "d1 \<in> set (pi_demands p)" "d2 \<in> set (pi_demands p)"
    and "(eid, di_id d1) \<in> X" "(eid, di_id d2) \<in> X" "di_id d1 \<noteq> di_id d2"
  shows "\<not> conflict (abs_window (pi_weekStart p) d1) (abs_window (pi_weekStart p) d2)"
  using assms unfolding phase1_ok_def by blast

text \<open>
  The shifts of an employee that the run is answerable for: the ones it created, and the human-placed ones
  of the week at the requested locations.
\<close>

definition scheduled :: "solve_dto \<Rightarrow> shift_row list \<Rightarrow> tenant_db \<Rightarrow> id \<Rightarrow> shift_row list" where
  "scheduled dto created db e =
     filter (\<lambda>s. sh_employeeId s = e \<and> (s \<in> set created \<or>
        sh_source s = MANUAL \<and> in_week (so_weekStart dto) (sh_date s) \<and> in_opt (so_lokalizacjaIds dto) (sh_lokalizacjaId s)))
       (t_shifts db)"

definition slot_key :: "shift_row \<Rightarrow> id" where
  "slot_key s = (if sh_source s = AUTO then the (sh_demandId s) else pin_token s)"

lemma scheduled_slot:
  assumes keys: "wf_keys db" and pins: "pins_free db" and w: "w = load_week db dto scope"
    and ok: "phase1_ok (pack_week ws w) (assigned result)"
    and created: "created = picked_rows fr 0 (picked (wd_demands w) (map em_id (wd_employees w)) (sr_assignments result))"
    and e: "e \<in> set (wd_employees w)" and s: "s \<in> set created \<or> s \<in> set (wd_manual w)" "sh_employeeId s = em_id e"
  shows "(\<exists>di \<in> set (pi_demands (pack_week ws w)). di_id di = slot_key s \<and> (em_id e, slot_key s) \<in> assigned result \<and>
       abs_window ws di = slot_window ws s) \<and>
     isoDate (sh_date s) \<notin> set (leave_days ws (wd_leaves w) (em_id e)) \<and>
     (sh_source s = AUTO \<longrightarrow> sh_role s \<in> set (em_qualifications e) \<and>
        (\<exists>d \<in> set (wd_demands w). sh_date s = de_date d \<and> sh_demandId s = Some (de_id d)))"
proof (cases "s \<in> set created")
  case True
  then obtain i e2 d where p: "(e2, d) \<in> set (picked (wd_demands w) (map em_id (wd_employees w)) (sr_assignments result))"
    and sr: "s = auto_shift (fr i) e2 d" unfolding created by (auto dest: in_picked_rows)
  with s(2) have p': "(em_id e, d) \<in> set (picked (wd_demands w) (map em_id (wd_employees w)) (sr_assignments result))" by simp
  note c = created_eligible [OF keys pins w ok p' e]
  have "abs_window ws (pack_demand d) = slot_window ws s" unfolding sr
    by (rule window_eq) (simp_all add: pack_demand_def demand_of_shift_def)
  with c have "\<exists>di \<in> set (pi_demands (pack_week ws w)). di_id di = slot_key s \<and> (em_id e, slot_key s) \<in> assigned result \<and>
       abs_window ws di = slot_window ws s"
    by (intro bexI [of _ "pack_demand d"]) (simp_all add: pack_week_def pack_demand_def slot_key_def sr)
  with c show ?thesis by (auto simp: sr)
next
  case False
  with s have m: "s \<in> set (wd_manual w)" by simp
  note c = pinned_assigned [OF keys pins w ok m]
  have src: "sh_source s = MANUAL" using packed_facts(5) [OF w m] by simp
  have "abs_window ws (pinned_demand s) = slot_window ws s"
    by (rule window_eq) (simp_all add: pinned_demand_def demand_of_shift_def)
  with c s(2) m src have "\<exists>di \<in> set (pi_demands (pack_week ws w)). di_id di = slot_key s \<and> (em_id e, slot_key s) \<in> assigned result \<and>
       abs_window ws di = slot_window ws s"
    by (intro bexI [of _ "pinned_demand s"]) (simp_all add: pack_week_def pinned_demand_def slot_key_def)
  with c s(2) src show ?thesis by auto
qed

lemma slot_key_inj:
  assumes keys: "wf_keys db" and pins: "pins_free db" and w: "w = load_week db dto scope"
    and "\<forall>s \<in> {s1, s2}. (sh_source s = AUTO \<longrightarrow> (\<exists>d \<in> set (wd_demands w). sh_demandId s = Some (de_id d)))"
    and "slot s1 \<noteq> slot s2"
  shows "slot_key s1 \<noteq> slot_key s2"
proof -
  have np: "\<not> is_pin (de_id d)" if "d \<in> set (wd_demands w)" for d
    using that pins packed_facts(1) [OF w] by (auto simp: pins_free_def list_all_iff)
  have cases: "sh_source s = AUTO \<and> (\<exists>i. sh_demandId s = Some i \<and> \<not> is_pin i) \<or> sh_source s = MANUAL" if "s \<in> {s1, s2}" for s
    using that assms(4) np by (cases "sh_source s") auto
  from cases [of s1] cases [of s2] assms(5) is_pin_token [of s1] is_pin_token [of s2] show ?thesis
    by (auto simp: slot_key_def slot_def pin_token_inj)
qed

lemma covered:
  assumes keys: "wf_keys db" and pins: "pins_free db" and w: "w = load_week db dto scope"
    and ok: "phase1_ok (pack_week ws w) (assigned result)"
    and created: "created = picked_rows fr 0 (picked (wd_demands w) (map em_id (wd_employees w)) (sr_assignments result))"
    and d: "d \<in> set (wd_demands w)"
  shows "int (card {sh_employeeId s |s. s \<in> set created \<and> sh_demandId s = Some (de_id d)}) = de_requiredCount d"
proof -
  let ?ps = "picked (wd_demands w) (map em_id (wd_employees w)) (sr_assignments result)"
  have unique: "d2 = d" if "d2 \<in> set (wd_demands w)" "de_id d2 = de_id d" for d2
    using that d packed_facts(1) [OF w] wf_keysD(7) [OF keys] by (auto simp: distinct_map dest: inj_onD)
  have found: "find_row de_id (de_id d) (wd_demands w) = Some d"
  proof (cases "find_row de_id (de_id d) (wd_demands w)")
    case None
    with d show ?thesis by (auto simp: find_row_None_iff)
  next
    case (Some d2)
    with unique [of d2] find_row_SomeD [OF Some] show ?thesis by simp
  qed
  have "{sh_employeeId s |s. s \<in> set created \<and> sh_demandId s = Some (de_id d)} = {e. (e, de_id d) \<in> assigned result}" (is "?A = ?B")
  proof (intro equalityI subsetI)
    fix e
    assume "e \<in> ?A"
    then obtain s where s: "s \<in> set created" "sh_demandId s = Some (de_id d)" "e = sh_employeeId s" by blast
    then obtain i e2 d2 where "(e2, d2) \<in> set ?ps" "s = auto_shift (fr i) e2 d2" unfolding created by (auto dest: in_picked_rows)
    with s obtain a where a: "a \<in> set (sr_assignments result)" "as_employeeId a = e"
        "find_row de_id (as_demandId a) (wd_demands w) = Some d2" "de_id d2 = de_id d"
      by (auto simp: in_picked)
    with find_row_SomeD [OF a(3)] have "as_demandId a = de_id d" by simp
    with a show "e \<in> ?B" by (force simp: assigned_def)
  next
    fix e
    assume e: "e \<in> ?B"
    with ok have "e \<in> set (map em_id (wd_employees w))"
      unfolding phase1_ok_def by (force simp: pack_week_def pack_employee_def)
    with e found have "(e, d) \<in> set ?ps" by (auto simp: in_picked assigned_def)
    from picked_rows_in [OF this, of fr 0] obtain i where "auto_shift (fr i) e d \<in> set created" unfolding created by blast
    then show "e \<in> ?A" by force
  qed
  moreover have "int (card {e. (e, di_id (pack_demand d)) \<in> assigned result}) = di_count (pack_demand d)"
    using ok d unfolding phase1_ok_def by (auto simp: pack_week_def)
  ultimately show ?thesis by (simp add: pack_demand_def)
qed

text \<open>
  C18. The schedule that a run leaves behind is legal on the tenant's own rows, when the optimizer keeps its
  hard constraints: nobody in scope works on a day of approved leave, whoever is assigned is qualified, no
  employee gets two different slots that overlap or leave less than eleven hours of rest, the shifts that
  people placed by hand included, and every demand of the week gets exactly the asked number of people.
\<close>

theorem solved_week_legal:
  assumes sound: "sound_optimizer solve" and keys: "wf_keys db" and pins: "pins_free db"
    and dates: "dates_aligned db" "day_ms dvd so_weekStart dto"
    and run: "solveGrafik solve fr shown act dto db = (Inr v, db')" and feasible: "sg_status v \<noteq> INFEASIBLE"
    and scope: "resolveUnitScope act (so_unitId dto) db = (Inr scope, db)"
  shows "(\<forall>e \<in> set (scope_employees db scope).
      let mine = set (scheduled dto (sg_shifts v) db' (em_id e)) in
      (\<forall>s \<in> mine. \<not> (\<exists>lv \<in> set (t_leaves db). lv_employeeId lv = em_id e \<and> lv_status lv = LV_APPROVED \<and>
          lv_startDate lv \<le> sh_date s \<and> sh_date s \<le> lv_endDate lv)) \<and>
      (\<forall>s \<in> mine. sh_source s = AUTO \<longrightarrow> sh_role s \<in> set (em_qualifications e)) \<and>
      (\<forall>s1 \<in> mine. \<forall>s2 \<in> mine. slot s1 \<noteq> slot s2 \<longrightarrow>
          \<not> conflict (slot_window (so_weekStart dto) s1) (slot_window (so_weekStart dto) s2))) \<and>
    (\<forall>d \<in> set (week_demands db dto).
      int (card {sh_employeeId s |s. s \<in> set (sg_shifts v) \<and> sh_demandId s = Some (de_id d)}) = de_requiredCount d)"
  using run
proof (cases rule: solve_outcomes)
  case (solved scope2 result audit w ids ss)
  let ?ws = "so_weekStart dto"
  from solved scope have sc: "scope2 = scope" and ss: "sg_shifts v = ss" by (auto simp: solve_answer_def)
  note w = solved(2) [unfolded sc]
  have ok: "phase1_ok (pack_week ?ws w) (assigned result)"
    by (rule sound_optimizerD [OF sound solved(3,4)])
  have emps: "wd_employees w = scope_employees db scope" and dems: "wd_demands w = week_demands db dto"
    by (simp_all add: w load_week_def Let_def)
  have mine_cases: "(s \<in> set ss \<or> s \<in> set (wd_manual w)) \<and> sh_employeeId s = em_id e"
    if e: "e \<in> set (wd_employees w)" and s: "s \<in> set (scheduled dto ss db' (em_id e))" for e s
  proof -
    have man: "wd_manual w = manual_shifts db dto (map em_id (wd_employees w))"
      by (simp add: w load_week_def Let_def)
    moreover have "s \<in> set (t_shifts db) \<or> s \<in> set ss" using s solved(8) by (auto simp: scheduled_def)
    ultimately show ?thesis using s e unfolding man by (auto simp: scheduled_def manual_shifts_def)
  qed
  have one: "let mine = set (scheduled dto ss db' (em_id e)) in
      (\<forall>s \<in> mine. \<not> (\<exists>lv \<in> set (t_leaves db). lv_employeeId lv = em_id e \<and> lv_status lv = LV_APPROVED \<and>
          lv_startDate lv \<le> sh_date s \<and> sh_date s \<le> lv_endDate lv)) \<and>
      (\<forall>s \<in> mine. sh_source s = AUTO \<longrightarrow> sh_role s \<in> set (em_qualifications e)) \<and>
      (\<forall>s1 \<in> mine. \<forall>s2 \<in> mine. slot s1 \<noteq> slot s2 \<longrightarrow> \<not> conflict (slot_window ?ws s1) (slot_window ?ws s2))"
    if e: "e \<in> set (wd_employees w)" for e
  proof -
    note slots = scheduled_slot [OF keys pins w ok solved(6) e]
    have free: "\<not> (\<exists>lv \<in> set (t_leaves db). lv_employeeId lv = em_id e \<and> lv_status lv = LV_APPROVED \<and>
        lv_startDate lv \<le> sh_date s \<and> sh_date s \<le> lv_endDate lv)"
      if s: "s \<in> set (scheduled dto ss db' (em_id e))" for s
    proof -
      note c = mine_cases [OF e s]
      from slots [of s] c have leave: "isoDate (sh_date s) \<notin> set (leave_days ?ws (wd_leaves w) (em_id e))"
        and auto: "sh_source s = AUTO \<longrightarrow> (\<exists>d \<in> set (wd_demands w). sh_date s = de_date d)" by auto
      have "in_week ?ws (sh_date s) \<and> day_ms dvd sh_date s"
      proof (cases "sh_source s = AUTO")
        case True
        with auto packed_facts(1,4) [OF w] dates(1) show ?thesis by (auto simp: dates_aligned_def list_all_iff)
      next
        case False
        then have "s \<in> set (wd_manual w)" using c solved(6) by (auto dest: in_picked_rows)
        with packed_facts(3,5) [OF w] dates(1) show ?thesis by (auto simp: dates_aligned_def list_all_iff)
      qed
      with leave e show ?thesis
        using leave_days_iff [OF dates(2), of "sh_date s" "em_id e" "map em_id (wd_employees w)" db]
        by (simp add: packed_facts(6) [OF w] isoDate_aligned)
    qed
    have apart: "\<not> conflict (slot_window ?ws s1) (slot_window ?ws s2)"
      if s1: "s1 \<in> set (scheduled dto ss db' (em_id e))" and s2: "s2 \<in> set (scheduled dto ss db' (em_id e))"
        and ne: "slot s1 \<noteq> slot s2" for s1 s2
    proof -
      note c1 = slots [of s1] mine_cases [OF e s1] and c2 = slots [of s2] mine_cases [OF e s2]
      from c1 obtain d1 where d1: "d1 \<in> set (pi_demands (pack_week ?ws w))" "di_id d1 = slot_key s1"
        "(em_id e, slot_key s1) \<in> assigned result" "abs_window ?ws d1 = slot_window ?ws s1" by blast
      from c2 obtain d2 where d2: "d2 \<in> set (pi_demands (pack_week ?ws w))" "di_id d2 = slot_key s2"
        "(em_id e, slot_key s2) \<in> assigned result" "abs_window ?ws d2 = slot_window ?ws s2" by blast
      have "slot_key s1 \<noteq> slot_key s2"
        by (rule slot_key_inj [OF keys pins w _ ne]) (use c1 c2 in blast)
      then have "\<not> conflict (abs_window (pi_weekStart (pack_week ?ws w)) d1) (abs_window (pi_weekStart (pack_week ?ws w)) d2)"
        by (intro phase1_ok_apart [OF ok d1(1) d2(1), of "em_id e"]) (simp_all add: d1(2,3) d2(2,3))
      with d1(4) d2(4) show ?thesis by (simp add: pack_week_def)
    qed
    have "sh_role s \<in> set (em_qualifications e)"
      if "s \<in> set (scheduled dto ss db' (em_id e))" "sh_source s = AUTO" for s
      using slots [of s] mine_cases [OF e that(1)] that(2) by blast
    with free apart show ?thesis unfolding Let_def by blast
  qed
  have "int (card {sh_employeeId s |s. s \<in> set ss \<and> sh_demandId s = Some (de_id d)}) = de_requiredCount d"
    if "d \<in> set (wd_demands w)" for d
    using covered [OF keys pins w ok solved(6) that] .
  with one show ?thesis unfolding ss emps dems by blast
qed (use feasible in \<open>auto simp: solve_answer_def\<close>)

lemma grafik_db_conventions: "pins_free grafik_db" "dates_aligned grafik_db"
  by code_simp+

theorem solved_week_legal_witness:
  "\<exists>v db'. solveGrafik full_solve (\<lambda>k. ''n1'') (\<lambda>_. ''1970-01-05'') planner unit2_dto grafik_db = (Inr v, db') \<and>
     int (card {sh_employeeId s |s. s \<in> set (sg_shifts v) \<and> sh_demandId s = Some ''d1''}) = 1 \<and>
     (\<forall>s1 \<in> set (scheduled unit2_dto (sg_shifts v) db' ''e2''). \<forall>s2 \<in> set (scheduled unit2_dto (sg_shifts v) db' ''e2'').
        slot s1 \<noteq> slot s2 \<longrightarrow> \<not> conflict (slot_window (4 * day_ms) s1) (slot_window (4 * day_ms) s2))"
proof -
  from unit2_solved obtain v db' where run:
    "solveGrafik full_solve (\<lambda>k. ''n1'') (\<lambda>_. ''1970-01-05'') planner unit2_dto grafik_db = (Inr v, db')"
    and st: "sg_status v \<noteq> INFEASIBLE" by fastforce
  note legal = solved_week_legal [OF full_solve_sound grafik_db_ok(1) grafik_db_conventions grafik_db_ok(2) run st unit2_loaded(1)]
  have d: "sample_demand ''d1'' ''l1'' 6 \<in> set (week_demands grafik_db unit2_dto)"
    and e: "sample_employee ''e2'' (Some ''a2'') ''u2'' \<in> set (scope_employees grafik_db (Some [''u2'']))"
    by code_simp+
  from bspec [OF conjunct2 [OF legal] d] have "int (card {sh_employeeId s |s. s \<in> set (sg_shifts v) \<and> sh_demandId s = Some ''d1''}) = 1"
    by (simp add: sample_demand_def)
  moreover from bspec [OF conjunct1 [OF legal] e]
  have "\<forall>s1 \<in> set (scheduled unit2_dto (sg_shifts v) db' ''e2''). \<forall>s2 \<in> set (scheduled unit2_dto (sg_shifts v) db' ''e2'').
        slot s1 \<noteq> slot s2 \<longrightarrow> \<not> conflict (slot_window (4 * day_ms) s1) (slot_window (4 * day_ms) s2)"
    by (simp add: Let_def sample_employee_def unit2_loaded(3))
  ultimately show ?thesis using run by blast
qed

end
