(* ===== verification/GrafikEffects.thy ===== *)
theory GrafikEffects
  imports GrafikSamples
begin

text \<open>
  What a run of the solver changes, whatever the optimizer answers: the exact set of shifts it replaces,
  and that running it again gives the same schedule as far as the solver is reproducible.
\<close>

section \<open>The replaced shifts\<close>

text \<open>A shift that a run replaces, read off the tenant's rows.\<close>

definition replaceable :: "tenant_db \<Rightarrow> solve_dto \<Rightarrow> id list option \<Rightarrow> shift_row \<Rightarrow> bool" where
  "replaceable db dto scope s \<longleftrightarrow>
     sh_source s = AUTO \<and> in_week (so_weekStart dto) (sh_date s) \<and>
     sh_lokalizacjaId s \<in> set (wd_locIds (load_week db dto scope)) \<and>
     (\<forall>units. scope = Some units \<longrightarrow> shift_in_units db units s)"

lemma stale_iff:
  "s \<in> set (stale_shifts db (so_weekStart dto) scope (wd_locIds (load_week db dto scope))) \<longleftrightarrow>
     s \<in> set (t_shifts db) \<and> replaceable db dto scope s"
  by (auto simp: stale_shifts_def replaceable_def split: option.splits)

lemma stale_set:
  "set (stale_shifts db (so_weekStart dto) scope (wd_locIds (load_week db dto scope))) =
     {s \<in> set (t_shifts db). replaceable db dto scope s}"
  by (auto simp: stale_iff)

lemma delete_stale:
  assumes "distinct (map sh_id (t_shifts db))"
  shows "delete_rows (\<lambda>s. sh_id s \<in> set (map sh_id (stale_shifts db (so_weekStart dto) scope
      (wd_locIds (load_week db dto scope))))) (t_shifts db) = filter (\<lambda>s. \<not> replaceable db dto scope s) (t_shifts db)"
  unfolding delete_rows_def set_map stale_set
proof (rule filter_cong [OF refl])
  fix s
  assume s: "s \<in> set (t_shifts db)"
  have "inj_on sh_id (set (t_shifts db))" using assms by (simp add: distinct_map)
  from inj_on_image_mem_iff [OF this s, of "{t \<in> set (t_shifts db). replaceable db dto scope t}"] s
  show "(sh_id s \<notin> sh_id ` {t \<in> set (t_shifts db). replaceable db dto scope t}) = (\<not> replaceable db dto scope s)"
    by simp
qed

lemma in_locIds: "d \<in> set (wd_demands (load_week db dto scope)) \<Longrightarrow> de_lokalizacjaId d \<in> set (wd_locIds (load_week db dto scope))"
  by (auto simp: load_week_def Let_def packed_locs_def uniq_def)

text \<open>Every created shift fills a demand of the week with an employee of the scope.\<close>

lemma created_in_scope:
  assumes w: "w = load_week db dto scope"
    and s: "s \<in> set (picked_rows fr k (picked (wd_demands w) (map em_id (wd_employees w)) as))"
  shows "\<exists>d \<in> set (week_demands db dto). \<exists>e \<in> set (scope_employees db scope). \<exists>i. s = auto_shift i (em_id e) d \<and>
     replaceable db dto scope s"
proof -
  from s obtain i e d where p: "(e, d) \<in> set (picked (wd_demands w) (map em_id (wd_employees w)) as)" "s = auto_shift (fr i) e d"
    by (auto dest: in_picked_rows)
  then have "e \<in> em_id ` set (wd_employees w)" and d: "d \<in> set (wd_demands w)" by (auto simp: in_picked dest: find_row_SomeD)
  then obtain emp where emp: "emp \<in> set (wd_employees w)" "e = em_id emp" by auto
  with p d have "replaceable db dto scope s"
    using in_locIds [of d db dto scope]
    by (auto simp: replaceable_def w load_week_def Let_def week_demands_def scope_employees_def in_opt_def
        shift_in_units_def employee_unit_in_def list_ex_iff)
  with p emp d show ?thesis by (auto simp: w load_week_def Let_def)
qed

text \<open>
  C19. The trust boundary of the solver. Whatever the optimizer answers, a run that fails has changed
  nothing, an infeasible one only writes the audit log, and a feasible one replaces exactly the
  machine-made shifts of the week at the packed locations, of employees in the caller's scope, by rows
  that each fill a demand of the requested week with an employee of the scope. Shifts placed by people,
  other weeks and other units stay, and only swap requests about replaced shifts go with them.
\<close>

theorem solve_replaces_exactly:
  assumes keys: "wf_keys db" and run: "solveGrafik solve fr shown act dto db = (r, db')"
  shows "(case r of
      Inl e \<Rightarrow> db' = db
    | Inr v \<Rightarrow> (\<exists>scope audit. resolveUnitScope act (so_unitId dto) db = (Inr scope, db) \<and>
        db' = db\<lparr>t_shifts := t_shifts db', t_swaps := t_swaps db', t_audit := t_audit db @ [audit]\<rparr> \<and>
        (if sg_status v = INFEASIBLE then t_shifts db' = t_shifts db \<and> t_swaps db' = t_swaps db \<and> sg_shifts v = []
         else t_shifts db' = filter (\<lambda>s. \<not> replaceable db dto scope s) (t_shifts db) @ sg_shifts v \<and>
           t_swaps db' = filter (\<lambda>w. \<not> (\<exists>s \<in> set (t_shifts db). replaceable db dto scope s \<and>
               (sw_requesterShiftId w = sh_id s \<or> sw_targetShiftId w = Some (sh_id s)))) (t_swaps db) \<and>
           (\<forall>s \<in> set (sg_shifts v). \<exists>d \<in> set (week_demands db dto). \<exists>e \<in> set (scope_employees db scope).
              \<exists>i. s = auto_shift i (em_id e) d))))"
  using run
proof (cases rule: solve_outcomes)
  case (solved scope result audit w ids ss)
  have st: "sg_status (solve_answer result ss) \<noteq> INFEASIBLE" "sg_shifts (solve_answer result ss) = ss"
    using solved(4) by (simp_all add: solve_answer_def)
  have ids: "set ids = sh_id ` {s \<in> set (t_shifts db). replaceable db dto scope s}"
    unfolding solved(5) solved(2) by (auto simp: stale_iff)
  have shifts: "t_shifts db' = filter (\<lambda>s. \<not> replaceable db dto scope s) (t_shifts db) @ ss"
    using delete_stale [OF wf_keysD(1) [OF keys], of dto scope] by (simp add: solved(8,5,2))
  have swaps: "t_swaps db' = filter (\<lambda>w. \<not> (\<exists>s \<in> set (t_shifts db). replaceable db dto scope s \<and>
      (sw_requesterShiftId w = sh_id s \<or> sw_targetShiftId w = Some (sh_id s)))) (t_swaps db)"
    unfolding solved(8) by (auto simp: delete_rows_def swap_refers_def ids intro!: filter_cong)
  have "\<forall>s \<in> set ss. \<exists>d \<in> set (week_demands db dto). \<exists>e \<in> set (scope_employees db scope). \<exists>i. s = auto_shift i (em_id e) d"
    using created_in_scope [OF solved(2)] unfolding solved(6) by blast
  moreover have "db' = db\<lparr>t_shifts := t_shifts db', t_swaps := t_swaps db', t_audit := t_audit db @ [audit]\<rparr>"
    by (simp add: solved(8))
  ultimately show ?thesis
    unfolding solved(7) sum.case st(2) if_not_P [OF st(1)] using shifts swaps solved(1) by blast
qed (auto simp: solve_answer_def)

theorem solve_replaces_exactly_witness:
  "\<exists>v db'. solveGrafik full_solve (\<lambda>k. ''n1'') (\<lambda>_. ''1970-01-05'') planner unit2_dto grafik_db = (Inr v, db') \<and>
     t_shifts db' = t_shifts grafik_db @ [auto_shift ''n1'' ''e2'' (sample_demand ''d1'' ''l1'' 6)]"
proof -
  from unit2_solved obtain v db' where run:
    "solveGrafik full_solve (\<lambda>k. ''n1'') (\<lambda>_. ''1970-01-05'') planner unit2_dto grafik_db = (Inr v, db')"
    and v: "sg_status v = OPTIMAL" "sg_shifts v = [auto_shift ''n1'' ''e2'' (sample_demand ''d1'' ''l1'' 6)]" by blast
  have none: "filter (\<lambda>s. \<not> replaceable grafik_db unit2_dto scope s) (t_shifts grafik_db) = t_shifts grafik_db" for scope
    by (rule filter_True) (simp add: grafik_db_def sample_db_def sample_shift_def replaceable_def)
  from solve_replaces_exactly [OF grafik_db_ok(1) run] v
  have "t_shifts db' = t_shifts grafik_db @ [auto_shift ''n1'' ''e2'' (sample_demand ''d1'' ''l1'' 6)]"
    by (auto simp: none)
  with run show ?thesis by blast
qed

section \<open>Solving again\<close>

lemma resolveUnitScope_cong:
  assumes "t_users db1 = t_users db" "t_userRoles db1 = t_userRoles db"
    and "resolveUnitScope act u db = (Inr scope, db)"
  shows "resolveUnitScope act u db1 = (Inr scope, db1)"
  using assms by (auto simp: resolveUnitScope_def managedUnitIds_def user_has_sub_def split: if_splits)

lemma load_week_cong:
  assumes "t_demands db1 = t_demands db" "t_employees db1 = t_employees db" "t_leaves db1 = t_leaves db"
    and "t_lokalizacje db1 = t_lokalizacje db"
    and "filter (\<lambda>s. sh_source s = MANUAL) (t_shifts db1) = filter (\<lambda>s. sh_source s = MANUAL) (t_shifts db)"
  shows "load_week db1 dto scope = load_week db dto scope"
proof -
  have manual: "manual_shifts d dto es = filter (\<lambda>s. in_week (so_weekStart dto) (sh_date s) \<and>
       sh_employeeId s \<in> set es \<and> in_opt (so_lokalizacjaIds dto) (sh_lokalizacjaId s))
     (filter (\<lambda>s. sh_source s = MANUAL) (t_shifts d))" for d es
    by (auto simp: manual_shifts_def intro: filter_cong)
  show ?thesis
    unfolding load_week_def manual by (simp add: Let_def assms week_demands_def scope_employees_def week_leaves_def)
qed

definition without_id :: "shift_row \<Rightarrow> shift_row" where
  "without_id s = s\<lparr>sh_id := []\<rparr>"

lemma without_id_picked: "map without_id (picked_rows fr k ps) = map (\<lambda>(e, d). auto_shift [] e d) ps"
  by (induction ps arbitrary: k) (auto simp: without_id_def auto_shift_def)

text \<open>
  C20. Solving a week again replaces the machine's answer by the same answer, as far as the solver is
  reproducible. The second run calls a possibly different optimizer \<open>solve2\<close>, of which only the documented
  guarantee is used: an answer with the status \<open>OPTIMAL\<close> is given again for the same problem, while nothing is
  known after a hit time limit or for a \<open>FEASIBLE\<close> answer. If the first run was optimal, the second one has the
  same status, and the shifts it leaves differ from the ones it found in nothing but the ids of the created
  rows: replacing the machine's own rows gives back the same problem.
\<close>

theorem resolve_same_schedule:
  assumes keys: "wf_keys db" and fresh: "\<forall>k. fr1 k \<notin> sh_id ` set (t_shifts db)"
    and reproducible: "\<And>p result. solve1 p = Inr result \<Longrightarrow> sr_status result = OPTIMAL \<Longrightarrow> solve2 p = Inr result"
    and run1: "solveGrafik solve1 fr1 shown act dto db = (Inr v1, db1)" and optimal: "sg_status v1 = OPTIMAL"
    and run2: "solveGrafik solve2 fr2 shown act dto db1 = (Inr v2, db2)"
  shows "sg_status v2 = OPTIMAL \<and> map without_id (t_shifts db2) = map without_id (t_shifts db1)"
  using run1
proof (cases rule: solve_outcomes)
  case (infeasible scope result audit)
  with optimal show ?thesis by (simp add: solve_answer_def)
next
  case (solved scope result audit w ids ss)
  let ?ps = "picked (wd_demands w) (map em_id (wd_employees w)) (sr_assignments result)"
  let ?kept = "filter (\<lambda>s. \<not> replaceable db dto scope s) (t_shifts db)"
  have shifts1: "t_shifts db1 = ?kept @ ss"
    using delete_stale [OF wf_keysD(1) [OF keys], of dto scope] by (simp add: solved(8,5,2))
  have sc: "resolveUnitScope act (so_unitId dto) db1 = (Inr scope, db1)"
    using solved(1) by (intro resolveUnitScope_cong [of db1 db]) (simp_all add: solved(8))
  have wk: "load_week db1 dto scope = load_week db dto scope"
  proof (rule load_week_cong)
    have "filter (\<lambda>s. sh_source s = MANUAL) ss = []"
      unfolding solved(6) by (auto simp: filter_empty_conv dest!: in_picked_rows)
    then show "filter (\<lambda>s. sh_source s = MANUAL) (t_shifts db1) = filter (\<lambda>s. sh_source s = MANUAL) (t_shifts db)"
      unfolding shifts1 by (auto simp: replaceable_def intro!: filter_cong)
  qed (simp_all add: solved(8))
  have emps: "t_employees db1 = t_employees db" by (simp add: solved(8))
  have repl: "replaceable db1 dto scope s = replaceable db dto scope s" for s
    by (simp add: replaceable_def wk shift_in_units_def employee_unit_in_def emps)
  have scoped: "replaceable db dto scope s" if "s \<in> set ss" for s
    using created_in_scope [OF solved(2), of s fr1 0] that unfolding solved(6) by blast
  have ss_ids: "set (map sh_id ss) \<subseteq> range fr1" unfolding solved(6) picked_rows_ids by auto
  have stale1: "stale_shifts db1 (so_weekStart dto) scope (wd_locIds w) = ss"
  proof -
    have "stale_shifts db1 (so_weekStart dto) scope (wd_locIds w) = filter (replaceable db1 dto scope) (t_shifts db1)"
      unfolding stale_shifts_def replaceable_def wk solved(2) by (rule filter_cong) (auto split: option.splits)
    also have "\<dots> = ss" unfolding shifts1 repl using scoped by (auto simp: filter_empty_conv)
    finally show ?thesis .
  qed
  have kept_stay: "delete_rows (\<lambda>s. sh_id s \<in> set (map sh_id ss)) (t_shifts db1) = ?kept"
  proof -
    have "sh_id s \<notin> set (map sh_id ss)" if s: "s \<in> set (t_shifts db)" for s
    proof
      assume "sh_id s \<in> set (map sh_id ss)"
      with ss_ids obtain k where "fr1 k = sh_id s" by (metis imageE subsetD)
      with fresh [rule_format, of k] s show False by simp
    qed
    then have "filter (\<lambda>s. sh_id s \<notin> set (map sh_id ss)) ?kept = ?kept" by (intro filter_True) simp
    then show ?thesis unfolding delete_rows_def shifts1 filter_append by (simp add: filter_empty_conv)
  qed
  note first = solved
  have "sr_status result = OPTIMAL" using optimal solved(7) by (simp add: solve_answer_def)
  then have again: "solve2 (pack_week (so_weekStart dto) w) = Inr result" using reproducible solved(3) by blast
  from run2 show ?thesis
  proof (cases rule: solve_outcomes)
    case (infeasible scope2 result2 audit2)
    with sc wk first(2,4) again show ?thesis by simp
  next
    case (solved scope2 result2 audit2 w2 ids2 ss2)
    from solved(1) sc have eq: "scope2 = scope" by simp
    have w2: "w2 = w" unfolding solved(2) eq wk first(2) ..
    from solved(3) again w2 have res: "result2 = result" by simp
    have ss2: "ss2 = picked_rows fr2 0 ?ps" unfolding solved(6) w2 res ..
    have "t_shifts db2 = ?kept @ ss2"
      using kept_stay unfolding solved(8) solved(5) eq w2 stale1 by simp
    moreover have "map without_id ss2 = map without_id ss" unfolding ss2 first(6) without_id_picked ..
    moreover have "v2 = solve_answer result2 ss2" "v1 = solve_answer result ss" using solved(7) first(7) by simp_all
    ultimately show ?thesis using optimal unfolding shifts1 by (simp add: res solve_answer_def)
  qed simp
qed simp

text \<open>An optimizer that always gives the same answer, to run twice.\<close>

definition fixed_result :: solve_result where
  "fixed_result =
     \<lparr>sr_status = OPTIMAL, sr_assignments = [\<lparr>as_employeeId = ''e2'', as_demandId = ''d1''\<rparr>],
      sr_metrics = \<lparr>me_commuteTotal = 0, me_etatDeviation = 0, me_fairnessScore = 0, me_preferencesHonoredPct = None\<rparr>,
      sr_unmet = []\<rparr>"

lemma solve_fixed:
  "solveGrafik (\<lambda>_. Inr result) fr shown act dto =
     bnd (resolveUnitScope act (so_unitId dto)) (\<lambda>scope.
     bnd (asks (\<lambda>db. load_week db dto scope)) (\<lambda>w. solve_persist fr shown act dto scope w result))"
proof -
  have "bnd (lift_sum (Inr result)) f = f result" for f :: "solve_result \<Rightarrow> solve_grafik_result tx"
    by (rule ext) simp
  then show ?thesis by (simp add: solveGrafik_def)
qed

definition fixed_run :: "id \<Rightarrow> solve_grafik_result tx" where
  "fixed_run i = bnd (resolveUnitScope planner (so_unitId unit2_dto)) (\<lambda>scope.
     bnd (asks (\<lambda>db. load_week db unit2_dto scope)) (\<lambda>w.
     solve_persist (\<lambda>_. i) (\<lambda>_. ''1970-01-05'') planner unit2_dto scope w fixed_result))"

lemma is_Inr: "(case fst x of Inl _ \<Rightarrow> False | Inr _ \<Rightarrow> True) \<Longrightarrow> \<exists>v. x = (Inr v, snd x)"
  by (cases x) (auto split: sum.splits)

theorem resolve_same_schedule_witness:
  "map sh_id (t_shifts (snd (fixed_run ''n1'' grafik_db))) = [''s1'', ''s2'', ''n1''] \<and>
   map without_id (t_shifts (snd (fixed_run ''n2'' (snd (fixed_run ''n1'' grafik_db))))) =
     map without_id (t_shifts (snd (fixed_run ''n1'' grafik_db)))"
proof -
  have fixed: "solveGrafik (\<lambda>_. Inr fixed_result) (\<lambda>_. i) (\<lambda>_. ''1970-01-05'') planner unit2_dto = fixed_run i" for i
    unfolding solve_fixed fixed_run_def ..
  have "\<exists>v. fixed_run ''n1'' grafik_db = (Inr v, snd (fixed_run ''n1'' grafik_db))"
    by (rule is_Inr) code_simp
  then obtain v1 where r1: "fixed_run ''n1'' grafik_db = (Inr v1, snd (fixed_run ''n1'' grafik_db))" by blast
  have "\<exists>v. fixed_run ''n2'' (snd (fixed_run ''n1'' grafik_db)) =
      (Inr v, snd (fixed_run ''n2'' (snd (fixed_run ''n1'' grafik_db))))"
    by (rule is_Inr) code_simp
  then obtain v2 where r2: "fixed_run ''n2'' (snd (fixed_run ''n1'' grafik_db)) =
      (Inr v2, snd (fixed_run ''n2'' (snd (fixed_run ''n1'' grafik_db))))" by blast
  have "case fst (fixed_run ''n1'' grafik_db) of Inl _ \<Rightarrow> False | Inr v \<Rightarrow> sg_status v = OPTIMAL" by code_simp
  then have optimal: "sg_status v1 = OPTIMAL" by (subst (asm) r1) simp
  have fresh: "\<forall>k :: nat. ''n1'' \<notin> sh_id ` set (t_shifts grafik_db)"
    by (simp add: grafik_db_def sample_db_def sample_shift_def)
  have "map sh_id (t_shifts (snd (fixed_run ''n1'' grafik_db))) = [''s1'', ''s2'', ''n1'']" by code_simp
  with resolve_same_schedule [OF grafik_db_ok(1) fresh _ r1 [folded fixed] optimal r2 [folded fixed]]
  show ?thesis by (simp add: fixed)
qed

end
