(* ===== verification/GrafikLimits.thy ===== *)
theory GrafikLimits
  imports GrafikEffects
begin

text \<open>
  Where solving a week stops working: shifts that an AI proposal has ever mentioned, and shifts at the
  locations that a request leaves out.
\<close>

text \<open>
  A week cannot be solved again once an AI proposal, however old and whatever became of it, is about
  one of the shifts that the run would replace: whatever feasible answer the optimizer gives, the run
  fails with a foreign-key error of the data layer and nothing is changed.
\<close>

theorem solve_blocked_by_proposal:
  assumes scope: "resolveUnitScope act (so_unitId dto) db = (Inr scope, db)"
    and answer: "solve (pack_week (so_weekStart dto) (load_week db dto scope)) = Inr result" "sr_status result \<noteq> INFEASIBLE"
    and s: "s \<in> set (t_shifts db)" "replaceable db dto scope s"
    and p: "p \<in> set (t_proposals db)" "ap_shiftId p = sh_id s"
  shows "solveGrafik solve fr shown act dto db = (Inl (P2003 ''shifts''), db)"
proof -
  let ?w = "load_week db dto scope"
  let ?ids = "map sh_id (stale_shifts db (so_weekStart dto) scope (wd_locIds ?w))"
  have "sh_id s \<in> set ?ids" using s by (simp add: stale_set)
  with p have "?ids \<noteq> [] \<and> list_ex (\<lambda>p. ap_shiftId p \<in> set ?ids) (t_proposals db)"
    unfolding list_ex_iff by (metis empty_iff list.set(1))
  then have "clear_stale ?ids db = (Inl (P2003 ''shifts''), put_swaps (delete_rows (swap_refers ?ids) (t_swaps db)) db)"
    unfolding clear_stale_run by (rule if_P)
  then have "replace_auto fr (so_weekStart dto) scope ?w (sr_assignments result) db = (Inl (P2003 ''shifts''), db)"
    by (simp add: replace_auto_def transaction_def bnd_def)
  note refused = bnd_eq_Inl [where m = "replace_auto fr (so_weekStart dto) scope ?w (sr_assignments result)", OF this]
  show ?thesis
    by (simp add: solveGrafik_def bnd_eq_Inr [where m = "resolveUnitScope act (so_unitId dto)", OF scope] answer
        solve_persist_def refused)
qed

text \<open>A rejected proposal about a machine-made shift of \<open>e2\<close> on Wednesday.\<close>

definition blocked_db :: tenant_db where
  "blocked_db = grafik_db
     \<lparr>t_shifts := t_shifts grafik_db @ [auto_shift ''n0'' ''e2'' (sample_demand ''d1'' ''l1'' 6)],
      t_proposals := [\<lparr>ap_id = ''p1'', ap_type = REPLACEMENT, ap_state = AI_REJECTED, ap_shiftId = ''n0'',
        ap_vacatedEmployeeId = ''e2'', ap_activeCandidateId = None, ap_owningUnitId = Some ''u2'', ap_reason = None,
        ap_estimatedCost = None, ap_decidedByManagerId = None, ap_expiresAt = None\<rparr>]\<rparr>"

theorem solve_blocked_by_proposal_witness:
  "solveGrafik (\<lambda>_. Inr fixed_result) (\<lambda>_. ''n1'') (\<lambda>_. ''1970-01-05'') planner unit2_dto blocked_db =
     (Inl (P2003 ''shifts''), blocked_db)"
proof (rule solve_blocked_by_proposal)
  have "fst (resolveUnitScope planner (so_unitId unit2_dto) blocked_db) = Inr (Some [''u2''])" by code_simp
  then show "resolveUnitScope planner (so_unitId unit2_dto) blocked_db = (Inr (Some [''u2'']), blocked_db)"
    using resolveUnitScope_read_only by (metis prod.collapse read_only_def)
  show "sr_status fixed_result \<noteq> INFEASIBLE" by (simp add: fixed_result_def)
  have "list_ex (\<lambda>s. sh_id s = ''n0'') (stale_shifts blocked_db (so_weekStart unit2_dto) (Some [''u2''])
      (wd_locIds (load_week blocked_db unit2_dto (Some [''u2'']))))" by code_simp
  then have "auto_shift ''n0'' ''e2'' (sample_demand ''d1'' ''l1'' 6) \<in> {s \<in> set (t_shifts blocked_db). replaceable blocked_db unit2_dto (Some [''u2'']) s}"
    unfolding list_ex_iff stale_set by (auto simp: blocked_db_def grafik_db_def sample_db_def sample_shift_def)
  then show "auto_shift ''n0'' ''e2'' (sample_demand ''d1'' ''l1'' 6) \<in> set (t_shifts blocked_db)"
    "replaceable blocked_db unit2_dto (Some [''u2'']) (auto_shift ''n0'' ''e2'' (sample_demand ''d1'' ''l1'' 6))" by simp_all
  show "hd (t_proposals blocked_db) \<in> set (t_proposals blocked_db)"
    "ap_shiftId (hd (t_proposals blocked_db)) = sh_id (auto_shift ''n0'' ''e2'' (sample_demand ''d1'' ''l1'' 6))"
    by (simp_all add: blocked_db_def)
qed simp

section \<open>A request for some locations only\<close>

definition two_sites_db :: tenant_db where
  "two_sites_db = grafik_db
     \<lparr>t_lokalizacje := t_lokalizacje grafik_db @ [\<lparr>lo_id = ''l2'', lo_name = ''B'', lo_typ = ''T'', lo_lat = None, lo_lng = None\<rparr>],
      t_demands := [sample_demand ''d2'' ''l2'' 5]\<rparr>"

definition site2_dto :: solve_dto where
  "site2_dto = week_dto (Some ''u2'') (Some [''l2''])"

definition site2_week :: week_data where
  "site2_week =
     \<lparr>wd_demands = [sample_demand ''d2'' ''l2'' 5], wd_employees = [sample_employee ''e2'' (Some ''a2'') ''u2''],
      wd_leaves = [], wd_manual = [], wd_locIds = [''l2''],
      wd_locations = [\<lparr>lo_id = ''l2'', lo_name = ''B'', lo_typ = ''T'', lo_lat = None, lo_lng = None\<rparr>]\<rparr>"

lemma site2_solved:
  "full_solve (pack_week (4 * day_ms) site2_week) = Inr (full_result (pack_week (4 * day_ms) site2_week) OPTIMAL)"
proof -
  have travel: "travel_matrix (wd_employees site2_week) (wd_locations site2_week) = []"
    by (rule travel_matrix_none) (simp add: site2_week_def sample_employee_def)
  have "full_ok (pack_week (4 * day_ms) site2_week)" unfolding pack_week_def travel by code_simp
  then show ?thesis by (simp add: full_solve_def)
qed

text \<open>
  A run that is asked for some locations only does not see what the employees do at the others: with an
  optimizer that keeps every constraint of the problem it is given, an employee who is placed by hand at
  one location gets a shift in the same hours at the requested one.
\<close>

theorem location_scope_double_books:
  "sound_optimizer full_solve \<and>
   (\<exists>v db' s1 s2. solveGrafik full_solve (\<lambda>_. ''n1'') (\<lambda>_. ''1970-01-05'') planner site2_dto two_sites_db = (Inr v, db') \<and>
     {s1, s2} \<subseteq> set (t_shifts db') \<and> sh_id s1 \<noteq> sh_id s2 \<and> sh_employeeId s1 = sh_employeeId s2 \<and>
     sh_source s1 = MANUAL \<and> s2 \<in> set (sg_shifts v) \<and>
     sh_date s1 = sh_date s2 \<and> sh_start s1 = sh_start s2 \<and> sh_end s1 = sh_end s2)"
proof
  let ?new = "auto_shift ''n1'' ''e2'' (sample_demand ''d2'' ''l2'' 5)"
  have "fst (resolveUnitScope planner (so_unitId site2_dto) two_sites_db) = Inr (Some [''u2''])" by code_simp
  then have scope: "resolveUnitScope planner (so_unitId site2_dto) two_sites_db = (Inr (Some [''u2'']), two_sites_db)"
    using resolveUnitScope_read_only by (metis prod.collapse read_only_def)
  have week: "load_week two_sites_db site2_dto (Some [''u2'']) = site2_week" by code_simp
  have start: "so_weekStart site2_dto = 4 * day_ms" by (simp add: site2_dto_def week_dto_def)
  have res: "sr_assignments (full_result (pack_week (4 * day_ms) site2_week) OPTIMAL) = [\<lparr>as_employeeId = ''e2'', as_demandId = ''d2''\<rparr>]"
    "sr_status (full_result (pack_week (4 * day_ms) site2_week) OPTIMAL) = OPTIMAL"
    by (simp_all add: full_result_def pack_week_def site2_week_def pack_employee_def pack_demand_def
        sample_demand_def sample_employee_def)
  have "fst (replace_auto (\<lambda>k. ''n1'') (4 * day_ms) (Some [''u2'']) site2_week
      [\<lparr>as_employeeId = ''e2'', as_demandId = ''d2''\<rparr>] two_sites_db) = Inr [?new]" by code_simp
  then obtain db1 where repl: "replace_auto (\<lambda>k. ''n1'') (4 * day_ms) (Some [''u2'']) site2_week
      [\<lparr>as_employeeId = ''e2'', as_demandId = ''d2''\<rparr>] two_sites_db = (Inr [?new], db1)"
    by (metis prod.collapse)
  have rows: "t_shifts db1 = [sample_shift ''s1'' ''e1'' 4, sample_shift ''s2'' ''e2'' 5, ?new]"
  proof -
    have "t_shifts (snd (replace_auto (\<lambda>k. ''n1'') (4 * day_ms) (Some [''u2'']) site2_week
      [\<lparr>as_employeeId = ''e2'', as_demandId = ''d2''\<rparr>] two_sites_db)) = [sample_shift ''s1'' ''e1'' 4, sample_shift ''s2'' ''e2'' 5, ?new]"
      by code_simp
    with repl show ?thesis by simp
  qed
  obtain v db' where run: "solveGrafik full_solve (\<lambda>_. ''n1'') (\<lambda>_. ''1970-01-05'') planner site2_dto two_sites_db = (Inr v, db')"
    and v: "sg_shifts v = [?new]" "t_shifts db' = t_shifts db1"
    by (simp add: solveGrafik_def bnd_eq_Inr [where m = "resolveUnitScope planner (so_unitId site2_dto)", OF scope]
        week start site2_solved solve_persist_def res
        bnd_eq_Inr [where m = "replace_auto (\<lambda>_. ''n1'') (4 * day_ms) (Some [''u2'']) site2_week
          [\<lparr>as_employeeId = ''e2'', as_demandId = ''d2''\<rparr>]", OF repl]
        bnd_eq_Inr [where m = "grafik_audit x y z i pl" for x y z i pl, OF grafik_audit_run] solve_answer_def)
  have "{sample_shift ''s2'' ''e2'' 5, ?new} \<subseteq> set (t_shifts db')" unfolding v rows by simp
  moreover have "?new \<in> set (sg_shifts v)" unfolding v by simp
  ultimately show "\<exists>v db' s1 s2. solveGrafik full_solve (\<lambda>_. ''n1'') (\<lambda>_. ''1970-01-05'') planner site2_dto two_sites_db = (Inr v, db') \<and>
     {s1, s2} \<subseteq> set (t_shifts db') \<and> sh_id s1 \<noteq> sh_id s2 \<and> sh_employeeId s1 = sh_employeeId s2 \<and>
     sh_source s1 = MANUAL \<and> s2 \<in> set (sg_shifts v) \<and>
     sh_date s1 = sh_date s2 \<and> sh_start s1 = sh_start s2 \<and> sh_end s1 = sh_end s2"
    using run by (intro exI [of _ v] exI [of _ db'] exI [of _ "sample_shift ''s2'' ''e2'' 5"] exI [of _ ?new])
      (simp add: sample_shift_def sample_demand_def)
qed (rule full_solve_sound)

end
