(* ===== verification/GrafikAuth.thy ===== *)
theory GrafikAuth
  imports GrafikEffects
begin

text \<open>
  Who may change the schedule: every request of the schedule API, for callers who are not global.
\<close>

section \<open>The two checks\<close>

lemma wp_assertManagesEmployee [svc_wp]:
  "wp (assertManagesEmployee act e) Q E db \<longleftrightarrow>
     (case findEmployee db e of
        None \<Rightarrow> E (NotFoundException (''Employee '' @ e @ '' not found'')) db
      | Some emp \<Rightarrow>
          if isGlobal (act_roles act) \<or> em_unitId emp \<in> set (managedUnitIds db (act_userId act)) then Q () db
          else E (ForbiddenException ''MANAGER may only act on their own unit'') db)"
  by (auto simp: assertManagesEmployee_def employeeUnitId_def assertManagesUnit_def svc_wp split: option.splits)

lemma wp_grafik_loadShift [svc_wp]:
  "wp (grafik_loadShift i) Q E db \<longleftrightarrow>
     (case find_row sh_id i (t_shifts db) of
        None \<Rightarrow> E (NotFoundException (''Shift '' @ i @ '' not found'')) db | Some s \<Rightarrow> Q s db)"
  by (simp add: grafik_loadShift_def svc_wp split: option.splits)

lemma wp_grafik_audit [svc_wp]:
  "wp (grafik_audit act a t i pl) Q E db \<longleftrightarrow>
     Q () (db\<lparr>t_audit := t_audit db @ [\<lparr>au_actorUserId = act_userId act, au_action = a, au_entityType = t,
       au_entityId = i, au_payload = JObj pl, au_ipAddress = act_ipAddress act\<rparr>]\<rparr>)"
  by (simp add: grafik_audit_def audit_log_def svc_wp)

lemma wp_answer [svc_wp]: "wp (answer f m) Q E db \<longleftrightarrow> wp m (\<lambda>x. Q (f x)) E db"
proof -
  have "(\<lambda>x. wp (ret (f x)) Q E) = (\<lambda>x. Q (f x))" by (intro ext) (simp add: wp_ret)
  then show ?thesis by (simp add: answer_def wp_bnd)
qed

lemma guarded_body:
  assumes "guarded roles act m db = (r, db')" and "roles \<noteq> []"
  shows "db' = db \<or> m db = (r, db') \<and> (\<exists>q \<in> set roles. role_name q \<in> set (act_roles act))"
  using assms by (auto simp: guarded_def canActivate_def list_ex_iff split: if_splits)

section \<open>What the operations do to the shifts\<close>

definition in_my_units :: "tenant_db \<Rightarrow> actor \<Rightarrow> shift_row \<Rightarrow> bool" where
  "in_my_units db act s \<longleftrightarrow>
     (\<exists>e. findEmployee db (sh_employeeId s) = Some e \<and> em_unitId e \<in> set (managedUnitIds db (act_userId act)))"

text \<open>Every shift that came or went belongs to an employee of the caller's units.\<close>

definition scoped_change :: "tenant_db \<Rightarrow> actor \<Rightarrow> tenant_db \<Rightarrow> bool" where
  "scoped_change db act db' \<longleftrightarrow>
     (\<forall>s. (s \<in> set (t_shifts db)) \<noteq> (s \<in> set (t_shifts db')) \<longrightarrow> in_my_units db act s)"

lemma scoped_change_same: "t_shifts db' = t_shifts db \<Longrightarrow> scoped_change db act db'"
  by (simp add: scoped_change_def)

lemma createShift_scoped:
  assumes "\<not> isGlobal (act_roles act)"
  shows "wp (createShift i act dto) (\<lambda>_. scoped_change db act) (\<lambda>_. scoped_change db act) db"
  using assms
  by (auto simp: createShift_def insert_shift_def svc_wp scoped_change_def in_my_units_def shift_data_def split: option.splits)

lemma same_shift:
  assumes "wf_keys db" and "find_row sh_id i (t_shifts db) = Some s" and "t \<in> set (t_shifts db)" and "sh_id t = i"
  shows "t = s"
  using find_row_in [OF wf_keysD(1) [OF assms(1)] assms(3)] assms(2,4) by simp

lemma update_rows_changed:
  assumes "(x \<in> set rs) \<noteq> (x \<in> set (update_rows P f rs))"
  shows "\<exists>r \<in> set rs. P r \<and> (x = r \<or> x = f r)"
  using assms by (auto simp: set_update_rows image_iff split: if_splits)

lemma updateShift_scoped:
  assumes keys: "wf_keys db" and loc: "\<not> isGlobal (act_roles act)" and ids: "findEmployee db [] = None"
  shows "wp (updateShift act i dto) (\<lambda>_. scoped_change db act) (\<lambda>_. scoped_change db act) db"
proof (cases "find_row sh_id i (t_shifts db)")
  case None
  then show ?thesis by (simp add: updateShift_def svc_wp scoped_change_same)
next
  case (Some s)
  have wr: "scoped_change db act (put_shifts (update_rows (\<lambda>r. sh_id r = i) (shift_patch dto) (t_shifts db)) db\<lparr>t_audit := a\<rparr>)"
    if "in_my_units db act s" "in_my_units db act (shift_patch dto s)" for a
    unfolding scoped_change_def
  proof (intro allI impI)
    fix x
    assume "(x \<in> set (t_shifts db)) \<noteq> (x \<in> set (t_shifts (put_shifts (update_rows (\<lambda>r. sh_id r = i) (shift_patch dto)
      (t_shifts db)) db\<lparr>t_audit := a\<rparr>)))"
    then have "(x \<in> set (t_shifts db)) \<noteq> (x \<in> set (update_rows (\<lambda>r. sh_id r = i) (shift_patch dto) (t_shifts db)))" by simp
    from update_rows_changed [OF this] obtain r where "r \<in> set (t_shifts db)" "sh_id r = i" "x = r \<or> x = shift_patch dto r" by blast
    with that same_shift [OF keys Some, of r] show "in_my_units db act x" by auto
  qed
  have moved: "in_my_units db act (shift_patch dto s)"
    if "in_my_units db act s" "shift_fks db (shift_patch dto s)"
      and "\<And>e. su_employeeId dto = Some e \<Longrightarrow> e \<noteq> [] \<Longrightarrow> e \<noteq> sh_employeeId s \<Longrightarrow>
        \<exists>emp. findEmployee db e = Some emp \<and> em_unitId emp \<in> set (managedUnitIds db (act_userId act))"
  proof -
    let ?new = "shift_patch dto s"
    have emp: "sh_employeeId ?new = patch (su_employeeId dto) (sh_employeeId s)" by (simp add: shift_patch_def)
    have "findEmployee db (sh_employeeId ?new) \<noteq> None" using that(2) by (simp add: shift_fks_def)
    then have ne: "sh_employeeId ?new \<noteq> []" using ids by auto
    show ?thesis
    proof (cases "sh_employeeId ?new = sh_employeeId s")
      case True
      with that(1) show ?thesis by (simp add: in_my_units_def)
    next
      case False
      with emp have "su_employeeId dto = Some (sh_employeeId ?new)" by (auto simp: patch_def split: option.splits)
      from that(3) [OF this ne False] show ?thesis by (simp add: in_my_units_def)
    qed
  qed
  show ?thesis
  proof (cases "in_my_units db act s")
    case False
    with Some loc show ?thesis
      by (auto simp: updateShift_def svc_wp scoped_change_same in_my_units_def split: option.splits)
  next
    case True
    have rest: "wp (bnd (asks (\<lambda>db. shift_fks db (shift_patch dto s))) (\<lambda>ok.
        bnd (ensure ok (P2003 ''shifts'')) (\<lambda>_.
        bnd (update_row t_shifts put_shifts sh_id (P2025 ''Shift'') i (shift_patch dto)) (\<lambda>after.
        bnd (grafik_audit act ''shift.update'' ''Shift'' i [(''before'', shift_json s), (''after'', shift_json after)]) (\<lambda>_.
        ret after))))) (\<lambda>_. scoped_change db act) (\<lambda>_. scoped_change db act) db"
      if "shift_fks db (shift_patch dto s) \<Longrightarrow> in_my_units db act (shift_patch dto s)"
      using that wr [OF True] Some by (auto simp: svc_wp scoped_change_same)
    have allowed: "\<exists>emp. findEmployee db (sh_employeeId s) = Some emp \<and> em_unitId emp \<in> set (managedUnitIds db (act_userId act))"
      using True by (simp add: in_my_units_def)
    show ?thesis
    proof (cases "\<exists>e. su_employeeId dto = Some e \<and> e \<noteq> [] \<and> e \<noteq> sh_employeeId s \<and>
        \<not> (\<exists>emp. findEmployee db e = Some emp \<and> em_unitId emp \<in> set (managedUnitIds db (act_userId act)))")
      case True
      with Some allowed loc show ?thesis
        by (auto simp: updateShift_def svc_wp scoped_change_same split: option.splits)
    next
      case False
      with moved [OF True] have "shift_fks db (shift_patch dto s) \<Longrightarrow> in_my_units db act (shift_patch dto s)" by blast
      note rest = rest [OF this]
      show ?thesis
        unfolding updateShift_def wp_bnd wp_grafik_loadShift Some option.case
        using rest [unfolded wp_bnd] allowed False loc
        by (auto simp: wp_assertManagesEmployee wp_ret split: option.splits)
    qed
  qed
qed

lemma deleteShift_scoped:
  assumes keys: "wf_keys db" and loc: "\<not> isGlobal (act_roles act)"
  shows "wp (deleteShift act i) (\<lambda>_. scoped_change db act) (\<lambda>_. scoped_change db act) db"
proof (cases "find_row sh_id i (t_shifts db)")
  case None
  then show ?thesis by (simp add: deleteShift_def svc_wp scoped_change_same)
next
  case (Some s)
  then show ?thesis
    using loc same_shift [OF keys Some]
    by (auto simp: deleteShift_def delete_shift_rows_def svc_wp scoped_change_def in_my_units_def split: option.splits)
qed

lemma solve_scoped:
  assumes keys: "wf_keys db" and loc: "\<not> isGlobal (act_roles act)"
    and run: "solveGrafik solve fr shown act dto db = (r, db')"
  shows "scoped_change db act db'"
  using run
proof (cases rule: solve_outcomes)
  case (solved scope result audit w ids ss)
  from resolveUnitScope_manager [OF solved(1) loc] obtain units
    where units: "scope = Some units" "set units \<subseteq> set (managedUnitIds db (act_userId act))" by blast
  have mine: "in_my_units db act s" if "replaceable db dto scope s" for s
  proof -
    from that units obtain e where e: "e \<in> set (t_employees db)" "em_id e = sh_employeeId s" "em_unitId e \<in> set units"
      by (auto simp: replaceable_def shift_in_units_def employee_unit_in_def list_ex_iff)
    with find_row_in [OF wf_keysD(6) [OF keys] e(1)] units show ?thesis
      by (auto simp: in_my_units_def findEmployee_def)
  qed
  have "t_shifts db' = filter (\<lambda>s. \<not> replaceable db dto scope s) (t_shifts db) @ ss"
    using delete_stale [OF wf_keysD(1) [OF keys], of dto scope] by (simp add: solved(8,5,2))
  moreover have "replaceable db dto scope s" if "s \<in> set ss" for s
    using created_in_scope [OF solved(2), of s fr 0] that unfolding solved(6) by blast
  ultimately show ?thesis using mine by (auto simp: scoped_change_def)
qed (simp_all add: scoped_change_same)

text \<open>The requests that are open to everybody only read, and the catalog is closed to managers.\<close>

lemma reads_keep_shifts:
  assumes "grafik_roles req = READ_ROLES"
  shows "read_only (grafik_body solve shown act req)"
  using assms
  by (cases req) (auto simp: READ_ROLES_def SHIFT_WRITE_ROLES_def CATALOG_WRITE_ROLES_def answer_def listShifts_def
      getShift_def grafik_loadShift_def assertManagesEmployee_def employeeUnitId_def assertManagesUnit_def
      listLokalizacje_def listUnits_def listDemands_def getDemand_def listTemplates_def getTemplate_def
      intro!: read_only_bnd)

lemma catalog_is_global:
  "q \<in> set CATALOG_WRITE_ROLES \<Longrightarrow> role_name q \<in> set roles \<Longrightarrow> isGlobal roles"
  by (auto simp: CATALOG_WRITE_ROLES_def isGlobal_iff)

text \<open>
  C21. Nobody but a global role changes the schedule of a unit they do not manage. Whatever request of the
  schedule API such a caller makes and however it ends, every shift that appears, disappears or is changed
  belongs, before and after, to an employee of a unit they manage, and they hold the manager role.
\<close>

theorem shift_change_authority:
  assumes keys: "wf_keys db" and ids: "findEmployee db [] = None" and loc: "\<not> isGlobal (act_roles act)"
    and run: "grafik_handle solve shown act req db = (r, db')"
    and changed: "(s \<in> set (t_shifts db)) \<noteq> (s \<in> set (t_shifts db'))"
  shows "''MANAGER'' \<in> set (act_roles act) \<and>
    (\<exists>e. findEmployee db (sh_employeeId s) = Some e \<and> em_unitId e \<in> set (managedUnitIds db (act_userId act)))"
proof -
  have "grafik_roles req \<noteq> []"
    by (cases req) (simp_all add: READ_ROLES_def SHIFT_WRITE_ROLES_def CATALOG_WRITE_ROLES_def)
  from guarded_body [OF run [unfolded grafik_handle_def] this] changed
  obtain q where body: "grafik_body solve shown act req db = (r, db')"
    and q: "q \<in> set (grafik_roles req)" "role_name q \<in> set (act_roles act)" by auto
  have run_wp: "scoped_change db act db'"
    if "wp (grafik_body solve shown act req) (\<lambda>_. scoped_change db act) (\<lambda>_. scoped_change db act) db"
    using that body by (cases r) (auto simp: wp_def)
  have roles: "grafik_roles req = SHIFT_WRITE_ROLES"
  proof (rule ccontr)
    assume "grafik_roles req \<noteq> SHIFT_WRITE_ROLES"
    then consider "grafik_roles req = READ_ROLES" | "grafik_roles req = CATALOG_WRITE_ROLES" by (cases req) auto
    then show False
    proof cases
      case 1
      from read_onlyD [OF reads_keep_shifts [OF 1] body] changed show False by simp
    next
      case 2
      with q loc catalog_is_global show False by simp
    qed
  qed
  have scoped: "scoped_change db act db'"
  proof (cases req)
    case (GrSolve fr dto)
    then obtain x where "solveGrafik solve fr shown act dto db = (x, db')"
      using body by (auto simp: answer_def bnd_def split: prod.splits sum.splits)
    from solve_scoped [OF keys loc this] show ?thesis .
  next
    case (GrCreateShift i dto)
    show ?thesis by (rule run_wp) (simp add: GrCreateShift wp_answer createShift_scoped [OF loc])
  next
    case (GrUpdateShift i dto)
    show ?thesis by (rule run_wp) (simp add: GrUpdateShift wp_answer updateShift_scoped [OF keys loc ids])
  next
    case (GrDeleteShift i)
    show ?thesis by (rule run_wp) (simp add: GrDeleteShift wp_answer deleteShift_scoped [OF keys loc])
  qed (use roles in \<open>simp_all add: READ_ROLES_def SHIFT_WRITE_ROLES_def CATALOG_WRITE_ROLES_def\<close>)
  have "''MANAGER'' \<in> set (act_roles act)"
    using q loc unfolding roles by (auto simp: SHIFT_WRITE_ROLES_def isGlobal_iff)
  with scoped changed show ?thesis unfolding scoped_change_def in_my_units_def by blast
qed

definition no_swaps_db :: tenant_db where
  "no_swaps_db = grafik_db\<lparr>t_swaps := []\<rparr>"

theorem shift_change_authority_witness:
  "map sh_id (t_shifts (snd (grafik_handle full_solve (\<lambda>_. []) manager1 (GrDeleteShift ''s1'') no_swaps_db))) = [''s2''] \<and>
   (\<exists>e. findEmployee no_swaps_db ''e1'' = Some e \<and> em_unitId e \<in> set (managedUnitIds no_swaps_db (act_userId manager1)))"
proof -
  let ?run = "grafik_handle full_solve (\<lambda>_. []) manager1 (GrDeleteShift ''s1'') no_swaps_db"
  let ?s = "sample_shift ''s1'' ''e1'' 4"
  have gone: "map sh_id (t_shifts (snd ?run)) = [''s2'']"
    unfolding grafik_handle_def grafik_body.simps grafik_roles.simps by code_simp
  have pre: "wf_keys no_swaps_db" "findEmployee no_swaps_db [] = None" "\<not> isGlobal (act_roles manager1)" by code_simp+
  have "?s \<in> set (t_shifts no_swaps_db)"
    by (simp add: no_swaps_db_def grafik_db_def sample_db_def)
  moreover have "?s \<notin> set (t_shifts (snd ?run))"
  proof
    assume "?s \<in> set (t_shifts (snd ?run))"
    then have "sh_id ?s \<in> set (map sh_id (t_shifts (snd ?run)))" by (simp only: set_map imageI)
    then show False unfolding gone by (simp add: sample_shift_def)
  qed
  ultimately have "(?s \<in> set (t_shifts no_swaps_db)) \<noteq> (?s \<in> set (t_shifts (snd ?run)))" by simp
  from shift_change_authority [OF pre prod.collapse [symmetric] this] gone show ?thesis
    by (simp add: sample_shift_def)
qed

section \<open>Reading\<close>

text \<open>A worker sees their own shift in the list and is refused when they open it.\<close>

lemma own_shift_not_opened:
  "fst (listShifts worker2 grafik_db) = Inr [sample_shift ''s2'' ''e2'' 5] \<and>
   fst (getShift worker2 ''s2'' grafik_db) = Inl (ForbiddenException ''MANAGER may only act on their own unit'')"
  by code_simp

end
