(* ===== verification/Spec2Isabelle.thy ===== *)
theory Spec2Isabelle
  imports WeekTime Contract Rbac Feasibility ShiftSwap ShiftSwapProps SwapLegality SwapLife
    AiMachine AiConfig Travel Cost CostProps Replacement ReplacementProps AiProposal
    AiProposalInv AiProposalProps AiSamples AiProposalCreate AiProposalLife AiProposalRace AiProposalList
    Leave LeaveProps LeaveLife
    KeycloakAdmin Users UsersInv UsersProps UsersAdmin UsersSamples Settings SettingsProps
    Access AccessProps Encryption Employees EmployeesProps
    ClientCache TenantRoute TenantRouteProps
    ControlPlane ControlPlaneProps ProvisioningRun ProvisioningSamples
    Scoring ScoringProps PerfConfig Snapshot Recruitment BrainRun BrainSpec BrainOnce BrainProps BrainHistory BrainSamples
    Grafik GrafikSolve GrafikRun GrafikSamples GrafikLegal GrafikEffects GrafikLimits GrafikAuth
begin

text \<open>
  A verification development of HRobotAI, a multi-tenant workforce-scheduling service
  (\<open>apps/tenant-runtime\<close>, \<open>apps/control-plane\<close>, \<open>packages/shared\<close>, \<open>packages/db\<close>).

  \<^bold>\<open>The program.\<close> The control plane signs tenants up and provisions each of them with its own Postgres database and
  Keycloak realm. The tenant runtime serves the requests of a tenant on that database: the schedule with its
  constraint solver, shift swaps, AI replacement proposals, leave, costs, the roster and its personal data,
  access grants, users and roles, company settings, and a nightly scoring run, the strategic brain. Services
  meet in the tables of the tenant database (a swap, a proposal and a re-solve all move the same shifts), in
  the optimizer (the schedule, the swap validator and the replacement ranking pack problems for it), in the
  roles and units that scope a caller, and in the audit log.

  \<^bold>\<open>Conventions.\<close> A service method is a function from the database to an outcome and the database left behind
  (\<open>Prelude\<close>: \<open>svc\<close>, with \<open>transaction\<close> and \<open>catch\<close>; an exception keeps earlier writes unless a transaction
  restores them). A database is a record of tables, a table a list of rows (\<open>Domain\<close>, after the Prisma
  schemas); the calls of the data layer are \<open>updateMany\<close>, \<open>update_row\<close>, \<open>create_row\<close>, \<open>deleteMany\<close>. A controller is
  one \<open>*_handle\<close> function over a datatype of its endpoints, guards and validation included, so a property of
  \<open>*_handle\<close> is a property of every request. Ids, clocks and random values are arguments. Floating-point numbers
  and decimals are exact reals; instants are milliseconds, dates their midnights; texts have 8-bit characters,
  so Polish letters in messages are transliterated; sorting is stable, ties keep table order; an absent
  optional field is \<open>None\<close>, and an explicit \<open>null\<close> where the validation admits one is treated as absent (which only
  matters for columns that cannot be null: there the code answers with an error of the data layer). A request
  runs alone unless a property says otherwise; interleavings are modelled where the code defends against them,
  as relations of write halves that carry values read at any earlier time (\<open>SwapLife\<close>, \<open>AiProposalRace\<close>).

  \<^bold>\<open>Parameters.\<close> Code outside the repository is an argument of the definitions that call it: the optimizer
  (\<open>optimizer\<close>; its hard constraints are the hypothesis \<open>sound_optimizer\<close>, after \<open>grafik-optimizer/app/solver.py\<close>),
  the feasibility port, \<open>fetch\<close> towards Keycloak (\<open>KeycloakAdmin\<close>), the Postgres server, migration tool, seeded
  database and broker of the control plane (the record \<open>infra\<close>), cipher, digest and encodings (the record
  \<open>platform\<close>), the token library (the record \<open>jwt_lib\<close>), collation keys and hashes. What a property relies on is a
  named hypothesis, and its witness instantiates it.

  \<^bold>\<open>Theories and sources\<close> (below \<open>apps/tenant-runtime/src\<close> unless another place is given).
  \<^item> \<open>Prelude\<close>: services, their weakest preconditions and preservation rules, two runs side by side (\<open>tracks\<close>), rows
    with a key, the interfaces \<open>table\<close> (proved once: a guarded update never overwrites a row that has left the
    expected state) and \<open>transition_table\<close> (bounded life of a state machine). \<open>Domain\<close>: enums, errors, rows.
  \<^item> \<open>WeekTime\<close>: \<open>ai-grafik/week-range.util.ts\<close> and the date helpers. \<open>Contract\<close>: \<open>packages/shared/src/grafik/contract.ts\<close> and
    the hard constraints. \<open>Rbac\<close>: \<open>tenant-runtime/rbac\<close>. \<open>Feasibility\<close>: the two swap validators. \<open>Travel\<close>: \<open>cost/travel.util.ts\<close>
    and \<open>grafik/haversine.ts\<close>.
  \<^item> \<open>TenantRoute\<close>, \<open>TenantRouteProps\<close>: the pipeline of every tenant request (\<open>tenant-runtime\<close>): token check, role guard, tenant lookup
    through Redis, client of the tenant's database, handler, audit of mutations. Proved: a request touches only
    the database of the tenant whose realm issued its token, and the audit shows a body up to its secrets.
    \<open>ClientCache\<close>: the concurrent bookkeeping of \<open>packages/db/src/TenantPrismaManager.ts\<close> as a step relation; a borrowed
    client stays connected, no client leaks, and two executions where a borrow holds a disconnected client.
  \<^item> \<open>SwapMachine\<close>, \<open>ShiftSwap\<close>, \<open>ShiftSwapProps\<close>, \<open>SwapLegality\<close>, \<open>SwapLife\<close>: \<open>shift-swap\<close>. Proved: the optimistic lock, an
    approval as an exchange of two holders, legality of the weeks after it, life cycles under interleaving,
    atomicity and authority of every request.
  \<^item> \<open>AiMachine\<close> (\<open>packages/shared/src/ai-grafik.ts\<close>, \<open>leave.ts\<close>), \<open>AiConfig\<close>, \<open>Replacement\<close>, \<open>ReplacementProps\<close>, \<open>AiProposal\<close> and the
    theories \<open>AiProposal*\<close>: \<open>ai-grafik\<close>. Proved: eligibility and order of candidates, consistency of proposals with
    their candidates, consent before a shift moves, deadlines, the end of refusals, races.
  \<^item> \<open>Cost\<close>, \<open>CostProps\<close>: \<open>cost\<close>. \<open>Leave\<close>, \<open>LeaveProps\<close>, \<open>LeaveLife\<close>: \<open>leave\<close>.
  \<^item> \<open>Grafik\<close> (tables and controller), \<open>GrafikSolve\<close> (\<open>solveGrafik\<close>), \<open>GrafikRun\<close> (its outcomes), \<open>GrafikLegal\<close>, \<open>GrafikEffects\<close>,
    \<open>GrafikLimits\<close>, \<open>GrafikAuth\<close>: \<open>grafik\<close>. Proved: the persisted week is legal, the exact effect of a run, stability of
    a second run, what blocks a run, who may change shifts.
  \<^item> \<open>KeycloakAdmin\<close>, \<open>Users*\<close>: \<open>tenant-runtime/keycloak\<close> and \<open>users\<close>, with failures between the database and Keycloak.
    \<open>Settings*\<close>: \<open>ustawienia\<close>, where moving a unit walks up its ancestors.
  \<^item> \<open>Access*\<close>: \<open>dostepy\<close>. \<open>Encryption\<close>: \<open>packages/shared/src/encryption.ts\<close> and \<open>packages/db/src/employeePii.ts\<close>. \<open>Employees*\<close>: \<open>employees\<close>.
    Proved: uniqueness of cards and of PESEL numbers, scope, round trips, and secrecy as non-interference.
  \<^item> \<open>Scoring*\<close>, \<open>PerfConfig\<close>, \<open>Snapshot\<close>, \<open>Recruitment\<close>, \<open>BrainRun\<close>, \<open>BrainSpec\<close> (the run as an equation on tables), \<open>BrainOnce\<close>,
    \<open>BrainProps\<close>, \<open>BrainHistory\<close>: \<open>strategic-brain\<close>. Proved: idempotence, ranges, blindness to personal data,
    append-only recommendations, isolation of tenants in the batch.
  \<^item> \<open>ControlPlane\<close>, \<open>ControlPlaneProps\<close>, \<open>ProvisioningRun\<close>: \<open>apps/control-plane/src\<close> (\<open>tenants\<close>, \<open>outbox\<close>, \<open>provisioning\<close>). Proved: the moves
    of a job, progress to an active tenant, the stored url and its password, a tenant that a lost message strands.
  \<^item> \<open>Samples\<close>, \<open>AiSamples\<close>, \<open>GrafikSamples\<close>, \<open>UsersSamples\<close>, \<open>BrainSamples\<close>, \<open>ProvisioningSamples\<close>: concrete tenants on which the theorems are
    applied, and executions that show the defects listed with the project.

  \<^bold>\<open>Termination.\<close> No definition takes fuel. Loops over lists are structural; the redaction of error texts consumes its
  input; \<open>walk_up\<close>, the ancestor walk of the cycle guard, is a partial function whose value \<open>None\<close> stands for a loop
  that never returns, and it is proved to return on every forest.

  \<^bold>\<open>Not modelled.\<close> The user interface (\<open>apps/web\<close>, \<open>docs/design/web-kit\<close>: rendering and browser state); the search of the
  optimizer (\<open>grafik-optimizer\<close>, a third-party solver; its hard constraints are stated) and the Python agent service;
  the tools that generate data sets (\<open>agent\<close>, \<open>packages/db/scripts\<close>, \<open>packages/db/src/seed\<close>); the global-administrator login (one call of
  a hash and a token library); the older copies of the provisioning steps inside the tenant runtime,
  which the control plane replaces; module wiring, health checks, environment parsing and process start, which
  hold no logic of the program. In the services that are modelled: logging, rate limits, the e-mail and UUID
  checks of the validation library, the wording of some error messages, and the schema check of data that
  is typed in the model.
\<close>

end
